(* ===== verification/Prelude.thy ===== *)
theory Prelude
  imports Complex_Main "HOL-Library.AList" "HOL-Library.List_Lexorder" "HOL-Library.Char_ord"
    "HOL-Library.Multiset" "HOL-Library.Code_Target_Nat"
begin

section \<open>Shared vocabulary of the development\<close>

text \<open>
  The Python values the repository passes around (ledger payloads, gate arguments, event
  dictionaries), the exceptions it raises, and the generic lemmas the component theories share.

  A \<open>str\<close> is the \<open>char list\<close> of its UTF-8 bytes, so \<open>s.encode("utf-8")\<close> is the identity and
  the order of keys used by \<open>sort_keys\<close> (code-point order, which UTF-8 preserves) is the
  lexicographic order on \<open>string\<close>. An aware \<open>datetime\<close> is its instant in microseconds since the
  Unix epoch; a naive one keeps the same number with no zone. A \<open>float\<close> is the rational number
  it denotes. A dictionary is the association list of its items in insertion order.
\<close>

named_theorems py_simps \<open>Equations that evaluate Python value operations\<close>

subsection \<open>Python values\<close>

datatype pytime = Aware int | Naive int

datatype pyval =
    PNone
  | PBool bool
  | PInt int
  | PFloat rat
  | PStr string
  | PUuid string
  | PTime pytime
  | PBytes string
  | PList "pyval list"
  | PTuple "pyval list"
  | PDict "(string \<times> pyval) list"
  | PObj string

type_synonym pydict = "(string \<times> pyval) list"
type_synonym uuid = string
type_synonym bytes = string

datatype exc =
    ValueError
  | TypeError
  | KeyError
  | AttributeError
  | AssertionError
  | VerifyFailed
  | IntegrityError
  | RateLimitedError
  | RateLimitTimeoutError
  | OtherError string

text \<open>\<open>bool(v)\<close>.\<close>

fun truthy :: "pyval \<Rightarrow> bool" where
  "truthy PNone = False"
| "truthy (PBool b) = b"
| "truthy (PInt i) = (i \<noteq> 0)"
| "truthy (PFloat r) = (r \<noteq> 0)"
| "truthy (PStr s) = (s \<noteq> [])"
| "truthy (PUuid u) = True"
| "truthy (PTime t) = True"
| "truthy (PBytes b) = (b \<noteq> [])"
| "truthy (PList xs) = (xs \<noteq> [])"
| "truthy (PTuple xs) = (xs \<noteq> [])"
| "truthy (PDict d) = (d \<noteq> [])"
| "truthy (PObj n) = True"

text \<open>\<open>a or b\<close>.\<close>

definition py_or :: "pyval \<Rightarrow> pyval \<Rightarrow> pyval" where
  "py_or a b = (if truthy a then a else b)"

text \<open>\<open>d.get(k)\<close> on a dictionary, and on any value (\<open>AttributeError\<close> where it is none).\<close>

definition dget :: "pydict \<Rightarrow> string \<Rightarrow> pyval" where
  "dget d k = (case map_of d k of None \<Rightarrow> PNone | Some v \<Rightarrow> v)"

definition dget_or :: "pydict \<Rightarrow> string \<Rightarrow> pyval \<Rightarrow> pyval" where
  "dget_or d k v = (case map_of d k of None \<Rightarrow> v | Some w \<Rightarrow> w)"

fun vget :: "pyval \<Rightarrow> string \<Rightarrow> exc + pyval" where
  "vget (PDict d) k = Inr (dget d k)"
| "vget _ k = Inl AttributeError"

text \<open>\<open>d[k]\<close>: \<open>KeyError\<close> where the key is absent, \<open>TypeError\<close> on a value with no such items.\<close>

fun vitem :: "pyval \<Rightarrow> string \<Rightarrow> exc + pyval" where
  "vitem (PDict d) k = (case map_of d k of None \<Rightarrow> Inl KeyError | Some v \<Rightarrow> Inr v)"
| "vitem _ k = Inl TypeError"

text \<open>\<open>d.get(k, v)\<close>.\<close>

definition vget_or :: "pyval \<Rightarrow> string \<Rightarrow> pyval \<Rightarrow> exc + pyval" where
  "vget_or v k dflt = (case v of PDict d \<Rightarrow> Inr (dget_or d k dflt) | _ \<Rightarrow> Inl AttributeError)"

text \<open>\<open>{**d, **e}\<close>: a repeated key keeps its position and takes the later value.\<close>

definition dict_merge :: "pydict \<Rightarrow> pydict \<Rightarrow> pydict" where
  "dict_merge d e = fold (\<lambda>(k, v). AList.update k v) e d"

definition opt_str :: "string option \<Rightarrow> pyval" where
  "opt_str x = (case x of None \<Rightarrow> PNone | Some s \<Rightarrow> PStr s)"

lemma dget_simps [simp, py_simps]:
  "dget [] k = PNone"
  "dget ((k', v) # d) k = (if k = k' then v else dget d k)"
  by (simp_all add: dget_def)

lemma dget_None: "k \<notin> fst ` set d \<Longrightarrow> dget d k = PNone"
  by (induction d) auto

lemma map_of_dict_merge: "map_of (dict_merge d e) k = (case map_of (rev e) k of None \<Rightarrow> map_of d k | Some v \<Rightarrow> Some v)"
proof (induction e arbitrary: d)
  case Nil
  then show ?case by (simp add: dict_merge_def)
next
  case (Cons p e)
  obtain k' v' where p: "p = (k', v')" by (cases p)
  have "map_of (dict_merge d (p # e)) k = map_of (dict_merge (AList.update k' v' d) e) k"
    by (simp add: dict_merge_def p)
  also have "\<dots> = (case map_of (rev e) k of None \<Rightarrow> map_of (AList.update k' v' d) k | Some v \<Rightarrow> Some v)"
    by (rule Cons.IH)
  finally show ?case
    by (auto simp: p update_conv' map_add_def split: option.splits)
qed

lemma map_of_rev_distinct: "distinct (map fst e) \<Longrightarrow> map_of (rev e) = map_of e"
proof (induction e)
  case (Cons p e)
  then have "map_of e (fst p) = None"
    by (simp add: map_of_eq_None_iff)
  with Cons show ?case
    by (auto simp: map_add_def fun_eq_iff split: option.splits)
qed simp

lemma map_of_dict_merge_distinct:
  "distinct (map fst e) \<Longrightarrow>
     map_of (dict_merge d e) k = (case map_of e k of None \<Rightarrow> map_of d k | Some v \<Rightarrow> Some v)"
  by (simp add: map_of_dict_merge map_of_rev_distinct)

lemma dget_dict_merge:
  "distinct (map fst e) \<Longrightarrow>
     dget (dict_merge d e) k = (if k \<in> fst ` set e then dget e k else dget d k)"
proof (cases "map_of e k")
  case None
  then have "k \<notin> fst ` set e"
    by (simp add: map_of_eq_None_iff)
  with None show "distinct (map fst e) \<Longrightarrow> ?thesis"
    by (simp add: dget_def map_of_dict_merge_distinct)
next
  case (Some v)
  then have "k \<in> fst ` set e"
    by (force dest: map_of_SomeD)
  with Some show "distinct (map fst e) \<Longrightarrow> ?thesis"
    by (simp add: dget_def map_of_dict_merge_distinct)
qed

subsection \<open>Results and stateful actions\<close>

text \<open>
  A call that may raise returns \<open>exc + 'a\<close>; a call that may also change a store returns the
  outcome and the store it leaves behind (a Python exception does not undo mutations).
\<close>

type_synonym ('s, 'a) act = "'s \<Rightarrow> (exc + 'a) \<times> 's"

fun rbind :: "exc + 'a \<Rightarrow> ('a \<Rightarrow> exc + 'b) \<Rightarrow> exc + 'b" where
  "rbind (Inl e) f = Inl e"
| "rbind (Inr x) f = f x"

definition sret :: "'a \<Rightarrow> ('s, 'a) act" where
  "sret x s = (Inr x, s)"

definition sthrow :: "exc \<Rightarrow> ('s, 'a) act" where
  "sthrow e s = (Inl e, s)"

definition sbind :: "('s, 'a) act \<Rightarrow> ('a \<Rightarrow> ('s, 'b) act) \<Rightarrow> ('s, 'b) act" where
  "sbind m f s = (case m s of (Inl e, s') \<Rightarrow> (Inl e, s') | (Inr x, s') \<Rightarrow> f x s')"

lemma rbind_Inr_iff: "rbind m f = Inr y \<longleftrightarrow> (\<exists>x. m = Inr x \<and> f x = Inr y)"
  by (cases m) auto

lemma rbind_cong [fundef_cong]:
  "m = m' \<Longrightarrow> (\<And>x. m' = Inr x \<Longrightarrow> f x = f' x) \<Longrightarrow> rbind m f = rbind m' f'"
  by (cases m') auto

lemma sbind_Inr_iff:
  "sbind m f s = (Inr y, t) \<longleftrightarrow> (\<exists>x s'. m s = (Inr x, s') \<and> f x s' = (Inr y, t))"
  by (auto simp: sbind_def split: prod.splits sum.splits)

lemma sbind_simps [simp]:
  "m s = (Inl e, s') \<Longrightarrow> sbind m f s = (Inl e, s')"
  "m s = (Inr x, s') \<Longrightarrow> sbind m f s = f x s'"
  by (simp_all add: sbind_def)

lemma sbind_lift:
  "sbind (\<lambda>s. (Inr x, s)) f s = f x s"
  "sbind (\<lambda>s. (Inl e, s)) f s = (Inl e, s)"
  by (simp_all add: sbind_def)

lemma sbind_sretE:
  assumes "sbind m (\<lambda>_. sret b) s = (out, s')"
  obtains out1 where "m s = (out1, s')" "out = (case out1 of Inl x \<Rightarrow> Inl x | Inr _ \<Rightarrow> Inr b)"
proof (cases "m s")
  case (Pair out1 s1)
  with assms show thesis
    by (cases out1) (auto simp: sbind_def sret_def intro!: that)
qed

lemma sret_apply [simp]: "sret x s = (Inr x, s)"
  by (simp add: sret_def)

lemma sthrow_apply [simp]: "sthrow e s = (Inl e, s)"
  by (simp add: sthrow_def)

lemma sbind_cases:
  assumes "\<And>e s'. m s = (Inl e, s') \<Longrightarrow> Q (Inl e, s')" and "\<And>x s'. m s = (Inr x, s') \<Longrightarrow> Q (f x s')"
  shows "Q (sbind m f s)"
  using assms by (auto simp: sbind_def split: prod.splits sum.splits)

text \<open>A frame rule: a relation every action of a sequence keeps, the sequence keeps.\<close>

lemma sbind_rel:
  assumes "R s (snd (m s))" and "\<And>x s'. m s = (Inr x, s') \<Longrightarrow> R s' (snd (f x s'))"
    and "\<And>a b c. R a b \<Longrightarrow> R b c \<Longrightarrow> R a c"
  shows "R s (snd (sbind m f s))"
  using assms by (cases "m s") (auto simp: sbind_def split: sum.splits)

subsection \<open>Decimal numerals\<close>

definition digits :: string where
  "digits = ''0123456789''"

fun dec_nat :: "nat \<Rightarrow> string" where
  "dec_nat n = (if n < 10 then [digits ! n] else dec_nat (n div 10) @ [digits ! (n mod 10)])"

declare dec_nat.simps [simp del]

definition dec_int :: "int \<Rightarrow> string" where
  "dec_int i = (if i < 0 then CHR ''-'' # dec_nat (nat (- i)) else dec_nat (nat i))"

text \<open>Reading a numeral back; leading zeros (\<open>"%02d"\<close>) do not change what is read.\<close>

definition digit_val :: "char \<Rightarrow> nat" where
  "digit_val c = of_char c - 48"

definition dec_val :: "string \<Rightarrow> nat" where
  "dec_val s = foldl (\<lambda>a c. 10 * a + digit_val c) 0 s"

definition zpad :: "nat \<Rightarrow> nat \<Rightarrow> string" where
  "zpad w n = replicate (w - length (dec_nat n)) CHR ''0'' @ dec_nat n"

lemma less_10_cases: "i < 10 \<Longrightarrow> i \<in> {0, 1, 2, 3, 4, 5, 6, 7, 8, 9 :: nat}"
  by auto

lemma digit_val_digits [simp]: "i < 10 \<Longrightarrow> digit_val (digits ! i) = i"
  by (drule less_10_cases) (auto simp: digits_def digit_val_def)

lemma digits_nth_in: "i < 10 \<Longrightarrow> digits ! i \<in> set digits"
  by (rule nth_mem) (simp add: digits_def)

lemma dec_nat_nonempty [simp]: "dec_nat n \<noteq> []"
  by (subst dec_nat.simps) simp

lemma set_dec_nat: "set (dec_nat n) \<subseteq> set digits"
proof (induction n rule: dec_nat.induct)
  case (1 n)
  then show ?case
    by (subst dec_nat.simps) (auto simp: digits_nth_in)
qed

lemma set_zpad: "set (zpad w n) \<subseteq> set digits"
  using set_dec_nat [of n] by (auto simp: zpad_def digits_def)

lemma dec_val_dec_nat [simp]: "dec_val (dec_nat n) = n"
proof (induction n rule: dec_nat.induct)
  case (1 n)
  then show ?case
    by (subst dec_nat.simps) (auto simp: dec_val_def)
qed

lemma dec_val_zpad [simp]: "dec_val (zpad w n) = n"
proof -
  have "dec_val (replicate k CHR ''0'' @ s) = dec_val s" for k s
    by (induction k) (auto simp: dec_val_def digit_val_def)
  then show ?thesis by (simp add: zpad_def)
qed

lemma dec_nat_inj: "dec_nat m = dec_nat n \<longleftrightarrow> m = n"
  by (metis dec_val_dec_nat)

lemma zpad_inj: "zpad w m = zpad w n \<longleftrightarrow> m = n"
  by (metis dec_val_zpad)

lemma length_dec_nat: "n < 10 ^ Suc k \<Longrightarrow> length (dec_nat n) \<le> Suc k"
proof (induction k arbitrary: n)
  case 0
  then show ?case by (subst dec_nat.simps) simp
next
  case (Suc k)
  then have "n div 10 < 10 ^ Suc k" by simp
  then have "length (dec_nat (n div 10)) \<le> Suc k" by (rule Suc.IH)
  then show ?case by (subst dec_nat.simps) simp
qed

lemma dec_nat_no_minus: "dec_nat n \<noteq> CHR ''-'' # s"
  using set_dec_nat [of n] by (auto simp: digits_def)

lemma dec_int_inj: "dec_int i = dec_int j \<longleftrightarrow> i = j"
  by (auto simp: dec_int_def dec_nat_inj dec_nat_no_minus dec_nat_no_minus [symmetric]
      split: if_splits)

subsection \<open>Strings\<close>

definition starts_with :: "string \<Rightarrow> string \<Rightarrow> bool" where
  "starts_with s p = (take (length p) s = p)"

definition ends_with :: "string \<Rightarrow> string \<Rightarrow> bool" where
  "ends_with s p = (length p \<le> length s \<and> drop (length s - length p) s = p)"

text \<open>\<open>p in s\<close>.\<close>

fun contains :: "string \<Rightarrow> string \<Rightarrow> bool" where
  "contains [] p = (p = [])"
| "contains (c # s) p = (starts_with (c # s) p \<or> contains s p)"

lemma starts_with_append [simp]: "starts_with (p @ s) p"
  by (simp add: starts_with_def)

lemma starts_with_iff: "starts_with s p \<longleftrightarrow> (\<exists>t. s = p @ t)"
  by (auto simp: starts_with_def) (metis append_take_drop_id)

lemma ends_with_iff: "ends_with s p \<longleftrightarrow> (\<exists>t. s = t @ p)"
  by (auto simp: ends_with_def) (metis append_take_drop_id)

lemma contains_iff: "contains s p \<longleftrightarrow> (\<exists>a b. s = a @ p @ b)"
proof (induction s)
  case Nil
  then show ?case by simp
next
  case (Cons c s)
  have "(\<exists>a b. c # s = a @ p @ b) \<longleftrightarrow> (\<exists>b. c # s = p @ b) \<or> (\<exists>a b. s = a @ p @ b)"
    by (metis append_Cons append_Nil append_eq_Cons_conv)
  with Cons.IH show ?case
    by (simp add: starts_with_iff)
qed

text \<open>A separator that does not occur before it splits a string in one way only.\<close>

lemma split_at_sep:
  "a @ c # s = b @ c # t \<Longrightarrow> c \<notin> set a \<Longrightarrow> c \<notin> set b \<Longrightarrow> a = b \<and> s = t"
proof (induction a arbitrary: b)
  case Nil
  then show ?case by (cases b) auto
next
  case (Cons x a)
  then show ?case by (cases b) auto
qed

text \<open>\<open>repr\<close> of a string and of a list of strings.\<close>

definition repr_char :: "char \<Rightarrow> char \<Rightarrow> string" where
  "repr_char q c =
     (if c = q \<or> c = CHR 0x5C then [CHR 0x5C, c]
      else if c = CHR 0x0A then [CHR 0x5C, CHR ''n'']
      else if c = CHR 0x0D then [CHR 0x5C, CHR ''r'']
      else if c = CHR 0x09 then [CHR 0x5C, CHR ''t'']
      else if (of_char c :: int) < 32 \<or> (of_char c :: int) = 127
      then [CHR 0x5C, CHR ''x'', ''0123456789abcdef'' ! (of_char c div 16), ''0123456789abcdef'' ! (of_char c mod 16)]
      else [c])"

definition repr_str :: "string \<Rightarrow> string" where
  "repr_str s =
     (let q = (if CHR 0x27 \<in> set s \<and> CHR 0x22 \<notin> set s then CHR 0x22 else CHR 0x27)
      in q # concat (map (repr_char q) s) @ [q])"

fun join :: "string \<Rightarrow> string list \<Rightarrow> string" where
  "join sep [] = ''''"
| "join sep [s] = s"
| "join sep (s # t # ss) = s @ sep @ join sep (t # ss)"

definition repr_strs :: "string list \<Rightarrow> string" where
  "repr_strs ss = ''['' @ join '', '' (map repr_str ss) @ '']''"

subsection \<open>The environment\<close>

text \<open>
  What the code takes from outside the repository as a function: the SHA-256 of a byte string
  (\<open>hashlib\<close>), \<open>repr\<close> of a float, \<open>str\<close> of a value that is neither a string, a number nor a
  UUID, \<open>str.lower\<close>, and the stream of identifiers \<open>uuid4\<close> draws (the \<open>n\<close>-th draw).
\<close>

record env =
  sha256 :: "bytes \<Rightarrow> bytes"
  float_repr :: "rat \<Rightarrow> string"
  obj_str :: "pyval \<Rightarrow> string"
  str_lower :: "string \<Rightarrow> string"
  uuid4 :: "nat \<Rightarrow> uuid"

text \<open>\<open>str(v)\<close>.\<close>

fun py_str :: "env \<Rightarrow> pyval \<Rightarrow> string" where
  "py_str E PNone = ''None''"
| "py_str E (PBool b) = (if b then ''True'' else ''False'')"
| "py_str E (PInt i) = dec_int i"
| "py_str E (PFloat r) = float_repr E r"
| "py_str E (PStr s) = s"
| "py_str E (PUuid u) = u"
| "py_str E v = obj_str E v"

subsection \<open>Lists\<close>

lemma length_filter_mono: "(\<And>x. x \<in> set xs \<Longrightarrow> P x \<Longrightarrow> Q x) \<Longrightarrow> length (filter P xs) \<le> length (filter Q xs)"
  by (induction xs) (auto intro: le_SucI)

lemma sorted_wrt_filter_mono: "sorted_wrt R xs \<Longrightarrow> sorted_wrt R (filter P xs)"
  by (rule sorted_wrt_filter)

lemma map_of_sort_key: "distinct (map fst xs) \<Longrightarrow> map_of (sort_key fst xs) = map_of xs"
proof (rule map_of_eqI)
  assume d: "distinct (map fst xs)"
  have "mset (map fst (sort_key fst xs)) = mset (map fst xs)"
    by (simp add: mset_map)
  then show "set (map fst (sort_key fst xs)) = set (map fst xs)"
    by (metis set_mset_mset)
  have "distinct (map fst (sort_key fst xs))"
    using d \<open>mset (map fst (sort_key fst xs)) = mset (map fst xs)\<close> by (metis mset_eq_imp_distinct_iff)
  then show "\<forall>k\<in>set (map fst (sort_key fst xs)). map_of (sort_key fst xs) k = map_of xs k"
    using d by (metis map_of_eq_Some_iff set_sort option.exhaust map_of_eq_None_iff set_map)
qed

subsection \<open>Numbers from text\<close>

text \<open>\<open>int(raw)\<close> of an ASCII string: blanks around, a sign, digits with single underscores between.\<close>

definition blank :: "char \<Rightarrow> bool" where
  "blank c = (of_char c \<in> {9, 10, 11, 12, 13, 32 :: nat})"

definition dec_digit :: "char \<Rightarrow> bool" where
  "dec_digit c = (c \<in> set ''0123456789'')"

fun int_tail :: "int \<Rightarrow> string \<Rightarrow> int option" where
  "int_tail acc [] = Some acc"
| "int_tail acc (c # cs) =
     (if dec_digit c then int_tail (10 * acc + (of_char c - 48)) cs
      else if c = CHR ''_'' then
        (case cs of [] \<Rightarrow> None
         | d # ds \<Rightarrow> if dec_digit d then int_tail (10 * acc + (of_char d - 48)) ds else None)
      else None)"

definition int_digits :: "string \<Rightarrow> int option" where
  "int_digits cs = (case cs of [] \<Rightarrow> None | c # _ \<Rightarrow> if dec_digit c then int_tail 0 cs else None)"

definition py_strip :: "string \<Rightarrow> string" where
  "py_strip cs = rev (dropWhile blank (rev (dropWhile blank cs)))"

definition py_int :: "string \<Rightarrow> int option" where
  "py_int raw =
     (case py_strip raw of
        [] \<Rightarrow> None
      | c # cs \<Rightarrow> if c = CHR ''-'' then map_option uminus (int_digits cs)
          else if c = CHR ''+'' then int_digits cs else int_digits (c # cs))"

text \<open>\<open>int(x)\<close> of a float drops the fraction.\<close>

definition trunc :: "rat \<Rightarrow> int" where
  "trunc r = (if r < 0 then \<lceil>r\<rceil> else \<lfloor>r\<rfloor>)"

text \<open>\<open>int(v)\<close>; \<open>None\<close> where it raises \<open>TypeError\<close> or \<open>ValueError\<close>.\<close>

fun py_int_of :: "pyval \<Rightarrow> int option" where
  "py_int_of (PInt i) = Some i"
| "py_int_of (PBool b) = Some (of_bool b)"
| "py_int_of (PFloat r) = Some (trunc r)"
| "py_int_of (PStr s) = py_int s"
| "py_int_of (PBytes s) = py_int s"
| "py_int_of _ = None"

text \<open>\<open>float(v)\<close>; what \<open>float\<close> reads from text is a parameter.\<close>

fun py_float :: "(string \<Rightarrow> rat option) \<Rightarrow> pyval \<Rightarrow> exc + rat" where
  "py_float str_to_float (PFloat r) = Inr r"
| "py_float str_to_float (PInt i) = Inr (of_int i)"
| "py_float str_to_float (PBool b) = Inr (if b then 1 else 0)"
| "py_float str_to_float (PStr s) = (case str_to_float s of None \<Rightarrow> Inl ValueError | Some r \<Rightarrow> Inr r)"
| "py_float str_to_float _ = Inl TypeError"

text \<open>\<open>round(x)\<close>: to the nearest integer, halves to the even one.\<close>

definition round_half_even :: "rat \<Rightarrow> int" where
  "round_half_even r =
     (let f = \<lfloor>r\<rfloor>; d = r - of_int f
      in if d < 1 / 2 then f else if d > 1 / 2 then f + 1 else if even f then f else f + 1)"

text \<open>\<open>v.endswith(p)\<close>.\<close>

fun py_endswith :: "pyval \<Rightarrow> string \<Rightarrow> exc + bool" where
  "py_endswith (PStr s) p = Inr (ends_with s p)"
| "py_endswith (PBytes s) p = Inl TypeError"
| "py_endswith _ p = Inl AttributeError"

subsection \<open>Equality, hashing and iteration of values\<close>

text \<open>
  \<open>v == w\<close>: booleans, integers and floats compare as numbers, dictionaries as mappings, a list
  never equals a tuple.
\<close>

fun py_num :: "pyval \<Rightarrow> rat option" where
  "py_num (PBool b) = Some (of_bool b)"
| "py_num (PInt i) = Some (of_int i)"
| "py_num (PFloat r) = Some r"
| "py_num _ = None"

fun py_eq :: "pyval \<Rightarrow> pyval \<Rightarrow> bool"
  and py_eqs :: "pyval list \<Rightarrow> pyval list \<Rightarrow> bool"
  and py_eq_items :: "pydict \<Rightarrow> pydict \<Rightarrow> bool" where
  "py_eq (PList xs) w = (case w of PList ys \<Rightarrow> py_eqs xs ys | _ \<Rightarrow> False)"
| "py_eq (PTuple xs) w = (case w of PTuple ys \<Rightarrow> py_eqs xs ys | _ \<Rightarrow> False)"
| "py_eq (PDict d) w = (case w of PDict e \<Rightarrow> length d = length e \<and> py_eq_items d e | _ \<Rightarrow> False)"
| "py_eq (PBool b) w = (py_num w = Some (of_bool b))"
| "py_eq (PInt i) w = (py_num w = Some (of_int i))"
| "py_eq (PFloat r) w = (py_num w = Some r)"
| "py_eq v w = (v = w)"
| "py_eqs [] ys = (ys = [])"
| "py_eqs (x # xs) ys = (case ys of [] \<Rightarrow> False | y # zs \<Rightarrow> py_eq x y \<and> py_eqs xs zs)"
| "py_eq_items [] e = True"
| "py_eq_items ((k, v) # d) e = ((case map_of e k of None \<Rightarrow> False | Some w \<Rightarrow> py_eq v w) \<and> py_eq_items d e)"

fun hashable :: "pyval \<Rightarrow> bool" where
  "hashable (PList xs) = False"
| "hashable (PDict d) = False"
| "hashable (PTuple xs) = (\<forall>x\<in>set xs. hashable x)"
| "hashable _ = True"

lemma py_eq_str [simp]: "py_eq v (PStr s) \<longleftrightarrow> v = PStr s"
  by (cases v) auto

lemma py_eq_None [simp]: "py_eq v PNone \<longleftrightarrow> v = PNone"
  by (cases v) auto

text \<open>The characters of a string: a byte \<open>10xxxxxx\<close> continues the character before it.\<close>

definition continues_char :: "char \<Rightarrow> bool" where
  "continues_char c = ((of_char c :: nat) div 64 = 2)"

function utf8_chars :: "string \<Rightarrow> string list" where
  "utf8_chars [] = []"
| "utf8_chars (c # cs) = (c # takeWhile continues_char cs) # utf8_chars (dropWhile continues_char cs)"
  by pat_completeness auto

termination
  by (relation "measure length") (auto simp: le_imp_less_Suc length_dropWhile_le)

text \<open>\<open>tuple(v)\<close>.\<close>

fun py_iter :: "pyval \<Rightarrow> exc + pyval list" where
  "py_iter (PList xs) = Inr xs"
| "py_iter (PTuple xs) = Inr xs"
| "py_iter (PDict d) = Inr (map (\<lambda>p. PStr (fst p)) d)"
| "py_iter (PStr s) = Inr (map PStr (utf8_chars s))"
| "py_iter (PBytes b) = Inr (map (\<lambda>c. PInt (of_char c)) b)"
| "py_iter _ = Inl TypeError"

text \<open>\<open>[f(x) for x in xs]\<close>, stopping at the first exception.\<close>

fun rmap :: "('a \<Rightarrow> exc + 'b) \<Rightarrow> 'a list \<Rightarrow> exc + 'b list" where
  "rmap f [] = Inr []"
| "rmap f (x # xs) = rbind (f x) (\<lambda>y. rbind (rmap f xs) (\<lambda>ys. Inr (y # ys)))"

lemma rmap_map: "(\<And>x. x \<in> set xs \<Longrightarrow> f x = Inr (g x)) \<Longrightarrow> rmap f xs = Inr (map g xs)"
  by (induction xs) auto

text \<open>\<open>s.split(c)\<close>.\<close>

fun split_on :: "char \<Rightarrow> string \<Rightarrow> string list" where
  "split_on c [] = [[]]"
| "split_on c (d # ds) =
     (if d = c then [] # split_on c ds
      else case split_on c ds of [] \<Rightarrow> [[d]] | s # ss \<Rightarrow> (d # s) # ss)"

text \<open>\<open>dict(v)\<close>: a mapping, or pairs; keys other than strings are not modelled.\<close>

fun dict_pair :: "pyval \<Rightarrow> exc + string \<times> pyval" where
  "dict_pair (PList xs) = (case xs of [PStr k, v] \<Rightarrow> Inr (k, v) | _ \<Rightarrow> Inl ValueError)"
| "dict_pair (PTuple xs) = (case xs of [PStr k, v] \<Rightarrow> Inr (k, v) | _ \<Rightarrow> Inl ValueError)"
| "dict_pair (PStr s) = (case utf8_chars s of [k, v] \<Rightarrow> Inr (k, PStr v) | _ \<Rightarrow> Inl ValueError)"
| "dict_pair _ = Inl TypeError"

fun py_dict :: "pyval \<Rightarrow> exc + pydict" where
  "py_dict (PDict d) = Inr d"
| "py_dict v = rbind (py_iter v) (\<lambda>xs. rbind (rmap dict_pair xs) (\<lambda>ps. Inr (dict_merge [] ps)))"

end
