(* ===== verification/Canonical_Json.thy ===== *)
theory Canonical_Json
  imports Prelude
begin

section \<open>Canonical JSON (\<open>hash_chain.py\<close>)\<close>

text \<open>
  \<open>_default\<close> and \<open>canonical_json\<close> of \<open>packages/ledger/src/wormbase_ledger/hash_chain.py\<close>:
  the value \<open>json.dumps\<close> encodes (keys sorted, UUIDs, datetimes and bytes turned into strings)
  and the text it prints. The text determines the encoded value: printing is injective, so two
  ledger entries with the same text agree in every field.
\<close>

subsection \<open>Timestamps\<close>

text \<open>
  The calendar fields of an aware \<open>datetime\<close> in UTC, from its instant in microseconds since
  1970-01-01 (ordinal day 719163).
\<close>

definition is_leap :: "int \<Rightarrow> bool" where
  "is_leap y = (y mod 4 = 0 \<and> (y mod 100 \<noteq> 0 \<or> y mod 400 = 0))"

definition month_lengths :: "bool \<Rightarrow> int list" where
  "month_lengths leap = [31, if leap then 29 else 28, 31, 30, 31, 30, 31, 31, 30, 31, 30, 31]"

fun find_month :: "int list \<Rightarrow> int \<Rightarrow> int \<Rightarrow> int \<times> int" where
  "find_month [] m r = (m, r)"
| "find_month (l # ls) m r = (if r < l \<or> ls = [] then (m, r) else find_month ls (m + 1) (r - l))"

definition year_of_days :: "int \<Rightarrow> int \<times> int" where
  "year_of_days n =
     (let a = n div 146097; r = n mod 146097;
          b = min 3 (r div 36524); r2 = r - b * 36524;
          c = r2 div 1461; r3 = r2 mod 1461;
          e = min 3 (r3 div 365)
      in (400 * a + 100 * b + 4 * c + e + 1, r3 - e * 365))"

definition ord2ymd :: "int \<Rightarrow> int \<times> int \<times> int" where
  "ord2ymd n =
     (let (y, r) = year_of_days (n - 1); (m, d) = find_month (month_lengths (is_leap y)) 1 r
      in (y, m, d + 1))"

definition rstrip_zeros :: "string \<Rightarrow> string" where
  "rstrip_zeros s = rev (dropWhile (\<lambda>c. c = CHR ''0'') (rev s))"

definition canonical_ts :: "int \<Rightarrow> string" where
  "canonical_ts t =
     (let us = t mod 1000000; secs = t div 1000000; mins = secs div 60; hours = mins div 60;
          (y, m, d) = ord2ymd (hours div 24 + 719163);
          base = dec_nat (nat y) @ ''-'' @ zpad 2 (nat m) @ ''-'' @ zpad 2 (nat d) @ ''T''
            @ zpad 2 (nat (hours mod 24)) @ '':'' @ zpad 2 (nat (mins mod 60)) @ '':''
            @ zpad 2 (nat (secs mod 60));
          frac = (if us = 0 then '''' else ''.'' @ rstrip_zeros (zpad 6 (nat us)))
      in base @ frac @ ''Z'')"

text \<open>The years \<open>datetime\<close> supports.\<close>

text \<open>\<open>isoformat()\<close> of the same instant in UTC.\<close>

definition isoformat :: "int \<Rightarrow> string" where
  "isoformat t =
     (let us = t mod 1000000; secs = t div 1000000; mins = secs div 60; hours = mins div 60;
          (y, m, d) = ord2ymd (hours div 24 + 719163)
      in zpad 4 (nat y) @ ''-'' @ zpad 2 (nat m) @ ''-'' @ zpad 2 (nat d) @ ''T''
         @ zpad 2 (nat (hours mod 24)) @ '':'' @ zpad 2 (nat (mins mod 60)) @ '':'' @ zpad 2 (nat (secs mod 60))
         @ (if us = 0 then '''' else ''.'' @ zpad 6 (nat us)) @ ''+00:00'')"

definition valid_ts :: "int \<Rightarrow> bool" where
  "valid_ts t = (- 62135596800000000 \<le> t \<and> t < 253402300800000000)"

lemma find_month_inv:
  "find_month ls m r = (m', d) \<Longrightarrow> m \<le> m' \<and> r = d + sum_list (take (nat (m' - m)) ls)"
proof (induction ls m r rule: find_month.induct)
  case (2 l ls m r)
  show ?case
  proof (cases "r < l \<or> ls = []")
    case True
    with "2.prems" show ?thesis by auto
  next
    case False
    with 2 have "m + 1 \<le> m'" "r - l = d + sum_list (take (nat (m' - (m + 1))) ls)"
      by auto
    moreover from this have "nat (m' - m) = Suc (nat (m' - (m + 1)))"
      by simp
    ultimately show ?thesis by simp
  qed
qed auto

lemma find_month_pos: "find_month ls m r = (m', d) \<Longrightarrow> 0 \<le> r \<Longrightarrow> m \<le> m' \<and> 0 \<le> d"
proof (induction ls m r rule: find_month.induct)
  case (2 l ls m r)
  then show ?case
    by (cases "r < l \<or> ls = []") auto
qed auto

lemma capped_div:
  fixes x k :: int
  assumes "0 < k" and "0 \<le> x" and "q = min 3 (x div k)"
  shows "0 \<le> q \<and> q \<le> 3 \<and> 0 \<le> x - q * k \<and> (x - q * k < k \<or> x - q * k = x - 3 * k)"
proof (cases "x div k \<le> 3")
  case True
  with assms have "q = x div k" by simp
  moreover have "0 \<le> x div k" using assms by (simp add: pos_imp_zdiv_nonneg_iff)
  moreover have "x - x div k * k = x mod k" by (simp add: minus_div_mult_eq_mod)
  ultimately show ?thesis using True assms(1) by simp
next
  case False
  with assms have "q = 3" by simp
  moreover have "3 * k \<le> x div k * k" using False assms(1) by (intro mult_right_mono) auto
  moreover have "x div k * k \<le> x" using assms by (simp add: minus_mod_eq_div_mult [symmetric])
  ultimately show ?thesis by simp
qed

lemma year_of_days_eq:
  assumes "year_of_days n = (y, r)"
  obtains a b c e where "y - 1 = 400 * a + 100 * b + 4 * c + e"
    and "0 \<le> b" "b \<le> 3" "0 \<le> c" "c \<le> 24" "0 \<le> e" "e \<le> 3" "0 \<le> r" "r \<le> 365"
    and "n = 146097 * a + 36524 * b + 1461 * c + 365 * e + r"
proof -
  define r1 b r2 c r3 e where "r1 = n mod 146097" "b = min 3 (r1 div 36524)" "r2 = r1 - b * 36524"
    "c = r2 div 1461" "r3 = r2 mod 1461" "e = min 3 (r3 div 365)"
  note defs = this
  have "0 \<le> r1" "r1 < 146097" by (simp_all add: defs)
  then have b: "0 \<le> b" "b \<le> 3" and r2: "0 \<le> r2" "r2 \<le> 36524"
    using capped_div [of 36524 r1 b] by (auto simp: defs(2,3))
  from r2 have c: "0 \<le> c" "c \<le> 24" by (auto simp: defs(4))
  have "0 \<le> r3" "r3 < 1461" by (simp_all add: defs(5))
  then have e: "0 \<le> e" "e \<le> 3" and "0 \<le> r3 - e * 365" "r3 - e * 365 \<le> 365"
    using capped_div [of 365 r3 e] by (auto simp: defs(6))
  moreover have yr: "(400 * (n div 146097) + 100 * b + 4 * c + e + 1, r3 - e * 365) = (y, r)"
    using assms unfolding year_of_days_def Let_def defs .
  then have "y - 1 = 400 * (n div 146097) + 100 * b + 4 * c + e" and r: "r = r3 - e * 365"
    by simp_all
  moreover have "n = 146097 * (n div 146097) + r1" by (simp add: defs(1))
  then have "n = 146097 * (n div 146097) + 36524 * b + 1461 * c + 365 * e + r"
    using defs(3) r by (simp add: defs(4,5))
  ultimately show thesis using b c that by blast
qed

lemma year_of_days_inj:
  assumes "year_of_days n = (y, r)" and "year_of_days n' = (y, r)"
  shows "n = n'"
proof -
  from assms(1) obtain a b c e where 1: "y - 1 = 400 * a + 100 * b + 4 * c + e"
    "0 \<le> b" "b \<le> 3" "0 \<le> c" "c \<le> 24" "0 \<le> e" "e \<le> 3"
    "n = 146097 * a + 36524 * b + 1461 * c + 365 * e + r" by (rule year_of_days_eq)
  from assms(2) obtain a' b' c' e' where 2: "y - 1 = 400 * a' + 100 * b' + 4 * c' + e'"
    "0 \<le> b'" "b' \<le> 3" "0 \<le> c'" "c' \<le> 24" "0 \<le> e'" "e' \<le> 3"
    "n' = 146097 * a' + 36524 * b' + 1461 * c' + 365 * e' + r" by (rule year_of_days_eq)
  have "a = a'" using 1 2 by linarith
  moreover from this have "b = b'" using 1 2 by linarith
  moreover from \<open>a = a'\<close> \<open>b = b'\<close> have "c = c'" using 1 2 by linarith
  ultimately show ?thesis using 1 2 by simp
qed

lemma year_of_days_rest_nonneg: "year_of_days n = (y, r) \<Longrightarrow> 0 \<le> r"
  by (erule year_of_days_eq)

lemma ord2ymd_inj: "ord2ymd n = ord2ymd n' \<longleftrightarrow> n = n'"
proof
  assume eq: "ord2ymd n = ord2ymd n'"
  obtain y r where yr: "year_of_days (n - 1) = (y, r)" by fastforce
  obtain y' r' where yr': "year_of_days (n' - 1) = (y', r')" by fastforce
  obtain m d where md: "find_month (month_lengths (is_leap y)) 1 r = (m, d)" by fastforce
  from eq yr yr' md have "y = y'" and md': "find_month (month_lengths (is_leap y)) 1 r' = (m, d)"
    by (auto simp: ord2ymd_def split: prod.splits)
  from find_month_inv [OF md] find_month_inv [OF md'] have "r = r'" by simp
  with yr yr' \<open>y = y'\<close> have "n - 1 = n' - 1" by (metis year_of_days_inj)
  then show "n = n'" by simp
qed simp

lemma ord2ymd_pos:
  assumes "ord2ymd n = (y, m, d)"
  shows "1 \<le> m \<and> 1 \<le> d"
proof -
  obtain y' r where yr: "year_of_days (n - 1) = (y', r)" by fastforce
  then have "0 \<le> r" by (rule year_of_days_rest_nonneg)
  moreover obtain m' d' where md: "find_month (month_lengths (is_leap y')) 1 r = (m', d')" by fastforce
  ultimately have "1 \<le> m' \<and> 0 \<le> d'" using find_month_pos by blast
  moreover have "m = m'" "d = d' + 1" using assms yr md by (simp_all add: ord2ymd_def)
  ultimately show ?thesis by simp
qed

lemma ord2ymd_year_pos:
  assumes "1 \<le> n" and "ord2ymd n = (y, m, d)"
  shows "1 \<le> y"
proof -
  obtain y' r where yr: "year_of_days (n - 1) = (y', r)" by fastforce
  with assms(2) have "y = y'" by (auto simp: ord2ymd_def split: prod.splits)
  from yr obtain a b c e where "y' - 1 = 400 * a + 100 * b + 4 * c + e"
    and "0 \<le> b" "0 \<le> c" "0 \<le> e"
    and "n - 1 = 146097 * a + 36524 * b + 1461 * c + 365 * e + r"
    and "b \<le> 3" "c \<le> 24" "e \<le> 3" "r \<le> 365"
    by (rule year_of_days_eq) blast
  moreover from this assms(1) have "0 \<le> a" by linarith
  ultimately show ?thesis using \<open>y = y'\<close> by simp
qed

text \<open>The fraction: trailing zeros of a six-digit string can be put back.\<close>

lemma rstrip_zeros_inv: "\<exists>k. s = rstrip_zeros s @ replicate k CHR ''0''"
proof -
  define z where "z = takeWhile (\<lambda>c. c = CHR ''0'') (rev s)"
  have "z = replicate (length z) CHR ''0''"
    unfolding z_def by (intro replicate_eqI) (auto dest: set_takeWhileD)
  moreover have "rev s = z @ dropWhile (\<lambda>c. c = CHR ''0'') (rev s)"
    by (simp add: z_def)
  then have "s = rstrip_zeros s @ rev z"
    by (metis rev_append rev_rev_ident rstrip_zeros_def)
  ultimately show ?thesis by (metis rev_replicate)
qed

lemma rstrip_zeros_inj:
  "length s = length t \<Longrightarrow> rstrip_zeros s = rstrip_zeros t \<Longrightarrow> s = t"
  using rstrip_zeros_inv [of s] rstrip_zeros_inv [of t]
  by (metis add_left_cancel length_append length_replicate)

lemma length_zpad_6: "n < 1000000 \<Longrightarrow> length (zpad 6 n) = 6"
  using length_dec_nat [of n 5] by (simp add: zpad_def)

lemma zpad_no_sep: "c \<notin> set digits \<Longrightarrow> c \<notin> set (zpad w n)"
  using set_zpad by blast

lemma dec_nat_no_sep: "c \<notin> set digits \<Longrightarrow> c \<notin> set (dec_nat n)"
  using set_dec_nat by blast

definition ts_frac :: "int \<Rightarrow> string" where
  "ts_frac us = (if us = 0 then '''' else ''.'' @ rstrip_zeros (zpad 6 (nat us)))"

lemma ts_frac_inj:
  assumes "zpad 2 a @ ts_frac us @ ''Z'' = zpad 2 b @ ts_frac us' @ ''Z''"
    and "a < 60" "b < 60" "0 \<le> us" "us < 1000000" "0 \<le> us'" "us' < 1000000"
  shows "a = b \<and> us = us'"
proof -
  have len: "length (zpad 2 k) = 2" if "k < 60" for k
    using that length_dec_nat [of k 1] by (simp add: zpad_def)
  have "length (zpad 2 a) = length (zpad 2 b)"
    using assms(2,3) by (simp add: len)
  with assms(1) have ab: "zpad 2 a = zpad 2 b" and "ts_frac us @ ''Z'' = ts_frac us' @ ''Z''"
    using append_eq_append_conv [of "zpad 2 a" "zpad 2 b"] by simp_all
  then have frac: "ts_frac us = ts_frac us'" by blast
  have "us = us'"
  proof (cases "us = 0 \<or> us' = 0")
    case True
    with frac show ?thesis by (auto simp: ts_frac_def split: if_splits)
  next
    case False
    with frac have "rstrip_zeros (zpad 6 (nat us)) = rstrip_zeros (zpad 6 (nat us'))"
      by (simp add: ts_frac_def)
    moreover have "nat us < 1000000" "nat us' < 1000000"
      using assms(4-7) by linarith+
    then have "length (zpad 6 (nat us)) = length (zpad 6 (nat us'))"
      by (simp only: length_zpad_6)
    ultimately have "zpad 6 (nat us) = zpad 6 (nat us')"
      by (rule rstrip_zeros_inj [rotated])
    then have "nat us = nat us'" by (simp only: zpad_inj)
    with assms(4,6) show ?thesis by linarith
  qed
  with ab show ?thesis by (simp add: zpad_inj)
qed

lemma int_eq_div_mod: "(a :: int) div k = b div k \<Longrightarrow> a mod k = b mod k \<Longrightarrow> a = b"
  by (metis div_mult_mod_eq)

lemma canonical_ts_inj:
  assumes eq: "canonical_ts t = canonical_ts t'" and valid: "valid_ts t" "valid_ts t'"
  shows "t = t'"
proof -
  define us secs mins hours where "us t = t mod 1000000" "secs t = t div 1000000"
    "mins t = t div 1000000 div 60" "hours t = t div 1000000 div 60 div 60" for t :: int
  note defs = this
  define date where "date t = ord2ymd (hours t div 24 + 719163)" for t
  define clock where "clock t = zpad 2 (nat (secs t mod 60)) @ ts_frac (us t) @ ''Z''" for t
  define hm where "hm t = zpad 2 (nat (hours t mod 24)) @ CHR '':'' # zpad 2 (nat (mins t mod 60))
    @ CHR '':'' # clock t" for t
  have form: "canonical_ts t = (case date t of (y, m, d) \<Rightarrow>
      dec_nat (nat y) @ CHR ''-'' # zpad 2 (nat m) @ CHR ''-'' # zpad 2 (nat d) @ CHR ''T'' # hm t)" for t
    by (simp add: canonical_ts_def Let_def date_def hm_def clock_def ts_frac_def defs split: prod.split)
  have sep: "CHR ''-'' \<notin> set digits" "CHR ''T'' \<notin> set digits" "CHR '':'' \<notin> set digits"
    by (simp_all add: digits_def)
  note no = sep [THEN zpad_no_sep] sep [THEN dec_nat_no_sep]
  obtain y m d y' m' d' where ymd: "date t = (y, m, d)" "date t' = (y', m', d')"
    by (metis prod_cases3)
  note eq1 = eq [unfolded form ymd prod.case]
  from split_at_sep [OF eq1] no have y: "nat y = nat y'" by (simp add: dec_nat_inj)
  from split_at_sep [OF eq1] no have eq2: "zpad 2 (nat m) @ CHR ''-'' # zpad 2 (nat d) @ CHR ''T'' # hm t
      = zpad 2 (nat m') @ CHR ''-'' # zpad 2 (nat d') @ CHR ''T'' # hm t'" by blast
  from split_at_sep [OF eq2] no have m: "nat m = nat m'" by (simp add: zpad_inj)
  from split_at_sep [OF eq2] no have eq3: "zpad 2 (nat d) @ CHR ''T'' # hm t = zpad 2 (nat d') @ CHR ''T'' # hm t'"
    by blast
  from split_at_sep [OF eq3] no have d: "nat d = nat d'" by (simp add: zpad_inj)
  from split_at_sep [OF eq3] no have eq4: "hm t = hm t'" by blast
  from split_at_sep [OF eq4 [unfolded hm_def]] no
  have h: "nat (hours t mod 24) = nat (hours t' mod 24)" by (simp add: zpad_inj)
  from split_at_sep [OF eq4 [unfolded hm_def]] no
  have eq5: "zpad 2 (nat (mins t mod 60)) @ CHR '':'' # clock t = zpad 2 (nat (mins t' mod 60)) @ CHR '':'' # clock t'"
    by blast
  from split_at_sep [OF eq5] no have mi: "nat (mins t mod 60) = nat (mins t' mod 60)" by (simp add: zpad_inj)
  from split_at_sep [OF eq5] no have "clock t = clock t'" by blast
  from ts_frac_inj [OF this [unfolded clock_def]]
  have s: "secs t mod 60 = secs t' mod 60" and u: "us t = us t'"
    by (simp_all add: defs nat_less_iff eq_nat_nat_iff)
  have pos: "1 \<le> hours t div 24 + 719163" if "valid_ts t" for t
    using that unfolding valid_ts_def defs by linarith
  have "1 \<le> y" "1 \<le> y'" "1 \<le> m" "1 \<le> m'" "1 \<le> d" "1 \<le> d'"
    using ord2ymd_year_pos [OF pos] ord2ymd_pos ymd valid unfolding date_def by metis+
  with y m d have "y = y'" "m = m'" "d = d'" by linarith+
  then have "date t = date t'" by (simp add: ymd)
  then have "hours t div 24 = hours t' div 24" by (simp add: date_def ord2ymd_inj)
  moreover from h have "hours t mod 24 = hours t' mod 24" by (simp add: eq_nat_nat_iff)
  ultimately have "hours t = hours t'" by (rule int_eq_div_mod)
  then have "mins t div 60 = mins t' div 60" by (simp add: defs)
  moreover from mi have "mins t mod 60 = mins t' mod 60" by (simp add: eq_nat_nat_iff)
  ultimately have "mins t = mins t'" by (rule int_eq_div_mod)
  then have "secs t div 60 = secs t' div 60" by (simp add: defs)
  from this s have "secs t = secs t'" by (rule int_eq_div_mod)
  with u show ?thesis unfolding defs by (rule int_eq_div_mod [rotated])
qed

subsection \<open>The encoded value\<close>

text \<open>
  What \<open>json.dumps(view, sort_keys=True, default=_default)\<close> encodes: \<open>_default\<close> is called for
  the values JSON has no form for, a naive datetime and any other object raise. Keys are sorted
  at every level. A number is kept as the text of its literal.
\<close>

datatype json =
    JNull
  | JBool bool
  | JNum string
  | JStr string
  | JArr "json list"
  | JObj "(string \<times> json) list"

definition hex_digit :: "nat \<Rightarrow> char" where
  "hex_digit n = ''0123456789abcdef'' ! n"

definition hex_byte :: "char \<Rightarrow> string" where
  "hex_byte c = [hex_digit (of_char c div 16), hex_digit (of_char c mod 16)]"

definition bytes_hex :: "bytes \<Rightarrow> string" where
  "bytes_hex b = concat (map hex_byte b)"

fun json_default :: "pyval \<Rightarrow> exc + json" where
  "json_default (PUuid u) = Inr (JStr u)"
| "json_default (PTime (Naive t)) = Inl ValueError"
| "json_default (PTime (Aware t)) = Inr (JStr (canonical_ts t))"
| "json_default (PBytes b) = Inr (JStr (bytes_hex b))"
| "json_default _ = Inl TypeError"

fun json_encode :: "env \<Rightarrow> pyval \<Rightarrow> exc + json"
  and json_encode_list :: "env \<Rightarrow> pyval list \<Rightarrow> exc + json list"
  and json_encode_items :: "env \<Rightarrow> (string \<times> pyval) list \<Rightarrow> exc + (string \<times> json) list" where
  "json_encode E PNone = Inr JNull"
| "json_encode E (PBool b) = Inr (JBool b)"
| "json_encode E (PInt i) = Inr (JNum (dec_int i))"
| "json_encode E (PFloat r) = Inr (JNum (float_repr E r))"
| "json_encode E (PStr s) = Inr (JStr s)"
| "json_encode E (PList xs) = rbind (json_encode_list E xs) (\<lambda>js. Inr (JArr js))"
| "json_encode E (PTuple xs) = rbind (json_encode_list E xs) (\<lambda>js. Inr (JArr js))"
| "json_encode E (PDict d) = rbind (json_encode_items E d) (\<lambda>js. Inr (JObj (sort_key fst js)))"
| "json_encode E v = json_default v"
| "json_encode_list E [] = Inr []"
| "json_encode_list E (v # vs) =
     rbind (json_encode E v) (\<lambda>j. rbind (json_encode_list E vs) (\<lambda>js. Inr (j # js)))"
| "json_encode_items E [] = Inr []"
| "json_encode_items E ((k, v) # d) =
     rbind (json_encode E v) (\<lambda>j. rbind (json_encode_items E d) (\<lambda>js. Inr ((k, j) # js)))"

subsection \<open>The printed text\<close>

text \<open>\<open>separators=(",", ":")\<close>, \<open>ensure_ascii=False\<close>.\<close>

definition escape_char :: "char \<Rightarrow> string" where
  "escape_char c =
     (if c = CHR 0x22 then [CHR 0x5C, CHR 0x22]
      else if c = CHR 0x5C then [CHR 0x5C, CHR 0x5C]
      else if c = CHR 0x0A then [CHR 0x5C, CHR ''n'']
      else if c = CHR 0x0D then [CHR 0x5C, CHR ''r'']
      else if c = CHR 0x09 then [CHR 0x5C, CHR ''t'']
      else if c = CHR 0x0C then [CHR 0x5C, CHR ''f'']
      else if c = CHR 0x08 then [CHR 0x5C, CHR ''b'']
      else if (of_char c :: int) < 32 then [CHR 0x5C, CHR ''u'', CHR ''0'', CHR ''0''] @ hex_byte c
      else [c])"

definition json_quote :: "string \<Rightarrow> string" where
  "json_quote s = CHR 0x22 # concat (map escape_char s) @ [CHR 0x22]"

fun json_print :: "json \<Rightarrow> string"
  and json_print_list :: "json list \<Rightarrow> string"
  and json_print_items :: "(string \<times> json) list \<Rightarrow> string" where
  "json_print JNull = ''null''"
| "json_print (JBool b) = (if b then ''true'' else ''false'')"
| "json_print (JNum s) = s"
| "json_print (JStr s) = json_quote s"
| "json_print (JArr js) = ''['' @ json_print_list js @ '']''"
| "json_print (JObj d) = ''{'' @ json_print_items d @ ''}''"
| "json_print_list [] = ''''"
| "json_print_list (j # js) = json_print j @ (if js = [] then '''' else '','' @ json_print_list js)"
| "json_print_items [] = ''''"
| "json_print_items ((k, j) # d) =
     json_quote k @ '':'' @ json_print j @ (if d = [] then '''' else '','' @ json_print_items d)"

definition json_dumps :: "env \<Rightarrow> pyval \<Rightarrow> exc + string" where
  "json_dumps E v = rbind (json_encode E v) (\<lambda>j. Inr (json_print j))"

definition canonical_json :: "env \<Rightarrow> pydict \<Rightarrow> exc + string" where
  "canonical_json E entry = json_dumps E (PDict (filter (\<lambda>(k, v). k \<noteq> ''hash'') entry))"

subsection \<open>The text determines the value\<close>

text \<open>Number literals: what \<open>int.__repr__\<close> and \<open>float.__repr__\<close> print.\<close>

definition number_chars :: string where
  "number_chars = digits @ ''-+.e''"

definition number_literal :: "string \<Rightarrow> bool" where
  "number_literal s = (s \<noteq> [] \<and> hd s \<in> set (CHR ''-'' # digits) \<and> set s \<subseteq> set number_chars)"

fun wf_json :: "json \<Rightarrow> bool" where
  "wf_json (JNum s) = number_literal s"
| "wf_json (JArr js) = (\<forall>j \<in> set js. wf_json j)"
| "wf_json (JObj d) = (\<forall>p \<in> set d. wf_json (snd p))"
| "wf_json _ = True"

definition value_end :: "string \<Rightarrow> bool" where
  "value_end s = (s = [] \<or> hd s \<in> set '',]}'')"

lemma hex_digit_inj: "m < 16 \<Longrightarrow> n < 16 \<Longrightarrow> hex_digit m = hex_digit n \<longleftrightarrow> m = n"
  unfolding hex_digit_def by (subst nth_eq_iff_index_eq) auto

lemma hex_byte_inj: "hex_byte c = hex_byte d \<longleftrightarrow> c = d"
proof
  assume "hex_byte c = hex_byte d"
  moreover have "of_char x < (256 :: nat)" for x
    by (metis of_char_mod_256 mod_less_divisor zero_less_numeral)
  ultimately have "(of_char c :: nat) div 16 = of_char d div 16" "(of_char c :: nat) mod 16 = of_char d mod 16"
    by (simp_all add: hex_byte_def hex_digit_inj less_mult_imp_div_less)
  then have "(of_char c :: nat) = of_char d" by (metis div_mult_mod_eq)
  then show "c = d" by simp
qed simp

lemma length_hex_byte [simp]: "length (hex_byte c) = 2"
  by (simp add: hex_byte_def)

lemma bytes_hex_inj: "bytes_hex a = bytes_hex b \<longleftrightarrow> a = b"
proof
  show "bytes_hex a = bytes_hex b \<Longrightarrow> a = b"
  proof (induction a arbitrary: b)
    case Nil
    then show ?case by (cases b) (auto simp: bytes_hex_def hex_byte_def)
  next
    case (Cons c a)
    then obtain d b' where b: "b = d # b'"
      by (cases b) (auto simp: bytes_hex_def hex_byte_def)
    with Cons.prems have "hex_byte c @ bytes_hex a = hex_byte d @ bytes_hex b'"
      by (simp add: bytes_hex_def)
    then have "hex_byte c = hex_byte d" "bytes_hex a = bytes_hex b'"
      by (simp_all add: append_eq_append_conv)
    with Cons.IH b show ?case by (simp add: hex_byte_inj)
  qed
qed simp

lemma hex_byte_append_iff [simp]: "hex_byte c @ r = hex_byte d @ t \<longleftrightarrow> c = d \<and> r = t"
  by (auto simp: append_eq_append_conv hex_byte_inj)

lemma escape_char_prefix: "escape_char c @ r = escape_char d @ t \<longleftrightarrow> c = d \<and> r = t"
  by (auto simp: escape_char_def split: if_splits)

lemma escape_char_no_quote: "escape_char c @ r \<noteq> CHR 0x22 # t"
  by (auto simp: escape_char_def)

lemma json_quote_unique: "json_quote s @ r = json_quote s' @ r' \<longleftrightarrow> s = s' \<and> r = r'"
proof -
  have "concat (map escape_char s) @ CHR 0x22 # r = concat (map escape_char s') @ CHR 0x22 # r'
      \<Longrightarrow> s = s' \<and> r = r'"
  proof (induction s arbitrary: s')
    case Nil
    then show ?case
      by (cases s') (auto simp: escape_char_no_quote dest: sym)
  next
    case (Cons c s)
    then show ?case
      by (cases s') (auto simp: escape_char_no_quote escape_char_prefix)
  qed
  then show ?thesis by (auto simp: json_quote_def)
qed

text \<open>The first character tells the constructor; a literal stops where no number character can follow.\<close>

lemma number_prefix:
  assumes "s @ r = s' @ r'" and "set s \<subseteq> set number_chars" "set s' \<subseteq> set number_chars"
    and "value_end r" "value_end r'"
  shows "s = s' \<and> r = r'"
  using assms
proof (induction s arbitrary: s')
  case Nil
  then show ?case
    by (cases s') (auto simp: value_end_def number_chars_def digits_def)
next
  case (Cons c s)
  then show ?case
    by (cases s') (auto simp: value_end_def number_chars_def digits_def)
qed

lemma json_quote_first: "\<exists>t. json_quote s = CHR 0x22 # t"
  by (simp add: json_quote_def)

lemma json_print_first:
  "wf_json v \<Longrightarrow> \<exists>c t. json_print v = c # t \<and> c \<in> set (CHR 0x22 # CHR ''-'' # digits @ ''ntf[{'')"
  by (cases v) (auto simp: json_quote_def number_literal_def neq_Nil_conv digits_def)

lemma value_end_simps [simp]:
  "value_end []" "value_end (CHR '']'' # s)" "value_end (CHR '','' # s)" "value_end (CHR ''}'' # s)"
  by (simp_all add: value_end_def)

definition print_unique :: "json \<Rightarrow> bool" where
  "print_unique v = (\<forall>v' s s'. wf_json v' \<longrightarrow> value_end s \<longrightarrow> value_end s' \<longrightarrow>
     json_print v @ s = json_print v' @ s' \<longrightarrow> v = v' \<and> s = s')"

lemma print_uniqueD:
  "print_unique v \<Longrightarrow> json_print v @ s = json_print v' @ s' \<Longrightarrow> wf_json v' \<Longrightarrow> value_end s \<Longrightarrow> value_end s' \<Longrightarrow>
     v = v' \<and> s = s'"
  by (auto simp: print_unique_def)

lemma json_print_list_unique:
  assumes "\<forall>v \<in> set vs. wf_json v \<and> print_unique v" and "\<forall>v \<in> set vs'. wf_json v"
    and "json_print_list vs @ CHR '']'' # s = json_print_list vs' @ CHR '']'' # s'"
  shows "vs = vs' \<and> s = s'"
  using assms
proof (induction vs arbitrary: vs')
  case Nil
  show ?case
  proof (cases vs')
    case (Cons v vs)
    with Nil json_print_first [of v] show ?thesis by (auto simp: digits_def)
  qed (use Nil in auto)
next
  case (Cons v vs)
  have wfv: "wf_json v" and uv: "print_unique v" using Cons.prems(1) by auto
  obtain v' ws where vs': "vs' = v' # ws"
    using Cons.prems(3) json_print_first [OF wfv] by (cases vs') (auto simp: digits_def)
  let ?rest = "\<lambda>ys s. (if ys = [] then '''' else '','' @ json_print_list ys) @ CHR '']'' # s"
  have "json_print v @ ?rest vs s = json_print v' @ ?rest ws s'"
    using Cons.prems(3) by (simp only: vs' json_print_list.simps append_assoc)
  moreover have "wf_json v'" using Cons.prems(2) by (simp add: vs')
  moreover have "value_end (?rest vs s)" "value_end (?rest ws s')" by simp_all
  ultimately have "v = v' \<and> ?rest vs s = ?rest ws s'"
    by (rule print_uniqueD [OF uv])
  then have "v = v'" and rest: "?rest vs s = ?rest ws s'" by (rule conjunct1, rule conjunct2)
  show ?case
  proof (cases "vs = [] \<or> ws = []")
    case True
    with rest \<open>v = v'\<close> show ?thesis by (auto simp: vs' split: if_splits)
  next
    case False
    with rest have "json_print_list vs @ CHR '']'' # s = json_print_list ws @ CHR '']'' # s'" by simp
    with Cons.IH [of ws] Cons.prems \<open>v = v'\<close> show ?thesis by (simp add: vs')
  qed
qed

lemma json_print_items_unique:
  assumes "\<forall>p \<in> set d. wf_json (snd p) \<and> print_unique (snd p)" and "\<forall>p \<in> set d'. wf_json (snd p)"
    and "json_print_items d @ CHR ''}'' # s = json_print_items d' @ CHR ''}'' # s'"
  shows "d = d' \<and> s = s'"
  using assms
proof (induction d arbitrary: d')
  case Nil
  then show ?case
    by (cases d') (auto simp: json_quote_def)
next
  case (Cons p d)
  obtain k v where p: "p = (k, v)" by (cases p)
  have uv: "print_unique v" using Cons.prems(1) by (simp add: p)
  obtain k' v' e where d': "d' = (k', v') # e"
    using Cons.prems(3) by (cases d') (auto simp: p json_quote_def)
  let ?rest = "\<lambda>ys s. (if ys = [] then '''' else '','' @ json_print_items ys) @ CHR ''}'' # s"
  have "json_quote k @ CHR '':'' # json_print v @ ?rest d s = json_quote k' @ CHR '':'' # json_print v' @ ?rest e s'"
    using Cons.prems(3)
    by (simp only: p d' json_print_items.simps append_assoc append_Cons append_Nil)
  then have "k = k'" and "json_print v @ ?rest d s = json_print v' @ ?rest e s'"
    by (simp_all only: json_quote_unique list.inject simp_thms)
  moreover have "wf_json v'" using Cons.prems(2) by (simp add: d')
  moreover have "value_end (?rest d s)" "value_end (?rest e s')" by simp_all
  ultimately have "v = v' \<and> ?rest d s = ?rest e s'"
    by (intro print_uniqueD [OF uv])
  then have "v = v'" and rest: "?rest d s = ?rest e s'" by (rule conjunct1, rule conjunct2)
  show ?case
  proof (cases "d = [] \<or> e = []")
    case True
    with rest \<open>v = v'\<close> \<open>k = k'\<close> show ?thesis by (auto simp: d' p split: if_splits)
  next
    case False
    with rest have "json_print_items d @ CHR ''}'' # s = json_print_items e @ CHR ''}'' # s'" by simp
    with Cons.IH [of e] Cons.prems \<open>v = v'\<close> \<open>k = k'\<close> show ?thesis by (simp add: d' p)
  qed
qed

lemma json_print_unique: "wf_json v \<Longrightarrow> print_unique v"
proof (induction v)
  case (JNum x)
  show ?case
    unfolding print_unique_def
  proof (intro allI impI)
    fix v' s s'
    assume wf: "wf_json v'" and ends: "value_end s" "value_end s'"
      and eq: "json_print (JNum x) @ s = json_print v' @ s'"
    from JNum obtain c t where x: "x = c # t" "c \<in> set (CHR ''-'' # digits)"
      by (auto simp: number_literal_def neq_Nil_conv)
    show "JNum x = v' \<and> s = s'"
    proof (cases v')
      case (JNum y)
      with eq ends wf \<open>wf_json (JNum x)\<close> show ?thesis
        using number_prefix [of x s y s'] by (simp add: number_literal_def)
    qed (use eq x in \<open>auto simp: json_quote_def digits_def split: if_splits\<close>)
  qed
next
  case (JStr x)
  show ?case
    unfolding print_unique_def
  proof (intro allI impI)
    fix v' s s'
    assume wf: "wf_json v'" and eq: "json_print (JStr x) @ s = json_print v' @ s'"
    obtain t where t: "json_quote x = CHR 0x22 # t" using json_quote_first by blast
    show "JStr x = v' \<and> s = s'"
    proof (cases v')
      case (JStr y)
      with eq show ?thesis by (simp add: json_quote_unique)
    next
      case (JNum y)
      with eq wf t show ?thesis by (auto simp: number_literal_def neq_Nil_conv digits_def)
    qed (use eq t in \<open>auto split: if_splits\<close>)
  qed
next
  case (JArr vs)
  show ?case
    unfolding print_unique_def
  proof (intro allI impI)
    fix v' s s'
    assume wf: "wf_json v'" and eq: "json_print (JArr vs) @ s = json_print v' @ s'"
    show "JArr vs = v' \<and> s = s'"
    proof (cases v')
      case (JArr ws)
      with eq have "json_print_list vs @ CHR '']'' # s = json_print_list ws @ CHR '']'' # s'" by simp
      with JArr.IH JArr.prems wf JArr show ?thesis
        using json_print_list_unique [of vs ws s s'] by auto
    next
      case (JNum y)
      with eq wf show ?thesis by (auto simp: number_literal_def neq_Nil_conv digits_def)
    qed (use eq in \<open>auto simp: json_quote_def split: if_splits\<close>)
  qed
next
  case (JObj d)
  show ?case
    unfolding print_unique_def
  proof (intro allI impI)
    fix v' s s'
    assume wf: "wf_json v'" and eq: "json_print (JObj d) @ s = json_print v' @ s'"
    show "JObj d = v' \<and> s = s'"
    proof (cases v')
      case (JObj e)
      with eq have "json_print_items d @ CHR ''}'' # s = json_print_items e @ CHR ''}'' # s'" by simp
      moreover have "\<forall>p \<in> set d. wf_json (snd p) \<and> print_unique (snd p)"
        using JObj.IH JObj.prems by (metis snd_conv snds.simps surjective_pairing wf_json.simps(3))
      ultimately show ?thesis
        using wf JObj json_print_items_unique [of d e s s'] by simp
    next
      case (JNum y)
      with eq wf show ?thesis by (auto simp: number_literal_def neq_Nil_conv digits_def)
    qed (use eq in \<open>auto simp: json_quote_def split: if_splits\<close>)
  qed
qed (auto simp: print_unique_def json_quote_def number_literal_def neq_Nil_conv digits_def
    elim!: wf_json.elims(2) split: if_splits)

text \<open>C4's core: the printed text of a well-formed value determines it.\<close>

lemma json_print_inj: "wf_json v \<Longrightarrow> wf_json v' \<Longrightarrow> json_print v = json_print v' \<Longrightarrow> v = v'"
  using print_uniqueD [OF json_print_unique, of v "[]" v' "[]"] by simp

text \<open>Encoding yields well-formed values when \<open>float.__repr__\<close> prints number literals.\<close>

definition floats_ok :: "env \<Rightarrow> bool" where
  "floats_ok E = ((\<forall>r. number_literal (float_repr E r)) \<and> inj (float_repr E))"

lemma dec_int_number_literal: "number_literal (dec_int i)"
proof -
  have "set (dec_nat n) \<subseteq> set digits" "hd (dec_nat n) \<in> set digits" for n
    using set_dec_nat [of n] hd_in_set [OF dec_nat_nonempty, of n] by blast+
  then show ?thesis
    by (auto simp: dec_int_def number_literal_def number_chars_def subset_iff)
qed

lemma json_default_wf: "json_default v = Inr j \<Longrightarrow> wf_json j"
  by (cases v rule: json_default.cases) auto

lemma json_encode_wf_all:
  shows "floats_ok E \<Longrightarrow> json_encode E v = Inr j \<Longrightarrow> wf_json j"
    and "floats_ok E \<Longrightarrow> json_encode_list E vs = Inr js \<Longrightarrow> \<forall>x \<in> set js. wf_json x"
    and "floats_ok E \<Longrightarrow> json_encode_items E d = Inr ds \<Longrightarrow> \<forall>p \<in> set ds. wf_json (snd p)"
proof (induction E v and E vs and E d arbitrary: j and js and ds
    rule: json_encode_json_encode_list_json_encode_items.induct)
  case (4 E r)
  then show ?case by (auto simp: floats_ok_def)
next
  case (13 E k v d)
  then obtain x xs where "json_encode E v = Inr x" "json_encode_items E d = Inr xs" "ds = (k, x) # xs"
    by (auto simp: rbind_Inr_iff)
  with 13 show ?case by simp
qed (auto simp: rbind_Inr_iff dec_int_number_literal json_default_wf)

lemma json_encode_items_lookup:
  "json_encode_items E d = Inr js \<Longrightarrow>
     map fst js = map fst d \<and>
     (\<forall>k v. map_of d k = Some v \<longrightarrow> (\<exists>j. json_encode E v = Inr j \<and> map_of js k = Some j))"
proof (induction d arbitrary: js)
  case (Cons p d)
  then show ?case
    by (cases p) (fastforce simp: rbind_Inr_iff)
qed auto

text \<open>
  Two dictionaries with distinct keys that encode to the same object have the same keys, and
  equal keys hold values that encode to the same JSON value.
\<close>

lemma json_encode_dict_eq:
  assumes "json_encode E (PDict d) = Inr j" and "json_encode E (PDict d') = Inr j"
    and "distinct (map fst d)" and "distinct (map fst d')"
    and "map_of d k = Some v" and "map_of d' k = Some v'"
  shows "json_encode E v = json_encode E v'"
proof -
  from assms(1,2) obtain js js' where js: "json_encode_items E d = Inr js" "json_encode_items E d' = Inr js'"
    and eq: "sort_key fst js = sort_key fst js'"
    by (auto simp: rbind_Inr_iff)
  note l = json_encode_items_lookup [OF js(1)] json_encode_items_lookup [OF js(2)]
  from l assms(3,4) have "map_of (sort_key fst js) = map_of js" "map_of (sort_key fst js') = map_of js'"
    by (metis map_of_sort_key)+
  with eq have "map_of js = map_of js'" by simp
  with l assms(5,6) show ?thesis by fastforce
qed

lemma json_dumps_inj:
  assumes "floats_ok E" and "json_dumps E v = Inr s" and "json_dumps E v' = Inr s"
  shows "\<exists>j. json_encode E v = Inr j \<and> json_encode E v' = Inr j"
proof -
  from assms(2,3) obtain j j' where j: "json_encode E v = Inr j" "json_encode E v' = Inr j'"
    and "json_print j = json_print j'"
    by (auto simp: json_dumps_def rbind_Inr_iff)
  with assms(1) have "j = j'"
    using json_print_inj json_encode_wf_all(1) by blast
  with j show ?thesis by blast
qed

lemmas json_encode_scalar_inj =
  dec_int_inj bytes_hex_inj

subsection \<open>Which values have a text\<close>

fun jsonable :: "pyval \<Rightarrow> bool" where
  "jsonable (PTime (Naive t)) = False"
| "jsonable (PObj n) = False"
| "jsonable (PList xs) = (\<forall>v\<in>set xs. jsonable v)"
| "jsonable (PTuple xs) = (\<forall>v\<in>set xs. jsonable v)"
| "jsonable (PDict d) = (\<forall>p\<in>set d. jsonable (snd p))"
| "jsonable v = True"

lemma json_default_time: "(\<exists>j. json_default (PTime t) = Inr j) \<longleftrightarrow> jsonable (PTime t)"
  by (cases t) simp_all

lemma jsonable_iff_all:
  shows "(\<exists>j. json_encode E v = Inr j) \<longleftrightarrow> jsonable v"
    and "(\<exists>js. json_encode_list E vs = Inr js) \<longleftrightarrow> (\<forall>v\<in>set vs. jsonable v)"
    and "(\<exists>ds. json_encode_items E d = Inr ds) \<longleftrightarrow> (\<forall>p\<in>set d. jsonable (snd p))"
  by (induction E v and E vs and E d rule: json_encode_json_encode_list_json_encode_items.induct)
    (simp_all add: rbind_Inr_iff json_default_time del: json_default.simps(2,3), (fastforce+)?)

definition jsonable_dict :: "pydict \<Rightarrow> bool" where
  "jsonable_dict d = (\<forall>p\<in>set d. jsonable (snd p))"

lemma jsonable_dict_simps [simp]:
  "jsonable_dict []"
  "jsonable_dict ((k, v) # d) \<longleftrightarrow> jsonable v \<and> jsonable_dict d"
  by (simp_all add: jsonable_dict_def)

lemma jsonable_dict_update: "jsonable_dict d \<Longrightarrow> jsonable v \<Longrightarrow> jsonable_dict (AList.update k v d)"
  by (induction d) auto

lemma jsonable_dict_merge: "jsonable_dict d \<Longrightarrow> jsonable_dict e \<Longrightarrow> jsonable_dict (dict_merge d e)"
proof (induction e arbitrary: d)
  case (Cons p e)
  then show ?case by (cases p) (simp add: dict_merge_def jsonable_dict_update)
qed (simp add: dict_merge_def)

lemma canonical_json_defined:
  "(\<exists>t. canonical_json E d = Inr t) \<longleftrightarrow> jsonable_dict (filter (\<lambda>(k, v). k \<noteq> ''hash'') d)"
  using jsonable_iff_all(3) [of E "filter (\<lambda>(k, v). k \<noteq> ''hash'') d"]
  by (auto simp: canonical_json_def json_dumps_def rbind_Inr_iff jsonable_dict_def)

end
