(* ===== verification/Hash_Chain.thy ===== *)
theory Hash_Chain
  imports Canonical_Json
begin

section \<open>The hash chain (\<open>hash_chain.py\<close>)\<close>

text \<open>
  A row of the \<open>ledger\<close> table, its dictionary form, \<open>compute_entry_hash\<close> and \<open>verify_chain\<close>.
  A chain that verifies is characterised entry by entry, the index a failed verification
  reports is the first broken one, and two verified chains with the same head agree in every
  entry unless SHA-256 maps two different texts of theirs to the same digest.
\<close>

record entry =
  e_id :: uuid
  e_company :: uuid
  e_seq :: int
  e_ts :: int
  e_kind :: string
  e_quadrant :: string
  e_payload :: pydict
  e_prev :: bytes
  e_hash :: bytes

definition entry_dict :: "entry \<Rightarrow> pydict" where
  "entry_dict e =
    [(''entry_id'', PUuid (e_id e)), (''company_id'', PUuid (e_company e)), (''seq'', PInt (e_seq e)),
     (''ts'', PTime (Aware (e_ts e))), (''kind'', PStr (e_kind e)), (''quadrant'', PStr (e_quadrant e)),
     (''payload'', PDict (e_payload e)), (''prev_hash'', PBytes (e_prev e)), (''hash'', PBytes (e_hash e))]"

definition GENESIS_PREV_HASH :: bytes where
  "GENESIS_PREV_HASH = replicate 32 (CHR 0x00)"

definition compute_entry_hash :: "env \<Rightarrow> pydict \<Rightarrow> exc + bytes" where
  "compute_entry_hash E entry = rbind (canonical_json E entry) (\<lambda>text. Inr (sha256 E text))"

fun verify_from :: "env \<Rightarrow> nat \<Rightarrow> bytes \<Rightarrow> entry list \<Rightarrow> exc + bool \<times> nat option" where
  "verify_from E i prev [] = Inr (True, None)"
| "verify_from E i prev (e # es) =
     (if e_prev e \<noteq> prev then Inr (False, Some i)
      else rbind (compute_entry_hash E (entry_dict e)) (\<lambda>expected.
        if e_hash e \<noteq> expected then Inr (False, Some i) else verify_from E (Suc i) expected es))"

definition verify_chain :: "env \<Rightarrow> entry list \<Rightarrow> exc + bool \<times> nat option" where
  "verify_chain E es = verify_from E 0 GENESIS_PREV_HASH es"

subsection \<open>What verification establishes\<close>

definition entry_ok :: "env \<Rightarrow> bytes \<Rightarrow> entry \<Rightarrow> bool" where
  "entry_ok E prev e = (e_prev e = prev \<and> compute_entry_hash E (entry_dict e) = Inr (e_hash e))"

definition prev_of :: "bytes \<Rightarrow> entry list \<Rightarrow> nat \<Rightarrow> bytes" where
  "prev_of prev es i = (if i = 0 then prev else e_hash (es ! (i - 1)))"

definition linked :: "env \<Rightarrow> bytes \<Rightarrow> entry list \<Rightarrow> bool" where
  "linked E prev es = (\<forall>i < length es. entry_ok E (prev_of prev es i) (es ! i))"

definition head_hash :: "bytes \<Rightarrow> entry list \<Rightarrow> bytes" where
  "head_hash prev es = (if es = [] then prev else e_hash (last es))"

lemma linked_Nil [simp]: "linked E prev []"
  by (simp add: linked_def)

lemma linked_Cons [simp]: "linked E prev (e # es) \<longleftrightarrow> entry_ok E prev e \<and> linked E (e_hash e) es"
proof -
  have "prev_of prev (e # es) (Suc i) = prev_of (e_hash e) es i" for i
    by (cases i) (simp_all add: prev_of_def)
  then show ?thesis
    unfolding linked_def by (auto simp: All_less_Suc2 prev_of_def [of _ _ 0])
qed

lemma linked_append:
  "linked E prev (es @ fs) \<longleftrightarrow> linked E prev es \<and> linked E (head_hash prev es) fs"
  by (induction es arbitrary: prev) (auto simp: head_hash_def)

lemma head_hash_simps [simp]:
  "head_hash prev [] = prev" "head_hash prev (es @ [e]) = e_hash e"
  by (simp_all add: head_hash_def)

lemma verify_from_ok_iff: "verify_from E i prev es = Inr (True, None) \<longleftrightarrow> linked E prev es"
  by (induction es arbitrary: i prev) (auto simp: entry_ok_def rbind_Inr_iff)

lemma verify_from_result:
  "verify_from E i prev es = Inr r \<Longrightarrow> r = (True, None) \<or> (\<exists>j. r = (False, Some j))"
  by (induction es arbitrary: i prev) (auto simp: rbind_Inr_iff split: if_splits)

lemma verify_from_broken:
  "verify_from E i prev es = Inr (False, Some j) \<Longrightarrow>
     \<exists>k < length es. j = i + k \<and> linked E prev (take k es) \<and> \<not> entry_ok E (prev_of prev es k) (es ! k)"
proof (induction es arbitrary: i prev)
  case (Cons e es)
  show ?case
  proof (cases "entry_ok E prev e")
    case True
    with Cons.prems have "verify_from E (Suc i) (e_hash e) es = Inr (False, Some j)"
      by (auto simp: entry_ok_def)
    from Cons.IH [OF this] obtain k where "k < length es" "j = Suc i + k"
      "linked E (e_hash e) (take k es)" "\<not> entry_ok E (prev_of (e_hash e) es k) (es ! k)" by blast
    moreover have "prev_of (e_hash e) es k = prev_of prev (e # es) (Suc k)"
      by (cases k) (simp_all add: prev_of_def)
    ultimately show ?thesis using True by (intro exI [of _ "Suc k"]) simp
  next
    case False
    with Cons.prems have "j = i" by (auto simp: entry_ok_def rbind_Inr_iff split: if_splits)
    with False show ?thesis by (intro exI [of _ 0]) (simp add: prev_of_def)
  qed
qed simp

lemma prev_of_append: "i \<le> length es \<Longrightarrow> prev_of prev (es @ fs) i = prev_of prev es i"
  by (auto simp: prev_of_def nth_append)

lemma verify_chain_ok_iff: "verify_chain E es = Inr (True, None) \<longleftrightarrow> linked E GENESIS_PREV_HASH es"
  by (simp add: verify_chain_def verify_from_ok_iff)

subsection \<open>Entries and their text\<close>

definition entry_text :: "env \<Rightarrow> entry \<Rightarrow> exc + string" where
  "entry_text E e = canonical_json E (entry_dict e)"

text \<open>Equal in every field; payloads equal as the JSON they are stored and hashed as.\<close>

definition entry_agrees :: "env \<Rightarrow> entry \<Rightarrow> entry \<Rightarrow> bool" where
  "entry_agrees E e e' =
     (e_id e = e_id e' \<and> e_company e = e_company e' \<and> e_seq e = e_seq e' \<and> e_ts e = e_ts e' \<and>
      e_kind e = e_kind e' \<and> e_quadrant e = e_quadrant e' \<and> e_prev e = e_prev e' \<and>
      json_encode E (PDict (e_payload e)) = json_encode E (PDict (e_payload e')))"

lemma entry_view:
  "filter (\<lambda>(k, v). k \<noteq> ''hash'') (entry_dict e) =
    [(''entry_id'', PUuid (e_id e)), (''company_id'', PUuid (e_company e)), (''seq'', PInt (e_seq e)),
     (''ts'', PTime (Aware (e_ts e))), (''kind'', PStr (e_kind e)), (''quadrant'', PStr (e_quadrant e)),
     (''payload'', PDict (e_payload e)), (''prev_hash'', PBytes (e_prev e))]"
  by (simp add: entry_dict_def)

lemma entry_text_inj:
  assumes "floats_ok E" and "entry_text E e = Inr t" and "entry_text E e' = Inr t"
    and "valid_ts (e_ts e)" and "valid_ts (e_ts e')"
  shows "entry_agrees E e e'"
proof -
  let ?d = "\<lambda>e. filter (\<lambda>(k, v). k \<noteq> ''hash'') (entry_dict e)"
  from assms(2,3) have "json_dumps E (PDict (?d e)) = Inr t" "json_dumps E (PDict (?d e')) = Inr t"
    by (simp_all add: entry_text_def canonical_json_def)
  with json_dumps_inj [OF assms(1)] obtain j
    where j: "json_encode E (PDict (?d e)) = Inr j" "json_encode E (PDict (?d e')) = Inr j" by blast
  have dist: "distinct (map fst (?d e))" for e by (simp add: entry_view)
  note same = json_encode_dict_eq [OF j dist dist]
  have "json_encode E (PUuid (e_id e)) = json_encode E (PUuid (e_id e'))"
    by (rule same [of "''entry_id''"]) (simp_all add: entry_view)
  moreover have "json_encode E (PUuid (e_company e)) = json_encode E (PUuid (e_company e'))"
    by (rule same [of "''company_id''"]) (simp_all add: entry_view)
  moreover have "json_encode E (PInt (e_seq e)) = json_encode E (PInt (e_seq e'))"
    by (rule same [of "''seq''"]) (simp_all add: entry_view)
  moreover have "json_encode E (PTime (Aware (e_ts e))) = json_encode E (PTime (Aware (e_ts e')))"
    by (rule same [of "''ts''"]) (simp_all add: entry_view)
  moreover have "json_encode E (PStr (e_kind e)) = json_encode E (PStr (e_kind e'))"
    by (rule same [of "''kind''"]) (simp_all add: entry_view)
  moreover have "json_encode E (PStr (e_quadrant e)) = json_encode E (PStr (e_quadrant e'))"
    by (rule same [of "''quadrant''"]) (simp_all add: entry_view)
  moreover have "json_encode E (PDict (e_payload e)) = json_encode E (PDict (e_payload e'))"
    by (rule same [of "''payload''"]) (simp_all add: entry_view)
  moreover have "json_encode E (PBytes (e_prev e)) = json_encode E (PBytes (e_prev e'))"
    by (rule same [of "''prev_hash''"]) (simp_all add: entry_view)
  ultimately show ?thesis
    using assms(4,5) canonical_ts_inj
    by (auto simp: entry_agrees_def dec_int_inj bytes_hex_inj simp del: json_encode.simps(8))
qed

definition chain_texts :: "env \<Rightarrow> entry list \<Rightarrow> string set" where
  "chain_texts E es = {t. Inr t \<in> entry_text E ` set es}"

lemma entry_ok_text: "entry_ok E prev e \<Longrightarrow> \<exists>t. entry_text E e = Inr t \<and> e_hash e = sha256 E t"
  by (auto simp: entry_ok_def compute_entry_hash_def entry_text_def rbind_Inr_iff)

lemma same_hash_agrees:
  assumes "floats_ok E" and "entry_ok E prev e" and "entry_ok E prev' e'" and "e_hash e = e_hash e'"
    and "inj_on (sha256 E) (chain_texts E [e] \<union> chain_texts E [e'])"
    and "valid_ts (e_ts e)" and "valid_ts (e_ts e')"
  shows "entry_agrees E e e'"
proof -
  from assms(2,3) obtain t t' where t: "entry_text E e = Inr t" "entry_text E e' = Inr t'"
    "e_hash e = sha256 E t" "e_hash e' = sha256 E t'" using entry_ok_text by metis
  moreover from t have "t \<in> chain_texts E [e]" "t' \<in> chain_texts E [e']"
    by (simp_all add: chain_texts_def)
  ultimately have "t = t'" using assms(4,5) by (auto dest: inj_onD)
  with t assms show ?thesis by (auto intro: entry_text_inj)
qed

lemma chain_texts_append: "chain_texts E (es @ fs) = chain_texts E es \<union> chain_texts E fs"
  by (auto simp: chain_texts_def)

lemma linked_same_head_agree:
  assumes "floats_ok E" and "linked E prev es" and "linked E prev' es'" and "length es = length es'"
    and "head_hash prev es = head_hash prev' es'"
    and "inj_on (sha256 E) (chain_texts E es \<union> chain_texts E es')"
    and "\<forall>e \<in> set es \<union> set es'. valid_ts (e_ts e)"
  shows "list_all2 (entry_agrees E) es es'"
  using assms(4,2,3,5-7)
proof (induction es es' rule: rev_induct2)
  case (4 e es e' es')
  from "4.prems" have ok: "linked E prev es" "linked E prev' es'"
    "entry_ok E (head_hash prev es) e" "entry_ok E (head_hash prev' es') e'" "e_hash e = e_hash e'"
    by (simp_all add: linked_append)
  have agree: "entry_agrees E e e'"
    using "4.prems" by (intro same_hash_agrees [OF assms(1) ok(3-5)])
      (auto simp: chain_texts_append elim: inj_on_subset)
  then have "head_hash prev es = head_hash prev' es'"
    using ok(3,4) by (simp add: entry_agrees_def entry_ok_def)
  moreover have "inj_on (sha256 E) (chain_texts E es \<union> chain_texts E es')"
    using "4.prems"(5) by (rule inj_on_subset) (auto simp: chain_texts_append)
  ultimately have "list_all2 (entry_agrees E) es es'"
    using "4.prems" ok by (intro "4.IH") auto
  with agree show ?case by (simp add: list_all2_appendI)
qed auto

end
