(* ===== verification/Ledger_Store.thy ===== *)
theory Ledger_Store
  imports Hash_Chain
begin

section \<open>Writing and reading the ledger\<close>

text \<open>
  \<open>write_primitive.py\<close>, \<open>repo.py\<close>, \<open>db.py\<close>, \<open>verify.py\<close> and \<open>ledger_api.py\<close> of
  \<open>packages/ledger\<close>: the propose / execute / verify / resolve write, on the database-backed
  \<open>Ledger\<close> and on \<open>InMemoryLedger\<close>, and the reads \<open>fetch\<close>, \<open>get_entry\<close> and \<open>verify\<close>.
  The database is a parameter: \<open>be_rows\<close> gives the rows a session sees, \<open>be_insert\<close> is
  \<open>INSERT\<close>; the locale \<open>sql_backend\<close> states what the code relies on and \<open>schema_backend\<close>,
  the constraints \<open>schema.py\<close> declares, satisfies it. \<open>ledger_store\<close> is the interface the
  rest of the system uses; both ledgers implement it.
\<close>

subsection \<open>A write request\<close>

text \<open>
  The arguments of \<open>write\<close>. The callbacks are the functions the caller passes: their value is
  the dictionary they return or the exception they raise. \<open>wr_now\<close> is what
  \<open>datetime.now(UTC)\<close> reads during the call.
\<close>

record write_req =
  wr_company :: uuid
  wr_propose :: pydict
  wr_execute :: "exc + pydict"
  wr_verify :: "pydict \<Rightarrow> exc + pydict"
  wr_resolve :: "pydict \<Rightarrow> exc + pydict"
  wr_timestamp :: "int option"
  wr_now :: int
  wr_quadrant :: string

record write_result =
  res_ids :: "uuid list"
  res_hashes :: "bytes list"

definition write_time :: "write_req \<Rightarrow> int" where
  "write_time req = (case wr_timestamp req of Some t \<Rightarrow> t | None \<Rightarrow> wr_now req)"

definition exec_payload :: "write_req \<Rightarrow> entry \<Rightarrow> exc + pydict" where
  "exec_payload req p =
     rbind (wr_execute req) (\<lambda>x. Inr (dict_merge [(''propose_entry_id'', PStr (e_id p))] x))"

definition verify_payload :: "write_req \<Rightarrow> entry \<Rightarrow> exc + pydict" where
  "verify_payload req e =
     rbind (wr_verify req (e_payload e)) (\<lambda>x. Inr (dict_merge [(''execute_entry_id'', PStr (e_id e))] x))"

definition resolve_payload :: "write_req \<Rightarrow> entry \<Rightarrow> exc + pydict" where
  "resolve_payload req v =
     rbind (wr_resolve req (e_payload v)) (\<lambda>x. Inr (dict_merge [(''verify_entry_id'', PStr (e_id v))] x))"

definition passed :: "entry \<Rightarrow> bool" where
  "passed v = truthy (dget (e_payload v) ''passed'')"

definition write_result_of :: "entry \<Rightarrow> entry \<Rightarrow> entry \<Rightarrow> entry \<Rightarrow> write_result" where
  "write_result_of p e v r =
     \<lparr>res_ids = [e_id p, e_id e, e_id v, e_id r], res_hashes = [e_hash p, e_hash e, e_hash v, e_hash r]\<rparr>"

text \<open>The row \<open>_append\<close> builds: its hash is computed over every other field.\<close>

definition build_entry :: "env \<Rightarrow> uuid \<Rightarrow> write_req \<Rightarrow> int \<Rightarrow> bytes \<Rightarrow> string \<Rightarrow> pydict \<Rightarrow> exc + entry" where
  "build_entry E eid req sq prev kind pl =
     (let e = \<lparr>e_id = eid, e_company = wr_company req, e_seq = sq, e_ts = write_time req, e_kind = kind,
            e_quadrant = wr_quadrant req, e_payload = pl, e_prev = prev, e_hash = []\<rparr>
      in rbind (compute_entry_hash E (entry_dict e)) (\<lambda>h. Inr (e\<lparr>e_hash := h\<rparr>)))"

subsection \<open>\<open>InMemoryLedger\<close>\<close>

text \<open>The rows per company and the number of \<open>uuid4\<close> draws so far.\<close>

record mem =
  m_entries :: "uuid \<Rightarrow> entry list option"
  m_draws :: nat

definition mem_empty :: mem where
  "mem_empty = \<lparr>m_entries = Map.empty, m_draws = 0\<rparr>"

definition mem_rows :: "mem \<Rightarrow> uuid \<Rightarrow> entry list" where
  "mem_rows st c = (case m_entries st c of None \<Rightarrow> [] | Some rows \<Rightarrow> rows)"

definition mem_set :: "uuid \<Rightarrow> entry list \<Rightarrow> mem \<Rightarrow> mem" where
  "mem_set c rows st = st\<lparr>m_entries := (m_entries st)(c \<mapsto> rows)\<rparr>"

definition mem_append :: "env \<Rightarrow> write_req \<Rightarrow> int \<Rightarrow> bytes \<Rightarrow> string \<Rightarrow> pydict \<Rightarrow> (mem, entry) act" where
  "mem_append E req sq prev kind pl st =
     (let st1 = st\<lparr>m_draws := Suc (m_draws st)\<rparr>
      in case build_entry E (uuid4 E (m_draws st)) req (sq + 1) prev kind pl of
           Inl x \<Rightarrow> (Inl x, st1)
         | Inr e \<Rightarrow> (Inr e, mem_set (wr_company req) (mem_rows st1 (wr_company req) @ [e]) st1))"

definition mem_drop_last3 :: "uuid \<Rightarrow> mem \<Rightarrow> mem" where
  "mem_drop_last3 c st = mem_set c (take (length (mem_rows st c) - 3) (mem_rows st c)) st"

definition mem_write :: "env \<Rightarrow> write_req \<Rightarrow> (mem, write_result) act" where
  "mem_write E req st0 =
     (let c = wr_company req; rows = mem_rows st0 c; st = mem_set c rows st0;
          sq = (if rows = [] then 0 else e_seq (last rows));
          prev = (if rows = [] then GENESIS_PREV_HASH else e_hash (last rows))
      in sbind (mem_append E req sq prev ''propose'' (wr_propose req)) (\<lambda>p.
         sbind (\<lambda>s. (exec_payload req p, s)) (\<lambda>xp.
         sbind (mem_append E req (e_seq p) (e_hash p) ''execute'' xp) (\<lambda>e.
         sbind (\<lambda>s. (verify_payload req e, s)) (\<lambda>vp.
         sbind (mem_append E req (e_seq e) (e_hash e) ''verify'' vp) (\<lambda>v.
           if \<not> passed v then (\<lambda>s. (Inl VerifyFailed, mem_drop_last3 c s))
           else sbind (\<lambda>s. (resolve_payload req v, s)) (\<lambda>rp.
             sbind (mem_append E req (e_seq v) (e_hash v) ''resolve'' rp) (\<lambda>r.
               sret (write_result_of p e v r)))))))) st)"

definition mem_fetch :: "mem \<Rightarrow> uuid \<Rightarrow> int option \<Rightarrow> entry list" where
  "mem_fetch st c until =
     (case until of None \<Rightarrow> mem_rows st c | Some t \<Rightarrow> filter (\<lambda>r. e_ts r \<le> t) (mem_rows st c))"

definition mem_get_entry :: "mem \<Rightarrow> uuid \<Rightarrow> uuid \<Rightarrow> entry option" where
  "mem_get_entry st c eid = find (\<lambda>r. e_id r = eid) (mem_rows st c)"

text \<open>\<open>VerifyReport\<close>: ok, entries checked, first broken index.\<close>

record verify_report =
  vr_ok :: bool
  vr_checked :: nat
  vr_broken_at :: "nat option"

definition report_of :: "env \<Rightarrow> entry list \<Rightarrow> exc + verify_report" where
  "report_of E rows = rbind (verify_chain E rows) (\<lambda>(ok, broken).
     Inr \<lparr>vr_ok = ok, vr_checked = length rows, vr_broken_at = broken\<rparr>)"

definition mem_verify :: "env \<Rightarrow> mem \<Rightarrow> uuid \<Rightarrow> exc + verify_report" where
  "mem_verify E st c = report_of E (mem_fetch st c None)"

subsection \<open>The database-backed \<open>Ledger\<close>\<close>

record 'db backend =
  be_rows :: "'db \<Rightarrow> entry list"
  be_insert :: "entry \<Rightarrow> 'db \<Rightarrow> exc + 'db"

record 'db session =
  s_db :: 'db
  s_draws :: nat

definition session_scope :: "('db session, 'a) act \<Rightarrow> ('db session, 'a) act" where
  "session_scope body s =
     (case body s of (Inr x, s') \<Rightarrow> (Inr x, s') | (Inl e, s') \<Rightarrow> (Inl e, s'\<lparr>s_db := s_db s\<rparr>))"

definition company_rows :: "'db backend \<Rightarrow> 'db session \<Rightarrow> uuid \<Rightarrow> entry list" where
  "company_rows B s c = filter (\<lambda>r. e_company r = c) (be_rows B (s_db s))"

definition db_tail :: "'db backend \<Rightarrow> 'db session \<Rightarrow> uuid \<Rightarrow> int \<times> bytes" where
  "db_tail B s c =
     (case sort_key (\<lambda>r. - e_seq r) (company_rows B s c) of
        [] \<Rightarrow> (0, GENESIS_PREV_HASH)
      | r # _ \<Rightarrow> (e_seq r, e_hash r))"

definition db_append :: "env \<Rightarrow> 'db backend \<Rightarrow> write_req \<Rightarrow> int \<Rightarrow> bytes \<Rightarrow> string \<Rightarrow> pydict
    \<Rightarrow> ('db session, entry) act" where
  "db_append E B req sq prev kind pl s =
     (let s1 = s\<lparr>s_draws := Suc (s_draws s)\<rparr>
      in case build_entry E (uuid4 E (s_draws s)) req sq prev kind pl of
           Inl x \<Rightarrow> (Inl x, s1)
         | Inr e \<Rightarrow> (case be_insert B e (s_db s1) of
               Inl x \<Rightarrow> (Inl x, s1)
             | Inr db' \<Rightarrow> (Inr e, s1\<lparr>s_db := db'\<rparr>)))"

definition write_primitive :: "env \<Rightarrow> 'db backend \<Rightarrow> write_req \<Rightarrow> ('db session, write_result) act" where
  "write_primitive E B req s =
     (let (sq, prev) = db_tail B s (wr_company req)
      in sbind (db_append E B req (sq + 1) prev ''propose'' (wr_propose req)) (\<lambda>p.
         sbind (\<lambda>s. (exec_payload req p, s)) (\<lambda>xp.
         sbind (db_append E B req (sq + 2) (e_hash p) ''execute'' xp) (\<lambda>e.
         sbind (\<lambda>s. (verify_payload req e, s)) (\<lambda>vp.
         sbind (db_append E B req (sq + 3) (e_hash e) ''verify'' vp) (\<lambda>v.
           if \<not> passed v then sthrow VerifyFailed
           else sbind (\<lambda>s. (resolve_payload req v, s)) (\<lambda>rp.
             sbind (db_append E B req (sq + 4) (e_hash v) ''resolve'' rp) (\<lambda>r.
               sret (write_result_of p e v r)))))))) s)"

definition ledger_write :: "env \<Rightarrow> 'db backend \<Rightarrow> write_req \<Rightarrow> ('db session, write_result) act" where
  "ledger_write E B req = session_scope (write_primitive E B req)"

definition fetch_entries :: "'db backend \<Rightarrow> 'db session \<Rightarrow> uuid \<Rightarrow> int option \<Rightarrow> entry list" where
  "fetch_entries B s c until =
     sort_key e_seq
       (filter (\<lambda>r. case until of None \<Rightarrow> True | Some t \<Rightarrow> e_ts r \<le> t) (company_rows B s c))"

definition get_entry_by_id :: "'db backend \<Rightarrow> 'db session \<Rightarrow> uuid \<Rightarrow> uuid \<Rightarrow> entry option" where
  "get_entry_by_id B s c eid =
     find (\<lambda>r. e_id r = eid \<and> e_company r = c) (be_rows B (s_db s))"

definition verify_company_chain :: "env \<Rightarrow> 'db backend \<Rightarrow> 'db session \<Rightarrow> uuid \<Rightarrow> exc + verify_report" where
  "verify_company_chain E B s c = report_of E (fetch_entries B s c None)"

text \<open>
  The \<open>ledger\<close> table of \<open>schema.py\<close>: \<open>entry_id\<close> is the primary key, \<open>(company_id, seq)\<close> and
  \<open>(company_id, hash)\<close> are unique.
\<close>

definition violates_unique :: "entry \<Rightarrow> entry \<Rightarrow> bool" where
  "violates_unique e r =
     (e_id r = e_id e \<or> e_company r = e_company e \<and> (e_seq r = e_seq e \<or> e_hash r = e_hash e))"

definition schema_backend :: "entry list backend" where
  "schema_backend =
     \<lparr>be_rows = (\<lambda>rows. rows),
      be_insert = (\<lambda>e rows. if list_ex (violates_unique e) rows then Inl IntegrityError else Inr (rows @ [e]))\<rparr>"

subsection \<open>What a write appends\<close>

text \<open>The hash does not depend on the \<open>hash\<close> field, so a built row is a good link.\<close>

definition built :: "env \<Rightarrow> write_req \<Rightarrow> int \<Rightarrow> bytes \<Rightarrow> string \<Rightarrow> pydict \<Rightarrow> entry \<Rightarrow> bool" where
  "built E req sq prev kind pl e =
     (e_company e = wr_company req \<and> e_seq e = sq \<and> e_ts e = write_time req \<and> e_kind e = kind \<and>
      e_quadrant e = wr_quadrant req \<and> e_payload e = pl \<and> entry_ok E prev e)"

text \<open>The four rows of one successful write after a row numbered \<open>sq\<close> with hash \<open>prev\<close>.\<close>

definition pevr_rows :: "env \<Rightarrow> write_req \<Rightarrow> int \<Rightarrow> bytes \<Rightarrow> entry list \<Rightarrow> bool" where
  "pevr_rows E req sq prev rows = (case rows of
     [p, e, v, r] \<Rightarrow>
       built E req (sq + 1) prev ''propose'' (wr_propose req) p \<and>
       (case exec_payload req p of Inl _ \<Rightarrow> False | Inr x \<Rightarrow> built E req (sq + 2) (e_hash p) ''execute'' x e) \<and>
       (case verify_payload req e of Inl _ \<Rightarrow> False | Inr x \<Rightarrow> built E req (sq + 3) (e_hash e) ''verify'' x v) \<and>
       passed v \<and>
       (case resolve_payload req v of Inl _ \<Rightarrow> False | Inr x \<Rightarrow> built E req (sq + 4) (e_hash v) ''resolve'' x r)
   | _ \<Rightarrow> False)"

lemma compute_entry_hash_update [simp]:
  "compute_entry_hash E (entry_dict (e\<lparr>e_hash := h\<rparr>)) = compute_entry_hash E (entry_dict e)"
  by (simp add: compute_entry_hash_def canonical_json_def entry_dict_def)

lemma build_entry_built: "build_entry E eid req sq prev kind pl = Inr e \<Longrightarrow> built E req sq prev kind pl e \<and> e_id e = eid"
  by (auto simp: build_entry_def built_def entry_ok_def Let_def rbind_Inr_iff compute_entry_hash_def
      canonical_json_def entry_view)

lemma pevr_rowsI:
  assumes "built E req (sq + 1) prev ''propose'' (wr_propose req) p"
    and "exec_payload req p = Inr xp" "built E req (sq + 2) (e_hash p) ''execute'' xp e"
    and "verify_payload req e = Inr vp" "built E req (sq + 3) (e_hash e) ''verify'' vp v"
    and "passed v"
    and "resolve_payload req v = Inr rp" "built E req (sq + 4) (e_hash v) ''resolve'' rp r"
  shows "pevr_rows E req sq prev [p, e, v, r]"
  using assms by (simp add: pevr_rows_def)

lemma pevr_rowsE:
  assumes "pevr_rows E req sq prev rows"
  obtains p e v r xp vp rp where "rows = [p, e, v, r]"
    "built E req (sq + 1) prev ''propose'' (wr_propose req) p"
    "exec_payload req p = Inr xp" "built E req (sq + 2) (e_hash p) ''execute'' xp e"
    "verify_payload req e = Inr vp" "built E req (sq + 3) (e_hash e) ''verify'' vp v"
    "passed v"
    "resolve_payload req v = Inr rp" "built E req (sq + 4) (e_hash v) ''resolve'' rp r"
  using assms by (auto simp: pevr_rows_def split: list.splits sum.splits)

lemma pevr_rows_length: "pevr_rows E req sq prev rows \<Longrightarrow> length rows = 4"
  by (auto elim: pevr_rowsE)

text \<open>The invariant of one company's rows: a verified chain numbered from 1 without gaps.\<close>

definition chain_inv :: "env \<Rightarrow> uuid \<Rightarrow> entry list \<Rightarrow> bool" where
  "chain_inv E c rows =
     (linked E GENESIS_PREV_HASH rows \<and> map e_seq rows = map int [1..<Suc (length rows)] \<and>
      (\<forall>r\<in>set rows. e_company r = c))"

lemma chain_inv_Nil [simp]: "chain_inv E c []"
  by (simp add: chain_inv_def)

lemma chain_inv_snoc:
  "chain_inv E c rows \<Longrightarrow> built E req (int (length rows) + 1) (head_hash GENESIS_PREV_HASH rows) kind pl e
     \<Longrightarrow> wr_company req = c \<Longrightarrow> chain_inv E c (rows @ [e])"
  by (simp add: chain_inv_def built_def linked_append)

lemma chain_inv_take: "chain_inv E c rows \<Longrightarrow> chain_inv E c (take n rows)"
proof -
  assume a: "chain_inv E c rows"
  have "linked E GENESIS_PREV_HASH (take n rows)"
    using a linked_append [of E GENESIS_PREV_HASH "take n rows" "drop n rows"] by (simp add: chain_inv_def)
  moreover have "map e_seq (take n rows) = map int [1..<Suc (length (take n rows))]"
  proof -
    have "map e_seq (take n rows) = take n (map int [1..<Suc (length rows)])"
      using a by (simp add: chain_inv_def flip: take_map)
    then show ?thesis by (simp add: take_map take_upt min_def del: upt_Suc)
  qed
  ultimately show ?thesis using a by (auto simp: chain_inv_def dest: in_set_takeD)
qed

lemma chain_inv_last: "chain_inv E c rows \<Longrightarrow> (if rows = [] then 0 else e_seq (last rows)) = int (length rows)"
proof (cases rows rule: rev_cases)
  case (snoc es e)
  moreover assume "chain_inv E c rows"
  ultimately show ?thesis by (simp add: chain_inv_def)
qed simp

text \<open>Rows that continue a chain one by one, as far as a write got.\<close>

fun continues :: "env \<Rightarrow> write_req \<Rightarrow> int \<Rightarrow> bytes \<Rightarrow> entry list \<Rightarrow> bool" where
  "continues E req sq prev [] = True"
| "continues E req sq prev (e # es) =
     (built E req (sq + 1) prev (e_kind e) (e_payload e) e \<and> continues E req (sq + 1) (e_hash e) es)"

lemma built_own: "built E req sq prev kind pl e \<Longrightarrow> built E req sq prev (e_kind e) (e_payload e) e"
  by (simp add: built_def)

lemma built_seq: "built E req sq prev kind pl e \<Longrightarrow> e_seq e = sq"
  by (simp add: built_def)

lemma chain_inv_continues:
  "chain_inv E c rows \<Longrightarrow> continues E req (int (length rows)) (head_hash GENESIS_PREV_HASH rows) new
     \<Longrightarrow> wr_company req = c \<Longrightarrow> chain_inv E c (rows @ new)"
proof (induction new arbitrary: rows)
  case (Cons e new)
  from Cons.prems have "chain_inv E c (rows @ [e])"
    by (auto intro: chain_inv_snoc)
  from Cons.IH [OF this] Cons.prems show ?case by (simp add: ac_simps)
qed simp

lemma pevr_rows_continues: "pevr_rows E req sq prev rows \<Longrightarrow> continues E req sq prev rows"
  by (erule pevr_rowsE) (auto dest: built_own simp: ac_simps)

lemma build_entry_defined: "jsonable_dict pl \<Longrightarrow> \<exists>e. build_entry E eid req sq prev kind pl = Inr e"
proof -
  assume a: "jsonable_dict pl"
  let ?e = "\<lparr>e_id = eid, e_company = wr_company req, e_seq = sq, e_ts = write_time req, e_kind = kind,
     e_quadrant = wr_quadrant req, e_payload = pl, e_prev = prev, e_hash = []\<rparr>"
  have "jsonable_dict (filter (\<lambda>(k, v). k \<noteq> ''hash'') (entry_dict ?e))"
    using a by (simp add: entry_view) (simp add: jsonable_dict_def)
  then obtain t where "canonical_json E (entry_dict ?e) = Inr t"
    using canonical_json_defined by blast
  then show ?thesis
    by (simp add: build_entry_def compute_entry_hash_def Let_def)
qed

subsection \<open>Outcomes of \<open>InMemoryLedger.write\<close>\<close>

definition mem_invar :: "env \<Rightarrow> mem \<Rightarrow> bool" where
  "mem_invar E st = (\<forall>c. chain_inv E c (mem_rows st c))"

lemma mem_rows_set [simp]: "mem_rows (mem_set c rows st) = (mem_rows st)(c := rows)"
  by (auto simp: mem_rows_def mem_set_def)

lemma mem_rows_draws [simp]: "mem_rows (st\<lparr>m_draws := n\<rparr>) = mem_rows st"
  by (auto simp: mem_rows_def)

lemma mem_invar_empty: "mem_invar E mem_empty"
  by (simp add: mem_invar_def mem_rows_def mem_empty_def)

lemma mem_append_Inl: "mem_append E req sq prev kind pl st = (Inl x, st') \<Longrightarrow> mem_rows st' = mem_rows st"
  by (auto simp: mem_append_def Let_def split: sum.splits)

lemma mem_append_Inr: "mem_append E req sq prev kind pl st = (Inr e, st') \<Longrightarrow>
    built E req (sq + 1) prev kind pl e \<and>
    mem_rows st' = (mem_rows st)(wr_company req := mem_rows st (wr_company req) @ [e])"
  by (auto simp: mem_append_def Let_def dest: build_entry_built split: sum.splits)

lemma mem_append_next:
  "mem_append E req (e_seq p) prev kind pl st = (Inr e, st') \<Longrightarrow> built E req k pr kd pl' p \<Longrightarrow> k' = k + 1
     \<Longrightarrow> built E req k' prev kind pl e"
  by (auto dest: mem_append_Inr simp: built_seq)

lemma mem_append_defined:
  "jsonable_dict pl \<Longrightarrow> \<exists>e st'. mem_append E req sq prev kind pl st = (Inr e, st')"
  using build_entry_defined [of pl E "uuid4 E (m_draws st)" req "sq + 1" prev kind]
  by (auto simp: mem_append_def Let_def)

definition result_of_rows :: "entry list \<Rightarrow> write_result" where
  "result_of_rows rows = \<lparr>res_ids = map e_id rows, res_hashes = map e_hash rows\<rparr>"

definition mem_outcome :: "env \<Rightarrow> write_req \<Rightarrow> mem \<Rightarrow> (exc + write_result) \<times> mem \<Rightarrow> bool" where
  "mem_outcome E req st out = (\<exists>new.
     mem_rows (snd out) = (mem_rows st)(wr_company req := mem_rows st (wr_company req) @ new) \<and>
     (let rows = mem_rows st (wr_company req); sq = (if rows = [] then 0 else e_seq (last rows));
          prev = head_hash GENESIS_PREV_HASH rows
      in continues E req sq prev new \<and>
         (\<forall>res. fst out = Inr res \<longrightarrow> pevr_rows E req sq prev new \<and> res = result_of_rows new)))"

lemma mem_outcomeI:
  assumes "mem_rows st' = (mem_rows st)(wr_company req := mem_rows st (wr_company req) @ new)"
    and "sq = (if mem_rows st (wr_company req) = [] then 0 else e_seq (last (mem_rows st (wr_company req))))"
    and "prev = head_hash GENESIS_PREV_HASH (mem_rows st (wr_company req))"
    and "continues E req sq prev new"
    and "\<And>res. x = Inr res \<Longrightarrow> pevr_rows E req sq prev new \<and> res = result_of_rows new"
  shows "mem_outcome E req st (x, st')"
  using assms by (auto simp: mem_outcome_def Let_def)

lemma mem_write_outcome_tail:
  assumes p: "built E req (sq + 1) prev ''propose'' (wr_propose req) p"
    and xp: "exec_payload req p = Inr xp" and e: "built E req (sq + 2) (e_hash p) ''execute'' xp e"
    and s3: "mem_rows s3 = (mem_rows st0)(wr_company req := mem_rows st0 (wr_company req) @ [p, e])"
    and sq: "sq = (if mem_rows st0 (wr_company req) = [] then 0 else e_seq (last (mem_rows st0 (wr_company req))))"
    and prev: "prev = head_hash GENESIS_PREV_HASH (mem_rows st0 (wr_company req))"
  shows "mem_outcome E req st0
    (sbind (\<lambda>s. (verify_payload req e, s)) (\<lambda>vp.
         sbind (mem_append E req (e_seq e) (e_hash e) ''verify'' vp) (\<lambda>v.
           if \<not> passed v then (\<lambda>s. (Inl VerifyFailed, mem_drop_last3 (wr_company req) s))
           else sbind (\<lambda>s. (resolve_payload req v, s)) (\<lambda>rp.
             sbind (mem_append E req (e_seq v) (e_hash v) ''resolve'' rp) (\<lambda>r.
               sret (write_result_of p e v r))))) s3)"
proof -
  let ?c = "wr_company req"
  note outI = mem_outcomeI [OF _ sq prev]
  note step = sbind_cases [where Q = "mem_outcome E req st0"]
  note app = mem_append_Inl mem_append_Inr
  note pe = p [THEN built_own] e [THEN built_own] built_seq [OF p] built_seq [OF e]
  show ?thesis
  proof (rule step, goal_cases)
    case (1 x s4)
    with pe s3 show ?case by (intro outI [of _ "[p, e]"]) (auto simp: ac_simps)
  next
    case (2 vp s4)
    then have vp: "verify_payload req e = Inr vp" and [simp]: "s4 = s3" by simp_all
    show ?case
    proof (rule step, goal_cases)
      case (1 x s5)
      with pe s3 show ?case by (intro outI [of _ "[p, e]"]) (auto dest: app simp: ac_simps)
    next
      case (2 v s5)
      then have v: "built E req (sq + 3) (e_hash e) ''verify'' vp v"
        by (rule mem_append_next [OF _ e]) simp
      from 2 s3 have s5: "mem_rows s5 = (mem_rows st0)(?c := mem_rows st0 ?c @ [p, e, v])"
        by (auto dest: app)
      note pev = pe built_own [OF v] built_seq [OF v]
      show ?case
      proof (cases "passed v")
        case False
        then show ?thesis
          by simp (rule outI [of _ "[]"]; simp add: mem_drop_last3_def s5)
      next
        case True
        have "mem_outcome E req st0 (sbind (\<lambda>s. (resolve_payload req v, s)) (\<lambda>rp.
             sbind (mem_append E req (e_seq v) (e_hash v) ''resolve'' rp) (\<lambda>r.
               sret (write_result_of p e v r))) s5)"
        proof (rule step, goal_cases)
          case (1 x s6)
          with pev s5 show ?case by (intro outI [of _ "[p, e, v]"]) (auto simp: ac_simps)
        next
          case (2 rp s6)
          then have rp: "resolve_payload req v = Inr rp" and [simp]: "s6 = s5" by simp_all
          show ?case
          proof (rule step, goal_cases)
            case (1 x s7)
            with pev s5 show ?case by (intro outI [of _ "[p, e, v]"]) (auto dest: app simp: ac_simps)
          next
            case (2 r s7)
            then have r: "built E req (sq + 4) (e_hash v) ''resolve'' rp r"
              by (rule mem_append_next [OF _ v]) simp
            from 2 s5 have s7: "mem_rows s7 = (mem_rows st0)(?c := mem_rows st0 ?c @ [p, e, v, r])"
              by (auto dest: app)
            have rows: "pevr_rows E req sq prev [p, e, v, r]"
              by (rule pevr_rowsI [OF p xp e vp v True rp r])
            show ?case
              using s7 rows by (simp, intro outI [OF _ pevr_rows_continues [OF rows]])
                (simp_all add: result_of_rows_def write_result_of_def)
          qed
        qed
        with True show ?thesis by simp
      qed
    qed
  qed
qed

lemma mem_write_outcome: "mem_outcome E req st0 (mem_write E req st0)"
proof -
  define c where "c = wr_company req"
  define rows where "rows = mem_rows st0 c"
  define st where "st = mem_set c rows st0"
  define sq where "sq = (if rows = [] then 0 else e_seq (last rows))"
  define prev where "prev = head_hash GENESIS_PREV_HASH rows"
  have st: "mem_rows st = mem_rows st0"
    by (simp add: st_def rows_def)
  have tail: "prev = (if rows = [] then GENESIS_PREV_HASH else e_hash (last rows))"
    by (simp add: prev_def head_hash_def)
  note outI = mem_outcomeI [of _ st0 req _ sq prev, folded c_def, folded rows_def, OF _ sq_def prev_def]
  have unf: "mem_write E req st0 =
      sbind (mem_append E req sq prev ''propose'' (wr_propose req)) (\<lambda>p.
         sbind (\<lambda>s. (exec_payload req p, s)) (\<lambda>xp.
         sbind (mem_append E req (e_seq p) (e_hash p) ''execute'' xp) (\<lambda>e.
         sbind (\<lambda>s. (verify_payload req e, s)) (\<lambda>vp.
         sbind (mem_append E req (e_seq e) (e_hash e) ''verify'' vp) (\<lambda>v.
           if \<not> passed v then (\<lambda>s. (Inl VerifyFailed, mem_drop_last3 c s))
           else sbind (\<lambda>s. (resolve_payload req v, s)) (\<lambda>rp.
             sbind (mem_append E req (e_seq v) (e_hash v) ''resolve'' rp) (\<lambda>r.
               sret (write_result_of p e v r)))))))) st"
    by (simp only: mem_write_def Let_def c_def rows_def st_def sq_def tail)
  note step = sbind_cases [where Q = "mem_outcome E req st0"]
  note app = mem_append_Inl mem_append_Inr
  show ?thesis
    unfolding unf
  proof (rule step, goal_cases)
    case (1 x s1)
    then show ?case by (intro outI [of _ "[]"]) (auto dest: app simp: st rows_def)
  next
    case (2 p s1)
    then have p: "built E req (sq + 1) prev ''propose'' (wr_propose req) p"
      and s1: "mem_rows s1 = (mem_rows st0)(c := rows @ [p])"
      by (auto dest: app simp: st c_def rows_def)
    show ?case
    proof (rule step, goal_cases)
      case (1 x s2)
      with p s1 show ?case by (intro outI [of _ "[p]"]) (auto dest: built_own)
    next
      case (2 xp s2)
      then have xp: "exec_payload req p = Inr xp" and [simp]: "s2 = s1" by simp_all
      show ?case
      proof (rule step, goal_cases)
        case (1 x s3)
        with p s1 show ?case by (intro outI [of _ "[p]"]) (auto dest: app built_own)
      next
        case (2 e s3)
        then have e: "built E req (sq + 2) (e_hash p) ''execute'' xp e"
          by (rule mem_append_next [OF _ p]) simp
        from 2 s1 have s3: "mem_rows s3 = (mem_rows st0)(c := rows @ [p, e])"
          by (auto dest: app simp: c_def)
        show ?case
          by (rule mem_write_outcome_tail [of E req sq prev p xp e s3 st0, folded c_def,
                folded rows_def, OF p xp e s3 sq_def prev_def])
      qed
    qed
  qed
qed

lemma head_hash_tail: "head_hash GENESIS_PREV_HASH rows = (if rows = [] then GENESIS_PREV_HASH else e_hash (last rows))"
  by (simp add: head_hash_def)

lemma mem_write_rows:
  assumes "mem_write E req st = (out, st')" and "chain_inv E (wr_company req) (mem_rows st (wr_company req))"
  obtains new where
    "mem_rows st' = (mem_rows st)(wr_company req := mem_rows st (wr_company req) @ new)"
    "continues E req (int (length (mem_rows st (wr_company req))))
       (head_hash GENESIS_PREV_HASH (mem_rows st (wr_company req))) new"
    "\<And>res. out = Inr res \<Longrightarrow> pevr_rows E req (int (length (mem_rows st (wr_company req))))
       (head_hash GENESIS_PREV_HASH (mem_rows st (wr_company req))) new \<and> res = result_of_rows new"
  using mem_write_outcome [of E req st] chain_inv_last [OF assms(2)] that
  by (auto simp: assms(1) mem_outcome_def Let_def simp del: continues.simps)

lemma mem_write_frame: "mem_write E req st = (out, st') \<Longrightarrow> d \<noteq> wr_company req \<Longrightarrow> mem_rows st' d = mem_rows st d"
  using mem_write_outcome [of E req st] by (auto simp: mem_outcome_def Let_def)

lemma mem_write_invar: "mem_invar E st \<Longrightarrow> mem_invar E (snd (mem_write E req st))"
proof -
  assume inv: "mem_invar E st"
  then have c: "chain_inv E (wr_company req) (mem_rows st (wr_company req))"
    by (simp add: mem_invar_def)
  obtain out st' where w: "mem_write E req st = (out, st')" by (cases "mem_write E req st")
  show ?thesis
  proof (rule mem_write_rows [OF w c])
    fix new
    assume "mem_rows st' = (mem_rows st)(wr_company req := mem_rows st (wr_company req) @ new)"
      and "continues E req (int (length (mem_rows st (wr_company req))))
         (head_hash GENESIS_PREV_HASH (mem_rows st (wr_company req))) new"
    with inv chain_inv_continues [OF c] show ?thesis
      by (simp add: mem_invar_def w)
  qed
qed

subsection \<open>Requests with constant callbacks\<close>

text \<open>The requests the gates make: every callback returns a fixed dictionary.\<close>

definition const_req :: "uuid \<Rightarrow> pydict \<Rightarrow> pydict \<Rightarrow> pydict \<Rightarrow> pydict \<Rightarrow> int option \<Rightarrow> int \<Rightarrow> string \<Rightarrow> write_req" where
  "const_req c p x v r ts now quad =
     \<lparr>wr_company = c, wr_propose = p, wr_execute = Inr x, wr_verify = (\<lambda>_. Inr v), wr_resolve = (\<lambda>_. Inr r),
      wr_timestamp = ts, wr_now = now, wr_quadrant = quad\<rparr>"

definition clean_req :: "write_req \<Rightarrow> bool" where
  "clean_req req = (jsonable_dict (wr_propose req) \<and> (\<exists>x. wr_execute req = Inr x \<and> jsonable_dict x) \<and>
     (\<forall>d. \<exists>v. wr_verify req d = Inr v \<and> jsonable_dict v \<and> map_of (rev v) ''passed'' = Some (PBool True)) \<and>
     (\<forall>d. \<exists>r. wr_resolve req d = Inr r \<and> jsonable_dict r))"

lemma clean_const_req:
  "clean_req (const_req c p x v r ts now quad) \<longleftrightarrow>
     jsonable_dict p \<and> jsonable_dict x \<and> jsonable_dict v \<and> jsonable_dict r \<and>
     map_of (rev v) ''passed'' = Some (PBool True)"
  by (auto simp: clean_req_def const_req_def)

lemma jsonable_merge_id: "jsonable_dict d \<Longrightarrow> jsonable_dict (dict_merge [(k, PStr u)] d)"
  by (rule jsonable_dict_merge) simp_all

lemma passed_merge:
  "e_payload v = dict_merge [(k, PStr u)] d \<Longrightarrow> map_of (rev d) ''passed'' = Some (PBool True) \<Longrightarrow> passed v"
  by (simp add: passed_def dget_def map_of_dict_merge)

lemma mem_write_clean: "clean_req req \<Longrightarrow> \<exists>res st'. mem_write E req st = (Inr res, st')"
proof -
  assume clean: "clean_req req"
  then obtain x where p: "jsonable_dict (wr_propose req)" and x: "wr_execute req = Inr x" "jsonable_dict x"
    by (auto simp: clean_req_def)
  define c where "c = wr_company req"
  define rows where "rows = mem_rows st c"
  obtain ep s1 where ep: "mem_append E req (if rows = [] then 0 else e_seq (last rows))
      (if rows = [] then GENESIS_PREV_HASH else e_hash (last rows)) ''propose'' (wr_propose req)
      (mem_set c rows st) = (Inr ep, s1)"
    using mem_append_defined [OF p] by blast
  obtain xp where xp: "exec_payload req ep = Inr xp" "jsonable_dict xp"
    using x jsonable_merge_id by (simp add: exec_payload_def)
  obtain ee s2 where ee: "mem_append E req (e_seq ep) (e_hash ep) ''execute'' xp s1 = (Inr ee, s2)"
    using mem_append_defined [OF xp(2)] by blast
  obtain vb where vb: "wr_verify req (e_payload ee) = Inr vb" "jsonable_dict vb"
    "map_of (rev vb) ''passed'' = Some (PBool True)" using clean by (meson clean_req_def)
  then obtain vp where vp: "verify_payload req ee = Inr vp" "jsonable_dict vp"
    "vp = dict_merge [(''execute_entry_id'', PStr (e_id ee))] vb"
    using jsonable_merge_id by (simp add: verify_payload_def)
  obtain ev s3 where ev: "mem_append E req (e_seq ee) (e_hash ee) ''verify'' vp s2 = (Inr ev, s3)"
    using mem_append_defined [OF vp(2)] by blast
  then have "e_payload ev = vp" by (auto dest!: mem_append_Inr simp: built_def)
  then have pass: "passed ev" using vp(3) vb(3) passed_merge by blast
  obtain rb where "wr_resolve req (e_payload ev) = Inr rb" "jsonable_dict rb"
    using clean by (meson clean_req_def)
  then obtain rp where rp: "resolve_payload req ev = Inr rp" "jsonable_dict rp"
    using jsonable_merge_id by (simp add: resolve_payload_def)
  obtain er s4 where er: "mem_append E req (e_seq ev) (e_hash ev) ''resolve'' rp s3 = (Inr er, s4)"
    using mem_append_defined [OF rp(2)] by blast
  show ?thesis
    by (simp only: mem_write_def Let_def flip: c_def rows_def)
      (simp add: ep xp ee vp(1) ev pass rp er)
qed

subsection \<open>Outcomes of the database write\<close>

definition db_log :: "'db backend \<Rightarrow> 'db session \<Rightarrow> uuid \<Rightarrow> entry list" where
  "db_log B s c = fetch_entries B s c None"

definition db_invar :: "env \<Rightarrow> 'db backend \<Rightarrow> 'db session \<Rightarrow> bool" where
  "db_invar E B s = (\<forall>c. chain_inv E c (db_log B s c))"

lemma db_log_def': "db_log B s c = sort_key e_seq (company_rows B s c)"
  by (simp add: db_log_def fetch_entries_def)

lemma chain_inv_sorted:
  assumes "chain_inv E c rows"
  shows "sorted (map e_seq rows)" and "distinct (map e_seq rows)"
    and "\<And>r. r \<in> set rows \<Longrightarrow> e_seq r \<le> int (length rows)"
proof -
  have m: "map e_seq rows = map int [1..<Suc (length rows)]"
    using assms by (simp add: chain_inv_def)
  have "sorted (map int [1..<Suc (length rows)])"
    using sorted_upt [of 1 "Suc (length rows)"] by (simp add: sorted_map del: upt_Suc)
  with m show "sorted (map e_seq rows)" by metis
  show "distinct (map e_seq rows)"
    unfolding m by (simp add: distinct_map del: upt_Suc)
  show "e_seq r \<le> int (length rows)" if "r \<in> set rows" for r
  proof -
    have "e_seq r \<in> set (map e_seq rows)" using that by simp
    then show ?thesis unfolding m by auto
  qed
qed

text \<open>Rows under a fresh highest number sort to the old ones followed by the new one.\<close>

lemma sort_key_add_max:
  fixes f :: "'a \<Rightarrow> int"
  assumes "mset ys = add_mset e (mset xs)" and "distinct (map f (sort_key f xs))"
    and "\<And>x. x \<in> set xs \<Longrightarrow> f x < f e"
  shows "sort_key f ys = sort_key f xs @ [e]"
proof (rule sort_key_inj_key_eq)
  show "mset ys = mset (sort_key f xs @ [e])" using assms(1) by simp
  have set_ys: "set ys = insert e (set xs)" using assms(1) by (metis set_mset_add_mset_insert set_mset_mset)
  have "inj_on f (set xs)" using assms(2) by (simp add: distinct_map)
  moreover have "f e \<notin> f ` set xs" using assms(3) by fastforce
  ultimately show "inj_on f (set ys)" unfolding set_ys inj_on_insert by blast
  show "sorted (map f (sort_key f xs @ [e]))" using assms(3) by (auto simp: sorted_append less_imp_le)
qed

lemma sort_key_same:
  fixes f :: "'a \<Rightarrow> int"
  assumes "mset ys = mset xs" and "distinct (map f (sort_key f xs))"
  shows "sort_key f ys = sort_key f xs"
  by (rule sort_key_inj_key_eq)
    (use assms in \<open>auto simp: distinct_map dest: mset_eq_setD\<close>)

text \<open>Descending order by a key with no repetition is the reverse of ascending order.\<close>

lemma sort_key_neg:
  fixes f :: "'a \<Rightarrow> int"
  assumes "distinct (map f (sort_key f xs))"
  shows "sort_key (\<lambda>x. - f x) xs = rev (sort_key f xs)"
proof (rule sort_key_inj_key_eq)
  show "mset xs = mset (rev (sort_key f xs))" by simp
  show "inj_on (\<lambda>x. - f x) (set xs)" using assms by (simp add: distinct_map inj_on_def)
  have "sorted_wrt (\<lambda>a b. f b \<le> f a) (rev (sort_key f xs))"
    using sorted_sort_key [of f xs] by (simp add: sorted_wrt_rev sorted_map)
  then show "sorted (map (\<lambda>x. - f x) (rev (sort_key f xs)))" by (simp add: sorted_map)
qed

text \<open>A session at the end of a company's chain: its last number and hash.\<close>

definition tail_at :: "env \<Rightarrow> 'db backend \<Rightarrow> 'db session \<Rightarrow> uuid \<Rightarrow> int \<Rightarrow> bytes \<Rightarrow> bool" where
  "tail_at E B s c n h =
     (db_invar E B s \<and> n = int (length (db_log B s c)) \<and> h = head_hash GENESIS_PREV_HASH (db_log B s c))"

lemma db_tail_log:
  assumes "chain_inv E c (db_log B s c)"
  shows "db_tail B s c = (int (length (db_log B s c)), head_hash GENESIS_PREV_HASH (db_log B s c))"
proof -
  have "sort_key (\<lambda>r. - e_seq r) (company_rows B s c) = rev (db_log B s c)"
    using sort_key_neg [of e_seq] chain_inv_sorted(2) [OF assms] by (simp add: db_log_def')
  then show ?thesis
    using chain_inv_last [OF assms]
    by (cases "db_log B s c" rule: rev_cases) (auto simp: db_tail_def head_hash_def)
qed

text \<open>What the code relies on of the database: a row that is accepted is there afterwards.\<close>

locale sql_backend =
  fixes B :: "'db backend"
  assumes insert_rows: "be_insert B e db = Inr db' \<Longrightarrow> mset (be_rows B db') = add_mset e (mset (be_rows B db))"
begin

lemma company_rows_insert:
  "be_insert B e (s_db s) = Inr db' \<Longrightarrow> s_db s' = db' \<Longrightarrow>
     mset (company_rows B s' c) = (if e_company e = c then add_mset e (mset (company_rows B s c))
                                   else mset (company_rows B s c))"
  by (simp add: company_rows_def insert_rows)

lemma db_append_log:
  assumes inv: "db_invar E B s" and app: "db_append E B req sq prev kind pl s = (Inr e, s')"
    and c: "c = wr_company req" and sq: "sq = int (length (db_log B s c)) + 1"
    and prev: "prev = head_hash GENESIS_PREV_HASH (db_log B s c)"
  shows "built E req sq prev kind pl e" and "db_log B s' = (db_log B s)(c := db_log B s c @ [e])" and "db_invar E B s'"
proof -
  from app obtain db' where b: "build_entry E (uuid4 E (s_draws s)) req sq prev kind pl = Inr e"
    and ins: "be_insert B e (s_db s) = Inr db'" and s': "s_db s' = db'"
    by (auto simp: db_append_def Let_def split: sum.splits)
  from b show built: "built E req sq prev kind pl e" by (simp add: build_entry_built)
  note rows = company_rows_insert [OF ins s']
  have ch: "chain_inv E d (db_log B s d)" for d using inv by (simp add: db_invar_def)
  have logs: "db_log B s' d = ((db_log B s)(c := db_log B s c @ [e])) d" for d
  proof (cases "d = c")
    case True
    have "e_seq r < e_seq e" if "r \<in> set (company_rows B s c)" for r
      using chain_inv_sorted(3) [OF ch, of r c] that built_seq [OF built] sq by (simp add: db_log_def')
    then have "sort_key e_seq (company_rows B s' c) = sort_key e_seq (company_rows B s c) @ [e]"
      using built c chain_inv_sorted(2) [OF ch, of c]
      by (intro sort_key_add_max) (auto simp: rows built_def db_log_def')
    with True show ?thesis by (simp add: db_log_def')
  next
    case False
    then have "mset (company_rows B s' d) = mset (company_rows B s d)"
      using built c by (simp add: rows built_def)
    then have "sort_key e_seq (company_rows B s' d) = sort_key e_seq (company_rows B s d)"
      by (rule sort_key_same) (rule chain_inv_sorted(2) [OF ch, unfolded db_log_def'])
    with False show ?thesis by (simp add: db_log_def')
  qed
  then show "db_log B s' = (db_log B s)(c := db_log B s c @ [e])" by blast
  have "chain_inv E c (db_log B s c @ [e])"
    by (rule chain_inv_snoc [OF ch _ c [symmetric]]) (use built sq prev in simp)
  with logs ch show "db_invar E B s'" by (simp add: db_invar_def)
qed

lemma db_append_tail:
  assumes "tail_at E B s c n h" and "db_append E B req k h kind pl s = (Inr e, s')"
    and "c = wr_company req" and "k = n + 1"
  shows "built E req k h kind pl e" and "db_log B s' = (db_log B s)(c := db_log B s c @ [e])"
    and "tail_at E B s' c k (e_hash e)"
  using assms db_append_log [of E s req k h kind pl e s' c] by (simp_all add: tail_at_def)

lemma write_primitive_rows:
  assumes inv: "db_invar E B s" and w: "write_primitive E B req s = (Inr res, s')"
  shows "\<exists>new. db_log B s' = (db_log B s)(wr_company req := db_log B s (wr_company req) @ new) \<and>
     pevr_rows E req (int (length (db_log B s (wr_company req))))
       (head_hash GENESIS_PREV_HASH (db_log B s (wr_company req))) new \<and> res = result_of_rows new \<and> db_invar E B s'"
proof -
  define c where "c = wr_company req"
  define n where "n = int (length (db_log B s c))"
  define h where "h = head_hash GENESIS_PREV_HASH (db_log B s c)"
  have tail: "db_tail B s (wr_company req) = (n, h)"
    using inv db_tail_log [of E c B s] by (simp add: c_def n_def h_def db_invar_def)
  from w obtain p s1 xp e s2 vp v s3 rp r
    where P: "db_append E B req (n + 1) h ''propose'' (wr_propose req) s = (Inr p, s1)"
      and X: "exec_payload req p = Inr xp"
      and X': "db_append E B req (n + 2) (e_hash p) ''execute'' xp s1 = (Inr e, s2)"
      and V': "verify_payload req e = Inr vp"
      and V: "db_append E B req (n + 3) (e_hash e) ''verify'' vp s2 = (Inr v, s3)"
      and pass: "passed v" and R': "resolve_payload req v = Inr rp"
      and R: "db_append E B req (n + 4) (e_hash v) ''resolve'' rp s3 = (Inr r, s')"
      and res: "res = write_result_of p e v r"
    by (auto simp: write_primitive_def tail sbind_Inr_iff split: if_splits)
  have t0: "tail_at E B s c n h" using inv by (simp add: tail_at_def n_def h_def)
  note p = db_append_tail [OF t0 P c_def refl]
  note e = db_append_tail [OF p(3) X' c_def]
  note v = db_append_tail [OF e(3) V c_def]
  note r = db_append_tail [OF v(3) R c_def]
  have "pevr_rows E req n h [p, e, v, r]"
    by (rule pevr_rowsI [OF p(1) X e(1) V' v(1) pass R' r(1)]) simp_all
  moreover have "db_log B s' = (db_log B s)(c := db_log B s c @ [p, e, v, r])"
    using p(2) e(2) v(2) r(2) by simp
  moreover have "db_invar E B s'" using r(3) by (simp add: tail_at_def)
  ultimately show ?thesis
    using res by (intro exI [of _ "[p, e, v, r]"])
      (simp add: n_def h_def c_def write_result_of_def result_of_rows_def)
qed

end

subsection \<open>The interface of a ledger\<close>

text \<open>
  The operations the rest of the system calls, on either ledger: \<open>write\<close>, \<open>fetch\<close>, and the
  \<open>uuid4\<close> draw of the process that holds it. The laws are what a caller relies on.
\<close>

record 's store =
  st_write :: "write_req \<Rightarrow> ('s, write_result) act"
  st_fetch :: "'s \<Rightarrow> uuid \<Rightarrow> int option \<Rightarrow> entry list"
  st_uuid :: "'s \<Rightarrow> uuid \<times> 's"

locale ledger_store =
  fixes E :: env and L :: "'s store" and invar :: "'s \<Rightarrow> bool"
  assumes write_appends: "invar s \<Longrightarrow> st_write L req s = (Inr res, s') \<Longrightarrow>
      \<exists>new. st_fetch L s' (wr_company req) None = st_fetch L s (wr_company req) None @ new \<and>
        pevr_rows E req (int (length (st_fetch L s (wr_company req) None)))
          (head_hash GENESIS_PREV_HASH (st_fetch L s (wr_company req) None)) new \<and>
        res = result_of_rows new"
    and write_frame: "invar s \<Longrightarrow> st_write L req s = (out, s') \<Longrightarrow> d \<noteq> wr_company req \<Longrightarrow>
      st_fetch L s' d None = st_fetch L s d None"
    and write_failed: "invar s \<Longrightarrow> clean_req req \<Longrightarrow> st_write L req s = (Inl x, s') \<Longrightarrow>
      st_fetch L s' d None = st_fetch L s d None"
    and write_invar: "invar s \<Longrightarrow> st_write L req s = (out, s') \<Longrightarrow> invar s'"
    and fetch_chain: "invar s \<Longrightarrow> chain_inv E c (st_fetch L s c None)"
    and fetch_until: "st_fetch L s c (Some t) = filter (\<lambda>r. e_ts r \<le> t) (st_fetch L s c None)"
    and uuid_fetch: "st_uuid L s = (u, s') \<Longrightarrow> st_fetch L s' d q = st_fetch L s d q"
    and uuid_invar: "invar s \<Longrightarrow> st_uuid L s = (u, s') \<Longrightarrow> invar s'"

locale reliable_store = ledger_store +
  assumes write_clean: "clean_req req \<Longrightarrow> \<exists>res s'. st_write L req s = (Inr res, s')"

definition mem_store :: "env \<Rightarrow> mem store" where
  "mem_store E = \<lparr>st_write = mem_write E, st_fetch = mem_fetch,
     st_uuid = (\<lambda>st. (uuid4 E (m_draws st), st\<lparr>m_draws := Suc (m_draws st)\<rparr>))\<rparr>"

definition db_store :: "env \<Rightarrow> 'db backend \<Rightarrow> 'db session store" where
  "db_store E B = \<lparr>st_write = ledger_write E B, st_fetch = fetch_entries B,
     st_uuid = (\<lambda>s. (uuid4 E (s_draws s), s\<lparr>s_draws := Suc (s_draws s)\<rparr>))\<rparr>"

lemma store_sel [simp]:
  "st_write (mem_store E) = mem_write E" "st_fetch (mem_store E) = mem_fetch"
  "st_write (db_store E B) = ledger_write E B" "st_fetch (db_store E B) = fetch_entries B"
  by (simp_all add: mem_store_def db_store_def)

lemma mem_fetch_all [simp]: "mem_fetch st c None = mem_rows st c"
  by (simp add: mem_fetch_def)

interpretation ml: reliable_store E "mem_store E" "mem_invar E" for E
proof (unfold_locales, goal_cases)
  case (1 s req res s')
  then have w: "mem_write E req s = (Inr res, s')"
    and c: "chain_inv E (wr_company req) (mem_rows s (wr_company req))" by (simp_all add: mem_invar_def)
  show ?case by (rule mem_write_rows [OF w c]) auto
next
  case (2 s req out s' d)
  then show ?case by (simp add: mem_write_frame)
next
  case (3 s req x s' d)
  then show ?case using mem_write_clean [of req E s] by simp
next
  case (4 s req out s')
  then show ?case using mem_write_invar [of E s req] by simp
next
  case (5 s c)
  then show ?case by (simp add: mem_invar_def)
next
  case (6 s c t)
  then show ?case by (simp add: mem_fetch_def)
next
  case (7 s u s' d q)
  then show ?case by (auto simp: mem_store_def mem_fetch_def split: option.splits)
next
  case (8 s u s')
  then show ?case by (auto simp: mem_store_def mem_invar_def)
next
  case (9 req s)
  then show ?case by (simp add: mem_write_clean)
qed

lemma ledger_write_Inr: "ledger_write E B req s = (Inr res, s') \<longleftrightarrow> write_primitive E B req s = (Inr res, s')"
  by (auto simp: ledger_write_def session_scope_def split: prod.splits sum.splits)

lemma ledger_write_Inl: "ledger_write E B req s = (Inl x, s') \<Longrightarrow> s_db s' = s_db s"
  by (auto simp: ledger_write_def session_scope_def split: prod.splits sum.splits)

lemma db_log_cong: "s_db s' = s_db s \<Longrightarrow> fetch_entries B s' c q = fetch_entries B s c q"
  by (simp add: fetch_entries_def company_rows_def)

lemma ledger_write_Inl_log: "ledger_write E B req s = (Inl x, s') \<Longrightarrow> db_log B s' d = db_log B s d"
  by (simp add: db_log_def db_log_cong [OF ledger_write_Inl])

lemma db_store_ledger:
  assumes "sql_backend B"
  shows "ledger_store E (db_store E B) (db_invar E B)"
proof (unfold_locales, goal_cases)
  case (1 s req res s')
  then show ?case
    using sql_backend.write_primitive_rows [OF assms, of E s req res s']
    by (auto simp: ledger_write_Inr simp flip: db_log_def)
next
  case (2 s req out s' d)
  then show ?case
    using sql_backend.write_primitive_rows [OF assms, of E s req _ s']
    by (cases out) (auto simp: ledger_write_Inr ledger_write_Inl_log simp flip: db_log_def)
next
  case (3 s req x s' d)
  then show ?case by (simp add: db_log_cong [OF ledger_write_Inl])
next
  case (4 s req out s')
  then show ?case
    using sql_backend.write_primitive_rows [OF assms, of E s req _ s']
    by (cases out) (auto simp: ledger_write_Inr db_invar_def db_log_def db_log_cong [OF ledger_write_Inl])
next
  case (5 s c)
  then show ?case by (simp add: db_invar_def db_log_def)
next
  case (6 s c t)
  then show ?case by (simp add: fetch_entries_def filter_sort)
next
  case (7 s u s' d q)
  then show ?case by (auto simp: db_store_def intro!: db_log_cong)
next
  case (8 s u s')
  then show ?case by (auto simp: db_store_def db_invar_def db_log_def fetch_entries_def company_rows_def)
qed

interpretation sb: sql_backend schema_backend
  by unfold_locales (auto simp: schema_backend_def split: if_splits)

interpretation dl: ledger_store E "db_store E schema_backend" "db_invar E schema_backend" for E
  by (rule db_store_ledger) unfold_locales

end
