(* ===== verification/Gate_Writes.thy ===== *)
theory Gate_Writes
  imports Ledger_Store
begin

section \<open>How components record what they did\<close>

text \<open>
  Every gate, loader and runner records its decisions with the same kind of \<open>ledger.write\<close>: a
  fresh \<open>ref_id\<close>, fixed dictionaries in the four callbacks, a verify step that passes. The
  lemmas, proved once over the interface \<open>ledger_store\<close>, say what such a write adds to the
  execute rows of the company and that nothing else changes. The identifiers \<open>uuid4\<close> yields are
  an arbitrary stream, so the order in which one call draws several of them is not modelled.
\<close>

definition gate_req :: "uuid \<Rightarrow> string \<Rightarrow> uuid \<Rightarrow> string \<Rightarrow> string \<Rightarrow> string \<Rightarrow> pydict \<Rightarrow> string \<Rightarrow>
    string \<Rightarrow> string \<Rightarrow> string \<Rightarrow> int \<Rightarrow> string \<Rightarrow> write_req" where
  "gate_req c target ref reason by tool args result_ref check outcome rationale now quad =
     const_req c
       [(''target_kind'', PStr target), (''ref_id'', PStr ref), (''reason'', PStr reason), (''proposed_by'', PStr by)]
       [(''tool'', PStr tool), (''args'', PDict args), (''result_ref'', PStr result_ref)]
       [(''checks'', PList [PDict [(''name'', PStr check), (''ok'', PBool True)]]), (''passed'', PBool True)]
       [(''outcome'', PStr outcome), (''rationale'', PStr rationale)] (Some now) now quad"

definition with_uuid :: "'s store \<Rightarrow> (uuid \<Rightarrow> ('s, 'a) act) \<Rightarrow> ('s, 'a) act" where
  "with_uuid L f s = (case st_uuid L s of (u, s') \<Rightarrow> f u s')"

definition record_write :: "'s store \<Rightarrow> (uuid \<Rightarrow> write_req) \<Rightarrow> ('s, unit) act" where
  "record_write L mk = with_uuid L (\<lambda>u. sbind (st_write L (mk u)) (\<lambda>_. sret ()))"

subsection \<open>The execute rows of a log\<close>

definition execs :: "entry list \<Rightarrow> (int \<times> pydict) list" where
  "execs rows = map (\<lambda>r. (e_ts r, e_payload r)) (filter (\<lambda>r. e_kind r = ''execute'') rows)"

lemma execs_simps [simp]:
  "execs [] = []"
  "execs (r # rows) = (if e_kind r = ''execute'' then (e_ts r, e_payload r) # execs rows else execs rows)"
  "execs (rows @ rows') = execs rows @ execs rows'"
  by (simp_all add: execs_def)

definition payload_of :: "string \<Rightarrow> pydict \<Rightarrow> pydict \<Rightarrow> bool" where
  "payload_of tool args pl = (dget pl ''tool'' = PStr tool \<and> map_of pl ''args'' = Some (PDict args))"

text \<open>One more execute row at \<open>c\<close>, with this tool and these arguments, and nothing else.\<close>

definition logged :: "'s store \<Rightarrow> 's \<Rightarrow> 's \<Rightarrow> uuid \<Rightarrow> int \<Rightarrow> string \<Rightarrow> pydict \<Rightarrow> bool" where
  "logged L s s' c now tool args =
     ((\<exists>pl. payload_of tool args pl \<and>
         execs (st_fetch L s' c None) = execs (st_fetch L s c None) @ [(now, pl)]) \<and>
      length (st_fetch L s' c None) = length (st_fetch L s c None) + 4 \<and>
      (\<forall>d. d \<noteq> c \<longrightarrow> st_fetch L s' d None = st_fetch L s d None))"

definition unlogged :: "'s store \<Rightarrow> 's \<Rightarrow> 's \<Rightarrow> bool" where
  "unlogged L s s' = (\<forall>d. st_fetch L s' d None = st_fetch L s d None)"

lemma unlogged_refl [simp]: "unlogged L s s"
  by (simp add: unlogged_def)

lemma gate_req_sel [simp]:
  "wr_company (gate_req c tk u rs by t args rr ck oc ra now q) = c"
  "write_time (gate_req c tk u rs by t args rr ck oc ra now q) = now"
  by (simp_all add: gate_req_def const_req_def write_time_def)

lemma gate_req_clean: "clean_req (gate_req c tk u rs by t args rr ck oc ra now q) \<longleftrightarrow> jsonable_dict args"
  by (simp add: gate_req_def clean_const_req) (simp add: jsonable_dict_def)

lemma gate_req_exec: "exec_payload (gate_req c tk u rs by t args rr ck oc ra now q) p = Inr x \<Longrightarrow> payload_of t args x"
  by (auto simp: gate_req_def const_req_def exec_payload_def payload_of_def dget_def dict_merge_def)

lemma pevr_rows_execs:
  assumes "pevr_rows E req sq prev new"
  shows "\<exists>pl p. exec_payload req p = Inr pl \<and> execs new = [(write_time req, pl)]"
  using assms by (rule pevr_rowsE) (auto simp: built_def)

context ledger_store
begin

text \<open>The four rows a write with constant callbacks appends.\<close>

lemma const_write_rows:
  assumes "invar s" and w: "st_write L (const_req c p x v r ts now q) s = (Inr res, s')"
  shows "\<exists>rp re rv rr. st_fetch L s' c None = st_fetch L s c None @ [rp, re, rv, rr] \<and>
    e_kind rp = ''propose'' \<and> e_payload rp = p \<and>
    e_kind re = ''execute'' \<and> e_payload re = dict_merge [(''propose_entry_id'', PStr (e_id rp))] x \<and>
    e_seq re = int (length (st_fetch L s c None)) + 2 \<and>
    e_kind rv = ''verify'' \<and> e_payload rv = dict_merge [(''execute_entry_id'', PStr (e_id re))] v \<and>
    e_kind rr = ''resolve'' \<and> e_payload rr = dict_merge [(''verify_entry_id'', PStr (e_id rv))] r"
proof -
  have c: "wr_company (const_req c p x v r ts now q) = c" by (simp add: const_req_def)
  from write_appends [OF assms] obtain new
    where new: "st_fetch L s' c None = st_fetch L s c None @ new"
      and pevr: "pevr_rows E (const_req c p x v r ts now q)
        (int (length (st_fetch L s c None))) (head_hash GENESIS_PREV_HASH (st_fetch L s c None)) new"
    unfolding c by blast
  from pevr show ?thesis
    by (rule pevr_rowsE)
       (use new in \<open>auto simp: built_def exec_payload_def verify_payload_def resolve_payload_def const_req_def\<close>)
qed

lemma gate_write_logged:
  assumes "invar s" and w: "st_write L (gate_req c tk u rs by t args rr ck oc ra now q) s = (Inr res, s')"
  shows "logged L s s' c now t args" and "invar s'"
proof -
  show "invar s'" by (rule write_invar [OF assms])
  from write_appends [OF assms] obtain new
    where new: "st_fetch L s' c None = st_fetch L s c None @ new"
      and pevr: "pevr_rows E (gate_req c tk u rs by t args rr ck oc ra now q)
        (int (length (st_fetch L s c None))) (head_hash GENESIS_PREV_HASH (st_fetch L s c None)) new"
    by auto
  from pevr_rows_execs [OF pevr] pevr_rows_length [OF pevr] new write_frame [OF assms]
  show "logged L s s' c now t args"
    by (auto simp: logged_def dest: gate_req_exec)
qed

lemma record_write_logged:
  assumes "invar s" and "record_write L (\<lambda>u. gate_req c tk u rs by t args rr ck oc ra now q) s = (Inr x, s')"
  shows "logged L s s' c now t args" and "invar s'"
proof -
  obtain u s1 where u: "st_uuid L s = (u, s1)" by (cases "st_uuid L s")
  note s1 = uuid_invar [OF assms(1) u] uuid_fetch [OF u]
  from assms(2) obtain res where
    w: "st_write L (gate_req c tk u rs by t args rr ck oc ra now q) s1 = (Inr res, s')"
    by (auto simp: record_write_def with_uuid_def u sbind_Inr_iff)
  from gate_write_logged [OF s1(1) w] show "logged L s s' c now t args" "invar s'"
    by (simp_all add: logged_def s1(2))
qed

lemma with_uuid_cases:
  assumes "invar s" and "with_uuid L f s = (out, s')"
  obtains u s1 where "invar s1" "f u s1 = (out, s')" "\<And>d q. st_fetch L s1 d q = st_fetch L s d q"
proof (cases "st_uuid L s")
  case (Pair u s1)
  with assms(2) have "f u s1 = (out, s')" by (simp add: with_uuid_def)
  with that [OF uuid_invar [OF assms(1) Pair]] uuid_fetch [OF Pair] show thesis by blast
qed

lemma record_write_failed:
  assumes "invar s" and "jsonable_dict args"
    and "record_write L (\<lambda>u. gate_req c tk u rs by t args rr ck oc ra now q) s = (Inl x, s')"
  shows "unlogged L s s'" and "invar s'"
proof -
  obtain u s1 where u: "st_uuid L s = (u, s1)" by (cases "st_uuid L s")
  note s1 = uuid_invar [OF assms(1) u] uuid_fetch [OF u]
  from assms(3) have w: "st_write L (gate_req c tk u rs by t args rr ck oc ra now q) s1 = (Inl x, s')"
    by (auto simp: record_write_def with_uuid_def u sbind_def split: sum.splits prod.splits)
  show "invar s'" by (rule write_invar [OF s1(1) w])
  show "unlogged L s s'"
    using write_failed [OF s1(1) _ w] assms(2) by (simp add: unlogged_def s1(2) gate_req_clean)
qed

lemma record_write_cases:
  assumes "invar s" and "jsonable_dict args"
    and "record_write L (\<lambda>u. gate_req c tk u rs by t args rr ck oc ra now q) s = (out, s')"
  obtains "invar s'" "out = Inr ()" "logged L s s' c now t args"
  | x where "invar s'" "out = Inl x" "unlogged L s s'"
proof (cases out)
  case (Inl x)
  with record_write_failed [OF assms(1,2) assms(3) [unfolded Inl]] that(2) show thesis by blast
next
  case (Inr u)
  with record_write_logged [OF assms(1) assms(3) [unfolded Inr]] that(1) show thesis by simp
qed

lemma logged_cong: "(\<And>d q. st_fetch L s1 d q = st_fetch L s d q) \<Longrightarrow> logged L s1 s' c now t args \<longleftrightarrow> logged L s s' c now t args"
  and unlogged_cong: "(\<And>d q. st_fetch L s1 d q = st_fetch L s d q) \<Longrightarrow> unlogged L s1 s' \<longleftrightarrow> unlogged L s s'"
  by (simp_all add: logged_def unlogged_def)

end

context reliable_store
begin

lemma gate_write_ok:
  "jsonable_dict args \<Longrightarrow> \<exists>res s'. st_write L (gate_req c tk u rs by t args rr ck oc ra now q) s = (Inr res, s')"
  by (rule write_clean) (simp add: gate_req_clean)

lemma record_write_ok:
  "jsonable_dict args \<Longrightarrow>
     \<exists>s'. record_write L (\<lambda>u. gate_req c tk u rs by t args rr ck oc ra now q) s = (Inr (), s')"
proof -
  assume j: "jsonable_dict args"
  obtain u s1 where u: "st_uuid L s = (u, s1)" by (cases "st_uuid L s")
  from gate_write_ok [OF j]
  obtain res s2 where "st_write L (gate_req c tk u rs by t args rr ck oc ra now q) s1 = (Inr res, s2)"
    by blast
  then show ?thesis by (simp add: record_write_def with_uuid_def u)
qed

end

end
