(* ===== verification/Demo_Environment.thy ===== *)
theory Demo_Environment
  imports Gate_Writes
begin

section \<open>The environment of the witnesses\<close>

text \<open>
  \<open>demo_env\<close>: a digest that keeps two characters of the text (the number of the entry's
  identifier), decimal fractions for floats, numbered identifiers. \<open>db_start\<close> is an empty
  database and \<open>demo_req\<close> a write request.
\<close>

definition demo_env :: env where
  "demo_env = \<lparr>sha256 = (\<lambda>t. take 2 (drop 30 t)),
     float_repr = (\<lambda>r. dec_int (fst (quotient_of r)) @ ''e'' @ dec_int (snd (quotient_of r))),
     obj_str = (\<lambda>_. ''object''),
     str_lower = map (\<lambda>c. if (of_char c :: nat) \<in> {65..90} then char_of ((of_char c :: nat) + 32) else c),
     uuid4 = (\<lambda>n. CHR ''u'' # dec_nat n)\<rparr>"

lemma dec_int_no_e: "CHR ''e'' \<notin> set (dec_int i)"
  using dec_nat_no_sep [of "CHR ''e''"] by (auto simp: dec_int_def digits_def)

lemma demo_floats_ok: "floats_ok demo_env"
proof -
  have "inj (\<lambda>r. dec_int (fst (quotient_of r)) @ ''e'' @ dec_int (snd (quotient_of r)))"
  proof (rule injI)
    fix q r
    assume "dec_int (fst (quotient_of q)) @ ''e'' @ dec_int (snd (quotient_of q)) =
      dec_int (fst (quotient_of r)) @ ''e'' @ dec_int (snd (quotient_of r))"
    from split_at_sep [OF this [simplified] dec_int_no_e dec_int_no_e]
    have "quotient_of q = quotient_of r" by (simp add: dec_int_inj prod_eq_iff)
    then show "q = r" by (metis quotient_of_inject)
  qed
  moreover have "number_literal (dec_int i @ ''e'' @ dec_int j)" for i j
    using dec_int_number_literal [of i] dec_int_number_literal [of j]
    by (cases "dec_int i") (auto simp: number_literal_def number_chars_def)
  ultimately show ?thesis by (simp add: floats_ok_def demo_env_def)
qed

definition demo_req :: "uuid \<Rightarrow> string \<Rightarrow> bool \<Rightarrow> write_req" where
  "demo_req c text ok = const_req c [(''target_kind'', PStr ''memory_written''), (''content'', PStr text)]
     [(''tool'', PStr ''emit''), (''args'', PDict [(''content'', PStr text), (''n'', PInt 1)])]
     [(''passed'', PBool ok)] [(''outcome'', PStr ''keep'')] (Some 1700000000000000) 0 ''active_deterministic''"

definition db_start :: "entry list session" where
  "db_start = \<lparr>s_db = [], s_draws = 0\<rparr>"

lemma db_start_invar: "db_invar E schema_backend db_start"
  by (simp add: db_invar_def db_log_def' company_rows_def schema_backend_def db_start_def)

end
