(* ===== verification/Ledger_Properties.thy ===== *)
theory Ledger_Properties
  imports Demo_Environment
begin

section \<open>What the ledger guarantees\<close>

text \<open>
  The properties of \<open>packages/ledger\<close>: the chain a ledger reports is always verified, whatever
  the callbacks of a write do; two verified chains with one head agree; a database write is all
  or nothing; the in-memory ledger computes the same rows as the database one.
\<close>

subsection \<open>Canonical JSON\<close>

text \<open>C27: Two dictionaries with the same canonical JSON encode to the same JSON object, so the
  hash of an entry determines its content: no two different values print alike.\<close>

theorem canonical_json_injective:
  assumes "floats_ok E" and "canonical_json E d = Inr t" and "canonical_json E d' = Inr t"
  shows "\<exists>j. json_encode E (PDict (filter (\<lambda>(k, v). k \<noteq> ''hash'') d)) = Inr j \<and>
             json_encode E (PDict (filter (\<lambda>(k, v). k \<noteq> ''hash'') d')) = Inr j"
  by (rule json_dumps_inj [OF assms(1)]) (use assms(2,3) in \<open>simp_all only: canonical_json_def\<close>)

theorem canonical_json_injective_witness:
  "\<exists>j. json_encode demo_env (PDict [(''b'', PInt 2), (''a'', PStr ''x'')]) = Inr j \<and>
       json_encode demo_env (PDict [(''a'', PStr ''x''), (''b'', PInt 2)]) = Inr j"
proof -
  have "canonical_json demo_env [(''b'', PInt 2), (''a'', PStr ''x''), (''hash'', PNone)] = Inr ''{\"a\":\"x\",\"b\":2}''"
    "canonical_json demo_env [(''a'', PStr ''x''), (''b'', PInt 2)] = Inr ''{\"a\":\"x\",\"b\":2}''"
    by code_simp+
  from canonical_json_injective [OF demo_floats_ok this] show ?thesis by simp
qed

text \<open>A dictionary has a canonical JSON text exactly when none of its values outside the
  \<open>hash\<close> key is a naive datetime or an object JSON has no form for, at any depth.\<close>

theorem canonical_json_defined_iff:
  "(\<exists>t. canonical_json E d = Inr t) \<longleftrightarrow> jsonable_dict (filter (\<lambda>(k, v). k \<noteq> ''hash'') d)"
  by (rule canonical_json_defined)

subsection \<open>Chain verification\<close>

text \<open>A row whose hash does not follow: another predecessor, or another digest.\<close>

definition entry_broken :: "env \<Rightarrow> bytes \<Rightarrow> entry \<Rightarrow> bool" where
  "entry_broken E prev e = (if e_prev e = prev
     then (case compute_entry_hash E (entry_dict e) of Inl _ \<Rightarrow> False | Inr h \<Rightarrow> h \<noteq> e_hash e) else True)"

lemma entry_broken_not_ok: "entry_broken E prev e \<Longrightarrow> \<not> entry_ok E prev e"
  by (auto simp: entry_broken_def entry_ok_def split: sum.splits if_splits)

lemma verify_from_broken_iff:
  "verify_from E i prev es = Inr (False, Some j) \<longleftrightarrow>
     (\<exists>k < length es. j = i + k \<and> linked E prev (take k es) \<and> entry_broken E (prev_of prev es k) (es ! k))"
proof (induction es arbitrary: i prev)
  case (Cons e es)
  have shift: "prev_of prev (e # es) (Suc k) = prev_of (e_hash e) es k" for k
    by (cases k) (simp_all add: prev_of_def)
  have zero: "prev_of prev (e # es) 0 = prev" by (simp add: prev_of_def)
  have "(\<exists>k < length (e # es). j = i + k \<and> linked E prev (take k (e # es)) \<and>
          entry_broken E (prev_of prev (e # es) k) ((e # es) ! k)) \<longleftrightarrow>
        j = i \<and> entry_broken E prev e \<or>
        entry_ok E prev e \<and> (\<exists>k < length es. j = Suc i + k \<and> linked E (e_hash e) (take k es) \<and>
          entry_broken E (prev_of (e_hash e) es k) (es ! k))"
    by (auto simp: Ex_less_Suc2 shift zero)
  also have "\<dots> \<longleftrightarrow> j = i \<and> entry_broken E prev e \<or>
      entry_ok E prev e \<and> verify_from E (Suc i) (e_hash e) es = Inr (False, Some j)"
    using Cons.IH [of "Suc i" "e_hash e"] by simp
  also have "\<dots> \<longleftrightarrow> verify_from E i prev (e # es) = Inr (False, Some j)"
    by (cases "compute_entry_hash E (entry_dict e)") (auto simp: entry_ok_def entry_broken_def)
  finally show ?case by simp
qed simp

text \<open>\<open>verify_chain\<close> says yes exactly when every entry names its predecessor's hash and
  stores the hash of its own content, and otherwise reports the index of the first entry that
  does not.\<close>

theorem verify_chain_spec:
  "(verify_chain E es = Inr (True, None) \<longleftrightarrow> linked E GENESIS_PREV_HASH es) \<and>
   (verify_chain E es = Inr (False, Some i) \<longleftrightarrow>
      i < length es \<and> linked E GENESIS_PREV_HASH (take i es) \<and>
      entry_broken E (prev_of GENESIS_PREV_HASH es i) (es ! i))"
  by (auto simp: verify_chain_def verify_from_ok_iff verify_from_broken_iff)

text \<open>C22: Tamper evidence. Two chains that both verify, have equally many entries and the same
  head hash agree entry by entry (payloads up to the JSON they are stored as), as long as the
  digest separates the texts of the two chains: no row can be altered, reordered or replaced
  without changing the head.\<close>

theorem chain_tamper_evident:
  assumes "floats_ok E"
    and "verify_chain E es = Inr (True, None)" and "verify_chain E es' = Inr (True, None)"
    and "length es = length es'" and "head_hash GENESIS_PREV_HASH es = head_hash GENESIS_PREV_HASH es'"
    and "inj_on (sha256 E) (chain_texts E es \<union> chain_texts E es')"
    and "\<forall>e \<in> set es \<union> set es'. valid_ts (e_ts e)"
  shows "list_all2 (entry_agrees E) es es'"
  using linked_same_head_agree [OF assms(1) _ _ assms(4-7)] assms(2,3)
  by (simp add: verify_chain_ok_iff)

definition demo_chain :: "pydict \<Rightarrow> entry list" where
  "demo_chain pl =
    [\<lparr>e_id = ''u0'', e_company = ''c'', e_seq = 1, e_ts = 0, e_kind = ''execute'', e_quadrant = ''q'',
      e_payload = pl, e_prev = GENESIS_PREV_HASH, e_hash = ''u0''\<rparr>,
     \<lparr>e_id = ''u1'', e_company = ''c'', e_seq = 2, e_ts = 5, e_kind = ''verify'', e_quadrant = ''q'',
      e_payload = [], e_prev = ''u0'', e_hash = ''u1''\<rparr>]"

lemma demo_chain_facts:
  "verify_chain demo_env (demo_chain [(''a'', PInt 1), (''b'', PNone)]) = Inr (True, None)"
  "verify_chain demo_env (demo_chain [(''b'', PNone), (''a'', PInt 1)]) = Inr (True, None)"
  "map (entry_text demo_env) (demo_chain [(''a'', PInt 1), (''b'', PNone)]) =
   map (entry_text demo_env) (demo_chain [(''b'', PNone), (''a'', PInt 1)])"
  by code_simp+

lemma chain_texts_cong: "map (entry_text E) es = map (entry_text E) es' \<Longrightarrow> chain_texts E es = chain_texts E es'"
  by (metis chain_texts_def set_map)

lemma linked_distinct_inj:
  assumes "linked E prev es" and "distinct (map e_hash es)"
  shows "inj_on (sha256 E) (chain_texts E es)"
proof (rule inj_onI)
  fix t t' assume "t \<in> chain_texts E es" "t' \<in> chain_texts E es" and eq: "sha256 E t = sha256 E t'"
  then obtain e e' where e: "e \<in> set es" "entry_text E e = Inr t" "e' \<in> set es" "entry_text E e' = Inr t'"
    by (auto simp: chain_texts_def dest: sym)
  have hash: "e_hash x = sha256 E u" if "x \<in> set es" "entry_text E x = Inr u" for x u
  proof -
    from that(1) obtain i where "i < length es" "x = es ! i" by (metis in_set_conv_nth)
    with assms(1) have "entry_ok E (prev_of prev es i) x" by (simp add: linked_def)
    from entry_ok_text [OF this] that(2) show ?thesis by auto
  qed
  from e eq have "e_hash e = e_hash e'" by (simp add: hash)
  with assms(2) e have "e = e'" by (simp add: distinct_map inj_on_def)
  with e show "t = t'" by simp
qed

theorem chain_tamper_evident_witness:
  "list_all2 (entry_agrees demo_env) (demo_chain [(''a'', PInt 1), (''b'', PNone)])
     (demo_chain [(''b'', PNone), (''a'', PInt 1)])"
proof (rule chain_tamper_evident [OF demo_floats_ok demo_chain_facts(1,2)])
  let ?es = "demo_chain [(''a'', PInt 1), (''b'', PNone)]"
  let ?es' = "demo_chain [(''b'', PNone), (''a'', PInt 1)]"
  have "chain_texts demo_env ?es = chain_texts demo_env ?es'"
    by (rule chain_texts_cong [OF demo_chain_facts(3)])
  moreover have "linked demo_env GENESIS_PREV_HASH ?es"
    using demo_chain_facts(1) by (simp only: verify_chain_ok_iff)
  then have "inj_on (sha256 demo_env) (chain_texts demo_env ?es)"
    by (rule linked_distinct_inj) (simp add: demo_chain_def)
  ultimately show "inj_on (sha256 demo_env) (chain_texts demo_env ?es \<union> chain_texts demo_env ?es')"
    by simp
qed (simp_all add: demo_chain_def head_hash_def valid_ts_def)

subsection \<open>Every ledger the code can build verifies\<close>

definition mem_run :: "env \<Rightarrow> write_req list \<Rightarrow> mem" where
  "mem_run E reqs = fold (\<lambda>req st. snd (mem_write E req st)) reqs mem_empty"

definition db_run :: "env \<Rightarrow> 'db backend \<Rightarrow> write_req list \<Rightarrow> 'db session \<Rightarrow> 'db session" where
  "db_run E B reqs s = fold (\<lambda>req s. snd (ledger_write E B req s)) reqs s"

lemma mem_run_invar: "mem_invar E (mem_run E reqs)"
proof -
  have "mem_invar E (fold (\<lambda>req st. snd (mem_write E req st)) reqs st)" if "mem_invar E st" for st
    using that by (induction reqs arbitrary: st) (auto intro: mem_write_invar)
  then show ?thesis by (simp add: mem_run_def mem_invar_empty)
qed

lemma db_run_invar:
  assumes "sql_backend B" and "db_invar E B s"
  shows "db_invar E B (db_run E B reqs s)"
proof -
  have step: "db_invar E B (snd (ledger_write E B req s))" if "db_invar E B s" for req s
    using ledger_store.write_invar [OF db_store_ledger [OF assms(1)] that, of req] by (simp add: prod_eq_iff)
  show ?thesis
    unfolding db_run_def using assms(2) by (induction reqs arbitrary: s) (auto intro: step)
qed

lemma chain_inv_report: "chain_inv E c rows \<Longrightarrow>
    report_of E rows = Inr \<lparr>vr_ok = True, vr_checked = length rows, vr_broken_at = None\<rparr>"
  by (simp add: chain_inv_def report_of_def flip: verify_chain_ok_iff)


text \<open>C2: The same for the database ledger, on any database that keeps the rows it accepts:
  starting from an empty table, every company's chain verifies after any sequence of writes.\<close>

theorem database_ledger_verifies:
  assumes "sql_backend B" and "be_rows B (s_db s) = []"
  shows "verify_company_chain E B (db_run E B reqs s) c =
    Inr \<lparr>vr_ok = True, vr_checked = length (fetch_entries B (db_run E B reqs s) c None), vr_broken_at = None\<rparr>"
proof -
  have "db_invar E B s"
    using assms(2) by (simp add: db_invar_def db_log_def' company_rows_def)
  from db_run_invar [OF assms(1) this] have "chain_inv E c (fetch_entries B (db_run E B reqs s) c None)"
    by (simp add: db_invar_def db_log_def)
  then show ?thesis by (simp add: verify_company_chain_def chain_inv_report)
qed

theorem database_ledger_verifies_witness:
  "verify_company_chain demo_env schema_backend
     (db_run demo_env schema_backend [demo_req ''c'' ''x'' True, demo_req ''c'' ''y'' False] db_start) ''c'' =
   Inr \<lparr>vr_ok = True, vr_checked = length (fetch_entries schema_backend
     (db_run demo_env schema_backend [demo_req ''c'' ''x'' True, demo_req ''c'' ''y'' False] db_start) ''c'' None),
     vr_broken_at = None\<rparr>"
  by (rule database_ledger_verifies [OF sb.sql_backend_axioms])
    (simp add: db_start_def schema_backend_def)

subsection \<open>All or nothing\<close>

text \<open>C11: A write to the database either raises and leaves the table as it was, or returns and has
  appended exactly the four rows propose, execute, verify, resolve, numbered on from the
  company's last row, each with the payload its callback produced and linked to the one before,
  and the identifiers and hashes it returns are those of the four rows; no other company's log
  changes.\<close>

theorem database_write_atomic:
  assumes "sql_backend B" and "db_invar E B s"
  shows "case ledger_write E B req s of
      (Inl x, s') \<Rightarrow> s_db s' = s_db s
    | (Inr res, s') \<Rightarrow> (\<exists>new. db_log B s' = (db_log B s)(wr_company req := db_log B s (wr_company req) @ new) \<and>
        pevr_rows E req (int (length (db_log B s (wr_company req))))
          (head_hash GENESIS_PREV_HASH (db_log B s (wr_company req))) new \<and>
        res = result_of_rows new)"
proof (cases "ledger_write E B req s")
  case (Pair out s')
  show ?thesis
  proof (cases out)
    case (Inl x)
    with Pair ledger_write_Inl [of E B req s x s'] show ?thesis by simp
  next
    case (Inr res)
    with Pair have "write_primitive E B req s = (Inr res, s')" by (simp add: ledger_write_Inr)
    from sql_backend.write_primitive_rows [OF assms this] Pair Inr show ?thesis by auto
  qed
qed

theorem database_write_atomic_witness:
  "case ledger_write demo_env schema_backend (demo_req ''c'' ''x'' True) db_start of
      (Inl x, s') \<Rightarrow> s_db s' = []
    | (Inr res, s') \<Rightarrow> (\<exists>new. db_log schema_backend s' ''c'' = new \<and>
        pevr_rows demo_env (demo_req ''c'' ''x'' True) 0 GENESIS_PREV_HASH new \<and> res = result_of_rows new)"
proof -
  have "db_log schema_backend db_start c = []" for c
    by (simp add: db_log_def' company_rows_def schema_backend_def db_start_def)
  moreover have "wr_company (demo_req ''c'' ''x'' True) = ''c''" "s_db db_start = []"
    by (simp_all add: demo_req_def const_req_def db_start_def)
  ultimately show ?thesis
    using database_write_atomic [OF sb.sql_backend_axioms db_start_invar [of demo_env], of "demo_req ''c'' ''x'' True"]
    by (auto split: prod.splits sum.splits)
qed

subsection \<open>The two ledgers compute the same rows\<close>

definition same_ledger :: "'db backend \<Rightarrow> mem \<Rightarrow> 'db session \<Rightarrow> bool" where
  "same_ledger B st s = ((\<forall>c. mem_rows st c = db_log B s c) \<and> m_draws st = s_draws s)"

lemma mem_set_draws [simp]: "m_draws (mem_set c rows st) = m_draws st"
  by (simp add: mem_set_def)

lemma same_append:
  assumes "sql_backend B" and "same_ledger B st s" and "tail_at E B s c n h"
    and "db_append E B req k h kind pl s = (Inr e, s')" and "c = wr_company req" and "k = n + 1"
  shows "\<exists>st'. mem_append E req n h kind pl st = (Inr e, st') \<and> same_ledger B st' s'"
proof -
  have "build_entry E (uuid4 E (s_draws s)) req k h kind pl = Inr e" and draws: "s_draws s' = Suc (s_draws s)"
    using assms(4) by (auto simp: db_append_def Let_def split: sum.splits)
  moreover note sql_backend.db_append_tail(2) [OF assms(1) assms(3-6)]
  ultimately show ?thesis
    using assms(2,5,6) by (simp add: mem_append_def same_ledger_def Let_def)
qed

lemma memory_write_matches:
  assumes sql: "sql_backend B" and inv: "db_invar E B s" and same: "same_ledger B st s"
    and w: "ledger_write E B req s = (Inr res, s')"
  shows "\<exists>st'. mem_write E req st = (Inr res, st') \<and> same_ledger B st' s'"
proof -
  define c where "c = wr_company req"
  define n where "n = int (length (db_log B s c))"
  define h where "h = head_hash GENESIS_PREV_HASH (db_log B s c)"
  have ch: "chain_inv E c (db_log B s c)" using inv by (simp add: db_invar_def)
  from w obtain p s1 xp e s2 vp v s3 rp r
    where P: "db_append E B req (n + 1) h ''propose'' (wr_propose req) s = (Inr p, s1)"
      and X: "exec_payload req p = Inr xp"
      and X': "db_append E B req (n + 2) (e_hash p) ''execute'' xp s1 = (Inr e, s2)"
      and V': "verify_payload req e = Inr vp"
      and V: "db_append E B req (n + 3) (e_hash e) ''verify'' vp s2 = (Inr v, s3)"
      and pass: "passed v" and R': "resolve_payload req v = Inr rp"
      and R: "db_append E B req (n + 4) (e_hash v) ''resolve'' rp s3 = (Inr r, s')"
      and res: "res = write_result_of p e v r"
    by (auto simp: ledger_write_Inr write_primitive_def sbind_Inr_iff db_tail_log [OF ch [unfolded c_def]]
        n_def h_def c_def split: if_splits)
  have t0: "tail_at E B s c n h" using inv by (simp add: tail_at_def n_def h_def)
  note p = sql_backend.db_append_tail [OF sql t0 P c_def refl]
  note e = sql_backend.db_append_tail [OF sql p(3) X' c_def]
  note v = sql_backend.db_append_tail [OF sql e(3) V c_def]
  have rows: "mem_rows st c = db_log B s c" using same by (simp add: same_ledger_def)
  have same0: "same_ledger B (mem_set c (mem_rows st c) st) s"
    using same by (simp add: same_ledger_def)
  from same_append [OF sql same0 t0 P c_def refl] obtain st1
    where p': "mem_append E req n h ''propose'' (wr_propose req) (mem_set c (mem_rows st c) st) = (Inr p, st1)"
      and same1: "same_ledger B st1 s1" by blast
  from same_append [OF sql same1 p(3) X' c_def] obtain st2
    where e': "mem_append E req (n + 1) (e_hash p) ''execute'' xp st1 = (Inr e, st2)"
      and same2: "same_ledger B st2 s2" by auto
  from same_append [OF sql same2 e(3) V c_def] obtain st3
    where v': "mem_append E req (n + 2) (e_hash e) ''verify'' vp st2 = (Inr v, st3)"
      and same3: "same_ledger B st3 s3" by auto
  from same_append [OF sql same3 v(3) R c_def] obtain st4
    where r': "mem_append E req (n + 3) (e_hash v) ''resolve'' rp st3 = (Inr r, st4)"
      and same4: "same_ledger B st4 s'" by auto
  have seqs: "e_seq p = n + 1" "e_seq e = n + 2" "e_seq v = n + 3"
    using p(1) e(1) v(1) by (simp_all add: built_seq)
  have "mem_write E req st = (Inr res, st4)"
    by (simp only: mem_write_def Let_def c_def [symmetric] rows chain_inv_last [OF ch, folded n_def]
        head_hash_tail [of "db_log B s c", folded h_def, symmetric])
      (use p' rows in \<open>simp add: X V' R' pass res seqs e' v' r'\<close>)
  with same4 show ?thesis by blast
qed


definition demo_result :: write_result where
  "demo_result = \<lparr>res_ids = [''u0'', ''u1'', ''u2'', ''u3''], res_hashes = [''u0'', ''u1'', ''u2'', ''u3'']\<rparr>"

lemma demo_db_write: "fst (ledger_write demo_env schema_backend (demo_req ''c'' ''x'' True) db_start) = Inr demo_result"
  by code_simp


subsection \<open>Errors of the in-memory ledger\<close>

text \<open>C33: A write whose verify step does not pass raises \<open>VerifyFailed\<close> and leaves the rows of
  every company as they were, on the in-memory ledger too.\<close>

theorem memory_verify_failure_rolls_back:
  assumes "jsonable_dict p" and "jsonable_dict x" and "jsonable_dict v"
    and "distinct (map fst v)" and "\<not> truthy (dget v ''passed'')"
  shows "\<exists>st'. mem_write E (const_req c p x v r ts now quad) st = (Inl VerifyFailed, st') \<and>
    mem_rows st' = mem_rows st"
proof -
  define req where "req = const_req c p x v r ts now quad"
  have sel: "wr_company req = c" "wr_propose req = p" "wr_execute req = Inr x" "wr_verify req = (\<lambda>_. Inr v)"
    by (simp_all add: req_def const_req_def)
  define rows where "rows = mem_rows st c"
  define sq where "sq = (if rows = [] then 0 else e_seq (last rows))"
  define prev where "prev = (if rows = [] then GENESIS_PREV_HASH else e_hash (last rows))"
  obtain ep s1 where ep: "mem_append E req sq prev ''propose'' p (mem_set c rows st) = (Inr ep, s1)"
    using mem_append_defined [OF assms(1)] by blast
  obtain xp where xp: "exec_payload req ep = Inr xp" "jsonable_dict xp"
    using assms(2) jsonable_merge_id by (simp add: exec_payload_def sel)
  obtain ee s2 where ee: "mem_append E req (e_seq ep) (e_hash ep) ''execute'' xp s1 = (Inr ee, s2)"
    using mem_append_defined [OF xp(2)] by blast
  obtain vp where vp: "verify_payload req ee = Inr vp" "jsonable_dict vp"
    "vp = dict_merge [(''execute_entry_id'', PStr (e_id ee))] v"
    using assms(3) jsonable_merge_id by (simp add: verify_payload_def sel)
  obtain ev s3 where ev: "mem_append E req (e_seq ee) (e_hash ee) ''verify'' vp s2 = (Inr ev, s3)"
    using mem_append_defined [OF vp(2)] by blast
  then have "e_payload ev = vp" by (auto dest!: mem_append_Inr simp: built_def)
  then have pass: "\<not> passed ev"
    using assms(4,5) vp(3)
    by (simp add: passed_def dget_dict_merge)
  have "mem_write E req st = (Inl VerifyFailed, mem_drop_last3 c s3)"
    by (simp only: mem_write_def Let_def sel(1,2) flip: rows_def sq_def prev_def)
      (simp add: ep xp ee vp(1) ev pass)
  moreover have "mem_rows (mem_drop_last3 c s3) = mem_rows st"
    using mem_append_Inr [OF ep] mem_append_Inr [OF ee] mem_append_Inr [OF ev]
    by (simp add: mem_drop_last3_def sel rows_def)
  ultimately show ?thesis by (simp add: req_def)
qed

theorem memory_verify_failure_rolls_back_witness:
  "\<exists>st'. mem_write demo_env (demo_req ''c'' ''x'' False) (mem_run demo_env [demo_req ''c'' ''x'' True]) =
      (Inl VerifyFailed, st') \<and>
    mem_rows st' = mem_rows (mem_run demo_env [demo_req ''c'' ''x'' True])"
  unfolding demo_req_def by (rule memory_verify_failure_rolls_back) simp_all

text \<open>An exception out of \<open>execute_fn\<close> is not rolled back by the in-memory ledger: the error
  reaches the caller, and the propose row already appended stays in the company's log (the
  database ledger leaves the table as it was).\<close>

theorem memory_execute_error_keeps_propose:
  assumes "jsonable_dict (wr_propose req)" and "wr_execute req = Inl x"
  shows "\<exists>st' p. mem_write E req st = (Inl x, st') \<and> e_kind p = ''propose'' \<and>
      mem_rows st' (wr_company req) = mem_rows st (wr_company req) @ [p]"
proof -
  define c where "c = wr_company req"
  define rows where "rows = mem_rows st c"
  define sq where "sq = (if rows = [] then 0 else e_seq (last rows))"
  define prev where "prev = (if rows = [] then GENESIS_PREV_HASH else e_hash (last rows))"
  obtain p s1 where p: "mem_append E req sq prev ''propose'' (wr_propose req) (mem_set c rows st) = (Inr p, s1)"
    using mem_append_defined [OF assms(1)] by blast
  have "mem_write E req st = (Inl x, s1)"
    by (simp only: mem_write_def Let_def flip: c_def rows_def sq_def prev_def)
      (simp add: p exec_payload_def assms(2))
  with mem_append_Inr [OF p] show ?thesis
    by (auto simp: built_def rows_def c_def)
qed

theorem memory_execute_error_keeps_propose_witness:
  "\<exists>st' p. mem_write demo_env ((demo_req ''c'' ''x'' True)\<lparr>wr_execute := Inl TypeError\<rparr>) mem_empty =
      (Inl TypeError, st') \<and> e_kind p = ''propose'' \<and> mem_rows st' ''c'' = [p]"
  using memory_execute_error_keeps_propose
    [of "(demo_req ''c'' ''x'' True)\<lparr>wr_execute := Inl TypeError\<rparr>" TypeError demo_env mem_empty]
  by (simp add: demo_req_def const_req_def mem_rows_def mem_empty_def)

subsection \<open>Reads\<close>

text \<open>\<open>fetch\<close> up to an instant is the full log less the later rows, in the same order, on both
  ledgers, and \<open>get_entry\<close> finds exactly a row of the company's log with that identifier.\<close>

theorem database_reads:
  "fetch_entries B s c (Some t) = filter (\<lambda>r. e_ts r \<le> t) (fetch_entries B s c None) \<and>
   set (fetch_entries B s c None) = {r \<in> set (be_rows B (s_db s)). e_company r = c} \<and>
   sorted (map e_seq (fetch_entries B s c None)) \<and>
   (get_entry_by_id B s c eid = None \<longleftrightarrow> eid \<notin> e_id ` set (fetch_entries B s c None)) \<and>
   set_option (get_entry_by_id B s c eid) \<subseteq> {r \<in> set (fetch_entries B s c None). e_id r = eid}"
  by (auto simp: fetch_entries_def filter_sort company_rows_def get_entry_by_id_def find_None_iff
      find_Some_iff)

end
