(* ===== verification/Pii_Gate.thy ===== *)
theory Pii_Gate
  imports Demo_Environment "HOL-Library.Product_Lexorder"
begin

section \<open>PII redaction (\<open>gates.py\<close>, \<open>_luhn_ok\<close> and \<open>PIIGate\<close>)\<close>

text \<open>
  The checksum that confirms a credit-card match, and the gate that replaces every accepted
  match of the ontology's patterns by a marker and records the fact. What a compiled pattern
  finds in a text (\<open>re.finditer\<close>) is a function of the pattern: the spans of its matches.
\<close>

subsection \<open>The Luhn checksum\<close>

definition is_digit :: "char \<Rightarrow> bool" where
  "is_digit c = (c \<in> set digits)"

fun luhn_loop :: "nat \<Rightarrow> nat \<Rightarrow> nat \<Rightarrow> string \<Rightarrow> nat" where
  "luhn_loop i parity acc [] = acc"
| "luhn_loop i parity acc (ch # rest) =
     (let d = digit_val ch;
          d = (if i mod 2 = parity then (if 2 * d > 9 then 2 * d - 9 else 2 * d) else d)
      in luhn_loop (Suc i) parity (acc + d) rest)"

definition luhn_ok :: "string \<Rightarrow> bool" where
  "luhn_ok s =
     (let ds = filter is_digit s
      in if length ds < 13 \<or> length ds > 19 then False
         else luhn_loop 0 ((length ds - 2) mod 2) 0 ds mod 10 = 0)"

definition luhn_digit :: "bool \<Rightarrow> nat \<Rightarrow> nat" where
  "luhn_digit doubled d = (if doubled then (if 2 * d > 9 then 2 * d - 9 else 2 * d) else d)"

lemma luhn_loop_Cons:
  "luhn_loop i p t (c # s) = luhn_loop (Suc i) p (t + luhn_digit (i mod 2 = p) (digit_val c)) s"
  by (simp add: luhn_digit_def Let_def)

lemma luhn_loop_add: "luhn_loop i p (t + k) s = luhn_loop i p t s + k"
proof (induction s arbitrary: i t)
  case (Cons c s)
  have "luhn_loop i p (t + k) (c # s) = luhn_loop (Suc i) p ((t + luhn_digit (i mod 2 = p) (digit_val c)) + k) s"
    by (simp only: luhn_loop_Cons ac_simps)
  also have "\<dots> = luhn_loop i p t (c # s) + k"
    by (simp only: Cons.IH luhn_loop_Cons)
  finally show ?case .
qed simp

lemma luhn_loop_append: "luhn_loop i p t (xs @ ys) = luhn_loop (i + length xs) p (luhn_loop i p t xs) ys"
  by (induction xs arbitrary: i t) (simp_all add: luhn_loop_Cons del: luhn_loop.simps(2))

lemma luhn_loop_base: "luhn_loop i p t s = luhn_loop i p 0 s + t"
  using luhn_loop_add [of i p 0 t s] by simp

lemma digit_val_less: "is_digit c \<Longrightarrow> digit_val c < 10"
  by (auto simp: is_digit_def digits_def digit_val_def)

lemma digit_val_inj: "is_digit c \<Longrightarrow> is_digit d \<Longrightarrow> digit_val c = digit_val d \<Longrightarrow> c = d"
  by (auto simp: is_digit_def digits_def digit_val_def)

lemma luhn_digit_less: "d < 10 \<Longrightarrow> luhn_digit b d < 10"
  by (cases b) (auto simp: luhn_digit_def)

lemma luhn_digit_table:
  "\<forall>b\<in>{True, False}. \<forall>c\<in>set [0..<10]. \<forall>d\<in>set [0..<10].
     (luhn_digit b c = luhn_digit b d \<longrightarrow> c = d) \<and>
     ((luhn_digit b c + luhn_digit (\<not> b) d) mod 10 = (luhn_digit b d + luhn_digit (\<not> b) c) mod 10 \<longrightarrow>
        c = d \<or> c = 0 \<and> d = 9 \<or> c = 9 \<and> d = 0)"
  by code_simp

lemma luhn_digit_inj: "c < 10 \<Longrightarrow> d < 10 \<Longrightarrow> luhn_digit b c = luhn_digit b d \<Longrightarrow> c = d"
  using luhn_digit_table by (cases b) simp_all

lemma add_mod_10_cancel:
  fixes k :: nat
  assumes "(k + x) mod 10 = 0" and "(k + y) mod 10 = 0"
  shows "x mod 10 = y mod 10"
proof -
  have "int (k + x) mod 10 = int (k + y) mod 10"
    using assms by (metis of_nat_mod of_nat_numeral)
  then have "(int (k + x) - int k) mod 10 = (int (k + y) - int k) mod 10"
    by (rule mod_diff_cong) simp
  then have "int (x mod 10) = int (y mod 10)"
    by (simp add: of_nat_mod)
  then show ?thesis by simp
qed

text \<open>Doubling maps the digits one to one, so no substitution keeps the sum.\<close>

lemma luhn_substitution:
  assumes "is_digit d" and "is_digit c" and "c \<noteq> d" and "luhn_ok (a @ d # b)"
  shows "\<not> luhn_ok (a @ c # b)"
proof
  assume ok: "luhn_ok (a @ c # b)"
  define xs ys where "xs = filter is_digit a" and "ys = filter is_digit b"
  define p where "p = (length xs + length ys + 1 - 2) mod 2"
  define k where "k = luhn_loop 0 p 0 xs + luhn_loop (Suc (length xs)) p 0 ys"
  have total: "luhn_loop 0 p 0 (xs @ x # ys) = k + luhn_digit (length xs mod 2 = p) (digit_val x)" for x
    by (simp add: luhn_loop_append luhn_loop_Cons k_def del: luhn_loop.simps(2))
      (subst luhn_loop_base, simp)
  have "(k + luhn_digit (length xs mod 2 = p) (digit_val x)) mod 10 = 0"
    if "luhn_ok (a @ x # b)" "is_digit x" for x
    using that unfolding total [symmetric] by (simp add: luhn_ok_def Let_def xs_def ys_def p_def split: if_splits)
  from this [OF ok assms(2)] this [OF assms(4,1)]
  have "luhn_digit (length xs mod 2 = p) (digit_val c) mod 10 = luhn_digit (length xs mod 2 = p) (digit_val d) mod 10"
    by (rule add_mod_10_cancel)
  then have "luhn_digit (length xs mod 2 = p) (digit_val c) = luhn_digit (length xs mod 2 = p) (digit_val d)"
    using assms(1,2) by (simp add: luhn_digit_less digit_val_less)
  then have "digit_val c = digit_val d"
    by (rule luhn_digit_inj [rotated 2]) (rule digit_val_less assms)+
  with assms digit_val_inj show False by blast
qed

lemma luhn_swap_digits:
  assumes "c < 10" and "d < 10"
    and "(luhn_digit b c + luhn_digit (\<not> b) d) mod 10 = (luhn_digit b d + luhn_digit (\<not> b) c) mod 10"
  shows "c = d \<or> c = 0 \<and> d = 9 \<or> c = 9 \<and> d = 0"
proof -
  have "b \<in> {True, False}" "c \<in> set [0..<10]" "d \<in> set [0..<10]"
    using assms(1,2) by simp_all
  from luhn_digit_table [THEN bspec, OF this(1), THEN bspec, OF this(2), THEN bspec, OF this(3)] assms(3)
  show ?thesis by blast
qed

lemma luhn_transposition:
  assumes "is_digit d" and "is_digit c" and "c \<noteq> d" and "{c, d} \<noteq> {CHR ''0'', CHR ''9''}"
    and "luhn_ok (a @ d # c # b)"
  shows "\<not> luhn_ok (a @ c # d # b)"
proof
  assume ok: "luhn_ok (a @ c # d # b)"
  define xs ys where "xs = filter is_digit a" and "ys = filter is_digit b"
  define p where "p = (length xs + length ys + 2 - 2) mod 2"
  define k where "k = luhn_loop 0 p 0 xs + luhn_loop (Suc (Suc (length xs))) p 0 ys"
  define par where "par = (length xs mod 2 = p)"
  have next_par: "Suc (length xs) mod 2 = p \<longleftrightarrow> \<not> par"
    by (auto simp: par_def p_def mod_Suc)
  have sum: "luhn_loop 0 p 0 (xs @ x # y # ys) = k + (luhn_digit par (digit_val x) + luhn_digit (\<not> par) (digit_val y))" for x y
    by (simp add: luhn_loop_append luhn_loop_Cons k_def next_par flip: par_def del: luhn_loop.simps(2))
      (subst luhn_loop_base, simp)
  have zero: "(k + (luhn_digit par (digit_val x) + luhn_digit (\<not> par) (digit_val y))) mod 10 = 0"
    if "luhn_ok (a @ x # y # b)" "is_digit x" "is_digit y" for x y
    using that unfolding sum [symmetric] by (simp add: luhn_ok_def Let_def xs_def ys_def p_def split: if_splits)
  from zero [OF ok assms(2,1)] zero [OF assms(5,1,2)]
  have "(luhn_digit par (digit_val c) + luhn_digit (\<not> par) (digit_val d)) mod 10 =
      (luhn_digit par (digit_val d) + luhn_digit (\<not> par) (digit_val c)) mod 10"
    by (rule add_mod_10_cancel)
  with luhn_swap_digits digit_val_less assms(1,2)
  have swap: "digit_val c = digit_val d \<or> digit_val c = 0 \<and> digit_val d = 9 \<or> digit_val c = 9 \<and> digit_val d = 0"
    by blast
  have ends: "digit_val x = 0 \<longleftrightarrow> x = CHR ''0''" "digit_val x = 9 \<longleftrightarrow> x = CHR ''9''" if "is_digit x" for x
    using that by (auto simp: is_digit_def digits_def digit_val_def)
  from swap show False
    using assms(1-4) digit_val_inj [OF assms(2,1)] ends [OF assms(1)] ends [OF assms(2)] by auto
qed

subsection \<open>\<open>PIIGate.check\<close>\<close>

text \<open>
  A pattern of the ontology: its identifier, its classification and what \<open>re.compile\<close> makes of
  its expression, \<open>None\<close> where it raises \<open>re.error\<close>. Offsets count the characters of the text.
\<close>

record pii_pattern =
  pp_id :: string
  pp_class :: string
  pp_compile :: "(string \<Rightarrow> (nat \<times> nat) list) option"

type_synonym span = "nat \<times> nat \<times> pii_pattern"

record pii_result =
  pr_text :: string
  pr_matches :: "pydict list"
  pr_escalation :: "string option"
  pr_changed :: bool

definition pii_patterns :: "pii_pattern list \<Rightarrow> (pii_pattern \<times> (string \<Rightarrow> (nat \<times> nat) list)) list" where
  "pii_patterns loaded = concat (map (\<lambda>p. case pp_compile p of None \<Rightarrow> [] | Some f \<Rightarrow> [(p, f)]) loaded)"

definition slice :: "string \<Rightarrow> nat \<Rightarrow> nat \<Rightarrow> string" where
  "slice tx i j = drop i (take j tx)"

definition pii_spans :: "(pii_pattern \<times> (string \<Rightarrow> (nat \<times> nat) list)) list \<Rightarrow> string \<Rightarrow> span list" where
  "pii_spans patterns tx = concat (map (\<lambda>(p, find).
     map (\<lambda>(s, e). (s, e, p))
       (filter (\<lambda>(s, e). \<not> (pp_id p = ''credit_card'' \<and> \<not> luhn_ok (slice tx s e))) (find tx))) patterns)"

definition span_key :: "span \<Rightarrow> int \<times> int" where
  "span_key sp = (case sp of (s, e, p) \<Rightarrow> (int s, - (int e - int s)))"

fun accept_spans :: "int \<Rightarrow> span list \<Rightarrow> span list" where
  "accept_spans last_end [] = []"
| "accept_spans last_end ((s, e, p) # spans) =
     (if int s < last_end then accept_spans last_end spans
      else (s, e, p) # accept_spans (int e) spans)"

definition pii_marker :: "pii_pattern \<Rightarrow> string" where
  "pii_marker p = ''[REDACTED:'' @ pp_id p @ '']''"

definition pii_match :: "env \<Rightarrow> string \<Rightarrow> nat \<Rightarrow> nat \<Rightarrow> pii_pattern \<Rightarrow> pydict" where
  "pii_match E tx s e p =
     [(''pattern_id'', PStr (pp_id p)), (''span'', PList [PInt (int s), PInt (int e)]),
      (''original_hash'', PStr (bytes_hex (sha256 E (slice tx s e))))]"

fun redact_loop :: "env \<Rightarrow> string \<Rightarrow> nat \<Rightarrow> string \<Rightarrow> pydict list \<Rightarrow> string option \<Rightarrow> span list \<Rightarrow>
    string \<times> pydict list \<times> string option" where
  "redact_loop E tx cursor chunks ms esc [] = (chunks @ drop cursor tx, ms, esc)"
| "redact_loop E tx cursor chunks ms esc ((s, e, p) # spans) =
     redact_loop E tx e (chunks @ slice tx cursor s @ pii_marker p) (ms @ [pii_match E tx s e p])
       (if pp_class p = ''regulated'' then Some ''regulated'' else if esc = None then Some ''pii'' else esc)
       spans"

definition pii_log_args :: "env \<Rightarrow> pydict \<Rightarrow> pyval list \<Rightarrow> pydict" where
  "pii_log_args E context ids =
     [(''gate'', PStr ''pii''), (''outcome'', PStr ''warned''),
      (''subject_ref'', PStr (py_str E (dget_or context ''source'' (PStr ''unknown'')))),
      (''reason'', PStr (''matched '' @ dec_nat (length ids) @ '' patterns'')),
      (''pattern_ids'', PList ids), (''match_count'', PInt (int (length ids)))]"

definition pii_gate_req :: "uuid \<Rightarrow> pydict \<Rightarrow> pydict list \<Rightarrow> int \<Rightarrow> uuid \<Rightarrow> env \<Rightarrow> write_req" where
  "pii_gate_req c context ms now u E =
     gate_req c ''gate_fired'' u ''pii_match'' ''pii_gate'' ''emit_gate_fired''
       (pii_log_args E context (map (\<lambda>m. dget m ''pattern_id'') ms))
       ''pii'' ''pii_logged'' ''keep'' ''pii match recorded without raw text'' now ''passive_deterministic''"

definition pii_check :: "env \<Rightarrow> 's store \<Rightarrow> uuid \<Rightarrow> pii_pattern list \<Rightarrow> int \<Rightarrow> string \<Rightarrow> pydict \<Rightarrow> ('s, pii_result) act" where
  "pii_check E L c loaded now tx context =
     (if tx = [] then sret \<lparr>pr_text = [], pr_matches = [], pr_escalation = None, pr_changed = False\<rparr>
      else let spans = pii_spans (pii_patterns loaded) tx
      in if spans = [] then sret \<lparr>pr_text = tx, pr_matches = [], pr_escalation = None, pr_changed = False\<rparr>
      else let accepted = accept_spans (-1) (sort_key span_key spans);
               (redacted, ms, esc) = redact_loop E tx 0 [] [] None accepted
      in sbind (record_write L (\<lambda>u. pii_gate_req c context ms now u E)) (\<lambda>_.
           sret \<lparr>pr_text = redacted, pr_matches = ms, pr_escalation = esc, pr_changed = True\<rparr>))"

subsection \<open>Which matches are accepted\<close>

definition span_ok :: "nat \<Rightarrow> span \<Rightarrow> bool" where
  "span_ok n sp = (case sp of (s, e, p) \<Rightarrow> s \<le> e \<and> e \<le> n)"

text \<open>In order, none beginning before the one before it ends, all after \<open>lo\<close>.\<close>

fun in_order :: "nat \<Rightarrow> span list \<Rightarrow> bool" where
  "in_order lo [] = True"
| "in_order lo ((s, e, p) # spans) = (lo \<le> s \<and> s \<le> e \<and> in_order e spans)"

lemma accept_spans_order:
  "\<forall>sp\<in>set spans. span_ok n sp \<Longrightarrow> int lo \<le> max last_end 0 \<Longrightarrow> in_order lo (accept_spans last_end spans)"
proof (induction last_end spans arbitrary: lo rule: accept_spans.induct)
  case (2 last_end s e p spans)
  then show ?case by (auto simp: span_ok_def)
qed simp

lemma accept_spans_subset: "set (accept_spans last_end spans) \<subseteq> set spans"
  by (induction last_end spans rule: accept_spans.induct) auto

text \<open>A span that is left out begins inside an accepted one.\<close>

lemma accept_spans_cover:
  assumes "sorted (map (\<lambda>(s, e, p). s) spans)" and "(s, e, p) \<in> set spans"
    and "(s, e, p) \<notin> set (accept_spans last_end spans)"
  shows "int s < last_end \<or> (\<exists>a b q. (a, b, q) \<in> set (accept_spans last_end spans) \<and> a \<le> s \<and> s < b)"
  using assms
proof (induction last_end spans rule: accept_spans.induct)
  case (2 last_end s' e' p' spans)
  show ?case
  proof (cases "int s' < last_end")
    case True
    with 2 show ?thesis by (auto simp: less_le_trans)
  next
    case False
    with 2 have "int s < int e' \<or> (\<exists>a b q. (a, b, q) \<in> set (accept_spans (int e') spans) \<and> a \<le> s \<and> s < b)"
      by auto
    moreover have "s' \<le> s" using 2 False by auto
    ultimately show ?thesis using False by fastforce
  qed
qed simp

subsection \<open>What the redaction keeps\<close>

text \<open>The text cut at the accepted spans: the parts between them and the parts inside.\<close>

fun pieces :: "string \<Rightarrow> nat \<Rightarrow> span list \<Rightarrow> (string \<times> string \<times> pii_pattern) list" where
  "pieces tx cursor [] = []"
| "pieces tx cursor ((s, e, p) # spans) = (slice tx cursor s, slice tx s e, p) # pieces tx e spans"

fun last_cut :: "nat \<Rightarrow> span list \<Rightarrow> nat" where
  "last_cut cursor [] = cursor"
| "last_cut cursor ((s, e, p) # spans) = last_cut e spans"

definition escalation_of :: "pii_pattern list \<Rightarrow> string option" where
  "escalation_of ps = (if ps = [] then None
     else if \<exists>p\<in>set ps. pp_class p = ''regulated'' then Some ''regulated'' else Some ''pii'')"

lemma slice_split: "i \<le> j \<Longrightarrow> drop i tx = slice tx i j @ drop j tx"
  by (metis append_take_drop_id drop_drop drop_take le_add_diff_inverse2 slice_def)

lemma pieces_text:
  "in_order cursor spans \<Longrightarrow>
     drop cursor tx = concat (map (\<lambda>(gap, hit, p). gap @ hit) (pieces tx cursor spans)) @
       drop (last_cut cursor spans) tx"
proof (induction tx cursor spans rule: pieces.induct)
  case (2 tx cursor s e p spans)
  then have "drop cursor tx = slice tx cursor s @ slice tx s e @ drop e tx"
    using slice_split [of cursor s tx] slice_split [of s e tx] by simp
  with 2 show ?case by simp
qed simp

lemma redact_loop_spec:
  "redact_loop E tx cursor chunks ms esc spans =
     (chunks @ concat (map (\<lambda>(gap, hit, p). gap @ pii_marker p) (pieces tx cursor spans)) @
        drop (last_cut cursor spans) tx,
      ms @ map (\<lambda>(s, e, p). pii_match E tx s e p) spans,
      if \<exists>sp\<in>set spans. pp_class (snd (snd sp)) = ''regulated'' then Some ''regulated''
      else if esc = None \<and> spans \<noteq> [] then Some ''pii'' else esc)"
proof (induction E tx cursor chunks ms esc spans rule: redact_loop.induct)
  case (2 E tx cursor chunks ms esc s e p spans)
  show ?case unfolding redact_loop.simps(2) 2 by auto
qed simp

subsection \<open>Properties\<close>

text \<open>The spans \<open>check\<close> redacts; what the patterns find must lie inside the text.\<close>

definition pii_accepted :: "pii_pattern list \<Rightarrow> string \<Rightarrow> span list" where
  "pii_accepted loaded tx =
     (if tx = [] then [] else accept_spans (-1) (sort_key span_key (pii_spans (pii_patterns loaded) tx)))"

definition pii_spans_ok :: "pii_pattern list \<Rightarrow> string \<Rightarrow> bool" where
  "pii_spans_ok loaded tx = (\<forall>sp\<in>set (pii_spans (pii_patterns loaded) tx). span_ok (length tx) sp)"

lemma accept_spans_Nil: "accept_spans (-1) (sort_key span_key spans) = [] \<longleftrightarrow> spans = []"
proof (cases "sort_key span_key spans")
  case Nil
  then have "spans = []" by (metis set_empty set_sort)
  then show ?thesis by simp
next
  case (Cons sp rest)
  then have "spans \<noteq> []" by auto
  with Cons show ?thesis by (cases sp) simp
qed

lemma pii_check_split:
  "pii_check E L c loaded now tx ctx s =
     (if pii_accepted loaded tx = []
      then (Inr \<lparr>pr_text = tx, pr_matches = [], pr_escalation = None, pr_changed = False\<rparr>, s)
      else case redact_loop E tx 0 [] [] None (pii_accepted loaded tx) of (redacted, ms, esc) \<Rightarrow>
        sbind (record_write L (\<lambda>u. pii_gate_req c ctx ms now u E)) (\<lambda>_.
           sret \<lparr>pr_text = redacted, pr_matches = ms, pr_escalation = esc, pr_changed = True\<rparr>) s)"
  by (simp add: pii_check_def pii_accepted_def Let_def accept_spans_Nil split: prod.splits)

lemma pii_check_result:
  assumes "pii_check E L c loaded now tx ctx s = (Inr res, s')"
  shows "redact_loop E tx 0 [] [] None (pii_accepted loaded tx) = (pr_text res, pr_matches res, pr_escalation res)"
    and "pr_changed res = (pii_accepted loaded tx \<noteq> [])"
  using assms by (auto simp: pii_check_split sbind_Inr_iff split: if_splits prod.splits)

lemma pii_accepted_order: "pii_spans_ok loaded tx \<Longrightarrow> in_order 0 (pii_accepted loaded tx)"
  by (auto simp: pii_accepted_def pii_spans_ok_def intro!: accept_spans_order)

lemma sorted_span_starts: "sorted (map (\<lambda>(s, e, p). s) (sort_key span_key spans))"
proof -
  have "sorted_wrt (\<lambda>a b. span_key a \<le> span_key b) (sort_key span_key spans)"
    using sorted_sort_key [of span_key spans] by (simp add: sorted_map)
  then show ?thesis
    unfolding sorted_map by (rule sorted_wrt_mono_rel [rotated]) (auto simp: span_key_def)
qed

lemma pieces_shape:
  "map (\<lambda>(g, h, p). p) (pieces tx cursor spans) = map (\<lambda>(s, e, p). p) spans"

  by (induction tx cursor spans rule: pieces.induct) auto


definition demo_patterns :: "pii_pattern list" where
  "demo_patterns =
    [\<lparr>pp_id = ''bad'', pp_class = ''regulated'', pp_compile = None\<rparr>,
     \<lparr>pp_id = ''email'', pp_class = ''pii'', pp_compile = Some (\<lambda>tx. if tx = ''mail a@b.c or 555'' then [(5, 10)] else [])\<rparr>,
     \<lparr>pp_id = ''phone'', pp_class = ''regulated'', pp_compile = Some (\<lambda>tx. if tx = ''mail a@b.c or 555'' then [(14, 17)] else [])\<rparr>,
     \<lparr>pp_id = ''host'', pp_class = ''pii'', pp_compile = Some (\<lambda>tx. if tx = ''mail a@b.c or 555'' then [(7, 13)] else [])\<rparr>]"

definition demo_pii :: "(mem, pii_result) act" where
  "demo_pii = pii_check demo_env (mem_store demo_env) ''c'' demo_patterns 1700000000000000 ''mail a@b.c or 555'' []"

definition demo_pii_result :: pii_result where
  "demo_pii_result = \<lparr>pr_text = ''mail [REDACTED:email] or [REDACTED:phone]'',
     pr_matches = [[(''pattern_id'', PStr ''email''), (''span'', PList [PInt 5, PInt 10]), (''original_hash'', PStr '''')],
       [(''pattern_id'', PStr ''phone''), (''span'', PList [PInt 14, PInt 17]), (''original_hash'', PStr '''')]],
     pr_escalation = Some ''regulated'', pr_changed = True\<rparr>"

lemma demo_pii_redact:
  "pii_accepted demo_patterns ''mail a@b.c or 555'' \<noteq> []"
  "redact_loop demo_env ''mail a@b.c or 555'' 0 [] [] None (pii_accepted demo_patterns ''mail a@b.c or 555'') =
     (pr_text demo_pii_result, pr_matches demo_pii_result, pr_escalation demo_pii_result)"
  by code_simp+

lemma demo_pii_run: "\<exists>s'. demo_pii mem_empty = (Inr demo_pii_result, s')"
proof -
  let ?tx = "''mail a@b.c or 555''"
  have "jsonable_dict (pii_log_args demo_env [] (map (\<lambda>m. dget m ''pattern_id'') (pr_matches demo_pii_result)))"
    by (simp add: pii_log_args_def demo_pii_result_def)
  from ml.record_write_ok [OF this]
  obtain s' where "record_write (mem_store demo_env)
      (\<lambda>u. pii_gate_req ''c'' [] (pr_matches demo_pii_result) 1700000000000000 u demo_env) mem_empty = (Inr (), s')"
    unfolding pii_gate_req_def by blast
  moreover have "pr_changed demo_pii_result" by (simp add: demo_pii_result_def)
  ultimately show ?thesis
    unfolding demo_pii_def pii_check_split by (simp add: demo_pii_redact)
qed

lemma demo_pii_spans_ok: "pii_spans_ok demo_patterns ''mail a@b.c or 555''"
  by code_simp


text \<open>No match escapes: every span a pattern finds (and Luhn confirms) is either redacted or
  begins inside a redacted span, and the redacted spans are in order and disjoint.\<close>

theorem pii_matches_covered:
  assumes "pii_spans_ok loaded tx" and "tx \<noteq> []" and "(s, e, p) \<in> set (pii_spans (pii_patterns loaded) tx)"
  shows "in_order 0 (pii_accepted loaded tx) \<and>
    ((s, e, p) \<in> set (pii_accepted loaded tx) \<or>
     (\<exists>a b q. (a, b, q) \<in> set (pii_accepted loaded tx) \<and> a \<le> s \<and> s < b))"
  using pii_accepted_order [OF assms(1)] assms(2,3)
    accept_spans_cover [OF sorted_span_starts, of s e p "pii_spans (pii_patterns loaded) tx" "-1"]
  by (auto simp: pii_accepted_def)

theorem pii_matches_covered_witness:
  "in_order 0 (pii_accepted demo_patterns ''mail a@b.c or 555'') \<and>
    ((7, 13, demo_patterns ! 3) \<in> set (pii_accepted demo_patterns ''mail a@b.c or 555'') \<or>
     (\<exists>a b q. (a, b, q) \<in> set (pii_accepted demo_patterns ''mail a@b.c or 555'') \<and> a \<le> 7 \<and> 7 < b))"
  by (rule pii_matches_covered [OF demo_pii_spans_ok])
    (simp_all add: demo_patterns_def pii_spans_def pii_patterns_def)


lemma pii_match_ids: "map (\<lambda>m. dget m ''pattern_id'') (map (\<lambda>(s, e, p). pii_match E tx s e p) spans) =
    map (\<lambda>(s, e, p). PStr (pp_id p)) spans"
  by (auto simp: pii_match_def)

lemma pii_check_returns:
  assumes "reliable_store E L invar" and "invar s"
  shows "\<exists>res s'. pii_check E L c loaded now tx ctx s = (Inr res, s') \<and>
    (if pii_accepted loaded tx = [] then s' = s else \<exists>a. logged L s s' c now ''emit_gate_fired'' a)"
proof (cases "pii_accepted loaded tx = []")
  case True
  then show ?thesis by (simp add: pii_check_split)
next
  case False
  let ?ms = "map (\<lambda>(s, e, p). pii_match E tx s e p) (pii_accepted loaded tx)"
  have "jsonable_dict (pii_log_args E ctx (map (\<lambda>m. dget m ''pattern_id'') ?ms))"
    unfolding pii_match_ids by (simp add: pii_log_args_def list_all_iff split_def)
  from reliable_store.record_write_ok [OF assms(1) this] obtain s'
    where w: "record_write L (\<lambda>u. pii_gate_req c ctx ?ms now u E) s = (Inr (), s')"
    unfolding pii_gate_req_def by blast
  from ledger_store.record_write_logged(1) [OF reliable_store.axioms(1) [OF assms(1)] assms(2) w [unfolded pii_gate_req_def]]
  have "\<exists>a. logged L s s' c now ''emit_gate_fired'' a" by blast
  with w False show ?thesis by (auto simp: pii_check_split redact_loop_spec)
qed

text \<open>The ledger learns which patterns fired, never the text: a check that redacts something
  appends one \<open>gate_fired\<close> entry whose arguments are a function of the context and of the
  identifiers of the accepted patterns; a check that redacts nothing writes nothing.\<close>

theorem pii_log_reveals_ids_only:
  assumes "ledger_store E L invar" and "invar s" and "pii_check E L c loaded now tx ctx s = (Inr res, s')"
  shows "if pr_changed res
    then logged L s s' c now ''emit_gate_fired'' (pii_log_args E ctx (map (\<lambda>(s, e, p). PStr (pp_id p)) (pii_accepted loaded tx)))
    else s' = s \<and> pr_text res = tx"
proof (cases "pii_accepted loaded tx = []")
  case True
  with assms(3) show ?thesis by (auto simp: pii_check_split)
next
  case False
  from assms(3) obtain res' where
    "record_write L (\<lambda>u. pii_gate_req c ctx (map (\<lambda>(s, e, p). pii_match E tx s e p) (pii_accepted loaded tx)) now u E) s
       = (Inr (), s')"
    by (auto simp: pii_check_split redact_loop_spec False sbind_Inr_iff)
  from ledger_store.record_write_logged(1) [OF assms(1,2) this [unfolded pii_gate_req_def pii_match_ids]]
    pii_check_result(2) [OF assms(3)] False
  show ?thesis by simp
qed

theorem pii_log_reveals_ids_only_witness:
  "\<exists>s'. logged (mem_store demo_env) mem_empty s' ''c'' 1700000000000000 ''emit_gate_fired''
    (pii_log_args demo_env [] (map (\<lambda>(s, e, p). PStr (pp_id p)) (pii_accepted demo_patterns ''mail a@b.c or 555'')))"
proof -
  from demo_pii_run obtain s' where
    "pii_check demo_env (mem_store demo_env) ''c'' demo_patterns 1700000000000000 ''mail a@b.c or 555'' [] mem_empty =
      (Inr demo_pii_result, s')" by (auto simp: demo_pii_def)
  from pii_log_reveals_ids_only [OF ml.ledger_store_axioms mem_invar_empty this] show ?thesis
    by (auto simp: demo_pii_result_def)
qed

text \<open>The checksum catches every single mistyped digit of a card number, and every swap of
  two neighbouring digits other than 0 and 9, wherever separators stand.\<close>

theorem luhn_detects_typos:
  assumes "is_digit d" and "is_digit c" and "c \<noteq> d"
  shows "(luhn_ok (a @ d # b) \<longrightarrow> \<not> luhn_ok (a @ c # b)) \<and>
    ({c, d} \<noteq> {CHR ''0'', CHR ''9''} \<longrightarrow> luhn_ok (a @ d # c # b) \<longrightarrow> \<not> luhn_ok (a @ c # d # b))"
  using luhn_substitution [OF assms] luhn_transposition [OF assms] by blast

theorem luhn_detects_typos_witness:
  "luhn_ok ''4111-1111-1111-1111'' \<and> \<not> luhn_ok ''4111-1111-1111-1112'' \<and>
   luhn_ok ''5500 0000 0000 0004'' \<and> \<not> luhn_ok ''5500 0000 0000 0040''"
proof -
  have ok: "luhn_ok (''4111-1111-1111-111'' @ CHR ''1'' # [])"
    "luhn_ok (''5500 0000 0000 00'' @ CHR ''0'' # CHR ''4'' # [])"
    by code_simp+
  have digit: "is_digit CHR ''1''" "is_digit CHR ''2''" "is_digit CHR ''0''" "is_digit CHR ''4''"
    by (simp_all add: is_digit_def digits_def)
  show ?thesis
    using ok luhn_detects_typos [OF digit(1,2), of "''4111-1111-1111-111''" "[]"]
      luhn_detects_typos [OF digit(3,4), of "''5500 0000 0000 00''" "[]"]
    by (simp add: doubleton_eq_iff)
qed

end
