(* ===== verification/Governance_Gates.thy ===== *)
theory Governance_Gates
  imports Demo_Environment
begin

section \<open>The warmup, interjection and knowledge gates (\<open>gates.py\<close>)\<close>

text \<open>
  Each gate reads some state, decides, and records a refusal (the interjection gate also an
  admission) in the ledger. A gate's decision is the returned value; an exception of the ledger
  or of a malformed row is the outcome \<open>Inl\<close>.
\<close>

record gate_decision =
  gd_allow :: bool
  gd_reason :: string
  gd_metadata :: pydict
  gd_action :: "string option"

definition decide :: "bool \<Rightarrow> string \<Rightarrow> gate_decision" where
  "decide allow reason = \<lparr>gd_allow = allow, gd_reason = reason, gd_metadata = [], gd_action = None\<rparr>"

subsection \<open>\<open>WarmupGate\<close>\<close>

text \<open>
  What the ramp reader returns: an object with attributes, or a dictionary (which has no
  attribute of those names). \<open>str_to_float\<close> is \<open>float\<close> of a string.
\<close>

datatype ramp = RampObject pydict | RampMapping pydict

fun ramp_attr :: "ramp \<Rightarrow> string \<Rightarrow> pyval \<Rightarrow> pyval" where
  "ramp_attr (RampObject attrs) name dflt = dget_or attrs name dflt"
| "ramp_attr (RampMapping d) name dflt = dflt"

definition ramp_schema :: "(string \<Rightarrow> rat option) \<Rightarrow> ramp \<Rightarrow> exc + rat" where
  "ramp_schema str_to_float r =
     py_float str_to_float
       (if ramp_attr r ''schema_axis'' PNone \<noteq> PNone then ramp_attr r ''schema_axis'' PNone
        else ramp_attr r ''schema'' (PFloat 0))"

record 's warmup_gate =
  wg_ramp_reader :: "uuid \<Rightarrow> ('s, ramp) act"
  wg_company :: uuid
  wg_threshold :: rat

definition warmup_args :: "env \<Rightarrow> bool \<Rightarrow> rat \<Rightarrow> rat \<Rightarrow> pydict" where
  "warmup_args E allow schema threshold =
     [(''gate'', PStr ''warmup''), (''outcome'', PStr (if \<not> allow then ''blocked'' else ''allowed'')),
      (''subject_ref'', PStr ''active_action''),
      (''reason'', PStr (''schema='' @ float_repr E schema @ '' threshold='' @ float_repr E threshold)),
      (''schema'', PFloat schema), (''threshold'', PFloat threshold)]"

definition warmup_record :: "env \<Rightarrow> 's store \<Rightarrow> 's warmup_gate \<Rightarrow> int \<Rightarrow> bool \<Rightarrow> rat \<Rightarrow> ('s, unit) act" where
  "warmup_record E L g now allow schema =
     record_write L (\<lambda>u. gate_req (wg_company g) ''gate_fired'' u ''warmup_blocked'' ''warmup_gate'' ''emit_gate_fired''
       (warmup_args E allow schema (wg_threshold g)) ''warmup'' ''warmup_logged'' ''keep''
       ''warmup decision recorded'' now ''passive_deterministic'')"

definition warmup_check :: "env \<Rightarrow> (string \<Rightarrow> rat option) \<Rightarrow> 's store \<Rightarrow> 's warmup_gate \<Rightarrow> int \<Rightarrow> string \<Rightarrow>
    uuid option \<Rightarrow> ('s, gate_decision) act" where
  "warmup_check E str_to_float L g now action_type company =
     (if action_type = ''passive'' then sret (decide True ''passive_always_allowed'')
      else sbind (wg_ramp_reader g (case company of None \<Rightarrow> wg_company g | Some c \<Rightarrow> c)) (\<lambda>r.
        sbind (\<lambda>s. (ramp_schema str_to_float r, s)) (\<lambda>schema.
          let meta = [(''schema'', PFloat schema), (''threshold'', PFloat (wg_threshold g))]
          in if wg_threshold g \<le> schema
             then sret \<lparr>gd_allow = True, gd_reason = ''warmup_ok:schema='' @ float_repr E schema,
                        gd_metadata = meta, gd_action = None\<rparr>
             else sbind (warmup_record E L g now False schema) (\<lambda>_.
               sret \<lparr>gd_allow = False, gd_reason = ''warmup_schema_under_'' @ dec_int (trunc (wg_threshold g)),
                      gd_metadata = meta, gd_action = None\<rparr>))))"

subsection \<open>\<open>InterjectionGate\<close>\<close>

definition day_us :: int where
  "day_us = 86400000000"

text \<open>Midnight UTC of the instant's day.\<close>

definition window_start :: "int \<Rightarrow> int" where
  "window_start now = now - now mod day_us"

record interjection_gate =
  ig_company :: uuid
  ig_limit :: int

definition clarify_key :: "string \<Rightarrow> string" where
  "clarify_key channel = ''clarify_asked:'' @ channel"

text \<open>\<open>r["payload"]["args"].get("content") == key and r["ts"] >= window_start\<close>.\<close>

definition clarify_hit :: "string \<Rightarrow> int \<Rightarrow> int \<times> pydict \<Rightarrow> exc + bool" where
  "clarify_hit channel start row =
     rbind (vitem (PDict (snd row)) ''args'') (\<lambda>args. rbind (vget args ''content'') (\<lambda>content.
       Inr (content = PStr (clarify_key channel) \<and> start \<le> fst row)))"

fun clarify_count :: "string \<Rightarrow> int \<Rightarrow> (int \<times> pydict) list \<Rightarrow> exc + int" where
  "clarify_count channel start [] = Inr 0"
| "clarify_count channel start (row # rows) =
     rbind (clarify_hit channel start row) (\<lambda>hit. rbind (clarify_count channel start rows) (\<lambda>n.
       Inr (if hit then n + 1 else n)))"

definition clarify_args :: "string \<Rightarrow> uuid \<Rightarrow> pydict" where
  "clarify_args channel memory =
     [(''memory_id'', PStr memory), (''content'', PStr (clarify_key channel)),
      (''tags'', PList [PStr ''clarify_asked'', PStr (''channel:'' @ channel)])]"

definition interjection_block_args :: "interjection_gate \<Rightarrow> string \<Rightarrow> int \<Rightarrow> string \<Rightarrow> pydict" where
  "interjection_block_args g channel asked start_iso =
     [(''gate'', PStr ''interjection''), (''outcome'', PStr ''blocked''), (''subject_ref'', PStr channel),
      (''reason'', PStr (''budget '' @ dec_int (ig_limit g) @ '' exhausted'')), (''channel_id'', PStr channel),
      (''current_count'', PInt asked), (''limit'', PInt (ig_limit g)), (''window_start'', PStr start_iso)]"

definition interjection_allow :: "env \<Rightarrow> 's store \<Rightarrow> interjection_gate \<Rightarrow> int \<Rightarrow> string \<Rightarrow> string \<Rightarrow> ('s, bool) act" where
  "interjection_allow E L g now channel question_type s =
     (if question_type \<noteq> ''clarification'' then (Inr True, s)
      else let start = window_start now; rows = st_fetch L s (ig_company g) None
        in sbind (\<lambda>s. (clarify_count channel start (execs rows), s)) (\<lambda>asked.
          if asked < ig_limit g
          then sbind (with_uuid L (\<lambda>m. record_write L (\<lambda>u. gate_req (ig_company g) ''memory_written'' u
                 ''clarify_asked'' ''interjection_gate'' ''emit_memory_written'' (clarify_args channel m)
                 ''clarify_asked'' ''clarify_logged'' ''keep'' ''clarify counted'' now ''active_deterministic'')))
               (\<lambda>_. sret True)
          else sbind (record_write L (\<lambda>u. gate_req (ig_company g) ''gate_fired'' u
                 ''interjection_over_budget'' ''interjection_gate'' ''emit_gate_fired''
                 (interjection_block_args g channel asked (isoformat start))
                 ''interjection'' ''interjection_logged'' ''keep'' ''interjection blocked'' now ''passive_deterministic''))
               (\<lambda>_. sret False)) s)"

subsection \<open>\<open>KnowledgeGate\<close>\<close>

record knowledge_gate =
  kg_ontology :: "string set"
  kg_confirmed :: "string set"
  kg_company :: uuid

definition knowledge_missing :: "knowledge_gate \<Rightarrow> string list \<Rightarrow> string list" where
  "knowledge_missing g concepts =
     (let unknown = filter (\<lambda>c. c \<notin> kg_ontology g) concepts;
          undefined = filter (\<lambda>c. c \<notin> kg_confirmed g) concepts
      in sorted_list_of_set (set unknown \<union> set undefined))"

definition knowledge_record :: "env \<Rightarrow> 's store \<Rightarrow> knowledge_gate \<Rightarrow> int \<Rightarrow> string list \<Rightarrow> ('s, unit) act" where
  "knowledge_record E L g now missing =
     record_write L (\<lambda>u. gate_req (kg_company g) ''gate_fired'' u ''knowledge_gap'' ''knowledge_gate'' ''emit_gate_fired''
       [(''gate'', PStr ''knowledge''), (''outcome'', PStr ''blocked''), (''subject_ref'', PStr ''answer''),
        (''reason'', PStr (''missing '' @ repr_strs missing)), (''missing'', PList (map PStr missing))]
       ''knowledge'' ''knowledge_logged'' ''keep'' ''knowledge gap recorded'' now ''passive_deterministic'')"

definition knowledge_check :: "env \<Rightarrow> 's store \<Rightarrow> knowledge_gate \<Rightarrow> int \<Rightarrow> string list \<Rightarrow> ('s, gate_decision) act" where
  "knowledge_check E L g now concepts =
     (if concepts = [] then sret (decide True ''no_concepts_referenced'')
      else let unknown = filter (\<lambda>c. c \<notin> kg_ontology g) concepts;
               undefined = filter (\<lambda>c. c \<notin> kg_confirmed g) concepts;
               missing = knowledge_missing g concepts
      in if missing = [] then sret (decide True ''all_concepts_known_and_defined'')
      else sbind (knowledge_record E L g now missing) (\<lambda>_. sret
        \<lparr>gd_allow = False, gd_reason = ''missing_knowledge:'' @ repr_strs missing,
         gd_metadata = [(''missing'', PList (map PStr missing)), (''unknown'', PList (map PStr unknown)),
                        (''undefined'', PList (map PStr undefined))],
         gd_action = Some (''clarify:what do we mean by '' @ hd missing @ ''?'')\<rparr>))"

subsection \<open>The channel posture default\<close>

definition CHANNEL_TALKATIVENESS_DEFAULT :: pydict where
  "CHANNEL_TALKATIVENESS_DEFAULT = [(''talkativeness'', PStr ''responsive''), (''daily_interjection_budget'', PInt 3)]"

definition channel_talkativeness_default :: pydict where
  "channel_talkativeness_default = CHANNEL_TALKATIVENESS_DEFAULT"

subsection \<open>The interjection budget\<close>

text \<open>An execute row that records a clarification on the channel, in the day starting at \<open>day\<close>.\<close>

definition is_ask :: "string \<Rightarrow> pydict \<Rightarrow> bool" where
  "is_ask channel pl = (case map_of pl ''args'' of
     Some (PDict args) \<Rightarrow> dget args ''content'' = PStr (clarify_key channel) | _ \<Rightarrow> False)"

definition asks_since :: "string \<Rightarrow> int \<Rightarrow> (int \<times> pydict) list \<Rightarrow> nat" where
  "asks_since channel start xs = length (filter (\<lambda>(t, pl). is_ask channel pl \<and> start \<le> t) xs)"

definition asks_on :: "string \<Rightarrow> int \<Rightarrow> (int \<times> pydict) list \<Rightarrow> nat" where
  "asks_on channel day xs = length (filter (\<lambda>(t, pl). is_ask channel pl \<and> window_start t = day) xs)"

lemma asks_on_append [simp]:
  "asks_on channel day (xs @ ys) = asks_on channel day xs + asks_on channel day ys"
  "asks_on channel day [] = 0"
  "asks_on channel day [(t, pl)] = (if is_ask channel pl \<and> window_start t = day then 1 else 0)"
  by (simp_all add: asks_on_def)

lemma clarify_hit_ask: "clarify_hit channel start (t, pl) = Inr b \<Longrightarrow> b \<longleftrightarrow> is_ask channel pl \<and> start \<le> t"
  by (auto simp: clarify_hit_def is_ask_def rbind_Inr_iff elim!: vitem.elims vget.elims split: option.splits)

lemma clarify_count_asks: "clarify_count channel start xs = Inr n \<Longrightarrow> n = int (asks_since channel start xs)"
proof (induction xs arbitrary: n)
  case (Cons x xs)
  obtain t pl where x: "x = (t, pl)" by (cases x)
  from Cons.prems obtain b k where "clarify_hit channel start (t, pl) = Inr b"
    and "clarify_count channel start xs = Inr k" and n: "n = (if b then k + 1 else k)"
    by (auto simp: x rbind_Inr_iff)
  with Cons.IH clarify_hit_ask [of channel start t pl b] show ?case
    by (auto simp: x asks_since_def)
qed (simp add: asks_since_def)

definition args_ok :: "pydict \<Rightarrow> bool" where
  "args_ok pl = (\<exists>args. map_of pl ''args'' = Some (PDict args))"

lemma clarify_count_ok:
  "\<forall>x\<in>set xs. args_ok (snd x) \<Longrightarrow> clarify_count channel start xs = Inr (int (asks_since channel start xs))"
proof (induction xs)
  case (Cons x xs)
  obtain t pl where x: "x = (t, pl)" by (cases x)
  with Cons show ?case
    by (auto simp: asks_since_def clarify_hit_def is_ask_def args_ok_def)
qed (simp add: asks_since_def)

text \<open>A row of today is counted from today's midnight on.\<close>

lemma asks_on_le_since: "asks_on channel (window_start now) xs \<le> asks_since channel (window_start now) xs"
proof -
  have "window_start t \<le> t" for t by (simp add: window_start_def day_us_def)
  then show ?thesis
    unfolding asks_on_def asks_since_def by (intro length_filter_mono) (auto dest: sym)
qed

lemma payload_of_ask: "payload_of tool args pl \<Longrightarrow> is_ask channel pl \<longleftrightarrow> dget args ''content'' = PStr (clarify_key channel)"
  by (simp add: payload_of_def is_ask_def)

lemma clarify_key_inj: "clarify_key a = clarify_key b \<longleftrightarrow> a = b"
  by (simp add: clarify_key_def)

text \<open>A sequence of calls: the clock reading, the channel and the question type of each.\<close>

fun interjection_run :: "env \<Rightarrow> 's store \<Rightarrow> interjection_gate \<Rightarrow> (int \<times> string \<times> string) list \<Rightarrow> 's \<Rightarrow>
    (exc + bool) list \<times> 's" where
  "interjection_run E L g [] s = ([], s)"
| "interjection_run E L g ((now, channel, qt) # calls) s =
     (let (out, s1) = interjection_allow E L g now channel qt s;
          (outs, s2) = interjection_run E L g calls s1
      in (out # outs, s2))"

definition admitted :: "string \<Rightarrow> int \<Rightarrow> (int \<times> string \<times> string) list \<Rightarrow> (exc + bool) list \<Rightarrow> nat" where
  "admitted ch day calls outs = length (filter (\<lambda>((now, channel, qt), out).
     out = Inr True \<and> qt = ''clarification'' \<and> channel = ch \<and> window_start now = day) (zip calls outs))"

context ledger_store
begin

lemma asks_on_logged:
  "logged L s s' c now tool args \<Longrightarrow> asks_on ch day (execs (st_fetch L s' c None)) =
     asks_on ch day (execs (st_fetch L s c None)) +
       (if dget args ''content'' = PStr (clarify_key ch) \<and> window_start now = day then 1 else 0)"
  by (auto simp: logged_def payload_of_ask)

lemma interjection_step:
  assumes inv: "invar s" and run: "interjection_allow E L g now channel qt s = (out, s')"
  shows "invar s' \<and>
     asks_on ch day (execs (st_fetch L s' (ig_company g) None)) =
       asks_on ch day (execs (st_fetch L s (ig_company g) None)) +
         (if out = Inr True \<and> qt = ''clarification'' \<and> channel = ch \<and> window_start now = day then 1 else 0) \<and>
     (out = Inr True \<and> qt = ''clarification'' \<longrightarrow>
       int (asks_on channel (window_start now) (execs (st_fetch L s (ig_company g) None))) < ig_limit g)"
proof (cases "qt = ''clarification''")
  case False
  with run inv show ?thesis by (simp add: interjection_allow_def)
next
  case qt: True
  define xs where "xs = execs (st_fetch L s (ig_company g) None)"
  show ?thesis
  proof (cases "clarify_count channel (window_start now) xs")
    case (Inl x)
    with run inv qt show ?thesis by (auto simp: interjection_allow_def Let_def sbind_def xs_def)
  next
    case (Inr n)
    then have n: "n = int (asks_since channel (window_start now) xs)" by (rule clarify_count_asks)
    show ?thesis
    proof (cases "n < ig_limit g")
      case lt: True
      from run have "sbind (with_uuid L (\<lambda>m. record_write L (\<lambda>u. gate_req (ig_company g) ''memory_written'' u
                 ''clarify_asked'' ''interjection_gate'' ''emit_memory_written'' (clarify_args channel m)
                 ''clarify_asked'' ''clarify_logged'' ''keep'' ''clarify counted'' now ''active_deterministic'')))
          (\<lambda>_. sret True) s = (out, s')"
        by (simp only: interjection_allow_def Let_def qt Inr [unfolded xs_def] sbind_lift lt
            if_True if_False not_True_eq_False simp_thms)
      then obtain out1 where
        w: "with_uuid L (\<lambda>m. record_write L (\<lambda>u. gate_req (ig_company g) ''memory_written'' u
                 ''clarify_asked'' ''interjection_gate'' ''emit_memory_written'' (clarify_args channel m)
                 ''clarify_asked'' ''clarify_logged'' ''keep'' ''clarify counted'' now ''active_deterministic'')) s = (out1, s')"
        and out: "out = (case out1 of Inl x \<Rightarrow> Inl x | Inr _ \<Rightarrow> Inr True)"
        by (rule sbind_sretE)
      have less: "int (asks_on channel (window_start now) xs) < ig_limit g"
        using lt n asks_on_le_since [of channel now xs] by simp
      from inv w show ?thesis
      proof (rule with_uuid_cases)
        fix m s1 assume s1: "invar s1" and same: "\<And>d q. st_fetch L s1 d q = st_fetch L s d q"
          and w1: "record_write L (\<lambda>u. gate_req (ig_company g) ''memory_written'' u
                 ''clarify_asked'' ''interjection_gate'' ''emit_memory_written'' (clarify_args channel m)
                 ''clarify_asked'' ''clarify_logged'' ''keep'' ''clarify counted'' now ''active_deterministic'') s1 = (out1, s')"
        have "jsonable_dict (clarify_args channel m)" by (simp add: clarify_args_def)
        from s1 this w1 show ?thesis
        proof (cases rule: record_write_cases)
          case 1
          with less out qt asks_on_logged [OF 1(3), of ch day] show ?thesis
            by (auto simp: same clarify_args_def clarify_key_inj xs_def)
        next
          case (2 x)
          with out show ?thesis by (simp add: unlogged_def same)
        qed
      qed
    next
      case ge: False
      from run have "sbind (record_write L (\<lambda>u. gate_req (ig_company g) ''gate_fired'' u
                 ''interjection_over_budget'' ''interjection_gate'' ''emit_gate_fired''
                 (interjection_block_args g channel n (isoformat (window_start now)))
                 ''interjection'' ''interjection_logged'' ''keep'' ''interjection blocked'' now ''passive_deterministic''))
          (\<lambda>_. sret False) s = (out, s')"
        by (simp only: interjection_allow_def Let_def qt Inr [unfolded xs_def] sbind_lift ge
            if_True if_False not_True_eq_False simp_thms)
      then obtain out1 where
        w: "record_write L (\<lambda>u. gate_req (ig_company g) ''gate_fired'' u
                 ''interjection_over_budget'' ''interjection_gate'' ''emit_gate_fired''
                 (interjection_block_args g channel n (isoformat (window_start now)))
                 ''interjection'' ''interjection_logged'' ''keep'' ''interjection blocked'' now ''passive_deterministic'') s = (out1, s')"
        and out: "out = (case out1 of Inl x \<Rightarrow> Inl x | Inr _ \<Rightarrow> Inr False)"
        by (rule sbind_sretE)
      have "jsonable_dict (interjection_block_args g channel n (isoformat (window_start now)))"
        by (simp add: interjection_block_args_def)
      from inv this w show ?thesis
      proof (cases rule: record_write_cases)
        case 1
        with out asks_on_logged [OF 1(3), of ch day] show ?thesis
          by (auto simp: interjection_block_args_def)
      next
        case (2 x)
        with out show ?thesis by (simp add: unlogged_def)
      qed
    qed
  qed
qed

lemma interjection_run_budget:
  "invar s \<Longrightarrow> interjection_run E L g calls s = (outs, s') \<Longrightarrow>
     length outs = length calls \<and> invar s' \<and>
     asks_on ch day (execs (st_fetch L s' (ig_company g) None)) =
       asks_on ch day (execs (st_fetch L s (ig_company g) None)) + admitted ch day calls outs \<and>
     int (asks_on ch day (execs (st_fetch L s' (ig_company g) None))) \<le>
       max (ig_limit g) (int (asks_on ch day (execs (st_fetch L s (ig_company g) None))))"
proof (induction calls arbitrary: s outs)
  case (Cons call calls)
  obtain now channel qt where call: "call = (now, channel, qt)" by (cases call)
  from Cons.prems(2) obtain out s1 outs1 where step: "interjection_allow E L g now channel qt s = (out, s1)"
    and run: "interjection_run E L g calls s1 = (outs1, s')" and outs: "outs = out # outs1"
    by (auto simp: call split: prod.splits)
  note 1 = interjection_step [OF Cons.prems(1) step, of ch day]
  then have "invar s1" by blast
  from Cons.IH [OF this run] 1 show ?case
    by (auto simp: outs call admitted_def)
qed (auto simp: admitted_def)

end

text \<open>C28: The daily budget. Over any sequence of calls, in any order of channels and clock readings
  and whatever writes fail, the clarifications a channel is granted on one UTC day, with those
  already in the log, never exceed the limit (or what the log already held).\<close>

theorem interjection_daily_budget:
  assumes "ledger_store E L invar" and "invar s" and "interjection_run E L g calls s = (outs, s')"
  shows "int (asks_on ch day (execs (st_fetch L s (ig_company g) None)) + admitted ch day calls outs) \<le>
    max (ig_limit g) (int (asks_on ch day (execs (st_fetch L s (ig_company g) None))))"
  using ledger_store.interjection_run_budget [OF assms, of ch day] by simp

definition demo_interjection :: interjection_gate where
  "demo_interjection = \<lparr>ig_company = ''c'', ig_limit = 3\<rparr>"

definition demo_calls :: "(int \<times> string \<times> string) list" where
  "demo_calls = [(1700000000000000, ''data'', ''clarification''), (1699990000000000, ''data'', ''clarification''),
     (1700000000000001, ''data'', ''statement''), (1700000000000002, ''ops'', ''clarification''),
     (1700000000000003, ''data'', ''clarification''), (1700000000000004, ''data'', ''clarification'')]"

theorem interjection_daily_budget_witness:
  "admitted ''data'' (window_start 1700000000000000) demo_calls
     (fst (interjection_run demo_env (mem_store demo_env) demo_interjection demo_calls mem_empty)) \<le> 3"
proof -
  obtain outs s' where run: "interjection_run demo_env (mem_store demo_env) demo_interjection demo_calls mem_empty = (outs, s')"
    by (cases "interjection_run demo_env (mem_store demo_env) demo_interjection demo_calls mem_empty")
  have "execs (st_fetch (mem_store demo_env) mem_empty (ig_company demo_interjection) None) = []"
    by (simp add: mem_empty_def mem_rows_def)
  with interjection_daily_budget [OF ml.ledger_store_axioms mem_invar_empty run, of "''data''" "window_start 1700000000000000"]
  show ?thesis by (simp add: run) (simp add: demo_interjection_def)
qed

text \<open>The decision of one call, on a ledger whose execute rows carry argument dictionaries: a
  statement always passes and writes nothing; a clarification passes exactly while fewer than
  \<open>limit\<close> were recorded for the channel since midnight UTC of the clock's day, and is then
  recorded itself; otherwise the refusal is recorded.\<close>

theorem interjection_decision:
  assumes "reliable_store E L invar" and "invar s"
    and "\<forall>x\<in>set (execs (st_fetch L s (ig_company g) None)). args_ok (snd x)"
    and n: "n = asks_since channel (window_start now) (execs (st_fetch L s (ig_company g) None))"
  shows "\<exists>s'. interjection_allow E L g now channel qt s = (Inr (qt \<noteq> ''clarification'' \<or> int n < ig_limit g), s') \<and>
    (if qt \<noteq> ''clarification'' then s' = s
     else if int n < ig_limit g
     then \<exists>m. logged L s s' (ig_company g) now ''emit_memory_written'' (clarify_args channel m)
     else logged L s s' (ig_company g) now ''emit_gate_fired''
            (interjection_block_args g channel (int n) (isoformat (window_start now))))"
proof -
  let ?xs = "execs (st_fetch L s (ig_company g) None)"
  note led = reliable_store.axioms(1) [OF assms(1)]
  note unf = interjection_allow_def Let_def clarify_count_ok [OF assms(3)] sbind_lift n [symmetric]
  show ?thesis
  proof (cases "qt = ''clarification''")
    case False
    then show ?thesis by (simp add: interjection_allow_def)
  next
    case qt: True
    show ?thesis
    proof (cases "int n < ig_limit g")
      case True
      obtain m s1 where u: "st_uuid L s = (m, s1)" by (cases "st_uuid L s")
      note s1 = ledger_store.uuid_fetch [OF led u] ledger_store.uuid_invar [OF led assms(2) u]
      have "jsonable_dict (clarify_args channel m)" by (simp add: clarify_args_def)
      from reliable_store.record_write_ok [OF assms(1) this] obtain s'
        where w: "record_write L (\<lambda>u. gate_req (ig_company g) ''memory_written'' u
                 ''clarify_asked'' ''interjection_gate'' ''emit_memory_written'' (clarify_args channel m)
                 ''clarify_asked'' ''clarify_logged'' ''keep'' ''clarify counted'' now ''active_deterministic'') s1 = (Inr (), s')"
        by blast
      have "logged L s s' (ig_company g) now ''emit_memory_written'' (clarify_args channel m)"
        using ledger_store.record_write_logged(1) [OF led s1(2) w] ledger_store.logged_cong [OF led s1(1)] by blast
      moreover have "interjection_allow E L g now channel qt s = (Inr True, s')"
        using True w by (simp add: unf qt with_uuid_def u sbind_def)
      ultimately show ?thesis using True qt by auto
    next
      case False
      have "jsonable_dict (interjection_block_args g channel (int n) (isoformat (window_start now)))"
        by (simp add: interjection_block_args_def)
      from reliable_store.record_write_ok [OF assms(1) this] obtain s'
        where w: "record_write L (\<lambda>u. gate_req (ig_company g) ''gate_fired'' u
                 ''interjection_over_budget'' ''interjection_gate'' ''emit_gate_fired''
                 (interjection_block_args g channel (int n) (isoformat (window_start now)))
                 ''interjection'' ''interjection_logged'' ''keep'' ''interjection blocked'' now ''passive_deterministic'') s = (Inr (), s')"
        by blast
      from ledger_store.record_write_logged(1) [OF led assms(2) w]
      have "logged L s s' (ig_company g) now ''emit_gate_fired''
          (interjection_block_args g channel (int n) (isoformat (window_start now)))" .
      moreover have "interjection_allow E L g now channel qt s = (Inr False, s')"
        using False w by (simp add: unf qt sbind_def)
      ultimately show ?thesis using False qt by auto
    qed
  qed
qed

theorem interjection_decision_witness:
  "\<exists>s'. interjection_allow demo_env (mem_store demo_env) demo_interjection 5 ''data'' ''clarification'' mem_empty = (Inr True, s')"
proof -
  have "execs (st_fetch (mem_store demo_env) mem_empty (ig_company demo_interjection) None) = []"
    by (simp add: mem_empty_def mem_rows_def)
  with interjection_decision [OF ml.reliable_store_axioms mem_invar_empty, of demo_env demo_interjection _ "''data''" 5 "''clarification''"]
  show ?thesis by (auto simp: asks_since_def demo_interjection_def)
qed

text \<open>A single execute row without \<open>args\<close> in the company's log makes every clarification check
  raise, whatever the channel, and leaves the ledger untouched.\<close>

theorem interjection_malformed_row_raises:
  assumes "\<exists>x\<in>set (execs (st_fetch L s (ig_company g) None)). map_of (snd x) ''args'' = None"
  shows "\<exists>x. interjection_allow E L g now channel ''clarification'' s = (Inl x, s)"
proof -
  have "\<exists>x. clarify_count channel start xs = Inl x" if "\<exists>x\<in>set xs. map_of (snd x) ''args'' = None" for start xs
    using that
  proof (induction xs)
    case (Cons x xs)
    show ?case
    proof (cases "map_of (snd x) ''args'' = None")
      case True
      then show ?thesis by (simp add: clarify_hit_def)
    next
      case False
      with Cons obtain e where "clarify_count channel start xs = Inl e" by auto
      then show ?thesis by (cases "clarify_hit channel start x") simp_all
    qed
  qed simp
  from this [OF assms] obtain x where
    "clarify_count channel (window_start now) (execs (st_fetch L s (ig_company g) None)) = Inl x" by blast
  then show ?thesis by (simp add: interjection_allow_def Let_def)
qed

definition bare_execute :: "write_req" where
  "bare_execute = const_req ''c'' [] [(''tool'', PStr ''custom'')] [(''passed'', PBool True)] [] (Some 0) 0 ''q''"

theorem interjection_malformed_row_raises_witness:
  "\<exists>x st. interjection_allow demo_env (mem_store demo_env) demo_interjection 5 ''data'' ''clarification'' st = (Inl x, st)"
proof -
  have "clean_req bare_execute" by (simp add: bare_execute_def clean_const_req)
  from ml.write_clean [OF this, where s = mem_empty] obtain res st
    where w: "st_write (mem_store demo_env) bare_execute mem_empty = (Inr res, st)" by blast
  from ml.write_appends [OF mem_invar_empty w] obtain new where
    new: "st_fetch (mem_store demo_env) st ''c'' None = new"
    "pevr_rows demo_env bare_execute 0 GENESIS_PREV_HASH new"
    by (auto simp: bare_execute_def const_req_def mem_rows_def mem_empty_def)
  from pevr_rows_execs [OF new(2)] obtain p pl where pl: "exec_payload bare_execute p = Inr pl"
    "execs new = [(write_time bare_execute, pl)]" by blast
  then have "map_of pl ''args'' = None"
    by (auto simp: exec_payload_def bare_execute_def const_req_def dict_merge_def)
  with pl new(1) have "\<exists>x\<in>set (execs (st_fetch (mem_store demo_env) st (ig_company demo_interjection) None)).
      map_of (snd x) ''args'' = None"
    by (simp add: demo_interjection_def)
  from interjection_malformed_row_raises [OF this] show ?thesis by blast
qed

subsection \<open>Warmup and knowledge decisions\<close>

text \<open>The warmup gate lets every passive action through without reading anything, and an active
  one exactly when the schema reading has reached the threshold; a refusal is recorded once, for
  the gate's company, with the reading and the threshold.\<close>

theorem warmup_decision:
  assumes "reliable_store E L invar" and "invar s1"
    and "wg_ramp_reader g (case company of None \<Rightarrow> wg_company g | Some c \<Rightarrow> c) s = (Inr r, s1)"
    and "ramp_schema str_to_float r = Inr x"
  shows "warmup_check E str_to_float L g now ''passive'' company s = (Inr (decide True ''passive_always_allowed''), s) \<and>
    (\<exists>d s'. warmup_check E str_to_float L g now ''active'' company s = (Inr d, s') \<and>
       gd_allow d = (wg_threshold g \<le> x) \<and>
       (if gd_allow d then s' = s1
        else logged L s1 s' (wg_company g) now ''emit_gate_fired'' (warmup_args E False x (wg_threshold g))))"
proof -
  have "\<exists>d s'. warmup_check E str_to_float L g now ''active'' company s = (Inr d, s') \<and>
       gd_allow d = (wg_threshold g \<le> x) \<and>
       (if gd_allow d then s' = s1
        else logged L s1 s' (wg_company g) now ''emit_gate_fired'' (warmup_args E False x (wg_threshold g)))"
  proof (cases "wg_threshold g \<le> x")
    case True
    then show ?thesis by (simp add: warmup_check_def assms(3,4) sbind_lift Let_def)
  next
    case False
    have "jsonable_dict (warmup_args E False x (wg_threshold g))" by (simp add: warmup_args_def)
    from reliable_store.record_write_ok [OF assms(1) this] obtain s'
      where w: "warmup_record E L g now False x s1 = (Inr (), s')"
      unfolding warmup_record_def by blast
    from ledger_store.record_write_logged(1) [OF reliable_store.axioms(1) [OF assms(1)] assms(2) w [unfolded warmup_record_def]]
    have "logged L s1 s' (wg_company g) now ''emit_gate_fired'' (warmup_args E False x (wg_threshold g))" .
    with False w show ?thesis by (simp add: warmup_check_def assms(3,4) sbind_lift Let_def)
  qed
  then show ?thesis by (simp add: warmup_check_def)
qed

definition demo_warmup :: "ramp \<Rightarrow> mem warmup_gate" where
  "demo_warmup r = \<lparr>wg_ramp_reader = (\<lambda>c s. (Inr r, s)), wg_company = ''c'', wg_threshold = 50\<rparr>"

theorem warmup_decision_witness:
  "\<exists>d s'. warmup_check demo_env (\<lambda>_. None) (mem_store demo_env)
      (demo_warmup (RampObject [(''schema_axis'', PFloat (99/2))])) 7 ''active'' None mem_empty = (Inr d, s') \<and> \<not> gd_allow d"
proof -
  let ?r = "RampObject [(''schema_axis'', PFloat (99/2))]"
  have reader: "wg_ramp_reader (demo_warmup ?r) (case None of None \<Rightarrow> wg_company (demo_warmup ?r) | Some c \<Rightarrow> c) mem_empty = (Inr ?r, mem_empty)"
    by (simp add: demo_warmup_def)
  have schema: "ramp_schema (\<lambda>_. None) ?r = Inr (99/2)" by (simp add: ramp_schema_def dget_or_def)
  have "wg_threshold (demo_warmup ?r) = 50" by (simp add: demo_warmup_def)
  with warmup_decision [where E = demo_env and now = 7, OF ml.reliable_store_axioms mem_invar_empty reader schema]
  show ?thesis by fastforce
qed

text \<open>A ramp reader that returns a dictionary is read as schema 0: the gate looks for attributes,
  so with a positive threshold it blocks whatever the dictionary says.\<close>

theorem warmup_mapping_blocked:
  assumes "wg_ramp_reader g (wg_company g) s = (Inr (RampMapping d), s1)" and "0 < wg_threshold g"
    and "warmup_check E str_to_float L g now ''active'' None s = (Inr dec, s')"
  shows "\<not> gd_allow dec"
proof -
  have "ramp_schema str_to_float (RampMapping d) = Inr 0" by (simp add: ramp_schema_def)
  with assms show ?thesis
    by (auto simp: warmup_check_def sbind_lift Let_def sbind_Inr_iff)
qed

theorem warmup_mapping_blocked_witness:
  "\<exists>dec s'. warmup_check demo_env (\<lambda>_. None) (mem_store demo_env)
      (demo_warmup (RampMapping [(''schema'', PFloat 80)])) 7 ''active'' None mem_empty = (Inr dec, s') \<and> \<not> gd_allow dec"
proof -
  let ?g = "demo_warmup (RampMapping [(''schema'', PFloat 80)])"
  have reader: "wg_ramp_reader ?g (wg_company ?g) mem_empty = (Inr (RampMapping [(''schema'', PFloat 80)]), mem_empty)"
    and pos: "0 < wg_threshold ?g" by (simp_all add: demo_warmup_def)
  have "jsonable_dict (warmup_args demo_env False 0 (wg_threshold ?g))" by (simp add: warmup_args_def)
  from ml.record_write_ok [OF this] obtain s1
    where "warmup_record demo_env (mem_store demo_env) ?g 7 False 0 mem_empty = (Inr (), s1)"
    unfolding warmup_record_def by blast
  then obtain dec s' where run: "warmup_check demo_env (\<lambda>_. None) (mem_store demo_env) ?g 7 ''active'' None mem_empty = (Inr dec, s')"
    using reader pos by (simp add: warmup_check_def sbind_lift Let_def ramp_schema_def sbind_def)
  from warmup_mapping_blocked [OF reader pos run] run show ?thesis by blast
qed

text \<open>The knowledge gate allows an answer exactly when every concept is both in the ontology and
  confirmed; otherwise it records the sorted list of the missing ones and asks about the first.\<close>

theorem knowledge_decision:
  assumes "reliable_store E L invar" and "invar s"
    and bad: "bad = {c \<in> set concepts. c \<notin> kg_ontology g \<or> c \<notin> kg_confirmed g}"
  shows "sorted (knowledge_missing g concepts) \<and> distinct (knowledge_missing g concepts) \<and>
    set (knowledge_missing g concepts) = bad \<and>
    (\<exists>d s'. knowledge_check E L g now concepts s = (Inr d, s') \<and> gd_allow d = (bad = {}) \<and>
      (if bad = {} then s' = s
       else gd_action d = Some (''clarify:what do we mean by '' @ Min bad @ ''?'') \<and>
            dget (gd_metadata d) ''missing'' = PList (map PStr (sorted_list_of_set bad)) \<and>
            (\<exists>args. logged L s s' (kg_company g) now ''emit_gate_fired'' args \<and>
               dget args ''missing'' = PList (map PStr (sorted_list_of_set bad)))))"
proof -
  note led = reliable_store.axioms(1) [OF assms(1)]
  have fin: "finite bad" by (simp add: bad)
  have missing: "knowledge_missing g concepts = sorted_list_of_set bad"
    unfolding knowledge_missing_def Let_def bad by (rule arg_cong [where f = sorted_list_of_set]) auto
  have "\<exists>d s'. knowledge_check E L g now concepts s = (Inr d, s') \<and> gd_allow d = (bad = {}) \<and>
      (if bad = {} then s' = s
       else gd_action d = Some (''clarify:what do we mean by '' @ Min bad @ ''?'') \<and>
            dget (gd_metadata d) ''missing'' = PList (map PStr (sorted_list_of_set bad)) \<and>
            (\<exists>args. logged L s s' (kg_company g) now ''emit_gate_fired'' args \<and>
               dget args ''missing'' = PList (map PStr (sorted_list_of_set bad))))"
  proof (cases "bad = {}")
    case True
    then show ?thesis by (simp add: knowledge_check_def Let_def missing decide_def)
  next
    case False
    let ?args = "[(''gate'', PStr ''knowledge''), (''outcome'', PStr ''blocked''), (''subject_ref'', PStr ''answer''),
        (''reason'', PStr (''missing '' @ repr_strs (sorted_list_of_set bad))),
        (''missing'', PList (map PStr (sorted_list_of_set bad)))]"
    have "jsonable_dict ?args" by simp
    from reliable_store.record_write_ok [OF assms(1) this] obtain s'
      where w: "knowledge_record E L g now (sorted_list_of_set bad) s = (Inr (), s')"
      unfolding knowledge_record_def by blast
    from ledger_store.record_write_logged(1) [OF led assms(2) w [unfolded knowledge_record_def]]
    have log: "logged L s s' (kg_company g) now ''emit_gate_fired'' ?args" .
    have ne: "concepts \<noteq> []" "sorted_list_of_set bad \<noteq> []" using False fin by (auto simp: bad)
    have hd: "hd (sorted_list_of_set bad) = Min bad"
      using sorted_list_of_set_nonempty [OF fin False] by simp
    have "dget ?args ''missing'' = PList (map PStr (sorted_list_of_set bad))" by simp
    with log False ne w show ?thesis
      by (auto simp: knowledge_check_def Let_def missing hd sbind_def)
  qed
  then show ?thesis using fin by (simp add: missing)
qed

theorem knowledge_decision_witness:
  "\<exists>d s'. knowledge_check demo_env (mem_store demo_env)
      \<lparr>kg_ontology = {''churn'', ''arr''}, kg_confirmed = {''arr''}, kg_company = ''c''\<rparr> 7 [''churn'', ''arr''] mem_empty =
      (Inr d, s') \<and> \<not> gd_allow d"
  using knowledge_decision [OF ml.reliable_store_axioms mem_invar_empty refl, where
      g = "\<lparr>kg_ontology = {''churn'', ''arr''}, kg_confirmed = {''arr''}, kg_company = ''c''\<rparr>" and now = 7
      and concepts = "[''churn'', ''arr'']" and E = demo_env]
  by auto

end
