(* ===== verification/Mcp_Gates.thy ===== *)
theory Mcp_Gates
  imports Pii_Gate Governance_Gates
begin

section \<open>The gates around every MCP tool call (\<open>agent_gateway/governance.py\<close>)\<close>

text \<open>
  The four inline gates, the adapters that run the stateful governance gates, and \<open>apply_gates\<close>,
  which runs the chain and stops at the first denial. The grant and classification lookups are
  the callbacks the server passes; a compiled pattern is what its \<open>search\<close> and \<open>sub\<close> compute.
\<close>

record gate_denial =
  de_reason :: string
  de_gate :: string
  de_fix :: "string option"

record agent_grant =
  ag_kind :: string
  ag_target :: string
  ag_status :: string
  ag_budget :: "(rat \<times> string) option"

record gov_context =
  gc_ceiling :: string

definition default_context :: gov_context where
  "default_context = \<lparr>gc_ceiling = ''internal''\<rparr>"

subsection \<open>Classification ranks\<close>

definition CLASSIFICATION_RANK :: "(string \<times> nat) list" where
  "CLASSIFICATION_RANK = [(''public'', 0), (''internal'', 1), (''confidential'', 2), (''pii'', 3), (''regulated'', 4)]"

definition rank :: "string option \<Rightarrow> nat" where
  "rank c = (case c of None \<Rightarrow> the (map_of CLASSIFICATION_RANK ''internal'')
     | Some x \<Rightarrow> (case map_of CLASSIFICATION_RANK x of None \<Rightarrow> the (map_of CLASSIFICATION_RANK ''internal'') | Some r \<Rightarrow> r))"

subsection \<open>The inline gates\<close>

definition TOOL_GRANT_KINDS :: "(string \<times> string list) list" where
  "TOOL_GRANT_KINDS = map (\<lambda>tool. (tool, [''domain.read'', ''resource.read'']))
     [''lake.catalog.tables'', ''lake.semantic.metric'', ''lake.lineage'', ''lake.query'', ''lake.semantic.search'',
      ''lake.semantic.query_spec'', ''lake.query.suggest_correction'', ''lake.query.record_outcome'',
      ''lake.semantic.gap'', ''decisions.list'', ''decisions.get'', ''decisions.search'', ''processes.list'',
      ''processes.get'', ''data_products.list'', ''data_products.get'', ''data_products.consume'']"

type_synonym 's grant_lookup = "string \<Rightarrow> ('s, agent_grant list) act"

definition accepted_set :: "string list \<Rightarrow> string set" where
  "accepted_set accepted = set accepted \<union> {''resource.maintainer''}"

definition access_check :: "'s grant_lookup \<Rightarrow> string \<Rightarrow> string \<Rightarrow> ('s, gate_denial option) act" where
  "access_check lookup agent tool =
     (case map_of TOOL_GRANT_KINDS tool of
        None \<Rightarrow> sret (Some \<lparr>de_reason = ''unknown mcp_tool '' @ repr_str tool @ ''; no grant policy'',
                  de_gate = ''agent_access'', de_fix = None\<rparr>)
      | Some accepted \<Rightarrow> sbind (lookup agent) (\<lambda>grants.
          if list_ex (\<lambda>g. ag_status g = ''active'' \<and> ag_kind g \<in> accepted_set accepted) grants
          then sret None
          else sret (Some \<lparr>de_reason = ''agent '' @ repr_str agent @ '' lacks an active grant in '' @
                  repr_strs (sorted_list_of_set (accepted_set accepted)) @ '' for tool '' @ repr_str tool,
                de_gate = ''agent_access'', de_fix = Some ''ask an admin to assign domain.read or resource.read''\<rparr>)))"

definition resource_candidate :: "pydict \<Rightarrow> exc + pyval" where
  "resource_candidate args =
     (if truthy (dget args ''resource_id'') then Inr (dget args ''resource_id'')
      else if truthy (dget args ''source_id'') then Inr (dget args ''source_id'')
      else vget (py_or (dget args ''filter'') (PDict [])) ''resource_id'')"

definition classification_check :: "(pyval \<Rightarrow> ('s, string option) act) option \<Rightarrow> gov_context \<Rightarrow> pydict \<Rightarrow>
    ('s, gate_denial option) act" where
  "classification_check lookup ctx args =
     sbind (\<lambda>s. (resource_candidate args, s)) (\<lambda>candidate.
       case lookup of
         None \<Rightarrow> sret None
       | Some f \<Rightarrow> if \<not> truthy candidate then sret None else
           sbind (f candidate) (\<lambda>cl. case cl of
               None \<Rightarrow> sret None
             | Some x \<Rightarrow> if rank (Some x) > rank (Some (gc_ceiling ctx))
                 then sret (Some \<lparr>de_reason = ''resource classification '' @ repr_str x @ '' exceeds agent ceiling '' @
                         repr_str (gc_ceiling ctx),
                       de_gate = ''classification'',
                       de_fix = Some ''raise the agent's classification_ceiling grant, or query a lower-classification view''\<rparr>)
                 else sret None))"

definition redaction_check :: "('s, gate_denial option) act" where
  "redaction_check = sret None"

fun exhausted :: "agent_grant list \<Rightarrow> agent_grant option" where
  "exhausted [] = None"
| "exhausted (g # gs) =
     (case ag_budget g of None \<Rightarrow> exhausted gs
      | Some remaining \<Rightarrow> if fst remaining \<le> 0 then Some g else exhausted gs)"

definition cost_check :: "env \<Rightarrow> 's grant_lookup \<Rightarrow> string \<Rightarrow> ('s, gate_denial option) act" where
  "cost_check E lookup agent =
     sbind (lookup agent) (\<lambda>grants.
       let model_grants = filter (\<lambda>g. ag_kind g = ''model.access'' \<and> ag_status g = ''active'') grants
       in case exhausted model_grants of
            None \<Rightarrow> sret None
          | Some g \<Rightarrow> sret (Some \<lparr>de_reason = ''agent model budget exhausted: target='' @ ag_target g @ '' remaining='' @
                snd (the (ag_budget g)),
              de_gate = ''cost'',
              de_fix = Some ''ask an admin to top up the agent's model.access budget_remaining_usd''\<rparr>))"

subsection \<open>Redaction of the audit row\<close>

record mcp_pattern =
  mp_id :: string
  mp_search :: "string \<Rightarrow> bool"
  mp_sub :: "string \<Rightarrow> string \<Rightarrow> string"

definition mcp_marker :: "string \<Rightarrow> string" where
  "mcp_marker pid = ''[REDACTED:'' @ pid @ '']''"

fun redact_string :: "mcp_pattern list \<Rightarrow> string \<Rightarrow> string \<times> string list" where
  "redact_string [] tx = (tx, [])"
| "redact_string (p # ps) tx =
     (if mp_search p tx
      then let (r, m) = redact_string ps (mp_sub p (mcp_marker (mp_id p)) tx) in (r, mp_id p # m)
      else redact_string ps tx)"

fun redact_value :: "mcp_pattern list \<Rightarrow> pyval \<Rightarrow> pyval \<times> string list"
  and redact_list :: "mcp_pattern list \<Rightarrow> pyval list \<Rightarrow> pyval list \<times> string list"
  and redact_items :: "mcp_pattern list \<Rightarrow> pydict \<Rightarrow> pydict \<times> string list" where
  "redact_value ps (PStr tx) = (let (r, m) = redact_string ps tx in (PStr r, m))"
| "redact_value ps (PList vs) = (let (r, m) = redact_list ps vs in (PList r, m))"
| "redact_value ps (PDict d) = (let (r, m) = redact_items ps d in (PDict r, m))"
| "redact_value ps v = (v, [])"
| "redact_list ps [] = ([], [])"
| "redact_list ps (v # vs) =
     (let (r, m) = redact_value ps v; (rs, ms) = redact_list ps vs in (r # rs, m @ ms))"
| "redact_items ps [] = ([], [])"
| "redact_items ps ((k, v) # d) =
     (let (r, m) = redact_value ps v; (rs, ms) = redact_items ps d in ((k, r) # rs, m @ ms))"

definition redact_args :: "mcp_pattern list \<Rightarrow> pydict \<Rightarrow> pydict \<times> string list" where
  "redact_args ps args = (let (r, m) = redact_items ps args in (r, sorted_list_of_set (set m)))"

subsection \<open>The stateful adapters\<close>

fun walk_strings :: "pyval \<Rightarrow> string list" where
  "walk_strings (PStr tx) = (if tx \<noteq> [] then [tx] else [])"
| "walk_strings (PDict d) = concat (map (\<lambda>p. walk_strings (snd p)) d)"
| "walk_strings (PList vs) = concat (map walk_strings vs)"
| "walk_strings (PTuple vs) = concat (map walk_strings vs)"
| "walk_strings v = []"

record 's stateful_bundle =
  sb_company :: uuid
  sb_patterns :: "pii_pattern list"
  sb_warmup :: "'s warmup_gate"
  sb_interjection :: interjection_gate
  sb_clarify_tools :: "string set"
  sb_knowledge :: knowledge_gate
  sb_extract :: "(pydict \<Rightarrow> string list) option"

definition pii_adapter :: "env \<Rightarrow> 's store \<Rightarrow> 's stateful_bundle \<Rightarrow> int \<Rightarrow> string \<Rightarrow> string \<Rightarrow> pydict \<Rightarrow>
    ('s, gate_denial option) act" where
  "pii_adapter E L b now agent tool args =
     (let chunks = walk_strings (PDict args)
      in if chunks = [] then sret None
         else sbind (pii_check E L (sb_company b) (sb_patterns b) now (join [CHR 0x0A] chunks)
                [(''source'', PStr (''mcp:'' @ tool)), (''agent_id'', PStr agent)]) (\<lambda>_. sret None))"

definition warmup_adapter :: "env \<Rightarrow> (string \<Rightarrow> rat option) \<Rightarrow> 's store \<Rightarrow> 's stateful_bundle \<Rightarrow> int \<Rightarrow>
    ('s, gate_denial option) act" where
  "warmup_adapter E str_to_float L b now =
     sbind (warmup_check E str_to_float L (sb_warmup b) now ''passive'' None) (\<lambda>d.
       if gd_allow d then sret None
       else sret (Some \<lparr>de_reason = ''warmup gate denied: '' @ gd_reason d, de_gate = ''warmup_stateful'',
         de_fix = Some ''wait for the worm's schema-axis ramp to cross threshold, then retry''\<rparr>))"

definition interjection_adapter :: "env \<Rightarrow> 's store \<Rightarrow> 's stateful_bundle \<Rightarrow> int \<Rightarrow> string \<Rightarrow> pydict \<Rightarrow>
    ('s, gate_denial option) act" where
  "interjection_adapter E L b now tool args =
     (if tool \<notin> sb_clarify_tools b then sret None
      else let channel = py_or (dget args ''channel_id'') (py_or (dget args ''source_id'') (PStr []))
      in if \<not> truthy channel then sret None
      else sbind (interjection_allow E L (sb_interjection b) now (py_str E channel) ''clarification'') (\<lambda>allowed.
        if allowed then sret None
        else sret (Some \<lparr>de_reason = ''interjection budget exhausted for channel '' @ repr_str (py_str E channel),
          de_gate = ''interjection_stateful'',
          de_fix = Some ''wait for the daily window to roll over, or raise the channel's daily_interjection_budget''\<rparr>)))"

definition knowledge_adapter :: "env \<Rightarrow> 's store \<Rightarrow> 's stateful_bundle \<Rightarrow> int \<Rightarrow> pydict \<Rightarrow> ('s, gate_denial option) act" where
  "knowledge_adapter E L b now args =
     (case sb_extract b of
        None \<Rightarrow> sret None
      | Some extract \<Rightarrow> let concepts = extract args
          in if concepts = [] then sret None
             else sbind (knowledge_check E L (sb_knowledge b) now concepts) (\<lambda>d.
               if gd_allow d then sret None
               else sret (Some \<lparr>de_reason = ''knowledge gap: missing '' @ obj_str E (dget (gd_metadata d) ''missing''),
                 de_gate = ''knowledge_stateful'', de_fix = gd_action d\<rparr>)))"

subsection \<open>The chain\<close>

record 's gate_chain =
  ch_grants :: "'s grant_lookup"
  ch_classification :: "(pyval \<Rightarrow> ('s, string option) act) option"
  ch_stateful :: "'s stateful_bundle option"

text \<open>Run a gate; go on only when it does not deny.\<close>

definition then_gate :: "('s, gate_denial option) act \<Rightarrow> ('s, gate_denial option) act \<Rightarrow> ('s, gate_denial option) act" where
  "then_gate g rest = sbind g (\<lambda>d. case d of Some x \<Rightarrow> sret (Some x) | None \<Rightarrow> rest)"

definition inline_gates :: "env \<Rightarrow> 's gate_chain \<Rightarrow> string \<Rightarrow> string \<Rightarrow> pydict \<Rightarrow> gov_context \<Rightarrow>
    ('s, gate_denial option) act" where
  "inline_gates E ch agent tool args ctx =
     then_gate (access_check (ch_grants ch) agent tool)
    (then_gate (classification_check (ch_classification ch) ctx args)
    (then_gate redaction_check
       (cost_check E (ch_grants ch) agent)))"

definition stateful_gates :: "env \<Rightarrow> (string \<Rightarrow> rat option) \<Rightarrow> 's store \<Rightarrow> 's stateful_bundle \<Rightarrow> int \<Rightarrow> string \<Rightarrow>
    string \<Rightarrow> pydict \<Rightarrow> ('s, gate_denial option) act" where
  "stateful_gates E str_to_float L b now agent tool args =
     then_gate (pii_adapter E L b now agent tool args)
    (then_gate (warmup_adapter E str_to_float L b now)
    (then_gate (interjection_adapter E L b now tool args)
       (knowledge_adapter E L b now args)))"

definition apply_gates :: "env \<Rightarrow> (string \<Rightarrow> rat option) \<Rightarrow> 's store \<Rightarrow> 's gate_chain \<Rightarrow> int \<Rightarrow> string \<Rightarrow> string \<Rightarrow>
    pydict \<Rightarrow> gov_context option \<Rightarrow> ('s, gate_denial option) act" where
  "apply_gates E str_to_float L ch now agent tool args governance =
     (let ctx = (case governance of None \<Rightarrow> default_context | Some c \<Rightarrow> c)
      in then_gate (inline_gates E ch agent tool args ctx)
           (case ch_stateful ch of
              None \<Rightarrow> sret None
            | Some b \<Rightarrow> stateful_gates E str_to_float L b now agent tool args))"

subsection \<open>Properties of the chain\<close>

text \<open>The gate that stops a call, from the grants and the classification the lookups return.\<close>

definition has_access :: "agent_grant list \<Rightarrow> string \<Rightarrow> bool" where
  "has_access grants tool = (case map_of TOOL_GRANT_KINDS tool of None \<Rightarrow> False
     | Some accepted \<Rightarrow> list_ex (\<lambda>g. ag_status g = ''active'' \<and> ag_kind g \<in> accepted_set accepted) grants)"

definition over_ceiling :: "string option \<Rightarrow> gov_context \<Rightarrow> bool" where
  "over_ceiling cl ctx = (case cl of None \<Rightarrow> False | Some x \<Rightarrow> rank (Some x) > rank (Some (gc_ceiling ctx)))"

definition out_of_budget :: "agent_grant list \<Rightarrow> bool" where
  "out_of_budget grants = list_ex (\<lambda>g. ag_kind g = ''model.access'' \<and> ag_status g = ''active'' \<and>
     (case ag_budget g of None \<Rightarrow> False | Some r \<Rightarrow> fst r \<le> 0)) grants"

definition inline_verdict :: "agent_grant list \<Rightarrow> string option \<Rightarrow> string \<Rightarrow> gov_context \<Rightarrow> string option" where
  "inline_verdict grants cl tool ctx =
     (if \<not> has_access grants tool then Some ''agent_access''
      else if over_ceiling cl ctx then Some ''classification''
      else if out_of_budget grants then Some ''cost'' else None)"

text \<open>What the classification lookup says of the call's resource, read without side effect.\<close>

definition classified_as :: "'s gate_chain \<Rightarrow> pydict \<Rightarrow> 's \<Rightarrow> string option \<Rightarrow> bool" where
  "classified_as ch args s cl =
     (case resource_candidate args of Inl _ \<Rightarrow> False
      | Inr cand \<Rightarrow> (case ch_classification ch of None \<Rightarrow> cl = None
          | Some f \<Rightarrow> if truthy cand then f cand s = (Inr cl, s) else cl = None))"

lemma exhausted_iff: "exhausted gs = None \<longleftrightarrow> (\<forall>g\<in>set gs. case ag_budget g of None \<Rightarrow> True | Some r \<Rightarrow> \<not> fst r \<le> 0)"
proof (induction gs)
  case (Cons g gs)
  then show ?case by (cases "ag_budget g") (auto simp: split_def)
qed simp

lemma access_check_gate:
  "lookup agent s = (Inr grants, s) \<Longrightarrow> \<exists>d. access_check lookup agent tool s = (Inr d, s) \<and>
     map_option de_gate d = (if has_access grants tool then None else Some ''agent_access'')"
  by (auto simp: access_check_def has_access_def split: option.splits)

lemma classification_check_gate:
  "classified_as ch args s cl \<Longrightarrow> \<exists>d. classification_check (ch_classification ch) ctx args s = (Inr d, s) \<and>
     map_option de_gate d = (if over_ceiling cl ctx then Some ''classification'' else None)"
  by (auto simp: classification_check_def classified_as_def over_ceiling_def sbind_def
      split: option.splits sum.splits if_splits)

lemma cost_check_gate:
  "lookup agent s = (Inr grants, s) \<Longrightarrow> \<exists>d. cost_check E lookup agent s = (Inr d, s) \<and>
     map_option de_gate d = (if out_of_budget grants then Some ''cost'' else None)"
proof -
  assume l: "lookup agent s = (Inr grants, s)"
  let ?ms = "filter (\<lambda>g. ag_kind g = ''model.access'' \<and> ag_status g = ''active'') grants"
  have "out_of_budget grants \<longleftrightarrow> exhausted ?ms \<noteq> None"
    unfolding exhausted_iff by (auto simp: out_of_budget_def list_ex_iff split: option.splits)
  then show ?thesis using l
    by (cases "exhausted ?ms") (simp_all add: cost_check_def Let_def)
qed

lemma then_gate_None: "g s = (Inr None, s') \<Longrightarrow> then_gate g rest s = rest s'"
  and then_gate_Some: "g s = (Inr (Some d), s') \<Longrightarrow> then_gate g rest s = (Inr (Some d), s')"
  and then_gate_Inl: "g s = (Inl x, s') \<Longrightarrow> then_gate g rest s = (Inl x, s')"
  by (simp_all add: then_gate_def)

lemma inline_gates_verdict:
  assumes "ch_grants ch agent s = (Inr grants, s)" and "classified_as ch args s cl"
  shows "\<exists>d. inline_gates E ch agent tool args ctx s = (Inr d, s) \<and>
    map_option de_gate d = inline_verdict grants cl tool ctx"
proof -
  obtain d1 where 1: "access_check (ch_grants ch) agent tool s = (Inr d1, s)"
    "map_option de_gate d1 = (if has_access grants tool then None else Some ''agent_access'')"
    using access_check_gate [where lookup = "ch_grants ch", OF assms(1)] by blast
  obtain d2 where 2: "classification_check (ch_classification ch) ctx args s = (Inr d2, s)"
    "map_option de_gate d2 = (if over_ceiling cl ctx then Some ''classification'' else None)"
    using classification_check_gate [OF assms(2)] by blast
  obtain d3 where 3: "cost_check E (ch_grants ch) agent s = (Inr d3, s)"
    "map_option de_gate d3 = (if out_of_budget grants then Some ''cost'' else None)"
    using cost_check_gate [where lookup = "ch_grants ch", OF assms(1)] by blast
  have red: "redaction_check s = (Inr None, s)" by (simp add: redaction_check_def)
  show ?thesis
  proof (cases d1)
    case (Some d)
    with 1 show ?thesis
      by (auto simp: inline_gates_def then_gate_Some inline_verdict_def split: if_splits)
  next
    case d1: None
    show ?thesis
    proof (cases d2)
      case (Some d)
      with d1 1 2 show ?thesis
        by (auto simp: inline_gates_def then_gate_Some then_gate_None inline_verdict_def split: if_splits)
    next
      case None
      with d1 1 2 3 red show ?thesis
        by (auto simp: inline_gates_def then_gate_None inline_verdict_def split: if_splits)
    qed
  qed
qed

text \<open>The inline gates decide by grants, classification and budget in that order, unknown tools
  fail closed, and a denial of theirs ends the call before any stateful gate: the caller gets
  the name of the first failing gate and no ledger is touched.\<close>

theorem mcp_inline_denial:
  assumes "ch_grants ch agent s = (Inr grants, s)" and "classified_as ch args s cl"
    and "ctx = (case governance of None \<Rightarrow> default_context | Some c \<Rightarrow> c)"
    and "inline_verdict grants cl tool ctx = Some gate"
  shows "\<exists>d. apply_gates E str_to_float L ch now agent tool args governance s = (Inr (Some d), s) \<and> de_gate d = gate"
proof -
  from inline_gates_verdict [OF assms(1,2), of E tool ctx] assms(4) obtain d where
    "inline_gates E ch agent tool args ctx s = (Inr (Some d), s)" "de_gate d = gate" by auto
  then show ?thesis
    by (auto simp: apply_gates_def Let_def assms(3)[symmetric] then_gate_Some)
qed

definition demo_chain_gates :: "agent_grant list \<Rightarrow> mem gate_chain" where
  "demo_chain_gates grants = \<lparr>ch_grants = (\<lambda>agent s. (Inr grants, s)),
     ch_classification = Some (\<lambda>r s. (Inr (Some ''pii''), s)), ch_stateful = None\<rparr>"

theorem mcp_inline_denial_witness:
  "\<exists>d. apply_gates demo_env (\<lambda>_. None) (mem_store demo_env)
      (demo_chain_gates [\<lparr>ag_kind = ''domain.read'', ag_target = ''d'', ag_status = ''active'', ag_budget = None\<rparr>])
      5 ''bot'' ''lake.query'' [(''resource_id'', PStr ''r1'')] None mem_empty = (Inr (Some d), mem_empty) \<and>
    de_gate d = ''classification''"
proof (rule mcp_inline_denial [OF _ _ refl])
  let ?g = "[\<lparr>ag_kind = ''domain.read'', ag_target = ''d'', ag_status = ''active'', ag_budget = None\<rparr>]"
  show "ch_grants (demo_chain_gates ?g) ''bot'' mem_empty = (Inr ?g, mem_empty)"
    by (simp add: demo_chain_gates_def)
  show "classified_as (demo_chain_gates ?g) [(''resource_id'', PStr ''r1'')] mem_empty (Some ''pii'')"
    by (simp add: classified_as_def resource_candidate_def demo_chain_gates_def)
  show "inline_verdict ?g (Some ''pii'') ''lake.query'' (case None of None \<Rightarrow> default_context | Some c \<Rightarrow> c) = Some ''classification''"
    by code_simp
qed

lemma pii_adapter_passes:
  assumes "reliable_store E L invar" and "invar s"
  shows "\<exists>s'. pii_adapter E L b now agent tool args s = (Inr None, s') \<and>
    (if pii_accepted (sb_patterns b) (join [CHR 0x0A] (walk_strings (PDict args))) = [] then s' = s
     else \<exists>a. logged L s s' (sb_company b) now ''emit_gate_fired'' a)"
proof (cases "walk_strings (PDict args) = []")
  case True
  then show ?thesis by (simp add: pii_adapter_def pii_accepted_def del: walk_strings.simps)
next
  case False
  let ?tx = "join [CHR 0x0A] (walk_strings (PDict args))"
  from pii_check_returns [OF assms, of "sb_company b" "sb_patterns b" now ?tx
      "[(''source'', PStr (''mcp:'' @ tool)), (''agent_id'', PStr agent)]"]
  obtain res s' where
    "pii_check E L (sb_company b) (sb_patterns b) now ?tx
      [(''source'', PStr (''mcp:'' @ tool)), (''agent_id'', PStr agent)] s = (Inr res, s')"
    and "if pii_accepted (sb_patterns b) ?tx = [] then s' = s
      else \<exists>a. logged L s s' (sb_company b) now ''emit_gate_fired'' a" by blast
  with False show ?thesis by (auto simp: pii_adapter_def Let_def simp del: walk_strings.simps)
qed

lemma warmup_adapter_passes: "warmup_adapter E str_to_float L b now s = (Inr None, s)"
  by (simp add: warmup_adapter_def warmup_check_def decide_def)

lemma interjection_adapter_skips: "tool \<notin> sb_clarify_tools b \<Longrightarrow> interjection_adapter E L b now tool args s = (Inr None, s)"
  by (simp add: interjection_adapter_def)

lemma knowledge_adapter_skips: "sb_extract b = None \<Longrightarrow> knowledge_adapter E L b now args s = (Inr None, s)"
  by (simp add: knowledge_adapter_def)

text \<open>With every inline gate passed, no clarification tool and no concept extractor, the call goes
  through whatever the arguments contain: PII in them is recorded but never denies.\<close>

theorem mcp_pii_never_denies:
  assumes "reliable_store E L invar" and "invar s"
    and "ch_grants ch agent s = (Inr grants, s)" and "classified_as ch args s cl"
    and "ctx = (case governance of None \<Rightarrow> default_context | Some c \<Rightarrow> c)"
    and "inline_verdict grants cl tool ctx = None"
    and "ch_stateful ch = Some b" and "tool \<notin> sb_clarify_tools b" and "sb_extract b = None"
  shows "\<exists>s'. apply_gates E str_to_float L ch now agent tool args governance s = (Inr None, s') \<and>
    (if pii_accepted (sb_patterns b) (join [CHR 0x0A] (walk_strings (PDict args))) = [] then s' = s
     else \<exists>a. logged L s s' (sb_company b) now ''emit_gate_fired'' a)"
proof -
  from inline_gates_verdict [OF assms(3,4), of E tool ctx] assms(6)
  have inline: "inline_gates E ch agent tool args ctx s = (Inr None, s)" by auto
  from pii_adapter_passes [OF assms(1,2), of b now agent tool args] obtain s' where
    pii: "pii_adapter E L b now agent tool args s = (Inr None, s')"
    and res: "if pii_accepted (sb_patterns b) (join [CHR 0x0A] (walk_strings (PDict args))) = [] then s' = s
     else \<exists>a. logged L s s' (sb_company b) now ''emit_gate_fired'' a" by blast
  have "stateful_gates E str_to_float L b now agent tool args s = (Inr None, s')"
    using pii by (simp add: stateful_gates_def then_gate_None warmup_adapter_passes
        interjection_adapter_skips [OF assms(8)] knowledge_adapter_skips [OF assms(9)])
  with inline have "apply_gates E str_to_float L ch now agent tool args governance s = (Inr None, s')"
    by (simp add: apply_gates_def Let_def assms(5)[symmetric] then_gate_None assms(7))
  with res show ?thesis by blast
qed

definition demo_bundle :: "mem stateful_bundle" where
  "demo_bundle = \<lparr>sb_company = ''c'', sb_patterns = demo_patterns, sb_warmup = demo_warmup (RampMapping []),
     sb_interjection = \<lparr>ig_company = ''c'', ig_limit = 3\<rparr>, sb_clarify_tools = {},
     sb_knowledge = \<lparr>kg_ontology = {}, kg_confirmed = {}, kg_company = ''c''\<rparr>, sb_extract = None\<rparr>"

definition demo_open_chain :: "mem gate_chain" where
  "demo_open_chain = \<lparr>ch_grants = (\<lambda>agent s. (Inr [\<lparr>ag_kind = ''domain.read'', ag_target = ''d'', ag_status = ''active'',
       ag_budget = None\<rparr>], s)), ch_classification = None, ch_stateful = Some demo_bundle\<rparr>"

theorem mcp_pii_never_denies_witness:
  "\<exists>s' a. apply_gates demo_env (\<lambda>_. None) (mem_store demo_env) demo_open_chain 7 ''bot'' ''lake.query''
      [(''sql'', PStr ''mail a@b.c or 555'')] None mem_empty = (Inr None, s') \<and>
    logged (mem_store demo_env) mem_empty s' ''c'' 7 ''emit_gate_fired'' a"
proof -
  let ?args = "[(''sql'', PStr ''mail a@b.c or 555'')]"
  have 1: "ch_grants demo_open_chain ''bot'' mem_empty = (Inr [\<lparr>ag_kind = ''domain.read'', ag_target = ''d'',
      ag_status = ''active'', ag_budget = None\<rparr>], mem_empty)" by (simp add: demo_open_chain_def)
  have "resource_candidate ?args = Inr PNone" by code_simp
  then have 2: "classified_as demo_open_chain ?args mem_empty None"
    by (simp add: classified_as_def demo_open_chain_def)
  have 3: "inline_verdict [\<lparr>ag_kind = ''domain.read'', ag_target = ''d'', ag_status = ''active'', ag_budget = None\<rparr>]
      None ''lake.query'' (case None of None \<Rightarrow> default_context | Some c \<Rightarrow> c) = None" by code_simp
  have 4: "ch_stateful demo_open_chain = Some demo_bundle" by (simp add: demo_open_chain_def)
  have 5: "''lake.query'' \<notin> sb_clarify_tools demo_bundle" "sb_extract demo_bundle = None"
    by (simp_all add: demo_bundle_def)
  have hit: "pii_accepted (sb_patterns demo_bundle) (join [CHR 0x0A] (walk_strings (PDict ?args))) \<noteq> []"
    by code_simp
  from mcp_pii_never_denies [where E = demo_env and now = 7 and str_to_float = "\<lambda>_. None",
      OF ml.reliable_store_axioms mem_invar_empty 1 2 refl 3 4 5] hit
  show ?thesis by (auto simp: demo_bundle_def split: if_splits)
qed

subsection \<open>What the redacted arguments still hold\<close>

text \<open>
  A substitution of a pattern removes its matches, and does not create one of a pattern tried
  before it (what the list of compiled expressions is relied on for).
\<close>

definition mcp_subst :: "mcp_pattern \<Rightarrow> string \<Rightarrow> string" where
  "mcp_subst p tx = mp_sub p (mcp_marker (mp_id p)) tx"

definition patterns_stable :: "mcp_pattern list \<Rightarrow> bool" where
  "patterns_stable ps = ((\<forall>p\<in>set ps. \<forall>tx. \<not> mp_search p (mcp_subst p tx)) \<and>
     sorted_wrt (\<lambda>p q. \<forall>tx. \<not> mp_search p tx \<longrightarrow> \<not> mp_search p (mcp_subst q tx)) ps)"

definition no_match :: "mcp_pattern list \<Rightarrow> string \<Rightarrow> bool" where
  "no_match ps tx = (\<forall>p\<in>set ps. \<not> mp_search p tx)"

text \<open>The strings inside lists and dictionaries; a tuple is returned as it is.\<close>

fun inner_strings :: "pyval \<Rightarrow> string list" where
  "inner_strings (PStr tx) = [tx]"
| "inner_strings (PDict d) = concat (map (\<lambda>p. inner_strings (snd p)) d)"
| "inner_strings (PList vs) = concat (map inner_strings vs)"
| "inner_strings v = []"

lemma redact_string_keeps:
  "\<not> mp_search p tx \<Longrightarrow> \<forall>q\<in>set ps. \<forall>tx. \<not> mp_search p tx \<longrightarrow> \<not> mp_search p (mcp_subst q tx) \<Longrightarrow>
     \<not> mp_search p (fst (redact_string ps tx))"
  by (induction ps tx rule: redact_string.induct) (auto simp: mcp_subst_def Let_def split: prod.splits)

lemma redact_string_clean: "patterns_stable ps \<Longrightarrow> no_match ps (fst (redact_string ps tx))"
proof (induction ps tx rule: redact_string.induct)
  case (2 p ps tx)
  then have stable: "patterns_stable ps" and
    keeps: "\<forall>q\<in>set ps. \<forall>tx. \<not> mp_search p tx \<longrightarrow> \<not> mp_search p (mcp_subst q tx)" and
    self: "\<not> mp_search p (mcp_subst p tx)" by (auto simp: patterns_stable_def)
  define tx' where tx': "tx' = (if mp_search p tx then mcp_subst p tx else tx)"
  have "\<not> mp_search p tx'" using self by (simp add: tx')
  from redact_string_keeps [OF this keeps] have "\<not> mp_search p (fst (redact_string ps tx'))" .
  moreover have "no_match ps (fst (redact_string ps tx'))"
    using 2(1,2) [OF _ stable] by (cases "mp_search p tx") (simp_all add: tx' mcp_subst_def)
  moreover have "fst (redact_string (p # ps) tx) = fst (redact_string ps tx')"
    by (simp add: tx' mcp_subst_def Let_def split: prod.splits)
  ultimately show ?case by (simp add: no_match_def)
qed (simp add: no_match_def)

lemma redact_string_clean_eq: "redact_string ps tx = (r, m) \<Longrightarrow> patterns_stable ps \<Longrightarrow> no_match ps r"
  using redact_string_clean [of ps tx] by simp

lemma redact_string_none: "redact_string ps tx = (r, []) \<Longrightarrow> r = tx"
  by (induction ps tx arbitrary: r rule: redact_string.induct) (auto simp: Let_def split: prod.splits if_splits)

lemma redact_clean:
  "patterns_stable ps \<Longrightarrow> \<forall>t\<in>set (inner_strings (fst (redact_value ps v))). no_match ps t"
  "patterns_stable ps \<Longrightarrow> \<forall>t\<in>set (concat (map inner_strings (fst (redact_list ps vs)))). no_match ps t"
  "patterns_stable ps \<Longrightarrow> \<forall>t\<in>set (concat (map (\<lambda>p. inner_strings (snd p)) (fst (redact_items ps d)))). no_match ps t"
  by (induction ps v and ps vs and ps d rule: redact_value_redact_list_redact_items.induct)
    (auto simp: Let_def split: prod.splits dest: redact_string_clean_eq)

lemma redact_none:
  "snd (redact_value ps v) = [] \<Longrightarrow> fst (redact_value ps v) = v"
  "snd (redact_list ps vs) = [] \<Longrightarrow> fst (redact_list ps vs) = vs"
  "snd (redact_items ps d) = [] \<Longrightarrow> fst (redact_items ps d) = d"
  by (induction ps v and ps vs and ps d rule: redact_value_redact_list_redact_items.induct)
    (auto simp: Let_def split: prod.splits dest: redact_string_none)

lemma redact_items_keys: "map fst (fst (redact_items ps d)) = map fst d"
  by (induction d) (auto simp: Let_def split: prod.splits)


definition demo_at_pattern :: mcp_pattern where
  "demo_at_pattern = \<lparr>mp_id = ''at'', mp_search = (\<lambda>tx. CHR ''@'' \<in> set tx),
     mp_sub = (\<lambda>marker tx. concat (map (\<lambda>c. if c = CHR ''@'' then marker else [c]) tx))\<rparr>"

lemma demo_at_pattern_stable: "patterns_stable [demo_at_pattern]"
  by (auto simp: patterns_stable_def mcp_subst_def demo_at_pattern_def mcp_marker_def split: if_splits)


end
