(* ===== verification/Relevance_Gate.thy ===== *)
theory Relevance_Gate
  imports Demo_Environment
begin

section \<open>The relevance gate (\<open>relevance.py\<close>)\<close>

text \<open>
  \<open>RulesBasedRelevanceGate.handle\<close>: whether the assistant reacts to an event, by source, mention,
  data-source keyword and the channel's talkativeness. The thresholds are the binary floats the
  literals denote; \<open>fmt2\<close> is the format \<open>:.2f\<close>.
\<close>

record infra_event =
  ie_source :: string
  ie_channel :: "string option"
  ie_text :: string
  ie_ts :: int

record interpretation_of =
  in_event_type :: string
  in_confidence :: rat

record relevance_decision =
  rd_react :: bool
  rd_reason :: string
  rd_flow :: "string option"

record relevance_gate =
  rg_company :: uuid
  rg_handle :: string
  rg_talkativeness :: "string \<Rightarrow> string option"
  rg_default :: string

definition REACT_EVENT_TYPES :: "string set" where
  "REACT_EVENT_TYPES = {''question'', ''data_mention'', ''credential_offer'', ''file_reference''}"

definition RESPONSIVE_THRESHOLD :: rat where
  "RESPONSIVE_THRESHOLD = 7656119366529843 / 9007199254740992"

definition PROACTIVE_THRESHOLD :: rat where
  "PROACTIVE_THRESHOLD = 3 / 4"

text \<open>\<open>_THRESHOLDS[tk]\<close>: \<open>KeyError\<close>, no threshold, or the threshold.\<close>

definition THRESHOLDS :: "string \<Rightarrow> exc + rat option" where
  "THRESHOLDS tk =
     (if tk = ''lurker'' then Inr None
      else if tk = ''responsive'' then Inr (Some RESPONSIVE_THRESHOLD)
      else if tk = ''proactive'' then Inr (Some PROACTIVE_THRESHOLD)
      else Inl KeyError)"

definition DATA_SOURCE_KEYWORDS :: "string list" where
  "DATA_SOURCE_KEYWORDS =
     [''stripe'', ''salesforce'', ''hubspot'', ''snowflake'', ''postgres'', ''postgresql'', ''s3'', ''google sheets'',
      ''airtable'', ''mixpanel'', ''amplitude'', ''segment'', ''fivetran'', ''dbt'']"

definition PROACTIVE_MENTION_CONFIDENCE :: rat where
  "PROACTIVE_MENTION_CONFIDENCE = 5404319552844595 / 9007199254740992"

definition detect_data_source_mention :: "env \<Rightarrow> string \<Rightarrow> string option" where
  "detect_data_source_mention E tx =
     (if tx = [] then None else find (\<lambda>kw. contains (str_lower E tx) kw) DATA_SOURCE_KEYWORDS)"

definition relevance_gate_init :: "env \<Rightarrow> uuid \<Rightarrow> string \<Rightarrow> (string \<Rightarrow> string option) \<Rightarrow> string \<Rightarrow> relevance_gate" where
  "relevance_gate_init E c handle talk dflt =
     \<lparr>rg_company = c, rg_handle = str_lower E handle, rg_talkativeness = talk, rg_default = dflt\<rparr>"

definition talkativeness_for :: "relevance_gate \<Rightarrow> string option \<Rightarrow> string" where
  "talkativeness_for g channel =
     (case channel of None \<Rightarrow> rg_default g
      | Some ch \<Rightarrow> (case rg_talkativeness g ch of None \<Rightarrow> rg_default g | Some tk \<Rightarrow> tk))"

definition is_mentioned :: "env \<Rightarrow> relevance_gate \<Rightarrow> string option \<Rightarrow> bool" where
  "is_mentioned E g tx =
     (case tx of None \<Rightarrow> False
      | Some t \<Rightarrow> if t = [] \<or> rg_handle g = [] then False else contains (str_lower E t) (rg_handle g))"

definition suggest_flow :: "interpretation_of \<Rightarrow> string option" where
  "suggest_flow i =
     (if in_event_type i = ''credential_offer'' then Some ''credential_offered_in_dm''
      else if in_event_type i = ''file_reference'' then Some ''drop_and_profile''
      else if in_event_type i = ''data_mention'' then Some ''mentioned_in_conversation''
      else None)"

text \<open>The decision, before it is recorded.\<close>

definition relevance_decide :: "env \<Rightarrow> (rat \<Rightarrow> string) \<Rightarrow> relevance_gate \<Rightarrow> infra_event \<Rightarrow> interpretation_of \<Rightarrow>
    exc + relevance_decision" where
  "relevance_decide E fmt2 g infra i =
     (if ie_source infra = ''dm''
      then Inr \<lparr>rd_react = True, rd_reason = ''dm_always_respond'', rd_flow = suggest_flow i\<rparr>
      else let text_lower = str_lower E (ie_text infra) in
      if rg_handle g \<noteq> [] \<and> contains text_lower (rg_handle g)
      then Inr \<lparr>rd_react = True, rd_reason = ''mention'', rd_flow = suggest_flow i\<rparr>
      else if ie_source infra = ''file_drop''
      then Inr \<lparr>rd_react = True, rd_reason = ''file_drop_passive_ingest'', rd_flow = Some ''drop_and_profile''\<rparr>
      else let kw = detect_data_source_mention E (ie_text infra); tk = talkativeness_for g (ie_channel infra) in
      if kw \<noteq> None \<and> tk \<noteq> ''lurker'' \<and> in_event_type i = ''data_mention'' \<and>
         PROACTIVE_MENTION_CONFIDENCE \<le> in_confidence i
      then Inr \<lparr>rd_react = True,
             rd_reason = ''data_source_mention:'' @ the kw @ '';confidence:'' @ fmt2 (in_confidence i),
             rd_flow = Some ''mentioned_in_conversation''\<rparr>
      else rbind (THRESHOLDS tk) (\<lambda>threshold. case threshold of
          None \<Rightarrow> Inr \<lparr>rd_react = False, rd_reason = ''lurker_suppress'', rd_flow = None\<rparr>
        | Some t \<Rightarrow>
            if t \<le> in_confidence i \<and> in_event_type i \<in> REACT_EVENT_TYPES
            then Inr \<lparr>rd_react = True, rd_reason = ''talkativeness:'' @ tk @ '';confidence:'' @ fmt2 (in_confidence i),
                   rd_flow = suggest_flow i\<rparr>
            else Inr \<lparr>rd_react = False, rd_reason = ''talkativeness:'' @ tk @ '';below_threshold ('' @
                   fmt2 (in_confidence i) @ ''<'' @ float_repr E t @ '')'', rd_flow = None\<rparr>))"

definition relevance_args :: "relevance_decision \<Rightarrow> uuid \<Rightarrow> pydict" where
  "relevance_args d memory =
     (let react = (if rd_react d then ''True'' else ''False'')
      in [(''memory_id'', PStr memory), (''content'', PStr (''relevance:'' @ react)),
          (''tags'', PList [PStr ''relevance_decision'', PStr (''react:'' @ react), PStr (''reason:'' @ rd_reason d)])])"

definition relevance_record :: "'s store \<Rightarrow> relevance_gate \<Rightarrow> infra_event \<Rightarrow> relevance_decision \<Rightarrow> ('s, unit) act" where
  "relevance_record L g infra d =
     with_uuid L (\<lambda>m. record_write L (\<lambda>u. gate_req (rg_company g) ''memory_written'' u ''relevance_decision'' ''relevance''
       ''emit_memory_written'' (relevance_args d m) ''relevance_decision'' ''relevance_logged'' ''keep''
       ''relevance decision'' (ie_ts infra) ''passive_deterministic''))"

definition relevance_handle :: "env \<Rightarrow> (rat \<Rightarrow> string) \<Rightarrow> 's store \<Rightarrow> relevance_gate \<Rightarrow> infra_event \<Rightarrow>
    interpretation_of \<Rightarrow> ('s, relevance_decision) act" where
  "relevance_handle E fmt2 L g infra i =
     sbind (\<lambda>s. (relevance_decide E fmt2 g infra i, s)) (\<lambda>d.
       sbind (relevance_record L g infra d) (\<lambda>_. sret d))"

subsection \<open>Properties\<close>

text \<open>The rule in one formula: what makes the gate react.\<close>

definition reacts :: "env \<Rightarrow> relevance_gate \<Rightarrow> infra_event \<Rightarrow> interpretation_of \<Rightarrow> bool" where
  "reacts E g infra i =
     (let tk = talkativeness_for g (ie_channel infra)
      in ie_source infra \<in> {''dm'', ''file_drop''} \<or>
         rg_handle g \<noteq> [] \<and> contains (str_lower E (ie_text infra)) (rg_handle g) \<or>
         tk \<noteq> ''lurker'' \<and> in_event_type i = ''data_mention'' \<and>
           detect_data_source_mention E (ie_text infra) \<noteq> None \<and> PROACTIVE_MENTION_CONFIDENCE \<le> in_confidence i \<or>
         in_event_type i \<in> REACT_EVENT_TYPES \<and>
           (tk = ''responsive'' \<and> RESPONSIVE_THRESHOLD \<le> in_confidence i \<or>
            tk = ''proactive'' \<and> PROACTIVE_THRESHOLD \<le> in_confidence i))"

definition mentions :: "env \<Rightarrow> relevance_gate \<Rightarrow> infra_event \<Rightarrow> bool" where
  "mentions E g infra = (rg_handle g \<noteq> [] \<and> contains (str_lower E (ie_text infra)) (rg_handle g))"

definition keyword_hit :: "env \<Rightarrow> relevance_gate \<Rightarrow> infra_event \<Rightarrow> interpretation_of \<Rightarrow> bool" where
  "keyword_hit E g infra i =
     (detect_data_source_mention E (ie_text infra) \<noteq> None \<and> talkativeness_for g (ie_channel infra) \<noteq> ''lurker'' \<and>
      in_event_type i = ''data_mention'' \<and> PROACTIVE_MENTION_CONFIDENCE \<le> in_confidence i)"

lemma relevance_decide_steps:
  "ie_source infra = ''dm'' \<Longrightarrow> rd_react (projr (relevance_decide E fmt2 g infra i))"
  "mentions E g infra \<Longrightarrow> rd_react (projr (relevance_decide E fmt2 g infra i))"
  "ie_source infra = ''file_drop'' \<Longrightarrow> rd_react (projr (relevance_decide E fmt2 g infra i))"
  "keyword_hit E g infra i \<Longrightarrow> rd_react (projr (relevance_decide E fmt2 g infra i))"
  by (simp_all add: relevance_decide_def mentions_def keyword_hit_def Let_def)

lemma relevance_decide_rest:
  assumes "ie_source infra \<noteq> ''dm''" and "ie_source infra \<noteq> ''file_drop''" and "\<not> mentions E g infra"
    and "\<not> keyword_hit E g infra i"
  shows "map_sum id rd_react (relevance_decide E fmt2 g infra i) =
    (let tk = talkativeness_for g (ie_channel infra) in
     rbind (THRESHOLDS tk) (\<lambda>threshold. Inr (case threshold of None \<Rightarrow> False
       | Some t \<Rightarrow> t \<le> in_confidence i \<and> in_event_type i \<in> REACT_EVENT_TYPES)))"
proof -
  have "relevance_decide E fmt2 g infra i =
    (let tk = talkativeness_for g (ie_channel infra) in rbind (THRESHOLDS tk) (\<lambda>threshold. case threshold of
          None \<Rightarrow> Inr \<lparr>rd_react = False, rd_reason = ''lurker_suppress'', rd_flow = None\<rparr>
        | Some t \<Rightarrow>
            if t \<le> in_confidence i \<and> in_event_type i \<in> REACT_EVENT_TYPES
            then Inr \<lparr>rd_react = True, rd_reason = ''talkativeness:'' @ tk @ '';confidence:'' @ fmt2 (in_confidence i),
                   rd_flow = suggest_flow i\<rparr>
            else Inr \<lparr>rd_react = False, rd_reason = ''talkativeness:'' @ tk @ '';below_threshold ('' @
                   fmt2 (in_confidence i) @ ''<'' @ float_repr E t @ '')'', rd_flow = None\<rparr>))"
    using assms by (simp only: relevance_decide_def mentions_def keyword_hit_def Let_def if_False)
  then show ?thesis
    by (cases "THRESHOLDS (talkativeness_for g (ie_channel infra))") (auto simp: Let_def split: option.splits)
qed

lemma reacts_alt:
  "reacts E g infra i \<longleftrightarrow> ie_source infra = ''dm'' \<or> ie_source infra = ''file_drop'' \<or> mentions E g infra \<or>
     keyword_hit E g infra i \<or>
     (\<exists>t. THRESHOLDS (talkativeness_for g (ie_channel infra)) = Inr (Some t) \<and> t \<le> in_confidence i \<and>
        in_event_type i \<in> REACT_EVENT_TYPES)"
  by (auto simp: reacts_def Let_def mentions_def keyword_hit_def THRESHOLDS_def split: if_splits)

lemma relevance_decide_reacts:
  assumes "relevance_decide E fmt2 g infra i = Inr d"
  shows "rd_react d = reacts E g infra i"
proof (cases "ie_source infra = ''dm'' \<or> ie_source infra = ''file_drop'' \<or> mentions E g infra \<or> keyword_hit E g infra i")
  case True
  then have "rd_react (projr (relevance_decide E fmt2 g infra i))"
    using relevance_decide_steps by blast
  with assms have "rd_react d" by simp
  with True show ?thesis unfolding reacts_alt by blast
next
  case False
  with relevance_decide_rest [of infra E g i fmt2] assms show ?thesis
    unfolding reacts_alt
    by (cases "THRESHOLDS (talkativeness_for g (ie_channel infra))") (auto split: option.splits)
qed

lemma reacts_mono:
  "reacts E g infra i \<Longrightarrow> in_confidence i \<le> conf \<Longrightarrow> reacts E g infra (i\<lparr>in_confidence := conf\<rparr>)"
  unfolding reacts_alt keyword_hit_def by auto

text \<open>The decision rule. A direct message, a mention of the handle and a file drop always get
  a reaction; otherwise a data-source keyword in a data mention of confidence at least 0.6, or
  the confidence threshold of the channel's talkativeness for an event worth reacting to; a
  lurker channel gets none of the last two. More confidence never silences a reaction.\<close>

theorem relevance_rule:
  assumes "relevance_decide E fmt2 g infra i = Inr d"
  shows "rd_react d = reacts E g infra i \<and>
    (talkativeness_for g (ie_channel infra) = ''lurker'' \<longrightarrow>
       rd_react d = (ie_source infra \<in> {''dm'', ''file_drop''} \<or> mentions E g infra)) \<and>
    (rd_react d \<and> in_confidence i \<le> conf \<longrightarrow> reacts E g infra (i\<lparr>in_confidence := conf\<rparr>))"
proof -
  note r = relevance_decide_reacts [OF assms]
  have "reacts E g infra i \<longleftrightarrow> ie_source infra \<in> {''dm'', ''file_drop''} \<or> mentions E g infra"
    if "talkativeness_for g (ie_channel infra) = ''lurker''"
    using that by (simp add: reacts_def Let_def mentions_def)
  with r reacts_mono show ?thesis by blast
qed

definition demo_relevance :: relevance_gate where
  "demo_relevance = relevance_gate_init demo_env ''c'' ''@Worm'' [''quiet'' \<mapsto> ''lurker''] ''responsive''"

theorem relevance_rule_witness:
  "\<exists>d. relevance_decide demo_env (\<lambda>_. ''0.70'') demo_relevance
      \<lparr>ie_source = ''channel_message'', ie_channel = Some ''quiet'', ie_text = ''use Stripe'', ie_ts = 0\<rparr>
      \<lparr>in_event_type = ''data_mention'', in_confidence = 7 / 10\<rparr> = Inr d \<and> \<not> rd_react d"
proof -
  let ?infra = "\<lparr>ie_source = ''channel_message'', ie_channel = Some ''quiet'', ie_text = ''use Stripe'', ie_ts = 0\<rparr>"
  let ?i = "\<lparr>in_event_type = ''data_mention'', in_confidence = 7 / 10\<rparr>"
  have tk: "talkativeness_for demo_relevance (ie_channel ?infra) = ''lurker''" by code_simp
  have nm: "mentions demo_env demo_relevance ?infra = False" by code_simp
  have "\<exists>d. relevance_decide demo_env (\<lambda>_. ''0.70'') demo_relevance ?infra ?i = Inr d"
    using nm tk by (simp add: relevance_decide_def mentions_def Let_def THRESHOLDS_def)
  then obtain d where d: "relevance_decide demo_env (\<lambda>_. ''0.70'') demo_relevance ?infra ?i = Inr d" ..
  from relevance_rule [OF d, THEN conjunct2, THEN conjunct1] tk nm have "\<not> rd_react d" by simp
  with d show ?thesis by blast
qed

text \<open>On a reliable ledger every event with a known talkativeness gets a decision, and exactly
  one entry records it, at the event's own timestamp; nothing is written when the talkativeness
  is unknown, which raises \<open>KeyError\<close>.\<close>

theorem relevance_recorded:
  assumes "reliable_store E L invar" and "invar s"
  shows "case relevance_decide E fmt2 g infra i of
      Inl x \<Rightarrow> x = KeyError \<and> relevance_handle E fmt2 L g infra i s = (Inl x, s)
    | Inr d \<Rightarrow> \<exists>s' m. relevance_handle E fmt2 L g infra i s = (Inr d, s') \<and>
        logged L s s' (rg_company g) (ie_ts infra) ''emit_memory_written'' (relevance_args d m)"
proof (cases "relevance_decide E fmt2 g infra i")
  case (Inl x)
  then have "x = KeyError"
    by (auto simp: relevance_decide_def Let_def THRESHOLDS_def split: if_splits)
  with Inl show ?thesis by (simp add: relevance_handle_def)
next
  case (Inr d)
  note led = reliable_store.axioms(1) [OF assms(1)]
  obtain m s1 where u: "st_uuid L s = (m, s1)" by (cases "st_uuid L s")
  note s1 = ledger_store.uuid_fetch [OF led u] ledger_store.uuid_invar [OF led assms(2) u]
  have "jsonable_dict (relevance_args d m)" by (simp add: relevance_args_def Let_def)
  from reliable_store.record_write_ok [OF assms(1) this] obtain s'
    where w: "record_write L (\<lambda>u. gate_req (rg_company g) ''memory_written'' u ''relevance_decision'' ''relevance''
       ''emit_memory_written'' (relevance_args d m) ''relevance_decision'' ''relevance_logged'' ''keep''
       ''relevance decision'' (ie_ts infra) ''passive_deterministic'') s1 = (Inr (), s')" by blast
  have "logged L s s' (rg_company g) (ie_ts infra) ''emit_memory_written'' (relevance_args d m)"
    using ledger_store.record_write_logged(1) [OF led s1(2) w] ledger_store.logged_cong [OF led s1(1)] by blast
  moreover have "relevance_handle E fmt2 L g infra i s = (Inr d, s')"
    by (simp add: relevance_handle_def Inr relevance_record_def with_uuid_def u w sbind_def)
  ultimately show ?thesis using Inr by auto
qed

theorem relevance_recorded_witness:
  "case relevance_decide demo_env (\<lambda>_. ''0.70'') demo_relevance
      \<lparr>ie_source = ''dm'', ie_channel = None, ie_text = ''hi'', ie_ts = 0\<rparr>
      \<lparr>in_event_type = ''question'', in_confidence = 7 / 10\<rparr> of
      Inl x \<Rightarrow> False
    | Inr d \<Rightarrow> \<exists>s' m. logged (mem_store demo_env) mem_empty s' ''c'' 0 ''emit_memory_written'' (relevance_args d m)"
  using relevance_recorded [OF ml.reliable_store_axioms mem_invar_empty, of demo_env "\<lambda>_. ''0.70''" demo_relevance
      "\<lparr>ie_source = ''dm'', ie_channel = None, ie_text = ''hi'', ie_ts = 0\<rparr>"
      "\<lparr>in_event_type = ''question'', in_confidence = 7 / 10\<rparr>"]
  by (auto simp: relevance_decide_def demo_relevance_def relevance_gate_init_def)

end
