(* ===== verification/Governance_Policies.thy ===== *)
theory Governance_Policies
  imports Demo_Environment
begin

section \<open>Masked columns, policy templates and tenant warmup (\<open>policies\<close>)\<close>

text \<open>
  \<open>MaskedColumnRefusalGate\<close>, \<open>PolicyLoader\<close> and \<open>CompanyWarmup\<close>. The ontology loader (YAML
  files) is a parameter: the templates it returns, or the exception it raises. \<open>now\<close> is the
  clock reading of each write.
\<close>

subsection \<open>\<open>MaskedColumnRefusalGate\<close>\<close>

definition GATE_NAME :: string where
  "GATE_NAME = ''masked_column_refusal''"

definition POLICY_NAME :: string where
  "POLICY_NAME = ''Masked Column Refusal''"

definition REFUSAL_CLASSIFICATIONS :: "string set" where
  "REFUSAL_CLASSIFICATIONS = {''pii'', ''regulated'', ''confidential''}"

record column_query =
  cq_text :: string
  cq_columns :: "string list"
  cq_tags :: "string \<Rightarrow> string option"
  cq_source :: "uuid option"
  cq_resource :: "string option"
  cq_requester :: "string option"

record column_result =
  cr_allow :: bool
  cr_reason :: string
  cr_offending :: "string list"
  cr_chain :: "(string \<times> string) list"

fun masked_scan :: "string set \<Rightarrow> (string \<Rightarrow> string option) \<Rightarrow> string list \<Rightarrow> string list \<times> (string \<times> string) list" where
  "masked_scan refused tags [] = ([], [])"
| "masked_scan refused tags (col # cols) =
     (let (offending, chain) = masked_scan refused tags cols
      in case tags col of
           None \<Rightarrow> (offending, chain)
         | Some cl \<Rightarrow> if cl = [] then (offending, chain)
             else if cl \<in> refused then (col # offending, (col, cl) # chain)
             else (offending, chain))"

definition masked_args :: "column_query \<Rightarrow> string list \<Rightarrow> (string \<times> string) list \<Rightarrow> pydict" where
  "masked_args q offending chain =
     [(''gate'', PStr GATE_NAME), (''outcome'', PStr ''blocked''),
      (''subject_ref'', PStr (case cq_resource q of
          Some r \<Rightarrow> if r \<noteq> [] then r else (case cq_source q of None \<Rightarrow> ''unknown'' | Some s \<Rightarrow> s)
        | None \<Rightarrow> (case cq_source q of None \<Rightarrow> ''unknown'' | Some s \<Rightarrow> s))),
      (''reason'', PStr (''masked_column_refusal: '' @ dec_nat (length offending) @
          '' column(s) refused via Snowflake COLUMN.TAG passthrough'')),
      (''policy_name'', PStr POLICY_NAME), (''offending_columns'', PList (map PStr offending)),
      (''tag_chain'', PList (map (\<lambda>(c, cl). PDict [(''column'', PStr c), (''classification'', PStr cl)]) chain)),
      (''source_id'', opt_str (cq_source q)), (''resource_id'', opt_str (cq_resource q)),
      (''query_text'', PStr (cq_text q)), (''requester'', opt_str (cq_requester q))]"

definition record_refusal :: "'s store \<Rightarrow> uuid \<Rightarrow> int \<Rightarrow> column_query \<Rightarrow> string list \<Rightarrow> (string \<times> string) list \<Rightarrow>
    ('s, unit) act" where
  "record_refusal L c now q offending chain =
     record_write L (\<lambda>u. gate_req c ''gate_fired'' u ''masked_column_refused'' GATE_NAME ''emit_gate_fired''
       (masked_args q offending chain) GATE_NAME ''masked_column_logged'' ''keep''
       ''masked-column refusal recorded with column-tag chain'' now ''active_deterministic'')"

definition masked_check :: "'s store \<Rightarrow> uuid \<Rightarrow> string set \<Rightarrow> int \<Rightarrow> column_query \<Rightarrow> ('s, column_result) act" where
  "masked_check L c refused now q =
     (let (offending, chain) = masked_scan refused (cq_tags q) (cq_columns q)
      in if offending = []
         then sret \<lparr>cr_allow = True, cr_reason = ''no_masked_columns_referenced'', cr_offending = [], cr_chain = []\<rparr>
         else sbind (record_refusal L c now q offending chain) (\<lambda>_.
           sret \<lparr>cr_allow = False,
             cr_reason = ''refused: column '' @ repr_str (hd offending) @ '' carries classification '' @
               repr_str (the (cq_tags q (hd offending))),
             cr_offending = offending, cr_chain = chain\<rparr>))"

definition column_refused :: "string set \<Rightarrow> (string \<Rightarrow> string option) \<Rightarrow> string \<Rightarrow> bool" where
  "column_refused refused tags col = (case tags col of None \<Rightarrow> False | Some cl \<Rightarrow> cl \<noteq> [] \<and> cl \<in> refused)"

lemma masked_scan_eq:
  "masked_scan refused tags cols =
     (filter (column_refused refused tags) cols,
      map (\<lambda>c. (c, the (tags c))) (filter (column_refused refused tags) cols))"
  by (induction cols) (auto simp: column_refused_def Let_def split: option.splits)

text \<open>The gate allows a query exactly when none of its columns carries a refused
  classification; otherwise it names every such column, in query order, with its classification,
  and appends exactly one \<open>gate_fired\<close> entry that lists them.\<close>

theorem masked_column_decision:
  assumes "reliable_store E L invar" and "invar s"
    and bad: "bad = filter (column_refused refused (cq_tags q)) (cq_columns q)"
  shows "\<exists>res s'. masked_check L c refused now q s = (Inr res, s') \<and>
    cr_allow res = (bad = []) \<and> cr_offending res = bad \<and> cr_chain res = map (\<lambda>c. (c, the (cq_tags q c))) bad \<and>
    (if bad = [] then s' = s
     else logged L s s' c now ''emit_gate_fired'' (masked_args q bad (cr_chain res)))"
proof (cases "bad = []")
  case True
  then show ?thesis by (simp add: masked_check_def masked_scan_eq flip: bad)
next
  case False
  let ?chain = "map (\<lambda>c. (c, the (cq_tags q c))) bad"
  have "jsonable_dict (masked_args q bad ?chain)"
    by (simp add: masked_args_def opt_str_def split: option.splits)
  from reliable_store.record_write_ok [OF assms(1) this] obtain s'
    where w: "record_refusal L c now q bad ?chain s = (Inr (), s')"
    unfolding record_refusal_def by blast
  from ledger_store.record_write_logged(1) [OF reliable_store.axioms(1) [OF assms(1)] assms(2)
      w [unfolded record_refusal_def]]
  have "logged L s s' c now ''emit_gate_fired'' (masked_args q bad ?chain)" .
  with False w show ?thesis
    by (simp add: masked_check_def masked_scan_eq sbind_def flip: bad)
qed

theorem masked_column_decision_witness:
  "\<exists>res s'. masked_check (mem_store demo_env) ''c'' REFUSAL_CLASSIFICATIONS 5
      \<lparr>cq_text = ''q'', cq_columns = [''a'', ''b''], cq_tags = [''b'' \<mapsto> ''pii''], cq_source = None, cq_resource = None,
       cq_requester = None\<rparr> mem_empty = (Inr res, s') \<and> cr_offending res = [''b'']"
  using masked_column_decision [OF ml.reliable_store_axioms mem_invar_empty refl, where refused = REFUSAL_CLASSIFICATIONS and
      q = "\<lparr>cq_text = ''q'', cq_columns = [''a'', ''b''], cq_tags = [''b'' \<mapsto> ''pii''], cq_source = None, cq_resource = None,
       cq_requester = None\<rparr>" and E = demo_env and c = "''c''" and now = 5]
  by (auto simp: column_refused_def REFUSAL_CLASSIFICATIONS_def)

subsection \<open>\<open>PolicyLoader\<close>\<close>

record policy_template =
  pt_id :: string
  pt_name :: string
  pt_applies_to :: "(string \<times> string) list"
  pt_rule :: string
  pt_gate_impl :: string

record policy =
  po_id :: uuid
  po_name :: string
  po_applies_to :: "(string \<times> string) list"
  po_rule :: string
  po_gate_impl :: string
  po_company :: uuid
  po_active :: bool

definition applies_for_pack :: "policy_template \<Rightarrow> string \<Rightarrow> bool" where
  "applies_for_pack t pack =
     (let target = (case map_of (pt_applies_to t) ''domain_pack'' of None \<Rightarrow> ''*'' | Some d \<Rightarrow> d)
      in target = ''*'' \<or> target = pack)"

text \<open>Names of the policies the log says were applied; a list or dictionary cannot be put in a set.\<close>


definition applied_name :: "pydict \<Rightarrow> exc + pyval list" where
  "applied_name pl =
     (if dget pl ''tool'' = PStr ''emit_policy_applied''
      then rbind (vget (dget_or pl ''args'' (PDict [])) ''policy_name'') (\<lambda>name.
             if truthy name then (if hashable name then Inr [name] else Inl TypeError) else Inr [])
      else Inr [])"

fun existing_names :: "(int \<times> pydict) list \<Rightarrow> exc + pyval list" where
  "existing_names [] = Inr []"
| "existing_names ((t, pl) # rows) =
     rbind (applied_name pl) (\<lambda>ns. rbind (existing_names rows) (\<lambda>ms. Inr (ns @ ms)))"

definition policy_args :: "policy_template \<Rightarrow> uuid \<Rightarrow> pydict" where
  "policy_args t u =
     [(''policy_id'', PStr u), (''policy_name'', PStr (pt_name t)),
      (''applies_to'', PDict (map (\<lambda>(k, v). (k, PStr v)) (pt_applies_to t))),
      (''rule'', PStr (pt_rule t)), (''gate_impl'', PStr (pt_gate_impl t))]"

definition policy_req :: "uuid \<Rightarrow> policy_template \<Rightarrow> int \<Rightarrow> uuid \<Rightarrow> write_req" where
  "policy_req c t now u =
     gate_req c ''policy_applied'' u ''warmup policy bootstrap'' ''policy_loader'' ''emit_policy_applied''
       (policy_args t u) (pt_id t) ''policy_valid'' ''applied'' ''warmup template applied'' now ''active_deterministic''"

definition policy_of :: "uuid \<Rightarrow> policy_template \<Rightarrow> uuid \<Rightarrow> policy" where
  "policy_of c t u = \<lparr>po_id = u, po_name = pt_name t, po_applies_to = pt_applies_to t, po_rule = pt_rule t,
     po_gate_impl = pt_gate_impl t, po_company = c, po_active = True\<rparr>"

fun load_loop :: "'s store \<Rightarrow> uuid \<Rightarrow> string \<Rightarrow> int \<Rightarrow> pyval list \<Rightarrow> policy_template list \<Rightarrow> 's \<Rightarrow> (exc + policy list) \<times> 's" where
  "load_loop L c pack now existing [] s = (Inr [], s)"
| "load_loop L c pack now existing (t # ts) s =
     (if \<not> applies_for_pack t pack then load_loop L c pack now existing ts s
      else if PStr (pt_name t) \<in> set existing then load_loop L c pack now existing ts s
      else case st_uuid L s of (u, s1) \<Rightarrow>
        (case st_write L (policy_req c t now u) s1 of
           (Inl x, s2) \<Rightarrow> (Inl x, s2)
         | (Inr _, s2) \<Rightarrow> (case load_loop L c pack now existing ts s2 of
               (Inl x, s3) \<Rightarrow> (Inl x, s3)
             | (Inr ps, s3) \<Rightarrow> (Inr (policy_of c t u # ps), s3))))"

definition load_templates :: "'s store \<Rightarrow> (exc + policy_template list) \<Rightarrow> uuid \<Rightarrow> string \<Rightarrow> int \<Rightarrow> ('s, policy list) act" where
  "load_templates L templates c pack now =
     sbind (\<lambda>s. (templates, s)) (\<lambda>ts.
       sbind (\<lambda>s. (existing_names (execs (st_fetch L s c None)), s)) (\<lambda>existing.
         load_loop L c pack now existing ts))"

lemma existing_names_append:
  "existing_names (xs @ ys) = rbind (existing_names xs) (\<lambda>a. rbind (existing_names ys) (\<lambda>b. Inr (a @ b)))"
proof (induction xs rule: existing_names.induct)
  case 1
  then show ?case by (cases "existing_names ys") simp_all
next
  case (2 t pl rows)
  then show ?case
    by (cases "applied_name pl"; cases "existing_names rows"; cases "existing_names ys") simp_all
qed

lemma existing_names_policy:
  "payload_of ''emit_policy_applied'' (policy_args t u) pl \<Longrightarrow> pt_name t \<noteq> [] \<Longrightarrow>
     existing_names [(now, pl)] = Inr [PStr (pt_name t)]"
  by (simp add: payload_of_def applied_name_def dget_or_def policy_args_def)

text \<open>The templates a run still has to apply.\<close>

definition pending_templates :: "string \<Rightarrow> pyval list \<Rightarrow> policy_template list \<Rightarrow> policy_template list" where
  "pending_templates pack existing ts = filter (\<lambda>t. applies_for_pack t pack \<and> PStr (pt_name t) \<notin> set existing) ts"

lemma load_loop_nothing: "pending_templates pack existing ts = [] \<Longrightarrow> load_loop L c pack now existing ts s = (Inr [], s)"
  by (induction ts) (auto simp: pending_templates_def split: if_splits)

context ledger_store
begin

lemma load_loop_run:
  "invar s \<Longrightarrow> load_loop L c pack now existing ts s = (Inr ps, s') \<Longrightarrow> \<forall>t\<in>set ts. pt_name t \<noteq> [] \<Longrightarrow>
     invar s' \<and> map po_name ps = map pt_name (pending_templates pack existing ts) \<and>
     (\<exists>new. execs (st_fetch L s' c None) = execs (st_fetch L s c None) @ new \<and>
        length new = length ps \<and>
        existing_names new = Inr (map (\<lambda>p. PStr (po_name p)) ps) \<and>
        (\<forall>x\<in>set new. \<exists>tm u. payload_of ''emit_policy_applied'' (policy_args tm u) (snd x))) \<and>
     (\<forall>d. d \<noteq> c \<longrightarrow> st_fetch L s' d None = st_fetch L s d None)"
proof (induction ts arbitrary: s ps)
  case (Cons t ts)
  show ?case
  proof (cases "applies_for_pack t pack \<and> PStr (pt_name t) \<notin> set existing")
    case False
    then have "load_loop L c pack now existing (t # ts) s = load_loop L c pack now existing ts s"
      and "pending_templates pack existing (t # ts) = pending_templates pack existing ts"
      by (auto simp: pending_templates_def)
    moreover from this Cons.prems(2) have "load_loop L c pack now existing ts s = (Inr ps, s')" by metis
    ultimately show ?thesis using Cons.IH [OF Cons.prems(1)] Cons.prems(3) by auto
  next
    case True
    obtain u s1 where u: "st_uuid L s = (u, s1)" by (cases "st_uuid L s")
    note s1 = uuid_fetch [OF u] uuid_invar [OF Cons.prems(1) u]
    from Cons.prems(2) True u obtain res s2 ps' where w: "st_write L (policy_req c t now u) s1 = (Inr res, s2)"
      and rest: "load_loop L c pack now existing ts s2 = (Inr ps', s')" and ps: "ps = policy_of c t u # ps'"
      by (auto split: prod.splits sum.splits)
    note w' = gate_write_logged [OF s1(2) w [unfolded policy_req_def]]
    from w'(1) obtain pl where pl: "payload_of ''emit_policy_applied'' (policy_args t u) pl"
      and ex: "execs (st_fetch L s2 c None) = execs (st_fetch L s c None) @ [(now, pl)]"
      by (auto simp: logged_def s1)
    from Cons.IH [OF w'(2) rest] Cons.prems(3) obtain new
      where IH: "invar s'" "map po_name ps' = map pt_name (pending_templates pack existing ts)"
        "execs (st_fetch L s' c None) = execs (st_fetch L s2 c None) @ new" "length new = length ps'"
        "existing_names new = Inr (map (\<lambda>p. PStr (po_name p)) ps')"
        "\<forall>d. d \<noteq> c \<longrightarrow> st_fetch L s' d None = st_fetch L s2 d None"
        "\<forall>x\<in>set new. \<exists>tm u. payload_of ''emit_policy_applied'' (policy_args tm u) (snd x)"
      by auto
    have "existing_names ((now, pl) # new) = Inr (map (\<lambda>p. PStr (po_name p)) ps)"
      using existing_names_policy [OF pl, of now] Cons.prems(3) IH(5)
        existing_names_append [of "[(now, pl)]" new]
      by (simp add: ps policy_of_def del: existing_names.simps(2))
    with IH ex True w'(1) pl show ?thesis
      by (intro conjI exI [of _ "(now, pl) # new"]) (auto simp: ps policy_of_def pending_templates_def logged_def s1)
  qed
qed (auto simp: pending_templates_def)

end

text \<open>Loading applies, in order, exactly the templates for the pack (or for every pack) whose
  name the log does not have as applied, and loading again right after is a no-op: nothing is
  returned and the ledger is unchanged.\<close>

theorem policy_loading_idempotent:
  assumes "ledger_store E L invar" and "invar s" and "\<forall>t\<in>set ts. pt_name t \<noteq> []"
    and "load_templates L (Inr ts) c pack now s = (Inr ps, s')"
  shows "\<exists>existing. existing_names (execs (st_fetch L s c None)) = Inr existing \<and>
      map po_name ps = map pt_name (pending_templates pack existing ts) \<and>
      length (execs (st_fetch L s' c None)) = length (execs (st_fetch L s c None)) + length ps \<and>
      load_templates L (Inr ts) c pack later s' = (Inr [], s')"
proof -
  from assms(4) obtain existing where ex: "existing_names (execs (st_fetch L s c None)) = Inr existing"
    and run: "load_loop L c pack now existing ts s = (Inr ps, s')"
    by (auto simp: load_templates_def sbind_Inr_iff)
  from ledger_store.load_loop_run [OF assms(1,2) run assms(3)] obtain new
    where r: "map po_name ps = map pt_name (pending_templates pack existing ts)"
      "execs (st_fetch L s' c None) = execs (st_fetch L s c None) @ new" "length new = length ps"
      "existing_names new = Inr (map (\<lambda>p. PStr (po_name p)) ps)" by blast
  have ex': "existing_names (execs (st_fetch L s' c None)) = Inr (existing @ map (\<lambda>p. PStr (po_name p)) ps)"
    by (simp add: r existing_names_append ex)
  have names: "PStr ` set (map po_name ps) = PStr ` set (map pt_name (pending_templates pack existing ts))"
    by (simp only: r)
  have "pending_templates pack (existing @ map (\<lambda>p. PStr (po_name p)) ps) ts = []"
  proof -
    have "PStr (pt_name t) \<in> set existing \<union> PStr ` set (map po_name ps)" if "t \<in> set ts" "applies_for_pack t pack" for t
      using that unfolding names by (auto simp: pending_templates_def)
    then show ?thesis by (auto simp: pending_templates_def filter_empty_conv)
  qed
  then have "load_templates L (Inr ts) c pack later s' = (Inr [], s')"
    by (simp add: load_templates_def ex' load_loop_nothing)
  with ex r show ?thesis by auto
qed

lemma policy_args_jsonable: "jsonable_dict (policy_args t u)"
  by (auto simp: policy_args_def)

context reliable_store
begin

lemma load_loop_ok: "\<exists>ps s'. load_loop L c pack now existing ts s = (Inr ps, s')"
proof (induction ts arbitrary: s)
  case (Cons t ts)
  obtain u s1 where u: "st_uuid L s = (u, s1)" by (cases "st_uuid L s")
  obtain res s2 where w: "st_write L (policy_req c t now u) s1 = (Inr res, s2)"
    unfolding policy_req_def using gate_write_ok [OF policy_args_jsonable] by blast
  obtain ps' s3 where "load_loop L c pack now existing ts s2 = (Inr ps', s3)" using Cons.IH by blast
  moreover obtain ps'' s4 where "load_loop L c pack now existing ts s = (Inr ps'', s4)" using Cons.IH by blast
  ultimately show ?case by (simp add: u w)
qed simp

end

definition demo_templates :: "policy_template list" where
  "demo_templates =
    [\<lparr>pt_id = ''t1'', pt_name = ''PII'', pt_applies_to = [], pt_rule = ''redact'', pt_gate_impl = ''a.b''\<rparr>,
     \<lparr>pt_id = ''t2'', pt_name = ''Bank'', pt_applies_to = [(''domain_pack'', ''bank'')], pt_rule = ''r'', pt_gate_impl = ''a.c''\<rparr>]"

theorem policy_loading_idempotent_witness:
  "\<exists>ps s'. load_templates (mem_store demo_env) (Inr demo_templates) ''c'' ''saas'' 5 mem_empty = (Inr ps, s') \<and>
     map po_name ps = [''PII''] \<and>
     load_templates (mem_store demo_env) (Inr demo_templates) ''c'' ''saas'' 9 s' = (Inr [], s')"
proof -
  have e: "execs (st_fetch (mem_store demo_env) mem_empty ''c'' None) = []"
    by (simp add: mem_empty_def mem_rows_def)
  from ml.load_loop_ok [of demo_env "''c''" "''saas''" 5 "[]" demo_templates mem_empty] e
  obtain ps s' where run: "load_templates (mem_store demo_env) (Inr demo_templates) ''c'' ''saas'' 5 mem_empty = (Inr ps, s')"
    by (auto simp: load_templates_def)
  have "\<forall>t\<in>set demo_templates. pt_name t \<noteq> []" by (simp add: demo_templates_def)
  from policy_loading_idempotent [OF ml.ledger_store_axioms mem_invar_empty this run, of 9] e run
  show ?thesis by (auto simp: pending_templates_def demo_templates_def applies_for_pack_def)
qed

subsection \<open>\<open>CompanyWarmup\<close>\<close>

record domain_template =
  dt_id :: string
  dt_name :: string
  dt_classification :: string
  dt_description :: string

record warmup_report =
  wr_report_company :: uuid
  wr_domain_pack :: pyval
  wr_domains :: "pyval list"
  wr_policies :: "pyval list"
  wr_initial_ramp :: pydict
  wr_already_warm :: bool

text \<open>
  \<open>s.startswith(p)\<close>, \<open>list(v)\<close> and \<open>dict(v)\<close> of a value of the log; a non-empty sequence, which
  \<open>dict\<close> would read as pairs, is taken as malformed.
\<close>

fun py_startswith :: "pyval \<Rightarrow> string \<Rightarrow> exc + bool" where
  "py_startswith (PStr s) p = Inr (starts_with s p)"
| "py_startswith (PBytes s) p = Inl TypeError"
| "py_startswith _ p = Inl AttributeError"

fun py_list :: "pyval \<Rightarrow> exc + pyval list" where
  "py_list (PList xs) = Inr xs"
| "py_list (PTuple xs) = Inr xs"
| "py_list (PStr s) = Inr (map (\<lambda>c. PStr [c]) s)"
| "py_list (PBytes s) = Inr (map (\<lambda>c. PInt (of_char c)) s)"
| "py_list (PDict d) = Inr (map (\<lambda>(k, v). PStr k) d)"
| "py_list _ = Inl TypeError"

definition warmup_marker :: string where
  "warmup_marker = ''company_warmup_completed''"

definition marker_row :: "pydict \<Rightarrow> exc + bool" where
  "marker_row pl =
     rbind (vget_or (dget_or pl ''args'' (PDict [])) ''content'' (PStr [])) (\<lambda>content.
       py_startswith content warmup_marker)"

definition prior_report :: "uuid \<Rightarrow> string \<Rightarrow> pydict \<Rightarrow> exc + warmup_report" where
  "prior_report c pack pl =
     (let args = dget_or pl ''args'' (PDict []) in
      rbind (vget_or args ''domain_pack'' (PStr pack)) (\<lambda>dp.
      rbind (rbind (vget_or args ''domains'' (PList [])) py_list) (\<lambda>ds.
      rbind (rbind (vget_or args ''policies'' (PList [])) py_list) (\<lambda>ps.
      rbind (rbind (vget_or args ''initial_ramp'' (PDict [])) py_dict) (\<lambda>ramp.
        Inr \<lparr>wr_report_company = c, wr_domain_pack = dp, wr_domains = ds, wr_policies = ps,
             wr_initial_ramp = ramp, wr_already_warm = True\<rparr>)))))"

fun find_warmup :: "uuid \<Rightarrow> string \<Rightarrow> (int \<times> pydict) list \<Rightarrow> exc + warmup_report option" where
  "find_warmup c pack [] = Inr None"
| "find_warmup c pack ((t, pl) # rows) =
     rbind (marker_row pl) (\<lambda>hit.
       if hit then rbind (prior_report c pack pl) (\<lambda>r. Inr (Some r)) else find_warmup c pack rows)"

definition initial_ramp :: pydict where
  "initial_ramp = [(''ontology'', PFloat 0), (''schema'', PFloat 0), (''business_definitions'', PFloat 0),
     (''kpi_relational'', PFloat 0), (''conversational'', PFloat 0), (''operational'', PFloat 0)]"

definition domain_args :: "domain_template \<Rightarrow> pydict" where
  "domain_args t = [(''id'', PStr (dt_id t)), (''name'', PStr (dt_name t)),
     (''default_classification'', PStr (dt_classification t)), (''description'', PStr (dt_description t)),
     (''owner_person_id'', PNone)]"

definition register_domain :: "'s store \<Rightarrow> uuid \<Rightarrow> int \<Rightarrow> domain_template \<Rightarrow> ('s, unit) act" where
  "register_domain L c now t =
     record_write L (\<lambda>u. gate_req c ''memory_written'' u ''domain registration'' ''company_warmup''
       ''emit_domain_registered'' (domain_args t) (dt_id t) ''domain_valid'' ''keep'' ''domain seeded'' now
       ''active_deterministic'')"

fun register_domains :: "'s store \<Rightarrow> uuid \<Rightarrow> int \<Rightarrow> domain_template list \<Rightarrow> ('s, string list) act" where
  "register_domains L c now [] = sret []"
| "register_domains L c now (t # ts) =
     sbind (register_domain L c now t) (\<lambda>_.
       sbind (register_domains L c now ts) (\<lambda>ids. sret (dt_id t # ids)))"

definition warmup_done_args :: "uuid \<Rightarrow> string \<Rightarrow> string list \<Rightarrow> string list \<Rightarrow> pydict" where
  "warmup_done_args m pack domains policies =
     [(''memory_id'', PStr m), (''content'', PStr warmup_marker),
      (''tags'', PList [PStr warmup_marker, PStr (''domain_pack:'' @ pack)]),
      (''domain_pack'', PStr pack), (''domains'', PList (map PStr domains)), (''policies'', PList (map PStr policies)),
      (''initial_ramp'', PDict initial_ramp)]"

definition warmup_record_done :: "'s store \<Rightarrow> uuid \<Rightarrow> string \<Rightarrow> int \<Rightarrow> string list \<Rightarrow> string list \<Rightarrow> ('s, unit) act" where
  "warmup_record_done L c pack now domains policies =
     with_uuid L (\<lambda>m. record_write L (\<lambda>u. gate_req c ''memory_written'' u ''company warmup'' ''company_warmup''
       ''emit_memory_written'' (warmup_done_args m pack domains policies) ''warmup'' ''warmup_complete'' ''keep''
       ''tenant warmup recorded'' now ''active_deterministic''))"

definition domains_for :: "(string \<Rightarrow> exc + domain_template list) \<Rightarrow> string \<Rightarrow> exc + domain_template list" where
  "domains_for load pack = (case load pack of Inl x \<Rightarrow> if x = ValueError then Inr [] else Inl x | Inr ts \<Rightarrow> Inr ts)"

definition company_warmup :: "'s store \<Rightarrow> (string \<Rightarrow> exc + domain_template list) \<Rightarrow> (exc + policy_template list) \<Rightarrow>
    uuid \<Rightarrow> string \<Rightarrow> int \<Rightarrow> ('s, warmup_report) act" where
  "company_warmup L load_domains templates c pack now s =
     sbind (\<lambda>s. (find_warmup c pack (execs (st_fetch L s c None)), s)) (\<lambda>prior.
       case prior of
         Some r \<Rightarrow> sret r
       | None \<Rightarrow> sbind (\<lambda>s. (domains_for load_domains pack, s)) (\<lambda>ds.
           sbind (register_domains L c now ds) (\<lambda>domains.
           sbind (load_templates L templates c pack now) (\<lambda>policies.
           sbind (warmup_record_done L c pack now domains (map po_name policies)) (\<lambda>_.
             sret \<lparr>wr_report_company = c, wr_domain_pack = PStr pack, wr_domains = map PStr domains,
                   wr_policies = map PStr (map po_name policies), wr_initial_ramp = initial_ramp,
                   wr_already_warm = False\<rparr>))))) s"

text \<open>A row that the search for a finished warmup passes over.\<close>

definition quiet :: "pydict \<Rightarrow> bool" where
  "quiet pl = (marker_row pl = Inr False)"

lemma find_warmup_append:
  "find_warmup c pack (xs @ ys) = (case find_warmup c pack xs of
     Inl x \<Rightarrow> Inl x | Inr (Some r) \<Rightarrow> Inr (Some r) | Inr None \<Rightarrow> find_warmup c pack ys)"
proof (induction c pack xs rule: find_warmup.induct)
  case (2 c pack t pl rows)
  then show ?case
    by (cases "marker_row pl"; cases "prior_report c pack pl") auto
qed simp

lemma prior_report_warm: "prior_report c pack pl = Inr r \<Longrightarrow> wr_already_warm r"
  by (auto simp: prior_report_def Let_def rbind_Inr_iff)

lemma find_warmup_warm: "find_warmup c pack xs = Inr (Some r) \<Longrightarrow> wr_already_warm r"
proof (induction xs)
  case (Cons x xs)
  obtain t pl where x: "x = (t, pl)" by (cases x)
  from Cons show ?case
    by (cases "marker_row pl"; cases "prior_report c pack pl")
      (auto simp: x dest: prior_report_warm split: if_splits)
qed simp

lemma find_warmup_quiet: "\<forall>x\<in>set xs. quiet (snd x) \<Longrightarrow> find_warmup c pack xs = Inr None"
  by (induction c pack xs rule: find_warmup.induct) (auto simp: quiet_def)

lemma find_warmup_None: "find_warmup c pack xs = Inr None \<longleftrightarrow> (\<forall>x\<in>set xs. quiet (snd x))"
proof (induction xs)
  case (Cons x xs)
  obtain t pl where x: "x = (t, pl)" by (cases x)
  show ?case
  proof (cases "marker_row pl")
    case (Inr hit)
    with Cons.IH show ?thesis
      by (cases hit; cases "prior_report c pack pl") (simp_all add: x quiet_def)
  qed (simp add: x quiet_def)
qed simp

lemma find_warmup_None_any: "find_warmup c pack xs = Inr None \<Longrightarrow> find_warmup c pack' xs = Inr None"
  by (simp only: find_warmup_None)

lemma quiet_payload: "payload_of tool args pl \<Longrightarrow> map_of args ''content'' = None \<Longrightarrow> quiet pl"
  by (simp add: payload_of_def quiet_def marker_row_def vget_or_def dget_or_def warmup_marker_def starts_with_def)

lemma warmup_done_lookup:
  "dget_or (warmup_done_args m pack domains policies) ''content'' v = PStr warmup_marker"
  "dget_or (warmup_done_args m pack domains policies) ''domain_pack'' v = PStr pack"
  "dget_or (warmup_done_args m pack domains policies) ''domains'' v = PList (map PStr domains)"
  "dget_or (warmup_done_args m pack domains policies) ''policies'' v = PList (map PStr policies)"
  "dget_or (warmup_done_args m pack domains policies) ''initial_ramp'' v = PDict initial_ramp"
  by (simp_all add: warmup_done_args_def dget_or_def)

lemma find_warmup_done:
  assumes "payload_of tool (warmup_done_args m pack domains policies) pl"
  shows "find_warmup c pack' [(t, pl)] = Inr (Some \<lparr>wr_report_company = c, wr_domain_pack = PStr pack,
     wr_domains = map PStr domains, wr_policies = map PStr policies, wr_initial_ramp = initial_ramp,
     wr_already_warm = True\<rparr>)"
proof -
  have args: "dget_or pl ''args'' v = PDict (warmup_done_args m pack domains policies)" for v
    using assms by (simp add: payload_of_def dget_or_def)
  have "marker_row pl = Inr True"
    by (simp add: marker_row_def args vget_or_def warmup_done_lookup starts_with_def)
  then show ?thesis
    by (simp add: prior_report_def args vget_or_def warmup_done_lookup)
qed

context ledger_store
begin

lemma register_domains_run:
  "invar s \<Longrightarrow> register_domains L c now ts s = (Inr ids, s') \<Longrightarrow>
     invar s' \<and> ids = map dt_id ts \<and>
     (\<exists>new. execs (st_fetch L s' c None) = execs (st_fetch L s c None) @ new \<and> (\<forall>x\<in>set new. quiet (snd x)))"
proof (induction ts arbitrary: s ids)
  case (Cons t ts)
  from Cons.prems(2) obtain s1 ids' where w: "register_domain L c now t s = (Inr (), s1)"
    and rest: "register_domains L c now ts s1 = (Inr ids', s')" and ids: "ids = dt_id t # ids'"
    by (auto simp: sbind_Inr_iff)
  note w' = record_write_logged [OF Cons.prems(1) w [unfolded register_domain_def]]
  from w'(1) obtain pl where pl: "payload_of ''emit_domain_registered'' (domain_args t) pl"
    and ex: "execs (st_fetch L s1 c None) = execs (st_fetch L s c None) @ [(now, pl)]"
    by (auto simp: logged_def)
  have "quiet pl" by (rule quiet_payload [OF pl]) (simp add: domain_args_def)
  with Cons.IH [OF w'(2) rest] ex ids show ?case by auto
qed simp

lemma warmup_record_done_run:
  assumes "invar s" and "warmup_record_done L c pack now domains policies s = (Inr (), s')"
  shows "\<exists>m pl. payload_of ''emit_memory_written'' (warmup_done_args m pack domains policies) pl \<and>
     execs (st_fetch L s' c None) = execs (st_fetch L s c None) @ [(now, pl)]"
proof -
  obtain m s1 where u: "st_uuid L s = (m, s1)" by (cases "st_uuid L s")
  from assms(2) have "record_write L (\<lambda>u. gate_req c ''memory_written'' u ''company warmup'' ''company_warmup''
       ''emit_memory_written'' (warmup_done_args m pack domains policies) ''warmup'' ''warmup_complete'' ''keep''
       ''tenant warmup recorded'' now ''active_deterministic'') s1 = (Inr (), s')"
    by (simp add: warmup_record_done_def with_uuid_def u)
  from record_write_logged(1) [OF uuid_invar [OF assms(1) u] this] uuid_fetch [OF u]
  show ?thesis by (auto simp: logged_def)
qed

lemma company_warmup_fresh:
  assumes inv: "invar s" and run: "company_warmup L load (Inr ts) c pack now s = (Inr r, s')"
    and fresh: "\<not> wr_already_warm r" and names: "\<forall>t\<in>set ts. pt_name t \<noteq> []"
  shows "find_warmup c pack' (execs (st_fetch L s' c None)) = Inr (Some (r\<lparr>wr_already_warm := True\<rparr>))"
proof -
  from run obtain prior where prior: "find_warmup c pack (execs (st_fetch L s c None)) = Inr prior"
    by (auto simp: company_warmup_def sbind_Inr_iff)
  have "prior = None"
  proof (rule ccontr)
    assume "prior \<noteq> None"
    then obtain r0 where r0: "prior = Some r0" by blast
    with run prior have "r = r0" by (simp add: company_warmup_def sbind_lift)
    moreover note find_warmup_warm
    ultimately show False using fresh prior r0 by blast
  qed
  with run prior obtain ds domains s1 policies s2
    where d: "register_domains L c now ds s = (Inr domains, s1)"
      and p: "load_templates L (Inr ts) c pack now s1 = (Inr policies, s2)"
      and w: "warmup_record_done L c pack now domains (map po_name policies) s2 = (Inr (), s')"
      and r: "r = \<lparr>wr_report_company = c, wr_domain_pack = PStr pack, wr_domains = map PStr domains,
                   wr_policies = map PStr (map po_name policies), wr_initial_ramp = initial_ramp,
                   wr_already_warm = False\<rparr>"
    by (auto simp: company_warmup_def sbind_Inr_iff sbind_lift)
  from register_domains_run [OF inv d] obtain new1 where inv1: "invar s1"
    and new1: "execs (st_fetch L s1 c None) = execs (st_fetch L s c None) @ new1" "\<forall>x\<in>set new1. quiet (snd x)"
    by blast
  from p obtain existing where "load_loop L c pack now existing ts s1 = (Inr policies, s2)"
    by (auto simp: load_templates_def sbind_Inr_iff)
  from load_loop_run [OF inv1 this names] obtain new2 where inv2: "invar s2"
    and new2: "execs (st_fetch L s2 c None) = execs (st_fetch L s1 c None) @ new2"
      "\<forall>x\<in>set new2. \<exists>tm u. payload_of ''emit_policy_applied'' (policy_args tm u) (snd x)"
    by blast
  have "\<forall>x\<in>set new2. quiet (snd x)"
    using new2(2) quiet_payload by (fastforce simp: policy_args_def)
  moreover from warmup_record_done_run [OF inv2 w] obtain m pl
    where pl: "payload_of ''emit_memory_written'' (warmup_done_args m pack domains (map po_name policies)) pl"
      and new3: "execs (st_fetch L s' c None) = execs (st_fetch L s2 c None) @ [(now, pl)]" by blast
  moreover from prior \<open>prior = None\<close> have "find_warmup c pack' (execs (st_fetch L s c None)) = Inr None"
    using find_warmup_None_any by blast
  ultimately show ?thesis
    unfolding new3 new2(1) new1(1)
    by (simp add: find_warmup_append find_warmup_quiet new1(2) find_warmup_done [OF pl] r
        del: find_warmup.simps(2))
qed

end

text \<open>Warming a tenant up twice does the work once: after a fresh warmup a second call, for any
  pack and at any time, reports the first one's domains, policies and ramp as already warm and
  leaves the ledger as it is.\<close>

theorem company_warmup_idempotent:
  assumes "ledger_store E L invar" and "invar s" and "\<forall>t\<in>set ts. pt_name t \<noteq> []"
    and "company_warmup L load (Inr ts) c pack now s = (Inr r, s')" and "\<not> wr_already_warm r"
  shows "company_warmup L load' ts' c pack' later s' = (Inr (r\<lparr>wr_already_warm := True\<rparr>), s')"
proof -
  have "find_warmup c pack' (execs (st_fetch L s' c None)) = Inr (Some (r\<lparr>wr_already_warm := True\<rparr>))"
    by (rule ledger_store.company_warmup_fresh [OF assms(1,2,4,5,3)])
  then show ?thesis by (simp add: company_warmup_def sbind_lift)
qed

context reliable_store
begin

lemma register_domains_ok: "\<exists>s'. register_domains L c now ts s = (Inr (map dt_id ts), s')"
proof (induction ts arbitrary: s)
  case (Cons t ts)
  have "jsonable_dict (domain_args t)" by (simp add: domain_args_def)
  from record_write_ok [OF this] obtain s1 where w: "register_domain L c now t s = (Inr (), s1)"
    unfolding register_domain_def by blast
  from Cons.IH obtain s2 where "register_domains L c now ts s1 = (Inr (map dt_id ts), s2)" by blast
  with w show ?case by simp
qed simp

lemma warmup_record_done_ok: "\<exists>s'. warmup_record_done L c pack now domains policies s = (Inr (), s')"
proof (cases "st_uuid L s")
  case (Pair m s1)
  have "jsonable_dict (warmup_done_args m pack domains policies)"
    by (simp add: warmup_done_args_def initial_ramp_def)
  from record_write_ok [OF this] show ?thesis
    unfolding warmup_record_done_def with_uuid_def Pair prod.case by blast
qed

end

theorem company_warmup_idempotent_witness:
  "\<exists>r s'. company_warmup (mem_store demo_env) (\<lambda>_. Inl ValueError) (Inr demo_templates) ''c'' ''saas'' 5 mem_empty = (Inr r, s') \<and>
     company_warmup (mem_store demo_env) (\<lambda>_. Inl KeyError) (Inl KeyError) ''c'' ''bank'' 9 s' =
       (Inr (r\<lparr>wr_already_warm := True\<rparr>), s')"
proof -
  have e: "execs (st_fetch (mem_store demo_env) mem_empty ''c'' None) = []"
    by (simp add: mem_empty_def mem_rows_def)
  obtain ps s2 where l: "load_loop (mem_store demo_env) ''c'' ''saas'' 5 [] demo_templates mem_empty = (Inr ps, s2)"
    using ml.load_loop_ok by blast
  obtain s3 where w: "warmup_record_done (mem_store demo_env) ''c'' ''saas'' 5 [] (map po_name ps) s2 = (Inr (), s3)"
    using ml.warmup_record_done_ok by blast
  from e l w obtain r where r: "company_warmup (mem_store demo_env) (\<lambda>_. Inl ValueError) (Inr demo_templates) ''c'' ''saas'' 5 mem_empty = (Inr r, s3)"
    and fresh: "\<not> wr_already_warm r"
    by (simp add: company_warmup_def sbind_lift domains_for_def load_templates_def)
  have "\<forall>t\<in>set demo_templates. pt_name t \<noteq> []" by (simp add: demo_templates_def)
  from company_warmup_idempotent [OF ml.ledger_store_axioms mem_invar_empty this r fresh] r
  show ?thesis by blast
qed

end
