(* ===== verification/Rate_Limit.thy ===== *)
theory Rate_Limit
  imports Demo_Environment
begin

section \<open>WhatsApp send rate limiting (\<open>channel_adapters/whatsapp_rate_limit.py\<close>)\<close>

text \<open>
  The token bucket, its registry, the retry wrapper and the decorator around a send. A \<open>float\<close>
  is the rational it denotes and its arithmetic is exact. A bucket is an object: the registry
  maps a key to its index in the heap of the limiter, so a task that waits keeps its bucket
  when the registry evicts the key. Time passes, and other tasks run, only where the code
  awaits a sleep or the wrapped function; these are arguments of the definitions.
\<close>

definition DEFAULT_RATE_PER_MIN :: int where
  "DEFAULT_RATE_PER_MIN = 5"

definition DEFAULT_BACKOFF_BASE_S :: rat where
  "DEFAULT_BACKOFF_BASE_S = 1"

definition DEFAULT_BACKOFF_MAX_RETRIES :: int where
  "DEFAULT_BACKOFF_MAX_RETRIES = 3"

definition BUCKET_REGISTRY_MAX :: nat where
  "BUCKET_REGISTRY_MAX = 4096"

subsection \<open>One bucket\<close>

record bucket =
  bk_capacity :: rat
  bk_rate :: rat
  bk_tokens :: rat
  bk_last :: rat

definition refill :: "rat \<Rightarrow> bucket \<Rightarrow> bucket" where
  "refill now b =
     (let elapsed = now - bk_last b
      in if elapsed > 0
         then b\<lparr>bk_tokens := min (bk_capacity b) (bk_tokens b + elapsed * bk_rate b), bk_last := now\<rparr>
         else b)"

text \<open>The section under the lock of the bucket.\<close>

definition bucket_take :: "rat \<Rightarrow> bucket \<Rightarrow> bool \<times> bucket" where
  "bucket_take now b =
     (let b' = refill now b
      in if bk_tokens b' \<ge> 1 then (True, b'\<lparr>bk_tokens := bk_tokens b' - 1\<rparr>) else (False, b'))"

subsection \<open>\<open>TokenBucketRateLimiter\<close>\<close>

record limiter =
  li_rate :: rat
  li_refill :: rat
  li_buckets :: "(string \<times> nat) list"
  li_heap :: "bucket list"

definition limiter_init :: "int \<Rightarrow> exc + limiter" where
  "limiter_init rate =
     (if rate \<le> 0 then Inl ValueError
      else Inr \<lparr>li_rate = of_int rate, li_refill = of_int rate / 60, li_buckets = [], li_heap = []\<rparr>)"

definition rate_per_min :: "limiter \<Rightarrow> int" where
  "rate_per_min l = \<lfloor>li_rate l\<rfloor>"

definition move_to_end :: "string \<Rightarrow> (string \<times> 'a) list \<Rightarrow> (string \<times> 'a) list" where
  "move_to_end k d = (case map_of d k of None \<Rightarrow> d | Some v \<Rightarrow> AList.delete k d @ [(k, v)])"

definition evict :: "'a list \<Rightarrow> 'a list" where
  "evict d = drop (length d - BUCKET_REGISTRY_MAX) d"

definition get_or_create_bucket :: "rat \<Rightarrow> string \<Rightarrow> limiter \<Rightarrow> nat \<times> limiter" where
  "get_or_create_bucket now key l =
     (case map_of (li_buckets l) key of
        Some i \<Rightarrow> (i, l\<lparr>li_buckets := move_to_end key (li_buckets l)\<rparr>)
      | None \<Rightarrow>
          let i = length (li_heap l);
              b = \<lparr>bk_capacity = li_rate l, bk_rate = li_refill l, bk_tokens = li_rate l, bk_last = now\<rparr>
          in (i, l\<lparr>li_heap := li_heap l @ [b], li_buckets := evict (li_buckets l @ [(key, i)])\<rparr>))"

text \<open>Take a token of the bucket object \<open>i\<close>.\<close>

definition limiter_take :: "rat \<Rightarrow> nat \<Rightarrow> limiter \<Rightarrow> bool \<times> limiter" where
  "limiter_take now i l =
     (let (ok, b) = bucket_take now (li_heap l ! i) in (ok, l\<lparr>li_heap := (li_heap l)[i := b]\<rparr>))"

definition try_acquire :: "rat \<Rightarrow> string \<Rightarrow> limiter \<Rightarrow> bool \<times> limiter" where
  "try_acquire now key l = (let (i, l') = get_or_create_bucket now key l in limiter_take now i l')"

definition reset_limiter :: "string option \<Rightarrow> limiter \<Rightarrow> limiter" where
  "reset_limiter key l =
     (case key of None \<Rightarrow> l\<lparr>li_buckets := []\<rparr> | Some k \<Rightarrow> l\<lparr>li_buckets := AList.delete k (li_buckets l)\<rparr>)"

subsection \<open>The process: clock, limiters and throttle sessions\<close>

record world =
  w_now :: rat
  w_limiters :: "(int \<times> limiter) list"
  w_sessions :: "string set"

datatype send_error = RateLimited string | RateLimitTimeout string | Raised exc | Cancelled

definition limiter_of :: "int \<Rightarrow> 'x world_scheme \<Rightarrow> limiter" where
  "limiter_of r w = the (map_of (w_limiters w) r)"

definition set_limiter :: "int \<Rightarrow> limiter \<Rightarrow> 'x world_scheme \<Rightarrow> 'x world_scheme" where
  "set_limiter r l w = w\<lparr>w_limiters := AList.update r l (w_limiters w)\<rparr>"

text \<open>
  \<open>acquire\<close>: the loop on the bucket object \<open>i\<close> of the limiter of rate \<open>r\<close>. It may go on for
  ever, which is \<open>None\<close>; \<open>sleep d\<close> is what happens until the task runs again.
\<close>

definition timeout_text :: "env \<Rightarrow> string \<Rightarrow> rat \<Rightarrow> string" where
  "timeout_text E key max_wait =
     ''rate limit timed out for key='' @ key @ '' after max_wait_s='' @ float_repr E max_wait"

definition wait_for_token :: "bucket \<Rightarrow> rat" where
  "wait_for_token b = (1 - bk_tokens b) / bk_rate b"

partial_function (option) acquire_loop ::
  "(rat \<Rightarrow> 'x world_scheme \<Rightarrow> 'x world_scheme) \<Rightarrow> int \<Rightarrow> nat \<Rightarrow> (rat \<times> string) option \<Rightarrow> 'x world_scheme \<Rightarrow>
    ((send_error + unit) \<times> 'x world_scheme) option" where
  "acquire_loop sleep r i deadline w =
     (let (ok, l) = limiter_take (w_now w) i (limiter_of r w); w1 = set_limiter r l w;
          wait = wait_for_token (li_heap l ! i)
      in if ok then Some (Inr (), w1)
         else case deadline of
           None \<Rightarrow> acquire_loop sleep r i deadline (sleep (wait + 1 / 1000) w1)
         | Some (d, msg) \<Rightarrow>
             if d - w_now w1 \<le> 0 then Some (Inl (RateLimitTimeout msg), w1)
             else acquire_loop sleep r i deadline (sleep (min wait (d - w_now w1) + 1 / 1000) w1))"

definition acquire :: "env \<Rightarrow> (rat \<Rightarrow> 'x world_scheme \<Rightarrow> 'x world_scheme) \<Rightarrow> int \<Rightarrow> string \<Rightarrow> rat option \<Rightarrow> 'x world_scheme \<Rightarrow>
    ((send_error + unit) \<times> 'x world_scheme) option" where
  "acquire E sleep r key max_wait w =
     (let (i, l) = get_or_create_bucket (w_now w) key (limiter_of r w); w1 = set_limiter r l w
      in acquire_loop sleep r i
           (map_option (\<lambda>m. (w_now w1 + m, timeout_text E key m)) max_wait) w1)"

subsection \<open>\<open>ExponentialBackoff\<close>\<close>

record backoff =
  bo_base :: rat
  bo_retries :: int

definition backoff_init :: "rat \<Rightarrow> int \<Rightarrow> exc + backoff" where
  "backoff_init base retries =
     (if base < 0 then Inl ValueError
      else if retries < 0 then Inl ValueError
      else Inr \<lparr>bo_base = base, bo_retries = retries\<rparr>)"

text \<open>\<open>base * 2**attempt\<close> and a jitter of at most half the base.\<close>

definition delay :: "rat \<Rightarrow> nat \<Rightarrow> rat \<Rightarrow> rat" where
  "delay base attempt draw = base * 2 ^ attempt + draw * (base * (1 / 2))"

text \<open>
  The attempts from number \<open>attempt\<close> on: the outcome, and whether the retries were used up.
  \<open>retry_on\<close> says which errors are caught; \<open>fn\<close>, \<open>sleep\<close> and \<open>rng\<close> are the callables.
\<close>

function backoff_from :: "backoff \<Rightarrow> (send_error \<Rightarrow> bool) \<Rightarrow> ('w \<Rightarrow> (send_error + 'a) \<times> 'w) \<Rightarrow> (rat \<Rightarrow> 'w \<Rightarrow> 'w) \<Rightarrow>
    ('w \<Rightarrow> rat \<times> 'w) \<Rightarrow> nat \<Rightarrow> 'w \<Rightarrow> (bool \<times> (send_error + 'a)) \<times> 'w" where
  "backoff_from b retry_on fn sleep rng attempt w =
     (case fn w of
        (Inr x, w1) \<Rightarrow> ((False, Inr x), w1)
      | (Inl e, w1) \<Rightarrow>
          if \<not> retry_on e then ((False, Inl e), w1)
          else if int attempt \<ge> bo_retries b then ((True, Inl e), w1)
          else case rng w1 of (draw, w2) \<Rightarrow>
            backoff_from b retry_on fn sleep rng (Suc attempt) (sleep (delay (bo_base b) attempt draw) w2))"
  by pat_completeness auto
termination
  by (relation "measure (\<lambda>(b, _, _, _, _, attempt, _). nat (bo_retries b + 1 - int attempt))") auto

declare backoff_from.simps [simp del]

text \<open>The hook runs when the attempts are used up; an \<open>Exception\<close> of it is logged and dropped.\<close>

definition backoff_call :: "backoff \<Rightarrow> (send_error \<Rightarrow> bool) \<Rightarrow> ('w \<Rightarrow> (send_error + 'a) \<times> 'w) \<Rightarrow> (rat \<Rightarrow> 'w \<Rightarrow> 'w) \<Rightarrow>
    ('w \<Rightarrow> rat \<times> 'w) \<Rightarrow> (send_error \<Rightarrow> 'w \<Rightarrow> (send_error + unit) \<times> 'w) option \<Rightarrow> 'w \<Rightarrow> (send_error + 'a) \<times> 'w" where
  "backoff_call b retry_on fn sleep rng on_exhausted w =
     (case backoff_from b retry_on fn sleep rng 0 w of
        ((True, Inl e), w1) \<Rightarrow>
          (case on_exhausted of
             None \<Rightarrow> (Inl e, w1)
           | Some hook \<Rightarrow> (case hook e w1 of (Inl Cancelled, w2) \<Rightarrow> (Inl Cancelled, w2) | (_, w2) \<Rightarrow> (Inl e, w2)))
      | ((_, out), w1) \<Rightarrow> (out, w1))"

subsection \<open>Configuration from the environment\<close>

text \<open>A setting that is unset, empty, unreadable or out of range falls back.\<close>

definition setting :: "(string \<Rightarrow> string option) \<Rightarrow> string \<Rightarrow> (string \<Rightarrow> 'v option) \<Rightarrow> ('v \<Rightarrow> bool) \<Rightarrow> 'v \<Rightarrow> 'v" where
  "setting environ key parse ok fallback =
     (case environ key of
        None \<Rightarrow> fallback
      | Some raw \<Rightarrow> if raw = [] then fallback
          else case parse raw of None \<Rightarrow> fallback | Some v \<Rightarrow> if ok v then v else fallback)"

definition resolve_rate_per_min :: "(string \<Rightarrow> string option) \<Rightarrow> (string \<Rightarrow> string) \<Rightarrow> string option \<Rightarrow> int" where
  "resolve_rate_per_min environ upper tenant =
     (let shared = setting environ ''WORMBASE_WHATSAPP_RATE_PER_MIN'' py_int (\<lambda>v. v > 0) DEFAULT_RATE_PER_MIN
      in case tenant of
           None \<Rightarrow> shared
         | Some t \<Rightarrow> if t = [] then shared
             else setting environ (''WORMBASE_WHATSAPP_RATE_PER_MIN_'' @ upper t) py_int (\<lambda>v. v > 0) shared)"

definition resolve_backoff_base :: "(string \<Rightarrow> string option) \<Rightarrow> (string \<Rightarrow> rat option) \<Rightarrow> rat" where
  "resolve_backoff_base environ str_to_float =
     setting environ ''WORMBASE_WHATSAPP_BACKOFF_BASE_S'' str_to_float (\<lambda>v. v \<ge> 0) DEFAULT_BACKOFF_BASE_S"

definition resolve_backoff_max_retries :: "(string \<Rightarrow> string option) \<Rightarrow> int" where
  "resolve_backoff_max_retries environ =
     setting environ ''WORMBASE_WHATSAPP_BACKOFF_MAX_RETRIES'' py_int (\<lambda>v. v \<ge> 0) DEFAULT_BACKOFF_MAX_RETRIES"

subsection \<open>\<open>with_whatsapp_rate_limit\<close>\<close>

definition bucket_key :: "string option \<Rightarrow> string \<Rightarrow> string" where
  "bucket_key tenant phone = (case tenant of None \<Rightarrow> ''_'' | Some t \<Rightarrow> if t = [] then ''_'' else t) @ '':'' @ phone"

definition get_limiter_for_rate :: "int \<Rightarrow> 'x world_scheme \<Rightarrow> (exc + unit) \<times> 'x world_scheme" where
  "get_limiter_for_rate r w =
     (case map_of (w_limiters w) r of
        Some l \<Rightarrow> (Inr (), w)
      | None \<Rightarrow> (case limiter_init r of Inl x \<Rightarrow> (Inl x, w) | Inr l \<Rightarrow> (Inr (), set_limiter r l w)))"

definition is_throttle_session_active :: "string \<Rightarrow> 'x world_scheme \<Rightarrow> bool" where
  "is_throttle_session_active key w = (key \<in> w_sessions w)"

definition mark_throttle_session :: "string \<Rightarrow> 'x world_scheme \<Rightarrow> bool \<times> 'x world_scheme" where
  "mark_throttle_session key w =
     (if key \<in> w_sessions w then (False, w) else (True, w\<lparr>w_sessions := insert key (w_sessions w)\<rparr>))"

definition clear_throttle_session :: "string \<Rightarrow> 'x world_scheme \<Rightarrow> 'x world_scheme" where
  "clear_throttle_session key w = w\<lparr>w_sessions := w_sessions w - {key}\<rparr>"

record send_limit =
  sl_tenant :: "string option"
  sl_bot :: string
  sl_rate :: int
  sl_key :: string
  sl_backoff :: backoff
  sl_max_wait :: "rat option"

definition with_whatsapp_rate_limit :: "(string \<Rightarrow> string option) \<Rightarrow> (string \<Rightarrow> string) \<Rightarrow> (string \<Rightarrow> rat option) \<Rightarrow>
    string option \<Rightarrow> string \<Rightarrow> rat option \<Rightarrow> int option \<Rightarrow> rat option \<Rightarrow> exc + send_limit" where
  "with_whatsapp_rate_limit environ upper str_to_float tenant phone base_s max_retries max_wait =
     rbind (backoff_init (case base_s of None \<Rightarrow> resolve_backoff_base environ str_to_float | Some b \<Rightarrow> b)
              (case max_retries of None \<Rightarrow> resolve_backoff_max_retries environ | Some n \<Rightarrow> n)) (\<lambda>b.
       Inr \<lparr>sl_tenant = tenant, sl_bot = phone, sl_rate = resolve_rate_per_min environ upper tenant,
            sl_key = bucket_key tenant phone, sl_backoff = b, sl_max_wait = max_wait\<rparr>)"

definition throttle_args :: "send_limit \<Rightarrow> pydict" where
  "throttle_args c =
     [(''policy_name'', PStr ''policy:whatsapp_rate_limit''), (''rule'', PStr ''rate_limit_persistent_throttle''),
      (''applies_to'', PDict [(''scope'', PStr ''adapter''), (''platform'', PStr ''whatsapp''),
         (''bot_phone'', PStr (sl_bot c)), (''tenant_id'', opt_str (sl_tenant c))]),
      (''bot_phone'', PStr (sl_bot c)), (''tenant_id'', opt_str (sl_tenant c)), (''outcome'', PStr ''applied''),
      (''rationale'', PStr (''WhatsApp send: persistent 429 throttle after '' @ dec_int (bo_retries (sl_backoff c)) @
         '' backoff retries''))]"

type_synonym ('x, 'a) send = "'x world_scheme \<Rightarrow> (send_error + 'a) \<times> 'x world_scheme"

definition on_exhausted :: "(pydict \<Rightarrow> ('x, unit) send) option \<Rightarrow> send_limit \<Rightarrow> send_error \<Rightarrow> ('x, unit) send" where
  "on_exhausted emitter c e w =
     (case mark_throttle_session (sl_key c) w of
        (False, w1) \<Rightarrow> (Inr (), w1)
      | (True, w1) \<Rightarrow>
          (case emitter of
             None \<Rightarrow> (Inr (), w1)
           | Some emit \<Rightarrow> (case emit (throttle_args c) w1 of
               (Inl Cancelled, w2) \<Rightarrow> (Inl Cancelled, w2)
             | (_, w2) \<Rightarrow> (Inr (), w2))))"

definition rate_limited :: "send_error \<Rightarrow> bool" where
  "rate_limited e = (case e of RateLimited _ \<Rightarrow> True | _ \<Rightarrow> False)"

definition limited_send :: "env \<Rightarrow> (rat \<Rightarrow> 'x world_scheme \<Rightarrow> 'x world_scheme) \<Rightarrow> ('x world_scheme \<Rightarrow> rat \<times> 'x world_scheme) \<Rightarrow>
    (pydict \<Rightarrow> ('x, unit) send) option \<Rightarrow> send_limit \<Rightarrow> ('x, 'a) send \<Rightarrow> 'x world_scheme \<Rightarrow>
    ((send_error + 'a) \<times> 'x world_scheme) option" where
  "limited_send E sleep rng emitter c fn w =
     (case get_limiter_for_rate (sl_rate c) w of
        (Inl x, w1) \<Rightarrow> Some (Inl (Raised x), w1)
      | (Inr _, w1) \<Rightarrow>
          Option.bind (acquire E sleep (sl_rate c) (sl_key c) (sl_max_wait c) w1) (\<lambda>(got, w2).
            case got of
              Inl e \<Rightarrow> Some (Inl e, w2)
            | Inr _ \<Rightarrow>
                (case backoff_call (sl_backoff c) rate_limited fn sleep rng (Some (on_exhausted emitter c)) w2 of
                   (Inl e, w3) \<Rightarrow> Some (Inl e, w3)
                 | (Inr x, w3) \<Rightarrow> Some (Inr x, clear_throttle_session (sl_key c) w3))))"

subsection \<open>A bucket over time\<close>

definition bucket_ok :: "bucket \<Rightarrow> bool" where
  "bucket_ok b = (0 < bk_rate b \<and> 1 \<le> bk_capacity b \<and> 0 \<le> bk_tokens b \<and> bk_tokens b \<le> bk_capacity b)"

text \<open>The answers to takes at the given times.\<close>

fun bucket_takes :: "rat list \<Rightarrow> bucket \<Rightarrow> bool list \<times> bucket" where
  "bucket_takes [] b = ([], b)"
| "bucket_takes (t # ts) b = (let (ok, b1) = bucket_take t b; (oks, b2) = bucket_takes ts b1 in (ok # oks, b2))"

definition granted :: "rat list \<Rightarrow> bucket \<Rightarrow> rat list" where
  "granted ts b = map fst (filter snd (zip ts (fst (bucket_takes ts b))))"

lemma bucket_take_ok: "bucket_ok b \<Longrightarrow> bucket_ok (snd (bucket_take t b))"
  by (auto simp: bucket_ok_def bucket_take_def refill_def Let_def)

lemma bucket_take_consts [simp]:
  "bk_capacity (snd (bucket_take t b)) = bk_capacity b" "bk_rate (snd (bucket_take t b)) = bk_rate b"
  "bk_last (snd (bucket_take t b)) = max (bk_last b) t"
  by (auto simp: bucket_take_def refill_def Let_def max_def)

lemma bucket_take_tokens:
  assumes "bucket_ok b"
  shows "bk_tokens (snd (bucket_take t b)) + of_bool (fst (bucket_take t b)) \<le>
    bk_tokens b + bk_rate b * (bk_last (snd (bucket_take t b)) - bk_last b)"
  using assms by (auto simp: bucket_take_def refill_def Let_def max_def algebra_simps)

lemma granted_Nil [simp]: "granted [] b = []"
  by (simp add: granted_def)

lemma granted_Cons: "granted (t # ts) b =
    (if fst (bucket_take t b) then t # granted ts (snd (bucket_take t b)) else granted ts (snd (bucket_take t b)))"
  by (simp add: granted_def split_def Let_def)

lemma granted_bound:
  "bucket_ok b \<Longrightarrow> \<forall>t\<in>set ts. t \<le> hi \<Longrightarrow> bk_last b \<le> hi \<Longrightarrow>
     of_nat (length (granted ts b)) \<le> bk_tokens b + bk_rate b * (hi - bk_last b)"
proof (induction ts arbitrary: b)
  case Nil
  then show ?case by (simp add: bucket_ok_def)
next
  case (Cons t ts)
  let ?b = "snd (bucket_take t b)"
  have ih: "of_nat (length (granted ts ?b)) \<le> bk_tokens ?b + bk_rate b * (hi - bk_last ?b)"
    using Cons.IH [of ?b] Cons.prems by (simp add: bucket_take_ok)
  have "rat_of_nat (length (granted (t # ts) b)) = of_bool (fst (bucket_take t b)) + of_nat (length (granted ts ?b))"
    by (simp add: granted_Cons)
  with ih bucket_take_tokens [OF Cons.prems(1), of t] show ?case
    by (simp add: algebra_simps)
qed

lemma granted_append: "granted (xs @ ys) b = granted xs b @ granted ys (snd (bucket_takes xs b))"
proof (induction xs arbitrary: b)
  case (Cons x xs)
  then show ?case by (simp add: granted_Cons split_def Let_def)
qed simp

lemma takes_ok: "bucket_ok b \<Longrightarrow> bucket_ok (snd (bucket_takes ts b))"
  by (induction ts arbitrary: b) (simp_all add: split_def Let_def bucket_take_ok)

lemma takes_consts: "bk_capacity (snd (bucket_takes ts b)) = bk_capacity b" "bk_rate (snd (bucket_takes ts b)) = bk_rate b"
  by (induction ts arbitrary: b) (simp_all add: split_def Let_def)

lemma granted_subset: "set (granted ts b) \<subseteq> set ts"
  by (auto simp: granted_def dest: set_zip_leftD)

lemma refill_ok: "bucket_ok b \<Longrightarrow> bucket_ok (refill t b)"
  by (auto simp: bucket_ok_def refill_def Let_def)

lemma refill_consts [simp]: "bk_capacity (refill t b) = bk_capacity b" "bk_rate (refill t b) = bk_rate b"
  "bk_last (refill t b) = max (bk_last b) t"
  by (auto simp: refill_def Let_def max_def)

lemma refill_idem [simp]: "refill t (refill t b) = refill t b"
  by (simp add: refill_def Let_def)

lemma granted_refill: "granted (t # ts) (refill t b) = granted (t # ts) b"
  by (simp add: granted_Cons bucket_take_def)

lemma granted_within:
  assumes "bucket_ok b" and "\<forall>t\<in>set ts. a \<le> t \<and> t \<le> hi" and "a \<le> hi"
  shows "of_nat (length (granted ts b)) \<le> bk_capacity b + bk_rate b * (hi - a)"
proof (cases ts)
  case Nil
  with assms show ?thesis by (simp add: bucket_ok_def)
next
  case (Cons t ts')
  let ?b = "refill t b"
  have ok: "bucket_ok ?b" and cap: "bk_tokens ?b \<le> bk_capacity b" and pos: "0 < bk_rate b"
    using refill_ok [OF assms(1), of t] assms(1) by (simp_all add: bucket_ok_def)
  have "of_nat (length (granted ts b)) \<le> bk_tokens ?b + bk_rate ?b * (max hi (bk_last ?b) - bk_last ?b)"
    using granted_bound [OF ok, of ts "max hi (bk_last ?b)"] assms(2)
    by (simp add: Cons granted_refill max.coboundedI1)
  also have "\<dots> \<le> bk_capacity b + bk_rate b * (hi - a)"
  proof -
    have "max hi (bk_last ?b) - bk_last ?b \<le> hi - a"
      using assms(2,3) by (auto simp: Cons max_def)
    with pos have "bk_rate b * (max hi (bk_last ?b) - bk_last ?b) \<le> bk_rate b * (hi - a)"
      by (intro mult_left_mono) simp_all
    with cap show ?thesis by simp
  qed
  finally show ?thesis .
qed

lemma sorted_window:
  fixes ts :: "rat list"
  assumes "sorted ts"
  obtains pre mid post where "ts = pre @ mid @ post" "\<forall>t\<in>set pre. t < a" "\<forall>t\<in>set mid. a \<le> t \<and> t \<le> hi" "\<forall>t\<in>set post. hi < t"
proof
  let ?rest = "dropWhile (\<lambda>t. t < a) ts"
  show "ts = takeWhile (\<lambda>t. t < a) ts @ takeWhile (\<lambda>t. t \<le> hi) ?rest @ dropWhile (\<lambda>t. t \<le> hi) ?rest"
    by simp
  show "\<forall>t\<in>set (takeWhile (\<lambda>t. t < a) ts). t < a" by (auto dest: set_takeWhileD)
  have late: "\<forall>t\<in>set (dropWhile P xs). \<not> P t"
    if "sorted xs" and up: "\<And>t u. \<not> P t \<Longrightarrow> t \<le> u \<Longrightarrow> \<not> P u" for P and xs :: "rat list"
    using that(1) by (induction xs) (simp_all, metis up)
  show "\<forall>t\<in>set (takeWhile (\<lambda>t. t \<le> hi) ?rest). a \<le> t \<and> t \<le> hi"
  proof
    fix t assume "t \<in> set (takeWhile (\<lambda>t. t \<le> hi) ?rest)"
    from set_takeWhileD [OF this] have "t \<in> set ?rest" "t \<le> hi" by simp_all
    moreover have "\<forall>t\<in>set ?rest. \<not> t < a" by (rule late [OF assms]) (rule notI, drule (1) le_less_trans, erule (1) notE)
    ultimately have "\<not> t < a" by blast
    with \<open>t \<le> hi\<close> show "a \<le> t \<and> t \<le> hi" by (simp only: not_less)
  qed
  have "\<forall>t\<in>set (dropWhile (\<lambda>t. t \<le> hi) ?rest). \<not> t \<le> hi"
    by (rule late [OF sorted_dropWhile [OF assms]]) (rule notI, drule (1) order_trans, erule (1) notE)
  then show "\<forall>t\<in>set (dropWhile (\<lambda>t. t \<le> hi) ?rest). hi < t" by (simp add: not_le)
qed

text \<open>C26: However often a bucket is asked, in any interval of time it grants at most its capacity plus
  what it refills during the interval.\<close>

theorem bucket_window_bound:
  assumes "bucket_ok b" and "sorted ts" and "a \<le> hi"
  shows "of_nat (length (filter (\<lambda>t. a \<le> t \<and> t \<le> hi) (granted ts b))) \<le> bk_capacity b + bk_rate b * (hi - a)"
proof -
  obtain pre mid post where ts: "ts = pre @ mid @ post" and pre: "\<forall>t\<in>set pre. t < a"
    and mid: "\<forall>t\<in>set mid. a \<le> t \<and> t \<le> hi" and post: "\<forall>t\<in>set post. hi < t"
    using sorted_window [OF assms(2)] by blast
  have none: "filter (\<lambda>t. a \<le> t \<and> t \<le> hi) (granted xs c) = []" if "\<forall>t\<in>set xs. t < a \<or> hi < t" for xs c
    using that granted_subset [of xs c] by (fastforce simp: filter_empty_conv)
  have "filter (\<lambda>t. a \<le> t \<and> t \<le> hi) (granted ts b) = filter (\<lambda>t. a \<le> t \<and> t \<le> hi) (granted mid (snd (bucket_takes pre b)))"
    using none [of pre] none [of post] pre post by (simp add: ts granted_append)
  also have "length \<dots> \<le> length (granted mid (snd (bucket_takes pre b)))" by simp
  also have "rat_of_nat \<dots> \<le> bk_capacity b + bk_rate b * (hi - a)"
    using granted_within [OF takes_ok [OF assms(1)] mid assms(3)] by (simp add: takes_consts)
  finally show ?thesis by simp
qed

theorem bucket_window_bound_witness:
  "granted [0, 1, 2, 13, 14] \<lparr>bk_capacity = 2, bk_rate = 1 / 12, bk_tokens = 2, bk_last = 0\<rparr> = [0, 1, 13] \<and>
   (3::rat) \<le> 2 + 1 / 12 * (13 - 0)"
proof -
  let ?b = "\<lparr>bk_capacity = 2, bk_rate = 1 / 12, bk_tokens = 2, bk_last = 0\<rparr>"
  have g: "granted [0, 1, 2, 13, 14] ?b = [0, 1, 13]" by code_simp
  have "bucket_ok ?b" by (simp add: bucket_ok_def)
  from bucket_window_bound [OF this, of "[0, 1, 2, 13, 14]" 0 13] g show ?thesis by simp
qed

subsection \<open>The registry of buckets\<close>

text \<open>
  What can happen to a limiter: time passes, a task looks a key up, takes from a bucket it holds,
  or drops keys. The invariant of the registry and of its buckets at time \<open>t\<close>.
\<close>

inductive limiter_step :: "rat \<times> limiter \<Rightarrow> rat \<times> limiter \<Rightarrow> bool" where
  pass: "t \<le> t' \<Longrightarrow> limiter_step (t, l) (t', l)"
| lookup: "get_or_create_bucket t key l = (i, l') \<Longrightarrow> limiter_step (t, l) (t, l')"
| take_token: "i < length (li_heap l) \<Longrightarrow> limiter_take t i l = (ok, l') \<Longrightarrow> limiter_step (t, l) (t, l')"
| reset: "limiter_step (t, l) (t, reset_limiter key l)"

definition limiter_inv :: "rat \<Rightarrow> limiter \<Rightarrow> bool" where
  "limiter_inv t l =
     (distinct (map fst (li_buckets l)) \<and> distinct (map snd (li_buckets l)) \<and>
      length (li_buckets l) \<le> BUCKET_REGISTRY_MAX \<and>
      (\<forall>i\<in>snd ` set (li_buckets l). i < length (li_heap l)) \<and>
      (\<forall>b\<in>set (li_heap l). bucket_ok b \<and> bk_last b \<le> t) \<and>
      1 \<le> li_rate l \<and> 0 < li_refill l)"

lemma limiter_inv_init: "limiter_init rate = Inr l \<Longrightarrow> limiter_inv t l"
  by (auto simp: limiter_init_def limiter_inv_def split: if_splits)

lemma limiter_inv_later: "limiter_inv t l \<Longrightarrow> t \<le> t' \<Longrightarrow> limiter_inv t' l"
  by (fastforce simp: limiter_inv_def)

lemma limiter_inv_bucket: "limiter_inv t l \<Longrightarrow> i < length (li_heap l) \<Longrightarrow> bucket_ok (li_heap l ! i) \<and> bk_last (li_heap l ! i) \<le> t"
  by (simp add: limiter_inv_def)

lemma set_evict: "set (evict d) \<subseteq> set d"
  by (simp add: evict_def set_drop_subset)

lemma evict_map: "map f (evict d) = drop (length d - BUCKET_REGISTRY_MAX) (map f d)"
  by (simp add: evict_def drop_map)

lemma length_evict: "length (evict d) \<le> BUCKET_REGISTRY_MAX"
  by (simp add: evict_def)

lemma delete_map_snd: "distinct (map snd d) \<Longrightarrow> distinct (map snd (AList.delete k d))"
  by (induction d) (auto simp: AList.delete_eq)

lemma map_of_snd_inj: "distinct (map snd d) \<Longrightarrow> map_of d k = Some v \<Longrightarrow> v \<notin> snd ` set (AList.delete k d)"
proof
  assume d: "distinct (map snd d)" and m: "map_of d k = Some v" and "v \<in> snd ` set (AList.delete k d)"
  then obtain k' where k': "(k', v) \<in> set d" "k' \<noteq> k" by (auto simp: AList.delete_eq)
  moreover have "(k, v) \<in> set d" by (rule map_of_SomeD [OF m])
  ultimately show False using d by (fastforce simp: distinct_map inj_on_def)
qed

lemma map_of_delete_distinct: "k \<notin> fst ` set (AList.delete k d)"
  by (auto simp: AList.delete_eq)

lemma limiter_inv_reset: "limiter_inv t l \<Longrightarrow> limiter_inv t (reset_limiter key l)"
proof (cases key)
  case (Some k)
  assume inv: "limiter_inv t l"
  have "set (AList.delete k (li_buckets l)) \<subseteq> set (li_buckets l)" by (auto simp: AList.delete_eq)
  with inv Some show ?thesis
    by (auto simp: limiter_inv_def reset_limiter_def distinct_delete delete_map_snd
        intro: le_trans [OF length_delete_le])
qed (auto simp: limiter_inv_def reset_limiter_def)

lemma limiter_inv_take:
  assumes "limiter_inv t l" and "i < length (li_heap l)" and "limiter_take t i l = (ok, l')"
  shows "limiter_inv t l'" and "length (li_heap l') = length (li_heap l)"
proof -
  from assms(3) have l': "l' = l\<lparr>li_heap := (li_heap l)[i := snd (bucket_take t (li_heap l ! i))]\<rparr>"
    by (auto simp: limiter_take_def split_def Let_def)
  from limiter_inv_bucket [OF assms(1,2)]
  have "bucket_ok (snd (bucket_take t (li_heap l ! i)))" "bk_last (snd (bucket_take t (li_heap l ! i))) \<le> t"
    by (simp_all add: bucket_take_ok)
  with assms(1) show "limiter_inv t l'"
    by (auto simp: limiter_inv_def l' dest!: set_update_subset_insert [THEN subsetD])
  show "length (li_heap l') = length (li_heap l)" by (simp add: l')
qed

lemma limiter_inv_lookup:
  assumes inv: "limiter_inv t l" and get: "get_or_create_bucket t key l = (i, l')"
  shows "limiter_inv t l'" and "i < length (li_heap l')" and "length (li_heap l) \<le> length (li_heap l')"
proof -
  have "limiter_inv t l' \<and> i < length (li_heap l') \<and> length (li_heap l) \<le> length (li_heap l')"
  proof (cases "map_of (li_buckets l) key")
    case (Some j)
    then have l': "i = j" "l' = l\<lparr>li_buckets := AList.delete key (li_buckets l) @ [(key, j)]\<rparr>"
      using get by (auto simp: get_or_create_bucket_def move_to_end_def)
    have sub: "set (AList.delete key (li_buckets l)) \<subseteq> set (li_buckets l)" by (auto simp: AList.delete_eq)
    have "(key, j) \<in> set (li_buckets l)" by (rule map_of_SomeD [OF Some])
    then have j: "j < length (li_heap l)" and "key \<in> fst ` set (li_buckets l)"
      using inv by (force simp: limiter_inv_def)+
    then have "length (AList.delete key (li_buckets l)) < length (li_buckets l)"
      by (auto simp: AList.delete_eq length_filter_less)
    with inv sub j show ?thesis
      by (auto simp: limiter_inv_def l' distinct_delete delete_map_snd map_of_snd_inj [OF _ Some]
          map_of_delete_distinct dest: subsetD)
  next
    case None
    then have l': "i = length (li_heap l)"
      "l' = l\<lparr>li_heap := li_heap l @ [\<lparr>bk_capacity = li_rate l, bk_rate = li_refill l, bk_tokens = li_rate l, bk_last = t\<rparr>],
              li_buckets := evict (li_buckets l @ [(key, length (li_heap l))])\<rparr>"
      using get by (auto simp: get_or_create_bucket_def Let_def)
    have fresh: "key \<notin> fst ` set (li_buckets l)" "length (li_heap l) \<notin> snd ` set (li_buckets l)"
      using None inv by (auto simp: map_of_eq_None_iff limiter_inv_def)
    have sub: "set (evict (li_buckets l @ [(key, length (li_heap l))])) \<subseteq> insert (key, length (li_heap l)) (set (li_buckets l))"
      using set_evict by fastforce
    have "distinct (map fst (evict (li_buckets l @ [(key, length (li_heap l))])))"
      "distinct (map snd (evict (li_buckets l @ [(key, length (li_heap l))])))"
      using inv fresh by (auto simp: evict_map limiter_inv_def simp del: drop_append intro!: distinct_drop)
    with inv sub length_evict show ?thesis
      by (fastforce simp: limiter_inv_def l' bucket_ok_def)
  qed
  then show "limiter_inv t l'" and "i < length (li_heap l')" and "length (li_heap l) \<le> length (li_heap l')" by blast+
qed

lemma limiter_step_inv:
  assumes "limiter_step (t, l) (t', l')" and inv: "limiter_inv t l"
  shows "limiter_inv t' l' \<and> t \<le> t' \<and> length (li_heap l) \<le> length (li_heap l')"
  using assms(1)
proof cases
  case pass
  with inv show ?thesis by (simp add: limiter_inv_later)
next
  case (lookup key i)
  with limiter_inv_lookup [OF inv lookup(2)] show ?thesis by simp
next
  case (take_token i ok)
  with limiter_inv_take [OF inv take_token(2,3)] show ?thesis by simp
next
  case (reset key)
  with limiter_inv_reset [OF inv, of key] show ?thesis by (simp add: reset_limiter_def split: option.splits)
qed

lemma limiter_steps_inv':
  "limiter_step\<^sup>*\<^sup>* p q \<Longrightarrow> limiter_inv (fst p) (snd p) \<Longrightarrow>
     limiter_inv (fst q) (snd q) \<and> fst p \<le> fst q \<and> length (li_heap (snd p)) \<le> length (li_heap (snd q))"
proof (induction rule: rtranclp_induct)
  case (step q q')
  from step.hyps(2) have "limiter_step (fst q, snd q) (fst q', snd q')" by simp
  from limiter_step_inv [OF this] step.IH [OF step.prems] show ?case by linarith
qed simp

lemma limiter_steps_inv:
  assumes "limiter_step\<^sup>*\<^sup>* (t, l) (t', l')" and "limiter_inv t l"
  shows "limiter_inv t' l' \<and> t \<le> t' \<and> length (li_heap l) \<le> length (li_heap l')"
  using limiter_steps_inv' [OF assms(1)] assms(2) by simp

text \<open>Whatever tasks do with a limiter, its registry holds at most 4096 keys, each once and each with
  a bucket of its own, and every bucket holds between none and its capacity of tokens.\<close>

theorem limiter_registry_invariant:
  assumes "limiter_init rate = Inr l0" and "limiter_step\<^sup>*\<^sup>* (t0, l0) (t, l)"
  shows "distinct (map fst (li_buckets l)) \<and> distinct (map snd (li_buckets l)) \<and>
    length (li_buckets l) \<le> 4096 \<and> (\<forall>i\<in>snd ` set (li_buckets l). i < length (li_heap l)) \<and>
    (\<forall>b\<in>set (li_heap l). 0 \<le> bk_tokens b \<and> bk_tokens b \<le> bk_capacity b)"
  using limiter_steps_inv [OF assms(2) limiter_inv_init [OF assms(1)]]
  by (simp add: limiter_inv_def bucket_ok_def BUCKET_REGISTRY_MAX_def)

theorem limiter_registry_invariant_witness:
  "\<exists>l. limiter_step\<^sup>*\<^sup>* (0, \<lparr>li_rate = 5, li_refill = 5 / 60, li_buckets = [], li_heap = []\<rparr>) (0, l) \<and>
     map fst (li_buckets l) = [''t:1''] \<and> distinct (map snd (li_buckets l))"
proof -
  define l0 where "l0 = \<lparr>li_rate = 5, li_refill = 5 / 60, li_buckets = [], li_heap = []\<rparr>"
  have init: "limiter_init 5 = Inr l0" by (simp add: limiter_init_def l0_def)
  define l where "l = snd (get_or_create_bucket 0 ''t:1'' l0)"
  have step: "limiter_step\<^sup>*\<^sup>* (0, l0) (0, l)"
    by (intro r_into_rtranclp limiter_step.lookup) (simp add: l_def prod_eq_iff)
  have "map fst (li_buckets l) = [''t:1'']"
    by (simp add: l_def l0_def get_or_create_bucket_def Let_def evict_def BUCKET_REGISTRY_MAX_def)
  with limiter_registry_invariant [OF init step] step show ?thesis by (auto simp: l0_def)
qed

subsection \<open>Waiting for a token\<close>

lemma limiter_of_set [simp]: "limiter_of r (set_limiter r l w) = l"
  by (simp add: limiter_of_def set_limiter_def update_conv')

lemma set_limiter_now [simp]: "w_now (set_limiter r l w) = w_now w"
  by (simp add: set_limiter_def)

text \<open>
  Task \<open>r\<close> holds bucket \<open>i\<close>. While it sleeps, at least the time it asked for passes and the
  other tasks perform limiter operations.
\<close>

definition holds :: "int \<Rightarrow> nat \<Rightarrow> 'x world_scheme \<Rightarrow> bool" where
  "holds r i w = (limiter_inv (w_now w) (limiter_of r w) \<and> i < length (li_heap (limiter_of r w)))"

definition sleeps :: "int \<Rightarrow> (rat \<Rightarrow> 'x world_scheme \<Rightarrow> 'x world_scheme) \<Rightarrow> bool" where
  "sleeps r sleep = (\<forall>d w. w_now w + d \<le> w_now (sleep d w) \<and>
     limiter_step\<^sup>*\<^sup>* (w_now w, limiter_of r w) (w_now (sleep d w), limiter_of r (sleep d w)))"

lemma holds_sleep: "sleeps r sleep \<Longrightarrow> holds r i w \<Longrightarrow> holds r i (sleep d w)"
  using limiter_steps_inv unfolding sleeps_def holds_def by (metis order_less_le_trans)

lemma holds_take:
  assumes "holds r i w" and "limiter_take (w_now w) i (limiter_of r w) = (ok, l)"
  shows "holds r i (set_limiter r l w)"
  using limiter_inv_take [OF _ _ assms(2)] assms(1) by (simp add: holds_def)

text \<open>A refused take leaves less than one token, hence a positive time to wait.\<close>

lemma refused_take:
  assumes "holds r i w" and "limiter_take (w_now w) i (limiter_of r w) = (False, l)"
  shows "li_heap l ! i = refill (w_now w) (li_heap (limiter_of r w) ! i)" and "bk_tokens (li_heap l ! i) < 1"
    and "0 < bk_rate (li_heap l ! i)" and "1 \<le> bk_capacity (li_heap l ! i)" and "0 < wait_for_token (li_heap l ! i)"
    and "bk_last (li_heap l ! i) = w_now w"
proof -
  let ?b = "li_heap (limiter_of r w) ! i"
  from assms(1) limiter_inv_bucket have b: "bucket_ok ?b" "bk_last ?b \<le> w_now w" and i: "i < length (li_heap (limiter_of r w))"
    by (auto simp: holds_def)
  have l: "li_heap l ! i = snd (bucket_take (w_now w) ?b)" "\<not> fst (bucket_take (w_now w) ?b)"
    using assms(2) i by (auto simp: limiter_take_def split_def Let_def)
  show h: "li_heap l ! i = refill (w_now w) ?b" and t: "bk_tokens (li_heap l ! i) < 1"
    using l by (auto simp: bucket_take_def Let_def split: if_splits)
  show r: "0 < bk_rate (li_heap l ! i)" and "1 \<le> bk_capacity (li_heap l ! i)" "bk_last (li_heap l ! i) = w_now w"
    using h b by (simp_all add: bucket_ok_def)
  with t show "0 < wait_for_token (li_heap l ! i)" by (simp add: wait_for_token_def)
qed

lemma acquire_loop_deadline:
  assumes sleeps: "sleeps r sleep"
  shows "holds r i w \<Longrightarrow> (d - w_now w) * 1000 \<le> of_nat n \<Longrightarrow>
    \<exists>out w'. acquire_loop sleep r i (Some (d, msg)) w = Some (out, w') \<and>
      (out = Inr () \<or> out = Inl (RateLimitTimeout msg) \<and> d \<le> w_now w')"
proof (induction n arbitrary: w)
  case (0 w)
  obtain ok l where take: "limiter_take (w_now w) i (limiter_of r w) = (ok, l)" by (cases "limiter_take (w_now w) i (limiter_of r w)")
  from 0 have "d \<le> w_now w" by simp
  then show ?case by (subst acquire_loop.simps) (simp add: take Let_def)
next
  case (Suc n w)
  obtain ok l where take: "limiter_take (w_now w) i (limiter_of r w) = (ok, l)" by (cases "limiter_take (w_now w) i (limiter_of r w)")
  let ?w1 = "set_limiter r l w"
  show ?case
  proof (cases "ok \<or> d \<le> w_now w")
    case True
    then show ?thesis by (subst acquire_loop.simps) (auto simp: take Let_def)
  next
    case False
    let ?s = "min (wait_for_token (li_heap l ! i)) (d - w_now w) + 1 / 1000"
    let ?w2 = "sleep ?s ?w1"
    from False take have refused: "limiter_take (w_now w) i (limiter_of r w) = (False, l)" by simp
    have "0 < min (wait_for_token (li_heap l ! i)) (d - w_now w)"
      using refused_take(5) [OF Suc.prems(1) refused] False by simp
    moreover have "w_now ?w1 + ?s \<le> w_now ?w2" using sleeps unfolding sleeps_def by blast
    ultimately have "w_now w + 1 / 1000 \<le> w_now ?w2" unfolding set_limiter_now by linarith
    then have "(d - w_now ?w2) * 1000 \<le> of_nat n" using Suc.prems(2) by simp
    from Suc.IH [OF holds_sleep [OF sleeps holds_take [OF Suc.prems(1) take]] this] False refused show ?thesis
      by (subst acquire_loop.simps) (simp add: Let_def)
  qed
qed

lemma holds_lookup:
  assumes "limiter_inv (w_now w) (limiter_of r w)" and "get_or_create_bucket (w_now w) key (limiter_of r w) = (i, l)"
  shows "holds r i (set_limiter r l w)"
  using limiter_inv_lookup [OF assms] by (simp add: holds_def)

text \<open>C32: With a wait budget \<open>acquire\<close> always returns, whatever other tasks do to the limiter in the
  meantime: it has taken a token, or it raises the timeout and the budget has passed.\<close>

theorem acquire_returns_in_time:
  fixes w :: "'x world_scheme"
  assumes "sleeps r sleep" and "limiter_inv (w_now w) (limiter_of r w)"
  shows "\<exists>out w'. acquire E sleep r key (Some m) w = Some (out, w') \<and>
    (out = Inr () \<or> out = Inl (RateLimitTimeout (timeout_text E key m)) \<and> w_now w + m \<le> w_now w')"
proof -
  obtain i l where get: "get_or_create_bucket (w_now w) key (limiter_of r w) = (i, l)"
    by (cases "get_or_create_bucket (w_now w) key (limiter_of r w)")
  have "m * 1000 \<le> of_int \<lceil>m * 1000\<rceil>" by (rule le_of_int_ceiling)
  also have "\<dots> \<le> (of_int (int (nat \<lceil>m * 1000\<rceil>)) :: rat)" by simp
  finally have "m * 1000 \<le> of_nat (nat \<lceil>m * 1000\<rceil>)" by (simp only: of_int_of_nat_eq)
  then have "(w_now w + m - w_now (set_limiter r l w)) * 1000 \<le> of_nat (nat \<lceil>m * 1000\<rceil>)" by simp
  from acquire_loop_deadline [OF assms(1) holds_lookup [OF assms(2) get] this] show ?thesis
    by (simp add: acquire_def get Let_def)
qed

lemma take_after_wait:
  assumes h: "holds r i w" and take: "limiter_take (w_now w) i (limiter_of r w) = (False, l)"
    and later: "w_now w + wait_for_token (li_heap l ! i) \<le> t"
  shows "fst (limiter_take t i l)"
proof -
  let ?b = "li_heap l ! i"
  note f = refused_take [OF h take]
  have "1 - bk_tokens ?b = wait_for_token ?b * bk_rate ?b" using f(3) by (simp add: wait_for_token_def)
  also have "\<dots> \<le> (t - bk_last ?b) * bk_rate ?b" using later f(3,6) by (intro mult_right_mono) simp_all
  finally have "1 \<le> bk_tokens ?b + (t - bk_last ?b) * bk_rate ?b" by simp
  moreover have "bk_last ?b < t" using later f(5,6) by simp
  ultimately have "1 \<le> bk_tokens (refill t ?b)" using f(4) by (simp add: refill_def)
  then show ?thesis by (simp add: limiter_take_def bucket_take_def Let_def)
qed


text \<open>A process with one limiter and a clock; asleep, other tasks do nothing.\<close>

definition demo_world :: world where
  "demo_world = \<lparr>w_now = 100, w_limiters = [(5, \<lparr>li_rate = 5, li_refill = 1 / 12, li_buckets = [(''_:1'', 0)],
     li_heap = [\<lparr>bk_capacity = 5, bk_rate = 1 / 12, bk_tokens = 0, bk_last = 100\<rparr>]\<rparr>)], w_sessions = {}\<rparr>"

definition quiet_sleep :: "rat \<Rightarrow> 'x world_scheme \<Rightarrow> 'x world_scheme" where
  "quiet_sleep d w = w\<lparr>w_now := w_now w + max 0 d\<rparr>"

lemma demo_world_inv: "limiter_inv (w_now demo_world) (limiter_of 5 demo_world)"
  by (simp add: limiter_inv_def limiter_of_def demo_world_def bucket_ok_def BUCKET_REGISTRY_MAX_def)

lemma quiet_sleep_sleeps: "sleeps r quiet_sleep"
  by (auto simp: sleeps_def quiet_sleep_def limiter_of_def intro!: r_into_rtranclp limiter_step.pass)

theorem acquire_returns_in_time_witness:
  "acquire demo_env quiet_sleep 5 ''_:1'' (Some 3) demo_world \<noteq> None"
  using acquire_returns_in_time [OF quiet_sleep_sleeps demo_world_inv, of demo_env "''_:1''" 3] by fastforce


subsection \<open>Retries\<close>

text \<open>The waits of \<open>n\<close> retries sum to at most this, with the draws between 0 and 1.\<close>

definition max_backoff :: "rat \<Rightarrow> nat \<Rightarrow> rat" where
  "max_backoff base n = base * (2 ^ n - 1) + of_nat n * (base / 2)"

lemma delay_bounds: "0 \<le> base \<Longrightarrow> 0 \<le> u \<Longrightarrow> u \<le> 1 \<Longrightarrow>
    base * 2 ^ a \<le> delay base a u \<and> delay base a u \<le> base * 2 ^ a + base / 2"
  using mult_right_mono [of u 1 "base / 2"] by (simp add: delay_def)

text \<open>
  What the loop does to two measures of the state: the number of calls of \<open>fn\<close> and the time
  asleep. Only \<open>fn\<close> raises the first, by one each call, and only \<open>sleep\<close> the second.
\<close>

definition observed :: "('w \<Rightarrow> nat) \<Rightarrow> ('w \<Rightarrow> rat) \<Rightarrow> ('w \<Rightarrow> (send_error + 'a) \<times> 'w) \<Rightarrow> (rat \<Rightarrow> 'w \<Rightarrow> 'w) \<Rightarrow> ('w \<Rightarrow> rat \<times> 'w) \<Rightarrow> bool" where
  "observed calls slept fn sleep rng =
     (\<forall>w. calls (snd (fn w)) = calls w + 1 \<and> slept (snd (fn w)) = slept w \<and>
        calls (snd (rng w)) = calls w \<and> slept (snd (rng w)) = slept w \<and> 0 \<le> fst (rng w) \<and> fst (rng w) \<le> 1 \<and>
        (\<forall>d. calls (sleep d w) = calls w \<and> slept (sleep d w) = slept w + d))"

lemma backoff_from_bounds:
  assumes obs: "observed calls slept fn sleep rng" and base: "0 \<le> bo_base b"
  shows "int attempt \<le> bo_retries b \<Longrightarrow> backoff_from b retry_on fn sleep rng attempt w = ((used_up, out), w') \<Longrightarrow>
    \<exists>k. int (attempt + k) \<le> bo_retries b \<and> calls w' = calls w + k + 1 \<and>
      slept w + bo_base b * (2 ^ (attempt + k) - 2 ^ attempt) \<le> slept w' \<and>
      slept w' \<le> slept w + bo_base b * (2 ^ (attempt + k) - 2 ^ attempt) + of_nat k * (bo_base b / 2) \<and>
      (used_up \<longrightarrow> int (attempt + k) = bo_retries b \<and> (\<exists>e. out = Inl e \<and> retry_on e)) \<and>
      (\<not> used_up \<longrightarrow> (\<forall>e. out = Inl e \<longrightarrow> \<not> retry_on e))"
proof (induction "nat (bo_retries b - int attempt)" arbitrary: attempt w)
  case 0
  obtain x w1 where fn: "fn w = (x, w1)" by (cases "fn w")
  have "calls w1 = calls w + 1" "slept w1 = slept w" using obs fn unfolding observed_def by (metis snd_conv)+
  moreover have "int attempt = bo_retries b" using 0 by simp
  ultimately show ?case using 0(3) fn
    by (intro exI [of _ 0]) (subst (asm) backoff_from.simps, auto split: sum.splits if_splits)
next
  case (Suc n)
  obtain x w1 where fn: "fn w = (x, w1)" by (cases "fn w")
  have 1: "calls w1 = calls w + 1" "slept w1 = slept w" using obs fn unfolding observed_def by (metis snd_conv)+
  show ?case
  proof (cases "\<exists>e. x = Inl e \<and> retry_on e")
    case False
    with Suc.prems fn 1 show ?thesis
      by (intro exI [of _ 0]) (subst (asm) backoff_from.simps, auto split: sum.splits if_splits)
  next
    case True
    then obtain e where e: "x = Inl e" "retry_on e" by blast
    obtain u w2 where rng: "rng w1 = (u, w2)" by (cases "rng w1")
    let ?d = "delay (bo_base b) attempt u"
    have 2: "calls w2 = calls w1" "slept w2 = slept w1" and u: "0 \<le> u" "u \<le> 1"
      using obs rng unfolding observed_def by (metis snd_conv fst_conv)+
    have 3: "calls (sleep ?d w2) = calls w + 1" "slept (sleep ?d w2) = slept w + ?d"
      using obs 1 2 unfolding observed_def by metis+
    have less: "int attempt < bo_retries b" using Suc.hyps(2) by simp
    with Suc.prems(2) fn e rng have run: "backoff_from b retry_on fn sleep rng (Suc attempt) (sleep ?d w2) = ((used_up, out), w')"
      by (subst (asm) backoff_from.simps) simp
    have "n = nat (bo_retries b - int (Suc attempt))" "int (Suc attempt) \<le> bo_retries b" using Suc.hyps(2) less by simp_all
    from Suc.hyps(1) [OF this run] obtain k where k: "int (Suc attempt + k) \<le> bo_retries b"
      "calls w' = calls (sleep ?d w2) + k + 1"
      "slept (sleep ?d w2) + bo_base b * (2 ^ (Suc attempt + k) - 2 ^ Suc attempt) \<le> slept w'"
      "slept w' \<le> slept (sleep ?d w2) + bo_base b * (2 ^ (Suc attempt + k) - 2 ^ Suc attempt) + of_nat k * (bo_base b / 2)"
      "used_up \<longrightarrow> int (Suc attempt + k) = bo_retries b \<and> (\<exists>e. out = Inl e \<and> retry_on e)"
      "\<not> used_up \<longrightarrow> (\<forall>e. out = Inl e \<longrightarrow> \<not> retry_on e)" by blast
    with delay_bounds [OF base u, of attempt] 3 show ?thesis
      by (intro exI [of _ "Suc k"]) (auto simp: algebra_simps add_divide_distrib)
  qed
qed

text \<open>The retry wrapper calls the function at most \<open>max_retries + 1\<close> times and sleeps at most
  \<open>base * (2^max_retries - 1)\<close> and half a base per retry; it gives up only after exactly
  \<open>max_retries + 1\<close> calls, with the last error, and an error it does not retry ends it at once.\<close>

theorem backoff_bounded:
  assumes "backoff_init base retries = Inr b" and "observed calls slept fn sleep rng"
    and "backoff_from b retry_on fn sleep rng 0 w = ((used_up, out), w')"
  shows "calls w' \<le> calls w + nat retries + 1 \<and> slept w' - slept w \<le> max_backoff base (nat retries) \<and>
    (used_up \<longrightarrow> calls w' = calls w + nat retries + 1 \<and> (\<exists>e. out = Inl e \<and> retry_on e) \<and>
       base * (2 ^ nat retries - 1) \<le> slept w' - slept w) \<and>
    (\<not> used_up \<longrightarrow> (\<forall>e. out = Inl e \<longrightarrow> \<not> retry_on e))"
proof -
  from assms(1) have b: "b = \<lparr>bo_base = base, bo_retries = retries\<rparr>" and base: "0 \<le> base" and r: "0 \<le> retries"
    by (auto simp: backoff_init_def split: if_splits)
  from backoff_from_bounds [OF assms(2) _ _ assms(3)] base r obtain k where k: "int k \<le> retries"
    "calls w' = calls w + k + 1" "slept w + base * (2 ^ k - 1) \<le> slept w'"
    "slept w' \<le> slept w + base * (2 ^ k - 1) + of_nat k * (base / 2)"
    "used_up \<longrightarrow> int k = retries \<and> (\<exists>e. out = Inl e \<and> retry_on e)"
    "\<not> used_up \<longrightarrow> (\<forall>e. out = Inl e \<longrightarrow> \<not> retry_on e)"
    by (auto simp: b)
  have le: "k \<le> nat retries" using k(1) by simp
  have "base * (2 ^ k - 1) \<le> base * (2 ^ nat retries - 1)"
    using power_increasing [OF le, of "2::rat"] base by (intro mult_left_mono) simp_all
  moreover have "of_nat k * (base / 2) \<le> of_nat (nat retries) * (base / 2)"
    using le base by (intro mult_right_mono) simp_all
  ultimately have "slept w' - slept w \<le> max_backoff base (nat retries)"
    using k(4) unfolding max_backoff_def by linarith
  with k le show ?thesis by auto
qed

definition demo_busy :: "nat \<times> rat \<Rightarrow> (send_error + unit) \<times> (nat \<times> rat)" where
  "demo_busy w = (Inl (RateLimited ''429''), (fst w + 1, snd w))"

theorem backoff_bounded_witness:
  "\<exists>w'. backoff_from \<lparr>bo_base = 1, bo_retries = 2\<rparr> rate_limited demo_busy (\<lambda>d w. (fst w, snd w + d)) (\<lambda>w. (1 / 2, w)) 0 (0, 0)
     = ((True, Inl (RateLimited ''429'')), w') \<and> fst w' = 3 \<and> 3 \<le> snd w' \<and> snd w' \<le> 4"
proof -
  let ?run = "backoff_from \<lparr>bo_base = 1, bo_retries = 2\<rparr> rate_limited demo_busy (\<lambda>d w. (fst w, snd w + d)) (\<lambda>w. (1 / 2, w)) 0 (0, 0)"
  have obs: "observed fst snd demo_busy (\<lambda>d w. (fst w, snd w + d)) (\<lambda>w. (1 / 2, w))"
    by (simp add: observed_def demo_busy_def)
  have init: "backoff_init 1 2 = Inr \<lparr>bo_base = 1, bo_retries = 2\<rparr>" by (simp add: backoff_init_def)
  obtain w' where run: "?run = ((True, Inl (RateLimited ''429'')), w')"
    by (simp add: backoff_from.simps demo_busy_def rate_limited_def)
  from backoff_bounded [OF init obs run] run show ?thesis by (simp add: max_backoff_def)
qed

subsection \<open>One audit per throttle session\<close>

lemma setting_positive: "(0::int) < fallback \<Longrightarrow> 0 < setting environ key parse ((<) 0) fallback"
  by (simp add: setting_def split: option.splits)

lemma resolve_rate_positive: "0 < resolve_rate_per_min environ upper tenant"
  by (simp add: resolve_rate_per_min_def Let_def DEFAULT_RATE_PER_MIN_def setting_positive split: option.splits)

text \<open>
  What the audit depends on: a count kept in the state beside the limiters, which only the
  emitter raises, and whether the session of the key is marked.
\<close>

definition audit_view :: "('x \<Rightarrow> nat) \<Rightarrow> string \<Rightarrow> 'x world_scheme \<Rightarrow> nat \<times> bool" where
  "audit_view audits key w = (audits (world.more w), key \<in> w_sessions w)"

definition unobserved :: "('w \<Rightarrow> 'o) \<Rightarrow> ('w \<Rightarrow> 'b \<times> 'w) \<Rightarrow> bool" where
  "unobserved view f = (\<forall>w. view (snd (f w)) = view w)"

lemma view_set_limiter [simp]: "audit_view audits key (set_limiter r l w) = audit_view audits key w"
  by (simp add: audit_view_def set_limiter_def)

lemma view_acquire_loop:
  assumes ret: "acquire_loop sleep r i deadline w = Some res" and quiet: "\<And>d w. audit_view audits key (sleep d w) = audit_view audits key w"
  shows "audit_view audits key (snd res) = audit_view audits key w"
proof -
  have "(\<forall>d w. audit_view audits key (sleep d w) = audit_view audits key w) \<longrightarrow>
    audit_view audits key (snd res) = audit_view audits key w"
  proof (rule acquire_loop.raw_induct [where P = "\<lambda>sleep r i deadline w res.
      (\<forall>d w. audit_view audits key (sleep d w) = audit_view audits key w) \<longrightarrow>
        audit_view audits key (snd res) = audit_view audits key w", OF _ ret])
    fix loop and sleep :: "rat \<Rightarrow> 'a world_scheme \<Rightarrow> 'a world_scheme" and r i deadline w res
    assume IH: "\<And>sleep r i deadline w res. loop sleep r i deadline w = Some res \<Longrightarrow>
        (\<forall>d w. audit_view audits key (sleep d w) = audit_view audits key w) \<longrightarrow>
        audit_view audits key (snd res) = audit_view audits key w"
      and step: "(let (ok, l) = limiter_take (w_now w) i (limiter_of r w); w1 = set_limiter r l w;
          wait = wait_for_token (li_heap l ! i)
        in if ok then Some (Inr (), w1)
           else case deadline of
             None \<Rightarrow> loop sleep r i deadline (sleep (wait + 1 / 1000) w1)
           | Some (d, msg) \<Rightarrow>
               if d - w_now w1 \<le> 0 then Some (Inl (RateLimitTimeout msg), w1)
               else loop sleep r i deadline (sleep (min wait (d - w_now w1) + 1 / 1000) w1)) = Some res"
    show "(\<forall>d w. audit_view audits key (sleep d w) = audit_view audits key w) \<longrightarrow>
        audit_view audits key (snd res) = audit_view audits key w"
      using step by (auto simp: Let_def split: prod.splits if_splits option.splits dest!: IH)
  qed
  with quiet show ?thesis by blast
qed

lemma view_acquire:
  assumes "acquire E sleep r key' max_wait w = Some (out, w')" and "\<And>d w. audit_view audits key (sleep d w) = audit_view audits key w"
  shows "audit_view audits key w' = audit_view audits key w"
  using assms(1) view_acquire_loop [OF _ assms(2)] by (fastforce simp: acquire_def Let_def split: prod.splits)

lemma backoff_from_view:
  assumes "unobserved view fn" "unobserved view rng" "\<And>d w. view (sleep d w) = view w"
  shows "backoff_from b retry_on fn sleep rng attempt w = ((used_up, out), w') \<Longrightarrow>
    view w' = view w \<and> (if used_up then \<exists>e. out = Inl e \<and> retry_on e else \<forall>e. out = Inl e \<longrightarrow> \<not> retry_on e)"
  using assms
proof (induction b retry_on fn sleep rng attempt w rule: backoff_from.induct)
  case (1 b retry_on fn sleep rng attempt w)
  obtain x w1 where fn: "fn w = (x, w1)" by (cases "fn w")
  obtain u w2 where rng: "rng w1 = (u, w2)" by (cases "rng w1")
  have same: "view w1 = view w" "view w2 = view w1"
    using "1.prems"(2,3) fn rng unfolding unobserved_def by (metis snd_conv)+
  show ?case
  proof (cases "\<exists>e. x = Inl e \<and> retry_on e \<and> int attempt < bo_retries b")
    case True
    then obtain e where e: "x = Inl e" "retry_on e" "\<not> bo_retries b \<le> int attempt" by auto
    have run: "backoff_from b retry_on fn sleep rng (Suc attempt) (sleep (delay (bo_base b) attempt u) w2) = ((used_up, out), w')"
      using "1.prems"(1) e fn rng by (subst (asm) backoff_from.simps) simp
    from "1.IH" [OF fn [symmetric] e(1) _ e(3) rng [symmetric] run] "1.prems"(2-4) e(2) same show ?thesis by simp
  next
    case False
    with "1.prems"(1) fn same show ?thesis
      by (subst (asm) backoff_from.simps) (auto split: sum.splits if_splits)
  qed
qed

text \<open>What a returned send does to the audit count and the session mark.\<close>

definition audit_after :: "send_error + 'a \<Rightarrow> nat \<times> bool \<Rightarrow> nat \<times> bool" where
  "audit_after out v = (case out of
       Inr x \<Rightarrow> (fst v, False)
     | Inl e \<Rightarrow> if rate_limited e then (if snd v then v else (fst v + 1, True)) else v)"

lemma view_clear [simp]: "audit_view audits key (clear_throttle_session key w) = (fst (audit_view audits key w), False)"
  by (simp add: audit_view_def clear_throttle_session_def)

text \<open>The emitter counts its calls, leaves the session alone and is not cancelled.\<close>

definition counting_emitter :: "('x \<Rightarrow> nat) \<Rightarrow> string \<Rightarrow> (pydict \<Rightarrow> ('x, unit) send) \<Rightarrow> bool" where
  "counting_emitter audits key emit = (\<forall>args w. fst (emit args w) \<noteq> Inl Cancelled \<and>
     audit_view audits key (snd (emit args w)) = (Suc (fst (audit_view audits key w)), snd (audit_view audits key w)))"

lemma on_exhausted_view:
  assumes "counting_emitter audits (sl_key c) emit" and "rate_limited e"
  shows "on_exhausted (Some emit) c e w = (Inr (), snd (on_exhausted (Some emit) c e w)) \<and>
    audit_view audits (sl_key c) (snd (on_exhausted (Some emit) c e w)) =
      audit_after (Inl e :: send_error + unit) (audit_view audits (sl_key c) w)"
proof (cases "sl_key c \<in> w_sessions w")
  case True
  with assms(2) show ?thesis
    by (simp add: on_exhausted_def mark_throttle_session_def audit_after_def audit_view_def)
next
  case False
  let ?w1 = "w\<lparr>w_sessions := insert (sl_key c) (w_sessions w)\<rparr>"
  obtain x w2 where emit: "emit (throttle_args c) ?w1 = (x, w2)" by (cases "emit (throttle_args c) ?w1")
  from assms(1) emit have "x \<noteq> Inl Cancelled"
    and "audit_view audits (sl_key c) w2 = (Suc (fst (audit_view audits (sl_key c) ?w1)), snd (audit_view audits (sl_key c) ?w1))"
    unfolding counting_emitter_def by (metis fst_conv snd_conv)+
  with False assms(2) emit show ?thesis
    by (auto simp: on_exhausted_def mark_throttle_session_def audit_after_def audit_view_def
        split: sum.splits send_error.splits)
qed

lemma backoff_call_view:
  assumes emit: "counting_emitter audits (sl_key c) emit"
    and fn: "unobserved (audit_view audits (sl_key c)) fn" and rng: "unobserved (audit_view audits (sl_key c)) rng"
    and sleep: "\<And>d w. audit_view audits (sl_key c) (sleep d w) = audit_view audits (sl_key c) w"
    and run: "backoff_call b rate_limited fn sleep rng (Some (on_exhausted (Some emit) c)) w = (out, w')"
  shows "audit_view audits (sl_key c) w' =
    (case out of Inr x \<Rightarrow> audit_view audits (sl_key c) w | Inl e \<Rightarrow> audit_after out (audit_view audits (sl_key c) w))"
proof -
  obtain used_up out1 w1 where loop: "backoff_from b rate_limited fn sleep rng 0 w = ((used_up, out1), w1)"
    by (cases "backoff_from b rate_limited fn sleep rng 0 w") auto
  from backoff_from_view [OF fn rng sleep loop]
  have v: "audit_view audits (sl_key c) w1 = audit_view audits (sl_key c) w"
    and kind: "if used_up then \<exists>e. out1 = Inl e \<and> rate_limited e else \<forall>e. out1 = Inl e \<longrightarrow> \<not> rate_limited e" by auto
  show ?thesis
  proof (cases used_up)
    case True
    with kind obtain e where e: "out1 = Inl e" "rate_limited e" by auto
    from on_exhausted_view [OF emit e(2), of w1] obtain w2 where
      h: "on_exhausted (Some emit) c e w1 = (Inr (), w2)"
        "audit_view audits (sl_key c) w2 = audit_after (Inl e :: send_error + unit) (audit_view audits (sl_key c) w1)" by metis
    from run loop True e h(1) have "out = Inl e" "w' = w2" by (simp_all add: backoff_call_def)
    with h(2) v show ?thesis by (simp add: audit_after_def)
  next
    case False
    with run loop have "out = out1" "w' = w1" by (simp_all add: backoff_call_def)
    with kind False v show ?thesis by (simp add: audit_after_def split: sum.splits)
  qed
qed

lemma get_limiter_for_rate_ok:
  assumes "0 < r" and "\<And>l. map_of (w_limiters w) r = Some l \<Longrightarrow> limiter_inv (w_now w) l"
  shows "\<exists>w1. get_limiter_for_rate r w = (Inr (), w1) \<and> limiter_inv (w_now w1) (limiter_of r w1) \<and>
    audit_view audits key w1 = audit_view audits key w"
proof (cases "map_of (w_limiters w) r")
  case None
  obtain l where l: "limiter_init r = Inr l" using assms(1) by (simp add: limiter_init_def)
  with None limiter_inv_init [OF l] show ?thesis by (simp add: get_limiter_for_rate_def)
next
  case (Some l)
  with assms(2) show ?thesis by (simp add: get_limiter_for_rate_def limiter_of_def)
qed

text \<open>A rate limited send with a wait budget returns, and a persistent throttle is audited once: a
  send that gives up emits the audit unless the session of its number is marked, and marks it; a
  send that succeeds ends the session; one that fails otherwise or times out changes neither.\<close>

theorem throttle_audited_once:
  fixes w :: "'x world_scheme" and fn :: "('x, 'a) send"
  assumes cfg: "with_whatsapp_rate_limit environ upper str_to_float tenant phone base_s max_retries (Some m) = Inr c"
    and emit: "counting_emitter audits (sl_key c) emit"
    and fn: "unobserved (audit_view audits (sl_key c)) fn" and rng: "unobserved (audit_view audits (sl_key c)) rng"
    and sleep: "\<And>d w. audit_view audits (sl_key c) (sleep d w) = audit_view audits (sl_key c) w"
    and others: "sleeps (sl_rate c) sleep"
    and inv: "\<And>l. map_of (w_limiters w) (sl_rate c) = Some l \<Longrightarrow> limiter_inv (w_now w) l"
  shows "\<exists>out w'. limited_send E sleep rng (Some emit) c fn w = Some (out, w') \<and>
    audit_view audits (sl_key c) w' = audit_after out (audit_view audits (sl_key c) w)"
proof -
  from cfg have rate: "0 < sl_rate c" and wait: "sl_max_wait c = Some m"
    by (auto simp: with_whatsapp_rate_limit_def backoff_init_def resolve_rate_positive split: if_splits)
  from get_limiter_for_rate_ok [OF rate inv, of audits "sl_key c"] obtain w1 where
    get: "get_limiter_for_rate (sl_rate c) w = (Inr (), w1)" and inv1: "limiter_inv (w_now w1) (limiter_of (sl_rate c) w1)"
    and v1: "audit_view audits (sl_key c) w1 = audit_view audits (sl_key c) w" by blast
  from acquire_returns_in_time [OF others inv1, of E "sl_key c" m] obtain got w2 where
    acq: "acquire E sleep (sl_rate c) (sl_key c) (Some m) w1 = Some (got, w2)"
    and gots: "got = Inr () \<or> got = Inl (RateLimitTimeout (timeout_text E (sl_key c) m))" by blast
  have v2: "audit_view audits (sl_key c) w2 = audit_view audits (sl_key c) w"
    using view_acquire [OF acq sleep] v1 by simp
  show ?thesis
  proof (cases got)
    case (Inl e)
    with gots get acq wait v2 show ?thesis
      by (auto simp: limited_send_def audit_after_def rate_limited_def)
  next
    case (Inr u)
    obtain out w3 where call: "backoff_call (sl_backoff c) rate_limited fn sleep rng (Some (on_exhausted (Some emit) c)) w2 = (out, w3)"
      by (cases "backoff_call (sl_backoff c) rate_limited fn sleep rng (Some (on_exhausted (Some emit) c)) w2")
    from backoff_call_view [OF emit fn rng sleep call] v2 get acq wait call Inr show ?thesis
      by (cases out) (simp_all add: limited_send_def audit_after_def)
  qed
qed

definition demo_audited :: "nat world_scheme" where
  "demo_audited = \<lparr>w_now = 0, w_limiters = [], w_sessions = {}, \<dots> = 0\<rparr>"

definition demo_emit :: "pydict \<Rightarrow> (nat, unit) send" where
  "demo_emit args w = (Inr (), w\<lparr>world.more := Suc (world.more w)\<rparr>)"

definition demo_throttled :: "(nat, unit) send" where
  "demo_throttled w = (Inl (RateLimited ''429''), w)"

theorem throttle_audited_once_witness:
  "\<exists>c out w'. with_whatsapp_rate_limit (\<lambda>_. None) id (\<lambda>_. None) None ''1'' None (Some 1) (Some 3) = Inr c \<and>
     limited_send demo_env quiet_sleep (\<lambda>w. (0, w)) (Some demo_emit) c demo_throttled demo_audited = Some (out, w') \<and>
     audit_view id (sl_key c) w' = audit_after out (0, False)"
proof -
  obtain c where c: "with_whatsapp_rate_limit (\<lambda>_. None) id (\<lambda>_. None) None ''1'' None (Some 1) (Some 3) = Inr c"
    by (simp add: with_whatsapp_rate_limit_def backoff_init_def resolve_backoff_base_def setting_def DEFAULT_BACKOFF_BASE_S_def)
  have "counting_emitter id (sl_key c) demo_emit"
    by (simp add: counting_emitter_def demo_emit_def audit_view_def)
  moreover have "unobserved (audit_view id (sl_key c)) demo_throttled" "unobserved (audit_view id (sl_key c)) (\<lambda>w. (0, w))"
    "audit_view id (sl_key c) (quiet_sleep d w) = audit_view id (sl_key c) w" for d w
    by (simp_all add: unobserved_def demo_throttled_def quiet_sleep_def audit_view_def)
  moreover have "limiter_inv (w_now demo_audited) l" if "map_of (w_limiters demo_audited) (sl_rate c) = Some l" for l
    using that by (simp add: demo_audited_def)
  ultimately obtain out w' where
    "limited_send demo_env quiet_sleep (\<lambda>w. (0, w)) (Some demo_emit) c demo_throttled demo_audited = Some (out, w')"
    "audit_view id (sl_key c) w' = audit_after out (audit_view id (sl_key c) demo_audited)"
    using throttle_audited_once [OF c _ _ _ _ quiet_sleep_sleeps, where E = demo_env and audits = id and emit = demo_emit
        and fn = demo_throttled and rng = "\<lambda>w. (0, w)" and w = demo_audited] by blast
  moreover have "audit_view id (sl_key c) demo_audited = (0, False)" by (simp add: audit_view_def demo_audited_def)
  ultimately show ?thesis using c by auto
qed

end
