(* ===== verification/Reactivity_Rules.thy ===== *)
theory Reactivity_Rules
  imports Gate_Writes Demo_Environment
begin

section \<open>Predicates and conditions of reactivities (\<open>wormbase_reactivities\<close>)\<close>

text \<open>
  A predicate says whether a ledger row concerns a reactivity, a condition whether it may fire
  now. Both are built from a few primitives with \<open>&\<close>, \<open>|\<close> and \<open>~\<close>; one written elsewhere is
  a function. A result \<open>Inl\<close> is an exception, which the registry logs.
\<close>

subsection \<open>Predicates (\<open>predicates.py\<close>)\<close>

datatype predicate =
    EntryKind string
  | HasTopic
  | HasDomain
  | HasOwner
  | SpeakerNotOwner
  | ResolvedKept
  | PeriodicTick int
  | PAnd "predicate list"
  | POr "predicate list"
  | PNot predicate
  | POther "entry \<Rightarrow> exc + bool"

definition pred_and :: "predicate \<Rightarrow> predicate \<Rightarrow> predicate" where
  "pred_and p q = PAnd [p, q]"

definition pred_or :: "predicate \<Rightarrow> predicate \<Rightarrow> predicate" where
  "pred_or p q = POr [p, q]"

definition pred_invert :: "predicate \<Rightarrow> predicate" where
  "pred_invert p = PNot p"

definition entry_kind_match :: "string \<Rightarrow> entry \<Rightarrow> exc + bool" where
  "entry_kind_match kind e =
     (if e_kind e = kind then Inr True
      else if e_kind e \<noteq> ''execute'' then Inr False
      else let tool = dget (e_payload e) ''tool''
      in if \<not> truthy tool then Inr False
      else if tool = PStr kind then Inr True
      else rbind (py_endswith tool (''.emit_'' @ kind)) (\<lambda>b.
        Inr (b \<or> tool = PStr (''emit_'' @ kind))))"

text \<open>The common guard: only execute rows, and the arguments or an empty dictionary.\<close>

definition args_match :: "(pyval \<Rightarrow> exc + bool) \<Rightarrow> entry \<Rightarrow> exc + bool" where
  "args_match check e =
     (if e_kind e \<noteq> ''execute'' then Inr False
      else check (py_or (dget (e_payload e) ''args'') (PDict [])))"

text \<open>\<open>args.get(k1) or args.get(k2) or \<dots>\<close>: the first true value, else the last.\<close>

fun get_first :: "pyval \<Rightarrow> string list \<Rightarrow> exc + pyval" where
  "get_first args [] = Inr PNone"
| "get_first args [k] = vget args k"
| "get_first args (k # l # ks) = rbind (vget args k) (\<lambda>v. if truthy v then Inr v else get_first args (l # ks))"

definition has_topic_check :: "pyval \<Rightarrow> exc + bool" where
  "has_topic_check args = rbind (get_first args [''topic'', ''topic_id'', ''topic_kind'']) (\<lambda>v. Inr (truthy v))"

definition has_domain_check :: "pyval \<Rightarrow> exc + bool" where
  "has_domain_check args = rbind (get_first args [''domain'', ''domain_id'']) (\<lambda>v. Inr (truthy v))"

definition OWNER_KEYS :: "string list" where
  "OWNER_KEYS = [''owner_id'', ''owner_person'', ''owner_person_id'']"

definition has_owner_check :: "pyval \<Rightarrow> exc + bool" where
  "has_owner_check args = rbind (get_first args OWNER_KEYS) (\<lambda>v. Inr (truthy v))"

definition speaker_not_owner_check :: "env \<Rightarrow> pyval \<Rightarrow> exc + bool" where
  "speaker_not_owner_check E args =
     rbind (get_first args [''sender_person'', ''sender_person_id'']) (\<lambda>sender.
     rbind (get_first args OWNER_KEYS) (\<lambda>owner.
       if \<not> truthy sender \<or> \<not> truthy owner then Inr False
       else Inr (py_str E sender \<noteq> py_str E owner)))"

definition resolved_kept_match :: "entry \<Rightarrow> exc + bool" where
  "resolved_kept_match e =
     rbind (entry_kind_match ''experiment_resolved'' e) (\<lambda>b.
       if \<not> b then Inr False
       else args_match (\<lambda>args. rbind (vget args ''outcome'') (\<lambda>v. Inr (v = PStr ''keep''))) e)"

definition periodic_match :: "int \<Rightarrow> entry \<Rightarrow> exc + bool" where
  "periodic_match every e =
     (if e_kind e \<noteq> ''execute'' then Inr False
      else if dget (e_payload e) ''tool'' \<noteq> PStr ''emit_clock_tick'' then Inr False
      else case py_or (dget (e_payload e) ''args'') (PDict []) of
        PDict args \<Rightarrow> Inr (py_int_of (dget_or args ''tick_interval_s'' (PInt (-1))) = Some every)
      | _ \<Rightarrow> Inr False)"

fun pred_match :: "env \<Rightarrow> predicate \<Rightarrow> entry \<Rightarrow> exc + bool"
  and pred_all :: "env \<Rightarrow> predicate list \<Rightarrow> entry \<Rightarrow> exc + bool"
  and pred_any :: "env \<Rightarrow> predicate list \<Rightarrow> entry \<Rightarrow> exc + bool" where
  "pred_match E (EntryKind kind) e = entry_kind_match kind e"
| "pred_match E HasTopic e = args_match has_topic_check e"
| "pred_match E HasDomain e = args_match has_domain_check e"
| "pred_match E HasOwner e = args_match has_owner_check e"
| "pred_match E SpeakerNotOwner e = args_match (speaker_not_owner_check E) e"
| "pred_match E ResolvedKept e = resolved_kept_match e"
| "pred_match E (PeriodicTick every) e = periodic_match every e"
| "pred_match E (PAnd ps) e = pred_all E ps e"
| "pred_match E (POr ps) e = pred_any E ps e"
| "pred_match E (PNot p) e = rbind (pred_match E p e) (\<lambda>b. Inr (\<not> b))"
| "pred_match E (POther f) e = f e"
| "pred_all E [] e = Inr True"
| "pred_all E (p # ps) e = rbind (pred_match E p e) (\<lambda>b. if b then pred_all E ps e else Inr False)"
| "pred_any E [] e = Inr False"
| "pred_any E (p # ps) e = rbind (pred_match E p e) (\<lambda>b. if b then Inr True else pred_any E ps e)"

subsection \<open>The state conditions read (\<open>registry.py\<close>)\<close>

text \<open>
  Budgets by (reactivity, axis, key, day), the last fire by (reactivity, novelty key) and the
  disabled domains. A context without a registry has \<open>None\<close>.
\<close>

record fire_store =
  fs_budgets :: "(string \<times> string \<times> string \<times> string) \<Rightarrow> int option"
  fs_fires :: "(string \<times> string) \<Rightarrow> int option"
  fs_disabled :: "string set"

definition fire_store_empty :: fire_store where
  "fire_store_empty = \<lparr>fs_budgets = (\<lambda>_. None), fs_fires = (\<lambda>_. None), fs_disabled = {}\<rparr>"

definition get_budget_count :: "fire_store \<Rightarrow> string \<Rightarrow> string \<Rightarrow> string \<Rightarrow> string \<Rightarrow> int" where
  "get_budget_count r rid axis key day = (case fs_budgets r (rid, axis, key, day) of None \<Rightarrow> 0 | Some n \<Rightarrow> n)"

definition get_last_fired_at :: "fire_store \<Rightarrow> string \<Rightarrow> string \<Rightarrow> int option" where
  "get_last_fired_at r rid key = fs_fires r (rid, key)"

definition is_domain_enabled :: "fire_store \<Rightarrow> string \<Rightarrow> bool" where
  "is_domain_enabled r d = (d \<notin> fs_disabled r)"

definition disable_domain :: "string \<Rightarrow> fire_store \<Rightarrow> fire_store" where
  "disable_domain d r = r\<lparr>fs_disabled := insert d (fs_disabled r)\<rparr>"

definition enable_domain :: "string \<Rightarrow> fire_store \<Rightarrow> fire_store" where
  "enable_domain d r = r\<lparr>fs_disabled := fs_disabled r - {d}\<rparr>"

definition inc_budget :: "string \<Rightarrow> string \<Rightarrow> string \<Rightarrow> string \<Rightarrow> int \<Rightarrow> fire_store \<Rightarrow> fire_store" where
  "inc_budget rid axis key day by r =
     r\<lparr>fs_budgets := (fs_budgets r)((rid, axis, key, day) \<mapsto> get_budget_count r rid axis key day + by)\<rparr>"

definition record_fire :: "string \<Rightarrow> string \<Rightarrow> int \<Rightarrow> fire_store \<Rightarrow> fire_store" where
  "record_fire rid key now r = (if key \<noteq> [] then r\<lparr>fs_fires := (fs_fires r)((rid, key) \<mapsto> now)\<rparr> else r)"

record rx_context =
  cx_registry :: "fire_store option"
  cx_company :: uuid
  cx_now :: int
  cx_reactivity :: "string option"
  cx_novelty :: "string option"

subsection \<open>Conditions (\<open>conditions.py\<close>)\<close>

definition entry_id_of :: "env \<Rightarrow> string list \<Rightarrow> entry \<Rightarrow> exc + string option" where
  "entry_id_of E keys e =
     rbind (get_first (py_or (dget (e_payload e) ''args'') (PDict [])) keys) (\<lambda>v.
       Inr (if truthy v then Some (py_str E v) else None))"

definition entry_owner_id :: "env \<Rightarrow> entry \<Rightarrow> exc + string option" where
  "entry_owner_id E e = entry_id_of E OWNER_KEYS e"

definition entry_domain_id :: "env \<Rightarrow> entry \<Rightarrow> exc + string option" where
  "entry_domain_id E e = entry_id_of E [''domain_id'', ''domain''] e"

definition day_of :: "int \<Rightarrow> string" where
  "day_of now = take 10 (isoformat now)"

datatype condition =
    DailyBudget "int option" "int option" "int option"
  | NotRecentlyFired string rat
  | PeriodicGate int string
  | DomainEnabled
  | LiveOnly
  | AlwaysAllow
  | CAnd "condition list"
  | COr "condition list"
  | CNot condition
  | COther "rx_context \<Rightarrow> entry \<Rightarrow> exc + bool"

definition cond_and :: "condition \<Rightarrow> condition \<Rightarrow> condition" where
  "cond_and p q = CAnd [p, q]"

definition cond_or :: "condition \<Rightarrow> condition \<Rightarrow> condition" where
  "cond_or p q = COr [p, q]"

definition cond_invert :: "condition \<Rightarrow> condition" where
  "cond_invert p = CNot p"

text \<open>One axis of the budget: skipped when the entry has no such key or the axis no cap.\<close>

definition under_cap :: "fire_store \<Rightarrow> string \<Rightarrow> string \<Rightarrow> string option \<Rightarrow> string \<Rightarrow> int option \<Rightarrow> bool" where
  "under_cap r rid axis key day cap =
     (case key of None \<Rightarrow> True
      | Some k \<Rightarrow> (case cap of None \<Rightarrow> True | Some n \<Rightarrow> get_budget_count r rid axis k day < n))"

definition daily_budget_allows :: "env \<Rightarrow> int option \<Rightarrow> int option \<Rightarrow> int option \<Rightarrow> rx_context \<Rightarrow> entry \<Rightarrow> exc + bool" where
  "daily_budget_allows E per_owner per_domain per_tenant cx e =
     (case cx_registry cx of
        None \<Rightarrow> Inr True
      | Some r \<Rightarrow>
          (case cx_reactivity cx of
             None \<Rightarrow> Inr False
           | Some rid \<Rightarrow>
               if rid = [] then Inr False
               else let day = day_of (cx_now cx) in
                 rbind (entry_owner_id E e) (\<lambda>owner.
                   if \<not> under_cap r rid ''owner'' owner day per_owner then Inr False
                   else rbind (entry_domain_id E e) (\<lambda>domain.
                     if \<not> under_cap r rid ''domain'' domain day per_domain then Inr False
                     else Inr (under_cap r rid ''tenant'' (Some (cx_company cx)) day per_tenant)))))"

text \<open>\<open>timedelta(hours=h)\<close> in microseconds, and \<open>int(t.timestamp())\<close>.\<close>

definition hours_us :: "rat \<Rightarrow> int" where
  "hours_us h = round_half_even (h * 3600000000)"

definition whole_seconds :: "int \<Rightarrow> int" where
  "whole_seconds t = trunc (of_int t / 1000000)"

text \<open>The last fire under the novelty key: the key of the context if set, else that of the condition.\<close>

definition novelty_gate :: "(int \<Rightarrow> bool) \<Rightarrow> string \<Rightarrow> rx_context \<Rightarrow> exc + bool" where
  "novelty_gate ok literal cx =
     (case cx_registry cx of
        None \<Rightarrow> Inr True
      | Some r \<Rightarrow>
          (case cx_reactivity cx of
             None \<Rightarrow> Inr False
           | Some rid \<Rightarrow>
               if rid = [] then Inr False
               else let key = (case cx_novelty cx of None \<Rightarrow> literal | Some k \<Rightarrow> k)
               in if key = [] then Inr True
               else case get_last_fired_at r rid key of None \<Rightarrow> Inr True | Some last_fired \<Rightarrow> Inr (ok last_fired)))"

definition not_recently_fired_allows :: "string \<Rightarrow> rat \<Rightarrow> rx_context \<Rightarrow> exc + bool" where
  "not_recently_fired_allows literal hours cx =
     novelty_gate (\<lambda>last_fired. last_fired < cx_now cx - hours_us hours) literal cx"

definition periodic_allows :: "int \<Rightarrow> string \<Rightarrow> rx_context \<Rightarrow> exc + bool" where
  "periodic_allows period_seconds literal cx =
     novelty_gate (\<lambda>last_fired. let period = max period_seconds 1
       in whole_seconds last_fired div period < whole_seconds (cx_now cx) div period) literal cx"

definition domain_enabled_allows :: "env \<Rightarrow> rx_context \<Rightarrow> entry \<Rightarrow> exc + bool" where
  "domain_enabled_allows E cx e =
     (case cx_registry cx of
        None \<Rightarrow> Inr True
      | Some r \<Rightarrow> rbind (entry_domain_id E e) (\<lambda>d.
          Inr (case d of None \<Rightarrow> True | Some k \<Rightarrow> is_domain_enabled r k)))"

text \<open>
  The environment variables, \<open>float(s)\<close> and \<open>datetime.fromisoformat(s)\<close>, \<open>None\<close> where they raise.
\<close>

record rx_lib =
  rl_environ :: "string \<Rightarrow> string option"
  rl_float :: "string \<Rightarrow> rat option"
  rl_iso :: "string \<Rightarrow> pytime option"

definition zulu_to_offset :: "string \<Rightarrow> string" where
  "zulu_to_offset s = concat (map (\<lambda>c. if c = CHR ''Z'' then ''+00:00'' else [c]) s)"

text \<open>A naive time is taken as UTC.\<close>

definition as_utc :: "pytime \<Rightarrow> int" where
  "as_utc t = (case t of Aware u \<Rightarrow> u | Naive u \<Rightarrow> u)"

definition platform_time :: "env \<Rightarrow> rx_lib \<Rightarrow> pyval \<Rightarrow> int option" where
  "platform_time E lib v =
     (case v of PTime t \<Rightarrow> Some (as_utc t) | _ \<Rightarrow> map_option as_utc (rl_iso lib (zulu_to_offset (py_str E v))))"

definition freshness_window :: "rx_lib \<Rightarrow> rat" where
  "freshness_window lib =
     (case rl_float lib (case rl_environ lib ''WORMBASE_FRESHNESS_WINDOW_S'' of None \<Rightarrow> ''60'' | Some raw \<Rightarrow> raw) of
        None \<Rightarrow> 60 | Some x \<Rightarrow> x)"

definition live_only_allows :: "env \<Rightarrow> rx_lib \<Rightarrow> entry \<Rightarrow> exc + bool" where
  "live_only_allows E lib e =
     (case py_or (dget (e_payload e) ''args'') (PDict []) of
        PDict args \<Rightarrow>
          if dget_or args ''delivery_mode'' (PStr ''push'') \<noteq> PStr ''push'' then Inr False
          else let raw = dget args ''platform_ts''
          in if \<not> truthy raw then Inr True
          else (case platform_time E lib raw of
                  None \<Rightarrow> Inr True
                | Some pts \<Rightarrow> Inr (of_int (e_ts e - pts) / 1000000 < freshness_window lib))
      | _ \<Rightarrow> Inl AttributeError)"

fun cond_allows :: "env \<Rightarrow> rx_lib \<Rightarrow> condition \<Rightarrow> rx_context \<Rightarrow> entry \<Rightarrow> exc + bool"
  and cond_all :: "env \<Rightarrow> rx_lib \<Rightarrow> condition list \<Rightarrow> rx_context \<Rightarrow> entry \<Rightarrow> exc + bool"
  and cond_any :: "env \<Rightarrow> rx_lib \<Rightarrow> condition list \<Rightarrow> rx_context \<Rightarrow> entry \<Rightarrow> exc + bool" where
  "cond_allows E lib (DailyBudget po pd pt) cx e = daily_budget_allows E po pd pt cx e"
| "cond_allows E lib (NotRecentlyFired key hours) cx e = not_recently_fired_allows key hours cx"
| "cond_allows E lib (PeriodicGate period key) cx e = periodic_allows period key cx"
| "cond_allows E lib DomainEnabled cx e = domain_enabled_allows E cx e"
| "cond_allows E lib LiveOnly cx e = live_only_allows E lib e"
| "cond_allows E lib AlwaysAllow cx e = Inr True"
| "cond_allows E lib (CAnd cs) cx e = cond_all E lib cs cx e"
| "cond_allows E lib (COr cs) cx e = cond_any E lib cs cx e"
| "cond_allows E lib (CNot c) cx e = rbind (cond_allows E lib c cx e) (\<lambda>b. Inr (\<not> b))"
| "cond_allows E lib (COther f) cx e = f cx e"
| "cond_all E lib [] cx e = Inr True"
| "cond_all E lib (c # cs) cx e = rbind (cond_allows E lib c cx e) (\<lambda>b. if b then cond_all E lib cs cx e else Inr False)"
| "cond_any E lib [] cx e = Inr False"
| "cond_any E lib (c # cs) cx e = rbind (cond_allows E lib c cx e) (\<lambda>b. if b then Inr True else cond_any E lib cs cx e)"

lemma cond_all_member: "cond_all E lib cs cx e = Inr True \<Longrightarrow> c \<in> set cs \<Longrightarrow> cond_allows E lib c cx e = Inr True"
  by (induction cs) (auto simp: rbind_Inr_iff split: if_splits)

lemma pred_all_member: "pred_all E ps e = Inr True \<Longrightarrow> p \<in> set ps \<Longrightarrow> pred_match E p e = Inr True"
  by (induction ps) (auto simp: rbind_Inr_iff split: if_splits)

subsection \<open>What a condition depends on\<close>

text \<open>
  The part of the books that belongs to one reactivity. A condition of the library reads no
  other, so a fire of one reactivity does not change what another is allowed.
\<close>

definition same_books :: "string \<Rightarrow> fire_store \<Rightarrow> fire_store \<Rightarrow> bool" where
  "same_books rid r r' = ((\<forall>axis key day. fs_budgets r' (rid, axis, key, day) = fs_budgets r (rid, axis, key, day)) \<and>
     (\<forall>key. fs_fires r' (rid, key) = fs_fires r (rid, key)) \<and> fs_disabled r' = fs_disabled r)"

fun library_condition :: "condition \<Rightarrow> bool" where
  "library_condition (CAnd cs) = (\<forall>c\<in>set cs. library_condition c)"
| "library_condition (COr cs) = (\<forall>c\<in>set cs. library_condition c)"
| "library_condition (CNot c) = library_condition c"
| "library_condition (COther f) = False"
| "library_condition _ = True"

lemma same_books_refl [simp]: "same_books rid r r"
  by (simp add: same_books_def)

lemma same_books_trans: "same_books rid r r' \<Longrightarrow> same_books rid r' r'' \<Longrightarrow> same_books rid r r''"
  by (simp add: same_books_def)

lemma same_books_inc: "rid \<noteq> rid' \<Longrightarrow> same_books rid r (inc_budget rid' axis key day by r)"
  by (simp add: same_books_def inc_budget_def)

lemma same_books_record: "rid \<noteq> rid' \<Longrightarrow> same_books rid r (record_fire rid' key now r)"
  by (simp add: same_books_def record_fire_def)

lemma under_cap_cong: "same_books rid r r' \<Longrightarrow> under_cap r' rid axis key day cap = under_cap r rid axis key day cap"
  by (simp add: under_cap_def get_budget_count_def same_books_def split: option.splits)

lemma novelty_gate_own:
  assumes "same_books rid r r'" and "cx_registry cx = Some r" and "cx_reactivity cx = Some rid"
  shows "novelty_gate ok key (cx\<lparr>cx_registry := Some r'\<rparr>) = novelty_gate ok key cx"
proof -
  have "get_last_fired_at r' rid k = get_last_fired_at r rid k" for k
    using assms(1) by (simp add: get_last_fired_at_def same_books_def)
  with assms(2,3) show ?thesis by (simp add: novelty_gate_def Let_def cong: if_cong)
qed

lemma cond_allows_own:
  assumes same: "same_books rid r r'"
    and cx: "cx_registry cx = Some r" "cx_reactivity cx = Some rid"
  shows "library_condition c \<Longrightarrow> cond_allows E lib c (cx\<lparr>cx_registry := Some r'\<rparr>) e = cond_allows E lib c cx e"
    and "\<forall>c\<in>set cs. library_condition c \<Longrightarrow> cond_all E lib cs (cx\<lparr>cx_registry := Some r'\<rparr>) e = cond_all E lib cs cx e"
    and "\<forall>c\<in>set cs'. library_condition c \<Longrightarrow> cond_any E lib cs' (cx\<lparr>cx_registry := Some r'\<rparr>) e = cond_any E lib cs' cx e"
  using cx
proof (induction E lib c cx e and E lib cs cx e and E lib cs' cx e rule: cond_allows_cond_all_cond_any.induct)
  case (1 E lib po pd pt cx e)
  then show ?case by (simp add: daily_budget_allows_def under_cap_cong [OF same] Let_def cong: if_cong)
next
  case (2 E lib key hours cx e)
  then show ?case by (simp add: not_recently_fired_allows_def novelty_gate_own [OF same])
next
  case (3 E lib period key cx e)
  then show ?case by (simp add: periodic_allows_def novelty_gate_own [OF same])
next
  case (4 E lib cx e)
  moreover have "is_domain_enabled r' = is_domain_enabled r"
    using same by (simp add: is_domain_enabled_def same_books_def fun_eq_iff)
  ultimately show ?case by (simp add: domain_enabled_allows_def cong: option.case_cong)
next
  case (12 E lib c cs cx e)
  then show ?case by (cases "cond_allows E lib c cx e") simp_all
next
  case (14 E lib c cs cx e)
  then show ?case by (cases "cond_allows E lib c cx e") simp_all
qed simp_all

text \<open>A condition that is a conjunct of another.\<close>

fun demands :: "condition \<Rightarrow> condition \<Rightarrow> bool" where
  "demands (CAnd cs) c0 = (CAnd cs = c0 \<or> (\<exists>c\<in>set cs. demands c c0))"
| "demands c c0 = (c = c0)"

lemma demands_allows: "demands c c0 \<Longrightarrow> cond_allows E lib c cx e = Inr True \<Longrightarrow> cond_allows E lib c0 cx e = Inr True"
proof (induction c c0 rule: demands.induct)
  case (1 cs c0)
  then show ?case using cond_all_member by fastforce
qed simp_all

end
