(* ===== verification/Reactivity_Registry.thy ===== *)
theory Reactivity_Registry
  imports Reactivity_Rules
begin

section \<open>The registry of reactivities (\<open>registry.py\<close>)\<close>

text \<open>
  Lifecycle, dispatch of a ledger row to the registered reactivities, and the books kept of
  their fires. The state is the store of the ledger and the registry. The action of a
  reactivity is an argument: it may write to the ledger, and it returns what it did.
\<close>

datatype rx_state = Proposed | Active | Disabled

record fired_action =
  fa_kind :: string
  fa_seqs :: "int list"

record rx_result =
  rr_fired :: bool
  rr_actions :: "fired_action list"
  rr_novelty :: string
  rr_budget :: "(string \<times> int) list"

record 's reactivity =
  rx_id :: string
  rx_name :: string
  rx_description :: string
  rx_scope :: string
  rx_predicate :: predicate
  rx_condition :: condition
  rx_fire :: "entry \<Rightarrow> rx_context \<Rightarrow> ('s, rx_result) act"

record rx_spec =
  sp_id :: string
  sp_name :: string
  sp_description :: string
  sp_scope :: string
  sp_predicate :: pydict
  sp_condition :: pydict
  sp_action :: pydict

record 's binding =
  bd_reactivity :: "'s reactivity"
  bd_spec :: rx_spec
  bd_state :: rx_state
  bd_proposed_by :: "string option"
  bd_confirmed_by :: "uuid option"
  bd_disabled_by :: "uuid option"
  bd_disable_reason :: "string option"
  bd_last_fired :: "int option"

record 's registry =
  rg_company :: uuid
  rg_bindings :: "(string \<times> 's binding) list"
  rg_store :: fire_store

definition registry_init :: "uuid \<Rightarrow> 's registry" where
  "registry_init c = \<lparr>rg_company = c, rg_bindings = [], rg_store = fire_store_empty\<rparr>"

subsection \<open>Registration\<close>

definition spec_of :: "'s reactivity \<Rightarrow> rx_spec" where
  "spec_of r = \<lparr>sp_id = rx_id r, sp_name = rx_name r, sp_description = rx_description r, sp_scope = rx_scope r,
     sp_predicate = [], sp_condition = [], sp_action = []\<rparr>"

definition register :: "'s reactivity \<Rightarrow> rx_spec option \<Rightarrow> rx_state \<Rightarrow> 's registry \<Rightarrow> (exc + unit) \<times> 's registry" where
  "register r spec initial g =
     (if rx_id r \<in> fst ` set (rg_bindings g) then (Inl ValueError, g)
      else (Inr (), g\<lparr>rg_bindings := rg_bindings g @ [(rx_id r,
        \<lparr>bd_reactivity = r, bd_spec = (case spec of None \<Rightarrow> spec_of r | Some s \<Rightarrow> s), bd_state = initial,
         bd_proposed_by = None, bd_confirmed_by = None, bd_disabled_by = None, bd_disable_reason = None,
         bd_last_fired = None\<rparr>)]\<rparr>))"

definition unregister :: "string \<Rightarrow> 's registry \<Rightarrow> 's registry" where
  "unregister rid g = g\<lparr>rg_bindings := AList.delete rid (rg_bindings g)\<rparr>"

definition list_records :: "'s registry \<Rightarrow> 's binding list" where
  "list_records g = map snd (rg_bindings g)"

definition get_reactivity :: "'s registry \<Rightarrow> string \<Rightarrow> 's reactivity option" where
  "get_reactivity g rid = map_option bd_reactivity (map_of (rg_bindings g) rid)"

definition update_binding :: "string \<Rightarrow> ('s binding \<Rightarrow> 's binding) \<Rightarrow> 's registry \<Rightarrow> 's registry" where
  "update_binding rid f g = g\<lparr>rg_bindings := map (\<lambda>(k, b). if k = rid then (k, f b) else (k, b)) (rg_bindings g)\<rparr>"

subsection \<open>Lifecycle rows\<close>

definition pevr_req :: "uuid \<Rightarrow> string \<Rightarrow> string \<Rightarrow> string \<Rightarrow> pydict \<Rightarrow> string \<Rightarrow> int \<Rightarrow> write_req" where
  "pevr_req c target tool ref args by now =
     const_req c
       [(''target_kind'', PStr target), (''ref_id'', PStr ref), (''reason'', PStr (tool @ '' via reactivity registry'')),
        (''proposed_by'', PStr by)]
       [(''tool'', PStr tool), (''args'', PDict args), (''result_ref'', PStr ref)]
       [(''checks'', PList []), (''passed'', PBool True)]
       [(''outcome'', PStr ''keep''), (''rationale'', PStr (tool @ '' ok''))] None now ''active_deterministic''"

definition write_pevr :: "'s store \<Rightarrow> uuid \<Rightarrow> string \<Rightarrow> string \<Rightarrow> string \<Rightarrow> pydict \<Rightarrow> string \<Rightarrow> int \<Rightarrow> ('s, unit) act" where
  "write_pevr L c target tool ref args by now = sbind (st_write L (pevr_req c target tool ref args by now)) (\<lambda>_. sret ())"

type_synonym ('s, 'a) rx = "'s \<times> 's registry \<Rightarrow> (exc + 'a) \<times> ('s \<times> 's registry)"

definition on_ledger :: "('s, 'a) act \<Rightarrow> ('s, 'a) rx" where
  "on_ledger m w = (case m (fst w) of (out, s) \<Rightarrow> (out, (s, snd w)))"

definition on_registry :: "('s registry \<Rightarrow> 's registry) \<Rightarrow> ('s, unit) rx" where
  "on_registry f w = (Inr (), (fst w, f (snd w)))"

definition proposed_args :: "rx_spec \<Rightarrow> string \<Rightarrow> pydict" where
  "proposed_args sp by =
     [(''reactivity_id'', PStr (sp_id sp)), (''name'', PStr (sp_name sp)), (''description'', PStr (sp_description sp)),
      (''scope'', PStr (sp_scope sp)), (''predicate_spec'', PDict (sp_predicate sp)),
      (''condition_spec'', PDict (sp_condition sp)), (''action_spec'', PDict (sp_action sp)), (''proposed_by'', PStr by)]"

definition propose :: "'s store \<Rightarrow> int \<Rightarrow> rx_spec \<Rightarrow> string \<Rightarrow> ('s, unit) rx" where
  "propose L now sp by w =
     sbind (on_ledger (with_uuid L (\<lambda>u. write_pevr L (rg_company (snd w)) ''reactivity_proposed'' ''emit_reactivity_proposed''
         u (proposed_args sp by) by now)))
       (\<lambda>_. on_registry (update_binding (sp_id sp)
          (\<lambda>b. if bd_state b = Proposed then b\<lparr>bd_proposed_by := Some by\<rparr> else b))) w"

definition confirm :: "'s store \<Rightarrow> int \<Rightarrow> string \<Rightarrow> uuid \<Rightarrow> ('s, unit) rx" where
  "confirm L now rid by w =
     (if rid \<notin> fst ` set (rg_bindings (snd w)) then (Inl ValueError, w)
      else sbind (on_ledger (write_pevr L (rg_company (snd w)) ''reactivity_confirmed'' ''emit_reactivity_confirmed'' rid
          [(''reactivity_id'', PStr rid), (''confirmed_by'', PStr by)] by now))
        (\<lambda>_. on_registry (update_binding rid (\<lambda>b. b\<lparr>bd_state := Active, bd_confirmed_by := Some by\<rparr>))) w)"

definition disable :: "'s store \<Rightarrow> int \<Rightarrow> string \<Rightarrow> uuid \<Rightarrow> string \<Rightarrow> ('s, unit) rx" where
  "disable L now rid by reason w =
     (if rid \<notin> fst ` set (rg_bindings (snd w)) then (Inl ValueError, w)
      else sbind (on_ledger (write_pevr L (rg_company (snd w)) ''reactivity_disabled'' ''emit_reactivity_disabled'' rid
          [(''reactivity_id'', PStr rid), (''disabled_by'', PStr by), (''reason'', PStr reason)] by now))
        (\<lambda>_. on_registry (update_binding rid
           (\<lambda>b. b\<lparr>bd_state := Disabled, bd_disabled_by := Some by, bd_disable_reason := Some reason\<rparr>))) w)"

subsection \<open>Dispatch\<close>

definition budget_used :: "rx_result \<Rightarrow> string \<Rightarrow> int" where
  "budget_used res axis = (case map_of (rr_budget res) (''per_'' @ axis) of None \<Rightarrow> 1 | Some n \<Rightarrow> n)"

definition charge :: "string \<Rightarrow> rx_result \<Rightarrow> string \<Rightarrow> string \<times> string option \<Rightarrow> fire_store \<Rightarrow> fire_store" where
  "charge rid res day ax r =
     (case ax of (axis, None) \<Rightarrow> r | (axis, Some key) \<Rightarrow> inc_budget rid axis key day (budget_used res axis) r)"

definition fired_args :: "string \<Rightarrow> entry \<Rightarrow> rx_result \<Rightarrow> pydict" where
  "fired_args rid e res =
     [(''reactivity_id'', PStr rid), (''source_seq'', PInt (e_seq e)), (''novelty_key'', PStr (rr_novelty res)),
      (''action_seqs'', PList (map PInt (concat (map fa_seqs (rr_actions res))))),
      (''budget_used'', PDict (map (\<lambda>(k, n). (k, PInt n)) (rr_budget res)))]"

definition book_fire :: "string \<Rightarrow> string option \<Rightarrow> string option \<Rightarrow> int \<Rightarrow> rx_result \<Rightarrow> 's registry \<Rightarrow> 's registry" where
  "book_fire rid owner domain now res g =
     g\<lparr>rg_store := record_fire rid (rr_novelty res) now
         (fold (charge rid res (day_of now)) [(''owner'', owner), (''domain'', domain), (''tenant'', Some (rg_company g))]
           (rg_store g))\<rparr>"

definition on_fire :: "env \<Rightarrow> 's store \<Rightarrow> int \<Rightarrow> string \<Rightarrow> entry \<Rightarrow> rx_result \<Rightarrow> ('s, unit) rx" where
  "on_fire E L now rid e res =
     sbind (\<lambda>w. (entry_owner_id E e, w)) (\<lambda>owner.
     sbind (\<lambda>w. (entry_domain_id E e, w)) (\<lambda>domain.
     sbind (on_registry (book_fire rid owner domain now res)) (\<lambda>_ w.
     sbind (on_ledger (write_pevr L (rg_company (snd w)) ''reactivity_fired'' ''emit_reactivity_fired'' rid
         (fired_args rid e res) ''worm'' now)) (\<lambda>_.
       on_registry (update_binding rid (\<lambda>b. b\<lparr>bd_last_fired := Some now\<rparr>))) w)))"

definition context_for :: "'s registry \<Rightarrow> int \<Rightarrow> string \<Rightarrow> rx_context" where
  "context_for g now rid = \<lparr>cx_registry = Some (rg_store g), cx_company = rg_company g, cx_now = now,
     cx_reactivity = Some rid, cx_novelty = None\<rparr>"

text \<open>
  The guarded part of one turn: \<open>None\<close> where the predicate or the condition says no. An
  exception in it is logged and the turn skipped; what the action has written stays.
\<close>

definition attempt :: "env \<Rightarrow> rx_lib \<Rightarrow> int \<Rightarrow> string \<Rightarrow> 's reactivity \<Rightarrow> entry \<Rightarrow> ('s, rx_result option) rx" where
  "attempt E lib now rid r e w =
     (let cx = context_for (snd w) now rid in
      sbind (\<lambda>w. (pred_match E (rx_predicate r) e, w)) (\<lambda>matches.
        if \<not> matches then sret None
        else sbind (\<lambda>w. (cond_allows E lib (rx_condition r) cx e, w)) (\<lambda>allowed.
          if \<not> allowed then sret None
          else sbind (on_ledger (rx_fire r e cx)) (\<lambda>res. sret (Some res)))) w)"

definition dispatch_one :: "env \<Rightarrow> rx_lib \<Rightarrow> 's store \<Rightarrow> int \<Rightarrow> entry \<Rightarrow> string \<Rightarrow> 's binding \<Rightarrow> ('s, string list) rx" where
  "dispatch_one E lib L now e rid b w =
     (if bd_state b \<noteq> Active then (Inr [], w)
      else case attempt E lib now rid (bd_reactivity b) e w of
        (Inl x, w1) \<Rightarrow> (Inr [], w1)
      | (Inr None, w1) \<Rightarrow> (Inr [], w1)
      | (Inr (Some res), w1) \<Rightarrow>
          if \<not> rr_fired res then (Inr [], w1)
          else sbind (on_fire E L now rid e res) (\<lambda>_. sret [rid]) w1)"

fun dispatch_loop :: "env \<Rightarrow> rx_lib \<Rightarrow> 's store \<Rightarrow> int \<Rightarrow> entry \<Rightarrow> (string \<times> 's binding) list \<Rightarrow> ('s, string list) rx" where
  "dispatch_loop E lib L now e [] = sret []"
| "dispatch_loop E lib L now e ((rid, b) # bs) =
     sbind (dispatch_one E lib L now e rid b) (\<lambda>ids. sbind (dispatch_loop E lib L now e bs) (\<lambda>rest. sret (ids @ rest)))"

definition dispatch :: "env \<Rightarrow> rx_lib \<Rightarrow> 's store \<Rightarrow> int \<Rightarrow> entry \<Rightarrow> ('s, string list) rx" where
  "dispatch E lib L now e w = dispatch_loop E lib L now e (rg_bindings (snd w)) w"

subsection \<open>What a dispatch changes\<close>

text \<open>The registered reactivities with their states.\<close>

definition roster :: "'s registry \<Rightarrow> (string \<times> rx_state \<times> 's reactivity) list" where
  "roster g = map (\<lambda>(k, b). (k, bd_state b, bd_reactivity b)) (rg_bindings g)"

lemma roster_update: "(\<And>b. bd_state (f b) = bd_state b \<and> bd_reactivity (f b) = bd_reactivity b) \<Longrightarrow>
    roster (update_binding rid f g) = roster g"
  by (auto simp: roster_def update_binding_def)

lemma update_binding_sel [simp]: "rg_company (update_binding rid f g) = rg_company g" "rg_store (update_binding rid f g) = rg_store g"
  by (simp_all add: update_binding_def)

lemma book_fire_sel [simp]: "rg_company (book_fire rid ow dm now res g) = rg_company g"
  "rg_bindings (book_fire rid ow dm now res g) = rg_bindings g"
  by (simp_all add: book_fire_def)

lemma book_fire_other: "rid \<noteq> rid' \<Longrightarrow> same_books rid (rg_store g) (rg_store (book_fire rid' ow dm now res g))"
  by (auto simp: book_fire_def charge_def split: option.splits
      intro!: same_books_trans [OF _ same_books_record] same_books_trans [OF _ same_books_inc])

definition tenant_count :: "'s registry \<Rightarrow> string \<Rightarrow> string \<Rightarrow> int" where
  "tenant_count g rid day = get_budget_count (rg_store g) rid ''tenant'' (rg_company g) day"

lemma tenant_count_same: "same_books rid (rg_store g) (rg_store g') \<Longrightarrow> rg_company g' = rg_company g \<Longrightarrow>
    tenant_count g' rid day = tenant_count g rid day"
  by (simp add: tenant_count_def get_budget_count_def same_books_def)

lemma book_fire_count: "tenant_count (book_fire rid ow dm now res g) rid day =
    tenant_count g rid day + (if day = day_of now then budget_used res ''tenant'' else 0)"
  by (auto simp: tenant_count_def book_fire_def record_fire_def charge_def inc_budget_def get_budget_count_def
      split: option.splits)

lemma book_fire_fires: "fs_fires (rg_store (book_fire rid ow dm now res g)) (rid, key) =
    (if key = rr_novelty res \<and> key \<noteq> [] then Some now else fs_fires (rg_store g) (rid, key))"
  by (auto simp: book_fire_def record_fire_def charge_def inc_budget_def split: option.splits)

lemma attempt_registry: "attempt E lib now rid r e w = (out, w1) \<Longrightarrow> snd w1 = snd w"
  by (auto simp: attempt_def Let_def sbind_def on_ledger_def split: prod.splits sum.splits if_splits)

lemma attempt_Some:
  "attempt E lib now rid r e w = (Inr (Some res), w1) \<Longrightarrow>
     pred_match E (rx_predicate r) e = Inr True \<and>
     cond_allows E lib (rx_condition r) (context_for (snd w) now rid) e = Inr True \<and>
     rx_fire r e (context_for (snd w) now rid) (fst w) = (Inr res, fst w1)"
  by (auto simp: attempt_def Let_def sbind_def on_ledger_def split: prod.splits sum.splits if_splits)

lemma attempt_run:
  "pred_match E (rx_predicate r) e = Inr True \<Longrightarrow>
   cond_allows E lib (rx_condition r) (context_for (snd w) now rid) e = Inr True \<Longrightarrow>
   rx_fire r e (context_for (snd w) now rid) (fst w) = (Inr res, s1) \<Longrightarrow>
     attempt E lib now rid r e w = (Inr (Some res), (s1, snd w))"
  by (simp add: attempt_def Let_def sbind_def on_ledger_def)

text \<open>The books after a fire: charged once, unless the entry could not be read.\<close>

lemma on_fire_effect:
  assumes "on_fire E L now rid e res w = (out, w')"
  shows "rg_company (snd w') = rg_company (snd w) \<and> roster (snd w') = roster (snd w) \<and>
    ((\<exists>ow dm. rg_store (snd w') = rg_store (book_fire rid ow dm now res (snd w))) \<or>
     out \<noteq> Inr () \<and> rg_store (snd w') = rg_store (snd w))"
proof (cases "entry_owner_id E e")
  case (Inl x)
  with assms show ?thesis by (auto simp: on_fire_def sbind_def)
next
  case ow: (Inr ow)
  show ?thesis
  proof (cases "entry_domain_id E e")
    case (Inl x)
    with assms ow show ?thesis by (auto simp: on_fire_def sbind_def)
  next
    case (Inr dm)
    let ?g = "book_fire rid ow dm now res (snd w)"
    obtain o1 s1 where w: "write_pevr L (rg_company (snd w)) ''reactivity_fired'' ''emit_reactivity_fired'' rid
        (fired_args rid e res) ''worm'' now (fst w) = (o1, s1)"
      by (cases "write_pevr L (rg_company (snd w)) ''reactivity_fired'' ''emit_reactivity_fired'' rid
        (fired_args rid e res) ''worm'' now (fst w)")
    have "roster ?g = roster (snd w)" by (simp add: roster_def)
    with assms ow Inr w have "rg_company (snd w') = rg_company (snd w) \<and> roster (snd w') = roster (snd w) \<and>
        rg_store (snd w') = rg_store ?g"
      by (cases o1) (auto simp: on_fire_def sbind_def on_registry_def on_ledger_def roster_update)
    then show ?thesis by blast
  qed
qed

definition fired_of :: "exc + string list \<Rightarrow> string list" where
  "fired_of out = (case out of Inl _ \<Rightarrow> [] | Inr ids \<Rightarrow> ids)"

lemma fired_of_simps [simp]: "fired_of (Inl x) = []" "fired_of (Inr ids) = ids"
  by (simp_all add: fired_of_def)

text \<open>One turn: nothing fires, or the reactivity of the turn fires and its books are charged.\<close>

definition turn_fires :: "env \<Rightarrow> rx_lib \<Rightarrow> int \<Rightarrow> entry \<Rightarrow> string \<Rightarrow> rx_state \<Rightarrow> 's reactivity \<Rightarrow> 's \<Rightarrow> 's registry \<Rightarrow> rx_result \<Rightarrow> bool" where
  "turn_fires E lib now e rid st r s g res \<longleftrightarrow>
     st = Active \<and> pred_match E (rx_predicate r) e = Inr True \<and>
     cond_allows E lib (rx_condition r) (context_for g now rid) e = Inr True \<and>
     (\<exists>s1. rx_fire r e (context_for g now rid) s = (Inr res, s1)) \<and> rr_fired res"

lemma dispatch_one_effect:
  assumes "dispatch_one E lib L now e rid b w = (out, w')"
  shows "rg_company (snd w') = rg_company (snd w) \<and> roster (snd w') = roster (snd w) \<and>
     ((rg_store (snd w') = rg_store (snd w) \<and> fired_of out = []) \<or>
      (\<exists>res ow dm. turn_fires E lib now e rid (bd_state b) (bd_reactivity b) (fst w) (snd w) res \<and>
         rg_store (snd w') = rg_store (book_fire rid ow dm now res (snd w)) \<and> fired_of out \<in> {[], [rid]}))"
proof (cases "bd_state b = Active")
  case False
  with assms show ?thesis by (auto simp: dispatch_one_def)
next
  case active: True
  obtain tried w1 where tried: "attempt E lib now rid (bd_reactivity b) e w = (tried, w1)"
    by (cases "attempt E lib now rid (bd_reactivity b) e w")
  have reg: "snd w1 = snd w" by (rule attempt_registry [OF tried])
  show ?thesis
  proof (cases "\<exists>res. tried = Inr (Some res) \<and> rr_fired res")
    case False
    then have "out = Inr [] \<and> w' = w1"
      using assms active tried by (auto simp: dispatch_one_def split: sum.splits option.splits if_splits)
    with reg show ?thesis by simp
  next
    case True
    then obtain res where res: "tried = Inr (Some res)" "rr_fired res" by blast
    obtain fo w2 where fo: "on_fire E L now rid e res w1 = (fo, w2)" by (cases "on_fire E L now rid e res w1")
    have out: "w' = w2" "fired_of out = (if fo = Inr () then [rid] else [])"
      using assms active tried res fo by (cases fo; auto simp: dispatch_one_def sbind_def)+
    from attempt_Some [OF tried [unfolded res(1)]] active res(2)
    have "turn_fires E lib now e rid (bd_state b) (bd_reactivity b) (fst w) (snd w) res"
      unfolding turn_fires_def by blast
    moreover note on_fire_effect [OF fo, unfolded reg]
    ultimately show ?thesis using out by auto
  qed
qed

lemma same_books_other_turn:
  assumes "dispatch_one E lib L now e rid' b w = (out, w')" and "rid \<noteq> rid'"
  shows "same_books rid (rg_store (snd w)) (rg_store (snd w')) \<and> rid \<notin> set (fired_of out)"
  using dispatch_one_effect [OF assms(1)] book_fire_other [OF assms(2)] assms(2) by auto

text \<open>
  A dispatch, seen from one reactivity: its books stay as they are and it is not reported, or
  it fires in its own turn, from a registry in which its books are those at the start.
\<close>

definition fires_amid :: "env \<Rightarrow> rx_lib \<Rightarrow> int \<Rightarrow> entry \<Rightarrow> string \<Rightarrow> 's binding \<Rightarrow> 's registry \<Rightarrow> fire_store \<Rightarrow> bool" where
  "fires_amid E lib now e rid b g r' \<longleftrightarrow>
     (\<exists>s1 g1 res ow dm. same_books rid (rg_store g) (rg_store g1) \<and> rg_company g1 = rg_company g \<and>
        turn_fires E lib now e rid (bd_state b) (bd_reactivity b) s1 g1 res \<and>
        same_books rid (rg_store (book_fire rid ow dm now res g1)) r')"

lemma fires_amidI:
  "turn_fires E lib now e rid (bd_state b) (bd_reactivity b) s1 g res \<Longrightarrow>
   same_books rid (rg_store (book_fire rid ow dm now res g)) r' \<Longrightarrow> fires_amid E lib now e rid b g r'"
  unfolding fires_amid_def by (intro exI conjI) (rule same_books_refl refl | assumption)+

lemma fires_amid_trans:
  assumes "fires_amid E lib now e rid b g1 r'" and "same_books rid (rg_store g) (rg_store g1)" and "rg_company g1 = rg_company g"
  shows "fires_amid E lib now e rid b g r'"
  using assms(1) unfolding fires_amid_def
proof (elim exE conjE)
  fix s1 g2 res ow dm
  assume "same_books rid (rg_store g1) (rg_store g2)" "rg_company g2 = rg_company g1"
    and "turn_fires E lib now e rid (bd_state b) (bd_reactivity b) s1 g2 res"
    and "same_books rid (rg_store (book_fire rid ow dm now res g2)) r'"
  with assms(2,3) same_books_trans show "\<exists>s1 g1 res ow dm. same_books rid (rg_store g) (rg_store g1) \<and> rg_company g1 = rg_company g \<and>
      turn_fires E lib now e rid (bd_state b) (bd_reactivity b) s1 g1 res \<and>
      same_books rid (rg_store (book_fire rid ow dm now res g1)) r'"
    by (intro exI [of _ s1] exI [of _ g2] exI [of _ res] exI [of _ ow] exI [of _ dm]) auto
qed

lemma dispatch_loop_effect:
  assumes "distinct (map fst bs)" and "dispatch_loop E lib L now e bs w = (out, w')"
  shows "rg_company (snd w') = rg_company (snd w) \<and> roster (snd w') = roster (snd w) \<and>
    ((same_books rid (rg_store (snd w)) (rg_store (snd w')) \<and> rid \<notin> set (fired_of out)) \<or>
     (\<exists>b. (rid, b) \<in> set bs \<and> fires_amid E lib now e rid b (snd w) (rg_store (snd w')) \<and> count_list (fired_of out) rid \<le> 1))"
  using assms
proof (induction bs arbitrary: w out)
  case Nil
  then show ?case by auto
next
  case (Cons p bs)
  obtain k b where p: "p = (k, b)" by (cases p)
  obtain o1 w1 where one: "dispatch_one E lib L now e k b w = (o1, w1)" by (cases "dispatch_one E lib L now e k b w")
  note eff = dispatch_one_effect [OF one]
  show ?case
  proof (cases o1)
    case (Inl x)
    with Cons.prems p one have out: "out = Inl x" "w' = w1" by (simp_all add: sbind_def)
    show ?thesis
    proof (cases "k = rid")
      case False
      with same_books_other_turn [OF one] eff out show ?thesis by auto
    next
      case True
      from eff show ?thesis
      proof (elim conjE disjE exE)
        assume "rg_store (snd w1) = rg_store (snd w)"
        with eff out show ?thesis by simp
      next
        fix res ow dm
        assume "turn_fires E lib now e k (bd_state b) (bd_reactivity b) (fst w) (snd w) res"
          "rg_store (snd w1) = rg_store (book_fire k ow dm now res (snd w))"
        then have "fires_amid E lib now e rid b (snd w) (rg_store (snd w'))"
          using True out fires_amidI [OF _ same_books_refl, of E lib now e rid b "fst w" "snd w" res ow dm] by simp
        with eff out p True show ?thesis by auto
      qed
    qed
  next
    case (Inr ids)
    obtain o2 w2 where rest: "dispatch_loop E lib L now e bs w1 = (o2, w2)" by (cases "dispatch_loop E lib L now e bs w1")
    have "dispatch_loop E lib L now e (p # bs) w =
        ((case o2 of Inl x \<Rightarrow> Inl x | Inr r \<Rightarrow> Inr (ids @ r)), w2)"
      by (simp add: p sbind_def one Inr rest split: sum.splits)
    with Cons.prems(2) have out: "w' = w2" "fired_of out = (case o2 of Inl _ \<Rightarrow> [] | Inr r \<Rightarrow> ids @ r)"
      by (cases o2; auto)+
    have "distinct (map fst bs)" using Cons.prems(1) p by simp
    from Cons.IH [OF this, of w1 o2] rest out(1)
    have ih: "rg_company (snd w') = rg_company (snd w1) \<and> roster (snd w') = roster (snd w1)"
      "(same_books rid (rg_store (snd w1)) (rg_store (snd w')) \<and> rid \<notin> set (fired_of o2)) \<or>
       (\<exists>b. (rid, b) \<in> set bs \<and> fires_amid E lib now e rid b (snd w1) (rg_store (snd w')) \<and> count_list (fired_of o2) rid \<le> 1)"
      by auto
    show ?thesis
    proof (cases "k = rid")
      case False
      have same: "same_books rid (rg_store (snd w)) (rg_store (snd w1))" "rid \<notin> set ids"
        using same_books_other_turn [OF one] False Inr by auto
      have n: "count_list (fired_of out) rid \<le> count_list (fired_of o2) rid"
        "rid \<in> set (fired_of out) \<Longrightarrow> rid \<in> set (fired_of o2)"
        using same(2) by (auto simp: out split: sum.splits)
      have comp: "rg_company (snd w1) = rg_company (snd w)" using eff by blast
      from ih(2) show ?thesis
      proof (elim disjE exE conjE)
        assume "same_books rid (rg_store (snd w1)) (rg_store (snd w'))" "rid \<notin> set (fired_of o2)"
        with same(1) n(2) ih(1) eff show ?thesis by (auto dest: same_books_trans)
      next
        fix b' assume b': "(rid, b') \<in> set bs" "count_list (fired_of o2) rid \<le> 1"
          and amid: "fires_amid E lib now e rid b' (snd w1) (rg_store (snd w'))"
        from amid same(1) comp have "fires_amid E lib now e rid b' (snd w) (rg_store (snd w'))"
          by (rule fires_amid_trans)
        with b' n(1) ih(1) eff p show ?thesis by fastforce
      qed
    next
      case True
      then have "rid \<notin> fst ` set bs" using Cons.prems(1) p by auto
      with ih(2) have ih2: "same_books rid (rg_store (snd w1)) (rg_store (snd w'))" "rid \<notin> set (fired_of o2)" by force+
      from eff show ?thesis
      proof (elim conjE disjE exE)
        assume "rg_store (snd w1) = rg_store (snd w)" "fired_of o1 = []"
        with ih(1) ih2 eff out Inr show ?thesis by (auto split: sum.splits)
      next
        fix res ow dm
        assume t: "turn_fires E lib now e k (bd_state b) (bd_reactivity b) (fst w) (snd w) res"
          "rg_store (snd w1) = rg_store (book_fire k ow dm now res (snd w))" "fired_of o1 \<in> {[], [k]}"
        then have "fires_amid E lib now e rid b (snd w) (rg_store (snd w'))"
          using True ih2(1) fires_amidI [of E lib now e rid b "fst w" "snd w" res ow dm "rg_store (snd w')"] by simp
        moreover have "count_list (fired_of out) rid \<le> 1"
          using t(3) ih2(2) True Inr by (auto simp: out count_list_0_iff split: sum.splits)
        ultimately show ?thesis using ih(1) eff p True by auto
      qed
    qed
  qed
qed

lemma context_own: "rg_company g1 = rg_company g \<Longrightarrow> same_books rid (rg_store g) (rg_store g1) \<Longrightarrow> library_condition c \<Longrightarrow>
    cond_allows E lib c (context_for g1 now rid) e = cond_allows E lib c (context_for g now rid) e"
  using cond_allows_own(1) [of rid "rg_store g" "rg_store g1" "context_for g now rid" c E lib e]
  by (simp add: context_for_def)

lemma dispatch_loop_fires:
  assumes "distinct (map fst bs)" and "dispatch_loop E lib L now e bs w = (Inr ids, w')" and "(rid, b) \<in> set bs"
    and active: "bd_state b = Active" and pred: "pred_match E (rx_predicate (bd_reactivity b)) e = Inr True"
    and lib: "library_condition (rx_condition (bd_reactivity b))"
    and fires: "\<And>cx s. \<exists>res s'. rx_fire (bd_reactivity b) e cx s = (Inr res, s') \<and> rr_fired res"
    and cond: "cond_allows E lib (rx_condition (bd_reactivity b)) (context_for (snd w) now rid) e = Inr True"
  shows "rid \<in> set ids"
  using assms(1-3) cond
proof (induction bs arbitrary: w ids)
  case (Cons p bs)
  obtain k b' where p: "p = (k, b')" by (cases p)
  from Cons.prems(2) p obtain i1 w1 i2 where one: "dispatch_one E lib L now e k b' w = (Inr i1, w1)"
    and rest: "dispatch_loop E lib L now e bs w1 = (Inr i2, w')" and ids: "ids = i1 @ i2"
    by (auto simp: sbind_Inr_iff)
  show ?case
  proof (cases "k = rid")
    case True
    with Cons.prems(1,3) p have b: "b' = b" by force
    obtain res s1 where f: "rx_fire (bd_reactivity b) e (context_for (snd w) now rid) (fst w) = (Inr res, s1)" "rr_fired res"
      using fires by blast
    from attempt_run [OF pred Cons.prems(4) f(1)] one active f(2) True b have "i1 = [rid]"
      by (auto simp: dispatch_one_def sbind_Inr_iff)
    then show ?thesis by (simp add: ids)
  next
    case False
    with Cons.prems(3) p have mem: "(rid, b) \<in> set bs" by simp
    have "rg_company (snd w1) = rg_company (snd w)" using dispatch_one_effect [OF one] by blast
    moreover have "same_books rid (rg_store (snd w)) (rg_store (snd w1))"
      using same_books_other_turn [OF one] False by simp
    ultimately have "cond_allows E lib (rx_condition (bd_reactivity b)) (context_for (snd w1) now rid) e = Inr True"
      using context_own [OF _ _ lib] Cons.prems(4) by metis
    from Cons.IH [OF _ rest mem this] Cons.prems(1) p ids show ?thesis by simp
  qed
qed simp

text \<open>A dispatch that returns fires a reactivity exactly when it is active, its predicate matches the
  row and its condition allows it by the books at the start of the dispatch: what other
  reactivities do in the same dispatch has no influence.\<close>

theorem dispatch_decides:
  assumes "distinct (map fst (rg_bindings (snd w)))" and "(rid, b) \<in> set (rg_bindings (snd w))"
    and "library_condition (rx_condition (bd_reactivity b))"
    and "\<And>cx s. \<exists>res s'. rx_fire (bd_reactivity b) e cx s = (Inr res, s') \<and> rr_fired res"
    and "dispatch E lib L now e w = (Inr ids, w')"
  shows "rid \<in> set ids \<longleftrightarrow> bd_state b = Active \<and> pred_match E (rx_predicate (bd_reactivity b)) e = Inr True \<and>
    cond_allows E lib (rx_condition (bd_reactivity b)) (context_for (snd w) now rid) e = Inr True"
proof
  assume "rid \<in> set ids"
  with dispatch_loop_effect [OF assms(1) assms(5) [unfolded dispatch_def], of rid] obtain b' where
    b': "(rid, b') \<in> set (rg_bindings (snd w))" and amid: "fires_amid E lib now e rid b' (snd w) (rg_store (snd w'))" by auto
  from b' assms(1,2) have "b' = b" by (metis map_of_is_SomeI option.inject)
  with amid obtain s1 g1 res where g1: "same_books rid (rg_store (snd w)) (rg_store g1)" "rg_company g1 = rg_company (snd w)"
    and t: "turn_fires E lib now e rid (bd_state b) (bd_reactivity b) s1 g1 res"
    unfolding fires_amid_def by blast
  with context_own [OF g1(2,1) assms(3)] show "bd_state b = Active \<and> pred_match E (rx_predicate (bd_reactivity b)) e = Inr True \<and>
    cond_allows E lib (rx_condition (bd_reactivity b)) (context_for (snd w) now rid) e = Inr True"
    by (simp add: turn_fires_def)
next
  assume "bd_state b = Active \<and> pred_match E (rx_predicate (bd_reactivity b)) e = Inr True \<and>
    cond_allows E lib (rx_condition (bd_reactivity b)) (context_for (snd w) now rid) e = Inr True"
  then show "rid \<in> set ids"
    using dispatch_loop_fires [OF assms(1) assms(5) [unfolded dispatch_def] assms(2) _ _ assms(3,4)] by blast
qed

subsection \<open>Runs of dispatches\<close>

text \<open>The reactivities reported for each row; a dispatch that raises reports none.\<close>

fun dispatches :: "env \<Rightarrow> rx_lib \<Rightarrow> 's store \<Rightarrow> (int \<times> entry) list \<Rightarrow> 's \<times> 's registry \<Rightarrow>
    (int \<times> string list) list \<times> ('s \<times> 's registry)" where
  "dispatches E lib L [] w = ([], w)"
| "dispatches E lib L ((now, e) # evs) w =
     (case dispatch E lib L now e w of (out, w1) \<Rightarrow>
        case dispatches E lib L evs w1 of (fs, w2) \<Rightarrow> ((now, fired_of out) # fs, w2))"

definition fires_on :: "string \<Rightarrow> string \<Rightarrow> (int \<times> string list) list \<Rightarrow> nat" where
  "fires_on rid day fs = sum_list (map (\<lambda>(now, ids). if day_of now = day then count_list ids rid else 0) fs)"

text \<open>
  \<open>rid\<close> is registered once, under a condition that demands the given one, and its action
  charges the tenant once and records the given novelty key.
\<close>

definition registered :: "string \<Rightarrow> condition \<Rightarrow> string \<Rightarrow> (string \<times> rx_state \<times> 's reactivity) list \<Rightarrow> bool" where
  "registered rid c key ro = (distinct (map fst ro) \<and> (\<forall>st r. (rid, st, r) \<in> set ro \<longrightarrow>
     library_condition (rx_condition r) \<and> demands (rx_condition r) c \<and>
     (\<forall>e cx s res s'. rx_fire r e cx s = (Inr res, s') \<and> rr_fired res \<longrightarrow>
        budget_used res ''tenant'' = 1 \<and> rr_novelty res = key)))"

lemma roster_keys: "map fst (roster g) = map fst (rg_bindings g)"
  by (induction "rg_bindings g") (auto simp: roster_def)

lemma dispatch_registered:
  assumes reg: "registered rid c key (roster (snd w))" and run: "dispatch E lib L now e w = (out, w')"
  shows "rg_company (snd w') = rg_company (snd w) \<and> roster (snd w') = roster (snd w) \<and>
    ((same_books rid (rg_store (snd w)) (rg_store (snd w')) \<and> rid \<notin> set (fired_of out)) \<or>
     (cond_allows E lib c (context_for (snd w) now rid) e = Inr True \<and> count_list (fired_of out) rid \<le> 1 \<and>
        (\<forall>day. tenant_count (snd w') rid day = tenant_count (snd w) rid day + (if day = day_of now then 1 else 0)) \<and>
        (key \<noteq> [] \<longrightarrow> fs_fires (rg_store (snd w')) (rid, key) = Some now)))"
proof -
  have dist: "distinct (map fst (rg_bindings (snd w)))" using reg by (simp add: registered_def roster_keys)
  note eff = dispatch_loop_effect [OF dist run [unfolded dispatch_def], of rid]
  show ?thesis
  proof (cases "same_books rid (rg_store (snd w)) (rg_store (snd w')) \<and> rid \<notin> set (fired_of out)")
    case True
    with eff show ?thesis by blast
  next
    case False
    with eff obtain b where b: "(rid, b) \<in> set (rg_bindings (snd w))" "count_list (fired_of out) rid \<le> 1"
      and amid: "fires_amid E lib now e rid b (snd w) (rg_store (snd w'))" by blast
    from b(1) have "(rid, bd_state b, bd_reactivity b) \<in> set (roster (snd w))" by (force simp: roster_def)
    with reg have r: "library_condition (rx_condition (bd_reactivity b))" "demands (rx_condition (bd_reactivity b)) c"
      "\<And>e cx s res s'. rx_fire (bd_reactivity b) e cx s = (Inr res, s') \<Longrightarrow> rr_fired res \<Longrightarrow>
         budget_used res ''tenant'' = 1 \<and> rr_novelty res = key"
      unfolding registered_def by blast+
    from amid obtain s1 g1 res ow dm where g1: "same_books rid (rg_store (snd w)) (rg_store g1)" "rg_company g1 = rg_company (snd w)"
      and t: "turn_fires E lib now e rid (bd_state b) (bd_reactivity b) s1 g1 res"
      and bk: "same_books rid (rg_store (book_fire rid ow dm now res g1)) (rg_store (snd w'))"
      unfolding fires_amid_def by blast
    have cond: "cond_allows E lib c (context_for (snd w) now rid) e = Inr True"
      using t context_own [OF g1(2,1) r(1)] by (auto simp: turn_fires_def intro: demands_allows [OF r(2)])
    have res: "budget_used res ''tenant'' = 1" "rr_novelty res = key" using t r(3) unfolding turn_fires_def by blast+
    have comp: "rg_company (snd w') = rg_company (snd w)" using eff by blast
    have count: "tenant_count (snd w') rid day = tenant_count (snd w) rid day + (if day = day_of now then 1 else 0)" for day
    proof -
      have "tenant_count (snd w') rid day = tenant_count (book_fire rid ow dm now res g1) rid day"
        by (rule tenant_count_same [OF bk]) (simp add: comp g1(2))
      also have "\<dots> = tenant_count g1 rid day + (if day = day_of now then 1 else 0)"
        by (simp add: book_fire_count res)
      also have "tenant_count g1 rid day = tenant_count (snd w) rid day" by (rule tenant_count_same [OF g1])
      finally show ?thesis .
    qed
    have "key \<noteq> [] \<longrightarrow> fs_fires (rg_store (snd w')) (rid, key) = Some now"
      using bk book_fire_fires [of rid ow dm now res g1 key] res(2) by (simp add: same_books_def)
    with cond count b(2) eff show ?thesis by blast
  qed
qed

lemma tenant_cap:
  assumes "cond_allows E lib (DailyBudget po pd (Some n)) (context_for g now rid) e = Inr True"
  shows "tenant_count g rid (day_of now) < n"
  using assms
  by (auto simp: daily_budget_allows_def context_for_def under_cap_def tenant_count_def Let_def rbind_Inr_iff
      split: if_splits)

lemma fires_on_Cons: "fires_on rid day ((now, ids) # fs) = (if day_of now = day then count_list ids rid else 0) + fires_on rid day fs"
  by (simp add: fires_on_def)

lemma dispatches_counted:
  "registered rid (DailyBudget po pd (Some n)) key (roster (snd w)) \<Longrightarrow> tenant_count (snd w) rid day \<le> n \<Longrightarrow>
   dispatches E lib L evs w = (fs, w') \<Longrightarrow>
     tenant_count (snd w) rid day + int (fires_on rid day fs) \<le> tenant_count (snd w') rid day \<and>
     tenant_count (snd w') rid day \<le> n"
proof (induction evs arbitrary: w fs w')
  case Nil
  then show ?case by (simp add: fires_on_def)
next
  case (Cons ev evs)
  obtain now e where ev: "ev = (now, e)" by (cases ev)
  obtain out w1 where d: "dispatch E lib L now e w = (out, w1)" by (cases "dispatch E lib L now e w")
  obtain fs2 w2 where ds: "dispatches E lib L evs w1 = (fs2, w2)" by (cases "dispatches E lib L evs w1")
  have fs: "fs = (now, fired_of out) # fs2" "w' = w2" using Cons.prems(3) ev d ds by simp_all
  note step = dispatch_registered [OF Cons.prems(1) d]
  have reg: "registered rid (DailyBudget po pd (Some n)) key (roster (snd w1))" using step Cons.prems(1) by simp
  have head: "tenant_count (snd w) rid day + int (if day_of now = day then count_list (fired_of out) rid else 0)
      \<le> tenant_count (snd w1) rid day \<and> tenant_count (snd w1) rid day \<le> n"
  proof (cases "same_books rid (rg_store (snd w)) (rg_store (snd w1)) \<and> rid \<notin> set (fired_of out)")
    case True
    have "tenant_count (snd w1) rid day = tenant_count (snd w) rid day"
      by (rule tenant_count_same) (use True step in simp_all)
    with True Cons.prems(2) show ?thesis by (simp add: count_list_0_iff)
  next
    case False
    with step have cond: "cond_allows E lib (DailyBudget po pd (Some n)) (context_for (snd w) now rid) e = Inr True"
      and one: "count_list (fired_of out) rid \<le> 1"
      and cnt: "\<And>day. tenant_count (snd w1) rid day = tenant_count (snd w) rid day + (if day = day_of now then 1 else 0)"
      by blast+
    from tenant_cap [OF cond] one cnt [of day] Cons.prems(2) show ?thesis by (cases "day = day_of now") simp_all
  qed
  from Cons.IH [OF reg conjunct2 [OF head] ds] head fs show ?case by (simp add: fires_on_Cons)
qed


definition fire_times :: "string \<Rightarrow> (int \<times> string list) list \<Rightarrow> int list" where
  "fire_times rid fs = concat (map (\<lambda>(now, ids). replicate (count_list ids rid) now) fs)"

lemma fire_times_subset: "dispatches E lib L evs w = (fs, w') \<Longrightarrow> set (fire_times rid fs) \<subseteq> set (map fst evs)"
proof (induction evs arbitrary: w fs w')
  case (Cons ev evs)
  obtain now e where ev: "ev = (now, e)" by (cases ev)
  obtain out w1 where d: "dispatch E lib L now e w = (out, w1)" by (cases "dispatch E lib L now e w")
  obtain fs2 w2 where ds: "dispatches E lib L evs w1 = (fs2, w2)" by (cases "dispatches E lib L evs w1")
  have "fs = (now, fired_of out) # fs2" using Cons.prems ev d ds by simp
  with Cons.IH [OF ds] ev show ?case by (auto simp: fire_times_def split: if_splits)
qed (simp add: fire_times_def)

lemma novelty_since:
  assumes "cond_allows E lib (NotRecentlyFired key hours) (context_for g now rid) e = Inr True" and "key \<noteq> []"
    and "fs_fires (rg_store g) (rid, key) = Some t"
  shows "t < now - hours_us hours"
  using assms
  by (auto simp: not_recently_fired_allows_def novelty_gate_def context_for_def get_last_fired_at_def Let_def split: if_splits)

lemma dispatches_spaced:
  assumes key: "key \<noteq> []"
  shows "registered rid (NotRecentlyFired key hours) key (roster (snd w)) \<Longrightarrow> sorted (map fst evs) \<Longrightarrow>
   dispatches E lib L evs w = (fs, w') \<Longrightarrow>
     sorted_wrt (\<lambda>t u. t < u - hours_us hours) (fire_times rid fs) \<and>
     (\<forall>t u. fs_fires (rg_store (snd w)) (rid, key) = Some t \<longrightarrow> u \<in> set (fire_times rid fs) \<longrightarrow> t < u - hours_us hours)"
proof (induction evs arbitrary: w fs w')
  case Nil
  then show ?case by (simp add: fire_times_def)
next
  case (Cons ev evs)
  obtain now e where ev: "ev = (now, e)" by (cases ev)
  obtain out w1 where d: "dispatch E lib L now e w = (out, w1)" by (cases "dispatch E lib L now e w")
  obtain fs2 w2 where ds: "dispatches E lib L evs w1 = (fs2, w2)" by (cases "dispatches E lib L evs w1")
  have fs: "fs = (now, fired_of out) # fs2" using Cons.prems(3) ev d ds by simp
  note step = dispatch_registered [OF Cons.prems(1) d]
  have reg: "registered rid (NotRecentlyFired key hours) key (roster (snd w1))" using step Cons.prems(1) by simp
  have sorted: "sorted (map fst evs)" and later: "\<forall>u\<in>set (fire_times rid fs2). now \<le> u"
    using Cons.prems(2) ev fire_times_subset [OF ds, of rid] by auto
  note ih = Cons.IH [OF reg sorted ds]
  show ?case
  proof (cases "same_books rid (rg_store (snd w)) (rg_store (snd w1)) \<and> rid \<notin> set (fired_of out)")
    case True
    then have "fire_times rid fs = fire_times rid fs2" by (simp add: fs fire_times_def)
    moreover have "fs_fires (rg_store (snd w1)) (rid, key) = fs_fires (rg_store (snd w)) (rid, key)"
      using True by (simp add: same_books_def)
    ultimately show ?thesis using ih by simp
  next
    case False
    with step key have cond: "cond_allows E lib (NotRecentlyFired key hours) (context_for (snd w) now rid) e = Inr True"
      and one: "count_list (fired_of out) rid \<le> 1" and lastf: "fs_fires (rg_store (snd w1)) (rid, key) = Some now"
      by blast+
    from one have times: "fire_times rid fs = fire_times rid fs2 \<or> fire_times rid fs = now # fire_times rid fs2"
      by (cases "count_list (fired_of out) rid") (simp_all add: fs fire_times_def)
    from ih lastf have gap: "\<forall>u\<in>set (fire_times rid fs2). now < u - hours_us hours" by blast
    have "\<forall>t. fs_fires (rg_store (snd w)) (rid, key) = Some t \<longrightarrow> t < now - hours_us hours"
      using novelty_since [OF cond key] by blast
    with gap later times ih show ?thesis by fastforce
  qed
qed

text \<open>A reactivity whose condition demands that it has not fired recently, and whose action records
  that key, fires at times more than the window apart.\<close>

theorem novelty_window_spacing:
  assumes "registered rid (NotRecentlyFired key hours) key (roster g)" and "key \<noteq> []" and "sorted (map fst evs)"
    and "dispatches E lib L evs (s, g) = (fs, w')"
  shows "sorted_wrt (\<lambda>t u. t < u - hours_us hours) (fire_times rid fs)"
  using dispatches_spaced [OF assms(2), of rid hours "(s, g)", OF _ assms(3,4)] assms(1) by simp

subsection \<open>A registered reactivity\<close>

text \<open>A ledger that accepts every write, and a reactivity that fires whenever it is asked to.\<close>

definition demo_log :: "unit store" where
  "demo_log = \<lparr>st_write = (\<lambda>req s. (Inr \<lparr>res_ids = [], res_hashes = []\<rparr>, s)), st_fetch = (\<lambda>s c t. []), st_uuid = (\<lambda>s. (''u'', s))\<rparr>"

definition demo_fire_result :: rx_result where
  "demo_fire_result = \<lparr>rr_fired = True, rr_actions = [\<lparr>fa_kind = ''dm'', fa_seqs = [3]\<rparr>], rr_novelty = ''owner:topic'', rr_budget = []\<rparr>"

definition demo_condition :: condition where
  "demo_condition = CAnd [DailyBudget (Some 3) (Some 10) (Some 1), NotRecentlyFired ''owner:topic'' 4]"

definition demo_reactivity :: "unit reactivity" where
  "demo_reactivity = \<lparr>rx_id = ''owner_dm'', rx_name = ''Owner DM'', rx_description = ''notify the owner'', rx_scope = ''company'',
     rx_predicate = PAnd [EntryKind ''chat_received'', HasTopic], rx_condition = demo_condition,
     rx_fire = (\<lambda>e cx s. (Inr demo_fire_result, s))\<rparr>"

definition demo_registry :: "unit registry" where
  "demo_registry = snd (register demo_reactivity None Active (registry_init ''c''))"

definition demo_chat :: entry where
  "demo_chat = \<lparr>e_id = ''i'', e_company = ''c'', e_seq = 2, e_ts = 0, e_kind = ''execute'', e_quadrant = ''active'',
     e_payload = [(''tool'', PStr ''channel_adapter.emit_chat_received''), (''args'', PDict [(''topic'', PStr ''churn'')])],
     e_prev = [], e_hash = []\<rparr>"

definition demo_rule_lib :: rx_lib where
  "demo_rule_lib = \<lparr>rl_environ = (\<lambda>_. None), rl_float = (\<lambda>_. None), rl_iso = (\<lambda>_. None)\<rparr>"

lemma demo_bindings: "rg_bindings demo_registry = [(''owner_dm'', \<lparr>bd_reactivity = demo_reactivity, bd_spec = spec_of demo_reactivity,
    bd_state = Active, bd_proposed_by = None, bd_confirmed_by = None, bd_disabled_by = None, bd_disable_reason = None,
    bd_last_fired = None\<rparr>)]"
  by (simp add: demo_registry_def register_def registry_init_def demo_reactivity_def)

lemma demo_registered:
  "registered ''owner_dm'' (DailyBudget (Some 3) (Some 10) (Some 1)) ''owner:topic'' (roster demo_registry)"
  "registered ''owner_dm'' (NotRecentlyFired ''owner:topic'' 4) ''owner:topic'' (roster demo_registry)"
  by (simp_all add: registered_def roster_def demo_bindings demo_reactivity_def demo_condition_def demo_fire_result_def budget_used_def)

lemma demo_run:
  "fst (dispatches demo_env demo_rule_lib demo_log [(0, demo_chat), (3600000000, demo_chat), (90000000000, demo_chat)] ((), demo_registry))
     = [(0, [''owner_dm'']), (3600000000, []), (90000000000, [''owner_dm''])]"
  by code_simp


theorem novelty_window_spacing_witness:
  "\<exists>fs w'. dispatches demo_env demo_rule_lib demo_log [(0, demo_chat), (3600000000, demo_chat), (90000000000, demo_chat)] ((), demo_registry) = (fs, w') \<and>
     fire_times ''owner_dm'' fs = [0, 90000000000] \<and> sorted_wrt (\<lambda>t u. t < u - hours_us 4) (fire_times ''owner_dm'' fs)"
proof -
  obtain fs w' where run: "dispatches demo_env demo_rule_lib demo_log [(0, demo_chat), (3600000000, demo_chat), (90000000000, demo_chat)]
      ((), demo_registry) = (fs, w')" by (rule prod.exhaust)
  have "fs = [(0, [''owner_dm'']), (3600000000, []), (90000000000, [''owner_dm''])]"
    using demo_run by (simp only: run fst_conv)
  then have "fire_times ''owner_dm'' fs = [0, 90000000000]" by (simp add: fire_times_def)
  moreover have "sorted_wrt (\<lambda>t u. t < u - hours_us 4) (fire_times ''owner_dm'' fs)"
    by (rule novelty_window_spacing [OF demo_registered(2) _ _ run]) simp_all
  ultimately show ?thesis using run by blast
qed

theorem dispatch_decides_witness:
  "\<exists>ids w'. dispatch demo_env demo_rule_lib demo_log 0 demo_chat ((), demo_registry) = (Inr ids, w') \<and> ''owner_dm'' \<in> set ids"
proof -
  let ?b = "snd (hd (rg_bindings demo_registry))"
  have "(case fst (dispatch demo_env demo_rule_lib demo_log 0 demo_chat ((), demo_registry)) of Inl _ \<Rightarrow> False | Inr _ \<Rightarrow> True)"
    by code_simp
  then obtain ids w' where run: "dispatch demo_env demo_rule_lib demo_log 0 demo_chat ((), demo_registry) = (Inr ids, w')"
    by (cases "dispatch demo_env demo_rule_lib demo_log 0 demo_chat ((), demo_registry)") (auto split: sum.splits)
  have "distinct (map fst (rg_bindings (snd ((), demo_registry))))" and "(''owner_dm'', ?b) \<in> set (rg_bindings (snd ((), demo_registry)))"
    and "library_condition (rx_condition (bd_reactivity ?b))"
    and "\<And>cx s. \<exists>res s'. rx_fire (bd_reactivity ?b) demo_chat cx s = (Inr res, s') \<and> rr_fired res"
    by (simp_all add: demo_bindings demo_reactivity_def demo_condition_def demo_fire_result_def)
  from dispatch_decides [OF this run] have "''owner_dm'' \<in> set ids \<longleftrightarrow> bd_state ?b = Active \<and>
    pred_match demo_env (rx_predicate (bd_reactivity ?b)) demo_chat = Inr True \<and>
    cond_allows demo_env demo_rule_lib (rx_condition (bd_reactivity ?b)) (context_for (snd ((), demo_registry)) 0 ''owner_dm'') demo_chat = Inr True" .
  moreover have "bd_state ?b = Active" by (simp add: demo_bindings)
  moreover have "(case pred_match demo_env (rx_predicate (bd_reactivity ?b)) demo_chat of Inr True \<Rightarrow> True | _ \<Rightarrow> False)"
    by code_simp
  moreover have "(case cond_allows demo_env demo_rule_lib (rx_condition (bd_reactivity ?b)) (context_for (snd ((), demo_registry)) 0 ''owner_dm'') demo_chat
     of Inr True \<Rightarrow> True | _ \<Rightarrow> False)" by code_simp
  ultimately have "''owner_dm'' \<in> set ids" by (simp split: sum.splits bool.splits)
  with run show ?thesis by blast
qed

end
