(* ===== verification/Reactivity_Runner.thy ===== *)
theory Reactivity_Runner
  imports Reactivity_Registry
begin

section \<open>The loops that drive reactivities (\<open>runner.py\<close>, \<open>clock_tick_emitter.py\<close>)\<close>

text \<open>
  One cycle of the runner: fetch, detect a reset of the tenant, dispatch the rows after the
  cursor, move the cursor to the tail. The clock is read once per cycle. The emitter writes one
  \<open>clock_tick\<close> per interval, numbered by what the ledger holds.
\<close>

subsection \<open>\<open>ReactivityRunner\<close>\<close>

record runner =
  rn_company :: uuid
  rn_last_seq :: int
  rn_last_hash :: "bytes option"

definition runner_init :: "uuid \<Rightarrow> runner" where
  "runner_init c = \<lparr>rn_company = c, rn_last_seq = 0, rn_last_hash = None\<rparr>"

definition rewind :: "runner \<Rightarrow> runner" where
  "rewind rn = rn\<lparr>rn_last_seq := 0, rn_last_hash := None\<rparr>"

definition reset_detected :: "runner \<Rightarrow> entry list \<Rightarrow> bool" where
  "reset_detected rn rows =
     (if e_seq (last rows) < rn_last_seq rn then True
      else if rn_last_seq rn > 0 \<and> rn_last_hash rn \<noteq> None
      then (case find (\<lambda>r. e_seq r = rn_last_seq rn) rows of
              None \<Rightarrow> False
            | Some r \<Rightarrow> Some (e_hash r) \<noteq> rn_last_hash rn)
      else False)"

fun dispatch_rows :: "env \<Rightarrow> rx_lib \<Rightarrow> 's store \<Rightarrow> int \<Rightarrow> entry list \<Rightarrow> ('s, nat) rx" where
  "dispatch_rows E lib L now [] = sret 0"
| "dispatch_rows E lib L now (r # rs) =
     sbind (dispatch E lib L now r) (\<lambda>ids. sbind (dispatch_rows E lib L now rs) (\<lambda>n. sret (length ids + n)))"

definition run_once :: "env \<Rightarrow> rx_lib \<Rightarrow> 's store \<Rightarrow> int \<Rightarrow> runner \<Rightarrow> 's \<times> 's registry \<Rightarrow>
    (exc + nat) \<times> runner \<times> ('s \<times> 's registry)" where
  "run_once E lib L now rn w =
     (let rows = st_fetch L (fst w) (rn_company rn) None
      in if rows = [] then (Inr 0, (if rn_last_seq rn \<noteq> 0 then rewind rn else rn), w)
         else let rows_sorted = sort_key e_seq rows;
                  rn1 = (if reset_detected rn rows_sorted then rewind rn else rn)
         in case dispatch_rows E lib L now (filter (\<lambda>r. \<not> e_seq r \<le> rn_last_seq rn1) rows_sorted) w of
              (Inl x, w1) \<Rightarrow> (Inl x, rn1, w1)
            | (Inr fired, w1) \<Rightarrow>
                let post = sort_key e_seq (st_fetch L (fst w1) (rn_company rn) None)
                in (Inr fired,
                    (if post = [] then rn1
                     else rn1\<lparr>rn_last_seq := e_seq (last post), rn_last_hash := Some (e_hash (last post))\<rparr>), w1))"

subsection \<open>\<open>ClockTickEmitter\<close>\<close>

record tick_emitter =
  te_company :: uuid
  te_interval :: int

definition emitter_init :: "uuid \<Rightarrow> int \<Rightarrow> exc + tick_emitter" where
  "emitter_init c interval = (if interval \<le> 0 then Inl ValueError else Inr \<lparr>te_company = c, te_interval = interval\<rparr>)"

definition is_tick :: "int \<Rightarrow> pydict \<Rightarrow> bool" where
  "is_tick interval payload =
     (dget payload ''tool'' = PStr ''emit_clock_tick'' \<and>
      (case py_or (dget payload ''args'') (PDict []) of
         PDict args \<Rightarrow> py_int_of (dget_or args ''tick_interval_s'' (PInt (-1))) = Some interval
       | _ \<Rightarrow> False))"

definition next_sequence_number :: "tick_emitter \<Rightarrow> (int \<times> pydict) list \<Rightarrow> nat" where
  "next_sequence_number te rows = length (filter (\<lambda>(t, pl). is_tick (te_interval te) pl) rows)"

definition tick_payload :: "tick_emitter \<Rightarrow> nat \<Rightarrow> pydict" where
  "tick_payload te n = [(''tick_interval_s'', PInt (te_interval te)), (''sequence_number'', PInt (int n))]"

definition tick_req :: "tick_emitter \<Rightarrow> nat \<Rightarrow> int \<Rightarrow> write_req" where
  "tick_req te n now =
     gate_req (te_company te) ''clock_tick''
       (''clock_tick:'' @ te_company te @ '':'' @ dec_int (te_interval te) @ '':'' @ dec_nat n)
       (''periodic tick every '' @ dec_int (te_interval te) @ ''s (seq='' @ dec_nat n @ '')'')
       ''reactivities.clock_tick_emitter'' ''emit_clock_tick'' (tick_payload te n)
       (''clock_tick:'' @ dec_int (te_interval te) @ '':'' @ dec_nat n) ''clock_tick'' ''keep''
       (''clock_tick emitted: cadence='' @ dec_int (te_interval te) @ ''s sequence_number='' @ dec_nat n) now
       ''passive_deterministic''"

definition tick_once :: "'s store \<Rightarrow> tick_emitter \<Rightarrow> int \<Rightarrow> ('s, pydict) act" where
  "tick_once L te now s =
     (let n = next_sequence_number te (execs (st_fetch L s (te_company te) None))
      in sbind (st_write L (tick_req te n now)) (\<lambda>_. sret (tick_payload te n)) s)"

subsection \<open>Dispatch only appends to the ledger\<close>

text \<open>An action that keeps the ledger's invariant and only appends rows for the company.\<close>

definition extends :: "'s store \<Rightarrow> ('s \<Rightarrow> bool) \<Rightarrow> uuid \<Rightarrow> 's \<Rightarrow> 's \<Rightarrow> bool" where
  "extends L invar c s s' = (invar s' \<and> (\<exists>new. st_fetch L s' c None = st_fetch L s c None @ new))"

definition appending_roster :: "'s store \<Rightarrow> ('s \<Rightarrow> bool) \<Rightarrow> 's registry \<Rightarrow> bool" where
  "appending_roster L invar g =
     (\<forall>(k, st, r)\<in>set (roster g). \<forall>e cx s out s'. invar s \<longrightarrow> rx_fire r e cx s = (out, s') \<longrightarrow>
        extends L invar (rg_company g) s s')"

lemma extends_refl: "invar s \<Longrightarrow> extends L invar c s s"
  by (simp add: extends_def)

lemma extends_trans: "extends L invar c s t \<Longrightarrow> extends L invar c t u \<Longrightarrow> extends L invar c s u"
  by (auto simp: extends_def)

lemma extends_invar: "extends L invar c s t \<Longrightarrow> invar t"
  by (simp add: extends_def)

lemma fired_req_clean: "clean_req (pevr_req c target tool rid (fired_args rid e res) by now)"
  by (simp add: pevr_req_def clean_const_req fired_args_def jsonable_dict_def list_all_iff split_def)

context ledger_store
begin

lemma write_pevr_extends:
  assumes "invar s" and "clean_req (pevr_req c target tool ref args by now)"
    and "write_pevr L c target tool ref args by now s = (out, s')"
  shows "extends L invar d s s'"
proof -
  obtain out1 where w: "st_write L (pevr_req c target tool ref args by now) s = (out1, s')"
    using assms(3) unfolding write_pevr_def by (elim sbind_sretE) blast
  have inv: "invar s'" by (rule write_invar [OF assms(1) w])
  have comp: "wr_company (pevr_req c target tool ref args by now) = c" by (simp add: pevr_req_def const_req_def)
  show ?thesis
  proof (cases out1)
    case (Inl x)
    with write_failed [OF assms(1,2)] w inv show ?thesis by (simp add: extends_def)
  next
    case (Inr res)
    show ?thesis
    proof (cases "d = c")
      case True
      with write_appends [OF assms(1) w [unfolded Inr]] inv comp show ?thesis by (auto simp: extends_def)
    next
      case False
      with write_frame [OF assms(1) w] inv comp show ?thesis by (simp add: extends_def)
    qed
  qed
qed

lemma on_fire_extends:
  assumes "invar (fst w)" and "on_fire E' L now rid e res w = (out, w')"
  shows "extends L invar d (fst w) (fst w')"
proof (cases "entry_owner_id E' e")
  case (Inl x)
  with assms show ?thesis by (auto simp: on_fire_def sbind_def extends_refl)
next
  case ow: (Inr ow)
  show ?thesis
  proof (cases "entry_domain_id E' e")
    case (Inl x)
    with assms ow show ?thesis by (auto simp: on_fire_def sbind_def extends_refl)
  next
    case (Inr dm)
    obtain o1 s1 where w: "write_pevr L (rg_company (snd w)) ''reactivity_fired'' ''emit_reactivity_fired'' rid
        (fired_args rid e res) ''worm'' now (fst w) = (o1, s1)"
      by (cases "write_pevr L (rg_company (snd w)) ''reactivity_fired'' ''emit_reactivity_fired'' rid
        (fired_args rid e res) ''worm'' now (fst w)")
    have "fst w' = s1" using assms(2) ow Inr w
      by (cases o1) (auto simp: on_fire_def sbind_def on_registry_def on_ledger_def)
    with write_pevr_extends [OF assms(1) fired_req_clean w] show ?thesis by simp
  qed
qed

lemma dispatch_one_extends:
  assumes inv: "invar (fst w)"
    and fire: "\<And>cx s out s'. invar s \<Longrightarrow> rx_fire (bd_reactivity b) e cx s = (out, s') \<Longrightarrow> extends L invar c s s'"
    and run: "dispatch_one E' lib L now e rid b w = (out, w')"
  shows "extends L invar c (fst w) (fst w')"
proof (cases "bd_state b = Active")
  case False
  with run inv show ?thesis by (auto simp: dispatch_one_def extends_refl)
next
  case active: True
  obtain tried w1 where tried: "attempt E' lib now rid (bd_reactivity b) e w = (tried, w1)"
    by (cases "attempt E' lib now rid (bd_reactivity b) e w")
  have 1: "extends L invar c (fst w) (fst w1)"
    using tried inv
    by (auto simp: attempt_def Let_def sbind_def on_ledger_def extends_refl fire split: prod.splits sum.splits if_splits)
  show ?thesis
  proof (cases "\<exists>res. tried = Inr (Some res) \<and> rr_fired res")
    case False
    then have "w' = w1"
      using run active tried by (auto simp: dispatch_one_def split: sum.splits option.splits if_splits)
    with 1 show ?thesis by simp
  next
    case True
    then obtain res where res: "tried = Inr (Some res)" "rr_fired res" by blast
    obtain fo w2 where fo: "on_fire E' L now rid e res w1 = (fo, w2)" by (cases "on_fire E' L now rid e res w1")
    have "w' = w2" using run active tried res fo by (cases fo) (auto simp: dispatch_one_def sbind_def)
    with extends_trans [OF 1 on_fire_extends [OF extends_invar [OF 1] fo]] show ?thesis by simp
  qed
qed

lemma dispatch_loop_extends:
  "invar (fst w) \<Longrightarrow> dispatch_loop E' lib L now e bs w = (out, w') \<Longrightarrow>
   \<forall>p\<in>set bs. \<forall>cx s out s'. invar s \<longrightarrow> rx_fire (bd_reactivity (snd p)) e cx s = (out, s') \<longrightarrow> extends L invar c s s' \<Longrightarrow>
     extends L invar c (fst w) (fst w')"
proof (induction bs arbitrary: w out)
  case Nil
  then show ?case by (simp add: extends_refl)
next
  case (Cons p bs)
  obtain k b where p: "p = (k, b)" by (cases p)
  obtain o1 w1 where one: "dispatch_one E' lib L now e k b w = (o1, w1)" by (cases "dispatch_one E' lib L now e k b w")
  have fire: "\<And>cx s out s'. invar s \<Longrightarrow> rx_fire (bd_reactivity b) e cx s = (out, s') \<Longrightarrow> extends L invar c s s'"
    using Cons.prems(3) p by fastforce
  have 1: "extends L invar c (fst w) (fst w1)"
    by (rule dispatch_one_extends [OF Cons.prems(1) _ one]) (rule fire)
  show ?case
  proof (cases o1)
    case (Inl x)
    with Cons.prems(2) p one 1 show ?thesis by (simp add: sbind_def)
  next
    case (Inr ids)
    obtain o2 w2 where rest: "dispatch_loop E' lib L now e bs w1 = (o2, w2)" by (cases "dispatch_loop E' lib L now e bs w1")
    with Cons.prems(2) p one Inr have w': "w' = w2" by (cases o2) (simp_all add: sbind_def)
    have "extends L invar c (fst w1) (fst w')"
      by (rule Cons.IH [OF extends_invar [OF 1] rest [folded w']]) (use Cons.prems(3) in simp)
    with 1 show ?thesis by (rule extends_trans)
  qed
qed

lemma dispatch_extends:
  assumes "invar (fst w)" and "appending_roster L invar (snd w)" and "dispatch E' lib L now e w = (out, w')"
  shows "extends L invar (rg_company (snd w)) (fst w) (fst w')"
proof (rule dispatch_loop_extends [OF assms(1) assms(3) [unfolded dispatch_def]], intro ballI allI impI)
  fix p cx s out s'
  assume p: "p \<in> set (rg_bindings (snd w))" and "invar s" "rx_fire (bd_reactivity (snd p)) e cx s = (out, s')"
  moreover have "(fst p, bd_state (snd p), bd_reactivity (snd p)) \<in> set (roster (snd w))"
    using p by (auto simp: roster_def split_def intro: rev_image_eqI)
  ultimately show "extends L invar (rg_company (snd w)) s s'"
    using assms(2) unfolding appending_roster_def by fast
qed

lemma dispatch_rows_extends:
  "invar (fst w) \<Longrightarrow> appending_roster L invar (snd w) \<Longrightarrow> distinct (map fst (rg_bindings (snd w))) \<Longrightarrow>
   dispatch_rows E' lib L now rows w = (out, w') \<Longrightarrow> extends L invar (rg_company (snd w)) (fst w) (fst w')"
proof (induction rows arbitrary: w out)
  case Nil
  then show ?case by (simp add: extends_refl)
next
  case (Cons r rows)
  obtain o1 w1 where one: "dispatch E' lib L now r w = (o1, w1)" by (cases "dispatch E' lib L now r w")
  note 1 = dispatch_extends [OF Cons.prems(1,2) one]
  show ?case
  proof (cases o1)
    case (Inl x)
    with Cons.prems(4) one 1 show ?thesis by (simp add: sbind_def)
  next
    case (Inr ids)
    obtain o2 w2 where rest: "dispatch_rows E' lib L now rows w1 = (o2, w2)" by (cases "dispatch_rows E' lib L now rows w1")
    with Cons.prems(4) one Inr have w': "w' = w2" by (cases o2) (simp_all add: sbind_def)
    from dispatch_loop_effect [OF Cons.prems(3) one [unfolded dispatch_def]]
    have same: "rg_company (snd w1) = rg_company (snd w)" "roster (snd w1) = roster (snd w)" by blast+
    then have "appending_roster L invar (snd w1)" "distinct (map fst (rg_bindings (snd w1)))"
      using Cons.prems(2,3) by (simp_all add: appending_roster_def flip: roster_keys)
    from Cons.IH [OF extends_invar [OF 1] this rest [folded w']] 1 same(1) show ?thesis
      by (auto intro: extends_trans)
  qed
qed

end

subsection \<open>A cycle of the runner\<close>

text \<open>The cursor stands at the hash of the row it names.\<close>

definition in_sync :: "runner \<Rightarrow> entry list \<Rightarrow> bool" where
  "in_sync rn rows = (0 \<le> rn_last_seq rn \<and> rn_last_seq rn \<le> int (length rows) \<and>
     (rn_last_seq rn > 0 \<longrightarrow> rn_last_hash rn = Some (e_hash (rows ! nat (rn_last_seq rn - 1)))))"

lemma chain_seq: "chain_inv E c rows \<Longrightarrow> i < length rows \<Longrightarrow> e_seq (rows ! i) = int i + 1"
proof -
  assume "chain_inv E c rows" "i < length rows"
  then have "map e_seq rows ! i = map int [1..<Suc (length rows)] ! i" by (simp add: chain_inv_def)
  with \<open>i < length rows\<close> show ?thesis by (simp del: upt_Suc)
qed

lemma chain_sorted: "chain_inv E c rows \<Longrightarrow> sort_key e_seq rows = rows"
proof (rule sort_key_id_if_sorted)
  assume "chain_inv E c rows"
  then have "map e_seq rows = map int [1..<Suc (length rows)]" by (simp add: chain_inv_def)
  then show "sorted (map e_seq rows)" by (simp add: sorted_iff_nth_mono del: upt_Suc)
qed

lemma chain_after: "chain_inv E c rows \<Longrightarrow> 0 \<le> k \<Longrightarrow> k \<le> int (length rows) \<Longrightarrow>
    filter (\<lambda>r. \<not> e_seq r \<le> k) rows = drop (nat k) rows"
proof -
  assume c: "chain_inv E c rows" and k: "0 \<le> k" "k \<le> int (length rows)"
  have "filter (\<lambda>r. \<not> e_seq r \<le> k) (take (nat k) rows) = []"
    using chain_seq [OF c] by (auto simp: filter_empty_conv in_set_conv_nth)
  moreover have "filter (\<lambda>r. \<not> e_seq r \<le> k) (drop (nat k) rows) = drop (nat k) rows"
    using chain_seq [OF c] k by (auto simp: filter_id_conv in_set_conv_nth)
  ultimately show ?thesis
    by (metis append_Nil append_take_drop_id filter_append)
qed

lemma in_sync_no_reset:
  assumes c: "chain_inv E c rows" and "rows \<noteq> []" and sync: "in_sync rn rows"
  shows "\<not> reset_detected rn rows"
proof -
  have "e_seq (last rows) = int (length rows)" using chain_inv_last [OF c] assms(2) by simp
  moreover have "e_hash r = e_hash (rows ! nat (rn_last_seq rn - 1))"
    if "find (\<lambda>r. e_seq r = rn_last_seq rn) rows = Some r" for r
  proof -
    from that obtain i where i: "i < length rows" "e_seq (rows ! i) = rn_last_seq rn" "r = rows ! i"
      by (auto simp: find_Some_iff)
    with chain_seq [OF c i(1)] have "i = nat (rn_last_seq rn - 1)" by simp
    with i(3) show ?thesis by simp
  qed
  ultimately show ?thesis
    using sync by (auto simp: reset_detected_def in_sync_def split: option.splits)
qed

lemma nat_int_pred: "nat (int n - 1) = n - Suc 0"
  by linarith

lemma runner_cycle_effect:
  assumes "ledger_store E L invar" and "invar s" and "appending_roster L invar g" and "distinct (map fst (rg_bindings g))"
    and "rg_company g = rn_company rn" and "in_sync rn (st_fetch L s (rn_company rn) None)"
    and "run_once E lib L now rn (s, g) = (out, rn', (s', g'))"
  shows "(\<exists>new. st_fetch L s' (rn_company rn) None = st_fetch L s (rn_company rn) None @ new) \<and>
    dispatch_rows E lib L now (drop (nat (rn_last_seq rn)) (st_fetch L s (rn_company rn) None)) (s, g) = (out, (s', g')) \<and>
    (case out of Inl _ \<Rightarrow> rn' = rn
     | Inr _ \<Rightarrow> rn_last_seq rn' = int (length (st_fetch L s' (rn_company rn) None)) \<and>
         in_sync rn' (st_fetch L s' (rn_company rn) None) \<and> rn_company rn' = rn_company rn)"
proof -
  let ?rows = "st_fetch L s (rn_company rn) None"
  have chain: "chain_inv E (rn_company rn) ?rows" by (rule ledger_store.fetch_chain [OF assms(1,2)])
  show ?thesis
  proof (cases "?rows = []")
    case True
    with assms(6,7) show ?thesis by (auto simp: run_once_def in_sync_def)
  next
    case False
    let ?new = "drop (nat (rn_last_seq rn)) ?rows"
    obtain out1 w1 where d: "dispatch_rows E lib L now ?new (s, g) = (out1, w1)" by (cases "dispatch_rows E lib L now ?new (s, g)")
    have after: "filter (\<lambda>r. \<not> e_seq r \<le> rn_last_seq rn) ?rows = ?new"
      using chain_after [OF chain] assms(6) by (simp add: in_sync_def)
    note run = assms(7) [unfolded run_once_def Let_def fst_conv if_not_P [OF False] chain_sorted [OF chain]
        if_not_P [OF in_sync_no_reset [OF chain False assms(6)]] after d]
    from ledger_store.dispatch_rows_extends [OF assms(1), of "(s, g)" E lib now ?new out1 w1] assms(2-5) d
    have ext: "extends L invar (rn_company rn) s (fst w1)" by simp
    show ?thesis
    proof (cases out1)
      case (Inl x)
      with run d ext show ?thesis by (auto simp: extends_def)
    next
      case (Inr fired)
      let ?post = "st_fetch L (fst w1) (rn_company rn) None"
      from ext False have post: "?post \<noteq> []" by (auto simp: extends_def)
      have chain': "chain_inv E (rn_company rn) ?post"
        by (rule ledger_store.fetch_chain [OF assms(1) extends_invar [OF ext]])
      have tail: "e_seq (last ?post) = int (length ?post)" using chain_inv_last [OF chain'] post by simp
      from run Inr post chain_sorted [OF chain'] have res: "out = Inr fired" "(s', g') = w1"
        "rn' = rn\<lparr>rn_last_seq := e_seq (last ?post), rn_last_hash := Some (e_hash (last ?post))\<rparr>"
        by auto
      have "in_sync rn' ?post"
        unfolding in_sync_def res(3) runner.simps runner.update_convs tail using post by (simp add: last_conv_nth nat_int_pred)
      with res d ext tail Inr show ?thesis by (auto simp: extends_def)
    qed
  qed
qed

text \<open>C25: A cycle of a runner in step with the ledger hands the rows after its cursor to the registry, each
  once and in order, and only appends. When every dispatch returns, the cursor moves to the tail;
  when one raises, it stays, so the next cycle starts with the same rows again.\<close>

theorem runner_cycle:
  assumes "ledger_store E L invar" and "invar s" and "appending_roster L invar g" and "distinct (map fst (rg_bindings g))"
    and "rg_company g = rn_company rn" and "in_sync rn (st_fetch L s (rn_company rn) None)"
    and "run_once E lib L now rn (s, g) = (out, rn', (s', g'))"
  shows "(\<exists>new. st_fetch L s' (rn_company rn) None = st_fetch L s (rn_company rn) None @ new) \<and>
    dispatch_rows E lib L now (drop (nat (rn_last_seq rn)) (st_fetch L s (rn_company rn) None)) (s, g) = (out, (s', g')) \<and>
    (case out of Inl _ \<Rightarrow> rn' = rn
     | Inr _ \<Rightarrow> rn_last_seq rn' = int (length (st_fetch L s' (rn_company rn) None)) \<and>
         in_sync rn' (st_fetch L s' (rn_company rn) None) \<and> rn_company rn' = rn_company rn)"
  by (rule runner_cycle_effect [OF assms])

lemma run_once_idle:
  assumes "ledger_store E L invar" and "invar s" and "in_sync rn (st_fetch L s (rn_company rn) None)"
    and "rn_last_seq rn = int (length (st_fetch L s (rn_company rn) None))"
  shows "run_once E lib L now rn (s, g) = (Inr 0, rn, (s, g))"
proof (cases "st_fetch L s (rn_company rn) None = []")
  case True
  with assms(4) show ?thesis by (simp add: run_once_def)
next
  case False
  let ?rows = "st_fetch L s (rn_company rn) None"
  have chain: "chain_inv E (rn_company rn) ?rows" by (rule ledger_store.fetch_chain [OF assms(1,2)])
  have after: "filter (\<lambda>r. \<not> e_seq r \<le> rn_last_seq rn) ?rows = []"
    using chain_after [OF chain] assms(3,4) by (simp add: in_sync_def)
  have tail: "e_seq (last ?rows) = rn_last_seq rn" using chain_inv_last [OF chain] False assms(4) by simp
  have hash: "rn_last_hash rn = Some (e_hash (last ?rows))"
    using assms(3,4) False by (simp add: in_sync_def last_conv_nth nat_int_pred)
  have "rn\<lparr>rn_last_seq := e_seq (last ?rows), rn_last_hash := Some (e_hash (last ?rows))\<rparr> = rn"
    by (simp add: tail flip: hash)
  with False show ?thesis
    by (simp add: run_once_def chain_sorted [OF chain] in_sync_no_reset [OF chain False assms(3)] after Let_def)
qed


subsection \<open>Numbered ticks\<close>

fun tick_run :: "'s store \<Rightarrow> tick_emitter \<Rightarrow> int list \<Rightarrow> ('s, pydict list) act" where
  "tick_run L te [] = sret []"
| "tick_run L te (now # nows) = sbind (tick_once L te now) (\<lambda>p. sbind (tick_run L te nows) (\<lambda>ps. sret (p # ps)))"

lemma periodic_match_tick: "pred_match E (PeriodicTick interval) e = Inr True \<longleftrightarrow> e_kind e = ''execute'' \<and> is_tick interval (e_payload e)"
  by (auto simp: periodic_match_def is_tick_def split: pyval.splits)

lemma next_sequence_number_matches: "next_sequence_number te (execs rows) =
    length (filter (\<lambda>e. pred_match E (PeriodicTick (te_interval te)) e = Inr True) rows)"
  unfolding periodic_match_tick by (induction rows) (simp_all add: next_sequence_number_def)

lemma tick_payload_is_tick: "payload_of ''emit_clock_tick'' (tick_payload te n) pl \<Longrightarrow> is_tick (te_interval te) pl"
  by (simp add: payload_of_def is_tick_def dget_def tick_payload_def py_or_def dget_or_def)

lemma tick_once_ok:
  assumes "reliable_store E L invar" and "invar s"
  shows "\<exists>s'. tick_once L te now s = (Inr (tick_payload te (next_sequence_number te (execs (st_fetch L s (te_company te) None)))), s') \<and>
    invar s' \<and> next_sequence_number te (execs (st_fetch L s' (te_company te) None)) =
      Suc (next_sequence_number te (execs (st_fetch L s (te_company te) None)))"
proof -
  let ?n = "next_sequence_number te (execs (st_fetch L s (te_company te) None))"
  have "jsonable_dict (tick_payload te ?n)" by (simp add: tick_payload_def)
  from reliable_store.gate_write_ok [OF assms(1) this] obtain res s' where
    w: "st_write L (tick_req te ?n now) s = (Inr res, s')" unfolding tick_req_def by blast
  from ledger_store.gate_write_logged [OF reliable_store.axioms(1) [OF assms(1)] assms(2) w [unfolded tick_req_def]]
  have l: "logged L s s' (te_company te) now ''emit_clock_tick'' (tick_payload te ?n)" and inv: "invar s'" .
  from l obtain pl where pl: "payload_of ''emit_clock_tick'' (tick_payload te ?n) pl"
    and ex: "execs (st_fetch L s' (te_company te) None) = execs (st_fetch L s (te_company te) None) @ [(now, pl)]"
    by (auto simp: logged_def)
  have "next_sequence_number te (execs (st_fetch L s' (te_company te) None)) = Suc ?n"
    unfolding ex using tick_payload_is_tick [OF pl] by (simp add: next_sequence_number_def)
  with w inv show ?thesis by (simp add: tick_once_def Let_def)
qed

text \<open>Ticks are numbered without gap or repetition, also across restarts of the emitter: a run of ticks
  continues from the number of ticks of its interval in the ledger, which is the number of rows
  the predicate for that interval matches, and the run adds one matching row per tick.\<close>

theorem clock_ticks_numbered:
  assumes "reliable_store E L invar" and "invar s"
    and "k = length (filter (\<lambda>e. pred_match E (PeriodicTick (te_interval te)) e = Inr True) (st_fetch L s (te_company te) None))"
  shows "\<exists>s'. tick_run L te nows s = (Inr (map (tick_payload te) [k..<k + length nows]), s') \<and>
    length (filter (\<lambda>e. pred_match E (PeriodicTick (te_interval te)) e = Inr True) (st_fetch L s' (te_company te) None)) =
      k + length nows"
  using assms(2,3)
proof (induction nows arbitrary: s k)
  case Nil
  then show ?case by simp
next
  case (Cons now nows)
  from tick_once_ok [OF assms(1) Cons.prems(1), of te now] obtain s1 where
    t: "tick_once L te now s = (Inr (tick_payload te k), s1)" "invar s1"
      "Suc k = length (filter (\<lambda>e. pred_match E (PeriodicTick (te_interval te)) e = Inr True) (st_fetch L s1 (te_company te) None))"
    unfolding next_sequence_number_matches [of te _ E] Cons.prems(2) by auto
  from Cons.IH [OF t(2,3)] t(1) show ?case
    by (auto simp: upt_conv_Cons simp del: pred_match.simps upt_Suc)
qed

theorem clock_ticks_numbered_witness:
  "\<exists>s'. tick_run (mem_store demo_env) \<lparr>te_company = ''c'', te_interval = 3600\<rparr> [5, 6] mem_empty =
     (Inr [tick_payload \<lparr>te_company = ''c'', te_interval = 3600\<rparr> 0, tick_payload \<lparr>te_company = ''c'', te_interval = 3600\<rparr> 1], s')"
proof -
  let ?te = "\<lparr>te_company = ''c'', te_interval = 3600\<rparr>"
  have "0 = length (filter (\<lambda>e. pred_match demo_env (PeriodicTick (te_interval ?te)) e = Inr True)
      (st_fetch (mem_store demo_env) mem_empty (te_company ?te) None))"
    by (simp add: mem_empty_def mem_rows_def)
  from clock_ticks_numbered [OF ml.reliable_store_axioms mem_invar_empty this, of "[5, 6]"] show ?thesis
    by (auto simp: upt_rec)
qed

subsection \<open>A cycle on the in-memory ledger\<close>

text \<open>The ledger already holds one row for the reactivity, whose action writes nothing itself.\<close>

definition demo_mem_reactivity :: "mem reactivity" where
  "demo_mem_reactivity = \<lparr>rx_id = ''owner_dm'', rx_name = ''Owner DM'', rx_description = ''notify the owner'', rx_scope = ''company'',
     rx_predicate = EntryKind ''clock_tick'', rx_condition = AlwaysAllow,
     rx_fire = (\<lambda>e cx s. (Inr demo_fire_result, s))\<rparr>"

definition demo_mem_registry :: "mem registry" where
  "demo_mem_registry = snd (register demo_mem_reactivity None Active (registry_init ''c''))"

lemma demo_mem_roster: "roster demo_mem_registry = [(''owner_dm'', Active, demo_mem_reactivity)]"
  by (simp add: roster_def demo_mem_registry_def register_def registry_init_def demo_mem_reactivity_def)

lemma demo_mem_ok:
  "appending_roster (mem_store demo_env) (mem_invar demo_env) demo_mem_registry"
  "distinct (map fst (rg_bindings demo_mem_registry))" "rg_company demo_mem_registry = rn_company (runner_init ''c'')"
  by (simp_all add: appending_roster_def demo_mem_roster demo_mem_reactivity_def extends_refl flip: roster_keys)
    (simp add: demo_mem_registry_def register_def registry_init_def demo_mem_reactivity_def runner_init_def)

lemma demo_sync: "in_sync (runner_init ''c'') rows"
  by (simp add: in_sync_def runner_init_def)

lemma demo_ticked:
  obtains s where "mem_invar demo_env s" and "st_fetch (mem_store demo_env) s ''c'' None \<noteq> []"
proof -
  let ?te = "\<lparr>te_company = ''c'', te_interval = 3600\<rparr>"
  from tick_once_ok [OF ml.reliable_store_axioms [of demo_env] mem_invar_empty, of ?te 5] obtain s where
    s: "mem_invar demo_env s" "next_sequence_number ?te (execs (st_fetch (mem_store demo_env) s ''c'' None)) > 0" by auto
  from s(2) have "st_fetch (mem_store demo_env) s ''c'' None \<noteq> []" by (auto simp: next_sequence_number_def)
  with s(1) show thesis by (rule that)
qed

theorem runner_cycle_witness:
  "\<exists>s out rn' w'. run_once demo_env demo_rule_lib (mem_store demo_env) 9 (runner_init ''c'') (s, demo_mem_registry) = (out, rn', w') \<and>
     st_fetch (mem_store demo_env) s ''c'' None \<noteq> [] \<and>
     dispatch_rows demo_env demo_rule_lib (mem_store demo_env) 9 (st_fetch (mem_store demo_env) s ''c'' None) (s, demo_mem_registry) = (out, w')"
proof -
  obtain s where s: "mem_invar demo_env s" and rows: "st_fetch (mem_store demo_env) s ''c'' None \<noteq> []"
    by (rule demo_ticked)
  obtain out rn' s' g' where run: "run_once demo_env demo_rule_lib (mem_store demo_env) 9 (runner_init ''c'') (s, demo_mem_registry) = (out, rn', (s', g'))"
    by (metis prod.collapse)
  from runner_cycle [OF ml.ledger_store_axioms s demo_mem_ok demo_sync run]
  have "dispatch_rows demo_env demo_rule_lib (mem_store demo_env) 9 (st_fetch (mem_store demo_env) s ''c'' None) (s, demo_mem_registry) = (out, (s', g'))"
    by (simp add: runner_init_def)
  with run rows show ?thesis by blast
qed

lemma dispatch_rows_unregistered: "rg_bindings (snd w) = [] \<Longrightarrow> dispatch_rows E lib L now rows w = (Inr 0, w)"
  by (induction rows) (simp_all add: dispatch_def)


end
