(* ===== verification/Event_Filter.thy ===== *)
theory Event_Filter
  imports Hash_Chain
begin

section \<open>Event filters (\<open>subscriptions/filter.py\<close>)\<close>

text \<open>
  \<open>AgentEventFilter\<close>, its compilation to a predicate on an entry dictionary and its ledger form.
  The fields hold whatever \<open>deserialize_filter\<close> finds in the stored dictionary, so they are
  tuples of arbitrary values; a filter as it is typed holds strings only (\<open>typed_filter\<close>).
\<close>

record event_filter =
  ef_kinds :: "pyval list"
  ef_domains :: "pyval list"
  ef_agent :: pyval
  ef_paths :: "pyval list list"

fun lookup_parts :: "pyval \<Rightarrow> string list \<Rightarrow> pyval" where
  "lookup_parts cur [] = cur"
| "lookup_parts cur (part # parts) =
     (case cur of
        PDict d \<Rightarrow> (case map_of d part of None \<Rightarrow> PNone | Some v \<Rightarrow> lookup_parts v parts)
      | _ \<Rightarrow> PNone)"

definition lookup_path :: "pydict \<Rightarrow> pyval \<Rightarrow> exc + pyval" where
  "lookup_path entry dotted =
     (case dotted of
        PStr s \<Rightarrow> Inr (lookup_parts (PDict entry) (split_on CHR ''.'' s))
      | PBytes b \<Rightarrow> Inl TypeError
      | _ \<Rightarrow> Inl AttributeError)"

text \<open>\<open>v in S\<close> for a set.\<close>

definition in_set :: "pyval \<Rightarrow> pyval list \<Rightarrow> exc + bool" where
  "in_set v S = (if hashable v then Inr (\<exists>x\<in>set S. py_eq v x) else Inl TypeError)"

definition arg_of :: "pydict \<Rightarrow> string \<Rightarrow> exc + pyval" where
  "arg_of entry k = vget (py_or (dget entry ''args'') (PDict [])) k"

fun path_checks :: "pydict \<Rightarrow> pyval list list \<Rightarrow> exc + bool" where
  "path_checks entry [] = Inr True"
| "path_checks entry (t # ts) =
     (case t of
        [path, expected] \<Rightarrow> rbind (lookup_path entry path) (\<lambda>v.
          if \<not> py_eq v expected then Inr False else path_checks entry ts)
      | _ \<Rightarrow> Inl ValueError)"

definition filter_match :: "event_filter \<Rightarrow> pydict \<Rightarrow> exc + bool" where
  "filter_match f entry =
     rbind (if ef_kinds f = [] then Inr True else in_set (dget entry ''kind'') (ef_kinds f)) (\<lambda>k.
     if \<not> k then Inr False
     else rbind (if ef_domains f = [] then Inr True
                 else rbind (arg_of entry ''domain'') (\<lambda>d. in_set d (ef_domains f))) (\<lambda>d.
     if \<not> d then Inr False
     else rbind (if ef_agent f = PNone then Inr True
                 else rbind (arg_of entry ''agent_id'') (\<lambda>a. Inr (py_eq a (ef_agent f)))) (\<lambda>a.
     if \<not> a then Inr False
     else path_checks entry (ef_paths f))))"

text \<open>\<open>set(f.kinds)\<close> raises on a value that cannot be hashed.\<close>

definition compile_filter :: "event_filter \<Rightarrow> exc + (pydict \<Rightarrow> exc + bool)" where
  "compile_filter f =
     (if (\<forall>v\<in>set (ef_kinds f @ ef_domains f). hashable v) then Inr (filter_match f) else Inl TypeError)"

definition serialize_filter :: "event_filter \<Rightarrow> pydict" where
  "serialize_filter f =
     [(''kinds'', PList (ef_kinds f)), (''domains'', PList (ef_domains f)), (''agent_id_ref'', ef_agent f),
      (''payload_path_eq'', PList (map PList (ef_paths f)))]"

definition deserialize_filter :: "pyval \<Rightarrow> exc + event_filter" where
  "deserialize_filter v =
     (case v of
        PDict d \<Rightarrow>
          rbind (py_iter (dget_or d ''kinds'' (PTuple []))) (\<lambda>kinds.
          rbind (py_iter (dget_or d ''domains'' (PTuple []))) (\<lambda>domains.
          rbind (py_iter (dget_or d ''payload_path_eq'' (PTuple []))) (\<lambda>ts.
          rbind (rmap py_iter ts) (\<lambda>paths.
            Inr \<lparr>ef_kinds = kinds, ef_domains = domains, ef_agent = dget d ''agent_id_ref'', ef_paths = paths\<rparr>))))
      | _ \<Rightarrow> Inl AttributeError)"

subsection \<open>What a filter matches\<close>

definition typed_filter :: "string list \<Rightarrow> string list \<Rightarrow> string option \<Rightarrow> (string \<times> string) list \<Rightarrow> event_filter" where
  "typed_filter kinds domains agent paths =
     \<lparr>ef_kinds = map PStr kinds, ef_domains = map PStr domains, ef_agent = opt_str agent,
      ef_paths = map (\<lambda>(p, v). [PStr p, PStr v]) paths\<rparr>"

definition path_holds :: "pydict \<Rightarrow> string \<times> string \<Rightarrow> bool" where
  "path_holds entry pv = (lookup_parts (PDict entry) (split_on CHR ''.'' (fst pv)) = PStr (snd pv))"

lemma path_checks_typed:
  "path_checks entry (map (\<lambda>(p, v). [PStr p, PStr v]) paths) = Inr (\<forall>pv\<in>set paths. path_holds entry pv)"
  by (induction paths) (auto simp: lookup_path_def path_holds_def)

lemma in_set_strs: "hashable v \<Longrightarrow> in_set v (map PStr ss) = Inr (v \<in> PStr ` set ss)"
  by (auto simp: in_set_def)

text \<open>What the filter asks of the arguments of an entry.\<close>

definition arg_ok :: "pydict \<Rightarrow> string list \<Rightarrow> string option \<Rightarrow> bool" where
  "arg_ok args domains agent =
     ((domains = [] \<or> dget args ''domain'' \<in> PStr ` set domains) \<and>
      (agent = None \<or> dget args ''agent_id'' = opt_str agent))"

lemma filter_match_typed:
  assumes "dget entry ''kind'' = PStr k" and "py_or (dget entry ''args'') (PDict []) = PDict args"
    and "hashable (dget args ''domain'')"
  shows "filter_match (typed_filter kinds domains agent paths) entry =
    Inr ((kinds = [] \<or> k \<in> set kinds) \<and> arg_ok args domains agent \<and> (\<forall>pv\<in>set paths. path_holds entry pv))"
  using assms
  by (cases agent)
     (auto simp: filter_match_def typed_filter_def arg_of_def in_set_strs arg_ok_def opt_str_def path_checks_typed)

text \<open>A filter of strings compiles, and its predicate holds of an entry exactly when the kind is
  listed or none is, the domain in \<open>args\<close> is listed or none is, the agent in \<open>args\<close> is the
  referenced one, and every dotted path leads to its value.\<close>

theorem filter_matches_iff:
  assumes "dget entry ''kind'' = PStr k" and "dget entry ''args'' = PDict args" and "hashable (dget args ''domain'')"
  shows "\<exists>m. compile_filter (typed_filter kinds domains agent paths) = Inr m \<and>
    m entry = Inr ((kinds = [] \<or> k \<in> set kinds) \<and>
      (domains = [] \<or> dget args ''domain'' \<in> PStr ` set domains) \<and>
      (case agent of None \<Rightarrow> True | Some a \<Rightarrow> dget args ''agent_id'' = PStr a) \<and>
      (\<forall>(p, v)\<in>set paths. lookup_parts (PDict entry) (split_on CHR ''.'' p) = PStr v))"
proof -
  have "py_or (dget entry ''args'') (PDict []) = PDict args"
    using assms(2) by (cases args) (simp_all add: py_or_def)
  from filter_match_typed [OF assms(1) this assms(3), of kinds domains agent paths] show ?thesis
    by (cases agent)
       (auto simp: compile_filter_def typed_filter_def arg_ok_def opt_str_def path_holds_def split_def)
qed

definition demo_event :: pydict where
  "demo_event = [(''kind'', PStr ''source_connected''),
     (''args'', PDict [(''domain'', PStr ''finance''), (''agent_id'', PStr ''bot''), (''source'', PDict [(''family'', PStr ''crm'')])])]"

theorem filter_matches_iff_witness:
  "\<exists>m. compile_filter (typed_filter [''source_connected''] [''finance'', ''sales''] (Some ''bot'') [(''args.source.family'', ''crm'')]) = Inr m \<and>
     m demo_event = Inr True"
proof -
  have "lookup_parts (PDict demo_event) (split_on CHR ''.'' ''args.source.family'') = PStr ''crm''" by code_simp
  with filter_matches_iff [of demo_event "''source_connected''"
      "[(''domain'', PStr ''finance''), (''agent_id'', PStr ''bot''), (''source'', PDict [(''family'', PStr ''crm'')])]"
      "[''source_connected'']" "[''finance'', ''sales'']" "Some ''bot''" "[(''args.source.family'', ''crm'')]"]
  show ?thesis by (simp add: demo_event_def)
qed

lemma filter_read_back: "deserialize_filter (PDict (serialize_filter f)) = Inr f"
proof -
  have "rmap py_iter (map PList tss) = Inr tss" for tss by (induction tss) simp_all
  then show ?thesis by (simp add: deserialize_filter_def serialize_filter_def dget_or_def)
qed

text \<open>A filter survives its ledger form: reading what was written gives the filter back.\<close>

theorem filter_roundtrip:
  "deserialize_filter (PDict (serialize_filter f)) = Inr f"
  by (rule filter_read_back)

subsection \<open>Filters on ledger rows\<close>

text \<open>
  The rows \<open>Ledger.fetch\<close> returns have the keys of \<open>entry_dict\<close>: the kind is the envelope kind
  (\<open>propose\<close>, \<open>execute\<close>, \<open>verify\<close> or \<open>resolve\<close>) and the arguments are inside \<open>payload\<close>, so there
  is no \<open>args\<close> at the top.
\<close>

lemma entry_dict_get [simp]: "dget (entry_dict e) ''kind'' = PStr (e_kind e)" "dget (entry_dict e) ''args'' = PNone"
  "dget (entry_dict e) ''payload'' = PDict (e_payload e)" "dget (entry_dict e) ''seq'' = PInt (e_seq e)"
  "dget (entry_dict e) ''ts'' = PTime (Aware (e_ts e))"
  by (simp_all add: entry_dict_def)

lemma filter_row:
  "\<exists>m. compile_filter (typed_filter kinds domains agent paths) = Inr m \<and>
    m (entry_dict e) = Inr (domains = [] \<and> agent = None \<and> (kinds = [] \<or> e_kind e \<in> set kinds) \<and>
      (\<forall>(p, v)\<in>set paths. lookup_parts (PDict (entry_dict e)) (split_on CHR ''.'' p) = PStr v))"
proof -
  have "py_or (dget (entry_dict e) ''args'') (PDict []) = PDict []" by (simp add: py_or_def)
  from filter_match_typed [OF _ this, of "e_kind e" kinds domains agent paths] show ?thesis
    by (cases agent)
       (auto simp: compile_filter_def typed_filter_def arg_ok_def opt_str_def path_holds_def split_def)
qed

lemma filter_on_rows_any: "rbind (compile_filter (typed_filter [] [] None [])) (\<lambda>m. m (entry_dict e)) = Inr True"
  using filter_row [of "[]" "[]" None "[]" e] by auto

text \<open>On a ledger row a filter that names a domain or an agent matches nothing, and the kinds it
  names are compared with the envelope kind of the row only.\<close>

theorem filter_on_rows:
  "\<exists>m. compile_filter (typed_filter kinds domains agent paths) = Inr m \<and>
    m (entry_dict e) = Inr (domains = [] \<and> agent = None \<and> (kinds = [] \<or> e_kind e \<in> set kinds) \<and>
      list_all (path_holds (entry_dict e)) paths)"
  using filter_row [of kinds domains agent paths e] by (simp add: list_all_iff path_holds_def split_def)

end
