(* ===== verification/Stream_Registry.thy ===== *)
theory Stream_Registry
  imports Prelude
begin

section \<open>Event queues and the list transport (\<open>stream_registry.py\<close>, \<open>stream_transport.py\<close>)\<close>

text \<open>
  One bounded queue of events per subscription, which drops its oldest event when a new one finds
  it full, and the transport that empties a queue into one response. A queue that holds an event
  hands it out without suspending, so the transport runs without interruption once the events to
  replay are known.
\<close>

subsection \<open>\<open>StreamRegistry\<close>\<close>

record 'e streams =
  sr_maxsize :: int
  sr_queues :: "string \<Rightarrow> 'e list option"

definition DEFAULT_MAXSIZE :: int where
  "DEFAULT_MAXSIZE = 1000"

definition streams_init :: "int \<Rightarrow> 'e streams" where
  "streams_init n = \<lparr>sr_maxsize = n, sr_queues = Map.empty\<rparr>"

definition queue_for :: "string \<Rightarrow> 'e streams \<Rightarrow> 'e list \<times> 'e streams" where
  "queue_for sid g =
     (case sr_queues g sid of
        None \<Rightarrow> ([], g\<lparr>sr_queues := (sr_queues g)(sid \<mapsto> [])\<rparr>)
      | Some q \<Rightarrow> (q, g))"

text \<open>\<open>asyncio.Queue.full\<close>: a queue with no positive \<open>maxsize\<close> never is.\<close>

definition queue_full :: "'e streams \<Rightarrow> 'e list \<Rightarrow> bool" where
  "queue_full g q = (0 < sr_maxsize g \<and> sr_maxsize g \<le> int (length q))"

definition push :: "string \<Rightarrow> 'e \<Rightarrow> 'e streams \<Rightarrow> 'e streams" where
  "push sid ev g =
     (case queue_for sid g of (q, g1) \<Rightarrow>
        let q1 = (if queue_full g q then tl q else q);
            q2 = (if queue_full g q1 then q1 else q1 @ [ev])
        in g1\<lparr>sr_queues := (sr_queues g1)(sid \<mapsto> q2)\<rparr>)"

definition stream_size :: "'e streams \<Rightarrow> string \<Rightarrow> nat" where
  "stream_size g sid = (case sr_queues g sid of None \<Rightarrow> 0 | Some q \<Rightarrow> length q)"

definition clear :: "string \<Rightarrow> 'e streams \<Rightarrow> 'e streams" where
  "clear sid g = g\<lparr>sr_queues := (sr_queues g)(sid := None)\<rparr>"

subsection \<open>What a client of the queues relies on\<close>

definition latest :: "nat \<Rightarrow> 'e list \<Rightarrow> 'e list" where
  "latest n xs = drop (length xs - n) xs"

lemma latest_append_latest: "latest n (latest n xs @ ys) = latest n (xs @ ys)"
  by (cases "length xs \<le> n") (auto simp: latest_def add.commute)

lemma length_latest: "length (latest n xs) \<le> n"
  by (simp add: latest_def)

lemma latest_short: "length xs \<le> n \<Longrightarrow> latest n xs = xs"
  by (simp add: latest_def)

locale event_queues =
  fixes put :: "string \<Rightarrow> 'e \<Rightarrow> 'g \<Rightarrow> 'g" and pending :: "'g \<Rightarrow> string \<Rightarrow> 'e list"
    and cap :: "'g \<Rightarrow> nat" and ok :: "'g \<Rightarrow> bool"
  assumes put_own: "ok g \<Longrightarrow> pending (put sid ev g) sid = latest (cap g) (pending g sid @ [ev])"
    and put_frame: "ok g \<Longrightarrow> sid' \<noteq> sid \<Longrightarrow> pending (put sid ev g) sid' = pending g sid'"
    and put_cap: "cap (put sid ev g) = cap g"
    and put_ok: "ok g \<Longrightarrow> ok (put sid ev g)"
begin

lemma put_pending:
  "ok g \<Longrightarrow> pending (put sid ev g) s = (if s = sid then latest (cap g) (pending g s @ [ev]) else pending g s)"
  by (simp add: put_own put_frame)

lemma puts_pending:
  assumes "ok g" and "length (pending g s) \<le> cap g"
  shows "pending (fold (\<lambda>(sid, ev). put sid ev) evs g) s =
    latest (cap g) (pending g s @ map snd (filter (\<lambda>p. fst p = s) evs))"
  using assms
proof (induction evs arbitrary: g)
  case Nil
  then show ?case by (simp add: latest_short)
next
  case (Cons p evs)
  obtain sid ev where p: "p = (sid, ev)" by (cases p)
  have ok: "ok (put sid ev g)" by (rule put_ok [OF Cons.prems(1)])
  have own: "pending (put sid ev g) s = (if s = sid then latest (cap g) (pending g s @ [ev]) else pending g s)"
    by (rule put_pending [OF Cons.prems(1)])
  have "length (pending (put sid ev g) s) \<le> cap (put sid ev g)"
    using Cons.prems(2) by (simp add: own put_cap length_latest)
  from Cons.IH [OF ok this] show ?case
    by (auto simp: p own put_cap latest_append_latest)
qed

end

subsection \<open>The registry provides them\<close>

definition pending :: "'e streams \<Rightarrow> string \<Rightarrow> 'e list" where
  "pending g sid = (case sr_queues g sid of None \<Rightarrow> [] | Some q \<Rightarrow> q)"

definition bounded :: "'e streams \<Rightarrow> bool" where
  "bounded g = (0 < sr_maxsize g \<and> (\<forall>sid. int (length (pending g sid)) \<le> sr_maxsize g))"

lemma stream_size_pending: "stream_size g sid = length (pending g sid)"
  by (simp add: stream_size_def pending_def split: option.splits)

lemma queue_for_simps: "fst (queue_for sid g) = pending g sid" "pending (snd (queue_for sid g)) s = pending g s"
  "sr_maxsize (snd (queue_for sid g)) = sr_maxsize g"
  by (auto simp: queue_for_def pending_def split: option.splits)

lemma push_pending:
  assumes "bounded g"
  shows "pending (push sid ev g) s = (if s = sid then latest (nat (sr_maxsize g)) (pending g s @ [ev]) else pending g s)"
proof -
  obtain q g1 where q: "queue_for sid g = (q, g1)" by (cases "queue_for sid g")
  with queue_for_simps [of sid g] have f: "q = pending g sid" "pending g1 s = pending g s" by auto
  from assms have b: "0 < sr_maxsize g" "int (length q) \<le> sr_maxsize g" by (simp_all add: bounded_def f)
  show ?thesis
  proof (cases "s = sid")
    case False
    with f(2) show ?thesis by (simp add: push_def q Let_def pending_def)
  next
    case True
    show ?thesis
    proof (cases "queue_full g q")
      case full: True
      with b have n: "nat (sr_maxsize g) = length q" "0 < length q" by (auto simp: queue_full_def)
      then have "\<not> queue_full g (tl q)" using b by (auto simp: queue_full_def)
      then have "pending (push sid ev g) s = tl q @ [ev]"
        using True full queue_for_simps(3) [of sid g] by (simp add: push_def q Let_def pending_def)
      moreover have "latest (length q) (q @ [ev]) = tl q @ [ev]" using n by (cases q) (simp_all add: latest_def)
      ultimately show ?thesis using True n f(1) by simp
    next
      case False
      with b have "length (q @ [ev]) \<le> nat (sr_maxsize g)" by (auto simp: queue_full_def)
      with True False show ?thesis by (simp add: push_def q Let_def pending_def latest_short)
        (simp add: f(1) [symmetric, unfolded pending_def] latest_short)
    qed
  qed
qed

lemma push_maxsize: "sr_maxsize (push sid ev g) = sr_maxsize g"
  using queue_for_simps(3) [of sid g] by (auto simp: push_def Let_def split: prod.splits)

lemma push_bounded: "bounded g \<Longrightarrow> bounded (push sid ev g)"
  by (auto simp: bounded_def push_maxsize push_pending [unfolded bounded_def] latest_def)

lemma clear_bounded: "bounded g \<Longrightarrow> bounded (clear sid g)"
  by (auto simp: bounded_def clear_def pending_def)

lemma init_bounded: "0 < n \<Longrightarrow> bounded (streams_init n)"
  by (simp add: bounded_def streams_init_def pending_def)

interpretation sq: event_queues push pending "\<lambda>g. nat (sr_maxsize g)" bounded
  by unfold_locales (simp_all add: push_pending push_maxsize push_bounded)



subsection \<open>\<open>ListModeTransport\<close>\<close>

text \<open>\<open>queue.get()\<close>; \<open>None\<close> where it waits.\<close>

definition next_live :: "string \<Rightarrow> 'e streams \<Rightarrow> ('e \<times> 'e streams) option" where
  "next_live sid g =
     (case pending g sid of [] \<Rightarrow> None
      | ev # q \<Rightarrow> Some (ev, g\<lparr>sr_queues := (sr_queues g)(sid \<mapsto> q)\<rparr>))"

definition is_denied :: "pydict \<Rightarrow> bool" where
  "is_denied ev = (dget ev ''status'' = PStr ''denied'')"

lemma next_live_pending: "next_live sid g = Some (ev, g') \<Longrightarrow> pending g sid = ev # pending g' sid"
  by (auto simp: next_live_def pending_def split: list.splits)

function live_deliver :: "string \<Rightarrow> pydict streams \<Rightarrow> (pydict list \<times> pydict streams) option" where
  "live_deliver sid g =
     (case next_live sid g of
        None \<Rightarrow> None
      | Some (ev, g') \<Rightarrow>
          if is_denied ev \<or> stream_size g' sid = 0 then Some ([ev], g')
          else map_option (apfst ((#) ev)) (live_deliver sid g'))"
  by pat_completeness auto

termination
  by (relation "measure (\<lambda>(sid, g). length (pending g sid))") (auto dest!: next_live_pending)

declare live_deliver.simps [simp del]

text \<open>
  The events to replay come first, then the live ones; the transport stops after an event that
  leaves the queue empty. \<open>None\<close>: it waits for the first event.
\<close>

fun list_deliver :: "string \<Rightarrow> pydict list \<Rightarrow> pydict streams \<Rightarrow> (pydict list \<times> pydict streams) option" where
  "list_deliver sid [] g = live_deliver sid (snd (queue_for sid g))"
| "list_deliver sid (ev # evs) g =
     (if is_denied ev \<or> stream_size g sid = 0 then Some ([ev], g)
      else map_option (apfst ((#) ev)) (list_deliver sid evs g))"

definition list_response :: "string \<Rightarrow> pydict list \<Rightarrow> pydict" where
  "list_response sid events = [(''subscription_id'', PStr sid), (''events'', PList (map PDict events))]"

text \<open>\<open>SseStreamTransport._wrap_stream\<close>: every event carries the subscription.\<close>

definition wrap_event :: "string \<Rightarrow> pydict \<Rightarrow> pydict" where
  "wrap_event sid ev = (if map_of ev ''subscription_id'' = None then dict_merge ev [(''subscription_id'', PStr sid)] else ev)"

definition is_sse_transport_enabled :: "env \<Rightarrow> (string \<Rightarrow> string option) \<Rightarrow> bool" where
  "is_sse_transport_enabled E environ =
     (str_lower E (case environ ''WORMBASE_MCP_SSE_TRANSPORT'' of None \<Rightarrow> ''false'' | Some v \<Rightarrow> v)
        \<in> {''1'', ''true'', ''yes'', ''on''})"

lemma next_live_frame: "next_live sid g = Some (ev, g') \<Longrightarrow> s \<noteq> sid \<Longrightarrow> pending g' s = pending g s"
  by (auto simp: next_live_def pending_def split: list.splits)

lemma live_deliver_all:
  assumes "pending g sid \<noteq> []" and "\<forall>ev\<in>set (pending g sid). \<not> is_denied ev"
  shows "\<exists>g'. live_deliver sid g = Some (pending g sid, g') \<and> pending g' sid = [] \<and> (\<forall>s. s \<noteq> sid \<longrightarrow> pending g' s = pending g s)"
  using assms
proof (induction "length (pending g sid)" arbitrary: g)
  case 0
  then show ?case by simp
next
  case (Suc n)
  then obtain ev g1 where nxt: "next_live sid g = Some (ev, g1)" by (cases "pending g sid") (auto simp: next_live_def)
  note p = next_live_pending [OF nxt] and frame = next_live_frame [OF nxt]
  show ?case
  proof (cases "pending g1 sid = []")
    case True
    with p frame nxt show ?thesis by (subst live_deliver.simps) (simp add: stream_size_pending)
  next
    case False
    from Suc.hyps(2) p have n: "n = length (pending g1 sid)" by simp
    have ok: "\<forall>ev\<in>set (pending g1 sid). \<not> is_denied ev" and ev: "\<not> is_denied ev" using Suc.prems(2) p by simp_all
    from Suc.hyps(1) [OF n False ok] obtain g' where
      g': "live_deliver sid g1 = Some (pending g1 sid, g')" "pending g' sid = []" "\<And>s. s \<noteq> sid \<Longrightarrow> pending g' s = pending g1 s"
      by blast
    have "live_deliver sid g = Some (pending g sid, g')"
      using False ev by (subst live_deliver.simps) (simp add: nxt stream_size_pending g'(1) p)
    with g'(2,3) frame show ?thesis by auto
  qed
qed

lemma list_deliver_queue:
  assumes "pending g sid \<noteq> []" and "\<forall>ev\<in>set (evs @ pending g sid). \<not> is_denied ev"
  shows "\<exists>g'. list_deliver sid evs g = Some (evs @ pending g sid, g') \<and> pending g' sid = [] \<and>
    (\<forall>s. s \<noteq> sid \<longrightarrow> pending g' s = pending g s)"
  using assms
proof (induction evs)
  case Nil
  then show ?case
    using live_deliver_all [of "snd (queue_for sid g)" sid] by (simp add: queue_for_simps)
next
  case (Cons ev evs)
  then show ?case by (auto simp: stream_size_pending)
qed

text \<open>The list transport waits exactly when there is nothing to replay and nothing queued. With
  events queued it returns the replay and then the whole queue, which it empties, and leaves
  other queues alone. With an empty queue it returns the first event of the replay only, however
  many the replay has.\<close>

theorem list_transport_events:
  assumes "\<forall>ev\<in>set (evs @ pending g sid). \<not> is_denied ev"
  shows "case list_deliver sid evs g of
      None \<Rightarrow> evs = [] \<and> pending g sid = []
    | Some (got, g') \<Rightarrow>
        got = (if pending g sid = [] then take 1 evs else evs @ pending g sid) \<and> got \<noteq> [] \<and>
        pending g' sid = [] \<and> (\<forall>s. s \<noteq> sid \<longrightarrow> pending g' s = pending g s)"
proof (cases "pending g sid = []")
  case False
  with list_deliver_queue [OF this assms] show ?thesis by auto
next
  case True
  have "next_live sid (snd (queue_for sid g)) = None"
    using queue_for_simps(2) [of sid g sid] True by (simp add: next_live_def)
  then have "live_deliver sid (snd (queue_for sid g)) = None" by (subst live_deliver.simps) simp
  with True show ?thesis by (cases evs) (simp_all add: stream_size_pending)
qed

theorem list_transport_events_witness:
  "\<exists>g'. list_deliver ''s'' [[(''n'', PInt 1)], [(''n'', PInt 2)]] (streams_init 5) = Some ([[(''n'', PInt 1)]], g')"
proof -
  have p: "pending (streams_init 5) ''s'' = ([] :: pydict list)" by (simp add: streams_init_def pending_def)
  have "\<forall>ev\<in>set ([[(''n'', PInt 1)], [(''n'', PInt 2)]] @ pending (streams_init 5) ''s''). \<not> is_denied ev"
    by (simp add: p is_denied_def)
  from list_transport_events [OF this] show ?thesis
    by (cases "list_deliver ''s'' [[(''n'', PInt 1)], [(''n'', PInt 2)]] (streams_init 5)")
       (auto simp: p simp del: list_deliver.simps)
qed

end
