(* ===== verification/Projection_State.thy ===== *)
theory Projection_State
  imports Hash_Chain
begin

section \<open>The state of the projection fold (\<open>projections/builder.py\<close>)\<close>

text \<open>
  The fold keeps one dictionary of rows per projection table, the list of memories, the map from
  entries to credential rows and two counters. A row is a Python dictionary; a key is the value
  the code files it under. This theory has the identifiers the fold derives, the expressions its
  dictionary literals are made of and the operations on tables. Identifier and number texts are
  ASCII; \<open>float\<close> and \<open>datetime.fromisoformat\<close> of a text are parameters.
\<close>

record fold_lib =
  fl_env :: env
  fl_float :: "string \<Rightarrow> rat option"
  fl_iso :: "string \<Rightarrow> pytime option"

subsection \<open>\<open>uuid.UUID\<close>\<close>

text \<open>\<open>s.replace(p, r)\<close> for a non-empty \<open>p\<close>.\<close>

function py_replace :: "string \<Rightarrow> string \<Rightarrow> string \<Rightarrow> string" where
  "py_replace p r [] = []"
| "py_replace p r (c # cs) =
     (if p \<noteq> [] \<and> starts_with (c # cs) p then r @ py_replace p r (drop (length p) (c # cs))
      else c # py_replace p r cs)"
  by pat_completeness auto

termination
  by (relation "measure (\<lambda>(p, r, s). length s)") (auto simp: length_greater_0_conv [symmetric] simp del: length_greater_0_conv)

text \<open>\<open>int(h, 16)\<close> of a text without a minus sign: blanks around, a plus, a \<open>0x\<close>, single underscores.\<close>

definition hex_val :: "char \<Rightarrow> nat option" where
  "hex_val c =
     (let n = (of_char c :: nat)
      in if 48 \<le> n \<and> n \<le> 57 then Some (n - 48)
         else if 97 \<le> n \<and> n \<le> 102 then Some (n - 87)
         else if 65 \<le> n \<and> n \<le> 70 then Some (n - 55)
         else None)"

fun hex_tail :: "nat \<Rightarrow> string \<Rightarrow> nat option" where
  "hex_tail acc [] = Some acc"
| "hex_tail acc (c # cs) =
     (case hex_val c of
        Some v \<Rightarrow> hex_tail (16 * acc + v) cs
      | None \<Rightarrow>
          if c = CHR ''_'' then
            (case cs of [] \<Rightarrow> None
             | d # ds \<Rightarrow> (case hex_val d of None \<Rightarrow> None | Some v \<Rightarrow> hex_tail (16 * acc + v) ds))
          else None)"

definition hex_digits :: "string \<Rightarrow> nat option" where
  "hex_digits cs = (case cs of [] \<Rightarrow> None | c # _ \<Rightarrow> if hex_val c = None then None else hex_tail 0 cs)"

definition hex_prefixed :: "string \<Rightarrow> nat option" where
  "hex_prefixed cs =
     (case cs of
        c # d # ds \<Rightarrow>
          if c = CHR ''0'' \<and> d \<in> {CHR ''x'', CHR ''X''}
          then hex_digits (case ds of [] \<Rightarrow> [] | x # xs \<Rightarrow> if x = CHR ''_'' then xs else ds)
          else hex_digits cs
      | _ \<Rightarrow> hex_digits cs)"

definition hex_int :: "string \<Rightarrow> nat option" where
  "hex_int s =
     (case py_strip s of [] \<Rightarrow> None | c # cs \<Rightarrow> if c = CHR ''+'' then hex_prefixed cs else hex_prefixed (c # cs))"

definition strip_braces :: "string \<Rightarrow> string" where
  "strip_braces s =
     (let brace = (\<lambda>c. c \<in> {CHR ''{'', CHR ''}''}) in rev (dropWhile brace (rev (dropWhile brace s))))"

definition dashed :: "string \<Rightarrow> uuid" where
  "dashed h = take 8 h @ ''-'' @ take 4 (drop 8 h) @ ''-'' @ take 4 (drop 12 h) @ ''-'' @ take 4 (drop 16 h) @ ''-'' @ drop 20 h"

fun hex_nat :: "nat \<Rightarrow> nat \<Rightarrow> string" where
  "hex_nat 0 n = []"
| "hex_nat (Suc k) n = hex_nat k (n div 16) @ [hex_digit (n mod 16)]"

definition uuid_of_nat :: "nat \<Rightarrow> uuid" where
  "uuid_of_nat n = dashed (hex_nat 32 n)"

text \<open>\<open>UUID(s)\<close>, and \<open>UUID(v)\<close> of any value; \<open>str\<close> of the result is the text kept.\<close>

definition uuid_text :: "string \<Rightarrow> uuid option" where
  "uuid_text s =
     (let h = filter (\<lambda>c. c \<noteq> CHR ''-'') (strip_braces (py_replace ''uuid:'' [] (py_replace ''urn:'' [] s)))
      in if length h \<noteq> 32 then None else map_option uuid_of_nat (hex_int h))"

fun py_uuid :: "pyval \<Rightarrow> exc + pyval" where
  "py_uuid (PStr s) = (case uuid_text s of None \<Rightarrow> Inl ValueError | Some u \<Rightarrow> Inr (PUuid u))"
| "py_uuid PNone = Inl TypeError"
| "py_uuid (PBytes b) = Inl TypeError"
| "py_uuid (PTime t) = Inl TypeError"
| "py_uuid _ = Inl AttributeError"

subsection \<open>Derived identifiers\<close>

fun str_part :: "pyval \<Rightarrow> exc + string" where
  "str_part (PStr s) = Inr s"
| "str_part _ = Inl TypeError"

text \<open>\<open>hashlib.sha256("|".join(parts).encode("utf-8")).digest()[:16]\<close>.\<close>

definition id_bytes :: "fold_lib \<Rightarrow> pyval list \<Rightarrow> exc + bytes" where
  "id_bytes F parts = rbind (rmap str_part parts) (\<lambda>ss. Inr (take 16 (sha256 (fl_env F) (join ''|'' ss))))"

definition identity_uuid :: "fold_lib \<Rightarrow> pyval list \<Rightarrow> exc + pyval" where
  "identity_uuid F parts = rbind (id_bytes F parts) (\<lambda>b. Inr (PUuid (dashed (bytes_hex b))))"

definition role_grant_uuid :: "fold_lib \<Rightarrow> pyval list \<Rightarrow> exc + pyval" where
  "role_grant_uuid F parts = rbind (id_bytes F parts) (\<lambda>b. Inr (PUuid (dashed (bytes_hex b))))"

definition data_product_uuid :: "fold_lib \<Rightarrow> pyval list \<Rightarrow> exc + pyval" where
  "data_product_uuid F parts = rbind (id_bytes F parts) (\<lambda>b. Inr (PUuid (dashed (bytes_hex b))))"

definition notebook_run_uuid :: "fold_lib \<Rightarrow> pyval list \<Rightarrow> exc + pyval" where
  "notebook_run_uuid F parts = rbind (id_bytes F parts) (\<lambda>b. Inr (PUuid (dashed (bytes_hex b))))"

definition external_catalog_uuid :: "fold_lib \<Rightarrow> pyval list \<Rightarrow> exc + pyval" where
  "external_catalog_uuid F parts = rbind (id_bytes F parts) (\<lambda>b. Inr (PUuid (dashed (bytes_hex b))))"

definition external_lineage_uuid :: "fold_lib \<Rightarrow> pyval list \<Rightarrow> exc + pyval" where
  "external_lineage_uuid F parts = rbind (id_bytes F parts) (\<lambda>b. Inr (PUuid (dashed (bytes_hex b))))"

definition external_policy_uuid :: "fold_lib \<Rightarrow> pyval list \<Rightarrow> exc + pyval" where
  "external_policy_uuid F parts = rbind (id_bytes F parts) (\<lambda>b. Inr (PUuid (dashed (bytes_hex b))))"

definition external_metric_uuid :: "fold_lib \<Rightarrow> pyval list \<Rightarrow> exc + pyval" where
  "external_metric_uuid F parts = rbind (id_bytes F parts) (\<lambda>b. Inr (PUuid (dashed (bytes_hex b))))"

definition agent_grant_uuid :: "fold_lib \<Rightarrow> pyval list \<Rightarrow> exc + pyval" where
  "agent_grant_uuid F parts = rbind (id_bytes F parts) (\<lambda>b. Inr (PStr (bytes_hex b)))"

definition query_outcome_uuid :: "fold_lib \<Rightarrow> pyval list \<Rightarrow> exc + pyval" where
  "query_outcome_uuid F parts = rbind (id_bytes F parts) (\<lambda>b. Inr (PStr (bytes_hex b)))"

definition query_template_uuid :: "fold_lib \<Rightarrow> pyval list \<Rightarrow> exc + pyval" where
  "query_template_uuid F parts = rbind (id_bytes F parts) (\<lambda>b. Inr (PStr (bytes_hex b)))"

definition credential_uuid :: "fold_lib \<Rightarrow> pyval list \<Rightarrow> exc + pyval" where
  "credential_uuid F parts = rbind (id_bytes F parts) (\<lambda>b. Inr (PStr (bytes_hex b)))"

subsection \<open>Expressions of a handler\<close>

text \<open>A dictionary literal: its values in order, up to the first exception.\<close>

fun dict_of :: "(string \<times> (exc + pyval)) list \<Rightarrow> exc + pydict" where
  "dict_of [] = Inr []"
| "dict_of ((k, m) # fs) = rbind m (\<lambda>v. rbind (dict_of fs) (\<lambda>d. Inr ((k, v) # d)))"

definition lit :: "string \<Rightarrow> exc + pyval" where
  "lit s = Inr (PStr s)"

definition null :: "exc + pyval" where
  "null = Inr PNone"

definition ts_of :: "entry \<Rightarrow> pyval" where
  "ts_of e = PTime (Aware (e_ts e))"

text \<open>\<open>UUID(d[k])\<close>; \<open>UUID(d[k]) if d.get(k) else None\<close>; \<open>list(d.get(k, []))\<close>; \<open>int(d[k])\<close>.\<close>

definition uuid_item :: "pyval \<Rightarrow> string \<Rightarrow> exc + pyval" where
  "uuid_item a k = rbind (vitem a k) py_uuid"

definition opt_uuid :: "pyval \<Rightarrow> string \<Rightarrow> exc + pyval" where
  "opt_uuid a k = rbind (vget a k) (\<lambda>v. if truthy v then py_uuid v else Inr PNone)"

definition list_item :: "pyval \<Rightarrow> string \<Rightarrow> exc + pyval" where
  "list_item a k = rbind (vget_or a k (PList [])) (\<lambda>v. rbind (py_iter v) (\<lambda>xs. Inr (PList xs)))"

definition int_item :: "pyval \<Rightarrow> string \<Rightarrow> exc + pyval" where
  "int_item a k =
     rbind (vitem a k) (\<lambda>v. case py_int_of v of
       Some i \<Rightarrow> Inr (PInt i)
     | None \<Rightarrow> Inl (case v of PStr s \<Rightarrow> ValueError | PBytes b \<Rightarrow> ValueError | _ \<Rightarrow> TypeError))"

text \<open>\<open>str(d.get(k) or "")\<close>; \<open>str(v) if (v := d.get(k)) else None\<close>; \<open>d.get(k) or {}\<close> if that is a dictionary.\<close>

definition str_arg :: "fold_lib \<Rightarrow> pydict \<Rightarrow> string \<Rightarrow> string" where
  "str_arg F d k = py_str (fl_env F) (py_or (dget d k) (PStr []))"

definition opt_str_arg :: "fold_lib \<Rightarrow> pydict \<Rightarrow> string \<Rightarrow> pyval" where
  "opt_str_arg F d k = (if truthy (dget d k) then PStr (py_str (fl_env F) (dget d k)) else PNone)"

definition dict_arg :: "pydict \<Rightarrow> string \<Rightarrow> pyval" where
  "dict_arg d k = (case py_or (dget d k) (PDict []) of PDict x \<Rightarrow> PDict x | _ \<Rightarrow> PDict [])"

text \<open>\<open>f"{x:.2f}"\<close>.\<close>

definition fixed2 :: "rat \<Rightarrow> string" where
  "fixed2 r =
     (let n = nat (round_half_even (\<bar>r\<bar> * 100))
      in (if r < 0 then ''-'' else []) @ dec_nat (n div 100) @ ''.'' @ zpad 2 (n mod 100))"

text \<open>A parsed time is taken as UTC where it names no zone.\<close>

definition utc_time :: "pytime \<Rightarrow> pyval" where
  "utc_time t = PTime (Aware (case t of Aware u \<Rightarrow> u | Naive u \<Rightarrow> u))"

definition parse_topic_ts :: "fold_lib \<Rightarrow> pyval \<Rightarrow> exc + pyval" where
  "parse_topic_ts F raw =
     (case raw of
        PTime t \<Rightarrow> Inr (utc_time t)
      | PStr s \<Rightarrow> if s = [] then Inl ValueError
          else (case fl_iso F s of None \<Rightarrow> Inl ValueError | Some t \<Rightarrow> Inr (utc_time t))
      | _ \<Rightarrow> Inl ValueError)"

definition parse_iso_ts :: "fold_lib \<Rightarrow> pyval \<Rightarrow> pyval" where
  "parse_iso_ts F raw =
     (case raw of
        PTime t \<Rightarrow> utc_time t
      | PStr s \<Rightarrow> if s = [] then PNone
          else (case fl_iso F (py_replace ''Z'' ''+00:00'' s) of None \<Rightarrow> PNone | Some t \<Rightarrow> utc_time t)
      | _ \<Rightarrow> PNone)"

subsection \<open>Tables\<close>

type_synonym table = "(pyval \<times> pydict) list"

record proj_state =
  pj_tables :: "string \<Rightarrow> table"
  pj_memory :: "pydict list"
  pj_chain :: "(string \<times> pyval) list"
  pj_chat :: nat
  pj_resolve :: nat

definition initial_projection_state :: proj_state where
  "initial_projection_state = \<lparr>pj_tables = (\<lambda>_. []), pj_memory = [], pj_chain = [], pj_chat = 0, pj_resolve = 0\<rparr>"

fun find_row :: "pyval \<Rightarrow> table \<Rightarrow> pydict option" where
  "find_row k [] = None"
| "find_row k (p # t) = (if py_eq (fst p) k then Some (snd p) else find_row k t)"

fun put_row :: "pyval \<Rightarrow> pydict \<Rightarrow> table \<Rightarrow> table" where
  "put_row k r [] = [(k, r)]"
| "put_row k r (p # t) = (if py_eq (fst p) k then (fst p, r) # t else p # put_row k r t)"

fun update_first :: "(pydict \<Rightarrow> bool) \<Rightarrow> (pydict \<Rightarrow> pydict) \<Rightarrow> table \<Rightarrow> table" where
  "update_first P f [] = []"
| "update_first P f (p # t) = (if P (snd p) then (fst p, f (snd p)) # t else p # update_first P f t)"

definition set_table :: "string \<Rightarrow> (table \<Rightarrow> table) \<Rightarrow> proj_state \<Rightarrow> proj_state" where
  "set_table n f st = st\<lparr>pj_tables := (pj_tables st)(n := f (pj_tables st n))\<rparr>"

text \<open>\<open>state[n].get(k)\<close> and \<open>state[n][k] = r\<close>; a key that cannot be hashed raises.\<close>

definition get_row :: "string \<Rightarrow> pyval \<Rightarrow> proj_state \<Rightarrow> exc + pydict option" where
  "get_row n k st = (if hashable k then Inr (find_row k (pj_tables st n)) else Inl TypeError)"

definition set_row :: "string \<Rightarrow> pyval \<Rightarrow> pydict \<Rightarrow> proj_state \<Rightarrow> exc + proj_state" where
  "set_row n k r st = (if hashable k then Inr (set_table n (put_row k r) st) else Inl TypeError)"

text \<open>\<open>if k in state[n]: state[n][k].update(f(row))\<close>.\<close>

definition update_row :: "string \<Rightarrow> pyval \<Rightarrow> (pydict \<Rightarrow> exc + pydict) \<Rightarrow> proj_state \<Rightarrow> exc + proj_state" where
  "update_row n k f st =
     rbind (get_row n k st) (\<lambda>r. case r of
       None \<Rightarrow> Inr st
     | Some row \<Rightarrow> rbind (f row) (\<lambda>d. set_row n k (dict_merge row d) st))"

end
