(* ===== verification/Payload_Types.thy ===== *)
theory Payload_Types
  imports Projection_State
begin

section \<open>Payload classes (\<open>entries.py\<close>)\<close>

text \<open>
  A payload class is a kind, fields with a type and perhaps a default, and a rule over all fields;
  other fields are forbidden. The values are those of \<open>model_dump(mode="json")\<close>: an identifier is
  its canonical text, a time a text the ISO parser reads, a tuple a list. A value of this form
  validates as it is. The ISO parser and the kinds of the connector registry are parameters.
\<close>

record payload_lib =
  pl_fold :: fold_lib
  pl_connectors :: "string list"

subsection \<open>Types of fields\<close>

datatype field_rule =
    NonEmpty
  | LenAtLeast nat
  | LenAtMost nat
  | AtLeast rat
  | AtMost rat
  | OneOf "string list"
  | StartsWithAny "string list"
  | HexDigits
  | TzAware
  | AudienceForm
  | KnownConnector

datatype field_type =
    TStr
  | TInt
  | TFloat
  | TBool
  | TUuid
  | TTime
  | TDict
  | TDictOf field_type
  | TList field_type
  | TPair field_type field_type
  | TLit "string list"
  | TOpt field_type
  | TSuch field_type "field_rule list"
  | TModel "(string \<times> field_type \<times> pyval option) list"

type_synonym field = "string \<times> field_type \<times> pyval option"

text \<open>A field that must be given, and one with a default.\<close>

definition needs :: "string \<Rightarrow> field_type \<Rightarrow> field" where
  "needs n t = (n, t, None)"

definition takes :: "string \<Rightarrow> field_type \<Rightarrow> pyval \<Rightarrow> field" where
  "takes n t v = (n, t, Some v)"

definition audience_form :: "string \<Rightarrow> bool" where
  "audience_form s =
     (s = ''company'' \<or> starts_with s ''person:'' \<and> uuid_text (drop 7 s) \<noteq> None \<or>
      starts_with s ''team:'' \<and> uuid_text (drop 5 s) \<noteq> None)"

text \<open>The validators; those of an optional field let \<open>None\<close> pass.\<close>

definition text_meets :: "payload_lib \<Rightarrow> string \<Rightarrow> field_rule \<Rightarrow> bool" where
  "text_meets V s r =
     (case r of
        NonEmpty \<Rightarrow> s \<noteq> []
      | LenAtLeast n \<Rightarrow> n \<le> length s
      | LenAtMost n \<Rightarrow> length s \<le> n
      | OneOf ss \<Rightarrow> s \<in> set ss
      | StartsWithAny ps \<Rightarrow> list_ex (starts_with s) ps
      | HexDigits \<Rightarrow> list_all (\<lambda>c. hex_val c \<noteq> None) s
      | TzAware \<Rightarrow> (case fl_iso (pl_fold V) s of Some (Aware _) \<Rightarrow> True | _ \<Rightarrow> False)
      | AudienceForm \<Rightarrow> audience_form s
      | KnownConnector \<Rightarrow> pl_connectors V = [] \<or> s \<in> set (pl_connectors V)
      | _ \<Rightarrow> True)"

definition number_meets :: "rat \<Rightarrow> field_rule \<Rightarrow> bool" where
  "number_meets q r = (case r of AtLeast b \<Rightarrow> b \<le> q | AtMost b \<Rightarrow> q \<le> b | _ \<Rightarrow> True)"

definition meets :: "payload_lib \<Rightarrow> pyval \<Rightarrow> field_rule \<Rightarrow> bool" where
  "meets V v r =
     (case v of
        PStr s \<Rightarrow> text_meets V s r
      | PInt i \<Rightarrow> number_meets (of_int i) r
      | PFloat q \<Rightarrow> number_meets q r
      | _ \<Rightarrow> True)"

fun has_type :: "payload_lib \<Rightarrow> pyval \<Rightarrow> field_type \<Rightarrow> bool"
  and fields_typed :: "payload_lib \<Rightarrow> pydict \<Rightarrow> field list \<Rightarrow> bool" where
  "has_type V v TStr = (case v of PStr _ \<Rightarrow> True | _ \<Rightarrow> False)"
| "has_type V v TInt = (case v of PInt _ \<Rightarrow> True | _ \<Rightarrow> False)"
| "has_type V v TFloat = (case v of PFloat _ \<Rightarrow> True | _ \<Rightarrow> False)"
| "has_type V v TBool = (case v of PBool _ \<Rightarrow> True | _ \<Rightarrow> False)"
| "has_type V v TUuid = (case v of PStr s \<Rightarrow> uuid_text s = Some s | _ \<Rightarrow> False)"
| "has_type V v TTime = (case v of PStr s \<Rightarrow> s \<noteq> [] \<and> fl_iso (pl_fold V) s \<noteq> None | _ \<Rightarrow> False)"
| "has_type V v TDict = (case v of PDict _ \<Rightarrow> True | _ \<Rightarrow> False)"
| "has_type V v (TDictOf t) = (case v of PDict d \<Rightarrow> list_all (\<lambda>p. has_type V (snd p) t) d | _ \<Rightarrow> False)"
| "has_type V v (TList t) = (case v of PList xs \<Rightarrow> list_all (\<lambda>x. has_type V x t) xs | _ \<Rightarrow> False)"
| "has_type V v (TPair t u) = (case v of PList [x, y] \<Rightarrow> has_type V x t \<and> has_type V y u | _ \<Rightarrow> False)"
| "has_type V v (TLit ss) = (case v of PStr s \<Rightarrow> s \<in> set ss | _ \<Rightarrow> False)"
| "has_type V v (TOpt t) = (v = PNone \<or> has_type V v t)"
| "has_type V v (TSuch t rs) = (has_type V v t \<and> list_all (meets V v) rs)"
| "has_type V v (TModel fs) =
     (case v of PDict d \<Rightarrow> list_all (\<lambda>p. fst p \<in> fst ` set fs) d \<and> fields_typed V d fs | _ \<Rightarrow> False)"
| "fields_typed V d [] = True"
| "fields_typed V d ((n, t, dflt) # fs) =
     ((case map_of d n of None \<Rightarrow> dflt \<noteq> None | Some v \<Rightarrow> has_type V v t) \<and> fields_typed V d fs)"

subsection \<open>Classes\<close>

record payload_class =
  pc_kind :: string
  pc_fields :: "field list"
  pc_rule :: "pydict \<Rightarrow> bool"

definition payload :: "string \<Rightarrow> field list \<Rightarrow> payload_class" where
  "payload k fs = \<lparr>pc_kind = k, pc_fields = fs, pc_rule = (\<lambda>_. True)\<rparr>"

text \<open>\<open>payload_cls(**args)\<close> does not raise.\<close>

definition validates :: "payload_lib \<Rightarrow> payload_class \<Rightarrow> pydict \<Rightarrow> bool" where
  "validates V C args =
     (list_all (\<lambda>p. fst p \<in> fst ` set (pc_fields C)) args \<and> fields_typed V args (pc_fields C) \<and> pc_rule C args)"

text \<open>
  \<open>payload_cls(**args).model_dump(mode="json")\<close>: every field, with its default where it was not
  given. The one validator that changes its value lowers the case of hexadecimal digits.
\<close>

definition hex_lower :: "char \<Rightarrow> char" where
  "hex_lower c =
     (case map_of (zip ''ABCDEF'' ''abcdef'') c of Some l \<Rightarrow> l | None \<Rightarrow> c)"

fun dump_value :: "field_type \<Rightarrow> pyval \<Rightarrow> pyval"
  and dump_fields :: "field list \<Rightarrow> pydict \<Rightarrow> pydict" where
  "dump_value (TList t) v = (case v of PList xs \<Rightarrow> PList (map (dump_value t) xs) | _ \<Rightarrow> v)"
| "dump_value (TModel fs) v = (case v of PDict d \<Rightarrow> PDict (dump_fields fs d) | _ \<Rightarrow> v)"
| "dump_value (TOpt t) v = (if v = PNone then v else dump_value t v)"
| "dump_value (TSuch t rs) v =
     (case dump_value t v of PStr s \<Rightarrow> PStr (if HexDigits \<in> set rs then map hex_lower s else s) | w \<Rightarrow> w)"
| "dump_value _ v = v"
| "dump_fields [] d = []"
| "dump_fields ((n, t, dflt) # fs) d =
     (n, case map_of d n of
           Some v \<Rightarrow> dump_value t v
         | None \<Rightarrow> (case dflt of Some v \<Rightarrow> v | None \<Rightarrow> PNone)) # dump_fields fs d"

definition model_dump :: "payload_class \<Rightarrow> pydict \<Rightarrow> pydict" where
  "model_dump C args = dump_fields (pc_fields C) args"

subsection \<open>Reading validated arguments\<close>

definition one_of :: "string \<Rightarrow> string list \<Rightarrow> bool" where
  "one_of s ss = (s \<in> set ss)"

lemma type_iffs: "has_type V v TStr \<longleftrightarrow> (\<exists>s. v = PStr s)" "has_type V v (TLit ss) \<longleftrightarrow> (\<exists>s. v = PStr s \<and> one_of s ss)"
  "has_type V v TUuid \<longleftrightarrow> (\<exists>s. v = PStr s \<and> uuid_text s = Some s)" "has_type V v TInt \<longleftrightarrow> (\<exists>i. v = PInt i)"
  "has_type V v TFloat \<longleftrightarrow> (\<exists>q. v = PFloat q)" "has_type V v TBool \<longleftrightarrow> (\<exists>b. v = PBool b)"
  "has_type V v TDict \<longleftrightarrow> (\<exists>d. v = PDict d)" "has_type V v (TList t) \<longleftrightarrow> (\<exists>xs. v = PList xs \<and> list_all (\<lambda>x. has_type V x t) xs)"
  "has_type V v TTime \<longleftrightarrow> (\<exists>s. v = PStr s \<and> s \<noteq> [] \<and> fl_iso (pl_fold V) s \<noteq> None)"
  by (auto simp: has_type.simps one_of_def split: pyval.splits)

lemma fields_needs: "fields_typed V d (needs n t # fs) \<longleftrightarrow> (\<exists>v. map_of d n = Some v \<and> has_type V v t) \<and> fields_typed V d fs"
  by (auto simp: needs_def fields_typed.simps split: option.splits)

lemma fields_takes: "fields_typed V d (takes n t w # fs) \<longleftrightarrow>
    (map_of d n = None \<or> (\<exists>v. map_of d n = Some v \<and> has_type V v t)) \<and> fields_typed V d fs"
  by (auto simp: takes_def fields_typed.simps split: option.splits)

lemma has_type_opt: "has_type V v (TOpt t) \<longleftrightarrow> v = PNone \<or> has_type V v t"
  "has_type V v (TSuch t rs) \<longleftrightarrow> has_type V v t \<and> list_all (meets V v) rs"
  by (simp_all add: has_type.simps)

lemma validatesD: "validates V C d \<Longrightarrow> fields_typed V d (pc_fields C)"
  by (simp add: validates_def)

text \<open>What a class promises of the arguments it validates.\<close>

lemmas class_simps = payload_def fields_needs fields_takes fields_typed.simps(1) type_iffs has_type_opt

lemma needs_takes_names: "fst (needs n t) = n" "fst (takes n t w) = n"
  by (simp_all add: needs_def takes_def)

end
