(* ===== verification/Payload_Classes.thy ===== *)
theory Payload_Classes
  imports Payload_Types
begin

section \<open>The payload classes and their registry (\<open>entries.py\<close>)\<close>

text \<open>
  One definition per subclass of \<open>EntryPayload\<close>, its fields in the order of the class, a
  \<open>Literal\<close> and the constraints of a \<open>Field\<close> and of the validators in the type of the field.
\<close>

subsection \<open>Enumerations\<close>

definition Classification :: field_type where
  "Classification = TLit
     [''public'', ''internal'', ''confidential'', ''pii'', ''regulated'']"

definition AddedViaFlow :: field_type where
  "AddedViaFlow = TLit
     [''drop_and_profile'', ''credential_offered_in_dm'', ''mentioned_in_conversation'', ''dashboard_form'',
      ''kpi_gap_triggered'', ''lake_discovery'', ''provisioned_at_install'']"

definition SpeechAct :: field_type where
  "SpeechAct = TLit
     [''introduction'', ''clarification'', ''proposal'', ''answer'', ''digest'']"

definition PersonRole :: field_type where
  "PersonRole = TLit
     [''admin'', ''owner'', ''member'', ''observer'']"

definition ExperimentOutcome :: field_type where
  "ExperimentOutcome = TLit
     [''keep'', ''discard'']"

definition OAUTH_GRANT_REF_PREFIXES :: "string list" where
  "OAUTH_GRANT_REF_PREFIXES =
     [''kms://'', ''vault://'']"

definition TENANCY_ROLES :: "string list" where
  "TENANCY_ROLES =
     [''installer'', ''admin'', ''member'', ''observer'']"

definition DOMAIN_ROLES :: "string list" where
  "DOMAIN_ROLES =
     [''owner'', ''contributor'']"

definition RESOURCE_ROLES :: "string list" where
  "RESOURCE_ROLES =
     [''maintainer'', ''contributor'']"

definition RESOURCE_TYPES :: "string list" where
  "RESOURCE_TYPES =
     [''source'', ''table'', ''kpi'', ''process'', ''policy'', ''domain'']"

definition DATA_PRODUCT_KINDS :: "string list" where
  "DATA_PRODUCT_KINDS =
     [''chart'', ''table'', ''report'', ''process_map'']"

definition DATA_PRODUCT_SURFACES :: "string list" where
  "DATA_PRODUCT_SURFACES =
     [''dashboard'', ''chat'', ''voice'', ''export'', ''mcp'', ''agent'', ''api'']"

definition NOTEBOOK_KERNELS :: "string list" where
  "NOTEBOOK_KERNELS =
     [''python_local'', ''python_pandas'', ''sql_postgres'']"

definition NOTEBOOK_RUN_STATUSES :: "string list" where
  "NOTEBOOK_RUN_STATUSES =
     [''ok'', ''error'']"

definition SetupMode :: field_type where
  "SetupMode = TLit
     [''wizard'', ''bot'']"

definition MCP_OUTCOMES :: "string list" where
  "MCP_OUTCOMES =
     [''ok'', ''error'', ''denied'', ''timeout'']"

definition REACTIVITY_SCOPES :: "string list" where
  "REACTIVITY_SCOPES =
     [''company'', ''team'', ''domain'', ''person'']"

definition PHENOMENON_GAP_KINDS :: "string list" where
  "PHENOMENON_GAP_KINDS =
     [''kpi'', ''domain'', ''process'', ''reactivity'']"

definition RESOURCE_CONVERSATION_OUTCOMES :: "string list" where
  "RESOURCE_CONVERSATION_OUTCOMES =
     [''decision'', ''process_update'', ''no_action'', ''muted'']"

definition KEEP_RATE_SCOPES :: "string list" where
  "KEEP_RATE_SCOPES =
     [''person'', ''team'', ''company'']"

definition LESSON_SCOPES :: "string list" where
  "LESSON_SCOPES =
     [''person'', ''team'', ''company'']"

definition SIGNUP_SOURCES :: "string list" where
  "SIGNUP_SOURCES =
     [''slack_oauth'', ''email_magic_link'', ''demo_seed'', ''bootstrapped'']"

definition ClassificationLevel :: field_type where
  "ClassificationLevel = TLit
     [''public'', ''internal'', ''confidential'', ''pii'', ''regulated'']"

definition EntityKind :: field_type where
  "EntityKind = TLit
     [''person'', ''organization'', ''transaction'', ''product'', ''event'', ''location'', ''session'', ''other'']"

definition SourceCandidateRejectReason :: field_type where
  "SourceCandidateRejectReason = TLit
     [''duplicate'', ''false_positive'', ''low_value'', ''out_of_scope'', ''other'']"

definition CatalogDriftKind :: field_type where
  "CatalogDriftKind = TLit
     [''table_added'', ''table_removed'', ''column_added'', ''column_removed'', ''column_type_changed'']"

definition CatalogDriftRejectReason :: field_type where
  "CatalogDriftRejectReason = TLit
     [''false_positive'', ''inconsequential'', ''expected_change'', ''out_of_scope'', ''other'']"

subsection \<open>Canonical kinds, clock ticks, sources and memory\<close>

definition ProposePayload :: payload_class where
  "ProposePayload = payload ''propose''
     [needs ''target_kind'' TStr, needs ''ref_id'' TUuid, needs ''reason'' TStr, needs ''proposed_by'' TStr]"

definition ExecutePayload :: payload_class where
  "ExecutePayload = payload ''execute''
     [needs ''propose_entry_id'' TUuid, needs ''tool'' TStr, needs ''args'' TDict, needs ''result_ref'' TStr]"

definition VerifyPayload :: payload_class where
  "VerifyPayload = payload ''verify''
     [needs ''execute_entry_id'' TUuid, needs ''checks'' (TList TDict), needs ''passed'' TBool]"

definition ResolvePayload :: payload_class where
  "ResolvePayload = payload ''resolve''
     [needs ''verify_entry_id'' TUuid, needs ''outcome'' (TLit [''keep'', ''discard'']), needs ''rationale'' TStr]"

definition ClockTickPayload :: payload_class where
  "ClockTickPayload = payload ''clock_tick''
     [needs ''tick_interval_s'' TInt, needs ''sequence_number'' TInt]"

definition SourceProposedPayload :: payload_class where
  "SourceProposedPayload = payload ''source_proposed''
     [needs ''source_id'' TUuid, needs ''source_kind'' TStr, needs ''uri'' TStr, needs ''added_via_flow'' AddedViaFlow,
      needs ''suggested_domain'' TStr, needs ''suggested_classification'' Classification]"

definition SourceConfirmedPayload :: payload_class where
  "SourceConfirmedPayload = payload ''source_confirmed''
     [needs ''source_id'' TUuid, needs ''confirmed_by_person'' TUuid, needs ''domain_id'' TUuid,
      needs ''classification'' Classification]"

definition SourceConnectedPayload :: payload_class where
  "SourceConnectedPayload = payload ''source_connected''
     [needs ''source_id'' TUuid, needs ''connection_ref'' TStr, needs ''connected_at'' (TSuch TTime [TzAware]),
      takes ''credential_ref'' (TOpt TStr) PNone]"

definition SourceProfiledPayload :: payload_class where
  "SourceProfiledPayload = payload ''source_profiled''
     [needs ''source_id'' TUuid, needs ''row_count'' TInt, needs ''column_count'' TInt, needs ''schema_hash'' TStr,
      needs ''profile_ref'' TStr]"

definition IngestLandedPayload :: payload_class where
  "IngestLandedPayload = payload ''ingest_landed''
     [needs ''source_id'' TUuid, needs ''object_uri'' TStr, needs ''bytes'' TInt, needs ''row_count'' TInt]"

definition IngestProfiledPayload :: payload_class where
  "IngestProfiledPayload = payload ''ingest_profiled''
     [needs ''source_id'' TUuid, needs ''profile_ref'' TStr, needs ''columns'' (TList TDict)]"

definition MemoryWrittenPayload :: payload_class where
  "MemoryWrittenPayload = payload ''memory_written''
     [needs ''memory_id'' TUuid, needs ''content'' TStr, needs ''tags'' (TList TStr)]"

definition ConceptProposedPayload :: payload_class where
  "ConceptProposedPayload = payload ''concept_proposed''
     [needs ''concept_id'' TUuid, needs ''name'' TStr, needs ''definition'' TStr, needs ''proposed_by'' TStr]"

definition ConceptConfirmedPayload :: payload_class where
  "ConceptConfirmedPayload = payload ''concept_confirmed''
     [needs ''concept_id'' TUuid, needs ''confirmed_by_person'' TUuid]"

subsection \<open>Chat, gates, experiments and policies\<close>

definition ChatReceivedPayload :: payload_class where
  "ChatReceivedPayload = payload ''chat_received''
     [needs ''channel_id'' TStr, needs ''message_id'' TStr, needs ''sender_person'' TUuid, needs ''text'' TStr,
      needs ''classification'' Classification,
      takes ''delivery_mode'' (TLit [''push'', ''history_sync'']) (PStr ''push''),
      takes ''platform_ts'' (TOpt TTime) PNone, takes ''history_sync_id'' (TOpt TStr) PNone,
      takes ''mentioned_jids'' (TOpt (TList TStr)) PNone, takes ''platform_user_id'' (TOpt TStr) PNone]"

definition ChatSentPayload :: payload_class where
  "ChatSentPayload = payload ''chat_sent''
     [needs ''channel_id'' TStr, needs ''message_id'' TStr, needs ''text'' TStr,
      takes ''in_reply_to'' (TOpt TStr) PNone, needs ''attribution'' TDict,
      takes ''speech_act'' SpeechAct (PStr ''answer'')]"

definition ConversationSyncPayload :: payload_class where
  "ConversationSyncPayload = payload ''conversation_sync''
     [needs ''sync_id'' TUuid, needs ''platform'' TStr, takes ''install_id'' (TOpt TStr) PNone,
      takes ''channels'' (TList TStr) (PList []),
      needs ''trigger'' (TLit [''initial_connect'', ''reconnect'', ''channel_join'']),
      needs ''started_at'' (TSuch TTime [TzAware]), takes ''completed_at'' (TSuch (TOpt TTime) [TzAware]) PNone,
      takes ''message_count'' TInt (PInt 0), takes ''earliest_ts'' (TSuch (TOpt TTime) [TzAware]) PNone,
      takes ''latest_ts'' (TSuch (TOpt TTime) [TzAware]) PNone,
      takes ''status'' (TLit [''in_progress'', ''completed'', ''interrupted'']) (PStr ''in_progress'')]"

definition ChatReplyProposedPayload :: payload_class where
  "ChatReplyProposedPayload = payload ''chat_reply_proposed''
     [needs ''chat_reply_id'' TUuid, needs ''channel_id'' TStr, needs ''speech_act'' SpeechAct, needs ''text'' TStr,
      takes ''in_reply_to'' (TOpt TStr) PNone, takes ''domain_id'' (TOpt TUuid) PNone]"

definition ChatReplyExecutedPayload :: payload_class where
  "ChatReplyExecutedPayload = payload ''chat_reply_executed''
     [needs ''chat_reply_id'' TUuid, needs ''channel_id'' TStr, needs ''platform'' TStr,
      needs ''adapter_call_started_at'' TTime, needs ''adapter_call_ended_at'' TTime]"

definition ChatReplyVerifiedPayload :: payload_class where
  "ChatReplyVerifiedPayload = payload ''chat_reply_verified''
     [needs ''chat_reply_id'' TUuid, needs ''passed'' TBool, takes ''message_ref'' (TOpt TStr) PNone,
      takes ''error'' (TOpt TStr) PNone]"

definition ChatReplyResolvedPayload :: payload_class where
  "ChatReplyResolvedPayload = payload ''chat_reply_resolved''
     [needs ''chat_reply_id'' TUuid, needs ''outcome'' (TLit [''keep'', ''discard'']), needs ''rationale'' TStr]"

definition GateFiredPayload :: payload_class where
  "GateFiredPayload = payload ''gate_fired''
     [needs ''gate'' TStr, needs ''outcome'' (TLit [''allowed'', ''blocked'', ''warned'']), needs ''subject_ref'' TStr,
      needs ''reason'' TStr]"

definition KpiAnsweredPayload :: payload_class where
  "KpiAnsweredPayload = payload ''kpi_answered''
     [needs ''question'' TStr, needs ''answer'' TStr, needs ''sql_ref'' TStr, needs ''answer_hash'' TStr,
      needs ''sources'' (TList TUuid)]"

definition HeuristicExperimentPayload :: payload_class where
  "HeuristicExperimentPayload = payload ''heuristic_experiment''
     [needs ''experiment_id'' TUuid, needs ''metric'' TStr, needs ''before'' TStr, needs ''after'' TStr,
      needs ''kept'' TBool]"

definition PolicyAppliedPayload :: payload_class where
  "PolicyAppliedPayload = payload ''policy_applied''
     [needs ''policy_id'' TUuid, needs ''applied_to_ref'' TStr,
      needs ''outcome'' (TLit [''masked'', ''redacted'', ''rejected'', ''applied''])]"

definition InferenceServedPayload :: payload_class where
  "InferenceServedPayload = payload ''inference_served''
     [needs ''request_id'' TUuid, needs ''served_by'' (TLit [''kimi'', ''gemma'', ''claude'', ''cache'']),
      needs ''is_fallback'' TBool, needs ''cache_key'' TStr, needs ''latency_ms'' TInt]"

definition InferenceCacheRefreshedPayload :: payload_class where
  "InferenceCacheRefreshedPayload = payload ''inference_cache_refreshed''
     [needs ''cache_path'' TStr, needs ''entries_invalidated'' (TSuch TInt [AtLeast 0]), needs ''reason'' TStr,
      needs ''refreshed_by'' TStr]"

subsection \<open>The medallion lake, processes and topics\<close>

definition SourceBronzedPayload :: payload_class where
  "SourceBronzedPayload = payload ''source_bronzed''
     [needs ''source_id'' TUuid, needs ''byte_count'' TInt, needs ''row_count'' TInt, needs ''col_count'' TInt,
      needs ''schema_hash'' TStr, needs ''mime'' TStr, needs ''raw_uri'' TStr,
      needs ''profiled_at'' (TSuch TTime [TzAware])]"

definition SourceSilveredPayload :: payload_class where
  "SourceSilveredPayload = payload ''source_silvered''
     [needs ''source_id'' TUuid, needs ''inferred_columns'' (TList TDict), needs ''join_candidates'' (TList TUuid),
      needs ''silvered_at'' (TSuch TTime [TzAware])]"

definition SourceGoldedPayload :: payload_class where
  "SourceGoldedPayload = payload ''source_golded''
     [needs ''source_id'' TUuid, needs ''gold_artifact_id'' TUuid,
      needs ''artifact_kind'' (TLit [''kpi'', ''aggregate'', ''chart_data'']), needs ''value'' TDict,
      needs ''computed_at'' (TSuch TTime [TzAware])]"

definition KpiProposedPayload :: payload_class where
  "KpiProposedPayload = payload ''kpi_proposed''
     [needs ''kpi_id'' TUuid, needs ''label'' TStr, needs ''formula'' TStr, needs ''source_ids'' (TList TUuid),
      needs ''unit'' TStr, takes ''owner_position'' (TOpt TStr) PNone, needs ''proposed_at'' (TSuch TTime [TzAware])]"

definition LakeDiscoveryPayload :: payload_class where
  "LakeDiscoveryPayload = payload ''lake_discovered''
     [needs ''lake_kind'' (TLit [''snowflake'', ''postgres'', ''s3'']), needs ''root_uri'' TStr,
      needs ''tables_seen'' TInt, needs ''sources_proposed'' TInt, needs ''classified_at'' (TSuch TTime [TzAware])]"

definition DecisionRecordedPayload :: payload_class where
  "DecisionRecordedPayload = payload ''decision_recorded''
     [needs ''decision_id'' TUuid, needs ''decision_text'' TStr, needs ''decision_at'' (TSuch TTime [TzAware]),
      needs ''channel_id'' TStr, needs ''decided_by_persons'' (TList TUuid),
      needs ''evidence_message_ids'' (TList TStr), needs ''confidence'' (TSuch TFloat [AtLeast 0, AtMost 1])]"

definition ProcessMapProposedPayload :: payload_class where
  "ProcessMapProposedPayload = payload ''process_map_proposed''
     [needs ''process_id'' TUuid, needs ''process_name'' TStr, needs ''steps'' (TList TDict), needs ''domain'' TStr,
      needs ''confidence'' (TSuch TFloat [AtLeast 0, AtMost 1])]"

definition SystemMapNodePayload :: payload_class where
  "SystemMapNodePayload = payload ''system_map_node''
     [needs ''node_kind'' (TLit [''person'', ''channel'', ''role'']), needs ''node_id'' TStr,
      needs ''edges'' (TList TDict)]"

definition RecurringQuestionPayload :: payload_class where
  "RecurringQuestionPayload = payload ''recurring_question''
     [needs ''question_id'' TUuid, needs ''normalized_question'' TStr, needs ''asked_by_persons'' (TList TUuid),
      needs ''occurrences'' (TSuch TInt [AtLeast 1]), needs ''first_seen_at'' (TSuch TTime [TzAware]),
      needs ''last_seen_at'' (TSuch TTime [TzAware]), takes ''suggested_automation'' (TOpt TStr) PNone]"

definition TopicProposedPayload :: payload_class where
  "TopicProposedPayload = payload ''topic_proposed''
     [needs ''topic_id'' TUuid, needs ''label'' (TSuch TStr [LenAtLeast 1, LenAtMost 256]),
      needs ''cluster_signature'' (TSuch TStr [LenAtLeast 1, LenAtMost 512]),
      needs ''cluster_size'' (TSuch TInt [AtLeast 2]), needs ''member_message_ids'' (TList TStr),
      needs ''first_seen_at'' (TSuch TTime [TzAware]), needs ''last_seen_at'' (TSuch TTime [TzAware]),
      takes ''confidence'' (TSuch TFloat [AtLeast 0, AtMost 1]) (PFloat (1 / 2)),
      takes ''served_by'' (TLit [''kimi'', ''gemma'', ''claude'', ''cache'', ''heuristic'']) (PStr ''heuristic'')]"

subsection \<open>Positions, experiments and metrics\<close>

definition PersonRegisteredPayload :: payload_class where
  "PersonRegisteredPayload = payload ''person_registered''
     [needs ''person_id'' TUuid, needs ''name'' TStr, takes ''email'' (TOpt TStr) PNone,
      takes ''role'' PersonRole (PStr ''member''), needs ''registered_at'' (TSuch TTime [TzAware])]"

definition PositionAssignedPayload :: payload_class where
  "PositionAssignedPayload = payload ''position_assigned''
     [needs ''person_id'' TUuid, needs ''position'' TStr, takes ''assigned_by_person_id'' (TOpt TUuid) PNone,
      needs ''at'' (TSuch TTime [TzAware])]"

definition PositionMetricAddedPayload :: payload_class where
  "PositionMetricAddedPayload = payload ''position_metric_added''
     [needs ''position'' TStr, needs ''metric_id'' TStr, needs ''weight'' (TSuch TFloat [AtLeast 0, AtMost 1]),
      takes ''by_person_id'' (TOpt TUuid) PNone]"

definition PositionQuestionPatternPayload :: payload_class where
  "PositionQuestionPatternPayload = payload ''position_question_pattern''
     [needs ''position'' TStr, needs ''pattern'' TStr, needs ''frequency_observed'' (TSuch TInt [AtLeast 1]),
      needs ''last_seen_at'' (TSuch TTime [TzAware])]"

definition ExperimentProposedPayload :: payload_class where
  "ExperimentProposedPayload = payload ''experiment_proposed''
     [needs ''experiment_id'' TUuid, needs ''for_person_id'' TUuid, needs ''position'' TStr,
      needs ''headline_metric'' TStr, needs ''proposed_change'' TDict, needs ''expected_delta'' TFloat,
      needs ''proposed_at'' (TSuch TTime [TzAware]), takes ''audience'' (TSuch (TOpt TStr) [AudienceForm]) PNone]"

definition ExperimentRunPayload :: payload_class where
  "ExperimentRunPayload = payload ''experiment_run''
     [needs ''experiment_id'' TUuid, needs ''started_at'' (TSuch TTime [TzAware]),
      needs ''finished_at'' (TSuch TTime [TzAware]), needs ''log'' TDict]"

definition ExperimentResolvedPayload :: payload_class where
  "ExperimentResolvedPayload = payload ''experiment_resolved''
     [needs ''experiment_id'' TUuid, needs ''outcome'' ExperimentOutcome, needs ''observed_delta'' TFloat,
      needs ''rationale'' TStr, needs ''resolved_at'' (TSuch TTime [TzAware])]"

definition MetricObservedPayload :: payload_class where
  "MetricObservedPayload = payload ''metric_observed''
     [needs ''metric_id'' TStr, needs ''position'' TStr, needs ''value'' TFloat,
      needs ''observed_at'' (TSuch TTime [TzAware]), takes ''source_id'' (TOpt TUuid) PNone]"

subsection \<open>Persons, identities and installs\<close>

definition PersonProposedPayload :: payload_class where
  "PersonProposedPayload = payload ''person_proposed''
     [needs ''person_id'' TUuid, needs ''tenant_id'' TUuid, needs ''name'' TStr, takes ''email'' (TOpt TStr) PNone,
      needs ''platform'' TStr, needs ''platform_user_id'' TStr, needs ''proposed_by'' TStr,
      takes ''position'' (TOpt TStr) PNone]"

definition PersonConfirmedPayload :: payload_class where
  "PersonConfirmedPayload = payload ''person_confirmed''
     [needs ''person_id'' TUuid, needs ''confirmed_by'' TUuid]"

definition PersonArchivedPayload :: payload_class where
  "PersonArchivedPayload = payload ''person_archived''
     [needs ''person_id'' TUuid, needs ''archived_by'' TUuid, needs ''reason'' TStr]"

definition PersonInvitedPayload :: payload_class where
  "PersonInvitedPayload = payload ''person_invited''
     [takes ''invitee_email'' (TOpt TStr) PNone, takes ''invitee_platform_id'' (TOpt TStr) PNone,
      needs ''invited_by_person_id'' TUuid,
      takes ''role_intent'' (TLit [''admin'', ''member'', ''observer'']) (PStr ''member''),
      takes ''notes'' (TOpt TStr) PNone]"

definition IdentityLinkedPayload :: payload_class where
  "IdentityLinkedPayload = payload ''identity_linked''
     [needs ''person_id'' TUuid, needs ''platform'' TStr, needs ''platform_user_id'' TStr, needs ''linked_by'' TUuid]"

definition IdentityUnlinkedPayload :: payload_class where
  "IdentityUnlinkedPayload = payload ''identity_unlinked''
     [needs ''person_id'' TUuid, needs ''platform'' TStr, needs ''platform_user_id'' TStr, needs ''unlinked_by'' TUuid]"

definition InstallCompletedPayload :: payload_class where
  "InstallCompletedPayload = payload ''install_completed''
     [needs ''install_id'' TUuid, needs ''tenant_id'' TUuid, needs ''platform'' TStr,
      needs ''installer_person_id'' TUuid,
      needs ''oauth_grant_ref'' (TSuch TStr [StartsWithAny OAUTH_GRANT_REF_PREFIXES]), needs ''scopes'' (TList TStr),
      needs ''bot_user_id'' TStr]"

definition InstallRevokedPayload :: payload_class where
  "InstallRevokedPayload = payload ''install_revoked''
     [needs ''install_id'' TUuid, needs ''revoked_by'' TUuid]"

subsection \<open>Roles and positions\<close>

definition RoleAssignedPayload :: payload_class where
  "RoleAssignedPayload = payload ''role_assigned''
     [needs ''person_id'' TUuid, needs ''role'' (TSuch TStr [OneOf TENANCY_ROLES]), needs ''granted_by'' TUuid]"

definition RoleRevokedPayload :: payload_class where
  "RoleRevokedPayload = payload ''role_revoked''
     [needs ''person_id'' TUuid, needs ''role'' (TSuch TStr [OneOf TENANCY_ROLES]), needs ''revoked_by'' TUuid]"

definition DomainRoleAssignedPayload :: payload_class where
  "DomainRoleAssignedPayload = payload ''domain_role_assigned''
     [needs ''person_id'' TUuid, needs ''domain_id'' TUuid, needs ''role'' (TSuch TStr [OneOf DOMAIN_ROLES]),
      needs ''granted_by'' TUuid]"

definition DomainPackSelectedPayload :: payload_class where
  "DomainPackSelectedPayload = payload ''domain_pack_selected''
     [needs ''pack_id'' TStr, needs ''pack_version'' TStr, needs ''selected_by_person_id'' TUuid,
      takes ''notes'' (TOpt TStr) PNone]"

definition ResourceRoleAssignedPayload :: payload_class where
  "ResourceRoleAssignedPayload = payload ''resource_role_assigned''
     [needs ''person_id'' TUuid, needs ''resource_id'' TUuid,
      needs ''resource_type'' (TSuch TStr [OneOf RESOURCE_TYPES]), needs ''role'' (TSuch TStr [OneOf RESOURCE_ROLES]),
      needs ''granted_by'' TUuid]"

definition PositionProposedPayload :: payload_class where
  "PositionProposedPayload = payload ''position_proposed''
     [needs ''person_id'' TUuid, needs ''position'' TStr, needs ''confidence'' (TSuch TFloat [AtLeast 0, AtMost 1]),
      takes ''signals'' (TList TStr) (PList [])]"

definition ResourceRoleProposedPayload :: payload_class where
  "ResourceRoleProposedPayload = payload ''resource_role_proposed''
     [needs ''person_id'' TUuid, needs ''resource_id'' TUuid, needs ''role'' (TSuch TStr [OneOf RESOURCE_ROLES]),
      needs ''confidence'' (TSuch TFloat [AtLeast 0, AtMost 1]), takes ''signals'' (TList TStr) (PList []),
      needs ''proposed_by'' TUuid]"

definition PositionConfirmedPayload :: payload_class where
  "PositionConfirmedPayload = payload ''position_confirmed''
     [needs ''person_id'' TUuid, needs ''position'' TStr, needs ''confirmed_by'' TUuid]"

definition PositionRejectedPayload :: payload_class where
  "PositionRejectedPayload = payload ''position_rejected''
     [needs ''person_id'' TUuid, needs ''position'' TStr, needs ''rejected_by'' TUuid,
      takes ''reason'' (TOpt TStr) PNone]"

subsection \<open>Data products and notebooks\<close>

definition DataProductProposedPayload :: payload_class where
  "DataProductProposedPayload = payload ''data_product_proposed''
     [needs ''data_product_id'' TUuid, needs ''name'' TStr, needs ''kind'' (TSuch TStr [OneOf DATA_PRODUCT_KINDS]),
      needs ''requested_by_person_id'' TUuid, needs ''sources_required'' (TList TUuid),
      takes ''domain_id'' (TOpt TUuid) PNone, takes ''parameters'' TDict (PDict []),
      takes ''prompted_by_message_id'' (TOpt TStr) PNone]"

definition DataProductGeneratedPayload :: payload_class where
  "DataProductGeneratedPayload = payload ''data_product_generated''
     [needs ''data_product_id'' TUuid, needs ''contents_uri'' TStr, needs ''content_hash'' TStr,
      needs ''kind'' (TSuch TStr [OneOf DATA_PRODUCT_KINDS]), needs ''source_hashes'' (TList TStr),
      needs ''generated_by'' TStr, needs ''duration_ms'' (TSuch TInt [AtLeast 0])]"

definition DataProductConsumedPayload :: payload_class where
  "DataProductConsumedPayload = payload ''data_product_consumed''
     [needs ''data_product_id'' TUuid, needs ''consumed_by_person_id'' TUuid,
      takes ''consumed_by_agent_id'' (TOpt TStr) PNone, needs ''surface'' (TSuch TStr [OneOf DATA_PRODUCT_SURFACES]),
      takes ''channel'' (TOpt TStr) PNone]"

definition DataProductArchivedPayload :: payload_class where
  "DataProductArchivedPayload = payload ''data_product_archived''
     [needs ''data_product_id'' TUuid, needs ''archived_by'' TUuid, needs ''reason'' TStr]"

definition NotebookProposedPayload :: payload_class where
  "NotebookProposedPayload = payload ''notebook_proposed''
     [needs ''notebook_id'' TUuid, needs ''name'' TStr, needs ''cells'' (TList TDict),
      needs ''kernel'' (TSuch TStr [OneOf NOTEBOOK_KERNELS]), needs ''proposed_by_person_id'' TUuid,
      takes ''domain_id'' (TOpt TUuid) PNone]"

definition NotebookRunPayload :: payload_class where
  "NotebookRunPayload = payload ''notebook_run''
     [needs ''notebook_id'' TUuid, needs ''run_id'' TUuid, needs ''cell_outputs'' (TList TDict),
      needs ''cell_hashes'' (TList TStr), needs ''duration_ms'' (TSuch TInt [AtLeast 0]),
      needs ''kernel_state_hash'' TStr, needs ''status'' (TSuch TStr [OneOf NOTEBOOK_RUN_STATUSES]),
      needs ''run_by'' TStr]"

definition NotebookPublishedPayload :: payload_class where
  "NotebookPublishedPayload = payload ''notebook_published''
     [needs ''notebook_id'' TUuid, needs ''run_id'' TUuid, needs ''owner_person_id'' TUuid,
      takes ''domain_id'' (TOpt TUuid) PNone, needs ''version'' TStr, needs ''published_by'' TUuid]"

definition NotebookArchivedPayload :: payload_class where
  "NotebookArchivedPayload = payload ''notebook_archived''
     [needs ''notebook_id'' TUuid, needs ''archived_by'' TUuid, needs ''reason'' TStr]"

subsection \<open>Setup and MCP calls\<close>

definition SetupModeChosenPayload :: payload_class where
  "SetupModeChosenPayload = payload ''setup_mode_chosen''
     [needs ''tenant_id'' TUuid, needs ''mode'' SetupMode, needs ''chosen_by_person_id'' TUuid]"

definition SetupCompletedPayload :: payload_class where
  "SetupCompletedPayload = payload ''setup_completed''
     [needs ''tenant_id'' TUuid, needs ''completed_at'' (TSuch TTime [TzAware])]"

definition SetupStepAdvancedPayload :: payload_class where
  "SetupStepAdvancedPayload = payload ''setup_step_advanced''
     [needs ''tenant_id'' TUuid, needs ''step_id'' TStr, takes ''advanced_by_person_id'' (TOpt TUuid) PNone]"

definition MCPCallReceivedPayload :: payload_class where
  "MCPCallReceivedPayload = payload ''mcp_call_received''
     [needs ''mcp_call_id'' TUuid, needs ''tenant_id'' TUuid, takes ''caller_person_id'' (TOpt TUuid) PNone,
      needs ''tool_name'' TStr, needs ''args_hash'' TStr, takes ''client_ua'' (TOpt TStr) PNone,
      needs ''started_at'' (TSuch TTime [TzAware]), needs ''outcome'' (TSuch TStr [OneOf MCP_OUTCOMES]),
      needs ''latency_ms'' (TSuch TInt [AtLeast 0])]"

subsection \<open>Reactivities, conversations and lessons\<close>

definition ReactivityProposedPayload :: payload_class where
  "ReactivityProposedPayload = payload ''reactivity_proposed''
     [needs ''reactivity_id'' TStr, needs ''name'' TStr, needs ''description'' TStr,
      needs ''scope'' (TSuch TStr [OneOf REACTIVITY_SCOPES]), takes ''predicate_spec'' TDict (PDict []),
      takes ''condition_spec'' TDict (PDict []), takes ''action_spec'' TDict (PDict []), needs ''proposed_by'' TStr]"

definition ReactivityConfirmedPayload :: payload_class where
  "ReactivityConfirmedPayload = payload ''reactivity_confirmed''
     [needs ''reactivity_id'' TStr, needs ''confirmed_by'' TStr]"

definition ReactivityDisabledPayload :: payload_class where
  "ReactivityDisabledPayload = payload ''reactivity_disabled''
     [needs ''reactivity_id'' TStr, needs ''disabled_by'' TStr, needs ''reason'' TStr]"

definition ReactivityFiredPayload :: payload_class where
  "ReactivityFiredPayload = payload ''reactivity_fired''
     [needs ''reactivity_id'' TStr, needs ''source_seq'' (TSuch TInt [AtLeast 0]),
      takes ''novelty_key'' TStr (PStr []), takes ''action_seqs'' (TList TInt) (PList []),
      takes ''budget_used'' (TDictOf TInt) (PDict [])]"

definition ResourceConversationProposedPayload :: payload_class where
  "ResourceConversationProposedPayload = payload ''resource_conversation_proposed''
     [needs ''conversation_id'' TUuid, needs ''topic'' TDict, needs ''owner_id'' TUuid,
      takes ''resources'' TDict (PDict []), needs ''statement_seq'' (TSuch TInt [AtLeast 0]), needs ''channel'' TStr]"

definition ResourceConversationRepliedPayload :: payload_class where
  "ResourceConversationRepliedPayload = payload ''resource_conversation_replied''
     [needs ''conversation_id'' TUuid, needs ''replier_id'' TUuid, needs ''content'' TStr,
      needs ''seq'' (TSuch TInt [AtLeast 0])]"

definition ResourceConversationResolvedPayload :: payload_class where
  "ResourceConversationResolvedPayload = payload ''resource_conversation_resolved''
     [needs ''conversation_id'' TUuid, needs ''outcome'' (TSuch TStr [OneOf RESOURCE_CONVERSATION_OUTCOMES]),
      needs ''resolved_by'' TUuid, takes ''decision_seq'' (TSuch (TOpt TInt) [AtLeast 0]) PNone]"

definition PhenomenonGapDetectedPayload :: payload_class where
  "PhenomenonGapDetectedPayload = payload ''phenomenon_gap_detected''
     [needs ''kind'' (TSuch TStr [OneOf PHENOMENON_GAP_KINDS]), needs ''referenced_in_seq'' (TSuch TInt [AtLeast 0]),
      takes ''suggested_proposal'' TDict (PDict []), needs ''confidence'' (TSuch TFloat [AtLeast 0, AtMost 1]),
      needs ''novelty_key'' TStr]"

definition MetricsKeepRatePublishedPayload :: payload_class where
  "MetricsKeepRatePublishedPayload = payload ''metrics_keep_rate_published''
     [needs ''scope'' (TSuch TStr [OneOf KEEP_RATE_SCOPES]), needs ''day'' TStr,
      needs ''kept'' (TSuch TInt [AtLeast 0]), needs ''total'' (TSuch TInt [AtLeast 0]),
      needs ''ratio'' (TSuch TFloat [AtLeast 0, AtMost 1]), needs ''published_by'' TStr,
      needs ''published_at'' (TSuch TTime [TzAware])]"

definition ExperimentLessonPayload :: payload_class where
  "ExperimentLessonPayload = payload ''experiment_lesson''
     [needs ''prior_keep_id'' TUuid, needs ''scope'' (TSuch TStr [OneOf LESSON_SCOPES]),
      needs ''lesson_text'' (TSuch TStr [LenAtLeast 1]), needs ''lesson_features'' (TDictOf TStr),
      needs ''applied_to_proposer'' (TSuch TStr [LenAtLeast 1]),
      takes ''applied_at'' (TSuch (TOpt TInt) [AtLeast 0]) PNone, needs ''proposed_by'' (TSuch TStr [LenAtLeast 1]),
      needs ''extracted_at'' (TSuch TTime [TzAware])]"

subsection \<open>Tenants\<close>

definition TenantQuotaConsumedPayload :: payload_class where
  "TenantQuotaConsumedPayload = payload ''tenant_quota_consumed''
     [needs ''tenant_slug'' (TSuch TStr [LenAtLeast 1]), needs ''consumption_count'' (TSuch TInt [AtLeast 0]),
      needs ''quota_limit'' (TSuch TInt [AtLeast 1]), needs ''quota_remaining'' (TSuch TInt [AtLeast 0]),
      needs ''window_start_ts'' (TSuch TTime [TzAware]), needs ''window_end_ts'' (TSuch TTime [TzAware]),
      needs ''triggered_by'' (TLit [''count_threshold'', ''time_threshold'', ''quota_exhausted''])]"

text \<open>The validator of the DSN reference looks at \<open>engine_kind\<close>, and runs only when the field is given.\<close>

definition dsn_consistency_check :: "pydict \<Rightarrow> bool" where
  "dsn_consistency_check d =
     (case map_of d ''engine_dsn_secret_ref'' of
        None \<Rightarrow> True
      | Some v \<Rightarrow>
          (if dget d ''engine_kind'' = PStr ''isolated'' then (case v of PStr s \<Rightarrow> py_strip s \<noteq> [] | _ \<Rightarrow> False)
           else if dget d ''engine_kind'' = PStr ''shared'' then v = PNone
           else True))"

definition TenantEngineRegisteredPayload :: payload_class where
  "TenantEngineRegisteredPayload = (payload ''tenant_engine_registered''
     [needs ''tenant_slug'' (TSuch TStr [LenAtLeast 1]), needs ''engine_kind'' (TLit [''shared'', ''isolated'']),
      takes ''engine_dsn_secret_ref'' (TOpt TStr) PNone, needs ''provisioned_at'' (TSuch TTime [TzAware]),
      takes ''migrated_from_shared_at'' (TSuch (TOpt TTime) [TzAware]) PNone,
      needs ''provisioned_by_person_id'' (TSuch TStr [LenAtLeast 1]), takes ''region'' (TOpt TStr) PNone,
      takes ''hnsw_m'' (TSuch (TOpt TInt) [AtLeast 4, AtMost 64]) PNone,
      takes ''hnsw_ef_construction'' (TSuch (TOpt TInt) [AtLeast 16, AtMost 256]) PNone])\<lparr>pc_rule := dsn_consistency_check\<rparr>"

definition TenantSignupInitiatedPayload :: payload_class where
  "TenantSignupInitiatedPayload = payload ''tenant_signup_initiated''
     [needs ''tenant_id'' TUuid, needs ''slug'' (TSuch TStr [LenAtLeast 1]),
      needs ''display_name'' (TSuch TStr [LenAtLeast 1]), needs ''signup_source'' (TSuch TStr [OneOf SIGNUP_SOURCES]),
      needs ''signup_email'' (TOpt TStr),
      needs ''pending_token_hash'' (TSuch TStr [LenAtLeast 64, LenAtMost 64, HexDigits])]"

definition TenantSignupCompletedPayload :: payload_class where
  "TenantSignupCompletedPayload = payload ''tenant_signup_completed''
     [needs ''tenant_id'' TUuid, needs ''signup_source'' (TSuch TStr [OneOf SIGNUP_SOURCES]),
      needs ''assigned_tenant_slug'' (TSuch TStr [LenAtLeast 1]), needs ''signup_email'' (TOpt TStr)]"

subsection \<open>Mirrored catalogs\<close>

definition ExternalCatalogImportedPayload :: payload_class where
  "ExternalCatalogImportedPayload = payload ''external_catalog_imported''
     [needs ''source_kind'' TStr, needs ''source_id'' TStr, needs ''domain_id'' TStr, needs ''snapshot_hash'' TStr,
      needs ''table_count'' (TSuch TInt [AtLeast 0]), needs ''edge_count'' (TSuch TInt [AtLeast 0]),
      needs ''metric_count'' (TSuch TInt [AtLeast 0]), needs ''import_mode'' (TLit [''initial'', ''refresh''])]"

definition CatalogColumnSpec :: "field list" where
  "CatalogColumnSpec =
     [needs ''name'' (TSuch TStr [NonEmpty]), takes ''type'' (TOpt TStr) PNone]"

definition CatalogTableImportedPayload :: payload_class where
  "CatalogTableImportedPayload = payload ''catalog_table_imported''
     [needs ''source_id'' (TSuch TStr [NonEmpty]), needs ''snapshot_hash'' (TSuch TStr [NonEmpty]),
      needs ''table_id'' (TSuch TStr [NonEmpty]), takes ''columns'' (TList (TModel CatalogColumnSpec)) (PList [])]"

definition ExternalCatalogDriftDetectedPayload :: payload_class where
  "ExternalCatalogDriftDetectedPayload = payload ''external_catalog_drift_detected''
     [needs ''source_id'' TStr, needs ''old_hash'' TStr, needs ''new_hash'' TStr,
      takes ''added_table_ids'' (TList TStr) (PList []), takes ''removed_table_ids'' (TList TStr) (PList []),
      takes ''changed_table_ids'' (TList TStr) (PList [])]"

definition ExternalLineageImportedPayload :: payload_class where
  "ExternalLineageImportedPayload = payload ''external_lineage_imported''
     [needs ''source_id'' TStr, needs ''edges'' (TList (TPair TStr TStr))]"

definition ExternalPolicyImportedPayload :: payload_class where
  "ExternalPolicyImportedPayload = payload ''external_policy_imported''
     [needs ''source_id'' TStr, needs ''policy_fqn'' TStr, needs ''policy_kind'' (TLit [''masking'', ''row_access'']),
      needs ''body'' (TOpt TStr), takes ''applied_to'' (TList TStr) (PList [])]"

definition ExternalMetricImportedPayload :: payload_class where
  "ExternalMetricImportedPayload = payload ''external_metric_imported''
     [needs ''source_id'' TStr, needs ''name'' TStr, takes ''expression'' (TOpt TStr) PNone,
      takes ''time_grain'' (TOpt TStr) PNone, takes ''dimensions'' (TList TStr) (PList []),
      takes ''description'' (TOpt TStr) PNone, takes ''domain_id'' (TOpt TStr) PNone,
      takes ''promoted_from_gap_id'' (TOpt TStr) PNone, takes ''promoted_by'' (TOpt TStr) PNone]"

subsection \<open>Agents, queries and credentials\<close>

definition AgentRegisteredPayload :: payload_class where
  "AgentRegisteredPayload = payload ''agent_registered''
     [needs ''agent_id'' TStr,
      needs ''external_provider'' (TLit [''claude'', ''openai'', ''kimi'', ''internal_worm'', ''other'']),
      needs ''display_name'' TStr, needs ''registered_by'' TStr]"

definition AgentGrantPayload :: payload_class where
  "AgentGrantPayload = payload ''agent_grant''
     [needs ''agent_id'' TStr,
      needs ''grant_kind'' (TLit [''domain.read'', ''resource.read'', ''resource.maintainer'', ''model.access'']),
      needs ''grant_target'' TStr, needs ''status'' (TLit [''active'', ''revoked'']), needs ''granted_by'' TStr,
      takes ''budget_remaining_usd'' (TOpt TStr) PNone]"

definition AgentMetadataUpdatedPayload :: payload_class where
  "AgentMetadataUpdatedPayload = payload ''agent_metadata_updated''
     [needs ''agent_id'' TStr, takes ''display_name'' (TOpt TStr) PNone, takes ''description'' (TOpt TStr) PNone,
      needs ''updated_by_person_id'' TStr, takes ''reason'' (TOpt TStr) PNone]"

definition AgentQueryPayload :: payload_class where
  "AgentQueryPayload = payload ''agent_query''
     [needs ''agent_id'' TStr, needs ''mcp_tool'' TStr, needs ''args'' TDict,
      needs ''route_mode'' (TLit [''broker'', ''federate'']),
      needs ''phase'' (TLit [''propose'', ''execute'', ''verify'', ''resolve'']),
      takes ''row_count'' (TOpt TInt) PNone, takes ''cost_usd'' (TOpt TStr) PNone,
      takes ''latency_ms'' (TOpt TInt) PNone, takes ''caused_by'' (TOpt TStr) PNone]"

definition CredentialPayload :: payload_class where
  "CredentialPayload = payload ''credential''
     [needs ''agent_id'' TStr, needs ''credential_kind'' (TLit [''data'', ''model'']), needs ''target'' TStr,
      needs ''status'' (TLit [''active'', ''revoked'']), needs ''ttl_expires_at'' TStr, needs ''issued_by'' TStr]"

subsection \<open>Subscriptions and compounding\<close>

definition AgentEventDeliveredPayload :: payload_class where
  "AgentEventDeliveredPayload = payload ''agent_event_delivered''
     [needs ''subscription_id'' TStr, needs ''triggering_entry_seq'' TInt, needs ''triggering_entry_kind'' TStr,
      needs ''transport_used'' (TLit [''mcp_stream'', ''webhook'']),
      needs ''delivery_status'' (TLit [''delivered'', ''failed'', ''no_target'']), takes ''duration_ms'' TInt (PInt 0),
      takes ''error'' (TOpt TStr) PNone]"

definition AgentSubscriptionCreatedPayload :: payload_class where
  "AgentSubscriptionCreatedPayload = payload ''agent_subscription_created''
     [needs ''subscription_id'' TStr, needs ''agent_id'' TStr, needs ''filter'' TDict,
      needs ''transport'' (TLit [''mcp_stream'', ''webhook'']), takes ''webhook_url'' (TOpt TStr) PNone,
      takes ''webhook_secret_ref'' (TOpt TStr) PNone, takes ''description'' (TOpt TStr) PNone]"

definition AgentSubscriptionRevokedPayload :: payload_class where
  "AgentSubscriptionRevokedPayload = payload ''agent_subscription_revoked''
     [needs ''subscription_id'' TStr,
      needs ''reason'' (TLit [''agent_request'', ''admin_revoked'', ''expired'', ''rotated''])]"

definition QueryCorrectionSuggestedPayload :: payload_class where
  "QueryCorrectionSuggestedPayload = payload ''query_correction_suggested''
     [needs ''original_query_id'' TStr, needs ''failure_kind'' (TLit [''error'', ''empty'', ''schema_mismatch'']),
      needs ''failure_detail'' TStr, needs ''refined_query_spec'' TDict]"

definition QueryOutcomeRecordedPayload :: payload_class where
  "QueryOutcomeRecordedPayload = payload ''query_outcome_recorded''
     [needs ''agent_query_id'' TStr, needs ''nl_question'' TStr, needs ''final_query_spec'' TDict,
      needs ''result_summary'' TDict, needs ''used'' TBool, needs ''useful'' TBool,
      takes ''user_correction'' (TOpt TStr) PNone, needs ''quality_score'' TStr,
      takes ''embedding'' (TOpt (TList TFloat)) PNone]"

definition QueryTemplatePromotedPayload :: payload_class where
  "QueryTemplatePromotedPayload = payload ''query_template_promoted''
     [needs ''domain_id'' TStr, needs ''nl_intent'' TStr, needs ''query_spec'' TDict,
      needs ''promoted_from_outcome_ids'' (TList TStr), needs ''quality_score'' TStr]"

definition SemanticGapProposedPayload :: payload_class where
  "SemanticGapProposedPayload = payload ''semantic_gap_proposed''
     [needs ''agent_id'' TStr, needs ''nl_question'' TStr,
      needs ''reason'' (TLit [''no_match'', ''low_confidence'', ''ambiguous'']),
      takes ''proposed_metric_name'' (TOpt TStr) PNone]"

definition BadPatternProposedPayload :: payload_class where
  "BadPatternProposedPayload = payload ''bad_pattern_proposed''
     [needs ''canonical_intent'' TStr, needs ''failed_outcome_ids'' (TList TStr),
      needs ''failed_query_specs'' (TList TDict), needs ''failure_count'' TInt, needs ''suggested_avoidance'' TStr,
      takes ''domain_id'' (TOpt TStr) PNone]"

definition SemanticGapEscalatedPayload :: payload_class where
  "SemanticGapEscalatedPayload = payload ''semantic_gap_escalated''
     [needs ''original_gap_id'' TStr, needs ''nl_question'' TStr,
      needs ''reason'' (TLit [''no_match'', ''low_confidence'', ''ambiguous'']), needs ''days_unresolved'' TInt,
      takes ''proposed_metric_name'' (TOpt TStr) PNone]"

definition DataProductRecommendedPayload :: payload_class where
  "DataProductRecommendedPayload = payload ''data_product_recommended''
     [needs ''data_product_id'' TUuid, needs ''recommendation_score'' TInt, needs ''consumer_agent_ids'' (TList TStr),
      needs ''consumed_within_days'' TInt]"

subsection \<open>Discovery axes\<close>

definition LineageEdgeConfirmedPayload :: payload_class where
  "LineageEdgeConfirmedPayload = payload ''lineage_edge_confirmed''
     [needs ''edge_id'' (TSuch TStr [NonEmpty]), needs ''confirmed_by_person_id'' TStr,
      takes ''notes'' (TOpt TStr) PNone]"

definition LineageEdgeProposedPayload :: payload_class where
  "LineageEdgeProposedPayload = payload ''lineage_edge_proposed''
     [needs ''edge_id'' (TSuch TStr [NonEmpty]), needs ''src_table_id'' (TSuch TStr [NonEmpty]),
      needs ''src_column'' (TOpt TStr), needs ''tgt_table_id'' (TSuch TStr [NonEmpty]),
      needs ''tgt_column'' (TOpt TStr), needs ''confidence'' (TSuch TFloat [AtLeast 0, AtMost 1]),
      needs ''strategy'' (TSuch TStr [NonEmpty]), needs ''reasoning'' TStr, needs ''evidence'' TDict]"

definition LineageEdgeRejectedPayload :: payload_class where
  "LineageEdgeRejectedPayload = payload ''lineage_edge_rejected''
     [needs ''edge_id'' (TSuch TStr [NonEmpty]), needs ''rejected_by_person_id'' TStr,
      needs ''reason'' (TLit [''false_positive'', ''wrong_direction'', ''low_confidence'', ''out_of_scope'', ''other'']),
      takes ''notes'' (TOpt TStr) PNone]"

definition QualityCheckConfirmedPayload :: payload_class where
  "QualityCheckConfirmedPayload = payload ''quality_check_confirmed''
     [needs ''check_id'' (TSuch TStr [NonEmpty]), needs ''confirmed_by_person_id'' TStr,
      takes ''notes'' (TOpt TStr) PNone]"

definition QualityCheckProposedPayload :: payload_class where
  "QualityCheckProposedPayload = payload ''quality_check_proposed''
     [needs ''check_id'' (TSuch TStr [NonEmpty]), needs ''table_id'' (TSuch TStr [NonEmpty]),
      needs ''column'' (TOpt TStr),
      needs ''check_kind'' (TLit [''not_null'', ''unique'', ''freshness'', ''row_count_range'', ''enum_membership'', ''type_stability'', ''value_range'']),
      needs ''config'' TDict, needs ''confidence'' (TSuch TFloat [AtLeast 0, AtMost 1]),
      needs ''strategy'' (TSuch TStr [NonEmpty]), needs ''reasoning'' TStr, needs ''evidence'' TDict]"

definition QualityCheckRejectedPayload :: payload_class where
  "QualityCheckRejectedPayload = payload ''quality_check_rejected''
     [needs ''check_id'' (TSuch TStr [NonEmpty]), needs ''rejected_by_person_id'' TStr,
      needs ''reason'' (TLit [''false_positive'', ''low_value'', ''wrong_threshold'', ''out_of_scope'', ''other'']),
      takes ''notes'' (TOpt TStr) PNone]"

definition SchemaImpactConfirmedPayload :: payload_class where
  "SchemaImpactConfirmedPayload = payload ''schema_impact_confirmed''
     [needs ''impact_id'' (TSuch TStr [NonEmpty]), needs ''confirmed_by_person_id'' TStr,
      takes ''notes'' (TOpt TStr) PNone]"

definition SchemaImpactProposedPayload :: payload_class where
  "SchemaImpactProposedPayload = payload ''schema_impact_proposed''
     [needs ''impact_id'' (TSuch TStr [NonEmpty]), needs ''source_id'' (TSuch TStr [NonEmpty]),
      needs ''src_table'' (TSuch TStr [NonEmpty]), needs ''src_column'' (TSuch TStr [NonEmpty]),
      needs ''change_kind'' (TLit [''column_added'', ''column_dropped'', ''column_type_changed'']),
      needs ''impact_kind'' (TLit [''tgt_column_orphaned'', ''tgt_column_type_mismatch'', ''tgt_column_unaware'', ''dbt_test_breakage'', ''type_coercion_required'']),
      needs ''tgt_table_id'' (TSuch TStr [NonEmpty]), needs ''tgt_column'' (TSuch TStr [NonEmpty]),
      takes ''upstream_lineage_edge_id'' (TOpt TStr) PNone, needs ''confidence'' (TSuch TFloat [AtLeast 0, AtMost 1]),
      needs ''strategy'' (TSuch TStr [NonEmpty]), needs ''reasoning'' TStr, needs ''evidence'' TDict]"

definition SchemaImpactRejectedPayload :: payload_class where
  "SchemaImpactRejectedPayload = payload ''schema_impact_rejected''
     [needs ''impact_id'' (TSuch TStr [NonEmpty]), needs ''rejected_by_person_id'' TStr,
      needs ''reason'' (TLit [''false_positive'', ''already_handled'', ''low_value'', ''out_of_scope'', ''other'']),
      takes ''notes'' (TOpt TStr) PNone]"

definition SemanticTypeConfirmedPayload :: payload_class where
  "SemanticTypeConfirmedPayload = payload ''semantic_type_confirmed''
     [needs ''type_id'' (TSuch TStr [NonEmpty]), needs ''confirmed_by_person_id'' TStr,
      takes ''notes'' (TOpt TStr) PNone]"

definition SemanticTypeProposedPayload :: payload_class where
  "SemanticTypeProposedPayload = payload ''semantic_type_proposed''
     [needs ''type_id'' (TSuch TStr [NonEmpty]), needs ''table_id'' (TSuch TStr [NonEmpty]),
      needs ''column'' (TSuch TStr [NonEmpty]),
      needs ''semantic_type'' (TLit [''email'', ''phone_e164'', ''phone_us'', ''iso_date'', ''iso_datetime'', ''unix_timestamp'', ''uuid_v4'', ''uuid_v7'', ''business_id'', ''country_iso'', ''language_iso'', ''currency_iso'', ''pii_name'', ''pii_address'', ''pii_ssn'', ''pii_credit_card'', ''metric_count'', ''metric_amount'', ''metric_rate'', ''other'']),
      needs ''confidence'' (TSuch TFloat [AtLeast 0, AtMost 1]), needs ''strategy'' (TSuch TStr [NonEmpty]),
      needs ''reasoning'' TStr, needs ''evidence'' TDict]"

definition SemanticTypeRejectedPayload :: payload_class where
  "SemanticTypeRejectedPayload = payload ''semantic_type_rejected''
     [needs ''type_id'' (TSuch TStr [NonEmpty]), needs ''rejected_by_person_id'' TStr,
      needs ''reason'' (TLit [''false_positive'', ''low_value'', ''wrong_type'', ''out_of_scope'', ''other'']),
      takes ''notes'' (TOpt TStr) PNone]"

definition ColumnClassificationConfirmedPayload :: payload_class where
  "ColumnClassificationConfirmedPayload = payload ''column_classification_confirmed''
     [needs ''classification_id'' (TSuch TStr [NonEmpty]), needs ''confirmed_by_person_id'' TStr,
      takes ''notes'' (TOpt TStr) PNone]"

definition ColumnClassificationProposedPayload :: payload_class where
  "ColumnClassificationProposedPayload = payload ''column_classification_proposed''
     [needs ''classification_id'' (TSuch TStr [NonEmpty]), needs ''table_id'' (TSuch TStr [NonEmpty]),
      needs ''column'' (TSuch TStr [NonEmpty]), needs ''classification_level'' ClassificationLevel,
      takes ''upstream_semantic_type_id'' (TOpt TStr) PNone, needs ''confidence'' (TSuch TFloat [AtLeast 0, AtMost 1]),
      needs ''strategy'' (TSuch TStr [NonEmpty]), needs ''reasoning'' TStr, needs ''evidence'' TDict]"

definition ColumnClassificationRejectedPayload :: payload_class where
  "ColumnClassificationRejectedPayload = payload ''column_classification_rejected''
     [needs ''classification_id'' (TSuch TStr [NonEmpty]), needs ''rejected_by_person_id'' TStr,
      needs ''reason'' (TLit [''false_positive'', ''low_value'', ''wrong_level'', ''out_of_scope'', ''other'']),
      takes ''notes'' (TOpt TStr) PNone]"

definition EntityStitchConfirmedPayload :: payload_class where
  "EntityStitchConfirmedPayload = payload ''entity_stitch_confirmed''
     [needs ''stitch_id'' (TSuch TStr [NonEmpty]), needs ''confirmed_by_person_id'' TStr,
      takes ''notes'' (TOpt TStr) PNone]"

definition EntityStitchProposedPayload :: payload_class where
  "EntityStitchProposedPayload = payload ''entity_stitch_proposed''
     [needs ''stitch_id'' (TSuch TStr [NonEmpty]), needs ''src_source_id_a'' (TSuch TStr [NonEmpty]),
      needs ''src_table_a'' (TSuch TStr [NonEmpty]), needs ''src_column_a'' (TSuch TStr [NonEmpty]),
      needs ''src_source_id_b'' (TSuch TStr [NonEmpty]), needs ''src_table_b'' (TSuch TStr [NonEmpty]),
      needs ''src_column_b'' (TSuch TStr [NonEmpty]), takes ''upstream_semantic_type_id'' (TOpt TStr) PNone,
      needs ''entity_kind'' EntityKind, needs ''confidence'' (TSuch TFloat [AtLeast 0, AtMost 1]),
      needs ''strategy'' (TSuch TStr [NonEmpty]), needs ''reasoning'' TStr, needs ''evidence'' TDict]"

definition EntityStitchRejectedPayload :: payload_class where
  "EntityStitchRejectedPayload = payload ''entity_stitch_rejected''
     [needs ''stitch_id'' (TSuch TStr [NonEmpty]), needs ''rejected_by_person_id'' TStr,
      needs ''reason'' (TLit [''false_positive'', ''low_value'', ''wrong_pairing'', ''out_of_scope'', ''other'']),
      takes ''notes'' (TOpt TStr) PNone]"

definition SourceCandidateProposedPayload :: payload_class where
  "SourceCandidateProposedPayload = payload ''source_candidate_proposed''
     [needs ''candidate_id'' (TSuch TStr [NonEmpty]), needs ''proposed_kind'' (TSuch TStr [NonEmpty, KnownConnector]),
      needs ''proposed_identifier'' (TSuch TStr [NonEmpty]), takes ''domain_id_hint'' (TOpt TStr) PNone,
      needs ''strategy'' (TSuch TStr [NonEmpty]), needs ''reasoning'' TStr,
      needs ''confidence'' (TSuch TFloat [AtLeast 0, AtMost 1]), needs ''evidence'' TDict]"

definition SourceCandidatePromotedPayload :: payload_class where
  "SourceCandidatePromotedPayload = payload ''source_candidate_promoted''
     [needs ''candidate_id'' (TSuch TStr [NonEmpty]), needs ''promoted_by_person_id'' TStr,
      takes ''downstream_source_proposed_id'' (TOpt TStr) PNone, takes ''notes'' (TOpt TStr) PNone]"

definition SourceCandidateRejectedPayload :: payload_class where
  "SourceCandidateRejectedPayload = payload ''source_candidate_rejected''
     [needs ''candidate_id'' (TSuch TStr [NonEmpty]), needs ''rejected_by_person_id'' TStr,
      needs ''reason'' SourceCandidateRejectReason, takes ''notes'' (TOpt TStr) PNone]"

definition drift_coherent :: "pydict \<Rightarrow> bool" where
  "drift_coherent d =
     (let kind = dget d ''drift_kind''; column = dget d ''column''; bef = dget d ''before''; aft = dget d ''after'' in
      (if kind \<in> {PStr ''column_added'', PStr ''column_removed'', PStr ''column_type_changed''} then column \<noteq> PNone
       else if kind \<in> {PStr ''table_added'', PStr ''table_removed''} then column = PNone else True) \<and>
      (kind \<in> {PStr ''table_added'', PStr ''column_added''} \<longrightarrow> bef = PNone) \<and>
      (kind \<in> {PStr ''table_removed'', PStr ''column_removed''} \<longrightarrow> aft = PNone) \<and>
      (kind = PStr ''column_type_changed'' \<longrightarrow> bef \<noteq> PNone \<and> aft \<noteq> PNone))"

definition CatalogDriftProposedPayload :: payload_class where
  "CatalogDriftProposedPayload = (payload ''catalog_drift_proposed''
     [needs ''drift_id'' (TSuch TStr [NonEmpty]), needs ''source_id'' (TSuch TStr [NonEmpty]),
      needs ''table_id'' (TSuch TStr [NonEmpty]), takes ''column'' (TSuch (TOpt TStr) [NonEmpty]) PNone,
      needs ''drift_kind'' CatalogDriftKind, takes ''before'' (TOpt TDict) PNone, takes ''after'' (TOpt TDict) PNone,
      needs ''strategy'' (TSuch TStr [NonEmpty]), needs ''reasoning'' TStr,
      needs ''confidence'' (TSuch TFloat [AtLeast 0, AtMost 1]), needs ''evidence'' TDict])\<lparr>pc_rule := drift_coherent\<rparr>"

definition CatalogDriftAcknowledgedPayload :: payload_class where
  "CatalogDriftAcknowledgedPayload = payload ''catalog_drift_acknowledged''
     [needs ''drift_id'' (TSuch TStr [NonEmpty]), needs ''acknowledged_by_person_id'' TStr,
      takes ''notes'' (TOpt TStr) PNone]"

definition CatalogDriftRejectedPayload :: payload_class where
  "CatalogDriftRejectedPayload = payload ''catalog_drift_rejected''
     [needs ''drift_id'' (TSuch TStr [NonEmpty]), needs ''rejected_by_person_id'' TStr,
      needs ''reason'' CatalogDriftRejectReason, takes ''notes'' (TOpt TStr) PNone]"

subsection \<open>The registry\<close>

definition PAYLOAD_CLASSES :: "payload_class list" where
  "PAYLOAD_CLASSES =
     [ProposePayload, ExecutePayload, VerifyPayload, ResolvePayload, ClockTickPayload, SourceProposedPayload,
      SourceConfirmedPayload, SourceConnectedPayload, SourceProfiledPayload, IngestLandedPayload,
      IngestProfiledPayload, MemoryWrittenPayload, ConceptProposedPayload, ConceptConfirmedPayload,
      ChatReceivedPayload, ChatSentPayload, ConversationSyncPayload, ChatReplyProposedPayload,
      ChatReplyExecutedPayload, ChatReplyVerifiedPayload, ChatReplyResolvedPayload, GateFiredPayload,
      KpiAnsweredPayload, HeuristicExperimentPayload, PolicyAppliedPayload, InferenceServedPayload,
      InferenceCacheRefreshedPayload, SourceBronzedPayload, SourceSilveredPayload, SourceGoldedPayload,
      KpiProposedPayload, LakeDiscoveryPayload, DecisionRecordedPayload, ProcessMapProposedPayload,
      SystemMapNodePayload, RecurringQuestionPayload, TopicProposedPayload, PersonRegisteredPayload,
      PositionAssignedPayload, PositionMetricAddedPayload, PositionQuestionPatternPayload, ExperimentProposedPayload,
      ExperimentRunPayload, ExperimentResolvedPayload, MetricObservedPayload, PersonProposedPayload,
      PersonConfirmedPayload, PersonArchivedPayload, PersonInvitedPayload, IdentityLinkedPayload,
      IdentityUnlinkedPayload, InstallCompletedPayload, InstallRevokedPayload, RoleAssignedPayload, RoleRevokedPayload,
      DomainRoleAssignedPayload, DomainPackSelectedPayload, ResourceRoleAssignedPayload, PositionProposedPayload,
      ResourceRoleProposedPayload, PositionConfirmedPayload, PositionRejectedPayload, DataProductProposedPayload,
      DataProductGeneratedPayload, DataProductConsumedPayload, DataProductArchivedPayload, NotebookProposedPayload,
      NotebookRunPayload, NotebookPublishedPayload, NotebookArchivedPayload, SetupModeChosenPayload,
      SetupCompletedPayload, SetupStepAdvancedPayload, MCPCallReceivedPayload, ReactivityProposedPayload,
      ReactivityConfirmedPayload, ReactivityDisabledPayload, ReactivityFiredPayload,
      ResourceConversationProposedPayload, ResourceConversationRepliedPayload, ResourceConversationResolvedPayload,
      PhenomenonGapDetectedPayload, MetricsKeepRatePublishedPayload, ExperimentLessonPayload,
      TenantQuotaConsumedPayload, TenantEngineRegisteredPayload, TenantSignupInitiatedPayload,
      TenantSignupCompletedPayload, ExternalCatalogImportedPayload, CatalogTableImportedPayload,
      ExternalCatalogDriftDetectedPayload, ExternalLineageImportedPayload, ExternalPolicyImportedPayload,
      ExternalMetricImportedPayload, AgentRegisteredPayload, AgentGrantPayload, AgentMetadataUpdatedPayload,
      AgentQueryPayload, CredentialPayload, AgentEventDeliveredPayload, AgentSubscriptionCreatedPayload,
      AgentSubscriptionRevokedPayload, QueryCorrectionSuggestedPayload, QueryOutcomeRecordedPayload,
      QueryTemplatePromotedPayload, SemanticGapProposedPayload, BadPatternProposedPayload, SemanticGapEscalatedPayload,
      DataProductRecommendedPayload, LineageEdgeConfirmedPayload, LineageEdgeProposedPayload,
      LineageEdgeRejectedPayload, QualityCheckConfirmedPayload, QualityCheckProposedPayload,
      QualityCheckRejectedPayload, SchemaImpactConfirmedPayload, SchemaImpactProposedPayload,
      SchemaImpactRejectedPayload, SemanticTypeConfirmedPayload, SemanticTypeProposedPayload,
      SemanticTypeRejectedPayload, ColumnClassificationConfirmedPayload, ColumnClassificationProposedPayload,
      ColumnClassificationRejectedPayload, EntityStitchConfirmedPayload, EntityStitchProposedPayload,
      EntityStitchRejectedPayload, SourceCandidateProposedPayload, SourceCandidatePromotedPayload,
      SourceCandidateRejectedPayload, CatalogDriftProposedPayload, CatalogDriftAcknowledgedPayload,
      CatalogDriftRejectedPayload]"

definition KIND_REGISTRY :: "(string \<times> payload_class) list" where
  "KIND_REGISTRY = map (\<lambda>C. (pc_kind C, C)) PAYLOAD_CLASSES"

end
