(* ===== verification/Subscriptions.thy ===== *)
theory Subscriptions
  imports Event_Filter Stream_Registry Demo_Environment Payload_Classes
begin

section \<open>Agent subscriptions (\<open>agent_gateway_readers.py\<close>, \<open>subscriptions/mcp_tools.py\<close>)\<close>

text \<open>
  The reader that computes the active subscriptions of a company from its ledger, and the four
  tools an agent manages them with. The tools run on a
  ledger and the process-wide stream registry.
\<close>

subsection \<open>\<open>LedgerSubscriptionReader\<close>\<close>

record sub_row =
  su_id :: string
  su_agent :: string
  su_filter :: pydict
  su_transport :: string
  su_url :: pyval
  su_secret :: pyval
  su_description :: pyval
  su_created :: int

text \<open>\<open>str(v or "")\<close>.\<close>

definition str_or :: "env \<Rightarrow> pyval \<Rightarrow> string" where
  "str_or E v = py_str E (py_or v (PStr []))"

text \<open>The tool, the arguments and the subscription of an execute row that names one.\<close>

definition sub_args :: "entry \<Rightarrow> (pyval \<times> pydict \<times> pyval) option" where
  "sub_args e =
     (if e_kind e \<noteq> ''execute'' then None
      else case py_or (dget (e_payload e) ''args'') (PDict []) of
        PDict args \<Rightarrow>
          (let raw = dget args ''subscription_id''
           in if truthy raw then Some (dget (e_payload e) ''tool'', args, raw) else None)
      | _ \<Rightarrow> None)"

definition created_row :: "env \<Rightarrow> string \<Rightarrow> pydict \<Rightarrow> int \<Rightarrow> exc + sub_row" where
  "created_row E sid args sq =
     rbind (py_dict (py_or (dget args ''filter'') (PDict []))) (\<lambda>f.
       Inr \<lparr>su_id = sid, su_agent = str_or E (dget args ''agent_id''), su_filter = f,
            su_transport = str_or E (dget args ''transport''), su_url = dget args ''webhook_url'',
            su_secret = dget args ''webhook_secret_ref'', su_description = dget args ''description'',
            su_created = sq\<rparr>)"

type_synonym sub_scan = "(string \<times> sub_row) list \<times> string set"

definition scan_step :: "env \<Rightarrow> entry \<Rightarrow> sub_scan \<Rightarrow> exc + sub_scan" where
  "scan_step E e st =
     (case sub_args e of
        None \<Rightarrow> Inr st
      | Some (tool, args, raw) \<Rightarrow>
          (let sid = py_str E raw
           in if tool = PStr ''emit_agent_subscription_created''
              then rbind (created_row E sid args (e_seq e)) (\<lambda>row. Inr (AList.update sid row (fst st), snd st))
              else if tool = PStr ''emit_agent_subscription_revoked'' then Inr (fst st, insert sid (snd st))
              else Inr st))"

fun scan_subs :: "env \<Rightarrow> entry list \<Rightarrow> sub_scan \<Rightarrow> exc + sub_scan" where
  "scan_subs E [] st = Inr st"
| "scan_subs E (e # es) st = rbind (scan_step E e st) (scan_subs E es)"

definition active_of :: "sub_scan \<Rightarrow> sub_row list" where
  "active_of st = sort_key (\<lambda>r. - su_created r) (map snd (filter (\<lambda>p. fst p \<notin> snd st) (fst st)))"

definition active_subscriptions :: "env \<Rightarrow> entry list \<Rightarrow> exc + sub_row list" where
  "active_subscriptions E rows = rbind (scan_subs E rows ([], {})) (\<lambda>st. Inr (active_of st))"

subsection \<open>The tools\<close>

text \<open>\<open>SubscriptionToolDeps\<close>: the company, over a ledger and the stream registry.\<close>

type_synonym ('s, 'a) tool = "'s \<times> pydict streams \<Rightarrow> (exc + 'a) \<times> ('s \<times> pydict streams)"

definition tool_ledger :: "('s, 'a) act \<Rightarrow> ('s, 'a) tool" where
  "tool_ledger m w = (case m (fst w) of (out, s) \<Rightarrow> (out, (s, snd w)))"

definition active_in :: "env \<Rightarrow> 's store \<Rightarrow> uuid \<Rightarrow> ('s, sub_row list) tool" where
  "active_in E L c w = (active_subscriptions E (st_fetch L (fst w) c None), w)"

datatype sub_response =
    SubCreated string string string
  | SubListed "pydict list"
  | SubRevoked string
  | SubDenied string "string option"

definition sub_create_req :: "uuid \<Rightarrow> string \<Rightarrow> string \<Rightarrow> string \<Rightarrow> pydict \<Rightarrow> int \<Rightarrow> write_req" where
  "sub_create_req c sid agent transport args now =
     const_req c
       [(''target_kind'', PStr ''agent_subscription_created''), (''ref_id'', PStr sid), (''agent_id'', PStr agent),
        (''transport'', PStr transport)]
       [(''tool'', PStr ''emit_agent_subscription_created''), (''args'', PDict args), (''result_ref'', PStr sid)]
       [(''checks'', PList [PDict [(''name'', PStr ''agent_subscription_created_recorded''), (''ok'', PBool True)]]),
        (''passed'', PBool True)]
       [(''outcome'', PStr ''keep''),
        (''rationale'', PStr (''agent '' @ repr_str agent @ '' subscribed via '' @ repr_str transport))]
       (Some now) now ''active_deterministic''"

definition create_args :: "string \<Rightarrow> string \<Rightarrow> pydict \<Rightarrow> string \<Rightarrow> string option \<Rightarrow> string option \<Rightarrow> string option \<Rightarrow> pydict" where
  "create_args sid agent filt transport url secret desc =
     [(''subscription_id'', PStr sid), (''agent_id'', PStr agent), (''filter'', PDict filt),
      (''transport'', PStr transport), (''webhook_url'', opt_str url), (''webhook_secret_ref'', opt_str secret),
      (''description'', opt_str desc)]"

definition create_subscription :: "'s store \<Rightarrow> uuid \<Rightarrow> int \<Rightarrow> string \<Rightarrow> string \<Rightarrow> pydict \<Rightarrow> string \<Rightarrow> string option
    \<Rightarrow> string option \<Rightarrow> string option \<Rightarrow> ('s, sub_response) tool" where
  "create_subscription L c now caller agent filt transport url secret desc =
     (if caller \<noteq> agent
      then sret (SubDenied (''calling agent '' @ repr_str caller @ '' may not create subscriptions on behalf of '' @
             repr_str agent @ ''; admin-grant flow is dashboard-only'') None)
      else if transport \<notin> {''mcp_stream'', ''webhook''}
      then sret (SubDenied (''unknown transport '' @ repr_str transport @ ''; expected '' @ repr_str ''mcp_stream'' @
             '' or '' @ repr_str ''webhook'') None)
      else if transport = ''webhook'' \<and> (url \<in> {None, Some []} \<or> secret \<in> {None, Some []})
      then sret (SubDenied ''webhook transport requires both webhook_url and webhook_secret_ref'' None)
      else tool_ledger (with_uuid L (\<lambda>sid.
             sbind (st_write L (sub_create_req c sid agent transport (create_args sid agent filt transport url secret desc) now))
               (\<lambda>_. sret (SubCreated sid agent transport)))))"

definition serialize_subscription_row :: "sub_row \<Rightarrow> pydict" where
  "serialize_subscription_row r =
     [(''subscription_id'', PStr (su_id r)), (''agent_id'', PStr (su_agent r)), (''filter'', PDict (su_filter r)),
      (''transport'', PStr (su_transport r)), (''webhook_url'', su_url r), (''description'', su_description r),
      (''created_seq'', PInt (su_created r))]"

definition list_subscriptions :: "env \<Rightarrow> 's store \<Rightarrow> uuid \<Rightarrow> string \<Rightarrow> string \<Rightarrow> ('s, sub_response) tool" where
  "list_subscriptions E L c caller agent =
     (if caller \<noteq> agent
      then sret (SubDenied (''calling agent '' @ repr_str caller @ '' may not list subscriptions on behalf of '' @
             repr_str agent) None)
      else sbind (active_in E L c) (\<lambda>active.
             sret (SubListed (map serialize_subscription_row (filter (\<lambda>r. su_agent r = agent) active)))))"

definition sub_revoke_req :: "uuid \<Rightarrow> string \<Rightarrow> string \<Rightarrow> int \<Rightarrow> write_req" where
  "sub_revoke_req c sid reason now =
     const_req c
       [(''target_kind'', PStr ''agent_subscription_revoked''), (''ref_id'', PStr sid), (''reason'', PStr reason)]
       [(''tool'', PStr ''emit_agent_subscription_revoked''),
        (''args'', PDict [(''subscription_id'', PStr sid), (''reason'', PStr reason)]), (''result_ref'', PStr sid)]
       [(''checks'', PList [PDict [(''name'', PStr ''agent_subscription_revoked_recorded''), (''ok'', PBool True)]]),
        (''passed'', PBool True)]
       [(''outcome'', PStr ''keep''), (''rationale'', PStr (''subscription revoked: '' @ reason))]
       (Some now) now ''active_deterministic''"

definition REVOCATION_REASONS :: "string list" where
  "REVOCATION_REASONS = [''agent_request'', ''admin_revoked'', ''expired'', ''rotated'']"

definition drop_queue :: "string \<Rightarrow> ('s, unit) tool" where
  "drop_queue sid w = (Inr (), (fst w, clear sid (snd w)))"

definition revoke_subscription :: "env \<Rightarrow> 's store \<Rightarrow> uuid \<Rightarrow> int \<Rightarrow> string \<Rightarrow> string \<Rightarrow> string \<Rightarrow> ('s, sub_response) tool" where
  "revoke_subscription E L c now caller sid reason =
     (if reason \<notin> set REVOCATION_REASONS
      then sret (SubDenied (''unknown revocation reason '' @ repr_str reason) (Some sid))
      else sbind (active_in E L c) (\<lambda>active.
        (case map_of (rev (map (\<lambda>r. (su_id r, su_agent r)) active)) sid of
           None \<Rightarrow> sret (SubDenied (''subscription '' @ repr_str sid @ '' does not exist or is already revoked'') (Some sid))
         | Some owner \<Rightarrow>
             if owner \<noteq> caller
             then sret (SubDenied (''calling agent '' @ repr_str caller @ '' does not own subscription '' @ repr_str sid) (Some sid))
             else sbind (tool_ledger (st_write L (sub_revoke_req c sid reason now))) (\<lambda>_.
                  sbind (drop_queue sid) (\<lambda>_. sret (SubRevoked sid))))))"

subsection \<open>The stream tool\<close>

definition replay_event :: "env \<Rightarrow> string \<Rightarrow> pydict \<Rightarrow> int \<Rightarrow> pydict" where
  "replay_event E sid args sq =
     [(''subscription_id'', PStr sid), (''triggering_entry_seq'', PInt sq),
      (''kind'', PStr (str_or E (dget args ''triggering_entry_kind''))),
      (''delivery_status'', PStr (str_or E (dget args ''delivery_status''))), (''replay'', PBool True)]"

definition replay_row :: "env \<Rightarrow> string \<Rightarrow> int \<Rightarrow> entry \<Rightarrow> exc + pydict list" where
  "replay_row E sid since e =
     (if e_kind e \<noteq> ''execute'' \<or> dget (e_payload e) ''tool'' \<noteq> PStr ''emit_agent_event_delivered'' then Inr []
      else case py_or (dget (e_payload e) ''args'') (PDict []) of
        PDict args \<Rightarrow>
          (if str_or E (dget args ''subscription_id'') \<noteq> sid then Inr []
           else case py_int_of (py_or (dget args ''triggering_entry_seq'') (PInt 0)) of
             None \<Rightarrow> Inr []
           | Some sq \<Rightarrow> if sq \<le> since then Inr [] else Inr [replay_event E sid args sq])
      | _ \<Rightarrow> Inl AttributeError)"

definition replay_delivered :: "env \<Rightarrow> string \<Rightarrow> int \<Rightarrow> entry list \<Rightarrow> exc + pydict list" where
  "replay_delivered E sid since rows = rbind (rmap (replay_row E sid since) rows) (\<lambda>evs. Inr (concat evs))"

definition denied_event :: "string \<Rightarrow> pydict" where
  "denied_event reason = [(''status'', PStr ''denied''), (''reason'', PStr reason)]"

text \<open>What the generator yields before it reads the queue: a refusal, or the events to replay.\<close>

definition stream_head :: "env \<Rightarrow> string \<Rightarrow> string \<Rightarrow> int \<Rightarrow> entry list \<Rightarrow> exc + pydict list" where
  "stream_head E caller sid since rows =
     rbind (active_subscriptions E rows) (\<lambda>active.
       (case find (\<lambda>r. su_id r = sid) active of
          None \<Rightarrow> Inr [denied_event (''subscription '' @ repr_str sid @ '' not active'')]
        | Some r \<Rightarrow>
            if su_agent r \<noteq> caller
            then Inr [denied_event (''calling agent '' @ repr_str caller @ '' does not own subscription '' @ repr_str sid)]
            else if since > 0 then replay_delivered E sid since rows else Inr []))"

definition stream_subscription :: "env \<Rightarrow> 's store \<Rightarrow> uuid \<Rightarrow> string \<Rightarrow> string \<Rightarrow> int \<Rightarrow> 's \<times> pydict streams
    \<Rightarrow> ((exc + pydict) \<times> ('s \<times> pydict streams)) option" where
  "stream_subscription E L c caller sid since w =
     (case stream_head E caller sid since (st_fetch L (fst w) c None) of
        Inl x \<Rightarrow> Some (Inl x, w)
      | Inr evs \<Rightarrow> map_option (\<lambda>(got, g). (Inr (list_response sid got), (fst w, g))) (list_deliver sid evs (snd w)))"

subsection \<open>The active set as rows are appended\<close>

lemma scan_subs_append: "scan_subs E (xs @ ys) st = rbind (scan_subs E xs st) (scan_subs E ys)"
proof (induction xs arbitrary: st)
  case (Cons e xs)
  then show ?case by (cases "scan_step E e st") simp_all
qed simp

lemma scan_step_other: "e_kind e \<noteq> ''execute'' \<Longrightarrow> scan_step E e st = Inr st"
  by (simp add: scan_step_def sub_args_def)

text \<open>An execute row with this tool and these arguments.\<close>

definition exec_row :: "string \<Rightarrow> pydict \<Rightarrow> entry \<Rightarrow> bool" where
  "exec_row tool args e = (e_kind e = ''execute'' \<and> payload_of tool args (e_payload e))"

lemma sub_args_exec:
  assumes "exec_row tool args e" and "truthy (dget args ''subscription_id'')"
  shows "sub_args e = Some (PStr tool, args, dget args ''subscription_id'')"
proof -
  have "dget (e_payload e) ''args'' = PDict args" using assms(1) by (simp add: exec_row_def payload_of_def dget_def)
  moreover have "args \<noteq> []" using assms(2) by auto
  ultimately show ?thesis using assms by (simp add: sub_args_def exec_row_def payload_of_def py_or_def)
qed

definition scan_ok :: "int \<Rightarrow> sub_scan \<Rightarrow> bool" where
  "scan_ok n st = (distinct (map fst (fst st)) \<and> (\<forall>(k, r)\<in>set (fst st). su_id r = k \<and> su_created r \<le> n))"

lemma in_update: "p \<in> set (AList.update k v xs) \<Longrightarrow> p = (k, v) \<or> p \<in> set xs"
  by (induction xs) (auto split: if_splits)

lemma created_row_fields: "created_row E sid args sq = Inr r \<Longrightarrow> su_id r = sid \<and> su_created r = sq"
  by (auto simp: created_row_def rbind_Inr_iff)

lemma scan_stepE:
  assumes "scan_step E e st = Inr st'"
  obtains (same) "st' = st"
  | (create) tool args raw row where "sub_args e = Some (tool, args, raw)" "created_row E (py_str E raw) args (e_seq e) = Inr row"
      "st' = (AList.update (py_str E raw) row (fst st), snd st)"
  | (revoke) tool args raw where "sub_args e = Some (tool, args, raw)" "st' = (fst st, insert (py_str E raw) (snd st))"
  using assms unfolding scan_step_def Let_def by (auto simp: rbind_Inr_iff split: option.splits if_splits)

lemma scan_step_ok:
  assumes "scan_step E e st = Inr st'" and "scan_ok n st" and "e_seq e \<le> n"
  shows "scan_ok n st'"
proof -
  have "scan_ok n (AList.update sid row (fst st), snd st)" if "created_row E sid args (e_seq e) = Inr row" for sid args row
  proof -
    have "\<forall>(k, r)\<in>set (AList.update sid row (fst st)). su_id r = k \<and> su_created r \<le> n"
    proof
      fix p
      assume "p \<in> set (AList.update sid row (fst st))"
      from in_update [OF this] consider "p = (sid, row)" | "p \<in> set (fst st)" by (elim disjE)
      then show "case p of (k, r) \<Rightarrow> su_id r = k \<and> su_created r \<le> n"
      proof cases
        case 1
        with assms(3) created_row_fields [OF that] show ?thesis by simp
      next
        case 2
        with assms(2) show ?thesis unfolding scan_ok_def by blast
      qed
    qed
    with distinct_update [of "fst st" sid row] assms(2) show ?thesis by (simp add: scan_ok_def)
  qed
  note created = this
  have revoked: "scan_ok n (fst st, insert sid (snd st))" for sid using assms(2) by (simp add: scan_ok_def)
  from assms(1) show ?thesis by (cases rule: scan_stepE) (use assms(2) created revoked in blast)+
qed

lemma scan_subs_ok: "scan_subs E rows st = Inr st' \<Longrightarrow> scan_ok n st \<Longrightarrow> \<forall>e\<in>set rows. e_seq e \<le> n \<Longrightarrow> scan_ok n st'"
proof (induction rows arbitrary: st)
  case (Cons e rows)
  from Cons.prems(1) obtain st1 where "scan_step E e st = Inr st1" "scan_subs E rows st1 = Inr st'"
    by (auto simp: rbind_Inr_iff)
  with Cons.IH [of st1] Cons.prems scan_step_ok [of E e st st1 n] show ?case by simp
qed simp

lemma chain_seqs: "chain_inv E c rows \<Longrightarrow> \<forall>e\<in>set rows. e_seq e \<le> int (length rows)"
proof -
  assume "chain_inv E c rows"
  then have seqs: "e_seq ` set rows = set (map int [1..<Suc (length rows)])"
    unfolding chain_inv_def by (metis list.set_map)
  show ?thesis
  proof
    fix e
    assume "e \<in> set rows"
    then have "e_seq e \<in> set (map int [1..<Suc (length rows)])" unfolding seqs [symmetric] by (rule imageI)
    then show "e_seq e \<le> int (length rows)" by auto
  qed
qed

lemma sort_key_newest:
  fixes f :: "'a \<Rightarrow> int"
  assumes "\<forall>y\<in>set xs. f x < f y"
  shows "sort_key f (xs @ [x]) = x # sort_key f xs"
proof (rule properties_for_sort_key)
  show "mset (x # sort_key f xs) = mset (xs @ [x])" by simp
  show "filter (\<lambda>y. f k = f y) (x # sort_key f xs) = filter (\<lambda>y. f k = f y) (xs @ [x])"
    if "k \<in> set (x # sort_key f xs)" for k
  proof (cases "f k = f x")
    case True
    with assms have "filter (\<lambda>y. f k = f y) xs = []" by (auto simp: filter_empty_conv)
    moreover from this have "filter (\<lambda>y. f k = f y) (sort_key f xs) = []" by (simp add: filter_empty_conv)
    ultimately show ?thesis using True by simp
  next
    case False
    then show ?thesis using sort_key_stable [of f "f k" xs] by (simp add: eq_commute [of "f k"])
  qed
  show "sorted (map f (x # sort_key f xs))" using assms by (auto simp: less_imp_le)
qed

lemma update_new: "k \<notin> fst ` set xs \<Longrightarrow> AList.update k v xs = xs @ [(k, v)]"
  by (induction xs) auto

lemma active_of_create:
  assumes "scan_ok n st" and "sid \<notin> fst ` set (fst st)" and "sid \<notin> snd st" and "n < su_created row"
  shows "active_of (AList.update sid row (fst st), snd st) = row # active_of st"
proof -
  have "AList.update sid row (fst st) = fst st @ [(sid, row)]"
    using update_new [OF assms(2), of row] .
  moreover have "\<forall>r\<in>set (map snd (filter (\<lambda>p. fst p \<notin> snd st) (fst st))). - su_created row < - su_created r"
    using assms(1,4) by (fastforce simp: scan_ok_def)
  ultimately show ?thesis
    using assms(3) sort_key_newest [of "map snd (filter (\<lambda>p. fst p \<notin> snd st) (fst st))" "\<lambda>r. - su_created r" row]
    by (simp add: active_of_def)
qed

lemma active_of_revoke:
  assumes "scan_ok n st"
  shows "active_of (fst st, insert sid (snd st)) = filter (\<lambda>r. su_id r \<noteq> sid) (active_of st)"
proof -
  have "map snd (filter (\<lambda>p. fst p \<notin> insert sid (snd st)) (fst st)) =
      filter (\<lambda>r. su_id r \<noteq> sid) (map snd (filter (\<lambda>p. fst p \<notin> snd st) (fst st)))"
    using assms unfolding scan_ok_def filter_map filter_filter o_def
    by (intro arg_cong [of _ _ "map snd"] filter_cong) auto
  then show ?thesis by (simp add: active_of_def filter_sort)
qed

lemma active_ids_distinct: "scan_ok n st \<Longrightarrow> distinct (map su_id (active_of st))"
proof -
  assume ok: "scan_ok n st"
  let ?xs = "filter (\<lambda>p. fst p \<notin> snd st) (fst st)"
  have "map su_id (map snd ?xs) = map fst ?xs"
    unfolding map_map by (rule map_cong [OF refl]) (use ok in \<open>auto simp: scan_ok_def\<close>)
  moreover have "distinct (map fst ?xs)" using ok by (simp add: scan_ok_def distinct_map_filter)
  ultimately have "distinct (map su_id (map snd ?xs))" by (simp only:)
  moreover have "mset (map su_id (active_of st)) = mset (map su_id (map snd ?xs))"
    unfolding active_of_def mset_map [of su_id] mset_sort by (rule refl)
  ultimately show ?thesis using mset_eq_imp_distinct_iff by blast
qed

lemma scan_four:
  assumes "e_kind rp = ''propose''" and "e_kind rv = ''verify''" and "e_kind rr = ''resolve''"
  shows "scan_subs E (rows @ [rp, re, rv, rr]) st = rbind (scan_subs E rows st) (scan_step E re)"
proof -
  have "scan_subs E [rp, re, rv, rr] st1 = scan_step E re st1" for st1
    using assms by (cases "scan_step E re st1") (simp_all add: scan_step_other)
  then have "scan_subs E [rp, re, rv, rr] = scan_step E re" by (rule ext)
  then show ?thesis by (simp only: scan_subs_append)
qed

definition unused_id :: "env \<Rightarrow> string \<Rightarrow> entry list \<Rightarrow> bool" where
  "unused_id E sid rows =
     (\<forall>e\<in>set rows. case sub_args e of None \<Rightarrow> True | Some (tool, args, raw) \<Rightarrow> py_str E raw \<noteq> sid)"

lemma scan_unused:
  "scan_subs E rows st = Inr st' \<Longrightarrow> unused_id E sid rows \<Longrightarrow> sid \<notin> fst ` set (fst st) \<Longrightarrow> sid \<notin> snd st \<Longrightarrow>
     sid \<notin> fst ` set (fst st') \<and> sid \<notin> snd st'"
proof (induction rows arbitrary: st)
  case (Cons e rows)
  from Cons.prems(1) obtain st1 where st1: "scan_step E e st = Inr st1" "scan_subs E rows st1 = Inr st'"
    by (auto simp: rbind_Inr_iff)
  have "sid \<notin> fst ` set (fst st1) \<and> sid \<notin> snd st1"
    using st1(1) by (cases rule: scan_stepE) (use Cons.prems(2-4) in \<open>auto simp: unused_id_def dom_update\<close>)
  with Cons.IH [OF st1(2)] Cons.prems(2) show ?case by (simp add: unused_id_def)
qed simp

lemma active_scan:
  assumes "chain_inv E' c rows" and "active_subscriptions E rows = Inr active"
  obtains st where "scan_subs E rows ([], {}) = Inr st" "active = active_of st" "scan_ok (int (length rows)) st"
proof -
  from assms(2) obtain st where st: "scan_subs E rows ([], {}) = Inr st" "active = active_of st"
    by (auto simp: active_subscriptions_def rbind_Inr_iff)
  have "scan_ok (int (length rows)) st"
    by (rule scan_subs_ok [OF st(1) _ chain_seqs [OF assms(1)]]) (simp add: scan_ok_def)
  with st that show thesis by blast
qed

lemma exec_payload_row:
  assumes "e_kind e = ''execute''" and "e_payload e = dict_merge [(''propose_entry_id'', PStr i)] [(''tool'', PStr tool), (''args'', PDict args), (''result_ref'', v)]"
  shows "exec_row tool args e"
  using assms by (auto simp: exec_row_def payload_of_def dget_def dict_merge_def)

lemma sub_reqs_clean [simp]:
  "clean_req (sub_create_req c sid agent transport args now) \<longleftrightarrow> jsonable_dict args"
  "clean_req (sub_revoke_req c sid reason now)"
  by (simp_all add: sub_create_req_def sub_revoke_req_def clean_const_req) (simp_all add: jsonable_dict_def)

lemma create_args_jsonable [simp]: "jsonable_dict filt \<Longrightarrow> jsonable_dict (create_args sid agent filt transport url secret desc)"
  by (simp add: jsonable_dict_def create_args_def opt_str_def split: option.split)

definition subscribed :: "string \<Rightarrow> string \<Rightarrow> pydict \<Rightarrow> string \<Rightarrow> string option \<Rightarrow> string option \<Rightarrow> string option \<Rightarrow> int \<Rightarrow> sub_row" where
  "subscribed sid agent filt transport url secret desc sq =
     \<lparr>su_id = sid, su_agent = agent, su_filter = filt, su_transport = transport, su_url = opt_str url,
      su_secret = opt_str secret, su_description = opt_str desc, su_created = sq\<rparr>"

lemma str_or_str [simp]: "str_or E (PStr s) = s"
  by (simp add: str_or_def py_or_def)

lemma created_row_args: "created_row E sid (create_args sid agent filt transport url secret desc) sq =
    Inr (subscribed sid agent filt transport url secret desc sq)"
  by (simp add: created_row_def create_args_def subscribed_def py_or_def)

context ledger_store
begin

lemma create_active:
  assumes "invar s" and "active_subscriptions E (st_fetch L s c None) = Inr active"
    and "sid \<noteq> []" and "unused_id E sid (st_fetch L s c None)"
    and "st_write L (sub_create_req c sid agent transport (create_args sid agent filt transport url secret desc) now) s = (Inr res, s')"
  shows "active_subscriptions E (st_fetch L s' c None) =
    Inr (subscribed sid agent filt transport url secret desc (int (length (st_fetch L s c None)) + 2) # active)"
proof -
  let ?args = "create_args sid agent filt transport url secret desc"
  from const_write_rows [OF assms(1) assms(5) [unfolded sub_create_req_def]] obtain rp re rv rr where
    new: "st_fetch L s' c None = st_fetch L s c None @ [rp, re, rv, rr]"
    and kinds: "e_kind rp = ''propose''" "e_kind rv = ''verify''" "e_kind rr = ''resolve''"
    and re: "exec_row ''emit_agent_subscription_created'' ?args re" and sq: "e_seq re = int (length (st_fetch L s c None)) + 2"
    by (blast intro: exec_payload_row)
  obtain st where st: "scan_subs E (st_fetch L s c None) ([], {}) = Inr st" "active = active_of st"
    "scan_ok (int (length (st_fetch L s c None))) st"
    by (rule active_scan [OF fetch_chain [OF assms(1)] assms(2)])
  have id: "dget ?args ''subscription_id'' = PStr sid" by (simp add: create_args_def)
  have un: "sid \<notin> fst ` set (fst st) \<and> sid \<notin> snd st" by (rule scan_unused [OF st(1) assms(4)]) simp_all
  have "scan_step E re st = Inr (AList.update sid (subscribed sid agent filt transport url secret desc (e_seq re)) (fst st), snd st)"
    using sub_args_exec [OF re] assms(3) by (simp add: scan_step_def id created_row_args)
  then show ?thesis
    using active_of_create [OF st(3), of sid "subscribed sid agent filt transport url secret desc (e_seq re)"] un st(1,2)
    by (simp add: active_subscriptions_def new scan_four [OF kinds] sq subscribed_def)
qed

lemma revoke_active:
  assumes "invar s" and "active_subscriptions E (st_fetch L s c None) = Inr active" and "sid \<noteq> []"
    and "st_write L (sub_revoke_req c sid reason now) s = (Inr res, s')"
  shows "active_subscriptions E (st_fetch L s' c None) = Inr (filter (\<lambda>r. su_id r \<noteq> sid) active)"
proof -
  let ?args = "[(''subscription_id'', PStr sid), (''reason'', PStr reason)]"
  from const_write_rows [OF assms(1) assms(4) [unfolded sub_revoke_req_def]] obtain rp re rv rr where
    new: "st_fetch L s' c None = st_fetch L s c None @ [rp, re, rv, rr]"
    and kinds: "e_kind rp = ''propose''" "e_kind rv = ''verify''" "e_kind rr = ''resolve''"
    and re: "exec_row ''emit_agent_subscription_revoked'' ?args re"
    by (blast intro: exec_payload_row)
  obtain st where st: "scan_subs E (st_fetch L s c None) ([], {}) = Inr st" "active = active_of st"
    "scan_ok (int (length (st_fetch L s c None))) st"
    by (rule active_scan [OF fetch_chain [OF assms(1)] assms(2)])
  have "scan_step E re st = Inr (fst st, insert sid (snd st))"
    using sub_args_exec [OF re] assms(3) by (simp add: scan_step_def)
  then show ?thesis
    by (simp add: active_subscriptions_def new scan_four [OF kinds] st(1,2) active_of_revoke [OF st(3)])
qed

end

subsection \<open>Creating, listing and revoking\<close>

lemma with_uuid_run: "st_uuid L s = (u, s1) \<Longrightarrow> with_uuid L f s = f u s1"
  by (simp add: with_uuid_def)

context reliable_store
begin

lemma create_ok:
  assumes "invar s" and "active_subscriptions E (st_fetch L s c None) = Inr active"
    and "st_uuid L s = (sid, s0)" and "sid \<noteq> []" and "unused_id E sid (st_fetch L s c None)" and "jsonable_dict filt"
    and "transport = ''mcp_stream'' \<or>
      transport = ''webhook'' \<and> (\<exists>u v. url = Some u \<and> secret = Some v \<and> u \<noteq> [] \<and> v \<noteq> [])"
  shows "\<exists>s' row. create_subscription L c now agent agent filt transport url secret desc (s, g) =
      (Inr (SubCreated sid agent transport), (s', g)) \<and>
    active_subscriptions E (st_fetch L s' c None) = Inr (row # active) \<and>
    su_id row = sid \<and> su_agent row = agent \<and> su_filter row = filt \<and> su_transport row = transport \<and>
    su_url row = opt_str url \<and> su_secret row = opt_str secret \<and>
    list_subscriptions E L c agent agent (s', g) =
      (Inr (SubListed (map serialize_subscription_row (row # filter (\<lambda>r. su_agent r = agent) active))), (s', g))"
proof -
  note s0 = uuid_invar [OF assms(1,3)] uuid_fetch [OF assms(3)]
  let ?req = "sub_create_req c sid agent transport (create_args sid agent filt transport url secret desc) now"
  let ?row = "subscribed sid agent filt transport url secret desc (int (length (st_fetch L s c None)) + 2)"
  from write_clean [of ?req s0] assms(6) obtain res s' where w: "st_write L ?req s0 = (Inr res, s')" by auto
  have active: "active_subscriptions E (st_fetch L s' c None) = Inr (?row # active)"
    using create_active [OF s0(1) _ assms(4) _ w, of active] assms(2,5) by (simp add: s0(2))
  have "create_subscription L c now agent agent filt transport url secret desc (s, g) =
      (Inr (SubCreated sid agent transport), (s', g))"
  proof -
    have ok: "\<not> transport \<notin> {''mcp_stream'', ''webhook''}"
      "\<not> (transport = ''webhook'' \<and> (url \<in> {None, Some []} \<or> secret \<in> {None, Some []}))"
      using assms(7) by auto
    show ?thesis
      unfolding create_subscription_def if_not_P [OF ok(1)] if_not_P [OF ok(2)]
      by (simp add: tool_ledger_def with_uuid_run [OF assms(3)] sbind_def w)
  qed
  moreover have "list_subscriptions E L c agent agent (s', g) =
      (Inr (SubListed (map serialize_subscription_row (?row # filter (\<lambda>r. su_agent r = agent) active))), (s', g))"
    by (simp add: list_subscriptions_def active_in_def active sbind_def) (simp add: subscribed_def)
  ultimately show ?thesis using active
    by (intro exI [of _ s'] exI [of _ ?row]) (simp add: subscribed_def)
qed

lemma revoke_ok:
  assumes "invar s" and "active_subscriptions E (st_fetch L s c None) = Inr active"
    and "sid \<noteq> []" and "reason \<in> set REVOCATION_REASONS"
  shows "if \<exists>r\<in>set active. su_id r = sid \<and> su_agent r = caller
    then \<exists>s'. revoke_subscription E L c now caller sid reason (s, g) = (Inr (SubRevoked sid), (s', clear sid g)) \<and>
      active_subscriptions E (st_fetch L s' c None) = Inr (filter (\<lambda>r. su_id r \<noteq> sid) active)
    else \<exists>why. revoke_subscription E L c now caller sid reason (s, g) = (Inr (SubDenied why (Some sid)), (s, g))"
proof -
  obtain st where "active = active_of st" "scan_ok (int (length (st_fetch L s c None))) st"
    by (rule active_scan [OF fetch_chain [OF assms(1)] assms(2)])
  then have d: "distinct (map fst (map (\<lambda>r. (su_id r, su_agent r)) active))"
    using active_ids_distinct by (simp add: o_def)
  have owner: "map_of (rev (map (\<lambda>r. (su_id r, su_agent r)) active)) sid = Some a \<longleftrightarrow>
      (\<exists>r\<in>set active. su_id r = sid \<and> su_agent r = a)" for a
    unfolding map_of_rev_distinct [OF d] map_of_eq_Some_iff [OF d] by auto
  have run: "sbind (active_in E L c) f (s, g) = f active (s, g)" for f
    by (simp add: sbind_def active_in_def assms(2))
  show ?thesis
  proof (cases "\<exists>r\<in>set active. su_id r = sid \<and> su_agent r = caller")
    case True
    then have own: "map_of (rev (map (\<lambda>r. (su_id r, su_agent r)) active)) sid = Some caller" by (simp only: owner)
    from write_clean [of "sub_revoke_req c sid reason now" s] obtain res s' where
      w: "st_write L (sub_revoke_req c sid reason now) s = (Inr res, s')" by auto
    have "revoke_subscription E L c now caller sid reason (s, g) = (Inr (SubRevoked sid), (s', clear sid g))"
    proof -
      have t: "sbind (tool_ledger (st_write L (sub_revoke_req c sid reason now))) f (s, g) = f res (s', g)" for f
        by (simp add: tool_ledger_def sbind_def w)
      have q: "sbind (drop_queue sid) f w = f () (fst w, clear sid (snd w))" for f w by (simp add: sbind_def drop_queue_def)
      show ?thesis using assms(4) by (simp add: revoke_subscription_def run own t q)
    qed
    with revoke_active [OF assms(1-3) w] True show ?thesis by simp
  next
    case False
    then have "map_of (rev (map (\<lambda>r. (su_id r, su_agent r)) active)) sid \<noteq> Some caller" by (simp only: owner not_False_eq_True)
    then have "\<exists>why. revoke_subscription E L c now caller sid reason (s, g) = (Inr (SubDenied why (Some sid)), (s, g))"
      using assms(4)
      by (cases "map_of (rev (map (\<lambda>r. (su_id r, su_agent r)) active)) sid") (simp_all add: revoke_subscription_def run)
    then show ?thesis unfolding if_not_P [OF False] .
  qed
qed

end

text \<open>A subscription an agent creates for itself becomes the first of the active ones, with what
  was asked for, under the drawn identifier; the agent then lists exactly its own subscriptions.\<close>

theorem subscription_created:
  assumes "reliable_store E L invar" and "invar s" and "active_subscriptions E (st_fetch L s c None) = Inr active"
    and "st_uuid L s = (sid, s0)" and "sid \<noteq> []" and "unused_id E sid (st_fetch L s c None)" and "jsonable_dict filt"
    and "transport = ''mcp_stream'' \<or>
      transport = ''webhook'' \<and> (\<exists>u v. url = Some u \<and> secret = Some v \<and> u \<noteq> [] \<and> v \<noteq> [])"
  shows "\<exists>s' row. create_subscription L c now agent agent filt transport url secret desc (s, g) =
      (Inr (SubCreated sid agent transport), (s', g)) \<and>
    active_subscriptions E (st_fetch L s' c None) = Inr (row # active) \<and>
    su_id row = sid \<and> su_agent row = agent \<and> su_filter row = filt \<and> su_transport row = transport \<and>
    su_url row = opt_str url \<and> su_secret row = opt_str secret \<and>
    list_subscriptions E L c agent agent (s', g) =
      (Inr (SubListed (map serialize_subscription_row (row # filter (\<lambda>r. su_agent r = agent) active))), (s', g))"
  by (rule reliable_store.create_ok [OF assms])


lemma demo_unused: "unused_id E sid []" "active_subscriptions E [] = Inr []" "mem_rows mem_empty c = []"
  by (simp_all add: unused_id_def active_subscriptions_def active_of_def mem_empty_def mem_rows_def)

theorem subscription_created_witness:
  "\<exists>s' row. create_subscription (mem_store demo_env) ''c'' 7 ''bot'' ''bot'' [(''kinds'', PList [])] ''mcp_stream'' None None None
      (mem_empty, streams_init 5) = (Inr (SubCreated ''u0'' ''bot'' ''mcp_stream''), (s', streams_init 5)) \<and>
    active_subscriptions demo_env (st_fetch (mem_store demo_env) s' ''c'' None) = Inr [row] \<and> su_agent row = ''bot''"
proof -
  have f: "st_fetch (mem_store demo_env) mem_empty ''c'' None = []"
    by (simp add: mem_empty_def mem_rows_def)
  have u: "st_uuid (mem_store demo_env) mem_empty = (''u0'', mem_empty\<lparr>m_draws := 1\<rparr>)"
  proof -
    have "uuid4 demo_env 0 = ''u0''" by code_simp
    then show ?thesis by (simp add: mem_empty_def mem_store_def)
  qed
  have "jsonable_dict [(''kinds'', PList [])]" by (simp add: jsonable_dict_def)
  from subscription_created [OF ml.reliable_store_axioms mem_invar_empty _ u _ _ this, of "''c''" "[]" "''mcp_stream''"]
  show ?thesis by (simp add: f demo_unused) blast
qed


end
