(* ===== verification/Webhook_Transport.thy ===== *)
theory Webhook_Transport
  imports Demo_Environment
begin

section \<open>Signed webhooks (\<open>subscriptions/transports.py\<close>)\<close>

text \<open>
  \<open>WebhookTransport.deliver\<close>: the JSON body, its HMAC-SHA256 and the attempts with exponential
  backoff. HMAC and \<open>json.dumps\<close> are those of the standard library; SHA-256 comes from \<open>env\<close>.
  The network, the clock and the resolver of secrets are the record \<open>net\<close> over a world: a post
  answers a status or raises (name and text of the exception).
\<close>

subsection \<open>\<open>json.dumps(payload, separators=(",", ":"), sort_keys=True).encode()\<close>\<close>

text \<open>The type of the first value \<open>json.dumps\<close> refuses without \<open>default\<close>, keys in sorted order.\<close>

fun first_some :: "'a option list \<Rightarrow> 'a option" where
  "first_some [] = None"
| "first_some (x # xs) = (case x of None \<Rightarrow> first_some xs | Some y \<Rightarrow> Some y)"

fun unencodable :: "pyval \<Rightarrow> string option" where
  "unencodable (PUuid u) = Some ''UUID''"
| "unencodable (PTime t) = Some ''datetime''"
| "unencodable (PBytes b) = Some ''bytes''"
| "unencodable (PObj n) = Some n"
| "unencodable (PList xs) = first_some (map unencodable xs)"
| "unencodable (PTuple xs) = first_some (map unencodable xs)"
| "unencodable (PDict d) = first_some (map snd (sort_key fst (map (\<lambda>p. (fst p, unencodable (snd p))) d)))"
| "unencodable v = None"

text \<open>\<open>ensure_ascii\<close>: a character outside the printable ASCII range becomes \<open>uXXXX\<close> escapes.\<close>

definition code_point :: "string \<Rightarrow> nat" where
  "code_point u =
     (case u of [] \<Rightarrow> 0
      | c # cs \<Rightarrow>
          let b = (of_char c :: nat);
              lead = (if b < 128 then b else if b < 224 then b mod 32 else if b < 240 then b mod 16 else b mod 8)
          in foldl (\<lambda>a d. 64 * a + (of_char d :: nat) mod 64) lead cs)"

definition u_escape :: "nat \<Rightarrow> string" where
  "u_escape n = [CHR 0x5C, CHR ''u'', hex_digit (n div 4096 mod 16), hex_digit (n div 256 mod 16),
     hex_digit (n div 16 mod 16), hex_digit (n mod 16)]"

definition ascii_escape :: "string \<Rightarrow> string" where
  "ascii_escape u =
     (let n = code_point u
      in if n < 127 then u
         else if n < 65536 then u_escape n
         else u_escape (55296 + (n - 65536) div 1024) @ u_escape (56320 + (n - 65536) mod 1024))"

definition webhook_body :: "env \<Rightarrow> pydict \<Rightarrow> (string \<times> string) + bytes" where
  "webhook_body E payload =
     (case unencodable (PDict payload) of
        Some ty \<Rightarrow> Inl (''TypeError'', ''Object of type '' @ ty @ '' is not JSON serializable'')
      | None \<Rightarrow>
          (case json_dumps E (PDict payload) of
             Inl x \<Rightarrow> Inl (''TypeError'', [])
           | Inr s \<Rightarrow> Inr (concat (map ascii_escape (utf8_chars s)))))"

subsection \<open>Signatures\<close>

definition xor_pad :: "nat \<Rightarrow> bytes \<Rightarrow> bytes" where
  "xor_pad n k = map (\<lambda>c. char_of (Bit_Operations.xor (of_char c :: nat) n)) k"

text \<open>\<open>hmac.new(key, msg, hashlib.sha256)\<close>, RFC 2104 with blocks of 64 bytes.\<close>

definition hmac_sha256 :: "env \<Rightarrow> bytes \<Rightarrow> bytes \<Rightarrow> bytes" where
  "hmac_sha256 E key msg =
     (let k0 = (if 64 < length key then sha256 E key else key);
          k = k0 @ replicate (64 - length k0) (CHR 0x00)
      in sha256 E (xor_pad 92 k @ sha256 E (xor_pad 54 k @ msg)))"

definition sign_body :: "env \<Rightarrow> bytes \<Rightarrow> string \<Rightarrow> string" where
  "sign_body E body secret = bytes_hex (hmac_sha256 E secret body)"

definition verify_signature :: "env \<Rightarrow> bytes \<Rightarrow> string \<Rightarrow> string \<Rightarrow> bool" where
  "verify_signature E body signature secret = (sign_body E body secret = signature)"

subsection \<open>Delivery\<close>

record http_request =
  hr_url :: pyval
  hr_body :: bytes
  hr_signature :: string
  hr_attempt :: string

record 'w net =
  net_post :: "http_request \<Rightarrow> 'w \<Rightarrow> ((string \<times> string) + int) \<times> 'w"
  net_sleep :: "rat \<Rightarrow> 'w \<Rightarrow> 'w"
  net_now :: "'w \<Rightarrow> rat"
  net_secret :: "pyval \<Rightarrow> 'w \<Rightarrow> ((string \<times> string) + string) \<times> 'w"

record webhook =
  wt_retries :: int
  wt_backoff :: rat

record delivery_result =
  dr_status :: string
  dr_duration :: int
  dr_error :: "string option"
  dr_http :: "int option"

definition webhook_default :: webhook where
  "webhook_default = \<lparr>wt_retries = 3, wt_backoff = 1\<rparr>"

definition request_of :: "pyval \<Rightarrow> bytes \<Rightarrow> string \<Rightarrow> nat \<Rightarrow> http_request" where
  "request_of url body sig attempt =
     \<lparr>hr_url = url, hr_body = body, hr_signature = sig, hr_attempt = dec_nat (attempt + 1)\<rparr>"

text \<open>\<open>type(exc).__name__ + ": " + str(exc)[:200]\<close>.\<close>

definition exc_text :: "string \<times> string \<Rightarrow> string" where
  "exc_text x = fst x @ '': '' @ concat (take 200 (utf8_chars (snd x)))"

definition elapsed_ms :: "rat \<Rightarrow> rat \<Rightarrow> int" where
  "elapsed_ms start now = trunc ((now - start) * 1000)"

function deliver_from :: "'w net \<Rightarrow> webhook \<Rightarrow> pyval \<Rightarrow> bytes \<Rightarrow> string \<Rightarrow> rat \<Rightarrow> nat \<Rightarrow> string option \<Rightarrow> int option
    \<Rightarrow> 'w \<Rightarrow> delivery_result \<times> 'w" where
  "deliver_from N t url body sig start attempt err code w =
     (if int attempt < wt_retries t + 1 then
        (case net_post N (request_of url body sig attempt) w of (answer, w1) \<Rightarrow>
          let code' = (case answer of Inl _ \<Rightarrow> code | Inr c \<Rightarrow> Some c);
              err' = (case answer of Inl x \<Rightarrow> exc_text x | Inr c \<Rightarrow> ''HTTP '' @ dec_int c)
          in if (case answer of Inl _ \<Rightarrow> False | Inr c \<Rightarrow> 200 \<le> c \<and> c < 300)
             then (\<lparr>dr_status = ''delivered'', dr_duration = elapsed_ms start (net_now N w1), dr_error = None, dr_http = code'\<rparr>, w1)
             else deliver_from N t url body sig start (Suc attempt) (Some err') code'
                    (if int attempt < wt_retries t then net_sleep N (wt_backoff t * 4 ^ attempt) w1 else w1))
      else (\<lparr>dr_status = ''failed'', dr_duration = elapsed_ms start (net_now N w), dr_error = err, dr_http = code\<rparr>, w))"
  by pat_completeness auto

termination
  by (relation "measure (\<lambda>(N, t, url, body, sig, start, attempt, err, code, w). nat (wt_retries t + 1) - attempt)") auto

declare deliver_from.simps [simp del]

text \<open>An exception of the encoder or of the resolver leaves \<open>deliver\<close>, by name and text.\<close>

definition deliver :: "env \<Rightarrow> 'w net \<Rightarrow> webhook \<Rightarrow> pyval \<Rightarrow> pyval \<Rightarrow> pydict \<Rightarrow> 'w \<Rightarrow> ((string \<times> string) + delivery_result) \<times> 'w" where
  "deliver E N t url secret_ref payload w =
     (case webhook_body E payload of
        Inl x \<Rightarrow> (Inl x, w)
      | Inr body \<Rightarrow>
          (case net_secret N secret_ref w of
             (Inl x, w1) \<Rightarrow> (Inl x, w1)
           | (Inr secret, w1) \<Rightarrow>
               (case deliver_from N t url body (sign_body E body secret) (net_now N w1) 0 None None w1 of
                  (r, w2) \<Rightarrow> (Inr r, w2))))"

lemma deliver_from_status: "fst (deliver_from N t url body sig start attempt err code w) = r \<Longrightarrow> dr_status r \<in> {''delivered'', ''failed''}"
proof (induction N t url body sig start attempt err code w arbitrary: r rule: deliver_from.induct)
  case (1 N t url body sig start attempt err code w)
  note unfold = deliver_from.simps [of N t url body sig start attempt err code w]
  obtain answer w1 where post: "net_post N (request_of url body sig attempt) w = (answer, w1)"
    by (cases "net_post N (request_of url body sig attempt) w")
  show ?case
  proof (cases "int attempt < wt_retries t + 1 \<and> \<not> (case answer of Inl _ \<Rightarrow> False | Inr c \<Rightarrow> 200 \<le> c \<and> c < 300)")
    case True
    with "1.IH" [OF _ post [symmetric] refl refl] "1.prems" show ?thesis by (simp add: unfold post Let_def)
  next
    case False
    with "1.prems" show ?thesis by (auto simp: unfold post Let_def split: if_splits)
  qed
qed

subsection \<open>Attempts and backoff\<close>

text \<open>An observer that sees the requests and the time slept.\<close>

definition watched :: "('w \<Rightarrow> http_request list) \<Rightarrow> ('w \<Rightarrow> rat) \<Rightarrow> 'w net \<Rightarrow> bool" where
  "watched sent slept N =
     ((\<forall>rq w. sent (snd (net_post N rq w)) = sent w @ [rq] \<and> slept (snd (net_post N rq w)) = slept w) \<and>
      (\<forall>d w. sent (net_sleep N d w) = sent w \<and> slept (net_sleep N d w) = slept w + d) \<and>
      (\<forall>r w. sent (snd (net_secret N r w)) = sent w \<and> slept (snd (net_secret N r w)) = slept w))"

lemma watched_post: "watched sent slept N \<Longrightarrow> net_post N rq w = (answer, w1) \<Longrightarrow> sent w1 = sent w @ [rq] \<and> slept w1 = slept w"
  unfolding watched_def by (metis snd_conv)

lemma watched_sleep: "watched sent slept N \<Longrightarrow> sent (net_sleep N d w) = sent w \<and> slept (net_sleep N d w) = slept w + d"
  unfolding watched_def by blast

definition trace_from :: "('w \<Rightarrow> http_request list) \<Rightarrow> ('w \<Rightarrow> rat) \<Rightarrow> webhook \<Rightarrow> (nat \<Rightarrow> http_request) \<Rightarrow> nat
    \<Rightarrow> 'w \<Rightarrow> delivery_result \<Rightarrow> 'w \<Rightarrow> nat \<Rightarrow> bool" where
  "trace_from sent slept t rq attempt w r w' k =
     (attempt < k \<and> int k \<le> wt_retries t + 1 \<and>
      sent w' = sent w @ map rq [attempt..<k] \<and>
      slept w' - slept w = wt_backoff t * (4 ^ (k - 1) - 4 ^ attempt) / 3 \<and>
      (dr_status r = ''delivered'' \<and> dr_error r = None \<or>
       dr_status r = ''failed'' \<and> int k = wt_retries t + 1 \<and> dr_error r \<noteq> None))"

lemma trace_from_first:
  assumes "sent w' = sent w @ [rq attempt]" and "slept w' = slept w" and "int attempt \<le> wt_retries t"
    and "dr_status r = ''delivered'' \<and> dr_error r = None \<or> dr_status r = ''failed'' \<and> int attempt = wt_retries t \<and> dr_error r \<noteq> None"
  shows "trace_from sent slept t rq attempt w r w' (Suc attempt)"
  using assms by (auto simp: trace_from_def)

lemma trace_from_step:
  assumes "sent w2 = sent w @ [rq attempt]" and "slept w2 = slept w + wt_backoff t * 4 ^ attempt"
    and "trace_from sent slept t rq (Suc attempt) w2 r w' k"
  shows "trace_from sent slept t rq attempt w r w' k"
proof -
  from assms(3) have k: "Suc attempt < k" "int k \<le> wt_retries t + 1" "sent w' = sent w2 @ map rq [Suc attempt..<k]"
    "slept w' - slept w2 = wt_backoff t * (4 ^ (k - 1) - 4 ^ Suc attempt) / 3" by (simp_all add: trace_from_def)
  have "slept w' - slept w = (slept w' - slept w2) + wt_backoff t * 4 ^ attempt" by (simp add: assms(2))
  also have "\<dots> = wt_backoff t * (4 ^ (k - 1) - 4 ^ attempt) / 3" by (simp add: k(4) field_simps)
  finally have "slept w' - slept w = wt_backoff t * (4 ^ (k - 1) - 4 ^ attempt) / 3" .
  with k assms(1,3) show ?thesis by (auto simp: trace_from_def upt_conv_Cons)
qed

lemma deliver_from_trace:
  "watched sent slept N \<Longrightarrow> int attempt \<le> wt_retries t \<Longrightarrow>
   deliver_from N t url body sig start attempt err code w = (r, w') \<Longrightarrow>
     \<exists>k. trace_from sent slept t (request_of url body sig) attempt w r w' k"
proof (induction N t url body sig start attempt err code w rule: deliver_from.induct)
  case (1 N t url body sig start attempt err code w)
  obtain answer w1 where post: "net_post N (request_of url body sig attempt) w = (answer, w1)"
    by (cases "net_post N (request_of url body sig attempt) w")
  note seen = watched_post [OF "1.prems"(1) post]
  let ?err = "case answer of Inl x \<Rightarrow> exc_text x | Inr c \<Rightarrow> ''HTTP '' @ dec_int c"
  let ?code = "case answer of Inl _ \<Rightarrow> code | Inr c \<Rightarrow> Some c"
  have active: "int attempt < wt_retries t + 1" using "1.prems"(2) by simp
  note unfold = deliver_from.simps [of N t url body sig start attempt err code w]
  show ?case
  proof (cases "case answer of Inl _ \<Rightarrow> False | Inr c \<Rightarrow> 200 \<le> c \<and> c < 300")
    case True
    with "1.prems"(3) active have "dr_status r = ''delivered'' \<and> dr_error r = None" "w' = w1"
      by (auto simp: unfold post Let_def)
    with seen "1.prems"(2) trace_from_first [of sent w' w "request_of url body sig" attempt slept t r] show ?thesis
      by blast
  next
    case retry: False
    show ?thesis
    proof (cases "int attempt < wt_retries t")
      case True
      let ?w2 = "net_sleep N (wt_backoff t * 4 ^ attempt) w1"
      from True retry "1.prems"(3) active
      have run: "deliver_from N t url body sig start (Suc attempt) (Some ?err) ?code ?w2 = (r, w')"
        by (simp add: unfold post Let_def)
      from "1.IH" [OF active post [symmetric] refl refl retry "1.prems"(1)] True run obtain k where
        k: "trace_from sent slept t (request_of url body sig) (Suc attempt) ?w2 r w' k" by auto
      from trace_from_step [of sent ?w2 w _ attempt slept t, OF _ _ k] seen watched_sleep [OF "1.prems"(1)]
      show ?thesis by auto
    next
      case False
      with "1.prems"(2) have last: "int attempt = wt_retries t" by simp
      with retry "1.prems"(3) have "deliver_from N t url body sig start (Suc attempt) (Some ?err) ?code w1 = (r, w')"
        by (simp add: unfold post Let_def)
      then have "dr_status r = ''failed'' \<and> dr_error r = Some ?err" "w' = w1"
        using last by (auto simp: deliver_from.simps [of N t url body sig start "Suc attempt"])
      with seen last trace_from_first [of sent w' w "request_of url body sig" attempt slept t r] show ?thesis
        by auto
    qed
  qed
qed

text \<open>C31: A webhook is posted at most \<open>max_retries + 1\<close> times, always with the same body and a
  signature that verifies, numbered from 1; between the posts it sleeps \<open>base\<close>, \<open>4 * base\<close>, and so
  on. It is reported as failed, with an error, only after all of them.\<close>

theorem webhook_attempts:
  assumes "watched sent slept N" and "0 \<le> wt_retries t" and "deliver E N t url ref payload w = (Inr r, w')"
  shows "\<exists>body sig secret k. verify_signature E body sig secret \<and> 0 < k \<and> int k \<le> wt_retries t + 1 \<and>
    sent w' = sent w @ map (\<lambda>n. \<lparr>hr_url = url, hr_body = body, hr_signature = sig, hr_attempt = dec_nat (n + 1)\<rparr>) [0..<k] \<and>
    slept w' - slept w = wt_backoff t * (4 ^ (k - 1) - 1) / 3 \<and>
    (dr_status r = ''delivered'' \<and> dr_error r = None \<or>
     dr_status r = ''failed'' \<and> int k = wt_retries t + 1 \<and> dr_error r \<noteq> None)"
proof -
  from assms(3) obtain body secret w1 where b: "webhook_body E payload = Inr body" "net_secret N ref w = (Inr secret, w1)"
    and d: "deliver_from N t url body (sign_body E body secret) (net_now N w1) 0 None None w1 = (r, w')"
    by (auto simp: deliver_def split: sum.splits prod.splits)
  have same: "sent w1 = sent w" "slept w1 = slept w" using assms(1) b(2) unfolding watched_def by (metis snd_conv)+
  from deliver_from_trace [OF assms(1) _ d] assms(2) obtain k where
    "trace_from sent slept t (request_of url body (sign_body E body secret)) 0 w1 r w' k" by auto
  then show ?thesis
    by (intro exI [of _ body] exI [of _ "sign_body E body secret"] exI [of _ secret] exI [of _ k])
       (simp add: trace_from_def same request_of_def verify_signature_def)
qed

text \<open>A receiver that is down for the first post.\<close>

definition demo_net :: "(http_request list \<times> rat) net" where
  "demo_net = \<lparr>net_post = (\<lambda>rq (sent, t). (if sent = [] then Inl (''TimeoutError'', []) else Inr 204, (sent @ [rq], t))),
     net_sleep = (\<lambda>d (sent, t). (sent, t + d)), net_now = snd, net_secret = (\<lambda>r w. (Inr ''key'', w))\<rparr>"

theorem webhook_attempts_witness:
  "\<exists>r sent. deliver demo_env demo_net webhook_default (PStr ''https://a'') (PStr ''env://K'') [(''n'', PInt 1)] ([], 0) = (Inr r, (sent, 1)) \<and>
     dr_status r = ''delivered'' \<and> length sent = 2"
proof -
  have "watched fst snd demo_net" by (auto simp: watched_def demo_net_def)
  note bound = webhook_attempts [OF this, of webhook_default demo_env "PStr ''https://a''" "PStr ''env://K''" "[(''n'', PInt 1)]" "([], 0)"]
  have run: "case deliver demo_env demo_net webhook_default (PStr ''https://a'') (PStr ''env://K'') [(''n'', PInt 1)] ([], 0) of
    (Inr r, (sent, t)) \<Rightarrow> dr_status r = ''delivered'' \<and> length sent = 2 \<and> t = 1 | _ \<Rightarrow> False" by code_simp
  then obtain r sent where r: "deliver demo_env demo_net webhook_default (PStr ''https://a'') (PStr ''env://K'') [(''n'', PInt 1)] ([], 0) = (Inr r, (sent, 1))"
    "dr_status r = ''delivered''" "length sent = 2" by (auto split: prod.splits sum.splits)
  from bound [OF _ r(1)] r show ?thesis by (auto simp: webhook_default_def)
qed

end
