(* ===== verification/Dispatcher.thy ===== *)
theory Dispatcher
  imports Subscriptions Webhook_Transport Reactivity_Registry
begin

section \<open>The subscription dispatcher (\<open>subscriptions/dispatcher.py\<close>)\<close>

text \<open>
  The reactivity that hands a ledger row to the active subscriptions whose filter it matches and
  records each delivery. Its state is the ledger, the stream registry and the world of the
  network. Time passes only while the network or a sleep is awaited.
\<close>

type_synonym ('s, 'w) hub = "'s \<times> pydict streams \<times> 'w"

definition dispatcher_predicate :: predicate where
  "dispatcher_predicate =
     PNot (pred_or (pred_or (EntryKind ''agent_subscription_created'') (EntryKind ''agent_subscription_revoked''))
       (EntryKind ''agent_event_delivered''))"

subsection \<open>What has been delivered\<close>

definition delivered_pair :: "env \<Rightarrow> entry \<Rightarrow> (string \<times> int) option" where
  "delivered_pair E e =
     (if e_kind e \<noteq> ''execute'' \<or> dget (e_payload e) ''tool'' \<noteq> PStr ''emit_agent_event_delivered'' then None
      else case py_or (dget (e_payload e) ''args'') (PDict []) of
        PDict args \<Rightarrow>
          (case py_int_of (py_or (dget args ''triggering_entry_seq'') (PInt 0)) of
             None \<Rightarrow> None
           | Some sq \<Rightarrow> (let sid = str_or E (dget args ''subscription_id'') in if sid = [] then None else Some (sid, sq)))
      | _ \<Rightarrow> None)"

definition delivered_pairs :: "env \<Rightarrow> entry list \<Rightarrow> (string \<times> int) list" where
  "delivered_pairs E rows = List.map_filter (delivered_pair E) rows"

definition build_delivered_index :: "env \<Rightarrow> entry list \<Rightarrow> (string \<times> int) set" where
  "build_delivered_index E rows = set (delivered_pairs E rows)"

subsection \<open>One delivery\<close>

definition safe_args :: "entry \<Rightarrow> pydict" where
  "safe_args e = (case dget (e_payload e) ''args'' of PDict args \<Rightarrow> args | _ \<Rightarrow> [])"

definition event_payload :: "string \<Rightarrow> entry \<Rightarrow> pydict" where
  "event_payload sid e =
     [(''subscription_id'', PStr sid), (''triggering_entry_seq'', PInt (e_seq e)), (''kind'', PStr (e_kind e)),
      (''ts'', PStr (isoformat (e_ts e))), (''args'', PDict (safe_args e))]"

record transport_result =
  tr_status :: string
  tr_duration :: int
  tr_error :: "string option"

definition do_transport :: "env \<Rightarrow> 'w net \<Rightarrow> webhook \<Rightarrow> bool \<Rightarrow> sub_row \<Rightarrow> pydict \<Rightarrow> pydict streams \<times> 'w
    \<Rightarrow> transport_result \<times> (pydict streams \<times> 'w)" where
  "do_transport E N wt replay su ev gw =
     (if replay then (\<lparr>tr_status = ''delivered'', tr_duration = 0, tr_error = None\<rparr>, gw)
      else if su_transport su = ''webhook'' then
        (if \<not> truthy (su_url su) \<or> \<not> truthy (su_secret su)
         then (\<lparr>tr_status = ''no_target'', tr_duration = 0,
                tr_error = Some ''webhook subscription missing url or secret_ref''\<rparr>, gw)
         else case deliver E N wt (su_url su) (su_secret su) ev (snd gw) of
             (Inl x, w1) \<Rightarrow>
               (\<lparr>tr_status = ''failed'', tr_duration = elapsed_ms (net_now N (snd gw)) (net_now N w1),
                 tr_error = Some (exc_text x)\<rparr>, (fst gw, w1))
           | (Inr r, w1) \<Rightarrow>
               (\<lparr>tr_status = dr_status r, tr_duration = dr_duration r, tr_error = dr_error r\<rparr>, (fst gw, w1)))
      else if su_transport su = ''mcp_stream'' then
        (\<lparr>tr_status = ''delivered'', tr_duration = 0, tr_error = None\<rparr>, (push (su_id su) ev (fst gw), snd gw))
      else (\<lparr>tr_status = ''failed'', tr_duration = 0,
             tr_error = Some (''unknown transport: '' @ repr_str (su_transport su))\<rparr>, gw))"

definition transport_used :: "sub_row \<Rightarrow> string" where
  "transport_used su = (if su_transport su \<in> {''webhook'', ''mcp_stream''} then su_transport su else ''mcp_stream'')"

definition delivered_args :: "sub_row \<Rightarrow> entry \<Rightarrow> transport_result \<Rightarrow> pydict" where
  "delivered_args su e res =
     [(''subscription_id'', PStr (su_id su)), (''triggering_entry_seq'', PInt (e_seq e)),
      (''triggering_entry_kind'', PStr (e_kind e)), (''transport_used'', PStr (transport_used su)),
      (''delivery_status'', PStr (tr_status res)), (''duration_ms'', PInt (tr_duration res)),
      (''error'', opt_str (tr_error res))]"

definition delivered_req :: "uuid \<Rightarrow> sub_row \<Rightarrow> entry \<Rightarrow> transport_result \<Rightarrow> int \<Rightarrow> write_req" where
  "delivered_req c su e res now =
     const_req c
       [(''target_kind'', PStr ''agent_event_delivered''), (''subscription_id'', PStr (su_id su)),
        (''triggering_entry_seq'', PInt (e_seq e)), (''triggering_entry_kind'', PStr (e_kind e)),
        (''transport_used'', PStr (transport_used su)), (''delivery_status'', PStr (tr_status res))]
       [(''tool'', PStr ''emit_agent_event_delivered''), (''args'', PDict (delivered_args su e res)),
        (''result_ref'', PStr (su_id su))]
       [(''checks'', PList [PDict [(''name'', PStr ''agent_event_delivered_recorded''), (''ok'', PBool True)]]),
        (''passed'', PBool True), (''delivery_status'', PStr (tr_status res))]
       [(''outcome'', PStr ''keep''),
        (''rationale'', PStr (''agent_event_delivered: subscription='' @ su_id su @ '' triggering_seq='' @
           dec_int (e_seq e) @ '' status='' @ tr_status res))]
       (Some now) now ''active_deterministic''"

text \<open>The transport runs first; a write that fails is logged and the delivery not reported.\<close>

definition deliver_event :: "env \<Rightarrow> 's store \<Rightarrow> 'w net \<Rightarrow> webhook \<Rightarrow> bool \<Rightarrow> uuid \<Rightarrow> int \<Rightarrow> sub_row \<Rightarrow> entry
    \<Rightarrow> ('s, 'w) hub \<Rightarrow> bool \<times> ('s, 'w) hub" where
  "deliver_event E L N wt replay c now su e h =
     (case do_transport E N wt replay su (event_payload (su_id su) e) (snd h) of (res, gw) \<Rightarrow>
        (case st_write L (delivered_req c su e res now) (fst h) of
           (Inl x, s) \<Rightarrow> (False, (s, gw))
         | (Inr r, s) \<Rightarrow> (True, (s, gw))))"

subsection \<open>\<open>fire\<close>\<close>

fun fire_loop :: "env \<Rightarrow> 's store \<Rightarrow> 'w net \<Rightarrow> webhook \<Rightarrow> bool \<Rightarrow> uuid \<Rightarrow> int \<Rightarrow> entry \<Rightarrow> sub_row list \<Rightarrow> (string \<times> int) set
    \<Rightarrow> ('s, 'w) hub \<Rightarrow> (exc + nat) \<times> ('s, 'w) hub" where
  "fire_loop E L N wt replay c now e [] index h = (Inr 0, h)"
| "fire_loop E L N wt replay c now e (su # sus) index h =
     (case deserialize_filter (PDict (su_filter su)) of
        Inl x \<Rightarrow> fire_loop E L N wt replay c now e sus index h
      | Inr f \<Rightarrow>
          (case rbind (compile_filter f) (\<lambda>m. m (entry_dict e)) of
             Inl x \<Rightarrow> (Inl x, h)
           | Inr b \<Rightarrow>
               if \<not> b \<or> su_id su = [] \<or> (su_id su, e_seq e) \<in> index
               then fire_loop E L N wt replay c now e sus index h
               else (case deliver_event E L N wt replay c now su e h of
                   (False, h1) \<Rightarrow> fire_loop E L N wt replay c now e sus index h1
                 | (True, h1) \<Rightarrow>
                     (case fire_loop E L N wt replay c now e sus (insert (su_id su, e_seq e) index) h1 of
                        (Inl x, h2) \<Rightarrow> (Inl x, h2)
                      | (Inr n, h2) \<Rightarrow> (Inr (Suc n), h2)))))"

definition fire :: "env \<Rightarrow> 's store \<Rightarrow> 'w net \<Rightarrow> webhook \<Rightarrow> bool \<Rightarrow> uuid \<Rightarrow> int \<Rightarrow> entry \<Rightarrow> ('s, 'w) hub
    \<Rightarrow> (exc + nat) \<times> ('s, 'w) hub" where
  "fire E L N wt replay c now e h =
     (let rows = st_fetch L (fst h) c None
      in case active_subscriptions E rows of
           Inl x \<Rightarrow> (Inl x, h)
         | Inr active \<Rightarrow>
             if active = [] then (Inr 0, h)
             else fire_loop E L N wt replay c now e active (build_delivered_index E rows) h)"

definition fire_result :: "nat \<Rightarrow> rx_result" where
  "fire_result n = \<lparr>rr_fired = 0 < n, rr_actions = replicate n \<lparr>fa_kind = ''agent_event_delivered'', fa_seqs = []\<rparr>,
     rr_novelty = [], rr_budget = []\<rparr>"

subsection \<open>What a delivery adds to the ledger\<close>

lemma predicate_skips_delivered:
  "exec_row ''emit_agent_event_delivered'' args e \<Longrightarrow> pred_match E dispatcher_predicate e = Inr False"
  by (simp add: dispatcher_predicate_def pred_or_def entry_kind_match_def exec_row_def payload_of_def ends_with_def)

lemma predicate_takes_envelope:
  "e_kind e \<in> {''propose'', ''verify'', ''resolve''} \<Longrightarrow> pred_match E dispatcher_predicate e = Inr True"
  by (auto simp: dispatcher_predicate_def pred_or_def entry_kind_match_def)

lemma delivered_pair_other: "e_kind e \<noteq> ''execute'' \<Longrightarrow> delivered_pair E e = None"
  by (simp add: delivered_pair_def)

lemma delivered_pairs_simps [simp]:
  "delivered_pairs E [] = []"
  "delivered_pairs E (xs @ ys) = delivered_pairs E xs @ delivered_pairs E ys"
  "delivered_pairs E (e # es) = (case delivered_pair E e of None \<Rightarrow> [] | Some p \<Rightarrow> [p]) @ delivered_pairs E es"
  by (simp_all add: delivered_pairs_def map_filter_def split: option.splits)

lemma delivered_args_ids: "dget (delivered_args su e res) ''subscription_id'' = PStr (su_id su)"
  "dget (delivered_args su e res) ''triggering_entry_seq'' = PInt (e_seq e)" "delivered_args su e res \<noteq> []"
  by (simp_all add: delivered_args_def)

lemma delivered_pair_exec:
  assumes "exec_row ''emit_agent_event_delivered'' (delivered_args su e res) r" and "su_id su \<noteq> []"
  shows "delivered_pair E r = Some (su_id su, e_seq e)"
proof -
  have "dget (e_payload r) ''args'' = PDict (delivered_args su e res)"
    using assms(1) by (simp add: exec_row_def payload_of_def dget_def)
  moreover have "e_kind r = ''execute''" "dget (e_payload r) ''tool'' = PStr ''emit_agent_event_delivered''"
    using assms(1) by (simp_all add: exec_row_def payload_of_def)
  ultimately show ?thesis using assms(2) by (simp add: delivered_pair_def py_or_def delivered_args_ids)
qed

lemma delivered_scan:
  assumes "exec_row ''emit_agent_event_delivered'' (delivered_args su e res) r" and "su_id su \<noteq> []"
  shows "scan_step E r st = Inr st"
  using sub_args_exec [OF assms(1)] assms(2) by (simp add: scan_step_def delivered_args_ids)

lemma delivered_req_clean [simp]: "clean_req (delivered_req c su e res now)"
  by (simp add: delivered_req_def clean_const_req)
     (simp add: jsonable_dict_def delivered_args_def opt_str_def split: option.split)

context ledger_store
begin

lemma deliver_rows:
  assumes "invar s" and "su_id su \<noteq> []" and "deliver_event E' L N wt replay c now su e (s, gw) = (True, (s', gw'))"
  shows "invar s' \<and> (\<exists>res rp re rv rr. st_fetch L s' c None = st_fetch L s c None @ [rp, re, rv, rr] \<and>
    e_kind rp = ''propose'' \<and> e_kind rv = ''verify'' \<and> e_kind rr = ''resolve'' \<and>
    exec_row ''emit_agent_event_delivered'' (delivered_args su e res) re)"
proof -
  obtain res gw1 where "do_transport E' N wt replay su (event_payload (su_id su) e) gw = (res, gw1)"
    by (cases "do_transport E' N wt replay su (event_payload (su_id su) e) gw")
  with assms(3) obtain r where w: "st_write L (delivered_req c su e res now) s = (Inr r, s')"
    by (auto simp: deliver_event_def split: prod.splits sum.splits)
  from const_write_rows [OF assms(1) w [unfolded delivered_req_def]] write_invar [OF assms(1) w]
  show ?thesis by (blast intro: exec_payload_row)
qed

lemma deliver_appends:
  assumes "invar s" and "su_id su \<noteq> []" and "deliver_event E' L N wt replay c now su e (s, gw) = (True, (s', gw'))"
  shows "invar s' \<and> delivered_pairs E'' (st_fetch L s' c None) = delivered_pairs E'' (st_fetch L s c None) @ [(su_id su, e_seq e)] \<and>
    active_subscriptions E'' (st_fetch L s' c None) = active_subscriptions E'' (st_fetch L s c None)"
proof -
  from deliver_rows [OF assms] obtain res rp re rv rr where inv: "invar s'"
    and new: "st_fetch L s' c None = st_fetch L s c None @ [rp, re, rv, rr]"
    and kinds: "e_kind rp = ''propose''" "e_kind rv = ''verify''" "e_kind rr = ''resolve''"
    and re: "exec_row ''emit_agent_event_delivered'' (delivered_args su e res) re" by blast
  have "scan_step E'' re = Inr" using delivered_scan [OF re assms(2)] by (rule ext)
  then have "active_subscriptions E'' (st_fetch L s' c None) = active_subscriptions E'' (st_fetch L s c None)"
    by (cases "scan_subs E'' (st_fetch L s c None) ([], {})") (simp_all add: active_subscriptions_def new scan_four [OF kinds])
  with inv show ?thesis
    by (simp add: new delivered_pair_other kinds delivered_pair_exec [OF re assms(2)])
qed

lemma deliver_fails:
  assumes "invar s" and "deliver_event E' L N wt replay c now su e (s, gw) = (False, (s', gw'))"
  shows "invar s' \<and> st_fetch L s' d None = st_fetch L s d None"
proof -
  obtain res gw1 where "do_transport E' N wt replay su (event_payload (su_id su) e) gw = (res, gw1)"
    by (cases "do_transport E' N wt replay su (event_payload (su_id su) e) gw")
  with assms(2) obtain x where w: "st_write L (delivered_req c su e res now) s = (Inl x, s')"
    by (auto simp: deliver_event_def split: prod.splits sum.splits)
  from write_failed [OF assms(1) _ w] write_invar [OF assms(1) w] show ?thesis by simp
qed

lemma fire_loop_distinct:
  assumes "invar (fst h)" and "set (delivered_pairs E' (st_fetch L (fst h) c None)) \<subseteq> index"
    and "distinct (delivered_pairs E' (st_fetch L (fst h) c None))"
    and "fire_loop E'' L N wt replay c now e sus index h = (out, h')"
  shows "invar (fst h') \<and> distinct (delivered_pairs E' (st_fetch L (fst h') c None))"
  using assms
proof (induction sus arbitrary: index h out)
  case Nil
  then show ?case by simp
next
  case (Cons su sus)
  note IH = Cons.IH
  obtain s gw where h: "h = (s, gw)" by (cases h)
  show ?case
  proof (cases "\<exists>f. deserialize_filter (PDict (su_filter su)) = Inr f \<and>
      rbind (compile_filter f) (\<lambda>m. m (entry_dict e)) = Inr True \<and> su_id su \<noteq> [] \<and> (su_id su, e_seq e) \<notin> index")
    case False
    then consider "fire_loop E'' L N wt replay c now e sus index h = (out, h')" | "h' = h"
      using Cons.prems(4) by (auto split: sum.splits if_splits)
    then show ?thesis by cases (use IH [OF Cons.prems(1-3)] Cons.prems(1,3) in auto)
  next
    case True
    then obtain f where due: "deserialize_filter (PDict (su_filter su)) = Inr f"
      "rbind (compile_filter f) (\<lambda>m. m (entry_dict e)) = Inr True" "su_id su \<noteq> []" "(su_id su, e_seq e) \<notin> index" by blast
    obtain ok h1 where d: "deliver_event E'' L N wt replay c now su e h = (ok, h1)"
      by (cases "deliver_event E'' L N wt replay c now su e h")
    obtain s1 gw1 where h1: "h1 = (s1, gw1)" by (cases h1)
    show ?thesis
    proof (cases ok)
      case False
      with d have d': "deliver_event E'' L N wt replay c now su e (s, gw) = (False, (s1, gw1))" by (simp add: h h1)
      from deliver_fails [OF _ d'] Cons.prems(1) have "invar s1" "st_fetch L s1 c None = st_fetch L s c None" by (simp_all add: h)
      moreover have "fire_loop E'' L N wt replay c now e sus index h1 = (out, h')"
        using Cons.prems(4) due False d by simp
      ultimately show ?thesis using IH [of h1 index out] Cons.prems(2,3) by (simp add: h h1)
    next
      case True
      with d have d': "deliver_event E'' L N wt replay c now su e (s, gw) = (True, (s1, gw1))" by (simp add: h h1)
      from deliver_appends [OF _ due(3) d', of E'] Cons.prems(1) have s1: "invar s1"
        "delivered_pairs E' (st_fetch L s1 c None) = delivered_pairs E' (st_fetch L s c None) @ [(su_id su, e_seq e)]"
        by (simp_all add: h)
      obtain out1 where "fire_loop E'' L N wt replay c now e sus (insert (su_id su, e_seq e) index) h1 = (out1, h')"
        using Cons.prems(4) due True d by (auto split: prod.splits sum.splits)
      from IH [OF _ _ _ this] s1 Cons.prems(2,3) due(4) show ?thesis by (auto simp: h h1)
    qed
  qed
qed

end

subsection \<open>Delivered once\<close>

text \<open>
  What happens to the hub of a company: the dispatcher fires on any row, a tool or another
  component writes to the ledger, the queues and the world change. The writes of others record
  no delivery for the company.
\<close>

definition other_write :: "uuid \<Rightarrow> write_req \<Rightarrow> bool" where
  "other_write c req =
     (clean_req req \<and> (wr_company req = c \<longrightarrow>
        (\<exists>x. wr_execute req = Inr x \<and> map_of (rev x) ''tool'' \<noteq> None \<and>
          map_of (rev x) ''tool'' \<noteq> Some (PStr ''emit_agent_event_delivered''))))"

inductive hub_step :: "env \<Rightarrow> 's store \<Rightarrow> uuid \<Rightarrow> ('s, 'w) hub \<Rightarrow> ('s, 'w) hub \<Rightarrow> bool"
  for E :: env and L :: "'s store" and c :: uuid where
  fires: "fire E L N wt replay c now e h = (out, h') \<Longrightarrow> hub_step E L c h h'"
| writes: "other_write c req \<Longrightarrow> st_write L req s = (out, s') \<Longrightarrow> hub_step E L c (s, gw) (s', gw)"
| moves: "hub_step E L c (s, gw) (s, gw')"

inductive_cases hub_stepE: "hub_step E L c h h'"

definition hub_inv :: "env \<Rightarrow> 's store \<Rightarrow> ('s \<Rightarrow> bool) \<Rightarrow> uuid \<Rightarrow> ('s, 'w) hub \<Rightarrow> bool" where
  "hub_inv E L invar c h = (invar (fst h) \<and> distinct (delivered_pairs E (st_fetch L (fst h) c None)))"

context ledger_store
begin

lemma other_write_pairs:
  assumes "invar s" and "other_write c req" and w: "st_write L req s = (out, s')"
  shows "delivered_pairs E' (st_fetch L s' c None) = delivered_pairs E' (st_fetch L s c None)"
proof (cases "\<exists>res. out = Inr res \<and> wr_company req = c")
  case False
  then show ?thesis
    using write_failed [OF assms(1), of req] write_frame [OF assms(1) w, of c] assms(2) w
    by (cases out) (auto simp: other_write_def)
next
  case True
  then obtain res where res: "out = Inr res" "wr_company req = c" by blast
  from write_appends [OF assms(1) w [unfolded res(1)]] obtain new
    where new: "st_fetch L s' c None = st_fetch L s c None @ new"
      and pevr: "pevr_rows E req (int (length (st_fetch L s c None))) (head_hash GENESIS_PREV_HASH (st_fetch L s c None)) new"
    unfolding res(2) by blast
  from assms(2) res(2) obtain x t where x: "wr_execute req = Inr x" "map_of (rev x) ''tool'' = Some t"
    "t \<noteq> PStr ''emit_agent_event_delivered''" by (auto simp: other_write_def)
  from pevr have "delivered_pairs E' new = []"
  proof (rule pevr_rowsE)
    fix p e v r xp vp rp
    assume rows: "new = [p, e, v, r]" and p: "built E req (int (length (st_fetch L s c None)) + 1)
        (head_hash GENESIS_PREV_HASH (st_fetch L s c None)) ''propose'' (wr_propose req) p"
      and xp: "exec_payload req p = Inr xp"
      and e: "built E req (int (length (st_fetch L s c None)) + 2) (e_hash p) ''execute'' xp e"
      and v: "built E req (int (length (st_fetch L s c None)) + 3) (e_hash e) ''verify'' vp v"
      and r: "built E req (int (length (st_fetch L s c None)) + 4) (e_hash v) ''resolve'' rp r"
    have "dget xp ''tool'' = t" using xp x by (auto simp: exec_payload_def dget_def map_of_dict_merge)
    then have "delivered_pair E' e = None" using e x(3) by (simp add: delivered_pair_def built_def)
    with p v r show ?thesis by (simp add: rows delivered_pair_other built_def)
  qed
  then show ?thesis by (simp add: new)
qed

lemma hub_step_inv: "hub_step E' L c h h' \<Longrightarrow> hub_inv E' L invar c h \<Longrightarrow> hub_inv E' L invar c h'"
proof (cases rule: hub_step.cases, assumption)
  fix N wt replay now e out
  assume inv: "hub_inv E' L invar c h" and run: "fire E' L N wt replay c now e h = (out, h')"
  then consider "h' = h" | active where "fire_loop E' L N wt replay c now e active (build_delivered_index E' (st_fetch L (fst h) c None)) h = (out, h')"
    by (auto simp: fire_def Let_def split: sum.splits if_splits)
  then show "hub_inv E' L invar c h'"
  proof cases
    case 1
    with inv show ?thesis by simp
  next
    case 2
    from fire_loop_distinct [OF _ _ _ this, of E'] inv show ?thesis by (simp add: hub_inv_def build_delivered_index_def)
  qed
next
  fix req s out s' gw
  assume inv: "hub_inv E' L invar c h" and h: "h = (s, gw)" "h' = (s', gw)"
    and w: "other_write c req" "st_write L req s = (out, s')"
  with other_write_pairs [OF _ w] write_invar [OF _ w(2)] show "hub_inv E' L invar c h'" by (simp add: hub_inv_def)
next
  fix s gw gw'
  assume "hub_inv E' L invar c h" "h = (s, gw)" "h' = (s, gw')"
  then show "hub_inv E' L invar c h'" by (simp add: hub_inv_def)
qed

lemma hub_steps_inv: "(hub_step E' L c)\<^sup>*\<^sup>* h h' \<Longrightarrow> hub_inv E' L invar c h \<Longrightarrow> hub_inv E' L invar c h'"
  by (induction rule: rtranclp_induct) (auto intro: hub_step_inv)

end

text \<open>C12: However often the dispatcher is run over the rows of a company, also again on the same ones,
  with failures of the network and of writes, and whatever else happens to the ledger and the
  queues: no row is recorded as delivered twice to one subscription.\<close>

theorem dispatcher_delivers_once:
  assumes "ledger_store E L invar" and "invar (fst h)" and "delivered_pairs E (st_fetch L (fst h) c None) = []"
    and "(hub_step E L c)\<^sup>*\<^sup>* h h'"
  shows "distinct (delivered_pairs E (st_fetch L (fst h') c None))"
  using ledger_store.hub_steps_inv [OF assms(1,4)] assms(2,3) by (simp add: hub_inv_def)

subsection \<open>What one fire delivers\<close>

definition accepts :: "sub_row \<Rightarrow> entry \<Rightarrow> bool" where
  "accepts su e =
     (case deserialize_filter (PDict (su_filter su)) of
        Inl _ \<Rightarrow> False
      | Inr f \<Rightarrow> rbind (compile_filter f) (\<lambda>m. m (entry_dict e)) = Inr True)"

text \<open>A filter that does not read back, or that decides: a stored filter of unhashable or ill-formed
  parts makes the whole fire raise.\<close>

definition decides :: "sub_row \<Rightarrow> entry \<Rightarrow> bool" where
  "decides su e =
     (case deserialize_filter (PDict (su_filter su)) of
        Inl _ \<Rightarrow> True
      | Inr f \<Rightarrow> (case rbind (compile_filter f) (\<lambda>m. m (entry_dict e)) of Inl _ \<Rightarrow> False | Inr b \<Rightarrow> True))"

definition due :: "(string \<times> int) set \<Rightarrow> entry \<Rightarrow> sub_row \<Rightarrow> bool" where
  "due index e su = (accepts su e \<and> su_id su \<noteq> [] \<and> (su_id su, e_seq e) \<notin> index)"

text \<open>The pushes of a list of deliveries.\<close>

definition stream_events :: "bool \<Rightarrow> entry \<Rightarrow> sub_row list \<Rightarrow> (string \<times> pydict) list" where
  "stream_events replay e sus =
     (if replay then [] else map (\<lambda>su. (su_id su, event_payload (su_id su) e)) (filter (\<lambda>su. su_transport su = ''mcp_stream'') sus))"

definition push_all :: "(string \<times> 'e) list \<Rightarrow> 'e streams \<Rightarrow> 'e streams" where
  "push_all evs g = fold (\<lambda>(sid, ev). push sid ev) evs g"

lemma do_transport_streams:
  "do_transport E N wt replay su (event_payload (su_id su) e) gw = (res, gw') \<Longrightarrow>
     fst gw' = push_all (stream_events replay e [su]) (fst gw)"
  by (auto simp: do_transport_def stream_events_def push_all_def split: if_splits prod.splits sum.splits)

lemma push_all_append: "push_all (xs @ ys) g = push_all ys (push_all xs g)"
  by (simp add: push_all_def)

lemma stream_events_Cons: "stream_events replay e (su # sus) = stream_events replay e [su] @ stream_events replay e sus"
  by (simp add: stream_events_def)

context reliable_store
begin

lemma deliver_ok:
  assumes "invar (fst h)" and "su_id su \<noteq> []"
  shows "\<exists>h'. deliver_event E' L N wt replay c now su e h = (True, h') \<and> invar (fst h') \<and>
    delivered_pairs E'' (st_fetch L (fst h') c None) = delivered_pairs E'' (st_fetch L (fst h) c None) @ [(su_id su, e_seq e)] \<and>
    active_subscriptions E'' (st_fetch L (fst h') c None) = active_subscriptions E'' (st_fetch L (fst h) c None) \<and>
    fst (snd h') = push_all (stream_events replay e [su]) (fst (snd h))"
proof -
  obtain s gw where h: "h = (s, gw)" by (cases h)
  obtain res gw' where t: "do_transport E' N wt replay su (event_payload (su_id su) e) gw = (res, gw')"
    by (cases "do_transport E' N wt replay su (event_payload (su_id su) e) gw")
  from write_clean [of "delivered_req c su e res now" s] obtain r s' where
    "st_write L (delivered_req c su e res now) s = (Inr r, s')" by auto
  then have d: "deliver_event E' L N wt replay c now su e (s, gw) = (True, (s', gw'))"
    by (simp add: deliver_event_def t)
  from deliver_appends [OF _ assms(2) d, of E''] assms(1) d do_transport_streams [OF t] show ?thesis
    by (simp add: h)
qed

lemma fire_loop_delivers:
  assumes "invar (fst h)" and "distinct (map su_id sus)" and "\<forall>su\<in>set sus. decides su e"
  shows "\<exists>h'. fire_loop E' L N wt replay c now e sus index h = (Inr (length (filter (due index e) sus)), h') \<and> invar (fst h') \<and>
    delivered_pairs E'' (st_fetch L (fst h') c None) =
      delivered_pairs E'' (st_fetch L (fst h) c None) @ map (\<lambda>su. (su_id su, e_seq e)) (filter (due index e) sus) \<and>
    active_subscriptions E'' (st_fetch L (fst h') c None) = active_subscriptions E'' (st_fetch L (fst h) c None) \<and>
    fst (snd h') = push_all (stream_events replay e (filter (due index e) sus)) (fst (snd h))"
  using assms
proof (induction sus arbitrary: index h)
  case Nil
  then show ?case by (simp add: stream_events_def push_all_def)
next
  case (Cons su sus)
  show ?case
  proof (cases "due index e su")
    case False
    then have "fire_loop E' L N wt replay c now e (su # sus) index h = fire_loop E' L N wt replay c now e sus index h"
      using Cons.prems(3) by (auto simp: due_def accepts_def decides_def split: sum.splits)
    with Cons.IH [of h index] Cons.prems False show ?thesis by simp
  next
    case True
    then obtain f where f: "deserialize_filter (PDict (su_filter su)) = Inr f"
      "rbind (compile_filter f) (\<lambda>m. m (entry_dict e)) = Inr True"
      and su: "su_id su \<noteq> []" "(su_id su, e_seq e) \<notin> index"
      by (auto simp: due_def accepts_def split: sum.splits)
    from deliver_ok [OF Cons.prems(1) su(1), of E' N wt replay c now e E''] obtain h1 where
      d: "deliver_event E' L N wt replay c now su e h = (True, h1)" and h1: "invar (fst h1)"
      "delivered_pairs E'' (st_fetch L (fst h1) c None) = delivered_pairs E'' (st_fetch L (fst h) c None) @ [(su_id su, e_seq e)]"
      "active_subscriptions E'' (st_fetch L (fst h1) c None) = active_subscriptions E'' (st_fetch L (fst h) c None)"
      "fst (snd h1) = push_all (stream_events replay e [su]) (fst (snd h))" by blast
    have same: "filter (due (insert (su_id su, e_seq e) index) e) sus = filter (due index e) sus"
    proof (rule filter_cong [OF refl])
      fix x
      assume "x \<in> set sus"
      then have "su_id x \<in> su_id ` set sus" by (rule imageI)
      moreover have "su_id su \<notin> su_id ` set sus" using Cons.prems(2) by simp
      ultimately have "su_id x \<noteq> su_id su" by metis
      then show "due (insert (su_id su, e_seq e) index) e x = due index e x" by (simp add: due_def)
    qed
    from Cons.IH [OF h1(1), of "insert (su_id su, e_seq e) index"] Cons.prems(2,3) obtain h2 where h2:
      "fire_loop E' L N wt replay c now e sus (insert (su_id su, e_seq e) index) h1 = (Inr (length (filter (due index e) sus)), h2)"
      "invar (fst h2)"
      "delivered_pairs E'' (st_fetch L (fst h2) c None) =
        delivered_pairs E'' (st_fetch L (fst h1) c None) @ map (\<lambda>su. (su_id su, e_seq e)) (filter (due index e) sus)"
      "active_subscriptions E'' (st_fetch L (fst h2) c None) = active_subscriptions E'' (st_fetch L (fst h1) c None)"
      "fst (snd h2) = push_all (stream_events replay e (filter (due index e) sus)) (fst (snd h1))"
      unfolding same by auto
    have "fire_loop E' L N wt replay c now e (su # sus) index h = (Inr (Suc (length (filter (due index e) sus))), h2)"
      using f su d h2(1) by simp
    moreover have "push_all (stream_events replay e (su # filter (due index e) sus)) (fst (snd h)) = fst (snd h2)"
      unfolding stream_events_Cons [of replay e su "filter (due index e) sus"] push_all_append h2(5) h1(4) ..
    ultimately show ?thesis using h2(2-4) h1(2,3) True by simp
  qed
qed

lemma fire_delivers:
  assumes "invar (fst h)" and "active_subscriptions E (st_fetch L (fst h) c None) = Inr active"
    and "\<forall>su\<in>set active. decides su e"
    and "new = filter (due (set (delivered_pairs E (st_fetch L (fst h) c None))) e) active"
  shows "\<exists>h'. fire E L N wt replay c now e h = (Inr (length new), h') \<and> invar (fst h') \<and>
    delivered_pairs E (st_fetch L (fst h') c None) =
      delivered_pairs E (st_fetch L (fst h) c None) @ map (\<lambda>su. (su_id su, e_seq e)) new \<and>
    active_subscriptions E (st_fetch L (fst h') c None) = Inr active \<and>
    fst (snd h') = push_all (stream_events replay e new) (fst (snd h))"
proof -
  obtain st where "active = active_of st" "scan_ok (int (length (st_fetch L (fst h) c None))) st"
    by (rule active_scan [OF fetch_chain [OF assms(1)] assms(2)])
  with active_ids_distinct have "distinct (map su_id active)" by simp
  from fire_loop_delivers [OF assms(1) this assms(3), of E N wt replay c now "build_delivered_index E (st_fetch L (fst h) c None)" E]
  show ?thesis
    using assms(1,2,4)
    by (cases "active = []") (auto simp: fire_def build_delivered_index_def stream_events_def push_all_def)
qed

end


lemma fire_loop_none:
  "\<forall>su\<in>set sus. \<not> due index e su \<Longrightarrow> \<forall>su\<in>set sus. decides su e \<Longrightarrow>
     fire_loop E L N wt replay c now e sus index h = (Inr 0, h)"
  by (induction sus) (auto simp: due_def accepts_def decides_def split: sum.splits)

text \<open>A second fire on the same row, in a later process too, delivers nothing and changes nothing.\<close>

theorem dispatcher_idempotent:
  assumes "reliable_store E L invar" and "invar (fst h)" and "active_subscriptions E (st_fetch L (fst h) c None) = Inr active"
    and "\<forall>su\<in>set active. decides su e"
  shows "\<exists>n h'. fire E L N wt replay c now e h = (Inr n, h') \<and> fire E L N' wt' replay' c now' e h' = (Inr 0, h')"
proof -
  from reliable_store.fire_delivers [OF assms refl, of N wt replay now] obtain h' where
    h': "fire E L N wt replay c now e h =
      (Inr (length (filter (due (set (delivered_pairs E (st_fetch L (fst h) c None))) e) active)), h')"
    and active: "active_subscriptions E (st_fetch L (fst h') c None) = Inr active"
    and pairs: "delivered_pairs E (st_fetch L (fst h') c None) = delivered_pairs E (st_fetch L (fst h) c None) @
      map (\<lambda>su. (su_id su, e_seq e)) (filter (due (set (delivered_pairs E (st_fetch L (fst h) c None))) e) active)" by blast
  have "\<forall>su\<in>set active. \<not> due (set (delivered_pairs E (st_fetch L (fst h') c None))) e su"
    by (auto simp: pairs due_def)
  then have "fire_loop E L N' wt' replay' c now' e active (set (delivered_pairs E (st_fetch L (fst h') c None))) h' = (Inr 0, h')"
    using assms(4) fire_loop_none by blast
  then have "fire E L N' wt' replay' c now' e h' = (Inr 0, h')"
    by (simp add: fire_def active build_delivered_index_def)
  with h' show ?thesis by blast
qed

subsection \<open>The rows of its own deliveries\<close>

lemma fire_loop_deliveries:
  "fire_loop E L N wt replay c now e sus index h = (out, h') \<Longrightarrow>
     (\<lambda>a b. \<exists>su ok. su_id su \<noteq> [] \<and> deliver_event E L N wt replay c now su e a = (ok, b))\<^sup>*\<^sup>* h h'"
proof (induction sus arbitrary: index h out)
  case Nil
  then show ?case by simp
next
  case (Cons su sus)
  let ?R = "\<lambda>a b. \<exists>su ok. su_id su \<noteq> [] \<and> deliver_event E L N wt replay c now su e a = (ok, b)"
  obtain ok h1 where d: "deliver_event E L N wt replay c now su e h = (ok, h1)"
    by (cases "deliver_event E L N wt replay c now su e h")
  from Cons.prems consider "h' = h" | index' out' where "fire_loop E L N wt replay c now e sus index' h = (out', h')"
    | index' out' where "su_id su \<noteq> []" "fire_loop E L N wt replay c now e sus index' h1 = (out', h')"
    by (auto simp: d split: sum.splits if_splits bool.splits prod.splits)
  then show ?case
  proof cases
    case 1
    then show ?thesis by simp
  next
    case 2
    then show ?thesis by (rule Cons.IH)
  next
    case 3
    from 3(1) d have "?R h h1" by blast
    moreover from 3(2) have "?R\<^sup>*\<^sup>* h1 h'" by (rule Cons.IH)
    ultimately show ?thesis by (rule converse_rtranclp_into_rtranclp)
  qed
qed

text \<open>Rows appended, one of them a propose row if there are any.\<close>

definition grown :: "'s store \<Rightarrow> ('s \<Rightarrow> bool) \<Rightarrow> uuid \<Rightarrow> ('s, 'w) hub \<Rightarrow> ('s, 'w) hub \<Rightarrow> bool" where
  "grown L invar c h h' =
     (invar (fst h') \<and> (\<exists>new. st_fetch L (fst h') c None = st_fetch L (fst h) c None @ new \<and>
        (new = [] \<or> (\<exists>r\<in>set new. e_kind r = ''propose''))))"

lemma grown_trans: "grown L invar c h h1 \<Longrightarrow> grown L invar c h1 h2 \<Longrightarrow> grown L invar c h h2"
  by (fastforce simp: grown_def)

context ledger_store
begin

lemma deliver_grown:
  assumes "invar (fst h)" and "su_id su \<noteq> []" and "deliver_event E' L N wt replay c now su e h = (ok, h')"
  shows "grown L invar c h h'"
proof -
  obtain s gw s' gw' where h: "h = (s, gw)" "h' = (s', gw')" by (cases h, cases h')
  show ?thesis
  proof (cases ok)
    case True
    with assms(3) have "deliver_event E' L N wt replay c now su e (s, gw) = (True, (s', gw'))" by (simp add: h)
    from deliver_rows [OF _ assms(2) this] assms(1) show ?thesis by (auto simp: h grown_def)
  next
    case False
    with assms(3) have "deliver_event E' L N wt replay c now su e (s, gw) = (False, (s', gw'))" by (simp add: h)
    from deliver_fails [OF _ this] assms(1) show ?thesis by (simp add: h grown_def)
  qed
qed

lemma fire_grown:
  assumes "invar (fst h)" and "fire E' L N wt replay c now e h = (out, h')"
  shows "grown L invar c h h'"
proof -
  let ?R = "\<lambda>a b. \<exists>su ok. su_id su \<noteq> [] \<and> deliver_event E' L N wt replay c now su e a = (ok, b)"
  have "?R\<^sup>*\<^sup>* h h'"
    using assms(2) fire_loop_deliveries [of E' L N wt replay c now e _ _ h out h']
    by (auto simp: fire_def Let_def split: sum.splits if_splits)
  then show ?thesis
  proof (induction rule: rtranclp_induct)
    case base
    then show ?case using assms(1) by (simp add: grown_def)
  next
    case (step a b)
    from step.IH have "invar (fst a)" by (simp add: grown_def)
    with step.hyps(2) deliver_grown have "grown L invar c a b" by blast
    with step.IH show ?case by (rule grown_trans)
  qed
qed

end

lemma accepts_everything: "su_filter su = serialize_filter (typed_filter [] [] None []) \<Longrightarrow> accepts su e"
  using filter_on_rows_any [of e] by (simp add: accepts_def filter_read_back)

context reliable_store
begin

lemma fire_again:
  assumes "invar (fst h)" and active: "active_subscriptions E (st_fetch L (fst h) c None) = Inr active"
    and dec: "\<forall>su\<in>set active. \<forall>e. decides su e" and su: "su \<in> set active" "su_id su \<noteq> []" "\<forall>e. accepts su e"
    and e: "e \<in> set (st_fetch L (fst h) c None)" "(su_id su, e_seq e) \<notin> set (delivered_pairs E (st_fetch L (fst h) c None))"
    and old: "\<forall>p\<in>set (delivered_pairs E (st_fetch L (fst h) c None)). snd p \<le> int (length (st_fetch L (fst h) c None))"
  shows "\<exists>n h' r. fire E L N wt replay c now e h = (Inr n, h') \<and> invar (fst h') \<and>
    active_subscriptions E (st_fetch L (fst h') c None) = Inr active \<and>
    r \<in> set (st_fetch L (fst h') c None) - set (st_fetch L (fst h) c None) \<and> e_kind r = ''propose'' \<and>
    (su_id su, e_seq r) \<notin> set (delivered_pairs E (st_fetch L (fst h') c None)) \<and>
    (\<forall>p\<in>set (delivered_pairs E (st_fetch L (fst h') c None)). snd p \<le> int (length (st_fetch L (fst h') c None)))"
proof -
  let ?rows = "st_fetch L (fst h) c None"
  let ?new = "filter (due (set (delivered_pairs E ?rows)) e) active"
  have decides: "\<forall>su\<in>set active. decides su e" using dec by blast
  from fire_delivers [OF assms(1) active decides refl, of N wt replay now] obtain h' where
    run: "fire E L N wt replay c now e h = (Inr (length ?new), h')" and inv: "invar (fst h')"
    and pairs: "delivered_pairs E (st_fetch L (fst h') c None) = delivered_pairs E ?rows @ map (\<lambda>su. (su_id su, e_seq e)) ?new"
    and active': "active_subscriptions E (st_fetch L (fst h') c None) = Inr active" by blast
  have "su \<in> set ?new" using su e(2) by (simp add: due_def)
  then have "?new \<noteq> []" by (metis empty_iff empty_set)
  from fire_grown [OF assms(1) run] obtain new where new: "st_fetch L (fst h') c None = ?rows @ new"
    and pr: "new = [] \<or> (\<exists>r\<in>set new. e_kind r = ''propose'')" by (auto simp: grown_def)
  have "new \<noteq> []" using pairs \<open>?new \<noteq> []\<close> by (auto simp: new)
  with pr obtain r where r: "r \<in> set new" "e_kind r = ''propose''" by blast
  have chain: "chain_inv E c ?rows" "chain_inv E c (?rows @ new)" using fetch_chain [OF assms(1)] fetch_chain [OF inv, of c] by (simp_all add: new)
  have seqs: "\<forall>e\<in>set ?rows. e_seq e \<le> int (length ?rows)" by (rule chain_seqs [OF chain(1)])
  have later: "int (length ?rows) < e_seq r"
  proof -
    from r(1) obtain i where i: "i < length new" "r = new ! i" by (auto simp: in_set_conv_nth)
    have "map e_seq (?rows @ new) ! (length ?rows + i) = map int [1..<Suc (length (?rows @ new))] ! (length ?rows + i)"
      using chain(2) by (simp only: chain_inv_def)
    with i show ?thesis by (simp add: nth_append del: upt_Suc)
  qed
  have "r \<notin> set ?rows" using seqs later by force
  moreover have "(su_id su, e_seq r) \<notin> set (delivered_pairs E (st_fetch L (fst h') c None))"
    using old later seqs e(1) by (force simp: pairs)
  moreover have "\<forall>p\<in>set (delivered_pairs E (st_fetch L (fst h') c None)). snd p \<le> int (length (st_fetch L (fst h') c None))"
  proof
    fix p
    assume "p \<in> set (delivered_pairs E (st_fetch L (fst h') c None))"
    then consider "p \<in> set (delivered_pairs E ?rows)" | "snd p = e_seq e" by (auto simp: pairs)
    then have "snd p \<le> int (length ?rows)" by cases (use old seqs e(1) in auto)
    then show "snd p \<le> int (length (st_fetch L (fst h') c None))" by (simp add: new)
  qed
  moreover have "r \<in> set (st_fetch L (fst h') c None)" using r(1) by (simp add: new)
  ultimately show ?thesis using run inv active' r(2) by blast
qed

end

text \<open>C38: The guard against recursion covers the execute row of a delivery only: under a subscription
  without constraints a fire appends a row of its own that the predicate lets through and that
  has not been delivered, a fire on that row does the same again, and so on.\<close>

theorem dispatcher_feeds_on_itself:
  assumes "reliable_store E L invar" and "invar (fst h)" and "active_subscriptions E (st_fetch L (fst h) c None) = Inr active"
    and "\<forall>su\<in>set active. \<forall>e. decides su e" and "su \<in> set active" and "su_id su \<noteq> []"
    and "su_filter su = serialize_filter (typed_filter [] [] None [])"
    and "e \<in> set (st_fetch L (fst h) c None)" and "(su_id su, e_seq e) \<notin> set (delivered_pairs E (st_fetch L (fst h) c None))"
    and "\<forall>p\<in>set (delivered_pairs E (st_fetch L (fst h) c None)). snd p \<le> int (length (st_fetch L (fst h) c None))"
  shows "\<exists>n h1 r m h2 q. fire E L N wt replay c now e h = (Inr n, h1) \<and>
      r \<in> set (st_fetch L (fst h1) c None) - set (st_fetch L (fst h) c None) \<and> pred_match E dispatcher_predicate r = Inr True \<and>
    fire E L N wt replay c now r h1 = (Inr m, h2) \<and>
      q \<in> set (st_fetch L (fst h2) c None) - set (st_fetch L (fst h1) c None) \<and> pred_match E dispatcher_predicate q = Inr True"
proof -
  have all: "\<forall>e. accepts su e" using accepts_everything [OF assms(7)] by blast
  note again = reliable_store.fire_again [OF assms(1) _ _ assms(4-6) all, where N = N and wt = wt and replay = replay and now = now]
  from again [OF assms(2,3,8-10)] obtain n h1 r where 1: "fire E L N wt replay c now e h = (Inr n, h1)" "invar (fst h1)"
    "active_subscriptions E (st_fetch L (fst h1) c None) = Inr active"
    "r \<in> set (st_fetch L (fst h1) c None) - set (st_fetch L (fst h) c None)" "e_kind r = ''propose''"
    "(su_id su, e_seq r) \<notin> set (delivered_pairs E (st_fetch L (fst h1) c None))"
    "\<forall>p\<in>set (delivered_pairs E (st_fetch L (fst h1) c None)). snd p \<le> int (length (st_fetch L (fst h1) c None))" by blast
  from 1(4) have "r \<in> set (st_fetch L (fst h1) c None)" by simp
  from again [OF 1(2,3) this 1(6,7)] obtain m h2 q where "fire E L N wt replay c now r h1 = (Inr m, h2)"
    "q \<in> set (st_fetch L (fst h2) c None) - set (st_fetch L (fst h1) c None)" "e_kind q = ''propose''" by blast
  with 1 predicate_takes_envelope [of r E] predicate_takes_envelope [of q E] show ?thesis by blast
qed

subsection \<open>The types of the payloads\<close>

definition delivery_ok :: "transport_result \<Rightarrow> bool" where
  "delivery_ok res = (tr_status res \<in> {''delivered'', ''failed'', ''no_target''})"

lemma do_transport_ok: "do_transport E N wt replay su ev gw = (res, gw') \<Longrightarrow> delivery_ok res"
  unfolding do_transport_def deliver_def delivery_ok_def
  by (auto split: if_splits prod.splits sum.splits dest!: arg_cong [of _ _ fst] deliver_from_status)

lemma has_type_opt_str: "has_type V (opt_str x) (TOpt TStr)"
  by (simp add: opt_str_def split: option.split)

lemma delivered_args_valid: "delivery_ok res \<Longrightarrow> validates V AgentEventDeliveredPayload (delivered_args su e res)"
  by (auto simp: validates_def payload_def fields_needs fields_takes needs_takes_names AgentEventDeliveredPayload_def delivered_args_def
      transport_used_def delivery_ok_def simp del: has_type.simps(12) intro: has_type_opt_str)

lemma create_args_valid: "transport \<in> {''mcp_stream'', ''webhook''} \<Longrightarrow>
    validates V AgentSubscriptionCreatedPayload (create_args sid agent filt transport url secret desc)"
  by (auto simp: validates_def payload_def fields_needs fields_takes needs_takes_names AgentSubscriptionCreatedPayload_def create_args_def
      simp del: has_type.simps(12) intro: has_type_opt_str)

lemma revoke_args_valid: "reason \<in> set REVOCATION_REASONS \<Longrightarrow>
    validates V AgentSubscriptionRevokedPayload [(''subscription_id'', PStr sid), (''reason'', PStr reason)]"
  by (auto simp: validates_def payload_def fields_needs fields_takes needs_takes_names AgentSubscriptionRevokedPayload_def REVOCATION_REASONS_def)

text \<open>The rows of a log are well typed: the arguments of each subscription row validate.\<close>

definition typed_row :: "payload_lib \<Rightarrow> entry \<Rightarrow> bool" where
  "typed_row V e =
     (\<forall>(tool, sch)\<in>set [(''emit_agent_subscription_created'', AgentSubscriptionCreatedPayload),
        (''emit_agent_subscription_revoked'', AgentSubscriptionRevokedPayload),
        (''emit_agent_event_delivered'', AgentEventDeliveredPayload)].
      e_kind e = ''execute'' \<and> dget (e_payload e) ''tool'' = PStr tool \<longrightarrow>
        (\<exists>args. dget (e_payload e) ''args'' = PDict args \<and> validates V sch args))"

lemma typed_row_other: "e_kind e \<noteq> ''execute'' \<Longrightarrow> typed_row V e"
  by (simp add: typed_row_def)

lemma exec_row_get: "exec_row tool args e \<Longrightarrow> dget (e_payload e) ''tool'' = PStr tool \<and> dget (e_payload e) ''args'' = PDict args"
  by (simp add: exec_row_def payload_of_def dget_def)

inductive agent_step :: "env \<Rightarrow> 's store \<Rightarrow> uuid \<Rightarrow> ('s, 'w) hub \<Rightarrow> ('s, 'w) hub \<Rightarrow> bool"
  for E :: env and L :: "'s store" and c :: uuid where
  creates: "jsonable_dict filt \<Longrightarrow>
     create_subscription L c now caller agent filt transport url secret desc (s, g) = (out, (s', g')) \<Longrightarrow>
     agent_step E L c (s, g, w) (s', g', w)"
| revokes: "revoke_subscription E L c now caller sid reason (s, g) = (out, (s', g')) \<Longrightarrow>
     agent_step E L c (s, g, w) (s', g', w)"
| dispatches: "fire E L N wt replay c now e h = (out, h') \<Longrightarrow> agent_step E L c h h'"

definition typed_log :: "payload_lib \<Rightarrow> 's store \<Rightarrow> ('s \<Rightarrow> bool) \<Rightarrow> uuid \<Rightarrow> 's \<Rightarrow> bool" where
  "typed_log V L invar c s = (invar s \<and> (\<forall>e\<in>set (st_fetch L s c None). typed_row V e))"

lemma schemas_distinct: "''emit_agent_subscription_created'' \<noteq> ''emit_agent_subscription_revoked''"
  "''emit_agent_subscription_created'' \<noteq> ''emit_agent_event_delivered''"
  "''emit_agent_subscription_revoked'' \<noteq> ''emit_agent_event_delivered''"
  by simp_all

lemma typed_exec:
  assumes "exec_row tool args e"
    and "(tool, sch) \<in> set [(''emit_agent_subscription_created'', AgentSubscriptionCreatedPayload),
      (''emit_agent_subscription_revoked'', AgentSubscriptionRevokedPayload),
      (''emit_agent_event_delivered'', AgentEventDeliveredPayload)]"
    and "validates V sch args"
  shows "typed_row V e"
  using exec_row_get [OF assms(1)] assms(2,3) by (auto simp: typed_row_def)

context ledger_store
begin

lemma typed_write:
  assumes "typed_log V L invar c s" and "clean_req req"
    and req: "req = const_req c p [(''tool'', PStr tool), (''args'', PDict args), (''result_ref'', v)] ve r (Some now) now q"
    and row: "\<And>e. exec_row tool args e \<Longrightarrow> typed_row V e" and w: "st_write L req s = (out, s')"
  shows "typed_log V L invar c s'"
proof (cases out)
  case (Inl x)
  with write_failed [OF _ assms(2) w [unfolded Inl]] write_invar [OF _ w] assms(1) show ?thesis by (simp add: typed_log_def)
next
  case (Inr res)
  from assms(1) have inv: "invar s" by (simp add: typed_log_def)
  from const_write_rows [OF inv w [unfolded req Inr]] obtain rp re rv rr where
    new: "st_fetch L s' c None = st_fetch L s c None @ [rp, re, rv, rr]"
    and kinds: "e_kind rp = ''propose''" "e_kind rv = ''verify''" "e_kind rr = ''resolve''" and re: "exec_row tool args re"
    by (blast intro: exec_payload_row)
  have "typed_row V rp" "typed_row V rv" "typed_row V rr" by (simp_all add: typed_row_other kinds)
  with row [OF re] assms(1) write_invar [OF inv w] show ?thesis by (simp add: typed_log_def new)
qed

lemma typed_deliver:
  assumes "typed_log V L invar c (fst h)" and "deliver_event E' L N wt replay c now su e h = (ok, h')"
  shows "typed_log V L invar c (fst h')"
proof -
  obtain res gw where t: "do_transport E' N wt replay su (event_payload (su_id su) e) (snd h) = (res, gw)"
    by (cases "do_transport E' N wt replay su (event_payload (su_id su) e) (snd h)")
  with assms(2) obtain out where w: "st_write L (delivered_req c su e res now) (fst h) = (out, fst h')"
    by (auto simp: deliver_event_def split: prod.splits sum.splits)
  from typed_write [OF assms(1) delivered_req_clean delivered_req_def _ w]
  show ?thesis using typed_exec delivered_args_valid [OF do_transport_ok [OF t]] by auto
qed

lemma typed_create:
  assumes "typed_log V L invar c s" and "jsonable_dict filt"
    and "create_subscription L c now caller agent filt transport url secret desc (s, g) = (out, (s', g'))"
  shows "typed_log V L invar c s'"
proof (cases "caller = agent \<and> transport \<in> {''mcp_stream'', ''webhook''} \<and>
    \<not> (transport = ''webhook'' \<and> (url \<in> {None, Some []} \<or> secret \<in> {None, Some []}))")
  case False
  then have "s' = s" using assms(3) unfolding create_subscription_def by (auto split: if_splits)
  with assms(1) show ?thesis by simp
next
  case True
  obtain sid s0 where u: "st_uuid L s = (sid, s0)" by (cases "st_uuid L s")
  with assms(1) uuid_invar uuid_fetch [OF u] have s0: "typed_log V L invar c s0" by (auto simp: typed_log_def)
  let ?req = "sub_create_req c sid agent transport (create_args sid agent filt transport url secret desc) now"
  obtain o1 s1 where w: "st_write L ?req s0 = (o1, s1)" by (cases "st_write L ?req s0")
  have "s' = s1" using assms(3) True unfolding create_subscription_def
    by (cases o1) (auto simp: tool_ledger_def with_uuid_run [OF u] sbind_def w split: if_splits)
  moreover have "typed_log V L invar c s1"
    using typed_write [OF s0 _ sub_create_req_def _ w] typed_exec create_args_valid True assms(2) by auto
  ultimately show ?thesis by simp
qed

lemma typed_revoke:
  assumes "typed_log V L invar c s" and "revoke_subscription E' L c now caller sid reason (s, g) = (out, (s', g'))"
  shows "typed_log V L invar c s'"
proof -
  obtain o1 s1 where w: "st_write L (sub_revoke_req c sid reason now) s = (o1, s1)" by (cases "st_write L (sub_revoke_req c sid reason now) s")
  have "s' = s \<or> s' = s1 \<and> reason \<in> set REVOCATION_REASONS"
    using assms(2) unfolding revoke_subscription_def
    by (cases o1) (auto simp: sbind_def active_in_def tool_ledger_def w drop_queue_def split: if_splits sum.splits option.splits)
  moreover have "typed_log V L invar c s1" if "reason \<in> set REVOCATION_REASONS"
    using typed_write [OF assms(1) _ sub_revoke_req_def _ w] typed_exec revoke_args_valid [OF that] by auto
  ultimately show ?thesis using assms(1) by auto
qed

lemma typed_fire:
  assumes "typed_log V L invar c (fst h)" and "fire E' L N wt replay c now e h = (out, h')"
  shows "typed_log V L invar c (fst h')"
proof -
  let ?R = "\<lambda>a b. \<exists>su ok. su_id su \<noteq> [] \<and> deliver_event E' L N wt replay c now su e a = (ok, b)"
  have "?R\<^sup>*\<^sup>* h h'"
    using assms(2) fire_loop_deliveries [of E' L N wt replay c now e _ _ h out h']
    by (auto simp: fire_def Let_def split: sum.splits if_splits)
  then show ?thesis
    by (induction rule: rtranclp_induct) (use assms(1) typed_deliver in blast)+
qed

lemma agent_steps_typed:
  "(agent_step E' L c)\<^sup>*\<^sup>* h h' \<Longrightarrow> typed_log V L invar c (fst h) \<Longrightarrow> typed_log V L invar c (fst h')"
proof (induction rule: rtranclp_induct)
  case (step a b)
  have a: "typed_log V L invar c (fst a)" by (rule step.IH [OF step.prems])
  from step.hyps(2) show ?case
  proof cases
    case creates
    with a typed_create show ?thesis by (metis fst_conv)
  next
    case revokes
    with a typed_revoke show ?thesis by (metis fst_conv)
  next
    case dispatches
    with a typed_fire show ?thesis by blast
  qed
qed simp

end


subsection \<open>A concrete hub\<close>

definition demo_filter :: pydict where
  "demo_filter = serialize_filter (typed_filter [] [] None [])"

definition demo_sub :: sub_row where
  "demo_sub = subscribed ''u0'' ''bot'' demo_filter ''mcp_stream'' None None None 2"

lemma demo_sub_accepts: "accepts demo_sub e" "decides demo_sub e" "su_id demo_sub = ''u0''"
  "su_transport demo_sub = ''mcp_stream''" "su_filter demo_sub = serialize_filter (typed_filter [] [] None [])"
proof -
  show f: "su_filter demo_sub = serialize_filter (typed_filter [] [] None [])"
    by (simp add: demo_sub_def subscribed_def demo_filter_def)
  then show "accepts demo_sub e" by (rule accepts_everything)
  then show "decides demo_sub e" by (simp add: accepts_def decides_def f filter_read_back)
qed (simp_all add: demo_sub_def subscribed_def)

lemma demo_filter_jsonable: "jsonable_dict demo_filter"
  by (simp add: demo_filter_def jsonable_dict_def serialize_filter_def typed_filter_def opt_str_def)

text \<open>One agent has subscribed to everything.\<close>

lemma demo_subscribed:
  obtains s1 rp re rv rr where
    "create_subscription (mem_store demo_env) ''c'' 7 ''bot'' ''bot'' demo_filter ''mcp_stream'' None None None
       (mem_empty, streams_init 5) = (Inr (SubCreated ''u0'' ''bot'' ''mcp_stream''), (s1, streams_init 5))"
    and "mem_invar demo_env s1" and "active_subscriptions demo_env (st_fetch (mem_store demo_env) s1 ''c'' None) = Inr [demo_sub]"
    and "delivered_pairs demo_env (st_fetch (mem_store demo_env) s1 ''c'' None) = []"
    and "st_fetch (mem_store demo_env) s1 ''c'' None = [rp, re, rv, rr]"
    and "exec_row ''emit_agent_subscription_created'' (create_args ''u0'' ''bot'' demo_filter ''mcp_stream'' None None None) re"
proof -
  let ?L = "mem_store demo_env" and ?s0 = "mem_empty\<lparr>m_draws := 1\<rparr>"
  let ?args = "create_args ''u0'' ''bot'' demo_filter ''mcp_stream'' None None None"
  let ?req = "sub_create_req ''c'' ''u0'' ''bot'' ''mcp_stream'' ?args 7"
  have "uuid4 demo_env 0 = ''u0''" by code_simp
  then have u: "st_uuid ?L mem_empty = (''u0'', ?s0)" by (simp add: mem_empty_def mem_store_def)
  have inv0: "mem_invar demo_env ?s0" by (rule ml.uuid_invar [OF mem_invar_empty u])
  have f: "st_fetch ?L ?s0 ''c'' None = []" by (simp add: mem_empty_def mem_rows_def)
  have clean: "clean_req ?req" by (simp add: demo_filter_jsonable)
  then obtain res s1 where w: "st_write ?L ?req ?s0 = (Inr res, s1)" using ml.write_clean by blast
  have run: "create_subscription ?L ''c'' 7 ''bot'' ''bot'' demo_filter ''mcp_stream'' None None None (mem_empty, streams_init 5) =
      (Inr (SubCreated ''u0'' ''bot'' ''mcp_stream''), (s1, streams_init 5))"
  proof -
    have "with_uuid ?L (\<lambda>sid. sbind (st_write ?L (sub_create_req ''c'' sid ''bot'' ''mcp_stream''
        (create_args sid ''bot'' demo_filter ''mcp_stream'' None None None) 7)) (\<lambda>_. sret (SubCreated sid ''bot'' ''mcp_stream''))) mem_empty =
        (Inr (SubCreated ''u0'' ''bot'' ''mcp_stream''), s1)"
      unfolding with_uuid_run [OF u] sbind_def w by simp
    then show ?thesis by (simp add: create_subscription_def tool_ledger_def del: store_sel)
  qed
  have active: "active_subscriptions demo_env (st_fetch ?L s1 ''c'' None) = Inr [demo_sub]"
    using ml.create_active [OF inv0 _ _ _ w, of "[]"] unfolding f by (simp add: demo_unused demo_sub_def)
  have "other_write ''c'' ?req" using clean by (simp add: other_write_def) (simp add: sub_create_req_def const_req_def)
  from ml.other_write_pairs [OF inv0 this w, of demo_env] have pairs: "delivered_pairs demo_env (st_fetch ?L s1 ''c'' None) = []"
    unfolding f by simp
  from ml.const_write_rows [OF inv0 w [unfolded sub_create_req_def]] obtain rp re rv rr where
    rows: "st_fetch ?L s1 ''c'' None = [rp, re, rv, rr]" and re: "exec_row ''emit_agent_subscription_created'' ?args re"
    unfolding f append_Nil by (blast intro: exec_payload_row)
  from that [OF run ml.write_invar [OF inv0 w] active pairs rows re] show thesis .
qed


lemma demo_hub:
  obtains h :: "(mem, http_request list \<times> rat) hub" and e where "mem_invar demo_env (fst h)"
    and "active_subscriptions demo_env (st_fetch (mem_store demo_env) (fst h) ''c'' None) = Inr [demo_sub]"
    and "delivered_pairs demo_env (st_fetch (mem_store demo_env) (fst h) ''c'' None) = []"
    and "e \<in> set (st_fetch (mem_store demo_env) (fst h) ''c'' None)"
    and "snd h = (streams_init 5, ([], 0))"
proof (rule demo_subscribed)
  fix s1 rp re rv rr
  assume a: "mem_invar demo_env s1" "active_subscriptions demo_env (st_fetch (mem_store demo_env) s1 ''c'' None) = Inr [demo_sub]"
    "delivered_pairs demo_env (st_fetch (mem_store demo_env) s1 ''c'' None) = []"
    "st_fetch (mem_store demo_env) s1 ''c'' None = [rp, re, rv, rr]"
  have "re \<in> set (st_fetch (mem_store demo_env) s1 ''c'' None)" unfolding a(4) by simp
  with a that [of "(s1, streams_init 5, ([], 0))" re] show thesis unfolding fst_conv snd_conv by blast
qed

lemma demo_decides: "\<forall>su\<in>set [demo_sub]. decides su e" "\<forall>su\<in>set [demo_sub]. \<forall>e. decides su e"
  by (simp_all add: demo_sub_accepts)


theorem dispatcher_idempotent_witness:
  "\<exists>h e n h'. active_subscriptions demo_env (st_fetch (mem_store demo_env) (fst h) ''c'' None) = Inr [demo_sub] \<and>
     fire demo_env (mem_store demo_env) demo_net webhook_default False ''c'' 9 e h = (Inr n, h') \<and>
     fire demo_env (mem_store demo_env) demo_net webhook_default True ''c'' 10 e h' = (Inr 0, h')"
proof (rule demo_hub)
  fix h :: "(mem, http_request list \<times> rat) hub" and e
  assume a: "mem_invar demo_env (fst h)"
    "active_subscriptions demo_env (st_fetch (mem_store demo_env) (fst h) ''c'' None) = Inr [demo_sub]"
  from dispatcher_idempotent [OF ml.reliable_store_axioms a demo_decides(1), of demo_net webhook_default False 9 e
      demo_net webhook_default True 10] a(2)
  show ?thesis by blast
qed

theorem dispatcher_feeds_on_itself_witness:
  "\<exists>h e n h1 r m h2. fire demo_env (mem_store demo_env) demo_net webhook_default False ''c'' 9 e h = (Inr n, h1) \<and>
     r \<notin> set (st_fetch (mem_store demo_env) (fst h) ''c'' None) \<and>
     pred_match demo_env dispatcher_predicate r = Inr True \<and>
     fire demo_env (mem_store demo_env) demo_net webhook_default False ''c'' 9 r h1 = (Inr m, h2)"
proof (rule demo_hub)
  fix h :: "(mem, http_request list \<times> rat) hub" and e
  assume a: "mem_invar demo_env (fst h)"
    "active_subscriptions demo_env (st_fetch (mem_store demo_env) (fst h) ''c'' None) = Inr [demo_sub]"
    "delivered_pairs demo_env (st_fetch (mem_store demo_env) (fst h) ''c'' None) = []"
    "e \<in> set (st_fetch (mem_store demo_env) (fst h) ''c'' None)"
  have mem: "demo_sub \<in> set [demo_sub]" "su_id demo_sub \<noteq> []" by (simp_all add: demo_sub_accepts)
  have n: "(su_id demo_sub, e_seq e) \<notin> set (delivered_pairs demo_env (st_fetch (mem_store demo_env) (fst h) ''c'' None))"
    "\<forall>p\<in>set (delivered_pairs demo_env (st_fetch (mem_store demo_env) (fst h) ''c'' None)).
      snd p \<le> int (length (st_fetch (mem_store demo_env) (fst h) ''c'' None))" unfolding a(3) by simp_all
  from dispatcher_feeds_on_itself [OF ml.reliable_store_axioms a(1,2) demo_decides(2) mem demo_sub_accepts(5) a(4) n,
      of demo_net webhook_default False 9]
  show ?thesis by blast
qed

theorem dispatcher_delivers_once_witness:
  "\<exists>h'. (hub_step demo_env (mem_store demo_env) ''c'')\<^sup>*\<^sup>* (mem_empty, streams_init 5, ([], 0) :: http_request list \<times> rat) h' \<and>
     distinct (delivered_pairs demo_env (st_fetch (mem_store demo_env) (fst h') ''c'' None))"
proof -
  let ?h = "(mem_empty, streams_init 5, ([], 0)) :: (mem, http_request list \<times> rat) hub"
  obtain out h' where run: "fire demo_env (mem_store demo_env) demo_net webhook_default False ''c'' 9 demo_chat ?h = (out, h')"
    by (cases "fire demo_env (mem_store demo_env) demo_net webhook_default False ''c'' 9 demo_chat ?h")
  have steps: "(hub_step demo_env (mem_store demo_env) ''c'')\<^sup>*\<^sup>* ?h h'"
    by (rule r_into_rtranclp, rule hub_step.fires [OF run])
  have i: "mem_invar demo_env (fst ?h)" by (simp add: mem_invar_empty)
  have "delivered_pairs demo_env (st_fetch (mem_store demo_env) (fst ?h) ''c'' None) = []" by (simp add: mem_empty_def mem_rows_def)
  from dispatcher_delivers_once [OF ml.ledger_store_axioms i this steps]
  have d: "distinct (delivered_pairs demo_env (st_fetch (mem_store demo_env) (fst h') ''c'' None))" .
  show ?thesis
  proof (rule exI [of _ h'], rule conjI)
    show "(hub_step demo_env (mem_store demo_env) ''c'')\<^sup>*\<^sup>* (mem_empty, streams_init 5, ([], 0)) h'" by (rule steps)
    show "distinct (delivered_pairs demo_env (st_fetch (mem_store demo_env) (fst h') ''c'' None))" by (rule d)
  qed
qed

end
