(* ===== verification/Projection_Handlers.thy ===== *)
theory Projection_Handlers
  imports Projection_State
begin

section \<open>Handlers of the execute rows (\<open>_apply_execute\<close>)\<close>

text \<open>
  One definition per branch of \<open>_apply_execute\<close>, except those of the discovery axes and the
  catalog tables. A handler gets the row and its \<open>args\<close> and returns the state or the exception
  the branch raises; the fold of a log stops at the first exception. \<open>UUID(str(u))\<close> of the row's
  own company is that company.
\<close>

type_synonym handler = "fold_lib \<Rightarrow> entry \<Rightarrow> pyval \<Rightarrow> proj_state \<Rightarrow> exc + proj_state"

definition seq_of :: "entry \<Rightarrow> exc + pyval" where
  "seq_of e = Inr (PInt (e_seq e))"

definition hash_of :: "entry \<Rightarrow> exc + pyval" where
  "hash_of e = Inr (PBytes (e_hash e))"

definition now_of :: "entry \<Rightarrow> exc + pyval" where
  "now_of e = Inr (ts_of e)"

definition tenant_of :: "entry \<Rightarrow> exc + pyval" where
  "tenant_of e = Inr (PUuid (e_company e))"

subsection \<open>Sources, memory, key figures\<close>

definition source_proposed :: handler where
  "source_proposed F e a st =
     rbind (vitem a ''source_id'') (\<lambda>sid.
     rbind (dict_of
       [(''source_id'', py_uuid sid), (''status'', lit ''proposed''), (''kind'', vitem a ''source_kind''),
        (''uri'', vitem a ''uri''), (''classification'', vitem a ''suggested_classification''), (''domain_id'', null),
        (''added_by_person'', null), (''added_via_flow'', vitem a ''added_via_flow''), (''added_at'', now_of e),
        (''last_entry_hash'', hash_of e)]) (\<lambda>row.
     set_row ''sources'' sid row st))"

definition source_confirmed :: handler where
  "source_confirmed F e a st =
     rbind (vitem a ''source_id'') (\<lambda>sid.
     update_row ''sources'' sid (\<lambda>s. dict_of
       [(''status'', lit ''confirmed''), (''domain_id'', opt_uuid a ''domain_id''),
        (''classification'', vget_or a ''classification'' (dget s ''classification'')),
        (''added_by_person'', uuid_item a ''confirmed_by_person''), (''last_entry_hash'', hash_of e)]) st)"

definition source_connected :: handler where
  "source_connected F e a st =
     rbind (vitem a ''source_id'') (\<lambda>sid.
     update_row ''sources'' sid (\<lambda>s. dict_of [(''status'', lit ''connected''), (''last_entry_hash'', hash_of e)]) st)"

definition source_profiled :: handler where
  "source_profiled F e a st =
     rbind (vitem a ''source_id'') (\<lambda>sid.
     update_row ''sources'' sid (\<lambda>s. dict_of [(''status'', lit ''profiled''), (''last_entry_hash'', hash_of e)]) st)"

definition memory_written :: handler where
  "memory_written F e a st =
     rbind (dict_of
       [(''memory_id'', uuid_item a ''memory_id''), (''content'', vitem a ''content''), (''tags'', list_item a ''tags''),
        (''written_at'', now_of e)]) (\<lambda>row.
     Inr (st\<lparr>pj_memory := pj_memory st @ [row]\<rparr>))"

definition kpi_node :: handler where
  "kpi_node F e a st =
     rbind (py_dict a) (\<lambda>row. rbind (vitem a ''id'') (\<lambda>k. set_row ''kpi_nodes'' k row st))"

subsection \<open>Persons and identities\<close>

definition set_default :: "string \<Rightarrow> pyval \<Rightarrow> pydict \<Rightarrow> proj_state \<Rightarrow> exc + proj_state" where
  "set_default n k row st = rbind (get_row n k st) (\<lambda>r. if r = None then set_row n k row st else Inr st)"

definition first_identity :: handler where
  "first_identity F e a st =
     rbind (vget a ''platform'') (\<lambda>platform. rbind (vget a ''platform_user_id'') (\<lambda>user.
     if \<not> truthy platform \<or> \<not> truthy user then Inr st
     else rbind (vitem a ''tenant_id'') (\<lambda>tid.
       rbind (identity_uuid F [tid, platform, user]) (\<lambda>iid.
       rbind (dict_of
         [(''identity_id'', Inr iid), (''person_id'', uuid_item a ''person_id''), (''tenant_id'', py_uuid tid),
          (''platform'', Inr platform), (''platform_user_id'', Inr user), (''display_name'', vitem a ''name''),
          (''email_at_platform'', vget a ''email''), (''avatar_url'', null), (''added_at'', now_of e)]) (\<lambda>row.
       set_default ''person_identities'' (PTuple [tid, platform, user]) row st)))))"

definition person_proposed :: handler where
  "person_proposed F e a st =
     rbind (vitem a ''person_id'') (\<lambda>pid. rbind (vitem a ''tenant_id'') (\<lambda>tid.
     rbind (dict_of
       [(''person_id'', py_uuid pid), (''tenant_id'', py_uuid tid), (''name'', vitem a ''name''), (''email'', vget a ''email''),
        (''position'', vget a ''position''), (''status'', lit ''proposed''), (''proposed_by'', vget a ''proposed_by''),
        (''confirmed_by'', null), (''created_at'', now_of e), (''last_updated_seq'', seq_of e)]) (\<lambda>row.
     rbind (set_row ''persons'' pid row st) (first_identity F e a))))"

definition person_confirmed :: handler where
  "person_confirmed F e a st =
     rbind (vitem a ''person_id'') (\<lambda>pid.
     update_row ''persons'' pid (\<lambda>p. dict_of
       [(''status'', lit ''active''), (''confirmed_by'', uuid_item a ''confirmed_by''), (''last_updated_seq'', seq_of e)]) st)"

definition person_archived :: handler where
  "person_archived F e a st =
     rbind (vitem a ''person_id'') (\<lambda>pid.
     update_row ''persons'' pid (\<lambda>p. dict_of [(''status'', lit ''archived''), (''last_updated_seq'', seq_of e)]) st)"

definition identity_linked :: handler where
  "identity_linked F e a st =
     rbind (vitem a ''person_id'') (\<lambda>pid. rbind (vitem a ''platform'') (\<lambda>platform.
     rbind (vitem a ''platform_user_id'') (\<lambda>user.
     let tid = PStr (e_company e) in
     rbind (identity_uuid F [tid, platform, user]) (\<lambda>iid.
     rbind (dict_of
       [(''identity_id'', Inr iid), (''person_id'', py_uuid pid), (''tenant_id'', tenant_of e), (''platform'', Inr platform),
        (''platform_user_id'', Inr user), (''display_name'', null), (''email_at_platform'', null), (''avatar_url'', null),
        (''added_at'', now_of e)]) (\<lambda>row.
     set_default ''person_identities'' (PTuple [tid, platform, user]) row st)))))"

definition identity_unlinked :: handler where
  "identity_unlinked F e a st =
     rbind (vitem a ''platform'') (\<lambda>platform. rbind (vitem a ''platform_user_id'') (\<lambda>user.
     let k = PTuple [PStr (e_company e), platform, user] in
     if hashable k \<or> pj_tables st ''person_identities'' = [] then Inr (set_table ''person_identities'' (filter (\<lambda>p. \<not> py_eq (fst p) k)) st) else Inl TypeError))"

definition position_proposed :: handler where
  "position_proposed F e a st =
     rbind (vitem a ''person_id'') (\<lambda>pid.
     update_row ''persons'' pid (\<lambda>p. dict_of [(''position'', vitem a ''position''), (''last_updated_seq'', seq_of e)]) st)"

definition position_confirmed :: handler where
  "position_confirmed F e a st = Inr st"

definition position_rejected :: handler where
  "position_rejected F e a st =
     rbind (vitem a ''person_id'') (\<lambda>pid. rbind (vitem a ''position'') (\<lambda>rejected.
     update_row ''persons'' pid (\<lambda>p.
       if py_eq (dget p ''position'') rejected
       then dict_of [(''position'', null), (''last_updated_seq'', seq_of e)] else Inr []) st))"

subsection \<open>Installs and setup\<close>

definition install_completed :: handler where
  "install_completed F e a st =
     rbind (vitem a ''tenant_id'') (\<lambda>tid. rbind (vitem a ''platform'') (\<lambda>platform.
     rbind (get_row ''installs'' (PTuple [tid, platform]) st) (\<lambda>r.
     let prior = (case r of None \<Rightarrow> [] | Some row \<Rightarrow> row) in
     rbind (dict_of
       [(''install_id'', uuid_item a ''install_id''), (''tenant_id'', py_uuid tid), (''platform'', Inr platform),
        (''installer_person_id'', uuid_item a ''installer_person_id''), (''oauth_grant_ref'', vitem a ''oauth_grant_ref''),
        (''scopes'', list_item a ''scopes''), (''bot_user_id'', vitem a ''bot_user_id''), (''status'', lit ''active''),
        (''installed_at'', now_of e), (''setup_mode'', Inr (dget prior ''setup_mode'')),
        (''setup_completed_at'', Inr (dget prior ''setup_completed_at'')), (''last_updated_seq'', seq_of e)]) (\<lambda>row.
     set_row ''installs'' (PTuple [tid, platform]) row st))))"

text \<open>\<open>str(row[k]) == v\<close>.\<close>

definition has_text :: "fold_lib \<Rightarrow> string \<Rightarrow> pyval \<Rightarrow> pydict \<Rightarrow> bool" where
  "has_text F k v row = (v = PStr (py_str (fl_env F) (dget row k)))"

definition install_revoked :: handler where
  "install_revoked F e a st =
     rbind (vitem a ''install_id'') (\<lambda>target.
     Inr (set_table ''installs'' (update_first (has_text F ''install_id'' target) (\<lambda>inst. dict_merge inst
       [(''status'', PStr ''revoked''), (''last_updated_seq'', PInt (e_seq e))])) st))"

definition setup_mode_chosen :: handler where
  "setup_mode_chosen F e a st =
     rbind (vitem a ''tenant_id'') (\<lambda>target. rbind (vitem a ''mode'') (\<lambda>mode.
     Inr (set_table ''installs'' (map (\<lambda>(k, inst). (k, if has_text F ''tenant_id'' target inst then dict_merge inst
       [(''setup_mode'', mode), (''last_updated_seq'', PInt (e_seq e))] else inst))) st)))"

definition setup_completed :: handler where
  "setup_completed F e a st =
     rbind (vitem a ''tenant_id'') (\<lambda>target.
     Inr (set_table ''installs'' (map (\<lambda>(k, inst). (k, if has_text F ''tenant_id'' target inst then dict_merge inst
       [(''setup_completed_at'', ts_of e), (''last_updated_seq'', PInt (e_seq e))] else inst))) st))"

definition setup_step_advanced :: handler where
  "setup_step_advanced F e a st =
     rbind (vitem a ''tenant_id'') (\<lambda>target. rbind (vitem a ''step_id'') (\<lambda>step. rbind (py_uuid target) (\<lambda>tid.
     rbind (get_row ''setup_progress'' tid st) (\<lambda>r.
     set_row ''setup_progress'' tid (case r of
         None \<Rightarrow> [(''tenant_id'', tid), (''current_step'', step), (''steps_completed'', PList [step]),
                  (''last_advance_seq'', PInt (e_seq e)), (''last_advance_ts'', ts_of e)]
       | Some row \<Rightarrow>
           (let completed = (case dget row ''steps_completed'' of PList xs \<Rightarrow> xs | _ \<Rightarrow> []);
                completed' = (if list_ex (\<lambda>x. py_eq x step) completed then completed else completed @ [step])
            in dict_merge row [(''current_step'', step), (''steps_completed'', PList completed'),
                 (''last_advance_seq'', PInt (e_seq e)), (''last_advance_ts'', ts_of e)])) st))))"

subsection \<open>Roles\<close>

definition role_row :: "entry \<Rightarrow> pyval \<Rightarrow> pyval \<Rightarrow> string \<Rightarrow> pyval \<Rightarrow> exc + pyval \<Rightarrow> exc + pyval \<Rightarrow> exc + pyval \<Rightarrow> exc + pydict" where
  "role_row e gid pid facet role scope_id scope_type granted_by =
     dict_of [(''grant_id'', Inr gid), (''tenant_id'', tenant_of e), (''person_id'', py_uuid pid), (''facet'', lit facet),
       (''role'', Inr role), (''scope_id'', scope_id), (''scope_type'', scope_type), (''granted_by'', granted_by),
       (''granted_at'', now_of e), (''revoked_at'', null), (''last_updated_seq'', seq_of e)]"

definition role_assigned :: handler where
  "role_assigned F e a st =
     rbind (vitem a ''person_id'') (\<lambda>pid. rbind (vitem a ''role'') (\<lambda>role.
     rbind (role_grant_uuid F [PStr (e_company e), pid, PStr ''tenancy'', role, PStr [], PStr (dec_int (e_seq e))]) (\<lambda>gid.
     rbind (role_row e gid pid ''tenancy'' role null null (uuid_item a ''granted_by'')) (\<lambda>row.
     set_row ''roles'' gid row st))))"

definition role_revoked :: handler where
  "role_revoked F e a st =
     rbind (vitem a ''person_id'') (\<lambda>pid. rbind (vitem a ''role'') (\<lambda>role.
     Inr (set_table ''roles'' (update_first
         (\<lambda>g. dget g ''facet'' = PStr ''tenancy'' \<and> has_text F ''person_id'' pid g \<and> py_eq (dget g ''role'') role \<and>
           dget g ''revoked_at'' = PNone)
         (\<lambda>g. dict_merge g [(''revoked_at'', ts_of e), (''last_updated_seq'', PInt (e_seq e))])) st)))"

definition domain_role_assigned :: handler where
  "domain_role_assigned F e a st =
     rbind (vitem a ''person_id'') (\<lambda>pid. rbind (vitem a ''domain_id'') (\<lambda>did. rbind (vitem a ''role'') (\<lambda>role.
     rbind (role_grant_uuid F [PStr (e_company e), pid, PStr ''domain'', role, did, PStr (dec_int (e_seq e))]) (\<lambda>gid.
     rbind (role_row e gid pid ''domain'' role (py_uuid did) (lit ''domain'') (uuid_item a ''granted_by'')) (\<lambda>row.
     set_row ''roles'' gid row st)))))"

definition resource_role_assigned :: handler where
  "resource_role_assigned F e a st =
     rbind (vitem a ''person_id'') (\<lambda>pid. rbind (vitem a ''resource_id'') (\<lambda>rid.
     rbind (vitem a ''resource_type'') (\<lambda>rtype. rbind (vitem a ''role'') (\<lambda>role.
     rbind (role_grant_uuid F [PStr (e_company e), pid, PStr ''resource'', role, rid, PStr (dec_int (e_seq e))]) (\<lambda>gid.
     rbind (role_row e gid pid ''resource'' role (py_uuid rid) (Inr rtype) (uuid_item a ''granted_by'')) (\<lambda>row.
     set_row ''roles'' gid row st))))))"

definition resource_role_proposed :: handler where
  "resource_role_proposed F e a st =
     rbind (vitem a ''person_id'') (\<lambda>pid. rbind (vitem a ''resource_id'') (\<lambda>rid. rbind (vitem a ''role'') (\<lambda>role.
     rbind (role_grant_uuid F [PStr (e_company e), pid, PStr ''resource'', role, rid, PStr (dec_int (e_seq e))]) (\<lambda>gid.
     rbind (role_row e gid pid ''resource'' role (py_uuid rid) (lit ''resource'') (uuid_item a ''proposed_by'')) (\<lambda>row.
     set_row ''roles'' gid row st)))))"

end
