(* ===== verification/Projection_Assets.thy ===== *)
theory Projection_Assets
  imports Projection_Handlers
begin

section \<open>Handlers of data products, notebooks, catalogs, agents and topics\<close>

text \<open>
  The remaining branches of \<open>_apply_execute\<close> but those of the discovery axes: data products and
  their runs, notebooks, MCP calls, the mirrored catalogs, agents and their grants, query outcomes
  and topics.
\<close>

subsection \<open>Data products\<close>

definition data_product_proposed :: handler where
  "data_product_proposed F e a st =
     rbind (vitem a ''data_product_id'') (\<lambda>dpid.
     rbind (dict_of
       [(''data_product_id'', py_uuid dpid), (''tenant_id'', tenant_of e), (''name'', vitem a ''name''), (''kind'', vitem a ''kind''),
        (''status'', lit ''proposed''), (''requested_by_person_id'', uuid_item a ''requested_by_person_id''),
        (''domain_id'', opt_uuid a ''domain_id''), (''latest_run_seq'', null), (''generated_at'', null),
        (''content_hash'', null), (''contents_uri'', null), (''last_updated_seq'', seq_of e)]) (\<lambda>row.
     set_row ''data_products'' dpid row st))"

definition data_product_generated :: handler where
  "data_product_generated F e a st =
     rbind (vitem a ''data_product_id'') (\<lambda>dpid.
     rbind (data_product_uuid F [PStr (e_company e), dpid, PStr ''run'', PStr (dec_int (e_seq e))]) (\<lambda>run_id.
     rbind (dict_of
       [(''run_id'', Inr run_id), (''data_product_id'', py_uuid dpid), (''tenant_id'', tenant_of e),
        (''generated_by'', vitem a ''generated_by''), (''ts'', now_of e), (''source_hashes'', list_item a ''source_hashes''),
        (''content_hash'', vitem a ''content_hash''), (''duration_ms'', int_item a ''duration_ms'')]) (\<lambda>row.
     rbind (set_row ''data_product_runs'' run_id row st)
       (update_row ''data_products'' dpid (\<lambda>dp. dict_of
         [(''status'', lit ''generated''), (''latest_run_seq'', seq_of e), (''generated_at'', now_of e),
          (''content_hash'', vitem a ''content_hash''), (''contents_uri'', vitem a ''contents_uri''),
          (''last_updated_seq'', seq_of e)])))))"

definition data_product_consumed :: handler where
  "data_product_consumed F e a st =
     rbind (vitem a ''data_product_id'') (\<lambda>dpid.
     rbind (data_product_uuid F [PStr (e_company e), dpid, PStr ''consume'', PStr (dec_int (e_seq e))]) (\<lambda>cid.
     rbind (dict_of
       [(''consumption_id'', Inr cid), (''data_product_id'', py_uuid dpid), (''tenant_id'', tenant_of e),
        (''person_id'', uuid_item a ''consumed_by_person_id''), (''surface'', vitem a ''surface''),
        (''channel'', vget a ''channel''), (''ts'', now_of e)]) (\<lambda>row.
     set_row ''data_product_consumption'' cid row st)))"

definition data_product_archived :: handler where
  "data_product_archived F e a st =
     rbind (vitem a ''data_product_id'') (\<lambda>dpid.
     update_row ''data_products'' dpid (\<lambda>dp. dict_of [(''status'', lit ''archived''), (''last_updated_seq'', seq_of e)]) st)"

subsection \<open>Notebooks\<close>

definition notebook_proposed :: handler where
  "notebook_proposed F e a st =
     rbind (vitem a ''notebook_id'') (\<lambda>nid.
     rbind (dict_of
       [(''notebook_id'', py_uuid nid), (''tenant_id'', tenant_of e), (''name'', vitem a ''name''), (''kernel'', vitem a ''kernel''),
        (''status'', lit ''proposed''), (''owner_person_id'', uuid_item a ''proposed_by_person_id''),
        (''domain_id'', opt_uuid a ''domain_id''), (''latest_run_id'', null), (''latest_published_run_id'', null),
        (''version'', null), (''last_updated_seq'', seq_of e), (''_cells'', list_item a ''cells'')]) (\<lambda>row.
     set_row ''notebooks'' nid row st))"

definition notebook_run :: handler where
  "notebook_run F e a st =
     rbind (vitem a ''notebook_id'') (\<lambda>nid.
     rbind (notebook_run_uuid F [PStr (e_company e), nid, PStr ''run'', PStr (dec_int (e_seq e))]) (\<lambda>run_id.
     rbind (dict_of
       [(''run_id'', Inr run_id), (''notebook_id'', py_uuid nid), (''tenant_id'', tenant_of e), (''status'', vitem a ''status''),
        (''ts'', now_of e), (''run_by'', vitem a ''run_by''), (''kernel_state_hash'', vitem a ''kernel_state_hash''),
        (''duration_ms'', int_item a ''duration_ms'')]) (\<lambda>row.
     rbind (set_row ''notebook_runs'' run_id row st)
       (update_row ''notebooks'' nid (\<lambda>nb. dict_of
         [(''status'', lit ''run''), (''latest_run_id'', Inr run_id), (''last_updated_seq'', seq_of e)])))))"

definition notebook_published :: handler where
  "notebook_published F e a st =
     rbind (vitem a ''notebook_id'') (\<lambda>nid.
     rbind (notebook_run_uuid F [PStr (e_company e), nid, PStr ''publish'', PStr (dec_int (e_seq e))]) (\<lambda>pub_id.
     update_row ''notebooks'' nid (\<lambda>nb. dict_of
       [(''status'', lit ''published''), (''latest_published_run_id'', Inr pub_id), (''version'', vitem a ''version''),
        (''owner_person_id'', uuid_item a ''owner_person_id''),
        (''domain_id'', rbind (vget a ''domain_id'') (\<lambda>v. if truthy v then py_uuid v else Inr (dget nb ''domain_id''))),
        (''last_updated_seq'', seq_of e)]) st))"

definition notebook_archived :: handler where
  "notebook_archived F e a st =
     rbind (vitem a ''notebook_id'') (\<lambda>nid.
     update_row ''notebooks'' nid (\<lambda>nb. dict_of [(''status'', lit ''archived''), (''last_updated_seq'', seq_of e)]) st)"

subsection \<open>MCP calls and mirrored catalogs\<close>

definition mcp_call_received :: handler where
  "mcp_call_received F e a st =
     rbind (vitem a ''mcp_call_id'') (\<lambda>mid.
     rbind (dict_of
       [(''mcp_call_id'', py_uuid mid), (''tenant_id'', uuid_item a ''tenant_id''),
        (''caller_person_id'', opt_uuid a ''caller_person_id''), (''tool_name'', vitem a ''tool_name''),
        (''args_hash'', vitem a ''args_hash''), (''client_ua'', vget a ''client_ua''), (''started_at'', now_of e),
        (''outcome'', vitem a ''outcome''), (''latency_ms'', int_item a ''latency_ms'')]) (\<lambda>row.
     set_row ''mcp_calls'' mid row st))"

definition external_catalog_imported :: handler where
  "external_catalog_imported F e a st =
     rbind (vitem a ''source_id'') (\<lambda>sid. rbind (vitem a ''snapshot_hash'') (\<lambda>snap.
     rbind (external_catalog_uuid F [PStr (e_company e), sid, snap]) (\<lambda>rid.
     rbind (dict_of
       [(''id'', Inr rid), (''company_id'', tenant_of e), (''source_id'', py_uuid sid), (''domain_id'', uuid_item a ''domain_id''),
        (''source_kind'', vitem a ''source_kind''), (''snapshot_hash'', Inr snap), (''table_count'', int_item a ''table_count''),
        (''edge_count'', int_item a ''edge_count''), (''metric_count'', int_item a ''metric_count''),
        (''import_mode'', vitem a ''import_mode''), (''imported_at'', now_of e)]) (\<lambda>row.
     set_row ''external_catalog'' rid row st))))"

text \<open>\<open>d.get(k, []) or []\<close>, iterated.\<close>

definition items_of :: "pyval \<Rightarrow> string \<Rightarrow> exc + pyval list" where
  "items_of a k = rbind (vget_or a k (PList [])) (\<lambda>v. py_iter (py_or v (PList [])))"

fun edge_ends :: "pyval \<Rightarrow> (pyval \<times> pyval) option" where
  "edge_ends (PList [u, d]) = Some (u, d)"
| "edge_ends (PTuple [u, d]) = Some (u, d)"
| "edge_ends _ = None"

fun import_edges :: "fold_lib \<Rightarrow> entry \<Rightarrow> pyval \<Rightarrow> pyval list \<Rightarrow> proj_state \<Rightarrow> exc + proj_state" where
  "import_edges F e sid [] st = Inr st"
| "import_edges F e sid (x # xs) st =
     (case edge_ends x of
        None \<Rightarrow> import_edges F e sid xs st
      | Some (u, d) \<Rightarrow>
          (let up = PStr (py_str (fl_env F) u); down = PStr (py_str (fl_env F) d)
           in rbind (external_lineage_uuid F [PStr (e_company e), sid, up, down]) (\<lambda>rid.
              rbind (dict_of
                [(''id'', Inr rid), (''company_id'', tenant_of e), (''source_id'', py_uuid sid), (''upstream'', Inr up),
                 (''downstream'', Inr down), (''imported_at'', now_of e)]) (\<lambda>row.
              rbind (set_row ''external_lineage'' rid row st) (import_edges F e sid xs)))))"

definition external_lineage_imported :: handler where
  "external_lineage_imported F e a st =
     rbind (vitem a ''source_id'') (\<lambda>sid. rbind (items_of a ''edges'') (\<lambda>edges. import_edges F e sid edges st))"

definition external_policy_imported :: handler where
  "external_policy_imported F e a st =
     rbind (vitem a ''source_id'') (\<lambda>sid. rbind (vitem a ''policy_fqn'') (\<lambda>fqn.
     rbind (external_policy_uuid F [PStr (e_company e), sid, fqn]) (\<lambda>rid.
     rbind (items_of a ''applied_to'') (\<lambda>applied.
     rbind (dict_of
       [(''id'', Inr rid), (''company_id'', tenant_of e), (''source_id'', py_uuid sid), (''policy_fqn'', Inr fqn),
        (''policy_kind'', vitem a ''policy_kind''), (''body'', vget a ''body''), (''applied_to'', Inr (PList applied)),
        (''imported_at'', now_of e)]) (\<lambda>row.
     set_row ''external_policy'' rid row st)))))"

definition external_metric_imported :: handler where
  "external_metric_imported F e a st =
     rbind (vitem a ''source_id'') (\<lambda>sid. rbind (vitem a ''name'') (\<lambda>name.
     rbind (external_metric_uuid F [PStr (e_company e), sid, name]) (\<lambda>rid.
     rbind (items_of a ''dimensions'') (\<lambda>dims.
     rbind (dict_of
       [(''id'', Inr rid), (''company_id'', tenant_of e), (''source_id'', py_uuid sid), (''name'', Inr name),
        (''expression'', vget a ''expression''), (''time_grain'', vget a ''time_grain''), (''dimensions'', Inr (PList dims)),
        (''description'', vget a ''description''), (''imported_at'', now_of e)]) (\<lambda>row.
     set_row ''external_metric'' rid row st)))))"

text \<open>A catalog table; a column needs a name. A column that is no dictionary has no attributes.\<close>

definition catalog_column :: "fold_lib \<Rightarrow> pyval \<Rightarrow> pyval option" where
  "catalog_column F col =
     (case col of
        PDict d \<Rightarrow>
          (case dget d ''name'' of
             PStr n \<Rightarrow> if n = [] then None
               else Some (PDict [(''name'', PStr n),
                 (''type'', if dget d ''type'' = PNone then PNone else PStr (py_str (fl_env F) (dget d ''type'')))])
           | _ \<Rightarrow> None)
      | _ \<Rightarrow> None)"

definition catalog_table_imported :: handler where
  "catalog_table_imported F e a st =
     (case a of
        PDict d \<Rightarrow>
          (let sid = str_arg F d ''source_id''; snap = str_arg F d ''snapshot_hash''; tid = str_arg F d ''table_id''
           in if sid = [] \<or> snap = [] \<or> tid = [] then Inr st
              else rbind (items_of a ''columns'') (\<lambda>cols.
                set_row ''catalog_tables'' (PTuple [PStr (e_company e), PStr sid, PStr tid, PStr snap])
                  [(''company_id'', PStr (e_company e)), (''source_id'', PStr sid), (''table_id'', PStr tid),
                   (''snapshot_hash'', PStr snap), (''columns'', PList (List.map_filter (catalog_column F) cols)),
                   (''ts'', ts_of e)] st))
      | _ \<Rightarrow> Inl AttributeError)"

subsection \<open>Agents, query outcomes, topics\<close>

definition owner_text :: "entry \<Rightarrow> pyval \<Rightarrow> exc + pyval" where
  "owner_text e a = rbind (vget a ''company_id'') (\<lambda>v. Inr (py_or v (PStr (e_company e))))"

definition agent_registered :: handler where
  "agent_registered F e a st =
     rbind (vitem a ''agent_id'') (\<lambda>aid. rbind (owner_text e a) (\<lambda>tid.
     rbind (dict_of
       [(''id'', Inr aid), (''company_id'', Inr tid), (''person_id'', vitem a ''person_id''),
        (''external_provider'', vitem a ''external_provider''), (''display_name'', vitem a ''display_name''),
        (''registered_at'', now_of e), (''status'', lit ''active'')]) (\<lambda>row.
     set_row ''agents'' aid row st)))"

definition agent_grant_recorded :: handler where
  "agent_grant_recorded F e a st =
     rbind (vitem a ''agent_id'') (\<lambda>aid. rbind (vitem a ''grant_kind'') (\<lambda>kind. rbind (vitem a ''grant_target'') (\<lambda>target.
     rbind (owner_text e a) (\<lambda>tid. rbind (agent_grant_uuid F [tid, aid, kind, target]) (\<lambda>rid.
     rbind (dict_of
       [(''id'', Inr rid), (''company_id'', Inr tid), (''agent_id'', Inr aid), (''grant_kind'', Inr kind),
        (''grant_target'', Inr target), (''status'', vitem a ''status''), (''granted_by'', vitem a ''granted_by''),
        (''granted_at'', now_of e), (''budget_remaining_usd'', vget a ''budget_remaining_usd'')]) (\<lambda>row.
     set_row ''agent_grants'' rid row st))))))"

definition embedding_of :: "fold_lib \<Rightarrow> pyval \<Rightarrow> pyval" where
  "embedding_of F v =
     (let numbers = (\<lambda>xs. if xs = [] then PNone
        else case rmap (py_float (fl_float F)) xs of Inl x \<Rightarrow> PNone | Inr rs \<Rightarrow> PList (map PFloat rs))
      in case v of PList xs \<Rightarrow> numbers xs | PTuple xs \<Rightarrow> numbers xs | _ \<Rightarrow> PNone)"

definition query_outcome_recorded :: handler where
  "query_outcome_recorded F e a st =
     rbind (query_outcome_uuid F [PStr (e_company e), PStr (e_id e)]) (\<lambda>rid.
     (case a of
        PDict d \<Rightarrow> set_row ''query_outcomes'' rid
          [(''id'', rid), (''company_id'', PStr (e_company e)), (''agent_query_id'', PStr (str_arg F d ''agent_query_id'')),
           (''nl_question'', PStr (str_arg F d ''nl_question'')), (''final_query_spec'', dict_arg d ''final_query_spec''),
           (''result_summary'', dict_arg d ''result_summary''), (''used'', PBool (truthy (dget_or d ''used'' (PBool False)))),
           (''useful'', PBool (truthy (dget_or d ''useful'' (PBool False)))), (''user_correction'', dget d ''user_correction''),
           (''quality_score'', PStr (py_str (fl_env F) (py_or (dget d ''quality_score'') (PStr ''0'')))),
           (''embedding'', embedding_of F (dget d ''embedding'')), (''recorded_at'', ts_of e)] st
      | _ \<Rightarrow> Inl AttributeError))"

definition topic_proposed :: handler where
  "topic_proposed F e a st =
     rbind (vitem a ''topic_id'') (\<lambda>tid.
     rbind (get_row ''topics'' tid st) (\<lambda>existing.
     rbind (rbind (vget_or a ''confidence'' (PFloat (1 / 2))) (py_float (fl_float F))) (\<lambda>conf.
     let seen = (\<lambda>k. rbind (vitem a k) (parse_topic_ts F));
         latest_fields =
           [(''last_seen_at'', seen ''last_seen_at''), (''confidence'', lit (fixed2 conf)),
            (''served_by'', vget_or a ''served_by'' (PStr ''heuristic'')), (''last_updated_seq'', seq_of e)];
         body = [(''label'', vitem a ''label''), (''cluster_signature'', vitem a ''cluster_signature''),
            (''cluster_size'', int_item a ''cluster_size''), (''member_message_ids'', list_item a ''member_message_ids'')]
     in (case existing of
           None \<Rightarrow> rbind (dict_of ((''topic_id'', py_uuid tid) # body @ (''first_seen_at'', seen ''first_seen_at'') # latest_fields))
             (\<lambda>row. set_row ''topics'' tid row st)
         | Some row \<Rightarrow> rbind (dict_of (body @ latest_fields)) (\<lambda>d. set_row ''topics'' tid (dict_merge row d) st)))))"

end
