(* ===== verification/Projection_Axes.thy ===== *)
theory Projection_Axes
  imports Projection_Handlers
begin

section \<open>Handlers of the discovery axes (\<open>_apply_execute\<close>)\<close>

text \<open>
  Eight axes (lineage edges, quality checks, schema impacts, semantic types, column
  classifications, entity stitches, source candidates, catalog drifts) share one shape: a proposal
  files a row under the company and the identifier, a later proposal refreshes what was inferred
  and never the state, a decision sets the state, its time and its author. An axis is the table,
  the name of its identifier and the two sets of inferred fields.
\<close>

record axis =
  ax_table :: string
  ax_id :: string
  ax_new :: "fold_lib \<Rightarrow> pydict \<Rightarrow> rat \<Rightarrow> pydict"
  ax_again :: "fold_lib \<Rightarrow> pydict \<Rightarrow> rat \<Rightarrow> pydict"

definition axis_key :: "entry \<Rightarrow> string \<Rightarrow> pyval" where
  "axis_key e k = PTuple [PStr (e_company e), PStr k]"

definition axis_proposed :: "axis \<Rightarrow> handler" where
  "axis_proposed ax F e a st =
     (case a of
        PDict d \<Rightarrow>
          (let k = str_arg F d (ax_id ax)
           in if k = [] then Inr st
              else rbind (get_row (ax_table ax) (axis_key e k) st) (\<lambda>existing.
                rbind (py_float (fl_float F) (dget_or d ''confidence'' (PFloat 0))) (\<lambda>conf.
                set_row (ax_table ax) (axis_key e k) (case existing of
                    None \<Rightarrow> (''company_id'', PStr (e_company e)) # (ax_id ax, PStr k) # ax_new ax F d conf @
                      [(''state'', PStr ''proposed''), (''state_changed_at'', ts_of e), (''state_changed_by'', PNone)]
                  | Some row \<Rightarrow>
                      (let row' = dict_merge row (ax_again ax F d conf)
                       in if dget row' ''state'' = PStr ''proposed''
                          then dict_merge row' [(''state_changed_at'', ts_of e)] else row')) st)))
      | _ \<Rightarrow> Inl AttributeError)"

definition axis_decided :: "axis \<Rightarrow> string \<Rightarrow> string \<Rightarrow> (fold_lib \<Rightarrow> pydict \<Rightarrow> pydict) \<Rightarrow> handler" where
  "axis_decided ax verdict author extra F e a st =
     (case a of
        PDict d \<Rightarrow>
          (let k = str_arg F d (ax_id ax)
           in if k = [] then Inr st
              else rbind (get_row (ax_table ax) (axis_key e k) st) (\<lambda>existing.
                case existing of
                  None \<Rightarrow> Inr st
                | Some row \<Rightarrow> set_row (ax_table ax) (axis_key e k) (dict_merge row
                    ([(''state'', PStr verdict), (''state_changed_at'', ts_of e),
                      (''state_changed_by'', PStr (str_arg F d author))] @ extra F d)) st))
      | _ \<Rightarrow> Inl AttributeError)"

definition no_extra :: "fold_lib \<Rightarrow> pydict \<Rightarrow> pydict" where
  "no_extra F d = []"

text \<open>The fields every axis infers.\<close>

definition str_fields :: "fold_lib \<Rightarrow> pydict \<Rightarrow> string list \<Rightarrow> pydict" where
  "str_fields F d ks = map (\<lambda>k. (k, PStr (str_arg F d k))) ks"

definition inferred :: "fold_lib \<Rightarrow> pydict \<Rightarrow> rat \<Rightarrow> pydict" where
  "inferred F d conf =
     (''confidence'', PFloat conf) # str_fields F d [''strategy'', ''reasoning''] @ [(''evidence'', dict_arg d ''evidence'')]"

subsection \<open>Lineage edges\<close>

definition lineage_edges :: axis where
  "lineage_edges = \<lparr>ax_table = ''lineage_edges'', ax_id = ''edge_id'',
     ax_new = (\<lambda>F d conf. str_fields F d [''src_table_id''] @ [(''src_column'', dget d ''src_column'')] @
       str_fields F d [''tgt_table_id''] @ [(''tgt_column'', dget d ''tgt_column'')] @ inferred F d conf),
     ax_again = inferred\<rparr>"

definition lineage_edge_proposed :: handler where
  "lineage_edge_proposed = axis_proposed lineage_edges"

definition lineage_edge_confirmed :: handler where
  "lineage_edge_confirmed = axis_decided lineage_edges ''confirmed'' ''confirmed_by_person_id'' no_extra"

definition lineage_edge_rejected :: handler where
  "lineage_edge_rejected = axis_decided lineage_edges ''rejected'' ''rejected_by_person_id'' no_extra"

subsection \<open>Quality checks\<close>

definition quality_checks :: axis where
  "quality_checks = \<lparr>ax_table = ''quality_checks'', ax_id = ''check_id'',
     ax_new = (\<lambda>F d conf. str_fields F d [''table_id''] @ [(''column'', dget d ''column'')] @ str_fields F d [''check_kind''] @
       [(''config'', dict_arg d ''config'')] @ inferred F d conf),
     ax_again = (\<lambda>F d conf. (''config'', dict_arg d ''config'') # inferred F d conf)\<rparr>"

definition quality_check_proposed :: handler where
  "quality_check_proposed = axis_proposed quality_checks"

definition quality_check_confirmed :: handler where
  "quality_check_confirmed = axis_decided quality_checks ''confirmed'' ''confirmed_by_person_id'' no_extra"

definition quality_check_rejected :: handler where
  "quality_check_rejected = axis_decided quality_checks ''rejected'' ''rejected_by_person_id'' no_extra"

subsection \<open>Schema impacts\<close>

text \<open>An empty upstream edge is stored as \<open>None\<close>.\<close>

definition upstream_edge :: "pydict \<Rightarrow> pyval" where
  "upstream_edge d = (let v = dget d ''upstream_lineage_edge_id'' in if v = PStr [] then PNone else v)"

definition schema_impacts :: axis where
  "schema_impacts = \<lparr>ax_table = ''schema_impacts'', ax_id = ''impact_id'',
     ax_new = (\<lambda>F d conf. str_fields F d [''source_id'', ''src_table'', ''src_column'', ''change_kind'', ''impact_kind'',
       ''tgt_table_id'', ''tgt_column''] @ [(''upstream_lineage_edge_id'', upstream_edge d)] @ inferred F d conf),
     ax_again = (\<lambda>F d conf. inferred F d conf @ [(''upstream_lineage_edge_id'', upstream_edge d)])\<rparr>"

definition schema_impact_proposed :: handler where
  "schema_impact_proposed = axis_proposed schema_impacts"

definition schema_impact_confirmed :: handler where
  "schema_impact_confirmed = axis_decided schema_impacts ''confirmed'' ''confirmed_by_person_id'' no_extra"

definition schema_impact_rejected :: handler where
  "schema_impact_rejected = axis_decided schema_impacts ''rejected'' ''rejected_by_person_id'' no_extra"

subsection \<open>Semantic types\<close>

definition semantic_types :: axis where
  "semantic_types = \<lparr>ax_table = ''semantic_types'', ax_id = ''type_id'',
     ax_new = (\<lambda>F d conf. str_fields F d [''table_id'', ''column'', ''semantic_type''] @ inferred F d conf),
     ax_again = (\<lambda>F d conf. inferred F d conf @ str_fields F d [''semantic_type''])\<rparr>"

definition semantic_type_proposed :: handler where
  "semantic_type_proposed = axis_proposed semantic_types"

definition semantic_type_confirmed :: handler where
  "semantic_type_confirmed = axis_decided semantic_types ''confirmed'' ''confirmed_by_person_id'' no_extra"

definition semantic_type_rejected :: handler where
  "semantic_type_rejected = axis_decided semantic_types ''rejected'' ''rejected_by_person_id'' no_extra"

subsection \<open>Column classifications\<close>

definition column_classifications :: axis where
  "column_classifications = \<lparr>ax_table = ''column_classifications'', ax_id = ''classification_id'',
     ax_new = (\<lambda>F d conf. str_fields F d [''table_id'', ''column'', ''classification_level''] @
       [(''upstream_semantic_type_id'', opt_str_arg F d ''upstream_semantic_type_id'')] @ inferred F d conf),
     ax_again = (\<lambda>F d conf. inferred F d conf @ str_fields F d [''classification_level''] @
       [(''upstream_semantic_type_id'', opt_str_arg F d ''upstream_semantic_type_id'')])\<rparr>"

definition column_classification_proposed :: handler where
  "column_classification_proposed = axis_proposed column_classifications"

definition column_classification_confirmed :: handler where
  "column_classification_confirmed = axis_decided column_classifications ''confirmed'' ''confirmed_by_person_id'' no_extra"

definition column_classification_rejected :: handler where
  "column_classification_rejected = axis_decided column_classifications ''rejected'' ''rejected_by_person_id'' no_extra"

subsection \<open>Entity stitches\<close>

definition entity_stitches :: axis where
  "entity_stitches = \<lparr>ax_table = ''entity_stitches'', ax_id = ''stitch_id'',
     ax_new = (\<lambda>F d conf. str_fields F d [''src_source_id_a'', ''src_table_a'', ''src_column_a'', ''src_source_id_b'',
       ''src_table_b'', ''src_column_b''] @
       [(''upstream_semantic_type_id'', opt_str_arg F d ''upstream_semantic_type_id'')] @ str_fields F d [''entity_kind''] @
       inferred F d conf),
     ax_again = (\<lambda>F d conf. inferred F d conf @ str_fields F d [''entity_kind''] @
       [(''upstream_semantic_type_id'', opt_str_arg F d ''upstream_semantic_type_id'')])\<rparr>"

definition entity_stitch_proposed :: handler where
  "entity_stitch_proposed = axis_proposed entity_stitches"

definition entity_stitch_confirmed :: handler where
  "entity_stitch_confirmed = axis_decided entity_stitches ''confirmed'' ''confirmed_by_person_id'' no_extra"

definition entity_stitch_rejected :: handler where
  "entity_stitch_rejected = axis_decided entity_stitches ''rejected'' ''rejected_by_person_id'' no_extra"

subsection \<open>Source candidates\<close>

definition candidate_fields :: "fold_lib \<Rightarrow> pydict \<Rightarrow> rat \<Rightarrow> pydict" where
  "candidate_fields F d conf =
     str_fields F d [''proposed_kind'', ''proposed_identifier''] @
     [(''domain_id_hint'', opt_str_arg F d ''domain_id_hint'')] @ str_fields F d [''strategy'', ''reasoning''] @
     [(''confidence'', PFloat conf), (''evidence'', dict_arg d ''evidence'')]"

definition source_candidates :: axis where
  "source_candidates = \<lparr>ax_table = ''source_candidates'', ax_id = ''candidate_id'',
     ax_new = (\<lambda>F d conf. candidate_fields F d conf @ [(''downstream_source_proposed_id'', PNone)]),
     ax_again = candidate_fields\<rparr>"

definition downstream_source :: "fold_lib \<Rightarrow> pydict \<Rightarrow> pydict" where
  "downstream_source F d =
     (let v = dget d ''downstream_source_proposed_id''
      in if truthy v then [(''downstream_source_proposed_id'', PStr (py_str (fl_env F) v))] else [])"

definition source_candidate_proposed :: handler where
  "source_candidate_proposed = axis_proposed source_candidates"

definition source_candidate_promoted :: handler where
  "source_candidate_promoted = axis_decided source_candidates ''promoted'' ''promoted_by_person_id'' downstream_source"

definition source_candidate_rejected :: handler where
  "source_candidate_rejected = axis_decided source_candidates ''rejected'' ''rejected_by_person_id'' no_extra"

subsection \<open>Catalog drifts\<close>

definition drift_fields :: "fold_lib \<Rightarrow> pydict \<Rightarrow> rat \<Rightarrow> pydict" where
  "drift_fields F d conf =
     str_fields F d [''source_id'', ''table_id''] @ [(''column'', opt_str_arg F d ''column'')] @
     str_fields F d [''drift_kind''] @ [(''before'', dget d ''before''), (''after'', dget d ''after'')] @
     str_fields F d [''strategy'', ''reasoning''] @ [(''confidence'', PFloat conf), (''evidence'', dict_arg d ''evidence'')]"

definition catalog_drifts :: axis where
  "catalog_drifts = \<lparr>ax_table = ''catalog_drifts'', ax_id = ''drift_id'', ax_new = drift_fields, ax_again = drift_fields\<rparr>"

definition catalog_drift_proposed :: handler where
  "catalog_drift_proposed = axis_proposed catalog_drifts"

definition catalog_drift_acknowledged :: handler where
  "catalog_drift_acknowledged = axis_decided catalog_drifts ''acknowledged'' ''acknowledged_by_person_id'' no_extra"

definition catalog_drift_rejected :: handler where
  "catalog_drift_rejected = axis_decided catalog_drifts ''rejected'' ''rejected_by_person_id'' no_extra"

lemmas axis_handlers =
  lineage_edge_proposed_def lineage_edge_confirmed_def lineage_edge_rejected_def
  quality_check_proposed_def quality_check_confirmed_def quality_check_rejected_def
  schema_impact_proposed_def schema_impact_confirmed_def schema_impact_rejected_def
  semantic_type_proposed_def semantic_type_confirmed_def semantic_type_rejected_def
  column_classification_proposed_def column_classification_confirmed_def column_classification_rejected_def
  entity_stitch_proposed_def entity_stitch_confirmed_def entity_stitch_rejected_def
  source_candidate_proposed_def source_candidate_promoted_def source_candidate_rejected_def
  catalog_drift_proposed_def catalog_drift_acknowledged_def catalog_drift_rejected_def

end
