(* ===== verification/Projection_Build.thy ===== *)
theory Projection_Build
  imports Projection_Assets Projection_Axes Ledger_Store
begin

section \<open>Building projections from a log (\<open>projections/builder.py\<close>, \<open>replay.py\<close>)\<close>

text \<open>
  The dispatch of \<open>_apply_execute\<close>, the rows read at every envelope phase, the fold of a log, the
  ordered projections and their snapshots on both ledgers.
\<close>

subsection \<open>\<open>_apply_execute\<close>\<close>

definition EXECUTE_HANDLERS :: "(string \<times> handler) list" where
  "EXECUTE_HANDLERS =
     [(''emit_source_proposed'', source_proposed), (''emit_source_confirmed'', source_confirmed),
      (''emit_source_connected'', source_connected), (''emit_source_profiled'', source_profiled),
      (''emit_memory_written'', memory_written), (''emit_kpi_node'', kpi_node),
      (''emit_person_proposed'', person_proposed), (''emit_person_confirmed'', person_confirmed),
      (''emit_person_archived'', person_archived), (''emit_identity_linked'', identity_linked),
      (''emit_identity_unlinked'', identity_unlinked), (''emit_install_completed'', install_completed),
      (''emit_install_revoked'', install_revoked), (''emit_role_assigned'', role_assigned),
      (''emit_role_revoked'', role_revoked), (''emit_domain_role_assigned'', domain_role_assigned),
      (''emit_resource_role_assigned'', resource_role_assigned), (''emit_position_proposed'', position_proposed),
      (''emit_position_confirmed'', position_confirmed), (''emit_position_rejected'', position_rejected),
      (''emit_resource_role_proposed'', resource_role_proposed), (''emit_data_product_proposed'', data_product_proposed),
      (''emit_data_product_generated'', data_product_generated), (''emit_data_product_consumed'', data_product_consumed),
      (''emit_data_product_archived'', data_product_archived), (''emit_notebook_proposed'', notebook_proposed),
      (''emit_notebook_run'', notebook_run), (''emit_notebook_published'', notebook_published),
      (''emit_notebook_archived'', notebook_archived), (''emit_setup_mode_chosen'', setup_mode_chosen),
      (''emit_setup_completed'', setup_completed), (''emit_mcp_call_received'', mcp_call_received),
      (''emit_setup_step_advanced'', setup_step_advanced), (''emit_external_catalog_imported'', external_catalog_imported),
      (''emit_external_lineage_imported'', external_lineage_imported),
      (''emit_external_policy_imported'', external_policy_imported),
      (''emit_external_metric_imported'', external_metric_imported), (''emit_agent_registered'', agent_registered),
      (''emit_agent_grant'', agent_grant_recorded), (''emit_query_outcome_recorded'', query_outcome_recorded),
      (''emit_topic_proposed'', topic_proposed),
      (''emit_lineage_edge_proposed'', lineage_edge_proposed), (''emit_lineage_edge_confirmed'', lineage_edge_confirmed),
      (''emit_lineage_edge_rejected'', lineage_edge_rejected),
      (''emit_quality_check_proposed'', quality_check_proposed), (''emit_quality_check_confirmed'', quality_check_confirmed),
      (''emit_quality_check_rejected'', quality_check_rejected),
      (''emit_schema_impact_proposed'', schema_impact_proposed), (''emit_schema_impact_confirmed'', schema_impact_confirmed),
      (''emit_schema_impact_rejected'', schema_impact_rejected),
      (''emit_semantic_type_proposed'', semantic_type_proposed), (''emit_semantic_type_confirmed'', semantic_type_confirmed),
      (''emit_semantic_type_rejected'', semantic_type_rejected),
      (''emit_column_classification_proposed'', column_classification_proposed),
      (''emit_column_classification_confirmed'', column_classification_confirmed),
      (''emit_column_classification_rejected'', column_classification_rejected),
      (''emit_entity_stitch_proposed'', entity_stitch_proposed), (''emit_entity_stitch_confirmed'', entity_stitch_confirmed),
      (''emit_entity_stitch_rejected'', entity_stitch_rejected),
      (''emit_source_candidate_proposed'', source_candidate_proposed),
      (''emit_source_candidate_promoted'', source_candidate_promoted),
      (''emit_source_candidate_rejected'', source_candidate_rejected),
      (''emit_catalog_drift_proposed'', catalog_drift_proposed),
      (''emit_catalog_drift_acknowledged'', catalog_drift_acknowledged),
      (''emit_catalog_drift_rejected'', catalog_drift_rejected),
      (''emit_catalog_table_imported'', catalog_table_imported)]"

definition apply_execute :: "fold_lib \<Rightarrow> entry \<Rightarrow> proj_state \<Rightarrow> exc + proj_state" where
  "apply_execute F e st =
     (case dget (e_payload e) ''tool'' of
        PStr tool \<Rightarrow>
          (case map_of EXECUTE_HANDLERS tool of
             None \<Rightarrow> Inr st
           | Some h \<Rightarrow> h F e (dget_or (e_payload e) ''args'' (PDict [])) st)
      | _ \<Rightarrow> Inr st)"

subsection \<open>\<open>_apply_pevr_envelope\<close>\<close>

definition has_keys :: "pydict \<Rightarrow> string list \<Rightarrow> bool" where
  "has_keys d ks = list_all (\<lambda>k. map_of d k \<noteq> None) ks"

definition is_agent_query_payload :: "pydict \<Rightarrow> bool" where
  "is_agent_query_payload d = has_keys d [''audit_trail_id'', ''phase'', ''mcp_tool'', ''route_mode'']"

definition is_credential_payload :: "pydict \<Rightarrow> bool" where
  "is_credential_payload d =
     (dget d ''credential_kind'' \<in> {PStr ''data'', PStr ''model''} \<and> has_keys d [''ttl_expires_at'', ''issued_by''])"

definition is_query_template_promoted_payload :: "pydict \<Rightarrow> bool" where
  "is_query_template_promoted_payload d = has_keys d [''nl_intent'', ''promoted_from_outcome_ids'', ''query_spec'']"

definition agent_query_phase :: "fold_lib \<Rightarrow> entry \<Rightarrow> proj_state \<Rightarrow> exc + proj_state" where
  "agent_query_phase F e st =
     (let d = e_payload e; a = PDict d; audit = dget d ''audit_trail_id''; phase = dget d ''phase'' in
      rbind (get_row ''agent_queries'' audit st) (\<lambda>existing. case existing of
          None \<Rightarrow>
            rbind (dict_of
              [(''id'', Inr audit), (''company_id'', lit (e_company e)), (''agent_id'', vitem a ''agent_id''),
               (''mcp_tool'', vitem a ''mcp_tool''), (''args'', Inr (dget_or d ''args'' (PDict []))),
               (''route_mode'', vitem a ''route_mode''), (''status'', Inr phase), (''row_count'', Inr (dget d ''row_count'')),
               (''cost_usd'', Inr (dget d ''cost_usd'')), (''latency_ms'', Inr (dget d ''latency_ms'')),
               (''caused_by'', Inr (dget d ''caused_by'')), (''started_at'', now_of e)])
              (\<lambda>row. set_row ''agent_queries'' audit row st)
        | Some row \<Rightarrow>
            set_row ''agent_queries'' audit (dict_merge row ((''status'', phase) #
              filter (\<lambda>(k, v). v \<noteq> PNone)
                (map (\<lambda>k. (k, dget d k)) [''row_count'', ''cost_usd'', ''latency_ms'', ''caused_by'']))) st))"

definition credential_row :: "fold_lib \<Rightarrow> entry \<Rightarrow> pyval \<Rightarrow> exc + pydict" where
  "credential_row F e rid =
     (let a = PDict (e_payload e) in
      dict_of
        [(''id'', Inr rid), (''company_id'', lit (e_company e)), (''agent_id'', vitem a ''agent_id''),
         (''credential_kind'', vitem a ''credential_kind''), (''target'', vitem a ''target''), (''status'', vitem a ''status''),
         (''ttl_expires_at'', rbind (vitem a ''ttl_expires_at'') (\<lambda>v. Inr (parse_iso_ts F v))),
         (''issued_by'', vitem a ''issued_by''), (''issued_at'', now_of e)])"

definition link_entry :: "entry \<Rightarrow> pyval \<Rightarrow> proj_state \<Rightarrow> proj_state" where
  "link_entry e rid st = st\<lparr>pj_chain := AList.update (e_id e) rid (pj_chain st)\<rparr>"

definition credential_update :: "fold_lib \<Rightarrow> entry \<Rightarrow> pyval \<Rightarrow> proj_state \<Rightarrow> exc + proj_state" where
  "credential_update F e rid st =
     (let d = e_payload e in
      update_row ''credentials'' rid (\<lambda>row.
        rbind (vitem (PDict d) ''status'') (\<lambda>status.
        let ttl = parse_iso_ts F (dget d ''ttl_expires_at'') in
        Inr ((''status'', status) # (if ttl \<noteq> PNone then [(''ttl_expires_at'', ttl)] else []) @
             (if e_kind e = ''resolve'' then [(''issued_at'', ts_of e)] else [])))) st)"

definition credential_phase :: "fold_lib \<Rightarrow> entry \<Rightarrow> proj_state \<Rightarrow> exc + proj_state" where
  "credential_phase F e st =
     (let d = e_payload e;
          prior = py_or (py_or (dget d ''verify_entry_id'') (dget d ''execute_entry_id'')) (dget d ''propose_entry_id'');
          fresh = credential_uuid F [PStr (e_company e), PStr (e_id e)]
      in if e_kind e = ''propose''
         then rbind fresh (\<lambda>rid. rbind (credential_row F e rid) (\<lambda>row. set_row ''credentials'' rid row (link_entry e rid st)))
         else (case map_of (pj_chain st) (py_str (fl_env F) (py_or prior (PStr []))) of
             Some rid \<Rightarrow> credential_update F e rid (link_entry e rid st)
           | None \<Rightarrow>
               rbind fresh (\<lambda>rid. rbind (credential_row F e rid) (\<lambda>row. rbind (set_row ''credentials'' rid row st) (\<lambda>st'.
                 credential_update F e rid (link_entry e rid st'))))))"

definition template_promoted :: "fold_lib \<Rightarrow> entry \<Rightarrow> proj_state \<Rightarrow> exc + proj_state" where
  "template_promoted F e st =
     (let d = e_payload e in
      if e_kind e \<noteq> ''propose'' then Inr st
      else rbind (query_template_uuid F [PStr (e_company e), PStr (e_id e)]) (\<lambda>rid.
        let texts = (\<lambda>xs. map (\<lambda>x. PStr (py_str (fl_env F) x)) xs);
            ids = (case py_or (dget d ''promoted_from_outcome_ids'') (PList []) of
                     PList xs \<Rightarrow> texts xs | PTuple xs \<Rightarrow> texts xs | _ \<Rightarrow> [])
        in set_row ''query_templates'' rid
             [(''id'', rid), (''company_id'', PStr (e_company e)), (''domain_id'', PStr (str_arg F d ''domain_id'')),
              (''nl_intent'', PStr (str_arg F d ''nl_intent'')), (''query_spec'', dict_arg d ''query_spec''),
              (''promoted_from_outcome_ids'', PList ids),
              (''quality_score'', PStr (py_str (fl_env F) (py_or (dget d ''quality_score'') (PStr ''0'')))),
              (''hit_count'', PInt 0), (''promoted_at'', ts_of e)] st))"

definition apply_pevr_envelope :: "fold_lib \<Rightarrow> entry \<Rightarrow> proj_state \<Rightarrow> exc + proj_state" where
  "apply_pevr_envelope F e st =
     (if is_agent_query_payload (e_payload e) then agent_query_phase F e st
      else if is_credential_payload (e_payload e) then credential_phase F e st
      else if is_query_template_promoted_payload (e_payload e) then template_promoted F e st
      else Inr st)"

subsection \<open>The fold\<close>

definition apply_entry :: "fold_lib \<Rightarrow> entry \<Rightarrow> proj_state \<Rightarrow> exc + proj_state" where
  "apply_entry F e st =
     rbind (if e_kind e \<in> {''propose'', ''execute'', ''verify'', ''resolve''} then apply_pevr_envelope F e st else Inr st) (\<lambda>st1.
       if e_kind e = ''execute'' then apply_execute F e st1
       else if e_kind e \<in> {''chat_received'', ''chat_sent''} then Inr (st1\<lparr>pj_chat := Suc (pj_chat st1)\<rparr>)
       else if e_kind e \<in> {''chat_reply_proposed'', ''chat_reply_executed'', ''chat_reply_verified'', ''chat_reply_resolved''}
       then Inr st1
       else if e_kind e = ''resolve'' then Inr (st1\<lparr>pj_resolve := Suc (pj_resolve st1)\<rparr>)
       else Inr st1)"

fun fold_entries :: "fold_lib \<Rightarrow> entry list \<Rightarrow> proj_state \<Rightarrow> exc + proj_state" where
  "fold_entries F [] st = Inr st"
| "fold_entries F (e # es) st = rbind (apply_entry F e st) (fold_entries F es)"

subsection \<open>Ordered projections\<close>

text \<open>
  \<open>a < b\<close>, or \<open>None\<close> where Python cannot compare the two; \<open>sorted\<close> of distinct keys raises
  exactly when two of them cannot be compared. Numbers compare as numbers, texts by code points,
  tuples and lists by their first difference.
\<close>

fun py_less :: "pyval \<Rightarrow> pyval \<Rightarrow> bool option"
  and py_less_seq :: "pyval list \<Rightarrow> pyval list \<Rightarrow> bool option" where
  "py_less (PStr s) w = (case w of PStr t \<Rightarrow> Some (s < t) | _ \<Rightarrow> None)"
| "py_less (PBytes s) w = (case w of PBytes t \<Rightarrow> Some (s < t) | _ \<Rightarrow> None)"
| "py_less (PUuid s) w = (case w of PUuid t \<Rightarrow> Some (s < t) | _ \<Rightarrow> None)"
| "py_less (PTime s) w = (case (s, w) of
      (Aware a, PTime (Aware b)) \<Rightarrow> Some (a < b) | (Naive a, PTime (Naive b)) \<Rightarrow> Some (a < b) | _ \<Rightarrow> None)"
| "py_less (PList xs) w = (case w of PList ys \<Rightarrow> py_less_seq xs ys | _ \<Rightarrow> None)"
| "py_less (PTuple xs) w = (case w of PTuple ys \<Rightarrow> py_less_seq xs ys | _ \<Rightarrow> None)"
| "py_less (PBool b) w = map_option (\<lambda>r. of_bool b < r) (py_num w)"
| "py_less (PInt i) w = map_option (\<lambda>r. of_int i < r) (py_num w)"
| "py_less (PFloat q) w = map_option (\<lambda>r. q < r) (py_num w)"
| "py_less v w = None"
| "py_less_seq [] ys = Some (ys \<noteq> [])"
| "py_less_seq (x # xs) ys =
     (case ys of [] \<Rightarrow> Some False | y # zs \<Rightarrow> if py_eq x y then py_less_seq xs zs else py_less x y)"

fun insert_key :: "pyval \<times> pydict \<Rightarrow> table \<Rightarrow> table" where
  "insert_key p [] = [p]"
| "insert_key p (q # t) = (if py_less (fst q) (fst p) = Some True then q # insert_key p t else p # q # t)"

definition sort_natural :: "table \<Rightarrow> exc + table" where
  "sort_natural t =
     (if sorted_wrt (\<lambda>p q. py_less (fst p) (fst q) \<noteq> None) t then Inr (foldr insert_key t []) else Inl TypeError)"

definition sort_by_text :: "env \<Rightarrow> table \<Rightarrow> table" where
  "sort_by_text E t = sort_key (\<lambda>p. py_str E (fst p)) t"

text \<open>The fields of \<open>Projections\<close> that are tables: those sorted as they are, those sorted by \<open>str\<close>.\<close>

definition NATURAL_TABLES :: "string list" where
  "NATURAL_TABLES =
     [''sources'', ''kpi_nodes'', ''persons'', ''person_identities'', ''installs'', ''notebooks'', ''data_products'',
      ''lineage_edges'', ''quality_checks'', ''schema_impacts'', ''semantic_types'', ''column_classifications'',
      ''entity_stitches'', ''source_candidates'', ''catalog_drifts'', ''catalog_tables'']"

definition TEXT_TABLES :: "string list" where
  "TEXT_TABLES =
     [''roles'', ''data_product_runs'', ''data_product_consumption'', ''notebook_runs'', ''setup_progress'', ''mcp_calls'',
      ''topics'', ''external_catalog'', ''external_lineage'', ''external_policy'', ''external_metric'', ''agents'',
      ''agent_grants'', ''agent_queries'', ''credentials'', ''query_outcomes'', ''query_templates'']"

definition public_row :: "string \<Rightarrow> pydict \<Rightarrow> pydict" where
  "public_row n row = (if n = ''notebooks'' then filter (\<lambda>p. fst p \<noteq> ''_cells'') row else row)"

definition RAMP_AXES :: "string list" where
  "RAMP_AXES = [''ontology'', ''schema'', ''business_definitions'', ''kpi_relational'', ''conversational'', ''operational'']"

definition ramp_value :: "proj_state \<Rightarrow> string \<Rightarrow> nat" where
  "ramp_value st ax =
     (let src_count = length (pj_tables st ''sources'');
          profiled = length (filter (\<lambda>p. dget (snd p) ''status'' = PStr ''profiled'') (pj_tables st ''sources''));
          mem_count = length (pj_memory st)
      in min 100 (if ax = ''ontology'' then mem_count * 5
         else if ax = ''schema'' then profiled * 20
         else if ax = ''business_definitions'' then mem_count * 10
         else if ax = ''kpi_relational'' then src_count * 15
         else if ax = ''conversational'' then pj_chat st * 2
         else pj_resolve st * 5))"

definition recompute_ramp :: "proj_state \<Rightarrow> pydict list" where
  "recompute_ramp st = map (\<lambda>ax. [(''axis'', PStr ax), (''value'', PStr (dec_nat (ramp_value st ax)))]) RAMP_AXES"

type_synonym projections = "string \<Rightarrow> pydict list"

definition sorted_memory :: "env \<Rightarrow> pydict list \<Rightarrow> pydict list" where
  "sorted_memory E ms = sort_key (\<lambda>m. py_str E (dget m ''memory_id'')) ms"

fun natural_rows :: "proj_state \<Rightarrow> string list \<Rightarrow> exc + (string \<times> pydict list) list" where
  "natural_rows st [] = Inr []"
| "natural_rows st (n # ns) =
     rbind (sort_natural (pj_tables st n)) (\<lambda>t. rbind (natural_rows st ns) (\<lambda>rs.
       Inr ((n, map (\<lambda>p. public_row n (snd p)) t) # rs)))"

definition state_to_projections :: "env \<Rightarrow> proj_state \<Rightarrow> exc + projections" where
  "state_to_projections E st =
     rbind (natural_rows st NATURAL_TABLES) (\<lambda>nat_rows.
       Inr (\<lambda>n. case map_of nat_rows n of
           Some rows \<Rightarrow> rows
         | None \<Rightarrow>
             if n = ''memory'' then sorted_memory E (pj_memory st)
             else if n = ''ramp'' then recompute_ramp st
             else if n \<in> set TEXT_TABLES then map snd (sort_by_text E (pj_tables st n))
             else []))"

definition project_rows :: "fold_lib \<Rightarrow> entry list \<Rightarrow> exc + projections" where
  "project_rows F rows = rbind (fold_entries F rows initial_projection_state) (state_to_projections (fl_env F))"

definition build_projections :: "fold_lib \<Rightarrow> 'db backend \<Rightarrow> 'db session \<Rightarrow> uuid \<Rightarrow> int option \<Rightarrow> exc + projections" where
  "build_projections F B s c until = project_rows F (fetch_entries B s c until)"

text \<open>\<open>grants_for\<close>: the grants of a person that no row has revoked, by facet, role and scope.\<close>

definition grants_for :: "env \<Rightarrow> projections \<Rightarrow> uuid \<Rightarrow> pydict list" where
  "grants_for E p person =
     (let scope = (\<lambda>g. if dget g ''scope_id'' = PNone then [] else py_str E (dget g ''scope_id''));
          mine = filter (\<lambda>g. dget g ''person_id'' = PUuid person \<and> dget g ''revoked_at'' = PNone) (p ''roles'')
      in sort_key (\<lambda>g. [py_str E (dget g ''facet''), py_str E (dget g ''role''), scope g]) mine)"

subsection \<open>Snapshots\<close>

record replay_snapshot =
  sn_projections :: projections
  sn_hash :: bytes

definition snapshot_body :: "projections \<Rightarrow> pydict" where
  "snapshot_body p = map (\<lambda>n. (n, PList (map PDict (p n)))) [''sources'', ''memory'', ''kpi_nodes'', ''ramp'']"

definition snapshot_hash :: "env \<Rightarrow> projections \<Rightarrow> exc + bytes" where
  "snapshot_hash E p = rbind (canonical_json E (snapshot_body p)) (\<lambda>t. Inr (sha256 E t))"

definition replay :: "fold_lib \<Rightarrow> 'db backend \<Rightarrow> 'db session \<Rightarrow> uuid \<Rightarrow> int \<Rightarrow> exc + replay_snapshot" where
  "replay F B s c until =
     rbind (build_projections F B s c (Some until)) (\<lambda>p.
     rbind (snapshot_hash (fl_env F) p) (\<lambda>h. Inr \<lparr>sn_projections = p, sn_hash = h\<rparr>))"

text \<open>\<open>InMemoryLedger.replay\<close>, which has its own loop over the rows.\<close>

fun mem_replay_loop :: "fold_lib \<Rightarrow> entry list \<Rightarrow> proj_state \<Rightarrow> exc + proj_state" where
  "mem_replay_loop F [] st = Inr st"
| "mem_replay_loop F (e # es) st =
     rbind (if e_kind e \<in> {''propose'', ''execute'', ''verify'', ''resolve''} then apply_pevr_envelope F e st else Inr st) (\<lambda>st1.
     rbind (if e_kind e = ''execute'' then apply_execute F e st1
       else Inr (if e_kind e \<in> {''chat_received'', ''chat_sent''} then st1\<lparr>pj_chat := Suc (pj_chat st1)\<rparr>
         else if e_kind e \<in> {''chat_reply_proposed'', ''chat_reply_executed'', ''chat_reply_verified'', ''chat_reply_resolved''}
         then st1
         else if e_kind e = ''resolve'' then st1\<lparr>pj_resolve := Suc (pj_resolve st1)\<rparr>
         else st1)) (mem_replay_loop F es))"

definition mem_replay :: "fold_lib \<Rightarrow> mem \<Rightarrow> uuid \<Rightarrow> int \<Rightarrow> exc + replay_snapshot" where
  "mem_replay F m c until =
     rbind (mem_replay_loop F (mem_fetch m c (Some until)) initial_projection_state) (\<lambda>st.
     rbind (state_to_projections (fl_env F) st) (\<lambda>p.
     rbind (canonical_json (fl_env F) [(''sources'', PList (map PDict (p ''sources''))),
         (''memory'', PList (map PDict (p ''memory''))), (''kpi_nodes'', PList (map PDict (p ''kpi_nodes''))),
         (''ramp'', PList (map PDict (p ''ramp'')))]) (\<lambda>t.
     Inr \<lparr>sn_projections = p, sn_hash = sha256 (fl_env F) t\<rparr>)))"

end
