(* ===== verification/Projection_Frames.thy ===== *)
theory Projection_Frames
  imports Projection_Build
begin

section \<open>What a handler writes\<close>

text \<open>
  Each handler changes at most the tables listed for its tool, and the rows of a table change only
  by the entries whose tools list it. The frame of a handler is derived from the frames of the
  operations it is made of.
\<close>

named_theorems frame_intros \<open>Tables an operation of the fold may change\<close>

definition touches :: "string set \<Rightarrow> (proj_state \<Rightarrow> exc + proj_state) \<Rightarrow> bool" where
  "touches T m = (\<forall>st st'. m st = Inr st' \<longrightarrow>
     (\<forall>n. n \<notin> T \<longrightarrow> pj_tables st' n = pj_tables st n) \<and> pj_chat st' = pj_chat st \<and> pj_resolve st' = pj_resolve st \<and>
     (''memory'' \<notin> T \<longrightarrow> pj_memory st' = pj_memory st))"

lemma touchesD:
  "touches T m \<Longrightarrow> m st = Inr st' \<Longrightarrow> n \<notin> T \<Longrightarrow> pj_tables st' n = pj_tables st n"
  "touches T m \<Longrightarrow> m st = Inr st' \<Longrightarrow> pj_chat st' = pj_chat st"
  "touches T m \<Longrightarrow> m st = Inr st' \<Longrightarrow> pj_resolve st' = pj_resolve st"
  "touches T m \<Longrightarrow> m st = Inr st' \<Longrightarrow> ''memory'' \<notin> T \<Longrightarrow> pj_memory st' = pj_memory st"
  unfolding touches_def by blast+

lemma touches_mono: "touches T m \<Longrightarrow> T \<subseteq> T' \<Longrightarrow> touches T' m"
  unfolding touches_def by blast

lemma touches_skip [frame_intros]: "touches T Inr" "touches T (\<lambda>st. Inr st)" "touches T (\<lambda>st. Inl x)"
  by (simp_all add: touches_def)

lemma touches_set_table [frame_intros]:
  "n \<in> T \<Longrightarrow> touches T (\<lambda>st. Inr (set_table n f st))"
  "n \<in> T \<Longrightarrow> touches T (set_row n k r)"
  by (auto simp: touches_def set_table_def set_row_def)

lemma touches_seq [frame_intros]: "touches T m \<Longrightarrow> touches T g \<Longrightarrow> touches T (\<lambda>st. rbind (m st) g)"
  unfolding touches_def by (fastforce simp: rbind_Inr_iff)

lemma touches_bind [frame_intros]: "(\<And>v. touches T (\<lambda>st. g v st)) \<Longrightarrow> touches T (\<lambda>st. rbind (m st) (\<lambda>v. g v st))"
  unfolding touches_def rbind_Inr_iff by blast

lemma touches_if [frame_intros]:
  "touches T (\<lambda>st. f st) \<Longrightarrow> touches T (\<lambda>st. g st) \<Longrightarrow> touches T (\<lambda>st. if b st then f st else g st)"
  by (simp add: touches_def)

lemma touches_option [frame_intros]:
  "touches T (\<lambda>st. f st) \<Longrightarrow> (\<And>x. touches T (\<lambda>st. g x st)) \<Longrightarrow>
     touches T (\<lambda>st. case r st of None \<Rightarrow> f st | Some x \<Rightarrow> g x st)"
  by (auto simp: touches_def split: option.splits)

lemma touches_dict [frame_intros]:
  "(\<And>d. touches T (\<lambda>st. g d st)) \<Longrightarrow> touches T (\<lambda>st. case a of PDict d \<Rightarrow> g d st | _ \<Rightarrow> Inl x)"
  by (cases a) (simp_all add: touches_skip)

lemma touches_update_row [frame_intros]: "n \<in> T \<Longrightarrow> touches T (update_row n k f)"
  unfolding update_row_def [abs_def] by (intro frame_intros)

lemma touches_set_default [frame_intros]: "n \<in> T \<Longrightarrow> touches T (set_default n k r)"
  unfolding set_default_def [abs_def] by (intro frame_intros)

lemma touches_memory [frame_intros]: "''memory'' \<in> T \<Longrightarrow> touches T (\<lambda>st. Inr (st\<lparr>pj_memory := f st\<rparr>))"
  "touches T (\<lambda>st. Inr (st\<lparr>pj_chain := g st\<rparr>))"
  by (simp_all add: touches_def)

subsection \<open>The tables of a tool\<close>

definition TOOL_TABLES :: "(string \<times> string list) list" where
  "TOOL_TABLES =
     [(''emit_source_proposed'', [''sources'']), (''emit_source_confirmed'', [''sources'']),
      (''emit_source_connected'', [''sources'']), (''emit_source_profiled'', [''sources'']),
      (''emit_memory_written'', [''memory'']), (''emit_kpi_node'', [''kpi_nodes'']),
      (''emit_person_proposed'', [''persons'', ''person_identities'']), (''emit_person_confirmed'', [''persons'']),
      (''emit_person_archived'', [''persons'']), (''emit_identity_linked'', [''person_identities'']),
      (''emit_identity_unlinked'', [''person_identities'']), (''emit_install_completed'', [''installs'']),
      (''emit_install_revoked'', [''installs'']), (''emit_role_assigned'', [''roles'']),
      (''emit_role_revoked'', [''roles'']), (''emit_domain_role_assigned'', [''roles'']),
      (''emit_resource_role_assigned'', [''roles'']), (''emit_position_proposed'', [''persons'']),
      (''emit_position_confirmed'', []), (''emit_position_rejected'', [''persons'']),
      (''emit_resource_role_proposed'', [''roles'']), (''emit_data_product_proposed'', [''data_products'']),
      (''emit_data_product_generated'', [''data_product_runs'', ''data_products'']),
      (''emit_data_product_consumed'', [''data_product_consumption'']),
      (''emit_data_product_archived'', [''data_products'']), (''emit_notebook_proposed'', [''notebooks'']),
      (''emit_notebook_run'', [''notebook_runs'', ''notebooks'']), (''emit_notebook_published'', [''notebooks'']),
      (''emit_notebook_archived'', [''notebooks'']), (''emit_setup_mode_chosen'', [''installs'']),
      (''emit_setup_completed'', [''installs'']), (''emit_mcp_call_received'', [''mcp_calls'']),
      (''emit_setup_step_advanced'', [''setup_progress'']), (''emit_external_catalog_imported'', [''external_catalog'']),
      (''emit_external_lineage_imported'', [''external_lineage'']),
      (''emit_external_policy_imported'', [''external_policy'']),
      (''emit_external_metric_imported'', [''external_metric'']), (''emit_agent_registered'', [''agents'']),
      (''emit_agent_grant'', [''agent_grants'']), (''emit_query_outcome_recorded'', [''query_outcomes'']),
      (''emit_topic_proposed'', [''topics'']),
      (''emit_lineage_edge_proposed'', [''lineage_edges'']), (''emit_lineage_edge_confirmed'', [''lineage_edges'']),
      (''emit_lineage_edge_rejected'', [''lineage_edges'']),
      (''emit_quality_check_proposed'', [''quality_checks'']), (''emit_quality_check_confirmed'', [''quality_checks'']),
      (''emit_quality_check_rejected'', [''quality_checks'']),
      (''emit_schema_impact_proposed'', [''schema_impacts'']), (''emit_schema_impact_confirmed'', [''schema_impacts'']),
      (''emit_schema_impact_rejected'', [''schema_impacts'']),
      (''emit_semantic_type_proposed'', [''semantic_types'']), (''emit_semantic_type_confirmed'', [''semantic_types'']),
      (''emit_semantic_type_rejected'', [''semantic_types'']),
      (''emit_column_classification_proposed'', [''column_classifications'']),
      (''emit_column_classification_confirmed'', [''column_classifications'']),
      (''emit_column_classification_rejected'', [''column_classifications'']),
      (''emit_entity_stitch_proposed'', [''entity_stitches'']), (''emit_entity_stitch_confirmed'', [''entity_stitches'']),
      (''emit_entity_stitch_rejected'', [''entity_stitches'']),
      (''emit_source_candidate_proposed'', [''source_candidates'']),
      (''emit_source_candidate_promoted'', [''source_candidates'']),
      (''emit_source_candidate_rejected'', [''source_candidates'']),
      (''emit_catalog_drift_proposed'', [''catalog_drifts'']),
      (''emit_catalog_drift_acknowledged'', [''catalog_drifts'']),
      (''emit_catalog_drift_rejected'', [''catalog_drifts'']),
      (''emit_catalog_table_imported'', [''catalog_tables''])]"

lemma frame_sources:
  "touches {''sources''} (source_proposed F e a)" "touches {''sources''} (source_confirmed F e a)"
  "touches {''sources''} (source_connected F e a)" "touches {''sources''} (source_profiled F e a)"
  "touches {''memory''} (memory_written F e a)" "touches {''kpi_nodes''} (kpi_node F e a)"
  unfolding source_proposed_def [abs_def] source_confirmed_def [abs_def] source_connected_def [abs_def]
    source_profiled_def [abs_def] memory_written_def [abs_def] kpi_node_def [abs_def]
  by (intro frame_intros insertI1)+

lemma frame_first_identity [frame_intros]: "''person_identities'' \<in> T \<Longrightarrow> touches T (first_identity F e a)"
  unfolding first_identity_def [abs_def] by (intro frame_intros)

lemma frame_persons:
  "touches {''persons'', ''person_identities''} (person_proposed F e a)" "touches {''persons''} (person_confirmed F e a)"
  "touches {''persons''} (person_archived F e a)" "touches {''person_identities''} (identity_linked F e a)"
  "touches {''person_identities''} (identity_unlinked F e a)" "touches {''persons''} (position_proposed F e a)"
  "touches {} (position_confirmed F e a)" "touches {''persons''} (position_rejected F e a)"
  unfolding person_proposed_def [abs_def] person_confirmed_def [abs_def] person_archived_def [abs_def]
    identity_linked_def [abs_def] identity_unlinked_def [abs_def] position_proposed_def [abs_def]
    position_confirmed_def [abs_def] position_rejected_def [abs_def] Let_def
  by (intro frame_intros insertI1 insertI2)+

lemma frame_installs:
  "touches {''installs''} (install_completed F e a)" "touches {''installs''} (install_revoked F e a)"
  "touches {''installs''} (setup_mode_chosen F e a)" "touches {''installs''} (setup_completed F e a)"
  "touches {''setup_progress''} (setup_step_advanced F e a)"
  unfolding install_completed_def [abs_def] install_revoked_def [abs_def] setup_mode_chosen_def [abs_def]
    setup_completed_def [abs_def] setup_step_advanced_def [abs_def] Let_def
  by (intro frame_intros insertI1)+

lemma frame_roles:
  "touches {''roles''} (role_assigned F e a)" "touches {''roles''} (role_revoked F e a)"
  "touches {''roles''} (domain_role_assigned F e a)" "touches {''roles''} (resource_role_assigned F e a)"
  "touches {''roles''} (resource_role_proposed F e a)"
  unfolding role_assigned_def [abs_def] role_revoked_def [abs_def] domain_role_assigned_def [abs_def]
    resource_role_assigned_def [abs_def] resource_role_proposed_def [abs_def]
  by (intro frame_intros insertI1)+

lemma frame_products:
  "touches {''data_products''} (data_product_proposed F e a)"
  "touches {''data_product_runs'', ''data_products''} (data_product_generated F e a)"
  "touches {''data_product_consumption''} (data_product_consumed F e a)"
  "touches {''data_products''} (data_product_archived F e a)"
  "touches {''notebooks''} (notebook_proposed F e a)" "touches {''notebook_runs'', ''notebooks''} (notebook_run F e a)"
  "touches {''notebooks''} (notebook_published F e a)" "touches {''notebooks''} (notebook_archived F e a)"
  unfolding data_product_proposed_def [abs_def] data_product_generated_def [abs_def] data_product_consumed_def [abs_def]
    data_product_archived_def [abs_def] notebook_proposed_def [abs_def] notebook_run_def [abs_def]
    notebook_published_def [abs_def] notebook_archived_def [abs_def]
  by (intro frame_intros insertI1 insertI2)+

lemma frame_edges [frame_intros]: "''external_lineage'' \<in> T \<Longrightarrow> touches T (import_edges F e sid xs)"
proof (induction xs)
  case Nil
  show ?case by (simp add: touches_def)
next
  case (Cons x xs)
  then have rest: "touches T (import_edges F e sid xs)" by blast
  show ?case
    unfolding import_edges.simps(2) [abs_def] Let_def
    by (cases "edge_ends x", use rest in simp)
      (simp add: split_def, intro touches_seq [OF touches_set_table(2) [OF Cons.prems] rest] touches_bind)
qed

lemma frame_catalogs:
  "touches {''mcp_calls''} (mcp_call_received F e a)" "touches {''external_catalog''} (external_catalog_imported F e a)"
  "touches {''external_lineage''} (external_lineage_imported F e a)"
  "touches {''external_policy''} (external_policy_imported F e a)"
  "touches {''external_metric''} (external_metric_imported F e a)"
  "touches {''catalog_tables''} (catalog_table_imported F e a)"
  unfolding mcp_call_received_def [abs_def] external_catalog_imported_def [abs_def] external_lineage_imported_def [abs_def]
    external_policy_imported_def [abs_def] external_metric_imported_def [abs_def] catalog_table_imported_def [abs_def] Let_def
  by (intro frame_intros insertI1)+

lemma frame_agents:
  "touches {''agents''} (agent_registered F e a)" "touches {''agent_grants''} (agent_grant_recorded F e a)"
  "touches {''query_outcomes''} (query_outcome_recorded F e a)" "touches {''topics''} (topic_proposed F e a)"
  unfolding agent_registered_def [abs_def] agent_grant_recorded_def [abs_def] query_outcome_recorded_def [abs_def]
    topic_proposed_def [abs_def] Let_def
  by (intro frame_intros insertI1)+

lemma frame_axis:
  "touches {ax_table ax} (axis_proposed ax F e a)" "touches {ax_table ax} (axis_decided ax verdict author extra F e a)"
  unfolding axis_proposed_def [abs_def] axis_decided_def [abs_def] Let_def
  by (intro frame_intros insertI1)+

lemma axis_tables [simp]:
  "ax_table lineage_edges = ''lineage_edges''" "ax_table quality_checks = ''quality_checks''"
  "ax_table schema_impacts = ''schema_impacts''" "ax_table semantic_types = ''semantic_types''"
  "ax_table column_classifications = ''column_classifications''" "ax_table entity_stitches = ''entity_stitches''"
  "ax_table source_candidates = ''source_candidates''" "ax_table catalog_drifts = ''catalog_drifts''"
  by (simp_all add: lineage_edges_def quality_checks_def schema_impacts_def semantic_types_def column_classifications_def
      entity_stitches_def source_candidates_def catalog_drifts_def)

lemma frame_axis_table:
  "ax_table ax = n \<Longrightarrow> touches {n} (axis_proposed ax F e a)"
  "ax_table ax = n \<Longrightarrow> touches {n} (axis_decided ax verdict author extra F e a)"
  using frame_axis by blast+

lemma handler_frames:
  "list_all2 (\<lambda>(t, h) (t', ns). t = t' \<and> (\<forall>F e a. touches (set ns) (h F e a))) EXECUTE_HANDLERS TOOL_TABLES"
  unfolding EXECUTE_HANDLERS_def TOOL_TABLES_def
  by (simp add: frame_sources frame_persons frame_installs frame_roles frame_products frame_catalogs frame_agents
      axis_handlers frame_axis_table)

lemma aligned_map_of:
  "list_all2 (\<lambda>(t, h) (t', ns). t = t' \<and> P ns h) hs ts \<Longrightarrow> map_of hs t = Some h \<Longrightarrow> \<exists>ns. map_of ts t = Some ns \<and> P ns h"
  by (induction rule: list_all2_induct) (auto split: if_splits)

subsection \<open>The frame of an entry\<close>

definition tool_tables :: "string \<Rightarrow> string list" where
  "tool_tables t = (case map_of TOOL_TABLES t of None \<Rightarrow> [] | Some ns \<Rightarrow> ns)"

lemma tool_tables_iff:
  assumes "list_all (\<lambda>(t, ns). n \<in> set ns \<longrightarrow> t \<in> set ts) TOOL_TABLES" and "list_all (\<lambda>t. n \<in> set (tool_tables t)) ts"
  shows "n \<in> set (tool_tables t) \<longleftrightarrow> t \<in> set ts"
proof
  assume "n \<in> set (tool_tables t)"
  then obtain ns where "(t, ns) \<in> set TOOL_TABLES" "n \<in> set ns"
    by (cases "map_of TOOL_TABLES t") (auto simp: tool_tables_def dest: map_of_SomeD)
  with assms(1) show "t \<in> set ts" by (auto simp: list_all_iff)
qed (use assms(2) in \<open>simp add: list_all_iff\<close>)

definition tables_of :: "entry \<Rightarrow> string list" where
  "tables_of e =
     (if e_kind e \<noteq> ''execute'' then []
      else case dget (e_payload e) ''tool'' of PStr t \<Rightarrow> tool_tables t | _ \<Rightarrow> [])"

definition ENVELOPE_TABLES :: "string list" where
  "ENVELOPE_TABLES = [''agent_queries'', ''credentials'', ''query_templates'']"

lemma frame_execute:
  assumes "e_kind e = ''execute''"
  shows "touches (set (tables_of e)) (apply_execute F e)"
proof (cases "dget (e_payload e) ''tool''")
  case (PStr t)
  show ?thesis
  proof (cases "map_of EXECUTE_HANDLERS t")
    case None
    with PStr show ?thesis by (simp add: touches_def apply_execute_def)
  next
    case (Some h)
    from aligned_map_of [OF handler_frames Some] obtain ns
      where ns: "map_of TOOL_TABLES t = Some ns" "\<And>F e a. touches (set ns) (h F e a)" by blast
    from ns(2) [of F e "dget_or (e_payload e) ''args'' (PDict [])"] show ?thesis
      by (simp add: touches_def apply_execute_def PStr Some tables_of_def tool_tables_def assms ns(1))
  qed
qed (simp_all add: touches_def apply_execute_def)

lemma frame_envelope: "touches (set ENVELOPE_TABLES) (apply_pevr_envelope F e)"
proof -
  have link: "touches T (\<lambda>st. m (link_entry e rid st))" if "touches T m" for T m rid
    using that by (simp add: touches_def link_entry_def)
  have update: "touches (set ENVELOPE_TABLES) (credential_update F e rid)" for rid
    unfolding credential_update_def [abs_def] Let_def by (intro frame_intros) (simp add: ENVELOPE_TABLES_def)
  have table: "''agent_queries'' \<in> set ENVELOPE_TABLES" "''credentials'' \<in> set ENVELOPE_TABLES"
    "''query_templates'' \<in> set ENVELOPE_TABLES" by (simp_all add: ENVELOPE_TABLES_def)
  have "touches (set ENVELOPE_TABLES) (agent_query_phase F e)" "touches (set ENVELOPE_TABLES) (template_promoted F e)"
    "touches (set ENVELOPE_TABLES) (credential_phase F e)"
    unfolding agent_query_phase_def [abs_def] template_promoted_def [abs_def] credential_phase_def [abs_def] Let_def
    by (intro frame_intros link update table touches_set_table(2) [OF table(2)])+
  then show ?thesis unfolding apply_pevr_envelope_def [abs_def] by (intro frame_intros)
qed

lemma frame_entry:
  assumes "apply_entry F e st = Inr st'" and "n \<notin> set ENVELOPE_TABLES"
  shows "n \<notin> set (tables_of e) \<Longrightarrow> pj_tables st' n = pj_tables st n"
    and "e_kind e = ''execute'' \<Longrightarrow> \<exists>st1. pj_tables st1 n = pj_tables st n \<and> apply_execute F e st1 = Inr st'"
    and "e_kind e \<notin> {''chat_received'', ''chat_sent''} \<Longrightarrow> pj_chat st' = pj_chat st"
    and "''memory'' \<notin> set (tables_of e) \<Longrightarrow> pj_memory st' = pj_memory st"
    and "e_kind e = ''execute'' \<Longrightarrow> \<exists>st1. pj_memory st1 = pj_memory st \<and> apply_execute F e st1 = Inr st'"
proof -
  let ?pre = "if e_kind e \<in> {''propose'', ''execute'', ''verify'', ''resolve''} then apply_pevr_envelope F e st else Inr st"
  from assms(1) obtain st1 where pre: "?pre = Inr st1"
    and post: "(if e_kind e = ''execute'' then apply_execute F e st1
       else if e_kind e \<in> {''chat_received'', ''chat_sent''} then Inr (st1\<lparr>pj_chat := Suc (pj_chat st1)\<rparr>)
       else if e_kind e \<in> {''chat_reply_proposed'', ''chat_reply_executed'', ''chat_reply_verified'', ''chat_reply_resolved''}
       then Inr st1
       else if e_kind e = ''resolve'' then Inr (st1\<lparr>pj_resolve := Suc (pj_resolve st1)\<rparr>)
       else Inr st1) = Inr st'" unfolding apply_entry_def rbind_Inr_iff by blast
  have no_memory: "''memory'' \<notin> set ENVELOPE_TABLES" by (simp add: ENVELOPE_TABLES_def)
  from pre have st1: "pj_tables st1 n = pj_tables st n" "pj_chat st1 = pj_chat st" "pj_memory st1 = pj_memory st"
    using touchesD [OF frame_envelope, of F e st st1] assms(2) no_memory by (auto split: if_splits)
  from post touchesD(1) [OF frame_execute, of e F st1 st' n] st1
  show "n \<notin> set (tables_of e) \<Longrightarrow> pj_tables st' n = pj_tables st n" by (auto split: if_splits)
  from post st1 show "e_kind e = ''execute'' \<Longrightarrow> \<exists>st1. pj_tables st1 n = pj_tables st n \<and> apply_execute F e st1 = Inr st'" by auto
  from post touchesD(2) [OF frame_execute, of e F st1 st'] st1
  show "e_kind e \<notin> {''chat_received'', ''chat_sent''} \<Longrightarrow> pj_chat st' = pj_chat st" by (auto split: if_splits)
  from post touchesD(4) [OF frame_execute, of e F st1 st'] st1
  show "''memory'' \<notin> set (tables_of e) \<Longrightarrow> pj_memory st' = pj_memory st" by (auto split: if_splits)
  from post st1 show "e_kind e = ''execute'' \<Longrightarrow> \<exists>st1. pj_memory st1 = pj_memory st \<and> apply_execute F e st1 = Inr st'" by auto
qed

subsection \<open>The projections of a fold\<close>

lemma natural_names: "natural_rows st ns = Inr rs \<Longrightarrow> map fst rs = ns"
  by (induction ns arbitrary: rs) (auto simp: rbind_Inr_iff)

lemma natural_rows_lookup:
  "natural_rows st ns = Inr rs \<Longrightarrow> n \<in> set ns \<Longrightarrow>
     \<exists>t. sort_natural (pj_tables st n) = Inr t \<and> map_of rs n = Some (map (\<lambda>p. public_row n (snd p)) t)"
  by (induction ns arbitrary: rs) (auto simp: rbind_Inr_iff)

lemma insert_key_set: "set (insert_key p t) = insert p (set t)"
  by (induction t) auto

lemma sort_natural_set: "sort_natural t = Inr t' \<Longrightarrow> set t' = set t"
proof -
  have "set (foldr insert_key t []) = set t" by (induction t) (simp_all add: insert_key_set)
  then show "sort_natural t = Inr t' \<Longrightarrow> set t' = set t" by (auto simp: sort_natural_def split: if_splits)
qed

lemma projections_natural:
  assumes "project_rows F rows = Inr p" and "n \<in> set NATURAL_TABLES"
  shows "\<exists>st. fold_entries F rows initial_projection_state = Inr st \<and>
    set (p n) = (\<lambda>q. public_row n (snd q)) ` set (pj_tables st n)"
proof -
  from assms(1) obtain st where st: "fold_entries F rows initial_projection_state = Inr st"
    and p: "state_to_projections (fl_env F) st = Inr p" by (auto simp: project_rows_def rbind_Inr_iff)
  from p obtain rs where rs: "natural_rows st NATURAL_TABLES = Inr rs"
    and p': "p n = (case map_of rs n of Some rows \<Rightarrow> rows | None \<Rightarrow> undefined)"
    using natural_rows_lookup [OF _ assms(2)] unfolding state_to_projections_def rbind_Inr_iff by fastforce
  from natural_rows_lookup [OF rs assms(2)] p' obtain t where "sort_natural (pj_tables st n) = Inr t"
    and "p n = map (\<lambda>q. public_row n (snd q)) t" by auto
  with st sort_natural_set show ?thesis by fastforce
qed

lemma projections_of:
  assumes "project_rows F rows = Inr p" and "n \<notin> set NATURAL_TABLES"
  shows "\<exists>st. fold_entries F rows initial_projection_state = Inr st \<and>
    p n = (if n = ''memory'' then sorted_memory (fl_env F) (pj_memory st)
      else if n = ''ramp'' then recompute_ramp st
      else if n \<in> set TEXT_TABLES then map snd (sort_by_text (fl_env F) (pj_tables st n)) else [])"
proof -
  from assms(1) obtain st where st: "fold_entries F rows initial_projection_state = Inr st"
    and p: "state_to_projections (fl_env F) st = Inr p" by (auto simp: project_rows_def rbind_Inr_iff)
  from p obtain rs where rs: "natural_rows st NATURAL_TABLES = Inr rs"
    and p': "p = (\<lambda>n. case map_of rs n of Some rows \<Rightarrow> rows
         | None \<Rightarrow> if n = ''memory'' then sorted_memory (fl_env F) (pj_memory st)
             else if n = ''ramp'' then recompute_ramp st
             else if n \<in> set TEXT_TABLES then map snd (sort_by_text (fl_env F) (pj_tables st n)) else [])"
    unfolding state_to_projections_def rbind_Inr_iff by blast
  have "n \<notin> fst ` set rs"
    using natural_names [OF rs] assms(2) by (simp flip: set_map)
  then have "map_of rs n = None" by (simp add: map_of_eq_None_iff)
  with st show ?thesis by (simp add: p' cong: if_cong)
qed

end
