(* ===== verification/Projection_Lifecycle.thy ===== *)
theory Projection_Lifecycle
  imports Projection_Frames
begin

section \<open>The lifecycle of the discovery axes\<close>

text \<open>
  What the eight axes promise of a row: it appears with its first proposal, and from then on its
  state is the last decision made about it, a proposal never taking a decision back. The contract
  of an axis is the locale \<open>discovery_axis\<close>; each of the eight is an interpretation of it.
\<close>

subsection \<open>Keys and rows\<close>

text \<open>A key Python finds equal to no other value.\<close>

definition rigid :: "pyval \<Rightarrow> bool" where
  "rigid k = (\<forall>v. py_eq v k \<longleftrightarrow> v = k)"

lemma rigid_leaf [simp, intro]: "rigid (PStr s)" "rigid (PUuid u)"
proof -
  have "py_eq v (PUuid u) \<longleftrightarrow> v = PUuid u" for v by (cases v) auto
  then show "rigid (PStr s)" "rigid (PUuid u)" by (simp_all add: rigid_def)
qed

lemma py_eqs_rigid: "\<forall>k\<in>set ks. rigid k \<Longrightarrow> py_eqs vs ks \<longleftrightarrow> vs = ks"
  by (induction vs arbitrary: ks) (auto simp: rigid_def split: list.splits)

lemma rigid_tuple [intro]: "\<forall>k\<in>set ks. rigid k \<Longrightarrow> rigid (PTuple ks)"
  unfolding rigid_def [of "PTuple ks"]
proof
  fix v
  assume "\<forall>k\<in>set ks. rigid k"
  note eqs = py_eqs_rigid [OF this]
  show "py_eq v (PTuple ks) \<longleftrightarrow> v = PTuple ks"
    by (cases v) (simp_all add: eqs)
qed

lemma find_put_row: "rigid k \<Longrightarrow> rigid k' \<Longrightarrow> find_row k (put_row k' r t) = (if k = k' then Some r else find_row k t)"
proof -
  assume "rigid k" "rigid k'"
  then have eq: "py_eq v k \<longleftrightarrow> v = k" "py_eq v k' \<longleftrightarrow> v = k'" for v unfolding rigid_def by blast+
  show ?thesis by (induction t) (auto simp: eq)
qed

lemma dget_merge_other: "k \<notin> fst ` set e \<Longrightarrow> dget (dict_merge d e) k = dget d k"
proof -
  assume "k \<notin> fst ` set e"
  then have "map_of (rev e) k = None" by (simp add: map_of_eq_None_iff)
  then show ?thesis by (simp add: dget_def map_of_dict_merge)
qed

lemma dget_merge_first: "k \<notin> fst ` set e \<Longrightarrow> dget (dict_merge d ((k, v) # e)) k = v"
proof -
  assume "k \<notin> fst ` set e"
  then have "map_of (rev e) k = None" by (simp add: map_of_eq_None_iff)
  then show ?thesis by (simp add: dget_def map_of_dict_merge map_add_def)
qed

lemma dget_append_other: "k \<notin> fst ` set d \<Longrightarrow> dget (d @ e) k = dget e k"
  by (induction d) auto

subsection \<open>The contract of an axis\<close>

fun axis_next :: "string option \<Rightarrow> string option \<Rightarrow> string option" where
  "axis_next s None = s"
| "axis_next None (Some x) = (if x = ''proposed'' then Some x else None)"
| "axis_next (Some s) (Some x) = (if x = ''proposed'' then Some s else Some x)"

text \<open>What an entry asks of the row \<open>k\<close> of company \<open>c\<close>, and the state the fold has for it.\<close>

definition axis_event :: "fold_lib \<Rightarrow> axis \<Rightarrow> string \<Rightarrow> string \<Rightarrow> uuid \<Rightarrow> string \<Rightarrow> entry \<Rightarrow> string option" where
  "axis_event F ax tool verdict c k e =
     (if e_kind e = ''execute'' \<and> e_company e = c
      then (case (dget (e_payload e) ''tool'', dget_or (e_payload e) ''args'' (PDict [])) of
          (PStr t, PDict d) \<Rightarrow>
            if k = [] \<or> str_arg F d (ax_id ax) \<noteq> k then None
            else if t = tool @ ''_proposed'' then Some ''proposed''
            else if t = tool @ ''_'' @ verdict then Some verdict
            else if t = tool @ ''_rejected'' then Some ''rejected''
            else None
        | _ \<Rightarrow> None)
      else None)"

definition axis_state :: "proj_state \<Rightarrow> axis \<Rightarrow> uuid \<Rightarrow> string \<Rightarrow> pyval option" where
  "axis_state st ax c k =
     map_option (\<lambda>row. dget row ''state'') (find_row (PTuple [PStr c, PStr k]) (pj_tables st (ax_table ax)))"

lemma axis_state_cong: "pj_tables st (ax_table ax) = pj_tables st' (ax_table ax) \<Longrightarrow> axis_state st ax c k = axis_state st' ax c k"
  by (simp add: axis_state_def)

locale discovery_axis =
  fixes ax :: axis and tool verdict author author' :: string and extra :: "fold_lib \<Rightarrow> pydict \<Rightarrow> pydict"
  assumes proposed: "map_of EXECUTE_HANDLERS (tool @ ''_proposed'') = Some (axis_proposed ax)"
    and accepted: "map_of EXECUTE_HANDLERS (tool @ ''_'' @ verdict) = Some (axis_decided ax verdict author extra)"
    and rejected: "map_of EXECUTE_HANDLERS (tool @ ''_rejected'') = Some (axis_decided ax ''rejected'' author' no_extra)"
    and verdicts: "verdict \<noteq> ''proposed''" "verdict \<noteq> ''rejected''"
    and own_table: "ax_table ax \<notin> set ENVELOPE_TABLES"
    and own_tools: "ax_table ax \<in> set (tool_tables t) \<longleftrightarrow>
      t \<in> set [tool @ ''_proposed'', tool @ ''_'' @ verdict, tool @ ''_rejected'']"
    and no_state: "''state'' \<notin> fst ` set (ax_new ax F d conf)" "''state'' \<notin> fst ` set (ax_again ax F d conf)"
      "''state'' \<notin> fst ` set (extra F d)" "ax_id ax \<noteq> ''state''"
begin

lemma axis_state_set:
  assumes "set_row (ax_table ax) (PTuple [PStr c', PStr k']) row st = Inr st'"
  shows "axis_state st' ax c k = (if c = c' \<and> k = k' then Some (dget row ''state'') else axis_state st ax c k)"
  using assms
  by (auto simp: axis_state_def set_row_def set_table_def find_put_row rigid_tuple split: if_splits)

lemma new_state:
  "dget ((''company_id'', x) # (ax_id ax, y) # ax_new ax F d conf @ [(''state'', v), (''state_changed_at'', z), (''state_changed_by'', w)]) ''state'' = v"
  using no_state(4) by (simp add: dget_append_other [OF no_state(1)])

lemma again_state:
  "dget (let row' = dict_merge row (ax_again ax F d conf)
     in if dget row' ''state'' = PStr ''proposed'' then dict_merge row' [(''state_changed_at'', x)] else row') ''state'' = dget row ''state''"
  by (simp add: Let_def dget_merge_other [OF no_state(2)]) (simp add: dget_merge_other no_state(2))

lemma proposed_step:
  assumes "axis_proposed ax F e (PDict d) st = Inr st'" and "axis_state st ax c k = map_option PStr s"
  shows "axis_state st' ax c k =
    map_option PStr (axis_next s (if e_company e = c \<and> k \<noteq> [] \<and> str_arg F d (ax_id ax) = k then Some ''proposed'' else None))"
proof (cases "str_arg F d (ax_id ax) = []")
  case True
  with assms show ?thesis by (auto simp: axis_proposed_def Let_def)
next
  case False
  define i where "i = str_arg F d (ax_id ax)"
  have i: "str_arg F d (ax_id ax) = i" by (simp add: i_def)
  from False assms(1) obtain conf where
    put: "set_row (ax_table ax) (axis_key e i) (case find_row (axis_key e i) (pj_tables st (ax_table ax)) of
        None \<Rightarrow> (''company_id'', PStr (e_company e)) # (ax_id ax, PStr i) # ax_new ax F d conf @
          [(''state'', PStr ''proposed''), (''state_changed_at'', ts_of e), (''state_changed_by'', PNone)]
      | Some row \<Rightarrow> (let row' = dict_merge row (ax_again ax F d conf)
           in if dget row' ''state'' = PStr ''proposed'' then dict_merge row' [(''state_changed_at'', ts_of e)] else row')) st = Inr st'"
    unfolding axis_proposed_def i by (auto simp: i get_row_def rbind_Inr_iff Let_def split: if_splits)
  show ?thesis
  proof (cases "c = e_company e \<and> k = i")
    case True
    with assms(2) have s: "map_option (\<lambda>row. dget row ''state'') (find_row (axis_key e i) (pj_tables st (ax_table ax))) = map_option PStr s"
      by (simp add: axis_state_def axis_key_def)
    from True False have hit: "e_company e = c \<and> k \<noteq> [] \<and> str_arg F d (ax_id ax) = k" by (simp add: i_def)
    note now = axis_state_set [OF put [unfolded axis_key_def], of c k, folded axis_key_def, unfolded if_P [OF True]]
    show ?thesis
    proof (cases "find_row (axis_key e i) (pj_tables st (ax_table ax))")
      case None
      with s have "s = None" by simp
      with None now show ?thesis unfolding if_P [OF hit] by (simp only: new_state option.case axis_next.simps) simp
    next
      case (Some row)
      with s obtain x where "s = Some x" "dget row ''state'' = PStr x" by (cases s) auto
      with Some now show ?thesis unfolding if_P [OF hit] by (simp add: again_state)
    qed
  next
    case other: False
    with axis_state_set [OF put [unfolded axis_key_def], of c k] assms(2) show ?thesis by (auto simp: i_def)
  qed
qed

lemma decided_step:
  assumes "axis_decided ax v by_key extra' F e (PDict d) st = Inr st'" and "axis_state st ax c k = map_option PStr s"
    and "v \<noteq> ''proposed''" and "''state'' \<notin> fst ` set (extra' F d)"
  shows "axis_state st' ax c k =
    map_option PStr (axis_next s (if e_company e = c \<and> k \<noteq> [] \<and> str_arg F d (ax_id ax) = k then Some v else None))"
proof -
  define i where "i = str_arg F d (ax_id ax)"
  show ?thesis
  proof (cases "find_row (axis_key e i) (pj_tables st (ax_table ax))")
    case None
    with assms(1) have "st' = st" by (auto simp: axis_decided_def Let_def get_row_def i_def split: if_splits)
    moreover have "s = None" if "c = e_company e" "k = i"
      using assms(2) None that by (simp add: axis_state_def axis_key_def)
    ultimately show ?thesis using assms(2,3) by (auto simp: i_def)
  next
    case (Some row)
    show ?thesis
    proof (cases "i = []")
      case True
      with assms(1,2) show ?thesis by (auto simp: axis_decided_def i_def)
    next
      case False
      with assms(1) Some have put: "set_row (ax_table ax) (PTuple [PStr (e_company e), PStr i]) (dict_merge row
          ([(''state'', PStr v), (''state_changed_at'', ts_of e), (''state_changed_by'', PStr (str_arg F d by_key))] @ extra' F d)) st = Inr st'"
        by (auto simp: axis_decided_def Let_def get_row_def i_def axis_key_def split: if_splits)
      from Some assms(2) have "s \<noteq> None" if "c = e_company e" "k = i"
        using that by (cases s) (auto simp: axis_state_def axis_key_def)
      with axis_state_set [OF put, of c k] assms(2-4) False show ?thesis
        by (auto simp: i_def dget_merge_first)
    qed
  qed
qed

lemma entry_step:
  assumes run: "apply_entry F e st = Inr st'" and s: "axis_state st ax c k = map_option PStr s"
  shows "axis_state st' ax c k = map_option PStr (axis_next s (axis_event F ax tool verdict c k e))"
proof (cases "ax_table ax \<in> set (tables_of e)")
  case False
  from frame_entry(1) [OF run own_table False] have "axis_state st' ax c k = axis_state st ax c k"
    by (rule axis_state_cong)
  moreover have "axis_event F ax tool verdict c k e = None"
    using False by (auto simp: tables_of_def own_tools axis_event_def split: pyval.splits)
  ultimately show ?thesis using s by simp
next
  case True
  then have "e_kind e = ''execute''" by (simp add: tables_of_def split: if_splits)
  with True obtain t where t: "e_kind e = ''execute''" "dget (e_payload e) ''tool'' = PStr t"
    "t \<in> set [tool @ ''_proposed'', tool @ ''_'' @ verdict, tool @ ''_rejected'']"
    by (cases "dget (e_payload e) ''tool''") (simp_all add: tables_of_def own_tools)
  from frame_entry(2) [OF run own_table t(1)] obtain st1
    where st1: "pj_tables st1 (ax_table ax) = pj_tables st (ax_table ax)" "apply_execute F e st1 = Inr st'" by blast
  have s1: "axis_state st1 ax c k = map_option PStr s" using axis_state_cong [OF st1(1)] s by simp
  have distinct: "tool @ ''_proposed'' \<noteq> tool @ ''_'' @ verdict" "tool @ ''_rejected'' \<noteq> tool @ ''_'' @ verdict"
    "tool @ ''_proposed'' \<noteq> tool @ ''_rejected''" using verdicts by auto
  let ?a = "dget_or (e_payload e) ''args'' (PDict [])"
  show ?thesis
  proof (cases "\<exists>d. ?a = PDict d")
    case True
    then obtain d where d: "?a = PDict d" by blast
    from t(3) consider "t = tool @ ''_proposed''" | "t = tool @ ''_'' @ verdict" | "t = tool @ ''_rejected''" by auto
    then show ?thesis
    proof cases
      case 1
      with st1(2) t(2) d have "axis_proposed ax F e (PDict d) st1 = Inr st'" by (simp add: apply_execute_def proposed)
      from proposed_step [OF this s1] show ?thesis by (simp add: axis_event_def t d 1)
    next
      case 2
      from st1(2) have "axis_decided ax verdict author extra F e (PDict d) st1 = Inr st'"
        unfolding apply_execute_def t(2) pyval.case 2 accepted d by simp
      from decided_step [OF this s1 verdicts(1) no_state(3)] show ?thesis using distinct by (simp add: axis_event_def t d 2)
    next
      case 3
      with st1(2) t(2) d have "axis_decided ax ''rejected'' author' no_extra F e (PDict d) st1 = Inr st'"
        by (simp add: apply_execute_def rejected)
      from decided_step [OF this s1] show ?thesis using distinct by (simp add: axis_event_def t d 3 no_extra_def)
    qed
  next
    case False
    with st1(2) t(2,3) have False
      by (cases ?a) (auto simp: apply_execute_def proposed accepted [simplified] rejected axis_proposed_def axis_decided_def)
    then show ?thesis ..
  qed
qed

lemma fold_state:
  assumes "fold_entries F es st = Inr st'" and "axis_state st ax c k = map_option PStr s"
  shows "axis_state st' ax c k = map_option PStr (foldl axis_next s (map (axis_event F ax tool verdict c k) es))"
  using assms
proof (induction es arbitrary: st s)
  case (Cons e es)
  then obtain st1 where "apply_entry F e st = Inr st1" "fold_entries F es st1 = Inr st'" by (auto simp: rbind_Inr_iff)
  with Cons.IH [OF _ entry_step [OF _ Cons.prems(2)]] show ?case by simp
qed simp

lemma lifecycle:
  assumes "fold_entries F es initial_projection_state = Inr st"
  shows "axis_state st ax c k = map_option PStr (foldl axis_next None (map (axis_event F ax tool verdict c k) es))"
  by (rule fold_state [OF assms]) (simp add: axis_state_def initial_projection_state_def)

end

subsection \<open>The eight axes\<close>


lemmas axis_defs = lineage_edges_def quality_checks_def schema_impacts_def semantic_types_def column_classifications_def
  entity_stitches_def source_candidates_def catalog_drifts_def

lemmas axis_field_defs = str_fields_def inferred_def candidate_fields_def drift_fields_def no_extra_def

lemma downstream_no_state [simp]: "''state'' \<notin> fst ` set (downstream_source F d)"
  by (auto simp: downstream_source_def Let_def)

lemma map_of_hit: "map_of ((k, v) # xs) k = Some v"
  by simp

lemma map_of_skip: "k \<noteq> t \<Longrightarrow> map_of xs t = r \<Longrightarrow> map_of ((k, v) # xs) t = r"
  by simp

lemma axis_lookup:
  "map_of EXECUTE_HANDLERS ''emit_lineage_edge_proposed'' = Some lineage_edge_proposed"
  "map_of EXECUTE_HANDLERS ''emit_lineage_edge_confirmed'' = Some lineage_edge_confirmed"
  "map_of EXECUTE_HANDLERS ''emit_lineage_edge_rejected'' = Some lineage_edge_rejected"
  "map_of EXECUTE_HANDLERS ''emit_quality_check_proposed'' = Some quality_check_proposed"
  "map_of EXECUTE_HANDLERS ''emit_quality_check_confirmed'' = Some quality_check_confirmed"
  "map_of EXECUTE_HANDLERS ''emit_quality_check_rejected'' = Some quality_check_rejected"
  "map_of EXECUTE_HANDLERS ''emit_schema_impact_proposed'' = Some schema_impact_proposed"
  "map_of EXECUTE_HANDLERS ''emit_schema_impact_confirmed'' = Some schema_impact_confirmed"
  "map_of EXECUTE_HANDLERS ''emit_schema_impact_rejected'' = Some schema_impact_rejected"
  "map_of EXECUTE_HANDLERS ''emit_semantic_type_proposed'' = Some semantic_type_proposed"
  "map_of EXECUTE_HANDLERS ''emit_semantic_type_confirmed'' = Some semantic_type_confirmed"
  "map_of EXECUTE_HANDLERS ''emit_semantic_type_rejected'' = Some semantic_type_rejected"
  "map_of EXECUTE_HANDLERS ''emit_column_classification_proposed'' = Some column_classification_proposed"
  "map_of EXECUTE_HANDLERS ''emit_column_classification_confirmed'' = Some column_classification_confirmed"
  "map_of EXECUTE_HANDLERS ''emit_column_classification_rejected'' = Some column_classification_rejected"
  "map_of EXECUTE_HANDLERS ''emit_entity_stitch_proposed'' = Some entity_stitch_proposed"
  "map_of EXECUTE_HANDLERS ''emit_entity_stitch_confirmed'' = Some entity_stitch_confirmed"
  "map_of EXECUTE_HANDLERS ''emit_entity_stitch_rejected'' = Some entity_stitch_rejected"
  "map_of EXECUTE_HANDLERS ''emit_source_candidate_proposed'' = Some source_candidate_proposed"
  "map_of EXECUTE_HANDLERS ''emit_source_candidate_promoted'' = Some source_candidate_promoted"
  "map_of EXECUTE_HANDLERS ''emit_source_candidate_rejected'' = Some source_candidate_rejected"
  "map_of EXECUTE_HANDLERS ''emit_catalog_drift_proposed'' = Some catalog_drift_proposed"
  "map_of EXECUTE_HANDLERS ''emit_catalog_drift_acknowledged'' = Some catalog_drift_acknowledged"
  "map_of EXECUTE_HANDLERS ''emit_catalog_drift_rejected'' = Some catalog_drift_rejected"
  unfolding EXECUTE_HANDLERS_def by (rule map_of_hit | (rule map_of_skip, simp))+

lemma lineage_tools:
  "''lineage_edges'' \<in> set (tool_tables t) \<longleftrightarrow>
     t \<in> set [''emit_lineage_edge_proposed'', ''emit_lineage_edge_confirmed'', ''emit_lineage_edge_rejected'']"
  by (rule tool_tables_iff; code_simp)

lemma quality_tools:
  "''quality_checks'' \<in> set (tool_tables t) \<longleftrightarrow>
     t \<in> set [''emit_quality_check_proposed'', ''emit_quality_check_confirmed'', ''emit_quality_check_rejected'']"
  by (rule tool_tables_iff; code_simp)

lemma impacts_tools:
  "''schema_impacts'' \<in> set (tool_tables t) \<longleftrightarrow>
     t \<in> set [''emit_schema_impact_proposed'', ''emit_schema_impact_confirmed'', ''emit_schema_impact_rejected'']"
  by (rule tool_tables_iff; code_simp)

lemma types_tools:
  "''semantic_types'' \<in> set (tool_tables t) \<longleftrightarrow>
     t \<in> set [''emit_semantic_type_proposed'', ''emit_semantic_type_confirmed'', ''emit_semantic_type_rejected'']"
  by (rule tool_tables_iff; code_simp)

lemma classes_tools:
  "''column_classifications'' \<in> set (tool_tables t) \<longleftrightarrow>
     t \<in> set [''emit_column_classification_proposed'', ''emit_column_classification_confirmed'', ''emit_column_classification_rejected'']"
  by (rule tool_tables_iff; code_simp)

lemma stitches_tools:
  "''entity_stitches'' \<in> set (tool_tables t) \<longleftrightarrow>
     t \<in> set [''emit_entity_stitch_proposed'', ''emit_entity_stitch_confirmed'', ''emit_entity_stitch_rejected'']"
  by (rule tool_tables_iff; code_simp)

lemma candidates_tools:
  "''source_candidates'' \<in> set (tool_tables t) \<longleftrightarrow>
     t \<in> set [''emit_source_candidate_proposed'', ''emit_source_candidate_promoted'', ''emit_source_candidate_rejected'']"
  by (rule tool_tables_iff; code_simp)

lemma drifts_tools:
  "''catalog_drifts'' \<in> set (tool_tables t) \<longleftrightarrow>
     t \<in> set [''emit_catalog_drift_proposed'', ''emit_catalog_drift_acknowledged'', ''emit_catalog_drift_rejected'']"
  by (rule tool_tables_iff; code_simp)

interpretation lineage: discovery_axis lineage_edges "''emit_lineage_edge''" "''confirmed''" "''confirmed_by_person_id''"
  "''rejected_by_person_id''" no_extra
proof
  fix t F d conf
  show "ax_table lineage_edges \<in> set (tool_tables t) \<longleftrightarrow>
      t \<in> set [''emit_lineage_edge'' @ ''_proposed'', ''emit_lineage_edge'' @ ''_'' @ ''confirmed'', ''emit_lineage_edge'' @ ''_rejected'']"
    using lineage_tools [of t] by simp
  show "''state'' \<notin> fst ` set (ax_new lineage_edges F d conf)" "''state'' \<notin> fst ` set (ax_again lineage_edges F d conf)"
    "''state'' \<notin> fst ` set (no_extra F d)" "ax_id lineage_edges \<noteq> ''state''"
    by (simp_all add: lineage_edges_def axis_field_defs)
qed (simp_all add: axis_lookup axis_handlers ENVELOPE_TABLES_def)

interpretation quality: discovery_axis quality_checks "''emit_quality_check''" "''confirmed''" "''confirmed_by_person_id''"
  "''rejected_by_person_id''" no_extra
proof
  fix t F d conf
  show "ax_table quality_checks \<in> set (tool_tables t) \<longleftrightarrow>
      t \<in> set [''emit_quality_check'' @ ''_proposed'', ''emit_quality_check'' @ ''_'' @ ''confirmed'', ''emit_quality_check'' @ ''_rejected'']"
    using quality_tools [of t] by simp
  show "''state'' \<notin> fst ` set (ax_new quality_checks F d conf)" "''state'' \<notin> fst ` set (ax_again quality_checks F d conf)"
    "''state'' \<notin> fst ` set (no_extra F d)" "ax_id quality_checks \<noteq> ''state''"
    by (simp_all add: quality_checks_def axis_field_defs)
qed (simp_all add: axis_lookup axis_handlers ENVELOPE_TABLES_def)

interpretation impacts: discovery_axis schema_impacts "''emit_schema_impact''" "''confirmed''" "''confirmed_by_person_id''"
  "''rejected_by_person_id''" no_extra
proof
  fix t F d conf
  show "ax_table schema_impacts \<in> set (tool_tables t) \<longleftrightarrow>
      t \<in> set [''emit_schema_impact'' @ ''_proposed'', ''emit_schema_impact'' @ ''_'' @ ''confirmed'', ''emit_schema_impact'' @ ''_rejected'']"
    using impacts_tools [of t] by simp
  show "''state'' \<notin> fst ` set (ax_new schema_impacts F d conf)" "''state'' \<notin> fst ` set (ax_again schema_impacts F d conf)"
    "''state'' \<notin> fst ` set (no_extra F d)" "ax_id schema_impacts \<noteq> ''state''"
    by (simp_all add: schema_impacts_def axis_field_defs)
qed (simp_all add: axis_lookup axis_handlers ENVELOPE_TABLES_def)

interpretation types: discovery_axis semantic_types "''emit_semantic_type''" "''confirmed''" "''confirmed_by_person_id''"
  "''rejected_by_person_id''" no_extra
proof
  fix t F d conf
  show "ax_table semantic_types \<in> set (tool_tables t) \<longleftrightarrow>
      t \<in> set [''emit_semantic_type'' @ ''_proposed'', ''emit_semantic_type'' @ ''_'' @ ''confirmed'', ''emit_semantic_type'' @ ''_rejected'']"
    using types_tools [of t] by simp
  show "''state'' \<notin> fst ` set (ax_new semantic_types F d conf)" "''state'' \<notin> fst ` set (ax_again semantic_types F d conf)"
    "''state'' \<notin> fst ` set (no_extra F d)" "ax_id semantic_types \<noteq> ''state''"
    by (simp_all add: semantic_types_def axis_field_defs)
qed (simp_all add: axis_lookup axis_handlers ENVELOPE_TABLES_def)

interpretation classes: discovery_axis column_classifications "''emit_column_classification''" "''confirmed''" "''confirmed_by_person_id''"
  "''rejected_by_person_id''" no_extra
proof
  fix t F d conf
  show "ax_table column_classifications \<in> set (tool_tables t) \<longleftrightarrow>
      t \<in> set [''emit_column_classification'' @ ''_proposed'', ''emit_column_classification'' @ ''_'' @ ''confirmed'', ''emit_column_classification'' @ ''_rejected'']"
    using classes_tools [of t] by simp
  show "''state'' \<notin> fst ` set (ax_new column_classifications F d conf)" "''state'' \<notin> fst ` set (ax_again column_classifications F d conf)"
    "''state'' \<notin> fst ` set (no_extra F d)" "ax_id column_classifications \<noteq> ''state''"
    by (simp_all add: column_classifications_def axis_field_defs)
qed (simp_all add: axis_lookup axis_handlers ENVELOPE_TABLES_def)

interpretation stitches: discovery_axis entity_stitches "''emit_entity_stitch''" "''confirmed''" "''confirmed_by_person_id''"
  "''rejected_by_person_id''" no_extra
proof
  fix t F d conf
  show "ax_table entity_stitches \<in> set (tool_tables t) \<longleftrightarrow>
      t \<in> set [''emit_entity_stitch'' @ ''_proposed'', ''emit_entity_stitch'' @ ''_'' @ ''confirmed'', ''emit_entity_stitch'' @ ''_rejected'']"
    using stitches_tools [of t] by simp
  show "''state'' \<notin> fst ` set (ax_new entity_stitches F d conf)" "''state'' \<notin> fst ` set (ax_again entity_stitches F d conf)"
    "''state'' \<notin> fst ` set (no_extra F d)" "ax_id entity_stitches \<noteq> ''state''"
    by (simp_all add: entity_stitches_def axis_field_defs)
qed (simp_all add: axis_lookup axis_handlers ENVELOPE_TABLES_def)

interpretation candidates: discovery_axis source_candidates "''emit_source_candidate''" "''promoted''" "''promoted_by_person_id''"
  "''rejected_by_person_id''" downstream_source
proof
  fix t F d conf
  show "ax_table source_candidates \<in> set (tool_tables t) \<longleftrightarrow>
      t \<in> set [''emit_source_candidate'' @ ''_proposed'', ''emit_source_candidate'' @ ''_'' @ ''promoted'', ''emit_source_candidate'' @ ''_rejected'']"
    using candidates_tools [of t] by simp
  show "''state'' \<notin> fst ` set (ax_new source_candidates F d conf)" "''state'' \<notin> fst ` set (ax_again source_candidates F d conf)"
    "''state'' \<notin> fst ` set (downstream_source F d)" "ax_id source_candidates \<noteq> ''state''"
    by (simp_all add: source_candidates_def axis_field_defs)
qed (simp_all add: axis_lookup axis_handlers ENVELOPE_TABLES_def)

interpretation drifts: discovery_axis catalog_drifts "''emit_catalog_drift''" "''acknowledged''" "''acknowledged_by_person_id''"
  "''rejected_by_person_id''" no_extra
proof
  fix t F d conf
  show "ax_table catalog_drifts \<in> set (tool_tables t) \<longleftrightarrow>
      t \<in> set [''emit_catalog_drift'' @ ''_proposed'', ''emit_catalog_drift'' @ ''_'' @ ''acknowledged'', ''emit_catalog_drift'' @ ''_rejected'']"
    using drifts_tools [of t] by simp
  show "''state'' \<notin> fst ` set (ax_new catalog_drifts F d conf)" "''state'' \<notin> fst ` set (ax_again catalog_drifts F d conf)"
    "''state'' \<notin> fst ` set (no_extra F d)" "ax_id catalog_drifts \<noteq> ''state''"
    by (simp_all add: catalog_drifts_def axis_field_defs)
qed (simp_all add: axis_lookup axis_handlers ENVELOPE_TABLES_def)

definition DISCOVERY_AXES :: "(axis \<times> string \<times> string) list" where
  "DISCOVERY_AXES =
     [(lineage_edges, ''emit_lineage_edge'', ''confirmed''), (quality_checks, ''emit_quality_check'', ''confirmed''),
      (schema_impacts, ''emit_schema_impact'', ''confirmed''), (semantic_types, ''emit_semantic_type'', ''confirmed''),
      (column_classifications, ''emit_column_classification'', ''confirmed''),
      (entity_stitches, ''emit_entity_stitch'', ''confirmed''),
      (source_candidates, ''emit_source_candidate'', ''promoted''), (catalog_drifts, ''emit_catalog_drift'', ''acknowledged'')]"

end
