(* ===== verification/Projection_Demo.thy ===== *)
theory Projection_Demo
  imports Projection_Build Demo_Environment
begin

section \<open>Logs for the witnesses of the projections\<close>

text \<open>
  An environment of the fold without float or date parsing, an execute row of company \<open>c\<close>, and a
  log that grants a domain role and revokes the tenancy role of the same name.
\<close>

definition demo_fold :: fold_lib where
  "demo_fold = \<lparr>fl_env = demo_env, fl_float = (\<lambda>_. None), fl_iso = (\<lambda>_. None)\<rparr>"

definition exec_entry :: "int \<Rightarrow> string \<Rightarrow> pydict \<Rightarrow> entry" where
  "exec_entry n tool args = \<lparr>e_id = ''e'' @ dec_int n, e_company = ''c'', e_seq = n, e_ts = n, e_kind = ''execute'',
     e_quadrant = ''q'', e_payload = [(''tool'', PStr tool), (''args'', PDict args)], e_prev = [], e_hash = []\<rparr>"

definition demo_uuid :: string where
  "demo_uuid = replicate 32 CHR ''0''"

definition demo_grants :: "entry list" where
  "demo_grants =
     [exec_entry 1 ''emit_domain_role_assigned'' [(''person_id'', PStr demo_uuid), (''domain_id'', PStr demo_uuid),
        (''role'', PStr ''owner''), (''granted_by'', PStr demo_uuid)],
      exec_entry 2 ''emit_role_revoked'' [(''person_id'', PStr demo_uuid), (''role'', PStr ''owner'')]]"

end
