(* ===== verification/Projection_Properties.thy ===== *)
theory Projection_Properties
  imports Projection_Lifecycle Projection_Demo Ledger_Properties
begin

section \<open>Properties of the projections\<close>

text \<open>
  What the projections promise over the whole log: the lifecycle of a discovery row, the agreement
  of the in-memory replay with the projections of the database, and the folds that fail.
\<close>

lemma DISCOVERY_AXES_cases:
  assumes "(ax, tool, verdict) \<in> set DISCOVERY_AXES"
  shows "\<exists>author author' extra. discovery_axis ax tool verdict author author' extra"
proof -
  note cs = assms [unfolded DISCOVERY_AXES_def set_simps insert_iff empty_iff prod.inject simp_thms]
  from cs show ?thesis
    apply (elim disjE conjE)
           apply (hypsubst, intro exI, rule lineage.discovery_axis_axioms)
          apply (hypsubst, intro exI, rule quality.discovery_axis_axioms)
         apply (hypsubst, intro exI, rule impacts.discovery_axis_axioms)
        apply (hypsubst, intro exI, rule types.discovery_axis_axioms)
       apply (hypsubst, intro exI, rule classes.discovery_axis_axioms)
      apply (hypsubst, intro exI, rule stitches.discovery_axis_axioms)
     apply (hypsubst, intro exI, rule candidates.discovery_axis_axioms)
    apply (hypsubst, intro exI, rule drifts.discovery_axis_axioms)
    done
qed

text \<open>C9: The lifecycle of a discovery row. For each of the eight axes, every company and identifier,
  the state the fold of any log shows is that of the abstract automaton run over the log: nothing
  before the first proposal, then \<open>proposed\<close>, then the last decision, which no later proposal
  takes back; entries of any other tool, company or identifier change nothing.\<close>

theorem axis_lifecycle:
  assumes "(ax, tool, verdict) \<in> set DISCOVERY_AXES" and "fold_entries F rows initial_projection_state = Inr st"
  shows "axis_state st ax c k = map_option PStr (foldl axis_next None (map (axis_event F ax tool verdict c k) rows))"
proof -
  from DISCOVERY_AXES_cases [OF assms(1)] obtain author author' extra
    where "discovery_axis ax tool verdict author author' extra" by blast
  from discovery_axis.lifecycle [OF this assms(2)] show ?thesis .
qed

definition demo_lineage :: "entry list" where
  "demo_lineage =
     [exec_entry 1 ''emit_lineage_edge_confirmed'' [(''edge_id'', PStr ''k'')],
      exec_entry 2 ''emit_lineage_edge_proposed'' [(''edge_id'', PStr ''k''), (''confidence'', PFloat (1 / 2))],
      exec_entry 3 ''emit_lineage_edge_confirmed'' [(''edge_id'', PStr ''k''), (''confirmed_by_person_id'', PStr ''p'')],
      exec_entry 4 ''emit_lineage_edge_proposed'' [(''edge_id'', PStr ''k''), (''confidence'', PInt 1)]]"

theorem axis_lifecycle_witness:
  "\<exists>st. fold_entries demo_fold demo_lineage initial_projection_state = Inr st \<and>
     axis_state st lineage_edges ''c'' ''k'' = Some (PStr ''confirmed'') \<and> axis_state st lineage_edges ''c'' ''z'' = None"
proof -
  have mem: "(lineage_edges, ''emit_lineage_edge'', ''confirmed'') \<in> set DISCOVERY_AXES"
    by (simp add: DISCOVERY_AXES_def)
  have runs: "True \<and>
      (case fold_entries demo_fold demo_lineage initial_projection_state of Inl _ \<Rightarrow> False | Inr _ \<Rightarrow> True)"
    by code_simp
  then obtain st where st: "fold_entries demo_fold demo_lineage initial_projection_state = Inr st"
    by (cases "fold_entries demo_fold demo_lineage initial_projection_state") auto
  have "foldl axis_next None (map (axis_event demo_fold lineage_edges ''emit_lineage_edge'' ''confirmed'' ''c'' ''k'') demo_lineage) =
      Some ''confirmed''"
    and "foldl axis_next None (map (axis_event demo_fold lineage_edges ''emit_lineage_edge'' ''confirmed'' ''c'' ''z'') demo_lineage) = None"
    by code_simp+
  with st axis_lifecycle [OF mem st] show ?thesis by simp
qed

subsection \<open>Two ledgers, one projection\<close>

lemma rbind_assoc: "rbind (rbind m f) g = rbind m (\<lambda>x. rbind (f x) g)"
  by (cases m) simp_all

lemma mem_replay_loop_fold: "mem_replay_loop F es st = fold_entries F es st"
proof (induction es arbitrary: st)
  case (Cons e es)
  have "mem_replay_loop F es = fold_entries F es" using Cons by blast
  then show ?case
    by (simp add: apply_entry_def rbind_assoc cong: if_cong)
qed simp

lemma mem_replay_same:
  assumes "same_ledger B st s"
  shows "mem_replay F st c t = replay F B s c t"
proof -
  have "mem_fetch st c (Some t) = fetch_entries B s c (Some t)"
    using assms by (simp add: same_ledger_def mem_fetch_def db_log_def fetch_entries_def filter_sort)
  then show ?thesis
    by (simp add: mem_replay_def replay_def build_projections_def project_rows_def snapshot_hash_def snapshot_body_def
        mem_replay_loop_fold rbind_assoc)
qed

text \<open>A sequence of writes that stops at the first exception.\<close>

fun write_all :: "'s store \<Rightarrow> write_req list \<Rightarrow> ('s, write_result list) act" where
  "write_all L [] = sret []"
| "write_all L (req # reqs) = sbind (st_write L req) (\<lambda>x. sbind (write_all L reqs) (\<lambda>xs. sret (x # xs)))"

lemma write_all_matches:
  assumes "sql_backend B" and "db_invar E B s" and "same_ledger B st s"
    and "write_all (db_store E B) reqs s = (Inr res, s')"
  shows "\<exists>st'. write_all (mem_store E) reqs st = (Inr res, st') \<and> same_ledger B st' s'"
  using assms(2-)
proof (induction reqs arbitrary: s st res)
  case Nil
  then show ?case by (auto simp: sret_def)
next
  case (Cons req reqs)
  from Cons.prems(3) obtain x s1 xs
    where w: "ledger_write E B req s = (Inr x, s1)" and rest: "write_all (db_store E B) reqs s1 = (Inr xs, s')"
      and res: "res = x # xs" by (auto simp: sbind_Inr_iff sret_def)
  from memory_write_matches [OF assms(1) Cons.prems(1,2) w] obtain st1
    where st1: "mem_write E req st = (Inr x, st1)" and same: "same_ledger B st1 s1" by blast
  have "db_invar E B s1"
    using ledger_store.write_invar [OF db_store_ledger [OF assms(1)] Cons.prems(1)] w by fastforce
  from Cons.IH [OF this same rest] st1 show ?case by (auto simp: sbind_def res sret_def)
qed

text \<open>C13: After any sequence of writes the database completes, the in-memory ledger has completed
  the same writes with the same results, and at every point in time its replay, which has a loop of
  its own, gives the projections and the snapshot hash of the replay from the database.\<close>

theorem replay_equivalence:
  assumes "sql_backend B" and "db_invar E B s" and "same_ledger B st s"
    and "write_all (db_store E B) reqs s = (Inr res, s')"
  shows "\<exists>st'. write_all (mem_store E) reqs st = (Inr res, st') \<and> (\<forall>c t. mem_replay F st' c t = replay F B s' c t)"
  using write_all_matches [OF assms] mem_replay_same by metis

theorem replay_equivalence_witness:
  "\<exists>res st' s'. write_all (db_store demo_env schema_backend) [demo_req ''c'' ''x'' True] db_start = (Inr res, s') \<and>
     mem_rows st' ''c'' \<noteq> [] \<and> mem_replay demo_fold st' ''c'' 5 = replay demo_fold schema_backend s' ''c'' 5"
proof -
  obtain s' where w: "write_all (db_store demo_env schema_backend) [demo_req ''c'' ''x'' True] db_start = (Inr [demo_result], s')"
    using demo_db_write by (cases "ledger_write demo_env schema_backend (demo_req ''c'' ''x'' True) db_start") (simp add: sbind_def sret_def)
  have same: "same_ledger schema_backend mem_empty db_start"
    by (simp add: same_ledger_def db_log_def' company_rows_def schema_backend_def db_start_def mem_empty_def mem_rows_def)
  from replay_equivalence [OF sb.sql_backend_axioms db_start_invar same w] obtain st'
    where st': "write_all (mem_store demo_env) [demo_req ''c'' ''x'' True] mem_empty = (Inr [demo_result], st')"
      and eq: "\<forall>c t. mem_replay demo_fold st' c t = replay demo_fold schema_backend s' c t" by blast
  from st' have "mem_write demo_env (demo_req ''c'' ''x'' True) mem_empty = (Inr demo_result, st')"
    by (auto simp: sbind_Inr_iff sret_def)
  from ml.write_appends [OF mem_invar_empty, of demo_env] this have "mem_rows st' ''c'' \<noteq> []"
    by (fastforce simp: demo_req_def const_req_def dest: pevr_rows_length)
  with w eq show ?thesis by blast
qed

subsection \<open>A row no build survives\<close>

lemma fold_entries_append: "fold_entries F (es @ es') st = rbind (fold_entries F es st) (fold_entries F es')"
proof (induction es arbitrary: st)
  case (Cons e es)
  then have "fold_entries F (es @ es') = (\<lambda>x. rbind (fold_entries F es x) (fold_entries F es'))" by blast
  then show ?case by (simp add: rbind_assoc)
qed simp

lemma fold_entries_blocked:
  assumes "\<And>st. \<exists>x. apply_entry F e st = Inl x" and "e \<in> set es"
  shows "\<exists>x. fold_entries F es st = Inl x"
  using assms(2)
proof (induction es arbitrary: st)
  case (Cons y ys)
  show ?case
  proof (cases "apply_entry F y st")
    case (Inr st1)
    with assms(1) [of st] have "y \<noteq> e" by auto
    with Cons Inr show ?thesis by auto
  qed simp
qed simp

lemma source_without_id:
  assumes "e_kind e = ''execute''" and "dget (e_payload e) ''tool'' = PStr ''emit_source_proposed''"
    and "dget_or (e_payload e) ''args'' (PDict []) = PDict a" and "map_of a ''source_id'' = None"
  shows "\<exists>x. apply_entry F e st = Inl x"
proof -
  have "map_of EXECUTE_HANDLERS ''emit_source_proposed'' = Some source_proposed"
    unfolding EXECUTE_HANDLERS_def by (rule map_of_hit)
  with assms(2-) have "apply_execute F e st1 = Inl KeyError" for st1
    by (simp add: apply_execute_def source_proposed_def)
  with assms(1) show ?thesis
    by (cases "apply_pevr_envelope F e st") (simp_all add: apply_entry_def)
qed

text \<open>Nothing checks a payload before it is written: on every ledger a source proposal without
  its \<open>source_id\<close> is accepted, and from then on no build of the company's projections returns,
  whatever is written after it.\<close>

theorem malformed_row_blocks_projections:
  assumes "reliable_store E L invar" and "invar s"
    and "map_of args ''source_id'' = None" and "jsonable_dict args"
  shows "\<exists>res s'. st_write L (const_req c [(''target_kind'', PStr ''source_proposed'')]
        [(''tool'', PStr ''emit_source_proposed''), (''args'', PDict args)] [(''passed'', PBool True)]
        [(''outcome'', PStr ''keep'')] ts now q) s = (Inr res, s') \<and>
      (\<forall>later. \<exists>x. project_rows F (st_fetch L s' c None @ later) = Inl x)"
proof -
  let ?req = "const_req c [(''target_kind'', PStr ''source_proposed'')]
        [(''tool'', PStr ''emit_source_proposed''), (''args'', PDict args)] [(''passed'', PBool True)]
        [(''outcome'', PStr ''keep'')] ts now q"
  have "clean_req ?req" using assms(4) by (simp add: clean_const_req) (simp add: jsonable_dict_def)
  with reliable_store.write_clean [OF assms(1)] obtain res s' where w: "st_write L ?req s = (Inr res, s')" by blast
  from ledger_store.const_write_rows [OF reliable_store.axioms(1) [OF assms(1)] assms(2) w]
  obtain rp re rv rr where rows: "st_fetch L s' c None = st_fetch L s c None @ [rp, re, rv, rr]"
    and re: "e_kind re = ''execute''" "e_payload re = dict_merge [(''propose_entry_id'', PStr (e_id rp))]
      [(''tool'', PStr ''emit_source_proposed''), (''args'', PDict args)]" by blast
  have "\<exists>x. apply_entry F re st = Inl x" for st
    by (rule source_without_id [OF re(1) _ _ assms(3)]) (simp_all add: re(2) dict_merge_def dget_def dget_or_def)
  note blocked = fold_entries_blocked [OF this]
  have "\<exists>x. project_rows F (st_fetch L s' c None @ later) = Inl x" for later
    using blocked [of "st_fetch L s' c None @ later" initial_projection_state] rows by (auto simp: project_rows_def)
  with w show ?thesis by blast
qed

theorem malformed_row_blocks_projections_witness:
  "\<exists>res s'. mem_write demo_env (const_req ''c'' [(''target_kind'', PStr ''source_proposed'')]
        [(''tool'', PStr ''emit_source_proposed''), (''args'', PDict [(''uri'', PStr ''u'')])] [(''passed'', PBool True)]
        [(''outcome'', PStr ''keep'')] None 5 ''q'') mem_empty = (Inr res, s') \<and>
      (\<forall>later. \<exists>x. project_rows demo_fold (mem_rows s' ''c'' @ later) = Inl x)"
  using malformed_row_blocks_projections [OF ml.reliable_store_axioms mem_invar_empty,
      of "[(''uri'', PStr ''u'')]" demo_env "''c''" None 5 "''q''" demo_fold] by (simp add: jsonable_dict_def)

subsection \<open>The ramp\<close>

lemma fold_entries_chat:
  assumes "fold_entries F es st = Inr st'" and "\<forall>e\<in>set es. e_kind e \<notin> {''chat_received'', ''chat_sent''}"
  shows "pj_chat st' = pj_chat st"
  using assms
proof (induction es arbitrary: st)
  case (Cons e es)
  from Cons.prems(1) obtain st1 where st1: "apply_entry F e st = Inr st1" "fold_entries F es st1 = Inr st'"
    by (auto simp: rbind_Inr_iff)
  have "''sources'' \<notin> set ENVELOPE_TABLES" by (simp add: ENVELOPE_TABLES_def)
  from frame_entry(3) [OF st1(1) this] Cons.IH [OF st1(2)] Cons.prems(2) show ?case by simp
qed simp

lemma pevr_rows_kinds:
  "pevr_rows E req sq prev rows \<Longrightarrow> map e_kind rows = [''propose'', ''execute'', ''verify'', ''resolve'']"
  by (erule pevr_rowsE) (simp add: built_def)

lemma db_run_kinds:
  assumes "sql_backend B" and "db_invar E B s" and "e_kind ` set (db_log B s c) \<subseteq> K"
    and "{''propose'', ''execute'', ''verify'', ''resolve''} \<subseteq> K"
  shows "e_kind ` set (db_log B (db_run E B reqs s) c) \<subseteq> K"
  using assms(2,3)
proof (induction reqs arbitrary: s)
  case (Cons req reqs)
  obtain out s1 where w: "ledger_write E B req s = (out, s1)" by fastforce
  have inv: "db_invar E B s1"
    using ledger_store.write_invar [OF db_store_ledger [OF assms(1)] Cons.prems(1)] w by fastforce
  have "e_kind ` set (db_log B s1 c) \<subseteq> K"
  proof (cases out)
    case (Inl x)
    from ledger_write_Inl_log [OF w [unfolded Inl]] Cons.prems(2) show ?thesis by simp
  next
    case (Inr res)
    with w have "write_primitive E B req s = (Inr res, s1)" by (simp add: ledger_write_Inr)
    from sql_backend.write_primitive_rows [OF assms(1) Cons.prems(1) this] obtain new k h
      where log1: "db_log B s1 = (db_log B s)(wr_company req := db_log B s (wr_company req) @ new)"
        and new: "pevr_rows E req k h new" by blast
    from arg_cong [OF pevr_rows_kinds [OF new], of set] have "e_kind ` set new \<subseteq> K"
      using assms(4) by (simp flip: set_map)
    with log1 Cons.prems(2) show ?thesis by (cases "c = wr_company req") (simp_all add: image_Un)
  qed
  from Cons.IH [OF inv this] w show ?case by (simp add: db_run_def)
qed (simp add: db_run_def)

lemma ramp_of_projections: "project_rows F rows = Inr p \<Longrightarrow>
    \<exists>st. fold_entries F rows initial_projection_state = Inr st \<and> p ''ramp'' = recompute_ramp st"
  by (drule projections_of [of F rows p "''ramp''"]) (simp_all add: NATURAL_TABLES_def)

text \<open>Every value of the ramp is a decimal number of at most 100, whatever the log; and on a
  database that started empty the conversational axis stays at 0 whatever is written, because the
  rows have the four kinds of a write and never one of the two the axis counts.\<close>

theorem ramp_bounded:
  assumes "sql_backend B" and "be_rows B (s_db s) = []"
    and "project_rows F (fetch_entries B (db_run E B reqs s) c q) = Inr p"
  shows "\<exists>vs. p ''ramp'' = map2 (\<lambda>ax v. [(''axis'', PStr ax), (''value'', PStr (dec_nat v))]) RAMP_AXES vs \<and>
    length vs = 6 \<and> list_all (\<lambda>v. v \<le> 100) vs \<and> vs ! 4 = 0"
proof -
  from ramp_of_projections [OF assms(3)] obtain st
    where st: "fold_entries F (fetch_entries B (db_run E B reqs s) c q) initial_projection_state = Inr st"
      and ramp: "p ''ramp'' = recompute_ramp st" by blast
  have log: "db_log B s c = []" using assms(2) by (simp add: db_log_def' company_rows_def)
  have inv: "db_invar E B s" using assms(2) by (simp add: db_invar_def db_log_def' company_rows_def)
  have kinds: "e_kind ` set (db_log B (db_run E B reqs s) c) \<subseteq> {''propose'', ''execute'', ''verify'', ''resolve''}"
    by (rule db_run_kinds [OF assms(1) inv]) (simp_all add: log)
  have "set (fetch_entries B (db_run E B reqs s) c q) \<subseteq> set (db_log B (db_run E B reqs s) c)"
    by (auto simp: fetch_entries_def db_log_def')
  with kinds have "\<forall>e\<in>set (fetch_entries B (db_run E B reqs s) c q). e_kind e \<in> {''propose'', ''execute'', ''verify'', ''resolve''}"
    by blast
  then have "\<forall>e\<in>set (fetch_entries B (db_run E B reqs s) c q). e_kind e \<notin> {''chat_received'', ''chat_sent''}"
    by auto
  from fold_entries_chat [OF st this] have chat: "pj_chat st = 0" by (simp add: initial_projection_state_def)
  have "p ''ramp'' = map2 (\<lambda>ax v. [(''axis'', PStr ax), (''value'', PStr (dec_nat v))]) RAMP_AXES (map (ramp_value st) RAMP_AXES)"
    by (simp add: ramp recompute_ramp_def zip_map2 o_def split_def zip_same_conv_map)
  moreover have "length (map (ramp_value st) RAMP_AXES) = 6" by (simp add: RAMP_AXES_def)
  moreover have "list_all (\<lambda>v. v \<le> 100) (map (ramp_value st) RAMP_AXES)"
    by (simp add: list.pred_map ramp_value_def Let_def list_all_iff)
  moreover have "map (ramp_value st) RAMP_AXES ! 4 = 0"
    by (simp add: RAMP_AXES_def ramp_value_def chat Let_def)
  ultimately show ?thesis by blast
qed

theorem ramp_bounded_witness:
  "\<exists>p vs. project_rows demo_fold (fetch_entries schema_backend (db_run demo_env schema_backend [demo_req ''c'' ''x'' True] db_start) ''c'' None) = Inr p \<and>
     p ''ramp'' = map2 (\<lambda>ax v. [(''axis'', PStr ax), (''value'', PStr (dec_nat v))]) RAMP_AXES vs \<and>
     list_all (\<lambda>v. v \<le> 100) vs \<and> vs ! 4 = 0"
proof -
  have "case project_rows demo_fold (fetch_entries schema_backend (db_run demo_env schema_backend [demo_req ''c'' ''x'' True] db_start) ''c'' None) of
      Inl _ \<Rightarrow> False | Inr _ \<Rightarrow> True" by code_simp
  then obtain p where "project_rows demo_fold (fetch_entries schema_backend (db_run demo_env schema_backend [demo_req ''c'' ''x'' True] db_start) ''c'' None) = Inr p"
    by (auto split: sum.splits)
  moreover from ramp_bounded [OF sb.sql_backend_axioms _ this] obtain vs
    where "p ''ramp'' = map2 (\<lambda>ax v. [(''axis'', PStr ax), (''value'', PStr (dec_nat v))]) RAMP_AXES vs"
      "list_all (\<lambda>v. v \<le> 100) vs" "vs ! 4 = 0" by (auto simp: db_start_def schema_backend_def)
  ultimately show ?thesis by blast
qed

subsection \<open>Grants\<close>

text \<open>A predicate of one table that every handler writing the table preserves holds after any fold.\<close>

definition keeps :: "string \<Rightarrow> (table \<Rightarrow> bool) \<Rightarrow> handler \<Rightarrow> bool" where
  "keeps n P h = (\<forall>F e a st st'. h F e a st = Inr st' \<longrightarrow> P (pj_tables st n) \<longrightarrow> P (pj_tables st' n))"

lemma fold_keeps:
  assumes "n \<notin> set ENVELOPE_TABLES" and step: "\<And>t h. map_of EXECUTE_HANDLERS t = Some h \<Longrightarrow> n \<in> set (tool_tables t) \<Longrightarrow> keeps n P h"
    and "fold_entries F es st = Inr st'" and "P (pj_tables st n)"
  shows "P (pj_tables st' n)"
  using assms(3,4)
proof (induction es arbitrary: st)
  case (Cons e es)
  from Cons.prems(1) obtain st1 where st1: "apply_entry F e st = Inr st1" "fold_entries F es st1 = Inr st'"
    by (auto simp: rbind_Inr_iff)
  have "P (pj_tables st1 n)"
  proof (cases "n \<in> set (tables_of e)")
    case False
    from frame_entry(1) [OF st1(1) assms(1) False] Cons.prems(2) show ?thesis by simp
  next
    case True
    then obtain t where e: "e_kind e = ''execute''" and t: "dget (e_payload e) ''tool'' = PStr t" "n \<in> set (tool_tables t)"
      by (cases "dget (e_payload e) ''tool''") (auto simp: tables_of_def split: if_splits)
    from frame_entry(2) [OF st1(1) assms(1) e] obtain st0
      where st0: "pj_tables st0 n = pj_tables st n" "apply_execute F e st0 = Inr st1" by blast
    show ?thesis
    proof (cases "map_of EXECUTE_HANDLERS t")
      case None
      with st0 t(1) Cons.prems(2) show ?thesis by (simp add: apply_execute_def)
    next
      case (Some h)
      with st0(2) t(1) have "h F e (dget_or (e_payload e) ''args'' (PDict [])) st0 = Inr st1"
        by (simp add: apply_execute_def)
      with step [OF Some t(2)] st0(1) Cons.prems(2) show ?thesis unfolding keeps_def by metis
    qed
  qed
  from Cons.IH [OF st1(2) this] show ?case .
qed simp

text \<open>A grant of a domain or a resource carries no revocation.\<close>

definition grant_ok :: "pydict \<Rightarrow> bool" where
  "grant_ok g = (dget g ''facet'' \<in> {PStr ''tenancy'', PStr ''domain'', PStr ''resource''} \<and>
     (dget g ''facet'' \<noteq> PStr ''tenancy'' \<longrightarrow> dget g ''revoked_at'' = PNone))"

definition grants_ok :: "table \<Rightarrow> bool" where
  "grants_ok t = list_all (\<lambda>p. grant_ok (snd p)) t"

lemma grants_ok_put [simp]: "grant_ok g \<Longrightarrow> grants_ok t \<Longrightarrow> grants_ok (put_row k g t)"
  by (induction t) (auto simp: grants_ok_def)

lemma grants_ok_revoke:
  assumes "grants_ok t"
  shows "grants_ok (update_first (\<lambda>g. dget g ''facet'' = PStr ''tenancy'' \<and> P g)
    (\<lambda>g. dict_merge g [(''revoked_at'', v), (''last_updated_seq'', w)]) t)"
  using assms
proof (induction t)
  case (Cons p t)
  have "grant_ok (dict_merge g [(''revoked_at'', v), (''last_updated_seq'', w)])" if "dget g ''facet'' = PStr ''tenancy''" for g
    using that by (simp add: grant_ok_def dget_merge_other)
  with Cons show ?case by (auto simp: grants_ok_def)
qed simp

lemma grant_ok_row:
  assumes "role_row e gid pid facet role scope_id scope_type granted_by = Inr g" and "facet \<in> {''tenancy'', ''domain'', ''resource''}"
  shows "grant_ok g"
  using assms by (auto simp: role_row_def rbind_Inr_iff grant_ok_def dget_def lit_def null_def)

lemma set_row_Inr: "set_row n k r st = Inr st' \<longleftrightarrow> hashable k \<and> st' = set_table n (put_row k r) st"
  by (auto simp: set_row_def)

lemma set_table_same [simp]: "pj_tables (set_table n f st) n = f (pj_tables st n)"
  by (simp add: set_table_def)

lemma grants_kept:
  "keeps ''roles'' grants_ok role_assigned" "keeps ''roles'' grants_ok role_revoked"
  "keeps ''roles'' grants_ok domain_role_assigned" "keeps ''roles'' grants_ok resource_role_assigned"
  "keeps ''roles'' grants_ok resource_role_proposed"
  unfolding keeps_def role_assigned_def role_revoked_def domain_role_assigned_def resource_role_assigned_def
    resource_role_proposed_def
  by (auto simp: rbind_Inr_iff set_row_Inr intro!: grants_ok_put grants_ok_revoke elim!: grant_ok_row)

lemma roles_tools:
  "''roles'' \<in> set (tool_tables t) \<longleftrightarrow>
     t \<in> set [''emit_role_assigned'', ''emit_role_revoked'', ''emit_domain_role_assigned'', ''emit_resource_role_assigned'',
       ''emit_resource_role_proposed'']"
  by (rule tool_tables_iff; code_simp)

lemma role_lookup:
  "map_of EXECUTE_HANDLERS ''emit_role_assigned'' = Some role_assigned"
  "map_of EXECUTE_HANDLERS ''emit_role_revoked'' = Some role_revoked"
  "map_of EXECUTE_HANDLERS ''emit_domain_role_assigned'' = Some domain_role_assigned"
  "map_of EXECUTE_HANDLERS ''emit_resource_role_assigned'' = Some resource_role_assigned"
  "map_of EXECUTE_HANDLERS ''emit_resource_role_proposed'' = Some resource_role_proposed"
  unfolding EXECUTE_HANDLERS_def by (rule map_of_hit | (rule map_of_skip, simp))+

lemma fold_grants_ok:
  assumes "fold_entries F es initial_projection_state = Inr st"
  shows "grants_ok (pj_tables st ''roles'')"
proof (rule fold_keeps [OF _ _ assms])
  show "''roles'' \<notin> set ENVELOPE_TABLES" by (simp add: ENVELOPE_TABLES_def)
  show "grants_ok (pj_tables initial_projection_state ''roles'')"
    by (simp add: initial_projection_state_def grants_ok_def)
  show "keeps ''roles'' grants_ok h" if "map_of EXECUTE_HANDLERS t = Some h" "''roles'' \<in> set (tool_tables t)" for t h
  proof -
    from that(2) have "t = ''emit_role_assigned'' \<or> t = ''emit_role_revoked'' \<or> t = ''emit_domain_role_assigned'' \<or>
        t = ''emit_resource_role_assigned'' \<or> t = ''emit_resource_role_proposed''"
      by (simp only: roles_tools list.set insert_iff empty_iff simp_thms)
    then show ?thesis by (elim disjE) (use that(1) in \<open>simp_all add: role_lookup grants_kept\<close>)
  qed
qed

lemma roles_of_projections: "project_rows F rows = Inr p \<Longrightarrow>
    \<exists>st. fold_entries F rows initial_projection_state = Inr st \<and> p ''roles'' = map snd (sort_by_text (fl_env F) (pj_tables st ''roles''))"
  by (drule projections_of [of F rows p "''roles''"]) (simp_all add: NATURAL_TABLES_def TEXT_TABLES_def)

text \<open>C39: Whatever the log, every grant is for the tenancy, a domain or a resource, and a grant for a
  domain or a resource, once folded, is among the grants of its person in every later projection:
  only tenancy grants are ever revoked.\<close>

theorem scoped_grants_never_revoked:
  assumes "project_rows F rows = Inr p" and "g \<in> set (p ''roles'')" and "dget g ''person_id'' = PUuid u"
  shows "dget g ''facet'' \<in> {PStr ''tenancy'', PStr ''domain'', PStr ''resource''} \<and>
    (dget g ''facet'' = PStr ''tenancy'' \<or> g \<in> set (grants_for E p u))"
proof -
  from roles_of_projections [OF assms(1)] obtain st
    where st: "fold_entries F rows initial_projection_state = Inr st"
      and p: "p ''roles'' = map snd (sort_by_text (fl_env F) (pj_tables st ''roles''))" by blast
  from assms(2) have "g \<in> snd ` set (pj_tables st ''roles'')" by (simp add: p sort_by_text_def)
  with fold_grants_ok [OF st] have "grant_ok g" by (auto simp: grants_ok_def list_all_iff)
  with assms(2,3) show ?thesis by (auto simp: grant_ok_def grants_for_def Let_def)
qed

theorem scoped_grants_never_revoked_witness:
  "\<exists>p g. project_rows demo_fold demo_grants = Inr p \<and> dget g ''facet'' = PStr ''domain'' \<and>
     g \<in> set (grants_for demo_env p (uuid_of_nat 0))"
proof -
  have run: "case project_rows demo_fold demo_grants of Inl _ \<Rightarrow> False
     | Inr p \<Rightarrow> p ''roles'' \<noteq> [] \<and> dget (hd (p ''roles'')) ''person_id'' = PUuid (uuid_of_nat 0) \<and>
         dget (hd (p ''roles'')) ''facet'' = PStr ''domain''" by code_simp
  then obtain p where p: "project_rows demo_fold demo_grants = Inr p" by (cases "project_rows demo_fold demo_grants") auto
  from run p have g: "hd (p ''roles'') \<in> set (p ''roles'')" "dget (hd (p ''roles'')) ''person_id'' = PUuid (uuid_of_nat 0)"
    "dget (hd (p ''roles'')) ''facet'' = PStr ''domain''" by simp_all
  from scoped_grants_never_revoked [OF p g(1,2), of demo_env] g(3) p show ?thesis by auto
qed

end
