(* ===== verification/Schema_Tables.thy ===== *)
theory Schema_Tables
  imports Prelude
begin

section \<open>The projection tables (\<open>schema.py\<close>)\<close>

text \<open>
  One definition per projection table: its columns in order, the unique keys beside the primary
  key, and the CHECK constraints. \<open>sql_insert\<close> is what such a table does with the rows of an
  \<open>insert()\<close>: it refuses names that are no column, null values of a required column, values outside
  a check and rows that repeat a key. The width of a text and the indexes have no effect on it.
\<close>

subsection \<open>Columns and tables\<close>

datatype sqltype =
    SUuid
  | SString "nat option"
  | SText
  | SDateTime
  | SBinary nat
  | SJson
  | SBigInteger
  | SInteger
  | SFloat
  | SNumeric nat nat
  | SBoolean

record column =
  c_name :: string
  c_type :: sqltype
  c_nullable :: bool
  c_key :: bool
  c_default :: pyval

definition key_column :: "string \<Rightarrow> sqltype \<Rightarrow> column" where
  "key_column n t = \<lparr>c_name = n, c_type = t, c_nullable = False, c_key = True, c_default = PNone\<rparr>"

definition required_column :: "string \<Rightarrow> sqltype \<Rightarrow> column" where
  "required_column n t = \<lparr>c_name = n, c_type = t, c_nullable = False, c_key = False, c_default = PNone\<rparr>"

definition nullable_column :: "string \<Rightarrow> sqltype \<Rightarrow> column" where
  "nullable_column n t = \<lparr>c_name = n, c_type = t, c_nullable = True, c_key = False, c_default = PNone\<rparr>"

definition default_column :: "string \<Rightarrow> sqltype \<Rightarrow> pyval \<Rightarrow> column" where
  "default_column n t v = \<lparr>c_name = n, c_type = t, c_nullable = False, c_key = False, c_default = v\<rparr>"

record sql_table =
  tb_name :: string
  tb_columns :: "column list"
  tb_unique :: "string list list"
  tb_checks :: "(string \<times> string list) list"

subsection \<open>The tables\<close>

definition projection_sources :: sql_table where
  "projection_sources =
     \<lparr>tb_name = ''projection_sources'',
      tb_columns =
        [key_column ''company_id'' SUuid, key_column ''source_id'' SUuid,
         required_column ''status'' (SString (Some 32)), required_column ''kind'' (SString (Some 32)),
         required_column ''uri'' (SString (Some 1024)), nullable_column ''domain_id'' SUuid,
         required_column ''classification'' (SString (Some 32)), nullable_column ''added_by_person'' SUuid,
         required_column ''added_via_flow'' (SString (Some 64)), required_column ''added_at'' SDateTime,
         required_column ''last_entry_hash'' (SBinary 32), nullable_column ''last_seen'' SDateTime],
      tb_unique = [],
      tb_checks =
        []\<rparr>"

definition projection_conversations :: sql_table where
  "projection_conversations =
     \<lparr>tb_name = ''projection_conversations'',
      tb_columns =
        [key_column ''company_id'' SUuid, key_column ''channel_id'' (SString (Some 128)),
         key_column ''message_id'' (SString (Some 128)), nullable_column ''sender_person'' SUuid,
         required_column ''ts'' SDateTime, required_column ''text'' (SString None),
         required_column ''classification'' (SString (Some 32)), nullable_column ''domain_id'' SUuid,
         nullable_column ''thread_root_message_id'' (SString (Some 128)),
         required_column ''platform'' (SString (Some 32)), required_column ''ingested_at'' SDateTime],
      tb_unique = [],
      tb_checks =
        []\<rparr>"

definition projection_channels :: sql_table where
  "projection_channels =
     \<lparr>tb_name = ''projection_channels'',
      tb_columns =
        [key_column ''tenant_id'' SUuid, key_column ''channel_id'' (SString (Some 128)),
         default_column ''talkativeness'' (SString (Some 16)) (PStr ''responsive''),
         default_column ''daily_interjection_budget'' SBigInteger (PInt 3), nullable_column ''last_set_by'' SUuid,
         nullable_column ''last_set_at'' SDateTime, default_column ''last_interjection_count'' SBigInteger (PInt 0),
         nullable_column ''last_interjection_day'' (SString (Some 10)),
         default_column ''last_updated_seq'' SBigInteger (PInt 0)],
      tb_unique = [],
      tb_checks =
        []\<rparr>"

definition projection_memory :: sql_table where
  "projection_memory =
     \<lparr>tb_name = ''projection_memory'',
      tb_columns =
        [key_column ''company_id'' SUuid, key_column ''memory_id'' SUuid, required_column ''content'' (SString None),
         required_column ''tags'' SJson, required_column ''written_at'' SDateTime],
      tb_unique = [],
      tb_checks =
        []\<rparr>"

definition projection_kpi_nodes :: sql_table where
  "projection_kpi_nodes =
     \<lparr>tb_name = ''projection_kpi_nodes'',
      tb_columns =
        [key_column ''company_id'' SUuid, key_column ''node_id'' (SString (Some 128)),
         required_column ''name'' (SString (Some 256)), nullable_column ''domain_id'' SUuid,
         nullable_column ''owner_person_id'' SUuid, nullable_column ''parent_node_id'' (SString (Some 128)),
         nullable_column ''source_resource_id'' SUuid, required_column ''metric_type'' (SString (Some 64)),
         required_column ''confidence'' (SString (Some 16))],
      tb_unique = [],
      tb_checks =
        []\<rparr>"

definition projection_ramp :: sql_table where
  "projection_ramp =
     \<lparr>tb_name = ''projection_ramp'',
      tb_columns =
        [key_column ''company_id'' SUuid, key_column ''axis'' (SString (Some 32)),
         required_column ''value'' (SString (Some 8)), required_column ''as_of'' SDateTime],
      tb_unique = [],
      tb_checks =
        []\<rparr>"

definition replay_cursor :: sql_table where
  "replay_cursor =
     \<lparr>tb_name = ''replay_cursor'',
      tb_columns =
        [key_column ''company_id'' SUuid, required_column ''last_seq'' SBigInteger,
         required_column ''last_hash'' (SBinary 32), required_column ''updated_at'' SDateTime],
      tb_unique = [],
      tb_checks =
        []\<rparr>"

definition projection_persons :: sql_table where
  "projection_persons =
     \<lparr>tb_name = ''projection_persons'',
      tb_columns =
        [key_column ''person_id'' SUuid, required_column ''tenant_id'' SUuid,
         required_column ''name'' (SString (Some 255)), nullable_column ''email'' (SString (Some 255)),
         nullable_column ''position'' (SString (Some 64)), required_column ''status'' (SString (Some 16)),
         nullable_column ''proposed_by'' (SString (Some 64)), nullable_column ''confirmed_by'' SUuid,
         required_column ''created_at'' SDateTime, required_column ''last_updated_seq'' SBigInteger],
      tb_unique = [],
      tb_checks =
        []\<rparr>"

definition projection_person_identities :: sql_table where
  "projection_person_identities =
     \<lparr>tb_name = ''projection_person_identities'',
      tb_columns =
        [key_column ''identity_id'' SUuid, required_column ''person_id'' SUuid, required_column ''tenant_id'' SUuid,
         required_column ''platform'' (SString (Some 32)), required_column ''platform_user_id'' (SString (Some 255)),
         nullable_column ''display_name'' (SString (Some 255)),
         nullable_column ''email_at_platform'' (SString (Some 255)),
         nullable_column ''avatar_url'' (SString (Some 512)), required_column ''added_at'' SDateTime],
      tb_unique = [[''tenant_id'', ''platform'', ''platform_user_id'']],
      tb_checks =
        []\<rparr>"

definition projection_installs :: sql_table where
  "projection_installs =
     \<lparr>tb_name = ''projection_installs'',
      tb_columns =
        [key_column ''install_id'' SUuid, required_column ''tenant_id'' SUuid,
         required_column ''platform'' (SString (Some 32)), required_column ''installer_person_id'' SUuid,
         required_column ''oauth_grant_ref'' (SString (Some 512)), required_column ''scopes'' SJson,
         required_column ''bot_user_id'' (SString (Some 255)), required_column ''status'' (SString (Some 16)),
         required_column ''installed_at'' SDateTime, nullable_column ''setup_mode'' (SString (Some 8)),
         nullable_column ''setup_completed_at'' SDateTime, required_column ''last_updated_seq'' SBigInteger],
      tb_unique = [[''tenant_id'', ''platform'']],
      tb_checks =
        []\<rparr>"

definition projection_tenants :: sql_table where
  "projection_tenants =
     \<lparr>tb_name = ''projection_tenants'',
      tb_columns =
        [key_column ''tenant_id'' SUuid, required_column ''slug'' (SString (Some 128)),
         required_column ''display_name'' (SString (Some 256)),
         required_column ''signup_source'' (SString (Some 32)),
         nullable_column ''signup_email'' (SString (Some 255)), required_column ''created_at'' SDateTime,
         nullable_column ''signup_completed_at'' SDateTime, required_column ''status'' (SString (Some 16)),
         required_column ''demo_visitors'' SJson, required_column ''last_updated_seq'' SBigInteger],
      tb_unique = [[''slug'']],
      tb_checks =
        []\<rparr>"

definition projection_setup_progress :: sql_table where
  "projection_setup_progress =
     \<lparr>tb_name = ''projection_setup_progress'',
      tb_columns =
        [key_column ''tenant_id'' SUuid, nullable_column ''current_step'' (SString (Some 64)),
         required_column ''steps_completed'' SJson, nullable_column ''last_advance_seq'' SBigInteger,
         nullable_column ''last_advance_ts'' SDateTime],
      tb_unique = [],
      tb_checks =
        []\<rparr>"

definition projection_roles :: sql_table where
  "projection_roles =
     \<lparr>tb_name = ''projection_roles'',
      tb_columns =
        [key_column ''grant_id'' SUuid, required_column ''tenant_id'' SUuid, required_column ''person_id'' SUuid,
         required_column ''facet'' (SString (Some 16)), required_column ''role'' (SString (Some 32)),
         nullable_column ''scope_id'' SUuid, nullable_column ''scope_type'' (SString (Some 32)),
         required_column ''granted_by'' SUuid, required_column ''granted_at'' SDateTime,
         nullable_column ''revoked_at'' SDateTime, required_column ''last_updated_seq'' SBigInteger],
      tb_unique = [],
      tb_checks =
        []\<rparr>"

definition projection_data_products :: sql_table where
  "projection_data_products =
     \<lparr>tb_name = ''projection_data_products'',
      tb_columns =
        [key_column ''data_product_id'' SUuid, required_column ''tenant_id'' SUuid,
         required_column ''name'' (SString (Some 255)), required_column ''kind'' (SString (Some 32)),
         required_column ''status'' (SString (Some 16)), required_column ''requested_by_person_id'' SUuid,
         nullable_column ''domain_id'' SUuid, nullable_column ''latest_run_seq'' SBigInteger,
         nullable_column ''generated_at'' SDateTime, nullable_column ''content_hash'' (SString (Some 64)),
         nullable_column ''contents_uri'' (SString (Some 1024)), required_column ''last_updated_seq'' SBigInteger],
      tb_unique = [],
      tb_checks =
        []\<rparr>"

definition projection_data_product_runs :: sql_table where
  "projection_data_product_runs =
     \<lparr>tb_name = ''projection_data_product_runs'',
      tb_columns =
        [key_column ''run_id'' SUuid, required_column ''data_product_id'' SUuid, required_column ''tenant_id'' SUuid,
         required_column ''generated_by'' (SString (Some 64)), required_column ''ts'' SDateTime,
         required_column ''source_hashes'' SJson, required_column ''content_hash'' (SString (Some 64)),
         required_column ''duration_ms'' SBigInteger],
      tb_unique = [],
      tb_checks =
        []\<rparr>"

definition projection_data_product_consumption :: sql_table where
  "projection_data_product_consumption =
     \<lparr>tb_name = ''projection_data_product_consumption'',
      tb_columns =
        [key_column ''consumption_id'' SUuid, required_column ''data_product_id'' SUuid,
         required_column ''tenant_id'' SUuid, required_column ''person_id'' SUuid,
         required_column ''surface'' (SString (Some 16)), nullable_column ''channel'' (SString (Some 255)),
         required_column ''ts'' SDateTime],
      tb_unique = [],
      tb_checks =
        []\<rparr>"

definition projection_notebooks :: sql_table where
  "projection_notebooks =
     \<lparr>tb_name = ''projection_notebooks'',
      tb_columns =
        [key_column ''notebook_id'' SUuid, required_column ''tenant_id'' SUuid,
         required_column ''name'' (SString (Some 255)), required_column ''kernel'' (SString (Some 32)),
         required_column ''status'' (SString (Some 16)), nullable_column ''owner_person_id'' SUuid,
         nullable_column ''domain_id'' SUuid, nullable_column ''latest_run_id'' SUuid,
         nullable_column ''latest_published_run_id'' SUuid, nullable_column ''version'' (SString (Some 32)),
         required_column ''last_updated_seq'' SBigInteger],
      tb_unique = [],
      tb_checks =
        []\<rparr>"

definition projection_notebook_runs :: sql_table where
  "projection_notebook_runs =
     \<lparr>tb_name = ''projection_notebook_runs'',
      tb_columns =
        [key_column ''run_id'' SUuid, required_column ''notebook_id'' SUuid, required_column ''tenant_id'' SUuid,
         required_column ''status'' (SString (Some 16)), required_column ''ts'' SDateTime,
         required_column ''run_by'' (SString (Some 64)), required_column ''kernel_state_hash'' (SString (Some 64)),
         required_column ''duration_ms'' SBigInteger],
      tb_unique = [],
      tb_checks =
        []\<rparr>"

definition projection_mcp_calls :: sql_table where
  "projection_mcp_calls =
     \<lparr>tb_name = ''projection_mcp_calls'',
      tb_columns =
        [key_column ''mcp_call_id'' SUuid, required_column ''tenant_id'' SUuid,
         nullable_column ''caller_person_id'' SUuid, required_column ''tool_name'' (SString (Some 64)),
         required_column ''args_hash'' (SString (Some 64)), nullable_column ''client_ua'' (SString (Some 255)),
         required_column ''started_at'' SDateTime, required_column ''outcome'' (SString (Some 16)),
         required_column ''latency_ms'' SBigInteger],
      tb_unique = [],
      tb_checks =
        []\<rparr>"

definition projection_topics :: sql_table where
  "projection_topics =
     \<lparr>tb_name = ''projection_topics'',
      tb_columns =
        [key_column ''tenant_id'' SUuid, key_column ''topic_id'' SUuid,
         required_column ''label'' (SString (Some 256)), required_column ''cluster_signature'' (SString (Some 512)),
         required_column ''cluster_size'' SBigInteger, required_column ''member_message_ids'' SJson,
         required_column ''first_seen_at'' SDateTime, required_column ''last_seen_at'' SDateTime,
         required_column ''confidence'' (SString (Some 8)), required_column ''served_by'' (SString (Some 16)),
         required_column ''last_updated_seq'' SBigInteger],
      tb_unique = [],
      tb_checks =
        []\<rparr>"

definition projection_external_catalog :: sql_table where
  "projection_external_catalog =
     \<lparr>tb_name = ''projection_external_catalog'',
      tb_columns =
        [key_column ''id'' SUuid, required_column ''company_id'' SUuid, required_column ''source_id'' SUuid,
         required_column ''domain_id'' SUuid, required_column ''source_kind'' (SString None),
         required_column ''snapshot_hash'' (SString None), required_column ''table_count'' SInteger,
         required_column ''edge_count'' SInteger, required_column ''metric_count'' SInteger,
         required_column ''import_mode'' (SString None), required_column ''imported_at'' SDateTime],
      tb_unique = [],
      tb_checks =
        [(''import_mode'', [''initial'', ''refresh''])]\<rparr>"

definition projection_external_lineage :: sql_table where
  "projection_external_lineage =
     \<lparr>tb_name = ''projection_external_lineage'',
      tb_columns =
        [key_column ''id'' SUuid, required_column ''company_id'' SUuid, required_column ''source_id'' SUuid,
         required_column ''upstream'' (SString None), required_column ''downstream'' (SString None),
         required_column ''imported_at'' SDateTime],
      tb_unique = [],
      tb_checks =
        []\<rparr>"

definition projection_external_policy :: sql_table where
  "projection_external_policy =
     \<lparr>tb_name = ''projection_external_policy'',
      tb_columns =
        [key_column ''id'' SUuid, required_column ''company_id'' SUuid, required_column ''source_id'' SUuid,
         required_column ''policy_fqn'' (SString None), required_column ''policy_kind'' (SString None),
         nullable_column ''body'' (SString None), default_column ''applied_to'' SJson (PList []),
         required_column ''imported_at'' SDateTime],
      tb_unique = [[''source_id'', ''policy_fqn'']],
      tb_checks =
        [(''policy_kind'', [''masking'', ''row_access''])]\<rparr>"

definition projection_external_metric :: sql_table where
  "projection_external_metric =
     \<lparr>tb_name = ''projection_external_metric'',
      tb_columns =
        [key_column ''id'' SUuid, required_column ''company_id'' SUuid, required_column ''source_id'' SUuid,
         required_column ''name'' (SString None), nullable_column ''expression'' (SString None),
         nullable_column ''time_grain'' (SString None), default_column ''dimensions'' SJson (PList []),
         nullable_column ''description'' (SString None), required_column ''imported_at'' SDateTime],
      tb_unique = [[''source_id'', ''name'']],
      tb_checks =
        []\<rparr>"

definition projection_agent_queries :: sql_table where
  "projection_agent_queries =
     \<lparr>tb_name = ''projection_agent_queries'',
      tb_columns =
        [key_column ''id'' (SString None), required_column ''company_id'' (SString None),
         required_column ''agent_id'' (SString None), required_column ''mcp_tool'' (SString None),
         required_column ''args'' SJson, required_column ''route_mode'' (SString None),
         required_column ''status'' (SString None), nullable_column ''row_count'' SInteger,
         nullable_column ''cost_usd'' (SNumeric 18 4), nullable_column ''latency_ms'' SInteger,
         nullable_column ''caused_by'' (SString None), required_column ''started_at'' SDateTime],
      tb_unique = [],
      tb_checks =
        [(''route_mode'', [''broker'', ''federate'']),
         (''status'', [''propose'', ''execute'', ''verify'', ''resolve'', ''denied''])]\<rparr>"

definition projection_credentials :: sql_table where
  "projection_credentials =
     \<lparr>tb_name = ''projection_credentials'',
      tb_columns =
        [key_column ''id'' (SString None), required_column ''company_id'' (SString None),
         required_column ''agent_id'' (SString None), required_column ''credential_kind'' (SString None),
         required_column ''target'' (SString None), required_column ''status'' (SString None),
         required_column ''ttl_expires_at'' SDateTime, required_column ''issued_by'' (SString None),
         required_column ''issued_at'' SDateTime],
      tb_unique = [],
      tb_checks =
        [(''credential_kind'', [''data'', ''model'']),
         (''status'', [''active'', ''revoked''])]\<rparr>"

definition projection_agents :: sql_table where
  "projection_agents =
     \<lparr>tb_name = ''projection_agents'',
      tb_columns =
        [key_column ''id'' (SString None), required_column ''company_id'' (SString None),
         required_column ''person_id'' (SString None), required_column ''external_provider'' (SString None),
         required_column ''display_name'' (SString None), required_column ''registered_at'' SDateTime,
         required_column ''status'' (SString None)],
      tb_unique = [[''person_id'']],
      tb_checks =
        [(''external_provider'', [''claude'', ''openai'', ''kimi'', ''internal_worm'', ''other'']),
         (''status'', [''active'', ''inactive''])]\<rparr>"

definition projection_agent_grants :: sql_table where
  "projection_agent_grants =
     \<lparr>tb_name = ''projection_agent_grants'',
      tb_columns =
        [key_column ''id'' (SString None), required_column ''company_id'' (SString None),
         required_column ''agent_id'' (SString None), required_column ''grant_kind'' (SString None),
         required_column ''grant_target'' (SString None), required_column ''status'' (SString None),
         required_column ''granted_by'' (SString None), required_column ''granted_at'' SDateTime,
         nullable_column ''budget_remaining_usd'' (SNumeric 18 4)],
      tb_unique = [[''agent_id'', ''grant_kind'', ''grant_target'']],
      tb_checks =
        [(''grant_kind'', [''domain.read'', ''resource.read'', ''resource.maintainer'', ''model.access'']),
         (''status'', [''active'', ''revoked''])]\<rparr>"

definition projection_query_outcomes :: sql_table where
  "projection_query_outcomes =
     \<lparr>tb_name = ''projection_query_outcomes'',
      tb_columns =
        [key_column ''id'' (SString None), required_column ''company_id'' (SString None),
         required_column ''agent_query_id'' (SString None), required_column ''nl_question'' SText,
         required_column ''final_query_spec'' SJson, required_column ''result_summary'' SJson,
         required_column ''used'' SBoolean, required_column ''useful'' SBoolean,
         nullable_column ''user_correction'' SText, required_column ''quality_score'' (SNumeric 6 4),
         nullable_column ''embedding'' SJson, required_column ''recorded_at'' SDateTime],
      tb_unique = [],
      tb_checks =
        []\<rparr>"

definition projection_query_templates :: sql_table where
  "projection_query_templates =
     \<lparr>tb_name = ''projection_query_templates'',
      tb_columns =
        [key_column ''id'' (SString None), required_column ''company_id'' (SString None),
         required_column ''domain_id'' (SString None), required_column ''nl_intent'' SText,
         required_column ''query_spec'' SJson, required_column ''promoted_from_outcome_ids'' SJson,
         required_column ''quality_score'' (SNumeric 6 4), default_column ''hit_count'' SInteger (PInt 0),
         required_column ''promoted_at'' SDateTime],
      tb_unique = [],
      tb_checks =
        []\<rparr>"

definition projection_lineage_edges :: sql_table where
  "projection_lineage_edges =
     \<lparr>tb_name = ''projection_lineage_edges'',
      tb_columns =
        [key_column ''company_id'' (SString None), key_column ''edge_id'' (SString None),
         required_column ''src_table_id'' (SString None), nullable_column ''src_column'' (SString None),
         required_column ''tgt_table_id'' (SString None), nullable_column ''tgt_column'' (SString None),
         required_column ''confidence'' SFloat, required_column ''strategy'' (SString None),
         required_column ''reasoning'' SText, required_column ''evidence'' SJson,
         required_column ''state'' (SString None), required_column ''state_changed_at'' SDateTime,
         nullable_column ''state_changed_by'' (SString None)],
      tb_unique = [],
      tb_checks =
        [(''state'', [''proposed'', ''confirmed'', ''rejected''])]\<rparr>"

definition projection_quality_checks :: sql_table where
  "projection_quality_checks =
     \<lparr>tb_name = ''projection_quality_checks'',
      tb_columns =
        [key_column ''company_id'' (SString None), key_column ''check_id'' (SString None),
         required_column ''table_id'' (SString None), nullable_column ''column'' (SString None),
         required_column ''check_kind'' (SString None), required_column ''config'' SJson,
         required_column ''confidence'' SFloat, required_column ''strategy'' (SString None),
         required_column ''reasoning'' SText, required_column ''evidence'' SJson,
         required_column ''state'' (SString None), required_column ''state_changed_at'' SDateTime,
         nullable_column ''state_changed_by'' (SString None)],
      tb_unique = [],
      tb_checks =
        [(''state'', [''proposed'', ''confirmed'', ''rejected''])]\<rparr>"

definition projection_schema_impacts :: sql_table where
  "projection_schema_impacts =
     \<lparr>tb_name = ''projection_schema_impacts'',
      tb_columns =
        [key_column ''company_id'' (SString None), key_column ''impact_id'' (SString None),
         required_column ''source_id'' (SString None), required_column ''src_table'' (SString None),
         required_column ''src_column'' (SString None), required_column ''change_kind'' (SString None),
         required_column ''impact_kind'' (SString None), required_column ''tgt_table_id'' (SString None),
         required_column ''tgt_column'' (SString None), nullable_column ''upstream_lineage_edge_id'' (SString None),
         required_column ''confidence'' SFloat, required_column ''strategy'' (SString None),
         required_column ''reasoning'' SText, required_column ''evidence'' SJson,
         required_column ''state'' (SString None), required_column ''state_changed_at'' SDateTime,
         nullable_column ''state_changed_by'' (SString None)],
      tb_unique = [],
      tb_checks =
        [(''state'', [''proposed'', ''confirmed'', ''rejected''])]\<rparr>"

definition projection_semantic_types :: sql_table where
  "projection_semantic_types =
     \<lparr>tb_name = ''projection_semantic_types'',
      tb_columns =
        [key_column ''company_id'' (SString None), key_column ''type_id'' (SString None),
         required_column ''table_id'' (SString None), required_column ''column'' (SString None),
         required_column ''semantic_type'' (SString None), required_column ''confidence'' SFloat,
         required_column ''strategy'' (SString None), required_column ''reasoning'' SText,
         required_column ''evidence'' SJson, required_column ''state'' (SString None),
         required_column ''state_changed_at'' SDateTime, nullable_column ''state_changed_by'' (SString None)],
      tb_unique = [],
      tb_checks =
        [(''state'', [''proposed'', ''confirmed'', ''rejected''])]\<rparr>"

definition projection_column_classifications :: sql_table where
  "projection_column_classifications =
     \<lparr>tb_name = ''projection_column_classifications'',
      tb_columns =
        [key_column ''company_id'' (SString None), key_column ''classification_id'' (SString None),
         required_column ''table_id'' (SString None), required_column ''column'' (SString None),
         required_column ''classification_level'' (SString None),
         nullable_column ''upstream_semantic_type_id'' (SString None), required_column ''confidence'' SFloat,
         required_column ''strategy'' (SString None), required_column ''reasoning'' SText,
         required_column ''evidence'' SJson, required_column ''state'' (SString None),
         required_column ''state_changed_at'' SDateTime, nullable_column ''state_changed_by'' (SString None)],
      tb_unique = [],
      tb_checks =
        [(''state'', [''proposed'', ''confirmed'', ''rejected''])]\<rparr>"

definition projection_entity_stitches :: sql_table where
  "projection_entity_stitches =
     \<lparr>tb_name = ''projection_entity_stitches'',
      tb_columns =
        [key_column ''company_id'' (SString None), key_column ''stitch_id'' (SString None),
         required_column ''src_source_id_a'' (SString None), required_column ''src_table_a'' (SString None),
         required_column ''src_column_a'' (SString None), required_column ''src_source_id_b'' (SString None),
         required_column ''src_table_b'' (SString None), required_column ''src_column_b'' (SString None),
         nullable_column ''upstream_semantic_type_id'' (SString None),
         required_column ''entity_kind'' (SString None), required_column ''confidence'' SFloat,
         required_column ''strategy'' (SString None), required_column ''reasoning'' SText,
         required_column ''evidence'' SJson, required_column ''state'' (SString None),
         required_column ''state_changed_at'' SDateTime, nullable_column ''state_changed_by'' (SString None)],
      tb_unique = [],
      tb_checks =
        [(''state'', [''proposed'', ''confirmed'', ''rejected''])]\<rparr>"

definition projection_source_candidates :: sql_table where
  "projection_source_candidates =
     \<lparr>tb_name = ''projection_source_candidates'',
      tb_columns =
        [key_column ''company_id'' (SString None), key_column ''candidate_id'' (SString None),
         required_column ''proposed_kind'' (SString None), required_column ''proposed_identifier'' (SString None),
         nullable_column ''domain_id_hint'' (SString None), required_column ''strategy'' (SString None),
         required_column ''reasoning'' SText, required_column ''confidence'' SFloat,
         required_column ''evidence'' SJson, nullable_column ''downstream_source_proposed_id'' (SString None),
         required_column ''state'' (SString None), required_column ''state_changed_at'' SDateTime,
         nullable_column ''state_changed_by'' (SString None)],
      tb_unique = [],
      tb_checks =
        [(''state'', [''proposed'', ''promoted'', ''rejected''])]\<rparr>"

definition projection_catalog_drifts :: sql_table where
  "projection_catalog_drifts =
     \<lparr>tb_name = ''projection_catalog_drifts'',
      tb_columns =
        [key_column ''company_id'' (SString None), key_column ''drift_id'' (SString None),
         required_column ''source_id'' (SString None), required_column ''table_id'' (SString None),
         nullable_column ''column'' (SString None), required_column ''drift_kind'' (SString None),
         nullable_column ''before'' SJson, nullable_column ''after'' SJson,
         required_column ''strategy'' (SString None), required_column ''reasoning'' SText,
         required_column ''confidence'' SFloat, required_column ''evidence'' SJson,
         required_column ''state'' (SString None), required_column ''state_changed_at'' SDateTime,
         nullable_column ''state_changed_by'' (SString None)],
      tb_unique = [],
      tb_checks =
        [(''state'', [''proposed'', ''acknowledged'', ''rejected'']),
         (''drift_kind'', [''table_added'', ''table_removed'', ''column_added'', ''column_removed'', ''column_type_changed''])]\<rparr>"

definition projection_catalog_tables :: sql_table where
  "projection_catalog_tables =
     \<lparr>tb_name = ''projection_catalog_tables'',
      tb_columns =
        [key_column ''company_id'' (SString None), key_column ''source_id'' (SString None),
         key_column ''table_id'' (SString None), key_column ''snapshot_hash'' (SString None),
         required_column ''columns'' SJson, required_column ''ts'' SDateTime],
      tb_unique = [],
      tb_checks =
        []\<rparr>"

subsection \<open>Inserting rows\<close>

definition column_names :: "sql_table \<Rightarrow> string list" where
  "column_names T = map c_name (tb_columns T)"

definition primary_key :: "sql_table \<Rightarrow> string list" where
  "primary_key T = map c_name (filter c_key (tb_columns T))"

text \<open>The row a dictionary becomes: one value for every column.\<close>

definition stored_row :: "sql_table \<Rightarrow> pydict \<Rightarrow> pydict" where
  "stored_row T row = map (\<lambda>c. (c_name c, dget_or row (c_name c) (c_default c))) (tb_columns T)"

text \<open>A column left out takes its default, a column given \<open>None\<close> is null, except that \<open>None\<close> in a
  JSON column is the JSON value \<open>null\<close>.\<close>

definition null_violation :: "sql_table \<Rightarrow> pydict \<Rightarrow> bool" where
  "null_violation T row =
     list_ex (\<lambda>c. \<not> c_nullable c \<and>
       (case map_of row (c_name c) of
          None \<Rightarrow> c_default c = PNone
        | Some v \<Rightarrow> v = PNone \<and> c_type c \<noteq> SJson)) (tb_columns T)"

definition check_violation :: "sql_table \<Rightarrow> pydict \<Rightarrow> bool" where
  "check_violation T row = list_ex (\<lambda>(n, vs). dget row n \<noteq> PNone \<and> dget row n \<notin> set (map PStr vs)) (tb_checks T)"

definition same_key :: "pydict \<Rightarrow> pydict \<Rightarrow> string list \<Rightarrow> bool" where
  "same_key r r' ks = list_all (\<lambda>k. dget r k \<noteq> PNone \<and> dget r k = dget r' k) ks"

definition key_violation :: "sql_table \<Rightarrow> pydict list \<Rightarrow> pydict \<Rightarrow> bool" where
  "key_violation T old row = list_ex (\<lambda>ks. list_ex (\<lambda>r. same_key row r ks) old) (primary_key T # tb_unique T)"

fun insert_rows :: "sql_table \<Rightarrow> pydict list \<Rightarrow> pydict list \<Rightarrow> exc + pydict list" where
  "insert_rows T [] old = Inr old"
| "insert_rows T (row # rows) old =
     (let r = stored_row T row in
      if null_violation T row \<or> check_violation T r \<or> key_violation T old r then Inl IntegrityError
      else insert_rows T rows (old @ [r]))"

text \<open>The statement is compiled for the names of the first row: an unknown name is refused, and every
  other row must have these names.\<close>

definition sql_insert :: "sql_table \<Rightarrow> pydict list \<Rightarrow> pydict list \<Rightarrow> exc + pydict list" where
  "sql_insert T rows old =
     (case rows of
        [] \<Rightarrow> Inr old
      | row # _ \<Rightarrow>
          (let names = map fst row in
           if \<not> list_all (\<lambda>n. n \<in> set (column_names T)) names then Inl (OtherError ''CompileError'')
           else if \<not> list_all (\<lambda>r. list_all (\<lambda>n. n \<in> set (map fst r)) names) rows then Inl (OtherError ''StatementError'')
           else insert_rows T (map (filter (\<lambda>p. fst p \<in> set names)) rows) old))"

text \<open>An insertion that succeeds keeps the rows there were and adds one stored row for each.\<close>

lemma insert_rows_Inr: "insert_rows T rows old = Inr new \<Longrightarrow> new = old @ map (stored_row T) rows"
proof (induction rows arbitrary: old)
  case (Cons row rows)
  from Cons.prems have "insert_rows T rows (old @ [stored_row T row]) = Inr new"
    by (simp add: Let_def split: if_splits)
  from Cons.IH [OF this] show ?case by simp
qed simp

lemma sql_insert_Inr: "sql_insert T rows old = Inr new \<Longrightarrow> \<exists>stored. new = old @ stored \<and> length stored = length rows"
  by (auto simp: sql_insert_def Let_def split: list.splits if_splits dest!: insert_rows_Inr)

end
