(* ===== verification/Projection_Persist.thy ===== *)
theory Projection_Persist
  imports Projection_Build Schema_Tables
begin

section \<open>Persisting projections (\<open>persist_projections\<close>, \<open>projection_runner.py\<close>)\<close>

text \<open>
  The projections written to the SQL tables: the rows of the company are deleted from every table
  and inserted again from the fold. The runner polls the ledger and does so when rows have come.
\<close>

subsection \<open>\<open>persist_projections\<close>\<close>

text \<open>The projection tables, by the part of their name after \<open>projection_\<close>.\<close>

type_synonym proj_db = "string \<Rightarrow> pydict list"

text \<open>The deletes: the table, the column compared, and whether it is compared with \<open>str(company_id)\<close>.\<close>

definition WIPES :: "(string \<times> string \<times> bool) list" where
  "WIPES =
     [(''sources'', ''company_id'', False), (''memory'', ''company_id'', False), (''kpi_nodes'', ''company_id'', False),
      (''ramp'', ''company_id'', False), (''persons'', ''tenant_id'', False), (''person_identities'', ''tenant_id'', False),
      (''installs'', ''tenant_id'', False), (''setup_progress'', ''tenant_id'', False), (''roles'', ''tenant_id'', False),
      (''data_products'', ''tenant_id'', False), (''data_product_runs'', ''tenant_id'', False),
      (''data_product_consumption'', ''tenant_id'', False), (''notebooks'', ''tenant_id'', False),
      (''notebook_runs'', ''tenant_id'', False), (''mcp_calls'', ''tenant_id'', False), (''topics'', ''tenant_id'', False),
      (''external_catalog'', ''company_id'', False), (''external_lineage'', ''company_id'', False),
      (''external_policy'', ''company_id'', False), (''external_metric'', ''company_id'', False),
      (''agents'', ''company_id'', True), (''agent_grants'', ''company_id'', True), (''agent_queries'', ''company_id'', True),
      (''credentials'', ''company_id'', True), (''query_outcomes'', ''company_id'', True),
      (''query_templates'', ''company_id'', True), (''lineage_edges'', ''company_id'', True),
      (''quality_checks'', ''company_id'', True), (''schema_impacts'', ''company_id'', True),
      (''semantic_types'', ''company_id'', True), (''column_classifications'', ''company_id'', True),
      (''entity_stitches'', ''company_id'', True), (''source_candidates'', ''company_id'', True),
      (''catalog_drifts'', ''company_id'', True), (''catalog_tables'', ''company_id'', True)]"

definition scope_value :: "uuid \<Rightarrow> bool \<Rightarrow> pyval" where
  "scope_value c as_text = (if as_text then PStr c else PUuid c)"

definition wipe :: "uuid \<Rightarrow> string \<times> string \<times> bool \<Rightarrow> proj_db \<Rightarrow> proj_db" where
  "wipe c w db = (case w of (n, col, as_text) \<Rightarrow> db(n := filter (\<lambda>r. dget r col \<noteq> scope_value c as_text) (db n)))"

definition wipe_all :: "uuid \<Rightarrow> proj_db \<Rightarrow> proj_db" where
  "wipe_all c db = fold (wipe c) WIPES db"

text \<open>The inserts: the tables in order and the rows of each.\<close>

definition INSERTS :: "(string \<times> sql_table) list" where
  "INSERTS =
     [(''sources'', projection_sources), (''memory'', projection_memory), (''kpi_nodes'', projection_kpi_nodes),
      (''ramp'', projection_ramp), (''persons'', projection_persons), (''person_identities'', projection_person_identities),
      (''installs'', projection_installs), (''setup_progress'', projection_setup_progress), (''roles'', projection_roles),
      (''data_products'', projection_data_products), (''data_product_runs'', projection_data_product_runs),
      (''data_product_consumption'', projection_data_product_consumption), (''notebooks'', projection_notebooks),
      (''notebook_runs'', projection_notebook_runs), (''mcp_calls'', projection_mcp_calls), (''topics'', projection_topics),
      (''external_catalog'', projection_external_catalog), (''external_lineage'', projection_external_lineage),
      (''external_policy'', projection_external_policy), (''external_metric'', projection_external_metric),
      (''agents'', projection_agents), (''agent_grants'', projection_agent_grants),
      (''agent_queries'', projection_agent_queries), (''credentials'', projection_credentials),
      (''query_outcomes'', projection_query_outcomes), (''query_templates'', projection_query_templates),
      (''lineage_edges'', projection_lineage_edges), (''quality_checks'', projection_quality_checks),
      (''schema_impacts'', projection_schema_impacts), (''semantic_types'', projection_semantic_types),
      (''column_classifications'', projection_column_classifications), (''entity_stitches'', projection_entity_stitches),
      (''source_candidates'', projection_source_candidates), (''catalog_drifts'', projection_catalog_drifts),
      (''catalog_tables'', projection_catalog_tables)]"

definition ramp_rows_for_persist :: "uuid \<Rightarrow> pydict list \<Rightarrow> pyval \<Rightarrow> exc + pydict list" where
  "ramp_rows_for_persist c ramp now =
     rmap (\<lambda>r. dict_of [(''company_id'', Inr (PUuid c)), (''axis'', vitem (PDict r) ''axis''),
       (''value'', vitem (PDict r) ''value''), (''as_of'', Inr now)]) ramp"

definition kpi_node_rows_for_persist :: "uuid \<Rightarrow> pydict list \<Rightarrow> exc + pydict list" where
  "kpi_node_rows_for_persist c nodes =
     rmap (\<lambda>n. dict_of
       [(''company_id'', Inr (PUuid c)), (''node_id'', Inr (py_or (dget n ''node_id'') (dget n ''id''))),
        (''name'', vitem (PDict n) ''name''), (''domain_id'', Inr (dget n ''domain_id'')),
        (''owner_person_id'', Inr (dget n ''owner_person_id'')), (''parent_node_id'', Inr (dget n ''parent_node_id'')),
        (''source_resource_id'', Inr (dget n ''source_resource_id'')),
        (''metric_type'', Inr (dget_or n ''metric_type'' (PStr ''other''))),
        (''confidence'', Inr (dget_or n ''confidence'' (PStr ''proposed'')))]) nodes"

definition persist_rows :: "uuid \<Rightarrow> pyval \<Rightarrow> projections \<Rightarrow> string \<Rightarrow> exc + pydict list" where
  "persist_rows c now p n =
     (if n \<in> {''sources'', ''memory''} then Inr (map (dict_merge [(''company_id'', PUuid c)]) (p n))
      else if n = ''kpi_nodes'' then kpi_node_rows_for_persist c (p n)
      else if n = ''ramp'' then ramp_rows_for_persist c (p n) now
      else if n = ''topics'' then Inr (map (dict_merge [(''tenant_id'', PUuid c)]) (p n))
      else Inr (p n))"

fun insert_all :: "uuid \<Rightarrow> pyval \<Rightarrow> projections \<Rightarrow> (string \<times> sql_table) list \<Rightarrow> proj_db \<Rightarrow> exc + proj_db" where
  "insert_all c now p [] db = Inr db"
| "insert_all c now p ((n, T) # ts) db =
     rbind (persist_rows c now p n) (\<lambda>rows.
     rbind (sql_insert T rows (db n)) (\<lambda>t. insert_all c now p ts (db(n := t))))"

definition persist_projections :: "uuid \<Rightarrow> projections \<Rightarrow> pyval \<Rightarrow> proj_db \<Rightarrow> exc + proj_db" where
  "persist_projections c p now db = insert_all c now p INSERTS (wipe_all c db)"

subsection \<open>\<open>ProjectionRunner\<close>\<close>

record projection_runner =
  pr_last_seq :: int
  pr_last_hash :: "bytes option"

definition pr_init :: projection_runner where
  "pr_init = \<lparr>pr_last_seq = 0, pr_last_hash = None\<rparr>"

text \<open>The build and the persist of one pass, the latter in a transaction: \<open>s\<close> is the database when
  the projections are built, \<open>now\<close> the clock, and \<open>fault\<close> an error of the connection, if there is one.\<close>

record 'db pass_env =
  pe_fetched :: "'db session"
  pe_built :: "'db session"
  pe_now :: pyval
  pe_fault :: "exc option"

definition rebuild :: "fold_lib \<Rightarrow> 'db backend \<Rightarrow> uuid \<Rightarrow> 'db pass_env \<Rightarrow> proj_db \<Rightarrow> exc + proj_db" where
  "rebuild F B c env db =
     (case pe_fault env of
        Some x \<Rightarrow> Inl x
      | None \<Rightarrow> rbind (build_projections F B (pe_built env) c None) (\<lambda>p. persist_projections c p (pe_now env) db))"

definition projection_reset :: "projection_runner \<Rightarrow> entry list \<Rightarrow> bool" where
  "projection_reset r rows =
     (let max_seq = Max (set (map e_seq rows)) in
      if max_seq < pr_last_seq r then True
      else if pr_last_seq r > 0 \<and> pr_last_hash r \<noteq> None
      then (case find (\<lambda>x. e_seq x = pr_last_seq r) rows of
          None \<Rightarrow> False
        | Some row \<Rightarrow> Some (e_hash row) \<noteq> pr_last_hash r)
      else False)"

text \<open>\<open>run_once\<close>: an exception leaves the tables to the rollback and the cursor as it was set.\<close>

definition projection_run_once :: "fold_lib \<Rightarrow> 'db backend \<Rightarrow> uuid \<Rightarrow> 'db pass_env
    \<Rightarrow> projection_runner \<times> proj_db \<Rightarrow> (exc + int) \<times> projection_runner \<times> proj_db" where
  "projection_run_once F B c env w =
     (case w of (r, db) \<Rightarrow>
      let rows = fetch_entries B (pe_fetched env) c None in
      if rows = [] then
        (if pr_last_seq r \<noteq> 0
         then (case rebuild F B c env db of
             Inl x \<Rightarrow> (Inl x, pr_init, db)
           | Inr db' \<Rightarrow> (Inr 0, pr_init, db'))
         else (Inr 0, r, db))
      else
        (let max_seq = Max (set (map e_seq rows));
             reset = projection_reset r rows;
             r1 = (if reset then pr_init else r);
             new_count = length (filter (\<lambda>x. e_seq x > pr_last_seq r1) rows)
         in if new_count = 0 \<and> max_seq = pr_last_seq r1 \<and> \<not> reset then (Inr 0, r1, db)
            else (case rebuild F B c env db of
                Inl x \<Rightarrow> (Inl x, r1, db)
              | Inr db' \<Rightarrow>
                  (Inr (max (int new_count) (of_bool reset)),
                   \<lparr>pr_last_seq = max_seq, pr_last_hash = map_option e_hash (find (\<lambda>x. e_seq x = max_seq) rows)\<rparr>, db'))))"

text \<open>\<open>run_forever\<close>: it refuses an old schema (a version it cannot read counts as the required one)
  and then runs a pass after another, whatever a pass raises.\<close>

definition schema_precondition :: "int \<Rightarrow> exc + int \<Rightarrow> exc + unit" where
  "schema_precondition required version =
     (case version of
        Inl _ \<Rightarrow> Inr ()
      | Inr v \<Rightarrow> if v < required then Inl (OtherError ''RuntimeError'') else Inr ())"

definition run_passes :: "fold_lib \<Rightarrow> 'db backend \<Rightarrow> uuid \<Rightarrow> int \<Rightarrow> exc + int \<Rightarrow> 'db pass_env list
    \<Rightarrow> proj_db \<Rightarrow> exc + projection_runner \<times> proj_db" where
  "run_passes F B c required version envs db =
     rbind (schema_precondition required version) (\<lambda>_.
     Inr (fold (\<lambda>env w. snd (projection_run_once F B c env w)) envs (pr_init, db)))"

end
