(* ===== verification/Projection_Fit.thy ===== *)
theory Projection_Fit
  imports Projection_Lifecycle Projection_Persist Projection_Demo
begin

section \<open>The rows of the fold fit their tables\<close>

text \<open>
  Every row the fold files under a table has the same fields in the same order, whatever entry filed
  or updated it, and these are columns of the SQL table. As in the frames, the proof goes operation
  by operation: \<open>fits n ns m\<close> says that \<open>m\<close> keeps every row of table \<open>n\<close> at the names \<open>ns\<close>.
\<close>

subsection \<open>Operations that keep the names\<close>

named_theorems fits_intros \<open>Operations of the fold that keep the names of the rows of a table\<close>

definition named :: "string list \<Rightarrow> table \<Rightarrow> bool" where
  "named ns t = list_all (\<lambda>p. map fst (snd p) = ns) t"

definition fits :: "string \<Rightarrow> string list \<Rightarrow> (proj_state \<Rightarrow> exc + proj_state) \<Rightarrow> bool" where
  "fits n ns m = (\<forall>st st'. m st = Inr st' \<longrightarrow> named ns (pj_tables st n) \<longrightarrow> named ns (pj_tables st' n))"

lemma fits_other: "touches T m \<Longrightarrow> n \<notin> T \<Longrightarrow> fits n ns m"
  unfolding touches_def fits_def by metis

lemma fits_skip [fits_intros]: "fits n ns Inr" "fits n ns (\<lambda>st. Inr st)" "fits n ns (\<lambda>st. Inl x)"
  by (simp_all add: fits_def)

lemma named_put [simp]: "map fst r = ns \<Longrightarrow> named ns t \<Longrightarrow> named ns (put_row k r t)"
  by (induction t) (auto simp: named_def)

lemma fits_set_row [fits_intros]: "map fst r = ns \<Longrightarrow> fits n ns (set_row n k r)"
  by (auto simp: fits_def set_row_def set_table_def split: if_splits)

lemma fits_seq [fits_intros]: "fits n ns m \<Longrightarrow> fits n ns g \<Longrightarrow> fits n ns (\<lambda>st. rbind (m st) g)"
  unfolding fits_def rbind_Inr_iff by blast

lemma fits_bind [fits_intros]: "(\<And>v. fits n ns (\<lambda>st. g v st)) \<Longrightarrow> fits n ns (\<lambda>st. rbind (m st) (\<lambda>v. g v st))"
  unfolding fits_def rbind_Inr_iff by blast

lemma fits_if [fits_intros]:
  "fits n ns (\<lambda>st. f st) \<Longrightarrow> fits n ns (\<lambda>st. g st) \<Longrightarrow> fits n ns (\<lambda>st. if b st then f st else g st)"
  by (simp add: fits_def)

lemma fits_dict [fits_intros]:
  "(\<And>d. fits n ns (\<lambda>st. g d st)) \<Longrightarrow> fits n ns (\<lambda>st. case a of PDict d \<Rightarrow> g d st | _ \<Rightarrow> Inl x)"
  by (cases a) (simp_all add: fits_skip)

lemma dict_of_names: "dict_of fs = Inr d \<Longrightarrow> map fst d = map fst fs"
  by (induction fs arbitrary: d rule: dict_of.induct) (auto simp: rbind_Inr_iff)

lemma fits_new_row [fits_intros]:
  assumes "\<And>row. map fst row = map fst fs \<Longrightarrow> fits n ns (\<lambda>st. g row st)"
  shows "fits n ns (\<lambda>st. rbind (dict_of fs) (\<lambda>row. g row st))"
  using assms dict_of_names unfolding fits_def rbind_Inr_iff by blast

lemma named_find: "find_row k t = Some row \<Longrightarrow> named ns t \<Longrightarrow> map fst row = ns"
  by (induction t) (auto simp: named_def split: if_splits)

lemma fits_get_row [fits_intros]:
  assumes "fits n ns (\<lambda>st. g None st)" and "\<And>row. map fst row = ns \<Longrightarrow> fits n ns (\<lambda>st. g (Some row) st)"
  shows "fits n ns (\<lambda>st. rbind (get_row n k st) (\<lambda>r. g r st))"
  unfolding fits_def
proof (intro allI impI)
  fix st st'
  assume run: "rbind (get_row n k st) (\<lambda>r. g r st) = Inr st'" and t: "named ns (pj_tables st n)"
  then have "g (find_row k (pj_tables st n)) st = Inr st'"
    by (auto simp: get_row_def split: if_splits)
  then have run: "g (find_row k (pj_tables st n)) st = Inr st'" by simp
  show "named ns (pj_tables st' n)"
  proof (cases "find_row k (pj_tables st n)")
    case None
    with run assms(1) t show ?thesis by (auto simp: fits_def)
  next
    case (Some row)
    from assms(2) [OF named_find [OF Some t]] run Some t show ?thesis by (auto simp: fits_def)
  qed
qed

text \<open>Names already there stay where they are.\<close>

lemma merge_names: "set (map fst e) \<subseteq> set (map fst d) \<Longrightarrow> map fst (dict_merge d e) = map fst d"
proof (induction e arbitrary: d)
  case (Cons p e)
  have keep: "k \<in> fst ` set d \<Longrightarrow> map fst (AList.update k v d) = map fst d" for k v
    by (induction d) auto
  obtain k v where p: "p = (k, v)" by fastforce
  from Cons.prems have "map fst (AList.update k v d) = map fst d" by (intro keep) (auto simp: p)
  with Cons.IH [of "AList.update k v d"] Cons.prems show ?case by (simp add: dict_merge_def p)
qed (simp add: dict_merge_def)

lemma fits_update_row [fits_intros]:
  assumes "\<And>row d. map fst (row :: pydict) = ns \<Longrightarrow> f row = Inr d \<Longrightarrow> list_all (\<lambda>k. k \<in> set ns) (map fst d)"
  shows "fits n ns (update_row n k f)"
  unfolding update_row_def [abs_def]
proof (rule fits_get_row)
  fix row :: pydict
  assume row: "map fst row = ns"
  have "fits n ns (\<lambda>st. rbind (f row) (\<lambda>d. set_row n k (dict_merge row d) st))"
    unfolding fits_def rbind_Inr_iff
  proof (intro allI impI, elim exE conjE)
    fix st st' d
    assume d: "f row = Inr d" and run: "set_row n k (dict_merge row d) st = Inr st'" and t: "named ns (pj_tables st n)"
    from assms [OF row d] have "set (map fst d) \<subseteq> set (map fst row)" unfolding row by (auto simp: list_all_iff)
    from merge_names [OF this] row have "map fst (dict_merge row d) = ns" by simp
    from fits_set_row [OF this] run t show "named ns (pj_tables st' n)" by (auto simp: fits_def)
  qed
  then show "fits n ns (\<lambda>st. case Some row of None \<Rightarrow> Inr st | Some row \<Rightarrow> rbind (f row) (\<lambda>d. set_row n k (dict_merge row d) st))"
    by simp
qed (simp add: fits_skip)

lemma fits_set_default [fits_intros]: "map fst r = ns \<Longrightarrow> fits n ns (set_default n k r)"
  unfolding set_default_def [abs_def] by (rule fits_get_row) (simp_all add: fits_skip fits_set_row)

lemma fits_set_table [fits_intros]: "(\<And>t. named ns t \<Longrightarrow> named ns (f t)) \<Longrightarrow> fits n ns (\<lambda>st. Inr (set_table n f st))"
  by (simp add: fits_def set_table_def)

lemma named_update_first:
  "(\<And>row. map fst row = ns \<Longrightarrow> map fst (f row) = ns) \<Longrightarrow> named ns t \<Longrightarrow> named ns (update_first P f t)"
  by (induction t) (auto simp: named_def)

lemma named_map:
  "(\<And>k row. map fst row = ns \<Longrightarrow> map fst (snd (g (k, row))) = ns) \<Longrightarrow> named ns t \<Longrightarrow> named ns (map g t)"
  by (induction t) (auto simp: named_def)

lemma named_filter: "named ns t \<Longrightarrow> named ns (filter P t)"
  by (induction t) (auto simp: named_def)

subsection \<open>The names of every table\<close>

definition sources_names :: "string list" where
  "sources_names =
     [''source_id'', ''status'', ''kind'', ''uri'', ''classification'', ''domain_id'', ''added_by_person'',
      ''added_via_flow'', ''added_at'', ''last_entry_hash'']"

definition persons_names :: "string list" where
  "persons_names =
     [''person_id'', ''tenant_id'', ''name'', ''email'', ''position'', ''status'', ''proposed_by'', ''confirmed_by'',
      ''created_at'', ''last_updated_seq'']"

definition person_identities_names :: "string list" where
  "person_identities_names =
     [''identity_id'', ''person_id'', ''tenant_id'', ''platform'', ''platform_user_id'', ''display_name'',
      ''email_at_platform'', ''avatar_url'', ''added_at'']"

definition installs_names :: "string list" where
  "installs_names =
     [''install_id'', ''tenant_id'', ''platform'', ''installer_person_id'', ''oauth_grant_ref'', ''scopes'',
      ''bot_user_id'', ''status'', ''installed_at'', ''setup_mode'', ''setup_completed_at'', ''last_updated_seq'']"

definition setup_progress_names :: "string list" where
  "setup_progress_names =
     [''tenant_id'', ''current_step'', ''steps_completed'', ''last_advance_seq'', ''last_advance_ts'']"

definition roles_names :: "string list" where
  "roles_names =
     [''grant_id'', ''tenant_id'', ''person_id'', ''facet'', ''role'', ''scope_id'', ''scope_type'', ''granted_by'',
      ''granted_at'', ''revoked_at'', ''last_updated_seq'']"

definition data_products_names :: "string list" where
  "data_products_names =
     [''data_product_id'', ''tenant_id'', ''name'', ''kind'', ''status'', ''requested_by_person_id'', ''domain_id'',
      ''latest_run_seq'', ''generated_at'', ''content_hash'', ''contents_uri'', ''last_updated_seq'']"

definition data_product_runs_names :: "string list" where
  "data_product_runs_names =
     [''run_id'', ''data_product_id'', ''tenant_id'', ''generated_by'', ''ts'', ''source_hashes'', ''content_hash'',
      ''duration_ms'']"

definition data_product_consumption_names :: "string list" where
  "data_product_consumption_names =
     [''consumption_id'', ''data_product_id'', ''tenant_id'', ''person_id'', ''surface'', ''channel'', ''ts'']"

definition notebooks_names :: "string list" where
  "notebooks_names =
     [''notebook_id'', ''tenant_id'', ''name'', ''kernel'', ''status'', ''owner_person_id'', ''domain_id'',
      ''latest_run_id'', ''latest_published_run_id'', ''version'', ''last_updated_seq'', ''_cells'']"

definition notebook_runs_names :: "string list" where
  "notebook_runs_names =
     [''run_id'', ''notebook_id'', ''tenant_id'', ''status'', ''ts'', ''run_by'', ''kernel_state_hash'',
      ''duration_ms'']"

definition mcp_calls_names :: "string list" where
  "mcp_calls_names =
     [''mcp_call_id'', ''tenant_id'', ''caller_person_id'', ''tool_name'', ''args_hash'', ''client_ua'',
      ''started_at'', ''outcome'', ''latency_ms'']"

definition topics_names :: "string list" where
  "topics_names =
     [''topic_id'', ''label'', ''cluster_signature'', ''cluster_size'', ''member_message_ids'', ''first_seen_at'',
      ''last_seen_at'', ''confidence'', ''served_by'', ''last_updated_seq'']"

definition external_catalog_names :: "string list" where
  "external_catalog_names =
     [''id'', ''company_id'', ''source_id'', ''domain_id'', ''source_kind'', ''snapshot_hash'', ''table_count'',
      ''edge_count'', ''metric_count'', ''import_mode'', ''imported_at'']"

definition external_lineage_names :: "string list" where
  "external_lineage_names =
     [''id'', ''company_id'', ''source_id'', ''upstream'', ''downstream'', ''imported_at'']"

definition external_policy_names :: "string list" where
  "external_policy_names =
     [''id'', ''company_id'', ''source_id'', ''policy_fqn'', ''policy_kind'', ''body'', ''applied_to'',
      ''imported_at'']"

definition external_metric_names :: "string list" where
  "external_metric_names =
     [''id'', ''company_id'', ''source_id'', ''name'', ''expression'', ''time_grain'', ''dimensions'',
      ''description'', ''imported_at'']"

definition agent_queries_names :: "string list" where
  "agent_queries_names =
     [''id'', ''company_id'', ''agent_id'', ''mcp_tool'', ''args'', ''route_mode'', ''status'', ''row_count'',
      ''cost_usd'', ''latency_ms'', ''caused_by'', ''started_at'']"

definition credentials_names :: "string list" where
  "credentials_names =
     [''id'', ''company_id'', ''agent_id'', ''credential_kind'', ''target'', ''status'', ''ttl_expires_at'',
      ''issued_by'', ''issued_at'']"

definition agents_names :: "string list" where
  "agents_names =
     [''id'', ''company_id'', ''person_id'', ''external_provider'', ''display_name'', ''registered_at'', ''status'']"

definition agent_grants_names :: "string list" where
  "agent_grants_names =
     [''id'', ''company_id'', ''agent_id'', ''grant_kind'', ''grant_target'', ''status'', ''granted_by'',
      ''granted_at'', ''budget_remaining_usd'']"

definition query_outcomes_names :: "string list" where
  "query_outcomes_names =
     [''id'', ''company_id'', ''agent_query_id'', ''nl_question'', ''final_query_spec'', ''result_summary'',
      ''used'', ''useful'', ''user_correction'', ''quality_score'', ''embedding'', ''recorded_at'']"

definition query_templates_names :: "string list" where
  "query_templates_names =
     [''id'', ''company_id'', ''domain_id'', ''nl_intent'', ''query_spec'', ''promoted_from_outcome_ids'',
      ''quality_score'', ''hit_count'', ''promoted_at'']"

definition lineage_edges_names :: "string list" where
  "lineage_edges_names =
     [''company_id'', ''edge_id'', ''src_table_id'', ''src_column'', ''tgt_table_id'', ''tgt_column'',
      ''confidence'', ''strategy'', ''reasoning'', ''evidence'', ''state'', ''state_changed_at'', ''state_changed_by'']"

definition quality_checks_names :: "string list" where
  "quality_checks_names =
     [''company_id'', ''check_id'', ''table_id'', ''column'', ''check_kind'', ''config'', ''confidence'',
      ''strategy'', ''reasoning'', ''evidence'', ''state'', ''state_changed_at'', ''state_changed_by'']"

definition schema_impacts_names :: "string list" where
  "schema_impacts_names =
     [''company_id'', ''impact_id'', ''source_id'', ''src_table'', ''src_column'', ''change_kind'', ''impact_kind'',
      ''tgt_table_id'', ''tgt_column'', ''upstream_lineage_edge_id'', ''confidence'', ''strategy'', ''reasoning'',
      ''evidence'', ''state'', ''state_changed_at'', ''state_changed_by'']"

definition semantic_types_names :: "string list" where
  "semantic_types_names =
     [''company_id'', ''type_id'', ''table_id'', ''column'', ''semantic_type'', ''confidence'', ''strategy'',
      ''reasoning'', ''evidence'', ''state'', ''state_changed_at'', ''state_changed_by'']"

definition column_classifications_names :: "string list" where
  "column_classifications_names =
     [''company_id'', ''classification_id'', ''table_id'', ''column'', ''classification_level'',
      ''upstream_semantic_type_id'', ''confidence'', ''strategy'', ''reasoning'', ''evidence'', ''state'',
      ''state_changed_at'', ''state_changed_by'']"

definition entity_stitches_names :: "string list" where
  "entity_stitches_names =
     [''company_id'', ''stitch_id'', ''src_source_id_a'', ''src_table_a'', ''src_column_a'', ''src_source_id_b'',
      ''src_table_b'', ''src_column_b'', ''upstream_semantic_type_id'', ''entity_kind'', ''confidence'',
      ''strategy'', ''reasoning'', ''evidence'', ''state'', ''state_changed_at'', ''state_changed_by'']"

definition source_candidates_names :: "string list" where
  "source_candidates_names =
     [''company_id'', ''candidate_id'', ''proposed_kind'', ''proposed_identifier'', ''domain_id_hint'', ''strategy'',
      ''reasoning'', ''confidence'', ''evidence'', ''downstream_source_proposed_id'', ''state'',
      ''state_changed_at'', ''state_changed_by'']"

definition catalog_drifts_names :: "string list" where
  "catalog_drifts_names =
     [''company_id'', ''drift_id'', ''source_id'', ''table_id'', ''column'', ''drift_kind'', ''before'', ''after'',
      ''strategy'', ''reasoning'', ''confidence'', ''evidence'', ''state'', ''state_changed_at'', ''state_changed_by'']"

definition catalog_tables_names :: "string list" where
  "catalog_tables_names =
     [''company_id'', ''source_id'', ''table_id'', ''snapshot_hash'', ''columns'', ''ts'']"

definition FOLD_NAMES :: "(string \<times> string list) list" where
  "FOLD_NAMES =
     [(''sources'', sources_names), (''persons'', persons_names), (''person_identities'', person_identities_names),
      (''installs'', installs_names), (''setup_progress'', setup_progress_names), (''roles'', roles_names),
      (''data_products'', data_products_names), (''data_product_runs'', data_product_runs_names),
      (''data_product_consumption'', data_product_consumption_names), (''notebooks'', notebooks_names),
      (''notebook_runs'', notebook_runs_names), (''mcp_calls'', mcp_calls_names), (''topics'', topics_names),
      (''external_catalog'', external_catalog_names), (''external_lineage'', external_lineage_names),
      (''external_policy'', external_policy_names), (''external_metric'', external_metric_names),
      (''agent_queries'', agent_queries_names), (''credentials'', credentials_names), (''agents'', agents_names),
      (''agent_grants'', agent_grants_names), (''query_outcomes'', query_outcomes_names),
      (''query_templates'', query_templates_names), (''lineage_edges'', lineage_edges_names),
      (''quality_checks'', quality_checks_names), (''schema_impacts'', schema_impacts_names),
      (''semantic_types'', semantic_types_names), (''column_classifications'', column_classifications_names),
      (''entity_stitches'', entity_stitches_names), (''source_candidates'', source_candidates_names),
      (''catalog_drifts'', catalog_drifts_names), (''catalog_tables'', catalog_tables_names)]"

lemmas names_defs =
  sources_names_def persons_names_def person_identities_names_def installs_names_def setup_progress_names_def
  roles_names_def data_products_names_def data_product_runs_names_def data_product_consumption_names_def
  notebooks_names_def notebook_runs_names_def mcp_calls_names_def topics_names_def external_catalog_names_def
  external_lineage_names_def external_policy_names_def external_metric_names_def agent_queries_names_def
  credentials_names_def agents_names_def agent_grants_names_def query_outcomes_names_def
  query_templates_names_def lineage_edges_names_def quality_checks_names_def schema_impacts_names_def
  semantic_types_names_def column_classifications_names_def entity_stitches_names_def source_candidates_names_def
  catalog_drifts_names_def catalog_tables_names_def


subsection \<open>The handlers\<close>

lemma fits_elsewhere:
  "n' \<noteq> n \<Longrightarrow> fits n ns (set_row n' k r)" "n' \<noteq> n \<Longrightarrow> fits n ns (update_row n' k f)"
  "n' \<noteq> n \<Longrightarrow> fits n ns (set_default n' k r)"
proof -
  assume "n' \<noteq> n"
  then have "n \<notin> {n'}" by simp
  then show "fits n ns (set_row n' k r)" "fits n ns (update_row n' k f)" "fits n ns (set_default n' k r)"
    by (blast intro: fits_other touches_set_table touches_update_row touches_set_default)+
qed

lemma fits_update_fields:
  assumes "\<And>row. list_all (\<lambda>k. k \<in> set ns) (map fst (fs row))"
  shows "fits n ns (update_row n k (\<lambda>row. dict_of (fs row)))"
  using assms by (intro fits_update_row) (simp add: dict_of_names)

text \<open>The rules in the order they are tried.\<close>

lemmas fits_rules = fits_new_row fits_get_row fits_update_fields fits_set_row fits_set_default fits_seq fits_if fits_dict
  fits_bind fits_skip

lemma fits_sources:
  "fits ''sources'' sources_names (source_proposed F e a)" "fits ''sources'' sources_names (source_confirmed F e a)"
  "fits ''sources'' sources_names (source_connected F e a)" "fits ''sources'' sources_names (source_profiled F e a)"
  unfolding source_proposed_def [abs_def] source_confirmed_def [abs_def] source_connected_def [abs_def] source_profiled_def [abs_def]
  by ((rule fits_rules)+, simp add: names_defs)+

lemma fits_persons:
  "fits ''persons'' persons_names (person_confirmed F e a)" "fits ''persons'' persons_names (person_archived F e a)"
  "fits ''persons'' persons_names (position_proposed F e a)"
  unfolding person_confirmed_def [abs_def] person_archived_def [abs_def] position_proposed_def [abs_def]
  by ((rule fits_rules)+, simp add: names_defs)+

lemma fits_position_rejected: "fits ''persons'' persons_names (position_rejected F e a)"
  unfolding position_rejected_def [abs_def]
proof ((rule fits_bind)+, rule fits_update_row)
  fix rejected row d
  assume "(if py_eq (dget row ''position'') rejected then dict_of [(''position'', null), (''last_updated_seq'', seq_of e)] else Inr []) = Inr d"
  then have "dict_of [(''position'', null), (''last_updated_seq'', seq_of e)] = Inr d \<or> d = []"
    by (cases "py_eq (dget row ''position'') rejected") (simp_all only: if_True if_False sum.inject simp_thms)
  with dict_of_names [of "[(''position'', null), (''last_updated_seq'', seq_of e)]" d]
  have "map fst d = [''position'', ''last_updated_seq''] \<or> d = []" by (auto simp del: dict_of.simps)
  then show "list_all (\<lambda>k. k \<in> set persons_names) (map fst d)"
    by (elim disjE) (simp_all add: names_defs)
qed

lemma fits_first_identity: "fits ''person_identities'' person_identities_names (first_identity F e a)"
  unfolding first_identity_def [abs_def] by (rule fits_rules)+ (simp add: names_defs)

lemma fits_person_proposed:
  "fits ''persons'' persons_names (person_proposed F e a)"
  "fits ''person_identities'' person_identities_names (person_proposed F e a)"
proof -
  have "fits ''persons'' persons_names (first_identity F e a)"
    by (rule fits_other [OF frame_first_identity [of "{''person_identities''}"]]) simp_all
  then show "fits ''persons'' persons_names (person_proposed F e a)"
    unfolding person_proposed_def [abs_def] by - (rule fits_rules | assumption | simp add: names_defs)+
  show "fits ''person_identities'' person_identities_names (person_proposed F e a)"
    unfolding person_proposed_def [abs_def]
    by (rule fits_rules fits_elsewhere fits_first_identity | simp)+
qed

lemma fits_identities:
  "fits ''person_identities'' person_identities_names (identity_linked F e a)"
  "fits ''person_identities'' person_identities_names (identity_unlinked F e a)"
  unfolding identity_linked_def [abs_def] identity_unlinked_def [abs_def] Let_def
  by ((rule fits_rules)+, simp add: names_defs) ((rule fits_rules fits_set_table)+, erule named_filter, rule fits_skip)

lemma fits_installs:
  "fits ''installs'' installs_names (install_completed F e a)" "fits ''installs'' installs_names (install_revoked F e a)"
  "fits ''installs'' installs_names (setup_mode_chosen F e a)" "fits ''installs'' installs_names (setup_completed F e a)"
  unfolding install_completed_def [abs_def] install_revoked_def [abs_def] setup_mode_chosen_def [abs_def]
    setup_completed_def [abs_def] Let_def
     apply ((rule fits_rules)+, simp add: names_defs)+
    apply ((rule fits_bind fits_set_table)+, erule named_update_first [rotated], simp add: merge_names names_defs)
   apply ((rule fits_bind fits_set_table)+, erule named_map [rotated], simp add: merge_names names_defs)
  apply ((rule fits_bind fits_set_table)+, erule named_map [rotated], simp add: merge_names names_defs)
  done

lemma fits_setup: "fits ''setup_progress'' setup_progress_names (setup_step_advanced F e a)"
  unfolding setup_step_advanced_def [abs_def] Let_def
  by ((rule fits_rules)+, simp add: names_defs, simp only: option.case if_cancel, (rule fits_rules)+,
      simp add: names_defs merge_names)

lemma fits_roles:
  "fits ''roles'' roles_names (role_assigned F e a)" "fits ''roles'' roles_names (domain_role_assigned F e a)"
  "fits ''roles'' roles_names (resource_role_assigned F e a)" "fits ''roles'' roles_names (resource_role_proposed F e a)"
  unfolding role_assigned_def [abs_def] domain_role_assigned_def [abs_def] resource_role_assigned_def [abs_def]
    resource_role_proposed_def [abs_def] role_row_def
  by ((rule fits_rules)+, simp add: names_defs)+

lemma fits_role_revoked: "fits ''roles'' roles_names (role_revoked F e a)"
  unfolding role_revoked_def [abs_def]
  by ((rule fits_bind fits_set_table)+, erule named_update_first [rotated], simp add: merge_names names_defs)

lemma fits_products:
  "fits ''data_products'' data_products_names (data_product_proposed F e a)"
  "fits ''data_products'' data_products_names (data_product_generated F e a)"
  "fits ''data_product_runs'' data_product_runs_names (data_product_generated F e a)"
  "fits ''data_product_consumption'' data_product_consumption_names (data_product_consumed F e a)"
  "fits ''data_products'' data_products_names (data_product_archived F e a)"
  unfolding data_product_proposed_def [abs_def] data_product_generated_def [abs_def] data_product_consumed_def [abs_def]
    data_product_archived_def [abs_def]
  by ((rule fits_rules fits_elsewhere)+, simp add: names_defs)+

lemma fits_notebooks:
  "fits ''notebooks'' notebooks_names (notebook_proposed F e a)" "fits ''notebooks'' notebooks_names (notebook_run F e a)"
  "fits ''notebook_runs'' notebook_runs_names (notebook_run F e a)"
  "fits ''notebooks'' notebooks_names (notebook_published F e a)" "fits ''notebooks'' notebooks_names (notebook_archived F e a)"
  unfolding notebook_proposed_def [abs_def] notebook_run_def [abs_def] notebook_published_def [abs_def]
    notebook_archived_def [abs_def]
  by ((rule fits_rules fits_elsewhere)+, simp add: names_defs)+

lemma fits_import_edges: "fits ''external_lineage'' external_lineage_names (import_edges F e sid xs)"
proof (induction xs)
  case Nil
  show ?case by (simp add: fits_def)
next
  case (Cons x xs)
  show ?case
    unfolding import_edges.simps(2) [abs_def] Let_def
    by (cases "edge_ends x", use Cons in simp)
      (simp only: option.case split_def, ((rule fits_rules Cons)+, (simp add: names_defs; fail)?)+)
qed

lemma fits_catalogs:
  "fits ''mcp_calls'' mcp_calls_names (mcp_call_received F e a)"
  "fits ''external_catalog'' external_catalog_names (external_catalog_imported F e a)"
  "fits ''external_lineage'' external_lineage_names (external_lineage_imported F e a)"
  "fits ''external_policy'' external_policy_names (external_policy_imported F e a)"
  "fits ''external_metric'' external_metric_names (external_metric_imported F e a)"
  "fits ''catalog_tables'' catalog_tables_names (catalog_table_imported F e a)"
  unfolding mcp_call_received_def [abs_def] external_catalog_imported_def [abs_def] external_lineage_imported_def [abs_def]
    external_policy_imported_def [abs_def] external_metric_imported_def [abs_def] catalog_table_imported_def [abs_def] Let_def
  by ((rule fits_import_edges fits_rules)+, (simp add: names_defs; fail)?)+

lemma fits_agents:
  "fits ''agents'' agents_names (agent_registered F e a)" "fits ''agent_grants'' agent_grants_names (agent_grant_recorded F e a)"
  "fits ''query_outcomes'' query_outcomes_names (query_outcome_recorded F e a)"
  unfolding agent_registered_def [abs_def] agent_grant_recorded_def [abs_def] query_outcome_recorded_def [abs_def]
  by ((rule fits_rules)+, simp add: names_defs)+

lemma merge_named: "map fst d = ns \<Longrightarrow> map fst e = ks \<Longrightarrow> list_all (\<lambda>k. k \<in> set ns) ks \<Longrightarrow> map fst (dict_merge d e) = ns"
  using merge_names [of e d] by (auto simp: list_all_iff)

lemma fits_topic: "fits ''topics'' topics_names (topic_proposed F e a)"
  unfolding topic_proposed_def [abs_def] Let_def
  by ((rule fits_rules | simp only: option.case)+, simp add: names_defs, (rule fits_rules | simp only: option.case)+,
      rule merge_named, assumption, assumption, simp add: names_defs)

subsection \<open>The discovery axes and the envelope\<close>

lemma str_fields_names [simp]: "map fst (str_fields F d ks) = ks"
  by (simp add: str_fields_def o_def)

lemma fits_axis_proposed:
  assumes "ax_table ax = n" and "\<And>F d conf. ns = [''company_id'', ax_id ax] @ map fst (ax_new ax F d conf) @
      [''state'', ''state_changed_at'', ''state_changed_by'']"
    and again: "\<And>F d conf. list_all (\<lambda>k. k \<in> set ns) (map fst (ax_again ax F d conf))"
  shows "fits n ns (axis_proposed ax F e a)"
proof -
  have new: "map fst ((''company_id'', PStr (e_company e)) # (ax_id ax, PStr k) # ax_new ax F d conf @
      [(''state'', PStr ''proposed''), (''state_changed_at'', ts_of e), (''state_changed_by'', PNone)]) = ns" for k d conf
    using assms(2) [of F d conf] by simp
  have merged: "map fst (dict_merge row (ax_again ax F d conf)) = ns" if "map fst row = ns" for row d conf
    by (rule merge_named [OF that refl again])
  have at_col: "''state_changed_at'' \<in> set ns" using assms(2) [of F undefined undefined] by simp
  have stamped: "map fst (dict_merge row [(''state_changed_at'', v)]) = ns" if "map fst row = ns" for row v
    by (rule merge_named [OF that, where ks = "[''state_changed_at'']"]) (simp_all add: at_col)
  show ?thesis
    unfolding axis_proposed_def [abs_def] Let_def assms(1)
    by (rule fits_dict fits_if fits_skip fits_get_row fits_bind fits_set_row | simp only: option.case new | simp add: merged stamped)+
qed

lemma fits_axis_decided:
  assumes "ax_table ax = n" and "list_all (\<lambda>k. k \<in> set ns) [''state'', ''state_changed_at'', ''state_changed_by'']"
    and "\<And>d. list_all (\<lambda>k. k \<in> set ns) (map fst (extra F d))"
  shows "fits n ns (axis_decided ax verdict author extra F e a)"
proof -
  have "map fst (dict_merge row ([(''state'', PStr verdict), (''state_changed_at'', ts_of e),
      (''state_changed_by'', PStr (str_arg F d author))] @ extra F d)) = ns" if "map fst row = ns" for row d
    by (rule merge_named [OF that refl]) (use assms(2,3) in simp)
  then show ?thesis
    unfolding axis_decided_def [abs_def] Let_def assms(1)
    by - (rule fits_dict fits_if fits_skip fits_get_row fits_bind fits_set_row | simp only: option.case | blast)+
qed

lemma fits_axes:
  "fits ''lineage_edges'' lineage_edges_names (axis_proposed lineage_edges F e a)"
  "fits ''quality_checks'' quality_checks_names (axis_proposed quality_checks F e a)"
  "fits ''schema_impacts'' schema_impacts_names (axis_proposed schema_impacts F e a)"
  "fits ''semantic_types'' semantic_types_names (axis_proposed semantic_types F e a)"
  "fits ''column_classifications'' column_classifications_names (axis_proposed column_classifications F e a)"
  "fits ''entity_stitches'' entity_stitches_names (axis_proposed entity_stitches F e a)"
  "fits ''source_candidates'' source_candidates_names (axis_proposed source_candidates F e a)"
  "fits ''catalog_drifts'' catalog_drifts_names (axis_proposed catalog_drifts F e a)"
  by (rule fits_axis_proposed; simp add: axis_defs axis_field_defs names_defs)+

lemma downstream_names: "list_all (\<lambda>k. k \<in> set source_candidates_names) (map fst (downstream_source F d))"
  by (simp add: downstream_source_def names_defs Let_def)

lemma fits_decisions:
  "fits ''lineage_edges'' lineage_edges_names (axis_decided lineage_edges v u no_extra F e a)"
  "fits ''quality_checks'' quality_checks_names (axis_decided quality_checks v u no_extra F e a)"
  "fits ''schema_impacts'' schema_impacts_names (axis_decided schema_impacts v u no_extra F e a)"
  "fits ''semantic_types'' semantic_types_names (axis_decided semantic_types v u no_extra F e a)"
  "fits ''column_classifications'' column_classifications_names (axis_decided column_classifications v u no_extra F e a)"
  "fits ''entity_stitches'' entity_stitches_names (axis_decided entity_stitches v u no_extra F e a)"
  "fits ''source_candidates'' source_candidates_names (axis_decided source_candidates v u no_extra F e a)"
  "fits ''catalog_drifts'' catalog_drifts_names (axis_decided catalog_drifts v u no_extra F e a)"
  by (rule fits_axis_decided; simp add: no_extra_def names_defs)+

lemma fits_promotion: "fits ''source_candidates'' source_candidates_names (axis_decided source_candidates v u downstream_source F e a)"
  by (rule fits_axis_decided, simp, simp add: names_defs, rule downstream_names)

lemma fits_agent_queries: "fits ''agent_queries'' agent_queries_names (agent_query_phase F e)"
  unfolding agent_query_phase_def [abs_def] Let_def
proof (rule fits_get_row, goal_cases)
  case 1
  show ?case by (simp only: option.case, (rule fits_rules)+, simp add: names_defs)
next
  case (2 row)
  have "list_all (\<lambda>k. k \<in> set agent_queries_names) (map fst ((''status'', dget (e_payload e) ''phase'') #
      filter (\<lambda>(k, v). v \<noteq> PNone) (map (\<lambda>k. (k, dget (e_payload e) k)) [''row_count'', ''cost_usd'', ''latency_ms'', ''caused_by''])))"
    by (simp add: names_defs)
  from merge_named [OF 2 refl this] show ?case by (simp only: option.case, rule fits_set_row)
qed

lemma fits_link [fits_intros]: "fits n ns m \<Longrightarrow> fits n ns (\<lambda>st. m (link_entry e rid st))"
  by (simp add: fits_def link_entry_def)

lemma fits_option [fits_intros]:
  "fits n ns (\<lambda>st. f st) \<Longrightarrow> (\<And>x. fits n ns (\<lambda>st. g x st)) \<Longrightarrow> fits n ns (\<lambda>st. case r st of None \<Rightarrow> f st | Some x \<Rightarrow> g x st)"
  by (auto simp: fits_def split: option.splits)

lemma fits_credential_update: "fits ''credentials'' credentials_names (credential_update F e rid)"
  unfolding credential_update_def [abs_def] Let_def
proof (rule fits_update_row)
  fix row d
  assume "rbind (vitem (PDict (e_payload e)) ''status'') (\<lambda>status. Inr ((''status'', status) #
      (if parse_iso_ts F (dget (e_payload e) ''ttl_expires_at'') \<noteq> PNone
       then [(''ttl_expires_at'', parse_iso_ts F (dget (e_payload e) ''ttl_expires_at''))] else []) @
      (if e_kind e = ''resolve'' then [(''issued_at'', ts_of e)] else []))) = Inr d"
  then show "list_all (\<lambda>k. k \<in> set credentials_names) (map fst d)"
    by (auto simp: rbind_Inr_iff names_defs)
qed

lemma fits_credentials: "fits ''credentials'' credentials_names (credential_phase F e)"
  unfolding credential_phase_def [abs_def] Let_def credential_row_def
  by ((rule fits_credential_update fits_rules fits_option fits_link)+, (simp add: names_defs; fail)?)+

lemma fits_templates: "fits ''query_templates'' query_templates_names (template_promoted F e)"
  unfolding template_promoted_def [abs_def] Let_def by (rule fits_rules)+ (simp add: names_defs)

subsection \<open>The whole fold\<close>

lemma names_lookup:
  "map_of FOLD_NAMES ''sources'' = Some sources_names"
  "map_of FOLD_NAMES ''persons'' = Some persons_names"
  "map_of FOLD_NAMES ''person_identities'' = Some person_identities_names"
  "map_of FOLD_NAMES ''installs'' = Some installs_names"
  "map_of FOLD_NAMES ''setup_progress'' = Some setup_progress_names"
  "map_of FOLD_NAMES ''roles'' = Some roles_names"
  "map_of FOLD_NAMES ''data_products'' = Some data_products_names"
  "map_of FOLD_NAMES ''data_product_runs'' = Some data_product_runs_names"
  "map_of FOLD_NAMES ''data_product_consumption'' = Some data_product_consumption_names"
  "map_of FOLD_NAMES ''notebooks'' = Some notebooks_names"
  "map_of FOLD_NAMES ''notebook_runs'' = Some notebook_runs_names"
  "map_of FOLD_NAMES ''mcp_calls'' = Some mcp_calls_names"
  "map_of FOLD_NAMES ''topics'' = Some topics_names"
  "map_of FOLD_NAMES ''external_catalog'' = Some external_catalog_names"
  "map_of FOLD_NAMES ''external_lineage'' = Some external_lineage_names"
  "map_of FOLD_NAMES ''external_policy'' = Some external_policy_names"
  "map_of FOLD_NAMES ''external_metric'' = Some external_metric_names"
  "map_of FOLD_NAMES ''agent_queries'' = Some agent_queries_names"
  "map_of FOLD_NAMES ''credentials'' = Some credentials_names"
  "map_of FOLD_NAMES ''agents'' = Some agents_names"
  "map_of FOLD_NAMES ''agent_grants'' = Some agent_grants_names"
  "map_of FOLD_NAMES ''query_outcomes'' = Some query_outcomes_names"
  "map_of FOLD_NAMES ''query_templates'' = Some query_templates_names"
  "map_of FOLD_NAMES ''lineage_edges'' = Some lineage_edges_names"
  "map_of FOLD_NAMES ''quality_checks'' = Some quality_checks_names"
  "map_of FOLD_NAMES ''schema_impacts'' = Some schema_impacts_names"
  "map_of FOLD_NAMES ''semantic_types'' = Some semantic_types_names"
  "map_of FOLD_NAMES ''column_classifications'' = Some column_classifications_names"
  "map_of FOLD_NAMES ''entity_stitches'' = Some entity_stitches_names"
  "map_of FOLD_NAMES ''source_candidates'' = Some source_candidates_names"
  "map_of FOLD_NAMES ''catalog_drifts'' = Some catalog_drifts_names"
  "map_of FOLD_NAMES ''catalog_tables'' = Some catalog_tables_names"
  unfolding FOLD_NAMES_def by (rule map_of_hit | (rule map_of_skip, simp))+

definition keeps_names :: "string \<Rightarrow> handler \<Rightarrow> bool" where
  "keeps_names n h = (\<forall>ns F e a. map_of FOLD_NAMES n = Some ns \<longrightarrow> fits n ns (h F e a))"

lemma keeps_names_iff: "map_of FOLD_NAMES n = Some ns \<Longrightarrow> keeps_names n h \<longleftrightarrow> (\<forall>F e a. fits n ns (h F e a))"
  by (simp add: keeps_names_def)

lemma untracked: "keeps_names ''kpi_nodes'' h" "keeps_names ''memory'' h"
proof -
  have "''kpi_nodes'' \<notin> fst ` set FOLD_NAMES" "''memory'' \<notin> fst ` set FOLD_NAMES" by (simp_all add: FOLD_NAMES_def)
  then show "keeps_names ''kpi_nodes'' h" "keeps_names ''memory'' h"
    by (simp_all add: keeps_names_def map_of_eq_None_iff [symmetric])
qed

lemma handler_fits:
  "list_all2 (\<lambda>(t, h) (t', tables). t = t' \<and> list_all (\<lambda>n. keeps_names n h) tables) EXECUTE_HANDLERS TOOL_TABLES"
  unfolding EXECUTE_HANDLERS_def TOOL_TABLES_def
  by (simp add: names_lookup [THEN keeps_names_iff] untracked fits_sources fits_persons fits_position_rejected fits_person_proposed
      fits_identities fits_installs fits_setup fits_roles fits_role_revoked fits_products fits_notebooks fits_catalogs fits_agents
      fits_topic fits_axes fits_decisions fits_promotion axis_handlers)

lemma touches_phases:
  "touches {''agent_queries''} (agent_query_phase F e)" "touches {''credentials''} (credential_phase F e)"
  "touches {''query_templates''} (template_promoted F e)"
proof -
  have link: "touches T (\<lambda>st. m (link_entry e rid st))" if "touches T m" for T m rid
    using that by (simp add: touches_def link_entry_def)
  have update: "touches {''credentials''} (credential_update F e rid)" for rid
    unfolding credential_update_def [abs_def] Let_def by (intro frame_intros) simp
  show "touches {''agent_queries''} (agent_query_phase F e)" "touches {''credentials''} (credential_phase F e)"
    "touches {''query_templates''} (template_promoted F e)"
    unfolding agent_query_phase_def [abs_def] template_promoted_def [abs_def] credential_phase_def [abs_def] Let_def
    by (intro frame_intros link update insertI1 touches_set_table(2))+
qed

lemma fits_envelope:
  assumes "map_of FOLD_NAMES n = Some ns"
  shows "fits n ns (apply_pevr_envelope F e)"
proof -
  have "fits n ns (agent_query_phase F e)"
    using fits_agent_queries assms by (cases "n = ''agent_queries''") (auto simp: names_lookup intro: fits_other [OF touches_phases(1)])
  moreover have "fits n ns (credential_phase F e)"
    using fits_credentials assms by (cases "n = ''credentials''") (auto simp: names_lookup intro: fits_other [OF touches_phases(2)])
  moreover have "fits n ns (template_promoted F e)"
    using fits_templates assms by (cases "n = ''query_templates''") (auto simp: names_lookup intro: fits_other [OF touches_phases(3)])
  ultimately show ?thesis unfolding apply_pevr_envelope_def [abs_def] by (intro fits_if fits_skip)
qed

lemma fits_execute:
  assumes "map_of FOLD_NAMES n = Some ns" and "e_kind e = ''execute''"
  shows "fits n ns (apply_execute F e)"
proof (cases "n \<in> set (tables_of e)")
  case False
  with frame_execute [OF assms(2)] show ?thesis by (rule fits_other)
next
  case True
  then obtain t where t: "dget (e_payload e) ''tool'' = PStr t" "n \<in> set (tool_tables t)"
    by (cases "dget (e_payload e) ''tool''") (auto simp: tables_of_def split: if_splits)
  show ?thesis
  proof (cases "map_of EXECUTE_HANDLERS t")
    case None
    with t(1) show ?thesis by (simp add: apply_execute_def [abs_def] fits_skip)
  next
    case (Some h)
    from aligned_map_of [OF handler_fits Some] t(2) have "keeps_names n h"
      by (auto simp: tool_tables_def list_all_iff)
    with assms(1) have "fits n ns (h F e a)" for a by (simp add: keeps_names_def)
    with Some t(1) show ?thesis by (simp add: apply_execute_def [abs_def])
  qed
qed

lemma fits_entry:
  assumes "map_of FOLD_NAMES n = Some ns"
  shows "fits n ns (apply_entry F e)"
proof -
  have "fits n ns (\<lambda>st. Inr (st\<lparr>pj_chat := Suc (pj_chat st)\<rparr>))" "fits n ns (\<lambda>st. Inr (st\<lparr>pj_resolve := Suc (pj_resolve st)\<rparr>))"
    by (simp_all add: fits_def)
  note rest = this fits_envelope [OF assms] fits_execute [OF assms] fits_skip
  show ?thesis
    unfolding apply_entry_def [abs_def]
    by (rule fits_seq) (cases "e_kind e \<in> {''propose'', ''execute'', ''verify'', ''resolve''}"; cases "e_kind e = ''execute''";
        simp add: rest fits_if cong: if_cong)+
qed

text \<open>Every row of a tracked table has the names of the table, after any fold.\<close>

lemma fold_named:
  assumes "map_of FOLD_NAMES n = Some ns" and "fold_entries F es st = Inr st'" and "named ns (pj_tables st n)"
  shows "named ns (pj_tables st' n)"
  using assms(2,3)
proof (induction es arbitrary: st)
  case (Cons e es)
  then show ?case using fits_entry [OF assms(1), of F e] by (auto simp: rbind_Inr_iff fits_def)
qed simp

subsection \<open>Memories\<close>

definition memory_names :: "string list" where
  "memory_names = [''memory_id'', ''content'', ''tags'', ''written_at'']"

lemma memory_tools: "''memory'' \<in> set (tool_tables t) \<longleftrightarrow> t \<in> set [''emit_memory_written'']"
  by (rule tool_tables_iff; code_simp)

lemma memory_step:
  assumes "apply_entry F e st = Inr st'" and "list_all (\<lambda>r. map fst r = memory_names) (pj_memory st)"
  shows "list_all (\<lambda>r. map fst r = memory_names) (pj_memory st')"
proof (cases "''memory'' \<in> set (tables_of e)")
  case False
  have "''memory'' \<notin> set ENVELOPE_TABLES" by (simp add: ENVELOPE_TABLES_def)
  from frame_entry(4) [OF assms(1) this False] assms(2) show ?thesis by simp
next
  case True
  then obtain t where e: "e_kind e = ''execute''" and t: "dget (e_payload e) ''tool'' = PStr t" "''memory'' \<in> set (tool_tables t)"
    by (cases "dget (e_payload e) ''tool''") (auto simp: tables_of_def split: if_splits)
  from t(2) have tool: "t = ''emit_memory_written''" by (simp only: memory_tools list.set insert_iff empty_iff simp_thms)
  have "''memory'' \<notin> set ENVELOPE_TABLES" by (simp add: ENVELOPE_TABLES_def)
  from frame_entry(5) [OF assms(1) this e] obtain st1
    where st1: "pj_memory st1 = pj_memory st" "apply_execute F e st1 = Inr st'" by blast
  have "map_of EXECUTE_HANDLERS ''emit_memory_written'' = Some memory_written"
    unfolding EXECUTE_HANDLERS_def by (rule map_of_hit | (rule map_of_skip, simp))+
  with st1(2) t(1) tool have "memory_written F e (dget_or (e_payload e) ''args'' (PDict [])) st1 = Inr st'"
    by (simp add: apply_execute_def)
  then obtain row where "map fst row = memory_names" "st' = st1\<lparr>pj_memory := pj_memory st1 @ [row]\<rparr>"
    unfolding memory_written_def rbind_Inr_iff by (auto simp: memory_names_def simp del: dict_of.simps dest!: dict_of_names)
  with st1(1) assms(2) show ?thesis by simp
qed

lemma fold_memory:
  "fold_entries F es st = Inr st' \<Longrightarrow> list_all (\<lambda>r. map fst r = memory_names) (pj_memory st) \<Longrightarrow>
     list_all (\<lambda>r. map fst r = memory_names) (pj_memory st')"
proof (induction es arbitrary: st)
  case (Cons e es)
  from Cons.prems(1) obtain st1 where "apply_entry F e st = Inr st1" "fold_entries F es st1 = Inr st'"
    by (auto simp: rbind_Inr_iff)
  with Cons.IH memory_step Cons.prems(2) show ?case by blast
qed simp

subsection \<open>The rows persisted\<close>

text \<open>The names of the rows \<open>persist_projections\<close> inserts into a table.\<close>

definition persisted_names :: "string \<Rightarrow> string list option" where
  "persisted_names n =
     (if n = ''memory'' then Some (''company_id'' # memory_names)
      else if n = ''kpi_nodes''
      then Some [''company_id'', ''node_id'', ''name'', ''domain_id'', ''owner_person_id'', ''parent_node_id'',
        ''source_resource_id'', ''metric_type'', ''confidence'']
      else if n = ''ramp'' then Some [''company_id'', ''axis'', ''value'', ''as_of'']
      else map_option (\<lambda>ns. if n = ''sources'' then ''company_id'' # ns else if n = ''topics'' then ''tenant_id'' # ns
        else if n = ''notebooks'' then filter (\<lambda>k. k \<noteq> ''_cells'') ns else ns) (map_of FOLD_NAMES n))"

lemma merge_into: "k \<notin> fst ` set d \<Longrightarrow> distinct (map fst d) \<Longrightarrow> map fst (dict_merge [(k, v)] d) = k # map fst d"
proof -
  have upd: "k' \<notin> fst ` set d' \<Longrightarrow> AList.update k' v' d' = d' @ [(k', v')]" for k' v' and d' :: pydict
    by (induction d') auto
  have "k \<notin> fst ` set d \<Longrightarrow> distinct (map fst d) \<Longrightarrow> dict_merge [(k, v)] d = (k, v) # d"
  proof (induction d rule: rev_induct)
    case (snoc p d)
    then have "dict_merge [(k, v)] d = (k, v) # d" by auto
    moreover have "dict_merge [(k, v)] (d @ [p]) = AList.update (fst p) (snd p) (dict_merge [(k, v)] d)"
      by (cases p) (simp add: dict_merge_def)
    ultimately show ?case using snoc.prems upd [of "fst p" "(k, v) # d" "snd p"] by (auto split: if_splits)
  qed (simp add: dict_merge_def)
  then show "k \<notin> fst ` set d \<Longrightarrow> distinct (map fst d) \<Longrightarrow> map fst (dict_merge [(k, v)] d) = k # map fst d" by simp
qed

lemma persisted_columns: "list_all (\<lambda>(n, T). case persisted_names n of None \<Rightarrow> False
    | Some ns \<Rightarrow> distinct ns \<and> list_all (\<lambda>k. k \<in> set (column_names T)) ns) INSERTS"
  by code_simp

lemma rmap_dict_of_names: "rmap (\<lambda>x. dict_of (fs x)) xs = Inr rs \<Longrightarrow> (\<And>x. map fst (fs x) = ns) \<Longrightarrow> list_all (\<lambda>r. map fst r = ns) rs"
  by (induction xs arbitrary: rs) (auto simp: rbind_Inr_iff dict_of_names)

lemma tracked_tables: "list_all (\<lambda>n. n \<in> set NATURAL_TABLES \<or> n \<in> set TEXT_TABLES) (map fst FOLD_NAMES)"
  by code_simp

lemma persist_rows_named:
  assumes p: "project_rows F rows = Inr p" and rs: "persist_rows c now p n = Inr rs" and ns: "persisted_names n = Some ns"
    and "distinct ns"
  shows "list_all (\<lambda>r. map fst r = ns) rs"
proof -
  have init: "named m (pj_tables initial_projection_state n)" for m by (simp add: initial_projection_state_def named_def)
  have memory: "list_all (\<lambda>r. map fst r = memory_names) (p ''memory'')"
  proof -
    have "''memory'' \<notin> set NATURAL_TABLES" by (simp add: NATURAL_TABLES_def)
    from projections_of [OF p this] obtain st where "fold_entries F rows initial_projection_state = Inr st"
      and "p ''memory'' = sorted_memory (fl_env F) (pj_memory st)" by auto
    with fold_memory [of F rows initial_projection_state st] show ?thesis
      by (simp add: initial_projection_state_def sorted_memory_def list_all_iff)
  qed
  have tracked: "list_all (\<lambda>r. map fst r = (if n = ''notebooks'' then filter (\<lambda>k. k \<noteq> ''_cells'') m else m)) (p n)"
    if m: "map_of FOLD_NAMES n = Some m" for m
  proof (cases "n \<in> set NATURAL_TABLES")
    case True
    from projections_natural [OF p True] obtain st where st: "fold_entries F rows initial_projection_state = Inr st"
      and "set (p n) = (\<lambda>q. public_row n (snd q)) ` set (pj_tables st n)" by blast
    moreover from fold_named [OF m st init] have "named m (pj_tables st n)" .
    ultimately show ?thesis
      by (auto simp: list_all_iff named_def public_row_def filter_map o_def)
  next
    case False
    from m have "n \<in> fst ` set FOLD_NAMES" by (metis fst_conv image_eqI map_of_SomeD)
    with False tracked_tables have in_text: "n \<in> set TEXT_TABLES" by (auto simp: list_all_iff)
    have other: "n \<noteq> ''memory''" "n \<noteq> ''ramp''" "n \<noteq> ''notebooks''" using in_text by (auto simp: TEXT_TABLES_def)
    from projections_of [OF p False] in_text other obtain st where st: "fold_entries F rows initial_projection_state = Inr st"
      and "p n = map snd (sort_by_text (fl_env F) (pj_tables st n))" by auto
    moreover from fold_named [OF m st init] have "named m (pj_tables st n)" .
    ultimately show ?thesis using other by (auto simp: list_all_iff named_def sort_by_text_def)
  qed
  have merged: "list_all (\<lambda>r. map fst r = k # m) (map (dict_merge [(k, v)]) xs)"
    if "list_all (\<lambda>r. map fst r = m) xs" "distinct (k # m)" for k v m and xs :: "pydict list"
  proof -
    have "map fst (dict_merge [(k, v)] r) = k # m" if "map fst r = m" for r
    proof -
      from that \<open>distinct (k # m)\<close> have "k \<notin> fst ` set r" "distinct (map fst r)" by (simp_all flip: set_map)
      from merge_into [OF this] that show ?thesis by simp
    qed
    with that(1) show ?thesis by (simp add: list_all_iff)
  qed
  consider "n = ''memory''" | "n = ''kpi_nodes''" | "n = ''ramp''" | "n = ''sources''" | "n = ''topics''"
    | "n \<noteq> ''memory''" "n \<noteq> ''kpi_nodes''" "n \<noteq> ''ramp''" "n \<noteq> ''sources''" "n \<noteq> ''topics''" by satx
  then show ?thesis
  proof cases
    case 1
    with rs ns have rows: "rs = map (dict_merge [(''company_id'', PUuid c)]) (p ''memory'')"
      and names: "ns = ''company_id'' # memory_names" by (auto simp: persist_rows_def persisted_names_def)
    from merged [OF memory assms(4) [unfolded names]] show ?thesis unfolding rows names .
  next
    case 2
    with rs ns show ?thesis
      by (simp add: persist_rows_def persisted_names_def kpi_node_rows_for_persist_def del: dict_of.simps)
        (erule rmap_dict_of_names, simp)
  next
    case 3
    with rs ns show ?thesis
      by (simp add: persist_rows_def persisted_names_def ramp_rows_for_persist_def del: dict_of.simps)
        (erule rmap_dict_of_names, simp)
  next
    case 4
    with ns obtain m where m: "map_of FOLD_NAMES n = Some m" "ns = ''company_id'' # m" by (auto simp: persisted_names_def)
    from rs 4 have rows: "rs = map (dict_merge [(''company_id'', PUuid c)]) (p n)" by (simp add: persist_rows_def)
    from tracked [OF m(1)] 4 have "list_all (\<lambda>r. map fst r = m) (p n)" by simp
    from merged [OF this assms(4) [unfolded m(2)]] show ?thesis unfolding rows m(2) .
  next
    case 5
    with ns obtain m where m: "map_of FOLD_NAMES n = Some m" "ns = ''tenant_id'' # m" by (auto simp: persisted_names_def)
    from rs 5 have rows: "rs = map (dict_merge [(''tenant_id'', PUuid c)]) (p n)" by (simp add: persist_rows_def)
    from tracked [OF m(1)] 5 have "list_all (\<lambda>r. map fst r = m) (p n)" by simp
    from merged [OF this assms(4) [unfolded m(2)]] show ?thesis unfolding rows m(2) .
  next
    case 6
    with ns obtain m where "map_of FOLD_NAMES n = Some m" "ns = (if n = ''notebooks'' then filter (\<lambda>k. k \<noteq> ''_cells'') m else m)"
      by (auto simp: persisted_names_def)
    with rs 6 tracked show ?thesis by (simp add: persist_rows_def)
  qed
qed

text \<open>C14: Type safety of the persisted rows. Whatever the log, the rows \<open>persist_projections\<close> inserts into
  a table all have the same names, each the name of a column: an insertion never fails on an unknown
  column or a missing value, only on an integrity constraint.\<close>

theorem rows_fit_tables:
  assumes "project_rows F rows = Inr p" and "(n, T) \<in> set INSERTS" and "persist_rows c now p n = Inr rs"
  shows "(\<exists>ns. list_all (\<lambda>k. k \<in> set (column_names T)) ns \<and> list_all (\<lambda>r. map fst r = ns) rs) \<and>
    (sql_insert T rs old = Inl IntegrityError \<or> (\<exists>new. sql_insert T rs old = Inr new))"
proof -
  from persisted_columns assms(2) obtain ns where ns: "persisted_names n = Some ns" "distinct ns"
    "list_all (\<lambda>k. k \<in> set (column_names T)) ns" by (auto simp: list_all_iff split: option.splits)
  from persist_rows_named [OF assms(1,3) ns(1,2)] have named: "list_all (\<lambda>r. map fst r = ns) rs" .
  have rows: "insert_rows T xs o1 = Inl IntegrityError \<or> (\<exists>new. insert_rows T xs o1 = Inr new)" for xs o1
    by (induction xs arbitrary: o1) (auto simp: Let_def)
  have "sql_insert T rs old = Inl IntegrityError \<or> (\<exists>new. sql_insert T rs old = Inr new)"
  proof (cases rs)
    case (Cons r rs')
    with named have r: "map fst r = ns" by simp
    have "list_all (\<lambda>r. list_all (\<lambda>k. k \<in> set (map fst r)) ns) rs" using named by (auto simp: list_all_iff)
    with rows ns(3) Cons r show ?thesis by (simp add: sql_insert_def Let_def)
  qed (simp add: sql_insert_def)
  with named ns(3) show ?thesis by blast
qed

theorem rows_fit_tables_witness:
  "\<exists>p. project_rows demo_fold demo_grants = Inr p \<and> p ''roles'' \<noteq> [] \<and>
     (sql_insert projection_roles (p ''roles'') [] = Inl IntegrityError \<or> (\<exists>new. sql_insert projection_roles (p ''roles'') [] = Inr new))"
proof -
  have run: "case project_rows demo_fold demo_grants of Inl _ \<Rightarrow> False | Inr p \<Rightarrow> p ''roles'' \<noteq> []" by code_simp
  then obtain p where p: "project_rows demo_fold demo_grants = Inr p" by (cases "project_rows demo_fold demo_grants") auto
  have "(''roles'', projection_roles) \<in> set INSERTS" by (simp add: INSERTS_def)
  moreover have "persist_rows ''c'' PNone p ''roles'' = Inr (p ''roles'')" by (simp add: persist_rows_def)
  ultimately show ?thesis using rows_fit_tables [OF p] run p by fastforce
qed

end
