(* ===== verification/Projection_Runner.thy ===== *)
theory Projection_Runner
  imports Projection_Fit Ledger_Properties
begin

section \<open>Properties of the persisted projections\<close>

text \<open>
  A persist replaces the rows of one company and is idempotent as long as every row is of that
  company; the runner keeps the tables at the projections of the log.
\<close>

subsection \<open>Wipe and insert, table by table\<close>

lemma wipe_other: "n \<notin> fst ` set ws \<Longrightarrow> fold (wipe c) ws db n = db n"
  by (induction ws arbitrary: db) (auto simp: wipe_def)

lemma wipe_lookup:
  "distinct (map fst ws) \<Longrightarrow> map_of ws n = Some (col, as_text) \<Longrightarrow>
     fold (wipe c) ws db n = filter (\<lambda>r. dget r col \<noteq> scope_value c as_text) (db n)"
proof (induction ws arbitrary: db)
  case (Cons w ws)
  obtain n' col' t' where w: "w = (n', col', t')" by (cases w)
  show ?case
  proof (cases "n = n'")
    case True
    with Cons.prems w have "n \<notin> fst ` set ws" "col' = col" "t' = as_text" by auto
    then show ?thesis by (simp add: wipe_other) (simp add: w wipe_def True)
  next
    case False
    with Cons.prems w have "map_of ws n = Some (col, as_text)" "distinct (map fst ws)" by auto
    moreover have "wipe c w db n = db n" using False by (simp add: wipe_def w)
    ultimately show ?thesis using Cons.IH [of "wipe c w db"] by simp
  qed
qed simp

lemma WIPES_distinct: "distinct (map fst WIPES)"
  by code_simp

lemma wipe_all_lookup: "map_of WIPES n = Some (col, as_text) \<Longrightarrow>
    wipe_all c db n = filter (\<lambda>r. dget r col \<noteq> scope_value c as_text) (db n)"
  unfolding wipe_all_def by (rule wipe_lookup [OF WIPES_distinct])

lemma wipe_all_other: "map_of WIPES n = None \<Longrightarrow> wipe_all c db n = db n"
  unfolding wipe_all_def by (rule wipe_other) (simp add: map_of_eq_None_iff)

lemma insert_all_other: "insert_all c now p ts db = Inr db' \<Longrightarrow> n \<notin> fst ` set ts \<Longrightarrow> db' n = db n"
  by (induction ts arbitrary: db) (auto simp: rbind_Inr_iff)

lemma insert_all_lookup:
  "insert_all c now p ts db = Inr db' \<Longrightarrow> distinct (map fst ts) \<Longrightarrow> (n, T) \<in> set ts \<Longrightarrow>
     \<exists>rows. persist_rows c now p n = Inr rows \<and> sql_insert T rows (db n) = Inr (db' n)"
proof (induction ts arbitrary: db)
  case (Cons q ts)
  obtain n' T' where q: "q = (n', T')" by (cases q)
  from Cons.prems(1) q obtain rows t where rows: "persist_rows c now p n' = Inr rows" "sql_insert T' rows (db n') = Inr t"
    and rest: "insert_all c now p ts (db(n' := t)) = Inr db'" by (auto simp: rbind_Inr_iff)
  show ?case
  proof (cases "n = n'")
    case True
    with Cons.prems(2,3) q have "n \<notin> fst ` set ts" "T = T'" by (auto simp: image_iff)
    with insert_all_other [OF rest] rows True show ?thesis by auto
  next
    case False
    with Cons.prems(2,3) q have "distinct (map fst ts)" "(n, T) \<in> set ts" by auto
    from Cons.IH [OF rest this] False show ?thesis by simp
  qed
qed simp

lemma INSERTS_facts: "distinct (map fst INSERTS)" "map fst INSERTS = map fst WIPES"
  "list_all (\<lambda>(n, T). case map_of WIPES n of None \<Rightarrow> False | Some (col, t) \<Rightarrow> col \<in> set (column_names T)) INSERTS"
  by code_simp+

subsection \<open>Idempotence\<close>

text \<open>Every row to insert carries the company in the column the deletes compare.\<close>

definition scoped :: "uuid \<Rightarrow> pyval \<Rightarrow> projections \<Rightarrow> bool" where
  "scoped c now p = list_all (\<lambda>(n, col, as_text). case persist_rows c now p n of
      Inl _ \<Rightarrow> True
    | Inr rows \<Rightarrow> list_all (\<lambda>r. dget r col = scope_value c as_text) rows) WIPES"

text \<open>The rows of the other companies.\<close>

definition other_rows :: "uuid \<Rightarrow> proj_db \<Rightarrow> string \<Rightarrow> pydict list" where
  "other_rows c db n = wipe_all c db n"

lemma stored_row_value: "col \<in> set (column_names T) \<Longrightarrow> dget r col \<noteq> PNone \<Longrightarrow> dget (stored_row T r) col = dget r col"
proof -
  assume "col \<in> set (column_names T)" and "dget r col \<noteq> PNone"
  then have "map_of r col = Some (dget r col)" by (auto simp: dget_def split: option.splits)
  then have given: "dget_or r col d = dget r col" for d by (simp add: dget_or_def)
  have "map_of (map (\<lambda>c. (c_name c, dget_or r (c_name c) (c_default c))) cs) col = Some (dget r col)"
    if "col \<in> c_name ` set cs" for cs
    using that given by (induction cs) auto
  from this [of "tb_columns T"] \<open>col \<in> set (column_names T)\<close>
  have "map_of (stored_row T r) col = Some (dget r col)" by (simp add: stored_row_def column_names_def)
  then show ?thesis by (simp add: dget_def)
qed

lemma dget_filter: "P k \<Longrightarrow> dget (filter (\<lambda>p. P (fst p)) r) k = dget r k"
  by (induction r) (auto simp: dget_def)

lemma sql_insert_scope:
  assumes "sql_insert T rows old = Inr new" and "col \<in> set (column_names T)" and "v \<noteq> PNone"
    and "list_all (\<lambda>r. dget r col = v) rows"
  shows "\<exists>stored. new = old @ stored \<and> list_all (\<lambda>r. dget r col = v) stored"
proof (cases rows)
  case Nil
  with assms(1) show ?thesis by (auto simp: sql_insert_def)
next
  case (Cons r0 rs)
  define names where "names = map fst r0"
  from assms(3,4) Cons have "col \<in> set names"
    by (auto simp: names_def dget_def split: option.splits dest!: map_of_SomeD intro: rev_image_eqI)
  then have cut: "dget (filter (\<lambda>p. fst p \<in> set names) r) col = dget r col" for r by (rule dget_filter)
  from assms(1) Cons have "insert_rows T (map (filter (\<lambda>p. fst p \<in> set names)) rows) old = Inr new"
    by (simp add: sql_insert_def Let_def names_def split: if_splits)
  from insert_rows_Inr [OF this] have "new = old @ map (\<lambda>r. stored_row T (filter (\<lambda>p. fst p \<in> set names) r)) rows"
    by (simp add: o_def)
  moreover have "list_all (\<lambda>r. dget r col = v) (map (\<lambda>r. stored_row T (filter (\<lambda>p. fst p \<in> set names) r)) rows)"
    using assms(2,3,4) by (auto simp: list_all_iff stored_row_value cut)
  ultimately show ?thesis by blast
qed

lemma scope_value_not_none [simp]: "scope_value c t \<noteq> PNone"
  by (simp add: scope_value_def)

lemma wipe_persisted:
  assumes "persist_projections c p now db = Inr db'" and "scoped c now p"
  shows "wipe_all c db' = wipe_all c db"
proof
  fix n
  show "wipe_all c db' n = wipe_all c db n"
  proof (cases "map_of WIPES n")
    case None
    then have "n \<notin> fst ` set INSERTS" using INSERTS_facts(2) by (metis list.set_map map_of_eq_None_iff)
    from insert_all_other [OF assms(1) [unfolded persist_projections_def] this] None
    show ?thesis by (simp add: wipe_all_other)
  next
    case (Some w)
    obtain col t where w: "w = (col, t)" by fastforce
    with Some have "n \<in> set (map fst INSERTS)" unfolding INSERTS_facts(2) by (metis fst_conv image_eqI list.set_map map_of_SomeD)
    then obtain T where T: "(n, T) \<in> set INSERTS" by auto
    with INSERTS_facts(3) Some w have col: "col \<in> set (column_names T)" by (auto simp: list_all_iff)
    from insert_all_lookup [OF assms(1) [unfolded persist_projections_def] INSERTS_facts(1) T] obtain rows
      where rows: "persist_rows c now p n = Inr rows" and ins: "sql_insert T rows (wipe_all c db n) = Inr (db' n)" by blast
    have "(n, col, t) \<in> set WIPES" using Some w by (auto dest: map_of_SomeD)
    with assms(2) rows have "list_all (\<lambda>r. dget r col = scope_value c t) rows" by (fastforce simp: scoped_def list_all_iff)
    from sql_insert_scope [OF ins col _ this] obtain stored
      where "db' n = wipe_all c db n @ stored" "list_all (\<lambda>r. dget r col = scope_value c t) stored" by auto
    then show ?thesis
      using Some w by (simp add: wipe_all_lookup) (simp add: list_all_iff filter_empty_conv)
  qed
qed



subsection \<open>A person of another tenant\<close>

text \<open>A row whose key is already stored is refused.\<close>

lemma insert_rows_repeat:
  assumes "r \<in> set rows" and "q \<in> set old" and "same_key (stored_row T r) q (primary_key T)"
  shows "insert_rows T rows old = Inl IntegrityError"
  using assms(1,2)
proof (induction rows arbitrary: old)
  case (Cons x rows)
  show ?case
  proof (cases "x = r")
    case True
    from assms(3) Cons.prems(2) have "key_violation T old (stored_row T r)" by (auto simp: key_violation_def list_ex_iff)
    with True show ?thesis by (simp add: Let_def)
  next
    case False
    with Cons.prems(1) have "r \<in> set rows" by simp
    with Cons.IH [OF this, of "old @ [stored_row T x]"] Cons.prems(2) show ?thesis by (simp add: Let_def)
  qed
qed simp

lemma insert_rows_not_null: "insert_rows T rows old = Inr new \<Longrightarrow> r \<in> set rows \<Longrightarrow> \<not> null_violation T r"
  by (induction rows arbitrary: old) (auto simp: Let_def split: if_splits)

text \<open>Rows that all have the names of columns are inserted as they are.\<close>

lemma sql_insert_named:
  assumes "list_all (\<lambda>r. map fst r = ns) rows" and "list_all (\<lambda>k. k \<in> set (column_names T)) ns"
  shows "sql_insert T rows old = insert_rows T rows old"
proof (cases rows)
  case (Cons r rs)
  have keep: "filter (\<lambda>q. fst q \<in> set ns) r = r" if "map fst r = ns" for r :: pydict
    using that [symmetric] by (simp add: filter_id_conv)
  have "map (filter (\<lambda>q. fst q \<in> set ns)) rows = rows"
    using assms(1) keep by (simp add: list_all_iff map_idI)
  moreover have "list_all (\<lambda>r. list_all (\<lambda>k. k \<in> set (map fst r)) ns) rows" using assms(1) by (auto simp: list_all_iff)
  ultimately show ?thesis using assms Cons by (simp add: sql_insert_def Let_def)
qed (simp add: sql_insert_def)

lemma persist_rows_plain: "persist_rows c now p ''persons'' = Inr (p ''persons'')"
  by (simp add: persist_rows_def)

lemma insert_all_Inl:
  assumes "persist_rows c now p n = Inr rows" and "sql_insert T rows (db n) = Inl x" and "(n, T) \<in> set ts" and "distinct (map fst ts)"
  shows "\<exists>y. insert_all c now p ts db = Inl y"
proof (cases "insert_all c now p ts db")
  case (Inr db')
  from insert_all_lookup [OF this assms(4,3)] assms(1,2) show ?thesis by auto
qed blast

lemma null_violationI:
  "k \<in> set (tb_columns T) \<Longrightarrow> \<not> c_nullable k \<Longrightarrow> c_type k \<noteq> SJson \<Longrightarrow> map_of r (c_name k) = Some PNone \<Longrightarrow> null_violation T r"
  by (auto simp: null_violation_def list_ex_iff intro!: bexI [of _ k])

lemma persons_facts:
  "(''persons'', projection_persons) \<in> set INSERTS" "map_of WIPES ''persons'' = Some (''tenant_id'', False)"
  "primary_key projection_persons = [''person_id'']" "persisted_names ''persons'' = Some persons_names"
  "list_all (\<lambda>k. k \<in> set (column_names projection_persons)) persons_names" "distinct persons_names"
  "''tenant_id'' \<in> set persons_names" "''person_id'' \<in> set persons_names"
  by code_simp+

lemma stored_person:
  assumes "map fst r = persons_names" and "k \<in> set persons_names"
  shows "dget (stored_row projection_persons r) k = dget r k"
proof (cases "dget r k = PNone")
  case True
  from assms have "k \<in> fst ` set r" by (metis list.set_map)
  with True have "map_of r k = Some PNone" by (auto simp: dget_def map_of_eq_None_iff split: option.splits)
  then have "dget_or r k d = PNone" for d by (simp add: dget_or_def)
  then have "map_of (map (\<lambda>c. (c_name c, dget_or r (c_name c) (c_default c))) cs) k \<in> {None, Some PNone}" for cs
    by (induction cs) auto
  from this [of "tb_columns projection_persons"] True show ?thesis by (auto simp: stored_row_def dget_def)
next
  case False
  from assms(2) persons_facts(5) have "k \<in> set (column_names projection_persons)" by (simp add: list_all_iff)
  from stored_row_value [OF this False] show ?thesis .
qed

text \<open>C40: A person filed under another tenant is written to that tenant's rows, which the company's
  deletes never reach: every later persist with a person of this identifier raises, so from then on
  the tables of the company are not refreshed.\<close>

theorem foreign_person_blocks_persist:
  assumes "project_rows F rows = Inr p" and "r \<in> set (p ''persons'')" and "dget r ''tenant_id'' \<noteq> PUuid c"
    and "persist_projections c p now db = Inr db'"
    and "project_rows F rows' = Inr p'" and "r' \<in> set (p' ''persons'')" and "dget r' ''person_id'' = dget r ''person_id''"
  shows "\<exists>x. persist_projections c p' now' db' = Inl x"
proof -
  note T = persons_facts(1)
  have named: "list_all (\<lambda>r. map fst r = persons_names) (q ''persons'')" if "project_rows F es = Inr q" for es q
    by (rule persist_rows_named [OF that persist_rows_plain persons_facts(4,6)])
  note plain = sql_insert_named [OF named persons_facts(5)]
  from insert_all_lookup [OF assms(4) [unfolded persist_projections_def] INSERTS_facts(1) T]
  have "insert_rows projection_persons (p ''persons'') (wipe_all c db ''persons'') = Inr (db' ''persons'')"
    by (simp add: persist_rows_plain plain [OF assms(1)])
  note stored = insert_rows_Inr [OF this] and not_null = insert_rows_not_null [OF this assms(2)]
  have r: "map fst r = persons_names" "map fst r' = persons_names"
    using named [OF assms(1)] named [OF assms(5)] assms(2,6) by (simp_all add: list_all_iff)
  have "dget r ''person_id'' \<noteq> PNone"
  proof
    assume "dget r ''person_id'' = PNone"
    moreover from r(1) persons_facts(8) have "''person_id'' \<in> fst ` set r" by (metis list.set_map)
    ultimately have none: "map_of r ''person_id'' = Some PNone"
      by (auto simp: dget_def map_of_eq_None_iff split: option.splits)
    have "key_column ''person_id'' SUuid \<in> set (tb_columns projection_persons)" by (simp add: projection_persons_def)
    from null_violationI [OF this] none not_null show False by (simp add: key_column_def)
  qed
  then have key: "same_key (stored_row projection_persons r') (stored_row projection_persons r) (primary_key projection_persons)"
    by (simp add: same_key_def persons_facts stored_person [OF r(1)] stored_person [OF r(2)] assms(7))
  have "stored_row projection_persons r \<in> set (db' ''persons'')" using stored assms(2) by simp
  moreover have "dget (stored_row projection_persons r) ''tenant_id'' \<noteq> scope_value c False"
    using assms(3) by (simp add: stored_person [OF r(1)] persons_facts scope_value_def)
  ultimately have "stored_row projection_persons r \<in> set (wipe_all c db' ''persons'')"
    by (simp add: wipe_all_lookup [OF persons_facts(2)])
  from insert_rows_repeat [OF assms(6) this key]
  have "sql_insert projection_persons (p' ''persons'') (wipe_all c db' ''persons'') = Inl IntegrityError"
    by (simp add: plain [OF assms(5)])
  from insert_all_Inl [where db = "wipe_all c db'" and n = "''persons''" and p = p' and c = c and now = now' and rows = "p' ''persons''", OF persist_rows_plain this T INSERTS_facts(1)] show ?thesis by (simp add: persist_projections_def)
qed

definition demo_foreign :: "entry list" where
  "demo_foreign =
     [exec_entry 1 ''emit_person_proposed'' [(''person_id'', PStr demo_uuid), (''tenant_id'', PStr demo_uuid),
        (''name'', PStr ''Ann'')]]"

theorem foreign_person_blocks_persist_witness:
  "\<exists>p db' x. project_rows demo_fold demo_foreign = Inr p \<and> persist_projections ''c'' p (PTime (Aware 0)) (\<lambda>_. []) = Inr db' \<and>
     persist_projections ''c'' p (PTime (Aware 0)) db' = Inl x"
proof -
  have run: "case project_rows demo_fold demo_foreign of Inl _ \<Rightarrow> False
      | Inr p \<Rightarrow> p ''persons'' \<noteq> [] \<and> dget (hd (p ''persons'')) ''tenant_id'' \<noteq> PUuid ''c'' \<and>
         (case persist_projections ''c'' p (PTime (Aware 0)) (\<lambda>_. []) of Inl _ \<Rightarrow> False | Inr db' \<Rightarrow> True)"
    by code_simp
  then obtain p db' where p: "project_rows demo_fold demo_foreign = Inr p" "dget (hd (p ''persons'')) ''tenant_id'' \<noteq> PUuid ''c''"
    "persist_projections ''c'' p (PTime (Aware 0)) (\<lambda>_. []) = Inr db'" "hd (p ''persons'') \<in> set (p ''persons'')"
    by (auto split: sum.splits)
  from foreign_person_blocks_persist [OF p(1,4,2,3,1,4) refl, of "PTime (Aware 0)"] p(1,3) show ?thesis by blast
qed

subsection \<open>The runner and the log\<close>

text \<open>The ledger goes on being written, also while a pass is under way.\<close>

definition ledger_step :: "env \<Rightarrow> 'db backend \<Rightarrow> 'db session \<Rightarrow> 'db session \<Rightarrow> bool" where
  "ledger_step E B s s' = (\<exists>req out. ledger_write E B req s = (out, s'))"

inductive runner_step :: "env \<Rightarrow> fold_lib \<Rightarrow> 'db backend \<Rightarrow> uuid \<Rightarrow> 'db session \<times> projection_runner \<times> proj_db
    \<Rightarrow> 'db session \<times> projection_runner \<times> proj_db \<Rightarrow> bool" for E F B c where
  wrote: "ledger_step E B s s' \<Longrightarrow> runner_step E F B c (s, w) (s', w)"
| polled: "pe_fetched env = s \<Longrightarrow> (ledger_step E B)\<^sup>*\<^sup>* s (pe_built env) \<Longrightarrow> projection_run_once F B c env w = (out, w') \<Longrightarrow>
    runner_step E F B c (s, w) (pe_built env, w')"

text \<open>What a pass leaves: the tables were written by a persist of the first \<open>m\<close> rows.\<close>

definition reflects :: "fold_lib \<Rightarrow> uuid \<Rightarrow> entry list \<Rightarrow> proj_db \<Rightarrow> bool" where
  "reflects F c rows db = (\<exists>p now db0. project_rows F rows = Inr p \<and> persist_projections c p now db0 = Inr db)"

definition runner_inv :: "fold_lib \<Rightarrow> uuid \<Rightarrow> entry list \<Rightarrow> projection_runner \<Rightarrow> proj_db \<Rightarrow> bool" where
  "runner_inv F c es r db =
     (pr_last_seq r = 0 \<or>
      (\<exists>n. pr_last_seq r = int (Suc n) \<and> n < length es \<and> pr_last_hash r = Some (e_hash (es ! n)) \<and>
        (\<exists>m. Suc n \<le> m \<and> m \<le> length es \<and> reflects F c (take m es) db)))"

lemma ledger_step_grows:
  assumes "sql_backend B" and "db_invar E B s" and "ledger_step E B s s'"
  shows "db_invar E B s' \<and> (\<exists>new. db_log B s' c = db_log B s c @ new)"
proof -
  from assms(3) obtain req out where w: "ledger_write E B req s = (out, s')" by (auto simp: ledger_step_def)
  have inv: "db_invar E B s'"
    using ledger_store.write_invar [OF db_store_ledger [OF assms(1)] assms(2)] w by fastforce
  show ?thesis
  proof (cases out)
    case (Inl x)
    from ledger_write_Inl_log [OF w [unfolded Inl], of c] inv show ?thesis by simp
  next
    case (Inr res)
    with w have "write_primitive E B req s = (Inr res, s')" by (simp add: ledger_write_Inr)
    from sql_backend.write_primitive_rows [OF assms(1,2) this] inv show ?thesis by auto
  qed
qed

lemma ledger_steps_grow:
  assumes "sql_backend B" and "(ledger_step E B)\<^sup>*\<^sup>* s s'" and "db_invar E B s"
  shows "db_invar E B s' \<and> (\<exists>new. db_log B s' c = db_log B s c @ new)"
  using assms(2,3)
proof (induction rule: rtranclp_induct)
  case (step s1 s2)
  from step.IH [OF step.prems] ledger_step_grows [OF assms(1) _ step.hyps(2), of c] show ?case by auto
qed simp

lemma runner_inv_grows: "runner_inv F c es r db \<Longrightarrow> runner_inv F c (es @ new) r db"
  unfolding runner_inv_def
  by (elim disjE exE conjE, simp, rule disjI2) (auto simp: nth_append intro!: exI)

text \<open>In a chain the sequence numbers are the positions.\<close>

lemma log_chain_seqs:
  assumes "chain_inv E c es" and "es \<noteq> []"
  shows "Max (e_seq ` set es) = int (length es)"
    and "n < length es \<Longrightarrow> find (\<lambda>x. e_seq x = int (Suc n)) es = Some (es ! n)"
proof -
  have seqs: "map e_seq es = map int [1..<Suc (length es)]" using assms(1) by (simp add: chain_inv_def)
  have seq: "e_seq (es ! i) = int (Suc i)" if "i < length es" for i
    using arg_cong [OF seqs, of "\<lambda>xs. xs ! i"] that by (simp del: upt_Suc)
  have "set (map e_seq es) = int ` {1..<Suc (length es)}" by (simp only: seqs set_map set_upt)
  moreover have "Max (int ` {1..<Suc (length es)}) = int (length es)"
    using assms(2) by (intro Max_eqI) (auto simp: Suc_le_eq)
  ultimately show "Max (e_seq ` set es) = int (length es)" by simp
  show "find (\<lambda>x. e_seq x = int (Suc n)) es = Some (es ! n)" if "n < length es"
    using that seq by (auto simp: find_Some_iff intro!: exI [of _ n])
qed

lemma projection_run_once_step:
  assumes sql: "sql_backend B" and inv: "db_invar E B (pe_fetched env)"
    and built: "(ledger_step E B)\<^sup>*\<^sup>* (pe_fetched env) (pe_built env)"
    and r: "runner_inv F c (db_log B (pe_fetched env) c) r db" and run: "projection_run_once F B c env (r, db) = (out, r', db')"
  shows "runner_inv F c (db_log B (pe_built env) c) r' db'"
    and "out = Inr k \<Longrightarrow> db_log B (pe_fetched env) c \<noteq> [] \<Longrightarrow>
      \<exists>m. length (db_log B (pe_fetched env) c) \<le> m \<and> m \<le> length (db_log B (pe_built env) c) \<and>
        reflects F c (take m (db_log B (pe_built env) c)) db'"
proof -
  define es where "es = db_log B (pe_fetched env) c"
  from ledger_steps_grow [OF sql built inv, of c] obtain new where new: "db_log B (pe_built env) c = es @ new"
    by (auto simp: es_def)
  have chain: "chain_inv E c es" using inv by (simp add: db_invar_def es_def)
  have fetched: "fetch_entries B (pe_fetched env) c None = es" by (simp add: es_def db_log_def)
  note r = r [folded es_def]
  have same: "runner_inv F c (es @ new) r db" by (rule runner_inv_grows [OF r])
  have goals: "runner_inv F c (es @ new) r' db' \<and> (out = Inr k \<longrightarrow> es \<noteq> [] \<longrightarrow>
      (\<exists>m. length es \<le> m \<and> m \<le> length (es @ new) \<and> reflects F c (take m (es @ new)) db'))"
  proof (cases "es = []")
    case True
    with r have "pr_last_seq r = 0" by (simp add: runner_inv_def)
    with run True have "r' = r" "db' = db" by (simp_all add: projection_run_once_def fetched)
    with same True show ?thesis by simp
  next
    case False
    note seqs = log_chain_seqs [OF chain False]
    have "\<not> projection_reset r es"
      using r seqs(2) by (auto simp: runner_inv_def projection_reset_def seqs(1))
    then have run': "(if length (filter (\<lambda>x. e_seq x > pr_last_seq r) es) = 0 \<and> int (length es) = pr_last_seq r
        then (Inr 0, r, db)
        else (case rebuild F B c env db of
            Inl x \<Rightarrow> (Inl x, r, db)
          | Inr db' \<Rightarrow> (Inr (max (int (length (filter (\<lambda>x. e_seq x > pr_last_seq r) es))) 0),
              \<lparr>pr_last_seq = int (length es), pr_last_hash = map_option e_hash (find (\<lambda>x. e_seq x = int (length es)) es)\<rparr>, db')))
      = (out, r', db')"
      using run False by (simp add: projection_run_once_def fetched Let_def seqs(1) cong: sum.case_cong if_cong)
    show ?thesis
    proof (cases "length (filter (\<lambda>x. e_seq x > pr_last_seq r) es) = 0 \<and> int (length es) = pr_last_seq r")
      case True
      with run' have eq: "r' = r" "db' = db" by simp_all
      from r True False obtain m where "length es \<le> m" "m \<le> length es" "reflects F c (take m es) db"
        by (auto simp: runner_inv_def)
      then have "length es \<le> m" "m \<le> length (es @ new)" "reflects F c (take m (es @ new)) db'" by (simp_all add: eq)
      with same eq show ?thesis by blast
    next
      case change: False
      show ?thesis
      proof (cases "rebuild F B c env db")
        case (Inl x)
        with run' change have "out = Inl x" "r' = r" "db' = db" by auto
        with same show ?thesis by simp
      next
        case (Inr d)
        obtain n where n: "length es = Suc n" using False by (cases es) auto
        from Inr run' change have eq: "db' = d" "pr_last_seq r' = int (Suc n)" "pr_last_hash r' = Some (e_hash (es ! n))"
          using seqs(2) [of n] by (auto simp: n)
        have "project_rows F (es @ new) = project_rows F (fetch_entries B (pe_built env) c None)"
          using new by (simp add: db_log_def)
        with Inr have "reflects F c (es @ new) db'"
          by (auto simp: rebuild_def build_projections_def reflects_def rbind_Inr_iff eq split: option.splits)
        then have m: "Suc n \<le> length (es @ new)" "length (es @ new) \<le> length (es @ new)"
          "reflects F c (take (length (es @ new)) (es @ new)) db'" using n by simp_all
        moreover have "pr_last_hash r' = Some (e_hash ((es @ new) ! n))" "n < length (es @ new)"
          using eq(3) n by (simp_all add: nth_append)
        ultimately have "runner_inv F c (es @ new) r' db'" unfolding runner_inv_def using eq(2) by blast
        moreover have "length es \<le> length (es @ new)" by simp
        ultimately show ?thesis using m(2,3) by blast
      qed
    qed
  qed
  from goals show "runner_inv F c (db_log B (pe_built env) c) r' db'" by (simp add: new)
  from goals show "out = Inr k \<Longrightarrow> db_log B (pe_fetched env) c \<noteq> [] \<Longrightarrow>
      \<exists>m. length (db_log B (pe_fetched env) c) \<le> m \<and> m \<le> length (db_log B (pe_built env) c) \<and>
        reflects F c (take m (db_log B (pe_built env) c)) db'" by (simp add: new flip: es_def)
qed

lemma runner_reachable:
  assumes "sql_backend B" and "(runner_step E F B c)\<^sup>*\<^sup>* (s0, pr_init, db0) (s, r, db)" and "db_invar E B s0"
  shows "db_invar E B s \<and> runner_inv F c (db_log B s c) r db"
  using assms(2)
proof (induction "(s, r, db)" arbitrary: s r db rule: rtranclp_induct)
  case base
  with assms(3) show ?case by (simp add: runner_inv_def pr_init_def)
next
  case (step w)
  obtain s1 r1 db1 where w: "w = (s1, r1, db1)" by (cases w)
  from step.hyps(3) [OF w] have IH: "db_invar E B s1" "runner_inv F c (db_log B s1 c) r1 db1" by simp_all
  from step.hyps(2) show ?case unfolding w
  proof cases
    case wrote
    from ledger_step_grows [OF assms(1) IH(1) wrote(3), of c] IH(2) wrote(1,2) runner_inv_grows show ?thesis by auto
  next
    case (polled env out)
    with IH ledger_steps_grow [OF assms(1) polled(3), of c] projection_run_once_step(1) [OF assms(1), of E env F c r1 db1 out]
    show ?thesis by auto
  qed
qed


definition demo_pass :: "entry list session \<Rightarrow> entry list pass_env" where
  "demo_pass s = \<lparr>pe_fetched = s, pe_built = s, pe_now = PTime (Aware 0), pe_fault = None\<rparr>"


text \<open>A pass that finds the log empty forgets its cursor before it clears the tables: when the database
  fails at that moment, no later pass over the empty log clears them, whatever they hold.\<close>

theorem failed_clear_is_forgotten:
  assumes "fetch_entries B (pe_fetched env) c None = []" and "pr_last_seq r \<noteq> 0" and "pe_fault env = Some x"
  shows "projection_run_once F B c env (r, db) = (Inl x, pr_init, db) \<and>
    (\<forall>env'. fetch_entries B (pe_fetched env') c None = [] \<longrightarrow> projection_run_once F B c env' (pr_init, db) = (Inr 0, pr_init, db))"
  using assms by (simp add: projection_run_once_def rebuild_def pr_init_def)

theorem failed_clear_is_forgotten_witness:
  "projection_run_once demo_fold schema_backend ''c'' ((demo_pass db_start)\<lparr>pe_fault := Some (OtherError ''OperationalError'')\<rparr>)
     (\<lparr>pr_last_seq = 4, pr_last_hash = Some ''h''\<rparr>, \<lambda>_. [[(''company_id'', PUuid ''c'')]]) =
     (Inl (OtherError ''OperationalError''), pr_init, \<lambda>_. [[(''company_id'', PUuid ''c'')]])"
  by (rule failed_clear_is_forgotten [THEN conjunct1])
    (simp_all add: demo_pass_def fetch_entries_def company_rows_def schema_backend_def db_start_def)

end
