(* ===== verification/Payload_Fold.thy ===== *)
theory Payload_Fold
  imports Payload_Classes Projection_Properties
begin

section \<open>Validated rows fold (\<open>entries.py\<close> against \<open>projections/builder.py\<close>)\<close>

text \<open>
  The handlers of the fold read the arguments of a row by name and raise where one is missing or of
  another form. This theory relates each to the payload class of its tool: on arguments the class
  validates, the handler returns, and files its rows under keys the final sort can compare.
\<close>

declare has_type.simps [simp del] fields_typed.simps [simp del] dict_of.simps [simp del]

subsection \<open>Well-keyed states\<close>

text \<open>The tables filed under a text; the other sorted tables are filed under a tuple of texts.\<close>

definition TEXT_KEYED :: "string list" where
  "TEXT_KEYED = [''sources'', ''kpi_nodes'', ''persons'', ''notebooks'', ''data_products'']"

fun text_value :: "pyval \<Rightarrow> bool" where
  "text_value (PStr s) = True"
| "text_value v = False"

fun texts_value :: "pyval \<Rightarrow> bool" where
  "texts_value (PTuple xs) = list_all text_value xs"
| "texts_value v = False"

definition well_keyed :: "string \<Rightarrow> pyval \<Rightarrow> bool" where
  "well_keyed n k = (hashable k \<and> (n \<in> set NATURAL_TABLES \<longrightarrow> (if n \<in> set TEXT_KEYED then text_value k else texts_value k)))"

definition keyed :: "proj_state \<Rightarrow> bool" where
  "keyed st = ((\<forall>n. list_all (\<lambda>p. well_keyed n (fst p)) (pj_tables st n)) \<and> list_all (\<lambda>p. text_value (snd p)) (pj_chain st))"

definition folds :: "exc + proj_state \<Rightarrow> bool" where
  "folds m = (\<exists>st. m = Inr st \<and> keyed st)"

lemma folds_Inr: "keyed st \<Longrightarrow> folds (Inr st)"
  by (simp add: folds_def)

lemma folds_bind: "folds m \<Longrightarrow> (\<And>st. keyed st \<Longrightarrow> folds (f st)) \<Longrightarrow> folds (rbind m f)"
  by (auto simp: folds_def)

lemma list_all_put: "list_all (\<lambda>p. P (fst p)) t \<Longrightarrow> P k \<Longrightarrow> list_all (\<lambda>p. P (fst p)) (put_row k r t)"
  by (induction t) auto

lemma list_all_update_first: "list_all (\<lambda>p. P (fst p)) t \<Longrightarrow> list_all (\<lambda>p. P (fst p)) (update_first Q f t)"
  by (induction t) auto

lemma keyed_set_table:
  "keyed st \<Longrightarrow> (\<And>t. list_all (\<lambda>p. well_keyed n (fst p)) t \<Longrightarrow> list_all (\<lambda>p. well_keyed n (fst p)) (f t)) \<Longrightarrow> keyed (set_table n f st)"
  by (simp add: keyed_def set_table_def)

lemma folds_set_row: "well_keyed n k \<Longrightarrow> keyed st \<Longrightarrow> folds (set_row n k r st)"
  by (auto simp: set_row_def well_keyed_def folds_def intro!: keyed_set_table list_all_put)

lemma folds_update_row:
  assumes "well_keyed n k" and "keyed st" and "\<And>row. \<exists>d. f row = Inr d"
  shows "folds (update_row n k f st)"
proof -
  have "hashable k" using assms(1) by (simp add: well_keyed_def)
  moreover have "folds (rbind (f row) (\<lambda>d. set_row n k (dict_merge row d) st))" for row
    using assms(3) [of row] folds_set_row [OF assms(1,2)] by auto
  ultimately show ?thesis using folds_Inr [OF assms(2)] by (auto simp: update_row_def get_row_def split: option.split)
qed

lemma folds_set_default: "well_keyed n k \<Longrightarrow> keyed st \<Longrightarrow> folds (set_default n k r st)"
  using folds_set_row [of n k st r] folds_Inr [of st] by (auto simp: set_default_def get_row_def well_keyed_def)

subsection \<open>Expressions over validated arguments\<close>

definition returns :: "exc + 'a \<Rightarrow> bool" where
  "returns m = (\<exists>v. m = Inr v)"

lemma returns_Inr: "returns (Inr v)"
  by (simp add: returns_def)

lemma returns_opt_uuid:
  "map_of d n = None \<or> (\<exists>v. map_of d n = Some v \<and> (v = PNone \<or> (\<exists>s. v = PStr s \<and> uuid_text s = Some s))) \<Longrightarrow>
   returns (opt_uuid (PDict d) n)"
  by (auto simp: opt_uuid_def returns_def dget_def)

lemma returns_list_item: "map_of d n = Some (PList xs) \<Longrightarrow> returns (list_item (PDict d) n)"
  by (simp add: list_item_def vget_or_def dget_or_def returns_def)

lemma folds_dict:
  "list_all (\<lambda>p. returns (snd p)) fs \<Longrightarrow> (\<And>row. folds (g row)) \<Longrightarrow> folds (rbind (dict_of fs) g)"
proof (induction fs arbitrary: g)
  case (Cons p fs)
  obtain k m where p: "p = (k, m)" by (cases p)
  with Cons.prems obtain v where v: "m = Inr v" by (auto simp: returns_def)
  from Cons.IH [of "\<lambda>d. g ((k, v) # d)"] Cons.prems show ?case
    by (cases "dict_of fs") (simp_all add: p v dict_of.simps)
qed (simp add: dict_of.simps)

lemma dict_of_returns: "list_all (\<lambda>p. returns (snd p)) fs \<Longrightarrow> \<exists>d. dict_of fs = Inr d"
  by (induction fs) (auto simp: returns_def dict_of.simps)

lemmas expr_simps = uuid_item_def int_item_def lit_def null_def seq_of_def hash_of_def now_of_def tenant_of_def returns_Inr

lemmas key_simps = well_keyed_def NATURAL_TABLES_def TEXT_KEYED_def

lemmas enums = Classification_def AddedViaFlow_def SetupMode_def

lemmas uuid_defs = identity_uuid_def role_grant_uuid_def data_product_uuid_def notebook_run_uuid_def external_catalog_uuid_def
  external_lineage_uuid_def external_policy_uuid_def external_metric_uuid_def agent_grant_uuid_def query_outcome_uuid_def id_bytes_def

text \<open>A text the handlers turn into an identifier.\<close>

definition uuid_at :: "pydict \<Rightarrow> string \<Rightarrow> bool" where
  "uuid_at d k = (case dget d k of PStr s \<Rightarrow> uuid_text s \<noteq> None | _ \<Rightarrow> False)"

lemma folds_items:
  "map_of d n = None \<or> (\<exists>v. map_of d n = Some v \<and> (\<exists>xs. v = PList xs \<and> Q xs)) \<Longrightarrow> (\<And>ys. folds (f ys)) \<Longrightarrow>
   folds (rbind (items_of (PDict d) n) f)"
  by (auto simp: items_of_def vget_or_def dget_or_def py_or_def)

subsection \<open>Sources and memory\<close>

lemma source_proposed_folds: "validates V SourceProposedPayload d \<Longrightarrow> keyed st \<Longrightarrow> folds (source_proposed F e (PDict d) st)"
  by (clarsimp dest!: validatesD simp: class_simps SourceProposedPayload_def enums source_proposed_def)
    (rule folds_dict, simp add: expr_simps , rule folds_set_row, simp_all add: key_simps)

lemma source_confirmed_folds: "validates V SourceConfirmedPayload d \<Longrightarrow> keyed st \<Longrightarrow> folds (source_confirmed F e (PDict d) st)"
  by (clarsimp dest!: validatesD simp: class_simps SourceConfirmedPayload_def enums source_confirmed_def)
    (rule folds_update_row, simp add: key_simps, assumption, rule dict_of_returns, simp add: expr_simps vget_or_def returns_opt_uuid)

lemma source_connected_folds: "validates V SourceConnectedPayload d \<Longrightarrow> keyed st \<Longrightarrow> folds (source_connected F e (PDict d) st)"
  by (clarsimp dest!: validatesD simp: class_simps SourceConnectedPayload_def enums source_connected_def)
    (rule folds_update_row, simp add: key_simps, assumption, rule dict_of_returns, simp add: expr_simps )

lemma source_profiled_folds: "validates V SourceProfiledPayload d \<Longrightarrow> keyed st \<Longrightarrow> folds (source_profiled F e (PDict d) st)"
  by (clarsimp dest!: validatesD simp: class_simps SourceProfiledPayload_def enums source_profiled_def)
    (rule folds_update_row, simp add: key_simps, assumption, rule dict_of_returns, simp add: expr_simps )

lemma memory_written_folds: "validates V MemoryWrittenPayload d \<Longrightarrow> keyed st \<Longrightarrow> folds (memory_written F e (PDict d) st)"
  by (clarsimp dest!: validatesD simp: class_simps MemoryWrittenPayload_def enums memory_written_def)
    (rule folds_dict, simp add: expr_simps returns_list_item, rule folds_Inr, simp add: keyed_def)

subsection \<open>Persons and identities\<close>

lemma first_identity_folds:
  assumes "map_of d ''platform'' = Some (PStr pl)" "map_of d ''platform_user_id'' = Some (PStr us)" "map_of d ''tenant_id'' = Some (PStr t)"
    and "uuid_text t = Some t" "map_of d ''person_id'' = Some (PStr p)" "uuid_text p = Some p" "map_of d ''name'' = Some (PStr m)"
    and "keyed st"
  shows "folds (first_identity F e (PDict d) st)"
  using assms
  by (clarsimp simp: first_identity_def uuid_defs dget_def folds_Inr)
    (rule folds_dict, simp add: expr_simps, rule folds_set_default, simp_all add: key_simps)

lemma person_proposed_folds: "validates V PersonProposedPayload d \<Longrightarrow> keyed st \<Longrightarrow> folds (person_proposed F e (PDict d) st)"
  by (clarsimp dest!: validatesD simp: class_simps PersonProposedPayload_def enums person_proposed_def)
    (rule folds_dict, simp add: expr_simps, rule folds_bind, rule folds_set_row, simp add: key_simps, assumption, rule first_identity_folds, assumption+)

lemma person_confirmed_folds: "validates V PersonConfirmedPayload d \<Longrightarrow> keyed st \<Longrightarrow> folds (person_confirmed F e (PDict d) st)"
  by (clarsimp dest!: validatesD simp: class_simps PersonConfirmedPayload_def enums person_confirmed_def)
    (rule folds_update_row, simp add: key_simps, assumption, rule dict_of_returns, simp add: expr_simps )

lemma person_archived_folds: "validates V PersonArchivedPayload d \<Longrightarrow> keyed st \<Longrightarrow> folds (person_archived F e (PDict d) st)"
  by (clarsimp dest!: validatesD simp: class_simps PersonArchivedPayload_def enums person_archived_def)
    (rule folds_update_row, simp add: key_simps, assumption, rule dict_of_returns, simp add: expr_simps )

lemma position_proposed_folds: "validates V PositionProposedPayload d \<Longrightarrow> keyed st \<Longrightarrow> folds (position_proposed F e (PDict d) st)"
  by (clarsimp dest!: validatesD simp: class_simps PositionProposedPayload_def enums position_proposed_def)
    (rule folds_update_row, simp add: key_simps, assumption, rule dict_of_returns, simp add: expr_simps )

lemma identity_linked_folds: "validates V IdentityLinkedPayload d \<Longrightarrow> keyed st \<Longrightarrow> folds (identity_linked F e (PDict d) st)"
  by (clarsimp dest!: validatesD simp: class_simps IdentityLinkedPayload_def enums identity_linked_def uuid_defs Let_def)
    (rule folds_dict, simp add: expr_simps, rule folds_set_default, simp_all add: key_simps)

lemma identity_unlinked_folds: "validates V IdentityUnlinkedPayload d \<Longrightarrow> keyed st \<Longrightarrow> folds (identity_unlinked F e (PDict d) st)"
  by (clarsimp dest!: validatesD simp: class_simps IdentityUnlinkedPayload_def enums identity_unlinked_def Let_def)
    (rule folds_Inr, rule keyed_set_table, assumption, auto simp: list_all_iff)

lemma position_confirmed_folds: "validates V PositionConfirmedPayload d \<Longrightarrow> keyed st \<Longrightarrow> folds (position_confirmed F e (PDict d) st)"
  by (clarsimp dest!: validatesD simp: class_simps PositionConfirmedPayload_def enums position_confirmed_def)
    (rule folds_Inr, assumption)

lemma position_rejected_folds: "validates V PositionRejectedPayload d \<Longrightarrow> keyed st \<Longrightarrow> folds (position_rejected F e (PDict d) st)"
  by (clarsimp dest!: validatesD simp: class_simps PositionRejectedPayload_def enums position_rejected_def)
    (rule folds_update_row, simp add: key_simps, assumption, simp add: expr_simps dict_of.simps)

subsection \<open>Installs and setup\<close>

lemma install_completed_folds: "validates V InstallCompletedPayload d \<Longrightarrow> keyed st \<Longrightarrow> folds (install_completed F e (PDict d) st)"
  by (clarsimp dest!: validatesD simp: class_simps InstallCompletedPayload_def enums install_completed_def get_row_def Let_def)
    (rule folds_dict, simp add: expr_simps returns_list_item, rule folds_set_row, simp_all add: key_simps)

lemma install_revoked_folds: "validates V InstallRevokedPayload d \<Longrightarrow> keyed st \<Longrightarrow> folds (install_revoked F e (PDict d) st)"
  by (clarsimp dest!: validatesD simp: class_simps InstallRevokedPayload_def enums install_revoked_def)
    (rule folds_Inr, rule keyed_set_table, assumption, erule list_all_update_first)

lemma setup_mode_chosen_folds: "validates V SetupModeChosenPayload d \<Longrightarrow> keyed st \<Longrightarrow> folds (setup_mode_chosen F e (PDict d) st)"
  by (clarsimp dest!: validatesD simp: class_simps SetupModeChosenPayload_def enums setup_mode_chosen_def)
    (rule folds_Inr, rule keyed_set_table, assumption, auto simp: list_all_iff)

lemma setup_completed_folds: "validates V SetupCompletedPayload d \<Longrightarrow> keyed st \<Longrightarrow> folds (setup_completed F e (PDict d) st)"
  by (clarsimp dest!: validatesD simp: class_simps SetupCompletedPayload_def enums setup_completed_def)
    (rule folds_Inr, rule keyed_set_table, assumption, auto simp: list_all_iff)

lemma setup_step_advanced_folds: "validates V SetupStepAdvancedPayload d \<Longrightarrow> keyed st \<Longrightarrow> folds (setup_step_advanced F e (PDict d) st)"
  by (clarsimp dest!: validatesD simp: class_simps SetupStepAdvancedPayload_def enums setup_step_advanced_def get_row_def)
    (auto intro!: folds_set_row simp: key_simps split: option.split)

subsection \<open>Roles\<close>

lemma role_assigned_folds: "validates V RoleAssignedPayload d \<Longrightarrow> keyed st \<Longrightarrow> folds (role_assigned F e (PDict d) st)"
  by (clarsimp dest!: validatesD simp: class_simps RoleAssignedPayload_def enums role_assigned_def uuid_defs role_row_def)
    (rule folds_dict, simp add: expr_simps , rule folds_set_row, simp_all add: key_simps)

lemma domain_role_assigned_folds: "validates V DomainRoleAssignedPayload d \<Longrightarrow> keyed st \<Longrightarrow> folds (domain_role_assigned F e (PDict d) st)"
  by (clarsimp dest!: validatesD simp: class_simps DomainRoleAssignedPayload_def enums domain_role_assigned_def uuid_defs role_row_def)
    (rule folds_dict, simp add: expr_simps , rule folds_set_row, simp_all add: key_simps)

lemma resource_role_assigned_folds: "validates V ResourceRoleAssignedPayload d \<Longrightarrow> keyed st \<Longrightarrow> folds (resource_role_assigned F e (PDict d) st)"
  by (clarsimp dest!: validatesD simp: class_simps ResourceRoleAssignedPayload_def enums resource_role_assigned_def uuid_defs role_row_def)
    (rule folds_dict, simp add: expr_simps , rule folds_set_row, simp_all add: key_simps)

lemma resource_role_proposed_folds: "validates V ResourceRoleProposedPayload d \<Longrightarrow> keyed st \<Longrightarrow> folds (resource_role_proposed F e (PDict d) st)"
  by (clarsimp dest!: validatesD simp: class_simps ResourceRoleProposedPayload_def enums resource_role_proposed_def uuid_defs role_row_def)
    (rule folds_dict, simp add: expr_simps , rule folds_set_row, simp_all add: key_simps)

lemma role_revoked_folds: "validates V RoleRevokedPayload d \<Longrightarrow> keyed st \<Longrightarrow> folds (role_revoked F e (PDict d) st)"
  by (clarsimp dest!: validatesD simp: class_simps RoleRevokedPayload_def enums role_revoked_def)
    (rule folds_Inr, rule keyed_set_table, assumption, erule list_all_update_first)

subsection \<open>Data products and notebooks\<close>

lemma data_product_proposed_folds: "validates V DataProductProposedPayload d \<Longrightarrow> keyed st \<Longrightarrow> folds (data_product_proposed F e (PDict d) st)"
  by (clarsimp dest!: validatesD simp: class_simps DataProductProposedPayload_def enums data_product_proposed_def)
    (rule folds_dict, simp add: expr_simps returns_opt_uuid, rule folds_set_row, simp_all add: key_simps)

lemma data_product_generated_folds: "validates V DataProductGeneratedPayload d \<Longrightarrow> keyed st \<Longrightarrow> folds (data_product_generated F e (PDict d) st)"
  by (clarsimp dest!: validatesD simp: class_simps DataProductGeneratedPayload_def enums data_product_generated_def uuid_defs)
    (rule folds_dict, simp add: expr_simps returns_list_item, rule folds_bind, rule folds_set_row, simp add: key_simps, assumption, rule folds_update_row, simp add: key_simps, assumption, rule dict_of_returns, simp add: expr_simps)

lemma data_product_consumed_folds: "validates V DataProductConsumedPayload d \<Longrightarrow> keyed st \<Longrightarrow> folds (data_product_consumed F e (PDict d) st)"
  by (clarsimp dest!: validatesD simp: class_simps DataProductConsumedPayload_def enums data_product_consumed_def uuid_defs)
    (rule folds_dict, simp add: expr_simps , rule folds_set_row, simp_all add: key_simps)

lemma data_product_archived_folds: "validates V DataProductArchivedPayload d \<Longrightarrow> keyed st \<Longrightarrow> folds (data_product_archived F e (PDict d) st)"
  by (clarsimp dest!: validatesD simp: class_simps DataProductArchivedPayload_def enums data_product_archived_def)
    (rule folds_update_row, simp add: key_simps, assumption, rule dict_of_returns, simp add: expr_simps )

lemma notebook_proposed_folds: "validates V NotebookProposedPayload d \<Longrightarrow> keyed st \<Longrightarrow> folds (notebook_proposed F e (PDict d) st)"
  by (clarsimp dest!: validatesD simp: class_simps NotebookProposedPayload_def enums notebook_proposed_def)
    (rule folds_dict, simp add: expr_simps returns_opt_uuid returns_list_item, rule folds_set_row, simp_all add: key_simps)

lemma notebook_run_folds: "validates V NotebookRunPayload d \<Longrightarrow> keyed st \<Longrightarrow> folds (notebook_run F e (PDict d) st)"
  by (clarsimp dest!: validatesD simp: class_simps NotebookRunPayload_def enums notebook_run_def uuid_defs)
    (rule folds_dict, simp add: expr_simps returns_list_item, rule folds_bind, rule folds_set_row, simp add: key_simps, assumption, rule folds_update_row, simp add: key_simps, assumption, rule dict_of_returns, simp add: expr_simps)

lemma notebook_published_folds: "validates V NotebookPublishedPayload d \<Longrightarrow> keyed st \<Longrightarrow> folds (notebook_published F e (PDict d) st)"
  by (clarsimp dest!: validatesD simp: class_simps NotebookPublishedPayload_def enums notebook_published_def uuid_defs)
    (rule folds_update_row, simp add: key_simps, assumption, rule dict_of_returns, auto simp: expr_simps returns_def dget_def)

lemma notebook_archived_folds: "validates V NotebookArchivedPayload d \<Longrightarrow> keyed st \<Longrightarrow> folds (notebook_archived F e (PDict d) st)"
  by (clarsimp dest!: validatesD simp: class_simps NotebookArchivedPayload_def enums notebook_archived_def)
    (rule folds_update_row, simp add: key_simps, assumption, rule dict_of_returns, simp add: expr_simps )

subsection \<open>MCP calls, mirrored catalogs, agents and topics\<close>

lemma mcp_call_received_folds: "validates V MCPCallReceivedPayload d \<Longrightarrow> keyed st \<Longrightarrow> folds (mcp_call_received F e (PDict d) st)"
  by (clarsimp dest!: validatesD simp: class_simps MCPCallReceivedPayload_def enums mcp_call_received_def)
    (rule folds_dict, simp add: expr_simps returns_opt_uuid, rule folds_set_row, simp_all add: key_simps)

lemma external_catalog_imported_folds: "validates V ExternalCatalogImportedPayload d \<Longrightarrow> uuid_at d ''source_id'' \<Longrightarrow> uuid_at d ''domain_id'' \<Longrightarrow> keyed st \<Longrightarrow> folds (external_catalog_imported F e (PDict d) st)"
  by (clarsimp dest!: validatesD simp: class_simps ExternalCatalogImportedPayload_def enums external_catalog_imported_def uuid_at_def uuid_defs dget_def)
    (rule folds_dict, simp add: expr_simps , rule folds_set_row, simp_all add: key_simps)

lemma import_edges_folds: "uuid_text sid \<noteq> None \<Longrightarrow> keyed st \<Longrightarrow> folds (import_edges F e (PStr sid) xs st)"
proof (induction xs arbitrary: st)
  case (Cons x xs)
  show ?case
  proof (cases "edge_ends x")
    case (Some p)
    with Cons.prems show ?thesis
      by (cases p) (clarsimp simp: Let_def uuid_defs, rule folds_dict, simp add: expr_simps,
        rule folds_bind, rule folds_set_row, simp_all add: key_simps Cons.IH)
  qed (simp add: Cons)
qed (simp add: folds_Inr)

lemma external_lineage_imported_folds: "validates V ExternalLineageImportedPayload d \<Longrightarrow> uuid_at d ''source_id'' \<Longrightarrow> keyed st \<Longrightarrow> folds (external_lineage_imported F e (PDict d) st)"
  by (clarsimp dest!: validatesD simp: class_simps ExternalLineageImportedPayload_def enums external_lineage_imported_def uuid_at_def dget_def)
    (rule folds_items [where Q = "\<lambda>_. True"], simp, rule import_edges_folds, simp_all)

lemma agent_grant_recorded_folds: "validates V AgentGrantPayload d \<Longrightarrow> dget d ''company_id'' = PNone \<Longrightarrow> keyed st \<Longrightarrow> folds (agent_grant_recorded F e (PDict d) st)"
  by (clarsimp dest!: validatesD simp: class_simps AgentGrantPayload_def enums agent_grant_recorded_def uuid_defs owner_text_def py_or_def)
    (rule folds_dict, simp add: expr_simps , rule folds_set_row, simp_all add: key_simps)

lemma query_outcome_recorded_folds: "validates V QueryOutcomeRecordedPayload d \<Longrightarrow> keyed st \<Longrightarrow> folds (query_outcome_recorded F e (PDict d) st)"
  by (clarsimp dest!: validatesD simp: class_simps QueryOutcomeRecordedPayload_def enums query_outcome_recorded_def uuid_defs)
    (rule folds_set_row, simp_all add: key_simps)


lemma external_policy_imported_folds: "validates V ExternalPolicyImportedPayload d \<Longrightarrow> uuid_at d ''source_id'' \<Longrightarrow> keyed st \<Longrightarrow> folds (external_policy_imported F e (PDict d) st)"
  by (clarsimp dest!: validatesD simp: class_simps ExternalPolicyImportedPayload_def enums external_policy_imported_def uuid_at_def uuid_defs dget_def)
    (rule folds_items, assumption, rule folds_dict, simp add: expr_simps, rule folds_set_row, simp_all add: key_simps)

lemma external_metric_imported_folds: "validates V ExternalMetricImportedPayload d \<Longrightarrow> uuid_at d ''source_id'' \<Longrightarrow> keyed st \<Longrightarrow> folds (external_metric_imported F e (PDict d) st)"
  by (clarsimp dest!: validatesD simp: class_simps ExternalMetricImportedPayload_def enums external_metric_imported_def uuid_at_def uuid_defs dget_def)
    (rule folds_items, assumption, rule folds_dict, simp add: expr_simps, rule folds_set_row, simp_all add: key_simps)

lemma catalog_table_imported_folds: "validates V CatalogTableImportedPayload d \<Longrightarrow> keyed st \<Longrightarrow> folds (catalog_table_imported F e (PDict d) st)"
  by (clarsimp dest!: validatesD simp: class_simps CatalogTableImportedPayload_def catalog_table_imported_def Let_def folds_Inr)
    (rule folds_items, assumption, rule folds_set_row, simp_all add: key_simps)

lemma topic_proposed_folds:
  assumes "validates V TopicProposedPayload d" and "pl_fold V = F" and "keyed st"
  shows "folds (topic_proposed F e (PDict d) st)"
proof -
  have conf: "returns (rbind (vget_or (PDict d) ''confidence'' (PFloat (1 / 2))) (py_float (fl_float F)))"
    using assms(1) by (auto dest!: validatesD simp: class_simps TopicProposedPayload_def vget_or_def dget_or_def returns_Inr)
  have seen: "returns (rbind (vitem (PDict d) k) (parse_topic_ts F))" if "k = ''first_seen_at'' \<or> k = ''last_seen_at''" for k
    using that assms(1,2) by (auto dest!: validatesD simp: class_simps TopicProposedPayload_def parse_topic_ts_def returns_def)
  from conf obtain q where q: "rbind (vget_or (PDict d) ''confidence'' (PFloat (1 / 2))) (py_float (fl_float F)) = Inr q"
    by (auto simp: returns_def)
  from assms(1) obtain s xs i where d: "map_of d ''topic_id'' = Some (PStr s)" "uuid_text s = Some s"
      "map_of d ''cluster_size'' = Some (PInt i)" "map_of d ''member_message_ids'' = Some (PList xs)"
      "returns (vitem (PDict d) ''label'')" "returns (vitem (PDict d) ''cluster_signature'')"
    by (auto dest!: validatesD simp: class_simps TopicProposedPayload_def returns_def)
  have row: "list_all (\<lambda>p. returns (snd p)) [(''label'', vitem (PDict d) ''label''),
      (''cluster_signature'', vitem (PDict d) ''cluster_signature''), (''cluster_size'', int_item (PDict d) ''cluster_size''),
      (''member_message_ids'', list_item (PDict d) ''member_message_ids''),
      (''last_seen_at'', rbind (vitem (PDict d) ''last_seen_at'') (parse_topic_ts F)),
      (''first_seen_at'', rbind (vitem (PDict d) ''first_seen_at'') (parse_topic_ts F))]"
    using seen [of "''last_seen_at''"] seen [of "''first_seen_at''"] d(5,6)
    by (simp add: int_item_def d(3) returns_Inr returns_list_item [OF d(4)])
  show ?thesis
  proof (cases "find_row (PStr s) (pj_tables st ''topics'')")
    case None
    show ?thesis
      using row by (simp add: topic_proposed_def get_row_def Let_def d(1,2) q None)
        (rule folds_dict, simp add: expr_simps vget_or_def, rule folds_set_row, simp_all add: key_simps assms(3))
  next
    case (Some old)
    show ?thesis
      using row by (simp add: topic_proposed_def get_row_def Let_def d(1,2) q Some)
        (rule folds_dict, simp add: expr_simps vget_or_def, rule folds_set_row, simp_all add: key_simps assms(3))
  qed
qed


subsection \<open>The discovery axes\<close>

lemma axis_proposed_folds:
  assumes "map_of d ''confidence'' = Some (PFloat q)" and "well_keyed (ax_table ax) (axis_key e (str_arg F d (ax_id ax)))" and "keyed st"
  shows "folds (axis_proposed ax F e (PDict d) st)"
proof -
  have "hashable (axis_key e (str_arg F d (ax_id ax)))" using assms(2) by (simp add: well_keyed_def)
  moreover have "dget_or d ''confidence'' (PFloat 0) = PFloat q" by (simp add: dget_or_def assms(1))
  ultimately show ?thesis
    using folds_set_row [OF assms(2,3)] folds_Inr [OF assms(3)] by (simp add: axis_proposed_def Let_def get_row_def)
qed

lemma axis_decided_folds:
  assumes "well_keyed (ax_table ax) (axis_key e (str_arg F d (ax_id ax)))" and "keyed st"
  shows "folds (axis_decided ax verdict author extra F e (PDict d) st)"
proof -
  have "hashable (axis_key e (str_arg F d (ax_id ax)))" using assms(1) by (simp add: well_keyed_def)
  then show ?thesis
    using folds_set_row [OF assms] folds_Inr [OF assms(2)] by (simp add: axis_decided_def Let_def get_row_def split: option.split)
qed

lemma axis_well_keyed: "n \<notin> set TEXT_KEYED \<Longrightarrow> well_keyed n (axis_key e k)"
  by (simp add: well_keyed_def axis_key_def)

lemmas axes = lineage_edges_def quality_checks_def schema_impacts_def semantic_types_def column_classifications_def
  entity_stitches_def source_candidates_def catalog_drifts_def

definition confident :: "pydict \<Rightarrow> bool" where
  "confident d = (\<exists>q. map_of d ''confidence'' = Some (PFloat q))"

lemma confident_classes:
  "validates V LineageEdgeProposedPayload d \<Longrightarrow> confident d" "validates V QualityCheckProposedPayload d \<Longrightarrow> confident d"
  "validates V SchemaImpactProposedPayload d \<Longrightarrow> confident d" "validates V SemanticTypeProposedPayload d \<Longrightarrow> confident d"
  "validates V ColumnClassificationProposedPayload d \<Longrightarrow> confident d" "validates V EntityStitchProposedPayload d \<Longrightarrow> confident d"
  "validates V SourceCandidateProposedPayload d \<Longrightarrow> confident d" "validates V CatalogDriftProposedPayload d \<Longrightarrow> confident d"
  by (drule validatesD, clarsimp simp: confident_def class_simps LineageEdgeProposedPayload_def QualityCheckProposedPayload_def
      SchemaImpactProposedPayload_def SemanticTypeProposedPayload_def ColumnClassificationProposedPayload_def
      EntityStitchProposedPayload_def SourceCandidateProposedPayload_def CatalogDriftProposedPayload_def)+

lemma proposed_folds:
  assumes "confident d" and "keyed st" and "ax \<in> {lineage_edges, quality_checks, schema_impacts, semantic_types,
      column_classifications, entity_stitches, source_candidates, catalog_drifts}"
  shows "folds (axis_proposed ax F e (PDict d) st)"
proof -
  from assms(1) obtain q where "map_of d ''confidence'' = Some (PFloat q)" by (auto simp: confident_def)
  moreover have "ax_table ax \<notin> set TEXT_KEYED" using assms(3) by (auto simp: axes TEXT_KEYED_def)
  ultimately show ?thesis using axis_proposed_folds axis_well_keyed assms(2) by blast
qed

lemma decided_folds:
  assumes "keyed st" and "ax \<in> {lineage_edges, quality_checks, schema_impacts, semantic_types,
      column_classifications, entity_stitches, source_candidates, catalog_drifts}"
  shows "folds (axis_decided ax verdict author extra F e (PDict d) st)"
proof -
  have "ax_table ax \<notin> set TEXT_KEYED" using assms(2) by (auto simp: axes TEXT_KEYED_def)
  then show ?thesis using axis_decided_folds axis_well_keyed assms(1) by blast
qed

subsection \<open>The class of every tool\<close>

text \<open>The payload class of the arguments of each tool the fold reads. \<open>emit_kpi_node\<close> has none; the
  class of \<open>emit_agent_registered\<close> is left out because no arguments it validates fold.\<close>

definition FOLD_CLASSES :: "(string \<times> payload_class option) list" where
  "FOLD_CLASSES =
     [(''emit_source_proposed'', Some SourceProposedPayload), (''emit_source_confirmed'', Some SourceConfirmedPayload),
      (''emit_source_connected'', Some SourceConnectedPayload), (''emit_source_profiled'', Some SourceProfiledPayload),
      (''emit_memory_written'', Some MemoryWrittenPayload), (''emit_kpi_node'', None),
      (''emit_person_proposed'', Some PersonProposedPayload), (''emit_person_confirmed'', Some PersonConfirmedPayload),
      (''emit_person_archived'', Some PersonArchivedPayload), (''emit_identity_linked'', Some IdentityLinkedPayload),
      (''emit_identity_unlinked'', Some IdentityUnlinkedPayload),
      (''emit_install_completed'', Some InstallCompletedPayload),
      (''emit_install_revoked'', Some InstallRevokedPayload), (''emit_role_assigned'', Some RoleAssignedPayload),
      (''emit_role_revoked'', Some RoleRevokedPayload),
      (''emit_domain_role_assigned'', Some DomainRoleAssignedPayload),
      (''emit_resource_role_assigned'', Some ResourceRoleAssignedPayload),
      (''emit_position_proposed'', Some PositionProposedPayload),
      (''emit_position_confirmed'', Some PositionConfirmedPayload),
      (''emit_position_rejected'', Some PositionRejectedPayload),
      (''emit_resource_role_proposed'', Some ResourceRoleProposedPayload),
      (''emit_data_product_proposed'', Some DataProductProposedPayload),
      (''emit_data_product_generated'', Some DataProductGeneratedPayload),
      (''emit_data_product_consumed'', Some DataProductConsumedPayload),
      (''emit_data_product_archived'', Some DataProductArchivedPayload),
      (''emit_notebook_proposed'', Some NotebookProposedPayload), (''emit_notebook_run'', Some NotebookRunPayload),
      (''emit_notebook_published'', Some NotebookPublishedPayload),
      (''emit_notebook_archived'', Some NotebookArchivedPayload),
      (''emit_setup_mode_chosen'', Some SetupModeChosenPayload),
      (''emit_setup_completed'', Some SetupCompletedPayload),
      (''emit_mcp_call_received'', Some MCPCallReceivedPayload),
      (''emit_setup_step_advanced'', Some SetupStepAdvancedPayload),
      (''emit_external_catalog_imported'', Some ExternalCatalogImportedPayload),
      (''emit_external_lineage_imported'', Some ExternalLineageImportedPayload),
      (''emit_external_policy_imported'', Some ExternalPolicyImportedPayload),
      (''emit_external_metric_imported'', Some ExternalMetricImportedPayload), (''emit_agent_registered'', None),
      (''emit_agent_grant'', Some AgentGrantPayload),
      (''emit_query_outcome_recorded'', Some QueryOutcomeRecordedPayload),
      (''emit_topic_proposed'', Some TopicProposedPayload),
      (''emit_lineage_edge_proposed'', Some LineageEdgeProposedPayload),
      (''emit_lineage_edge_confirmed'', Some LineageEdgeConfirmedPayload),
      (''emit_lineage_edge_rejected'', Some LineageEdgeRejectedPayload),
      (''emit_quality_check_proposed'', Some QualityCheckProposedPayload),
      (''emit_quality_check_confirmed'', Some QualityCheckConfirmedPayload),
      (''emit_quality_check_rejected'', Some QualityCheckRejectedPayload),
      (''emit_schema_impact_proposed'', Some SchemaImpactProposedPayload),
      (''emit_schema_impact_confirmed'', Some SchemaImpactConfirmedPayload),
      (''emit_schema_impact_rejected'', Some SchemaImpactRejectedPayload),
      (''emit_semantic_type_proposed'', Some SemanticTypeProposedPayload),
      (''emit_semantic_type_confirmed'', Some SemanticTypeConfirmedPayload),
      (''emit_semantic_type_rejected'', Some SemanticTypeRejectedPayload),
      (''emit_column_classification_proposed'', Some ColumnClassificationProposedPayload),
      (''emit_column_classification_confirmed'', Some ColumnClassificationConfirmedPayload),
      (''emit_column_classification_rejected'', Some ColumnClassificationRejectedPayload),
      (''emit_entity_stitch_proposed'', Some EntityStitchProposedPayload),
      (''emit_entity_stitch_confirmed'', Some EntityStitchConfirmedPayload),
      (''emit_entity_stitch_rejected'', Some EntityStitchRejectedPayload),
      (''emit_source_candidate_proposed'', Some SourceCandidateProposedPayload),
      (''emit_source_candidate_promoted'', Some SourceCandidatePromotedPayload),
      (''emit_source_candidate_rejected'', Some SourceCandidateRejectedPayload),
      (''emit_catalog_drift_proposed'', Some CatalogDriftProposedPayload),
      (''emit_catalog_drift_acknowledged'', Some CatalogDriftAcknowledgedPayload),
      (''emit_catalog_drift_rejected'', Some CatalogDriftRejectedPayload),
      (''emit_catalog_table_imported'', Some CatalogTableImportedPayload)]"

definition uuid_fields :: "string \<Rightarrow> string list" where
  "uuid_fields tool =
     (if tool = ''emit_external_catalog_imported'' then [''source_id'', ''domain_id'']
      else if tool \<in> {''emit_external_lineage_imported'', ''emit_external_policy_imported'', ''emit_external_metric_imported''}
      then [''source_id''] else [])"

lemma fold_class_kinds: "list_all (\<lambda>(tool, C). case C of None \<Rightarrow> True | Some C \<Rightarrow> tool = ''emit_'' @ pc_kind C) FOLD_CLASSES"
  by (simp add: FOLD_CLASSES_def SourceProposedPayload_def SourceConfirmedPayload_def SourceConnectedPayload_def SourceProfiledPayload_def MemoryWrittenPayload_def PersonProposedPayload_def PersonConfirmedPayload_def PersonArchivedPayload_def IdentityLinkedPayload_def IdentityUnlinkedPayload_def InstallCompletedPayload_def InstallRevokedPayload_def RoleAssignedPayload_def RoleRevokedPayload_def DomainRoleAssignedPayload_def ResourceRoleAssignedPayload_def PositionProposedPayload_def PositionConfirmedPayload_def PositionRejectedPayload_def ResourceRoleProposedPayload_def DataProductProposedPayload_def DataProductGeneratedPayload_def DataProductConsumedPayload_def DataProductArchivedPayload_def NotebookProposedPayload_def NotebookRunPayload_def NotebookPublishedPayload_def NotebookArchivedPayload_def SetupModeChosenPayload_def SetupCompletedPayload_def MCPCallReceivedPayload_def SetupStepAdvancedPayload_def ExternalCatalogImportedPayload_def ExternalLineageImportedPayload_def ExternalPolicyImportedPayload_def ExternalMetricImportedPayload_def AgentGrantPayload_def QueryOutcomeRecordedPayload_def TopicProposedPayload_def LineageEdgeProposedPayload_def LineageEdgeConfirmedPayload_def LineageEdgeRejectedPayload_def QualityCheckProposedPayload_def QualityCheckConfirmedPayload_def QualityCheckRejectedPayload_def SchemaImpactProposedPayload_def SchemaImpactConfirmedPayload_def SchemaImpactRejectedPayload_def SemanticTypeProposedPayload_def SemanticTypeConfirmedPayload_def SemanticTypeRejectedPayload_def ColumnClassificationProposedPayload_def ColumnClassificationConfirmedPayload_def ColumnClassificationRejectedPayload_def EntityStitchProposedPayload_def EntityStitchConfirmedPayload_def EntityStitchRejectedPayload_def SourceCandidateProposedPayload_def SourceCandidatePromotedPayload_def SourceCandidateRejectedPayload_def CatalogDriftProposedPayload_def CatalogDriftAcknowledgedPayload_def CatalogDriftRejectedPayload_def CatalogTableImportedPayload_def payload_def)

lemma forbidden_field: "validates V C d \<Longrightarrow> n \<notin> fst ` set (pc_fields C) \<Longrightarrow> dget d n = PNone"
  by (force simp: validates_def list_all_iff dget_def split: option.split dest: map_of_SomeD)

lemma agent_grant_folds: "validates V AgentGrantPayload d \<Longrightarrow> keyed st \<Longrightarrow> folds (agent_grant_recorded F e (PDict d) st)"
  by (rule agent_grant_recorded_folds) (simp_all add: forbidden_field AgentGrantPayload_def payload_def needs_def takes_def)

lemma topic_folds: "validates V TopicProposedPayload d \<Longrightarrow> keyed st \<Longrightarrow> folds (topic_proposed (pl_fold V) e (PDict d) st)"
  by (rule topic_proposed_folds [OF _ refl])

lemma handler_folds:
  "list_all2 (\<lambda>(t, h) (t', C). t = t' \<and> (\<forall>C' V e d st. C = Some C' \<longrightarrow> validates V C' d \<longrightarrow> list_all (uuid_at d) (uuid_fields t) \<longrightarrow>
     keyed st \<longrightarrow> folds (h (pl_fold V) e (PDict d) st))) EXECUTE_HANDLERS FOLD_CLASSES"
  unfolding EXECUTE_HANDLERS_def FOLD_CLASSES_def
  by (simp add: uuid_fields_def axis_handlers decided_folds proposed_folds confident_classes topic_folds source_proposed_folds source_confirmed_folds source_connected_folds source_profiled_folds memory_written_folds person_proposed_folds person_confirmed_folds person_archived_folds position_proposed_folds identity_linked_folds identity_unlinked_folds position_confirmed_folds position_rejected_folds install_completed_folds install_revoked_folds setup_mode_chosen_folds setup_completed_folds setup_step_advanced_folds role_assigned_folds domain_role_assigned_folds resource_role_assigned_folds resource_role_proposed_folds role_revoked_folds data_product_proposed_folds data_product_generated_folds data_product_consumed_folds data_product_archived_folds notebook_proposed_folds notebook_run_folds notebook_published_folds notebook_archived_folds mcp_call_received_folds external_catalog_imported_folds external_lineage_imported_folds query_outcome_recorded_folds external_policy_imported_folds external_metric_imported_folds catalog_table_imported_folds agent_grant_folds)


subsection \<open>Rows of a validated log\<close>

text \<open>
  A row is ready when its arguments validate, where its tool is one the fold reads, with texts that
  are identifiers where the handler makes them one, and when its payload, where it is a phase of an
  agent query or of a credential, has the fields of these.
\<close>

definition tool_ready :: "payload_lib \<Rightarrow> string \<Rightarrow> pyval \<Rightarrow> bool" where
  "tool_ready V tool a =
     (case map_of FOLD_CLASSES tool of
        None \<Rightarrow> True
      | Some None \<Rightarrow> False
      | Some (Some C) \<Rightarrow> (case a of PDict d \<Rightarrow> validates V C d \<and> list_all (uuid_at d) (uuid_fields tool) | _ \<Rightarrow> False))"

definition envelope_ready :: "pydict \<Rightarrow> bool" where
  "envelope_ready d =
     ((is_agent_query_payload d \<longrightarrow> text_value (dget d ''audit_trail_id'') \<and> has_keys d [''agent_id'']) \<and>
      (is_credential_payload d \<longrightarrow> has_keys d [''agent_id'', ''target'', ''status'']))"

definition row_ready :: "payload_lib \<Rightarrow> entry \<Rightarrow> bool" where
  "row_ready V e =
     (envelope_ready (e_payload e) \<and>
      (e_kind e = ''execute'' \<longrightarrow>
        (case dget (e_payload e) ''tool'' of
           PStr tool \<Rightarrow> tool_ready V tool (dget_or (e_payload e) ''args'' (PDict []))
         | _ \<Rightarrow> True)))"

lemma aligned_None: "list_all2 (\<lambda>(t, h) (t', C). t = t' \<and> P t h C) hs cs \<Longrightarrow> map_of hs t = None \<longleftrightarrow> map_of cs t = None"
  by (induction rule: list_all2_induct) auto

lemma aligned_Some: "list_all2 (\<lambda>(t, h) (t', C). t = t' \<and> P t h C) hs cs \<Longrightarrow> map_of hs t = Some h \<Longrightarrow> \<exists>C. map_of cs t = Some C \<and> P t h C"
  by (induction rule: list_all2_induct) (auto split: if_splits)

lemma execute_folds:
  assumes "row_ready V e" and "e_kind e = ''execute''" and "keyed st"
  shows "folds (apply_execute (pl_fold V) e st)"
proof (cases "dget (e_payload e) ''tool''")
  case (PStr tool)
  let ?a = "dget_or (e_payload e) ''args'' (PDict [])"
  have ready: "tool_ready V tool ?a" using assms(1,2) by (simp add: row_ready_def PStr)
  show ?thesis
  proof (cases "map_of EXECUTE_HANDLERS tool")
    case (Some h)
    from aligned_Some [OF handler_folds Some] obtain C where C: "map_of FOLD_CLASSES tool = Some C"
      and h: "\<And>C' V d. C = Some C' \<Longrightarrow> validates V C' d \<Longrightarrow> list_all (uuid_at d) (uuid_fields tool) \<Longrightarrow> folds (h (pl_fold V) e (PDict d) st)"
      using assms(3) by blast
    from ready C obtain C' d where "C = Some C'" "?a = PDict d" "validates V C' d" "list_all (uuid_at d) (uuid_fields tool)"
      by (auto simp: tool_ready_def split: option.splits pyval.splits)
    with h show ?thesis by (simp add: apply_execute_def PStr Some)
  qed (simp add: apply_execute_def PStr folds_Inr assms(3))
qed (simp_all add: apply_execute_def folds_Inr assms(3))

lemma keyed_link:
  assumes "keyed st" and "text_value rid"
  shows "keyed (link_entry e rid st)"
proof -
  have "list_all (\<lambda>p. text_value (snd p)) xs \<Longrightarrow> list_all (\<lambda>p. text_value (snd p)) (AList.update i rid xs)"
    for xs and i :: string
    by (induction xs) (auto simp: assms(2))
  then show ?thesis using assms(1) by (simp add: keyed_def link_entry_def)
qed

lemma query_folds:
  assumes "is_agent_query_payload (e_payload e)" and "envelope_ready (e_payload e)" and "keyed st"
  shows "folds (agent_query_phase F e st)"
proof -
  let ?d = "e_payload e"
  have keys: "map_of ?d ''agent_id'' \<noteq> None" "map_of ?d ''mcp_tool'' \<noteq> None" "map_of ?d ''route_mode'' \<noteq> None"
    using assms(1,2) by (auto simp: envelope_ready_def is_agent_query_payload_def has_keys_def)
  have audit: "well_keyed ''agent_queries'' (dget ?d ''audit_trail_id'')" "hashable (dget ?d ''audit_trail_id'')"
    using assms(1,2) by (cases "dget ?d ''audit_trail_id''"; simp add: envelope_ready_def key_simps)+
  show ?thesis
  proof (cases "find_row (dget ?d ''audit_trail_id'') (pj_tables st ''agent_queries'')")
    case None
    with keys show ?thesis
      by (clarsimp simp: agent_query_phase_def Let_def get_row_def audit(2))
        (rule folds_dict, simp add: expr_simps, rule folds_set_row [OF audit(1) assms(3)])
  next
    case (Some row)
    then show ?thesis
      using folds_set_row [OF audit(1) assms(3)] by (simp add: agent_query_phase_def Let_def get_row_def audit(2))
  qed
qed


lemma credential_row_returns:
  assumes "is_credential_payload (e_payload e)" and "envelope_ready (e_payload e)"
  shows "\<exists>row. credential_row F e rid = Inr row"
proof -
  let ?d = "e_payload e"
  have "map_of ?d ''agent_id'' \<noteq> None" "map_of ?d ''target'' \<noteq> None" "map_of ?d ''status'' \<noteq> None"
    "map_of ?d ''ttl_expires_at'' \<noteq> None" "map_of ?d ''issued_by'' \<noteq> None" "map_of ?d ''credential_kind'' \<noteq> None"
    using assms by (auto simp: envelope_ready_def is_credential_payload_def has_keys_def dget_def split: option.splits)
  then show ?thesis
    by (clarsimp simp: credential_row_def Let_def) (rule dict_of_returns, simp add: expr_simps)
qed

lemma credential_update_folds:
  assumes "map_of (e_payload e) ''status'' \<noteq> None" and "text_value rid" and "keyed st"
  shows "folds (credential_update F e rid st)"
  unfolding credential_update_def Let_def
proof (rule folds_update_row)
  show "well_keyed ''credentials'' rid" using assms(2) by (cases rid) (simp_all add: key_simps)
qed (use assms in auto)

lemma credential_folds:
  assumes "is_credential_payload (e_payload e)" and "envelope_ready (e_payload e)" and "keyed st"
  shows "folds (credential_phase F e st)"
proof -
  obtain s where fresh: "credential_uuid F [PStr (e_company e), PStr (e_id e)] = Inr (PStr s)"
    by (simp add: credential_uuid_def id_bytes_def)
  from credential_row_returns [OF assms(1,2)] obtain row where row: "credential_row F e (PStr s) = Inr row" by blast
  have status: "map_of (e_payload e) ''status'' \<noteq> None" using assms(1,2) by (simp add: envelope_ready_def has_keys_def)
  have key: "well_keyed ''credentials'' (PStr s)" by (simp add: key_simps)
  show ?thesis
  proof (cases "e_kind e = ''propose''")
    case True
    then show ?thesis
      using folds_set_row [OF key keyed_link [OF assms(3)]] by (simp add: credential_phase_def Let_def fresh row)
  next
    case False
    let ?prior = "py_str (fl_env F) (py_or (py_or (py_or (dget (e_payload e) ''verify_entry_id'')
      (dget (e_payload e) ''execute_entry_id'')) (dget (e_payload e) ''propose_entry_id'')) (PStr []))"
    show ?thesis
    proof (cases "map_of (pj_chain st) ?prior")
      case None
      have "folds (rbind (set_row ''credentials'' (PStr s) row st) (\<lambda>st'. credential_update F e (PStr s) (link_entry e (PStr s) st')))"
        by (rule folds_bind [OF folds_set_row [OF key assms(3)]]) (simp add: credential_update_folds [OF status] keyed_link)
      with False None show ?thesis by (simp add: credential_phase_def Let_def fresh row)
    next
      case (Some rid)
      then have "text_value rid" using assms(3) by (force simp: keyed_def list_all_iff dest: map_of_SomeD)
      with False Some show ?thesis
        using credential_update_folds [OF status _ keyed_link [OF assms(3)]] by (simp add: credential_phase_def Let_def fresh)
    qed
  qed
qed

lemma envelope_folds:
  assumes "envelope_ready (e_payload e)" and "keyed st"
  shows "folds (apply_pevr_envelope F e st)"
proof -
  have "folds (template_promoted F e st)"
    using folds_Inr [OF assms(2)] folds_set_row [OF _ assms(2), of "''query_templates''"]
    by (auto simp: template_promoted_def Let_def query_template_uuid_def id_bytes_def key_simps)
  then show ?thesis
    using query_folds [OF _ assms] credential_folds [OF _ assms] folds_Inr [OF assms(2)] by (simp add: apply_pevr_envelope_def)
qed

lemma entry_folds:
  assumes "row_ready V e" and "keyed st"
  shows "folds (apply_entry (pl_fold V) e st)"
proof -
  have env: "envelope_ready (e_payload e)" using assms(1) by (simp add: row_ready_def)
  have "keyed (st1\<lparr>pj_chat := n\<rparr>)" "keyed (st1\<lparr>pj_resolve := n\<rparr>)" if "keyed st1" for st1 n
    using that by (simp_all add: keyed_def)
  then show ?thesis
    unfolding apply_entry_def
    using envelope_folds [OF env] execute_folds [OF assms(1)] assms(2)
    by (intro folds_bind) (auto intro: folds_Inr)
qed

lemma ready_fold:
  assumes "list_all (row_ready V) rows" and "keyed st"
  shows "folds (fold_entries (pl_fold V) rows st)"
  using assms by (induction rows arbitrary: st) (auto intro: folds_Inr folds_bind entry_folds)

subsection \<open>The order of well-keyed tables\<close>

lemma texts_comparable: "list_all text_value xs \<Longrightarrow> list_all text_value ys \<Longrightarrow> py_less_seq xs ys \<noteq> None"
proof (induction xs arbitrary: ys)
  case (Cons x xs)
  then obtain s where x: "x = PStr s" by (cases x) auto
  show ?case
  proof (cases ys)
    case (Cons y zs)
    with Cons.prems obtain t where "y = PStr t" by (cases y) auto
    then show ?thesis using Cons.IH [of zs] Cons.prems by (simp add: x Cons)
  qed simp
qed simp

lemma keys_comparable:
  assumes "n \<in> set NATURAL_TABLES" and "well_keyed n k" and "well_keyed n k'"
  shows "py_less k k' \<noteq> None"
proof (cases "n \<in> set TEXT_KEYED")
  case True
  with assms show ?thesis by (cases k; cases k') (simp_all add: well_keyed_def)
next
  case False
  with assms obtain xs ys where "k = PTuple xs" "k' = PTuple ys" "list_all text_value xs" "list_all text_value ys"
    by (cases k; cases k') (simp_all add: well_keyed_def)
  with texts_comparable show ?thesis by simp
qed

lemma natural_rows_return:
  assumes "keyed st" and "set ns \<subseteq> set NATURAL_TABLES"
  shows "\<exists>rs. natural_rows st ns = Inr rs"
  using assms(2)
proof (induction ns)
  case (Cons n ns)
  have "list_all (\<lambda>p. well_keyed n (fst p)) (pj_tables st n)" using assms(1) by (simp add: keyed_def)
  then have "sorted_wrt (\<lambda>p q. py_less (fst p) (fst q) \<noteq> None) (pj_tables st n)"
    using Cons.prems keys_comparable by (auto simp: list_all_iff sorted_wrt_iff_nth_less)
  with Cons show ?case by (auto simp: sort_natural_def)
qed simp

lemma ready_projects:
  assumes "list_all (row_ready V) rows"
  shows "\<exists>p. project_rows (pl_fold V) rows = Inr p"
proof -
  have "keyed initial_projection_state" by (simp add: keyed_def initial_projection_state_def)
  from ready_fold [OF assms this] obtain st where "fold_entries (pl_fold V) rows initial_projection_state = Inr st" "keyed st"
    by (auto simp: folds_def)
  with natural_rows_return [of st NATURAL_TABLES] show ?thesis by (auto simp: project_rows_def state_to_projections_def)
qed


text \<open>A source and a lineage edge, proposed and decided, with the defaults of the classes.\<close>

definition demo_id :: string where
  "demo_id = ''00000000-0000-0000-0000-000000000000''"

definition demo_lib :: payload_lib where
  "demo_lib = \<lparr>pl_fold = demo_fold, pl_connectors = []\<rparr>"

definition demo_ready :: "entry list" where
  "demo_ready =
     [exec_entry 1 ''emit_source_proposed'' [(''source_id'', PStr demo_id), (''source_kind'', PStr ''s3''), (''uri'', PStr ''s3://b''),
        (''added_via_flow'', PStr ''dashboard_form''), (''suggested_domain'', PStr ''d''), (''suggested_classification'', PStr ''pii'')],
      exec_entry 2 ''emit_source_confirmed'' [(''source_id'', PStr demo_id), (''confirmed_by_person'', PStr demo_id),
        (''domain_id'', PStr demo_id), (''classification'', PStr ''internal'')],
      exec_entry 3 ''emit_lineage_edge_proposed'' [(''edge_id'', PStr ''e''), (''src_table_id'', PStr ''t''), (''src_column'', PNone),
        (''tgt_table_id'', PStr ''u''), (''tgt_column'', PNone), (''confidence'', PFloat 1), (''strategy'', PStr ''sql''),
        (''reasoning'', PStr ''''), (''evidence'', PDict [])],
      exec_entry 4 ''emit_lineage_edge_rejected'' [(''edge_id'', PStr ''e''), (''rejected_by_person_id'', PStr ''p''), (''reason'', PStr ''wrong_direction'')]]"

lemma demo_id_uuid: "uuid_text demo_id = Some demo_id"
  by code_simp

lemma exec_ready: "row_ready V (exec_entry n tool args) = tool_ready V tool (PDict args)"
  by (simp add: row_ready_def exec_entry_def envelope_ready_def is_agent_query_payload_def is_credential_payload_def has_keys_def
      dget_def dget_or_def)

lemma class_of_tool:
  "map_of FOLD_CLASSES ''emit_source_proposed'' = Some (Some SourceProposedPayload)"
  "map_of FOLD_CLASSES ''emit_source_confirmed'' = Some (Some SourceConfirmedPayload)"
  "map_of FOLD_CLASSES ''emit_lineage_edge_proposed'' = Some (Some LineageEdgeProposedPayload)"
  "map_of FOLD_CLASSES ''emit_lineage_edge_rejected'' = Some (Some LineageEdgeRejectedPayload)"
  by (simp_all add: FOLD_CLASSES_def)

lemma demo_rows_ready: "list_all (row_ready demo_lib) demo_ready"
  unfolding demo_ready_def
  by (simp add: exec_ready tool_ready_def class_of_tool uuid_fields_def validates_def SourceProposedPayload_def SourceConfirmedPayload_def
      LineageEdgeProposedPayload_def LineageEdgeRejectedPayload_def class_simps needs_takes_names enums one_of_def demo_id_uuid
      meets_def text_meets_def number_meets_def)


end
