(* ===== verification/Payload_Dump.thy ===== *)
theory Payload_Dump
  imports Payload_Classes
begin

section \<open>Dumping a validated payload (\<open>entries.py\<close>)\<close>

text \<open>
  Every writer validates its arguments, dumps them with \<open>model_dump\<close> and lets the verify step
  validate the dump. Of every class but one the dump of validated arguments validates, and a second
  dump changes nothing. The exception is the class whose validator skips the default.
\<close>

subsection \<open>Classes with typed defaults\<close>

text \<open>The types a validator is put on: no list or model below it.\<close>

fun flat_type :: "field_type \<Rightarrow> bool" where
  "flat_type (TList t) = False"
| "flat_type (TModel fs) = False"
| "flat_type (TSuch t rs) = False"
| "flat_type (TOpt t) = flat_type t"
| "flat_type t = True"

text \<open>The names of the fields are distinct and the defaults are JSON values of the types of their fields, at every depth.\<close>

fun neat_type :: "payload_lib \<Rightarrow> field_type \<Rightarrow> bool"
  and neat_fields :: "payload_lib \<Rightarrow> field list \<Rightarrow> bool" where
  "neat_type V (TList t) = neat_type V t"
| "neat_type V (TOpt t) = neat_type V t"
| "neat_type V (TSuch t rs) =
     (flat_type t \<and> (if list_ex (\<lambda>r. r = HexDigits) rs then t = TStr \<and> rs = [LenAtLeast 64, LenAtMost 64, HexDigits] else True))"
| "neat_type V (TModel fs) = neat_fields V fs"
| "neat_type V t = True"
| "neat_fields V [] = True"
| "neat_fields V ((n, t, dflt) # fs) =
     (list_all (\<lambda>f. fst f \<noteq> n) fs \<and> neat_type V t \<and>
      (case dflt of None \<Rightarrow> True | Some v \<Rightarrow> jsonable v \<and> has_type V v t \<and> dump_value t v = v) \<and> neat_fields V fs)"

lemma dump_flat: "flat_type t \<Longrightarrow> dump_value t v = v"
  by (induction t arbitrary: v) auto

lemma hex_lower_digit: "hex_val c = Some n \<Longrightarrow> \<exists>m. hex_val (hex_lower c) = Some m"
  by (cases "c \<in> set ''ABCDEF''") (auto simp: hex_lower_def hex_val_def split: option.splits)

lemma hex_lower_twice: "hex_lower (hex_lower c) = hex_lower c"
  by (cases "c \<in> set ''ABCDEF''") (auto simp: hex_lower_def split: option.splits)

lemma fields_typed_skip: "list_all (\<lambda>f. fst f \<noteq> n) fs \<Longrightarrow> fields_typed V ((n, x) # d) fs \<longleftrightarrow> fields_typed V d fs"
  by (induction fs) (auto simp: fields_typed.simps split: option.splits)

lemma dump_fields_skip: "list_all (\<lambda>f. fst f \<noteq> n) fs \<Longrightarrow> dump_fields fs ((n, x) # d) = dump_fields fs d"
  by (induction fs) (auto split: option.splits)

lemma dump_fields_names: "map fst (dump_fields fs d) = map fst fs"
  by (induction fs) auto

lemma dump_fields_known: "list_all (\<lambda>p. fst p \<in> fst ` set fs) (dump_fields fs d)"
  using dump_fields_names [of fs d] by (metis (no_types, lifting) image_eqI image_set list_all_iff)

lemma dump_such:
  assumes "neat_type V (TSuch t rs)" and "has_type V v (TSuch t rs)"
  shows "has_type V (dump_value (TSuch t rs) v) (TSuch t rs)"
    and "dump_value (TSuch t rs) (dump_value (TSuch t rs) v) = dump_value (TSuch t rs) v"
proof -
  have flat: "dump_value t w = w" for w using assms(1) by (simp add: dump_flat)
  have "has_type V (dump_value (TSuch t rs) v) (TSuch t rs) \<and>
      dump_value (TSuch t rs) (dump_value (TSuch t rs) v) = dump_value (TSuch t rs) v"
  proof (cases "HexDigits \<in> set rs")
    case True
    with assms(1) have t: "t = TStr" "rs = [LenAtLeast 64, LenAtMost 64, HexDigits]" by (auto simp: list_ex_iff split: if_splits)
    with assms(2) obtain s where "v = PStr s" by (auto simp: has_type.simps split: pyval.splits)
    with assms(2) show ?thesis
      by (auto simp: t has_type.simps meets_def text_meets_def list_all_iff hex_lower_twice intro: hex_lower_digit)
  next
    case False
    then have "dump_value (TSuch t rs) w = w" for w by (simp add: flat split: pyval.splits)
    with assms(2) show ?thesis by simp
  qed
  then show "has_type V (dump_value (TSuch t rs) v) (TSuch t rs)"
    and "dump_value (TSuch t rs) (dump_value (TSuch t rs) v) = dump_value (TSuch t rs) v" by simp_all
qed

lemma dump_typed:
  "neat_type V t \<Longrightarrow> has_type V v t \<Longrightarrow> has_type V (dump_value t v) t \<and> dump_value t (dump_value t v) = dump_value t v"
  "neat_fields V fs \<Longrightarrow> fields_typed V d fs \<Longrightarrow> fields_typed V (dump_fields fs d) fs \<and> dump_fields fs (dump_fields fs d) = dump_fields fs d"
proof (induction t v and fs d rule: dump_value_dump_fields.induct)
  case (1 t v)
  then obtain xs where "v = PList xs" by (auto simp: has_type.simps split: pyval.splits)
  with 1 show ?case by (simp add: has_type.simps list_all_iff)
next
  case (2 fs v)
  then obtain d where "v = PDict d" by (auto simp: has_type.simps split: pyval.splits)
  with 2 show ?case by (simp add: has_type.simps dump_fields_known)
next
  case (3 t v)
  then show ?case by (cases "dump_value t v = PNone") (auto simp: has_type.simps)
next
  case (4 t rs v)
  then show ?case using dump_such by blast
next
  case (7 n t dflt fs d)
  let ?x = "case map_of d n of Some v \<Rightarrow> dump_value t v | None \<Rightarrow> (case dflt of Some v \<Rightarrow> v | None \<Rightarrow> PNone)"
  have new: "list_all (\<lambda>f. fst f \<noteq> n) fs" using 7(3) by simp
  have rest: "fields_typed V (dump_fields fs d) fs" "dump_fields fs (dump_fields fs d) = dump_fields fs d"
    using 7(2-4) by (simp_all add: fields_typed.simps)
  have "has_type V ?x t \<and> dump_value t ?x = ?x"
    using 7(1,3,4) by (cases "map_of d n") (auto simp: fields_typed.simps)
  then show ?case
    using rest by (simp add: fields_typed.simps fields_typed_skip [OF new] dump_fields_skip [OF new])
qed (auto simp: has_type.simps fields_typed.simps)

lemma dump_jsonable:
  "neat_type V t \<Longrightarrow> jsonable v \<Longrightarrow> jsonable (dump_value t v)"
  "neat_fields V fs \<Longrightarrow> jsonable_dict d \<Longrightarrow> jsonable_dict (dump_fields fs d)"
proof (induction t v and fs d rule: dump_value_dump_fields.induct)
  case (4 t rs v)
  then show ?case by (cases v) (simp_all add: dump_flat)
next
  case (7 n t dflt fs d)
  have "jsonable v" if "map_of d n = Some v" for v
    using 7(4) map_of_SomeD [OF that] by (force simp: jsonable_dict_def)
  with 7 show ?case by (cases "map_of d n"; cases dflt) simp_all
qed (force simp: jsonable_dict_def split: pyval.split)+

lemma dump_validates_class:
  assumes "neat_fields V (pc_fields C)" and "validates V C d" and "pc_rule C (model_dump C d)"
  shows "validates V C (model_dump C d)" and "model_dump C (model_dump C d) = model_dump C d"
  using dump_typed(2) [OF assms(1), of d] assms(2,3) dump_fields_known [of "pc_fields C" d]
  by (simp_all add: validates_def model_dump_def)

lemmas class_defs =
  ProposePayload_def ExecutePayload_def VerifyPayload_def ResolvePayload_def ClockTickPayload_def
  SourceProposedPayload_def SourceConfirmedPayload_def SourceConnectedPayload_def SourceProfiledPayload_def
  IngestLandedPayload_def IngestProfiledPayload_def MemoryWrittenPayload_def ConceptProposedPayload_def
  ConceptConfirmedPayload_def ChatReceivedPayload_def ChatSentPayload_def ConversationSyncPayload_def
  ChatReplyProposedPayload_def ChatReplyExecutedPayload_def ChatReplyVerifiedPayload_def ChatReplyResolvedPayload_def
  GateFiredPayload_def KpiAnsweredPayload_def HeuristicExperimentPayload_def PolicyAppliedPayload_def
  InferenceServedPayload_def InferenceCacheRefreshedPayload_def SourceBronzedPayload_def SourceSilveredPayload_def
  SourceGoldedPayload_def KpiProposedPayload_def LakeDiscoveryPayload_def DecisionRecordedPayload_def
  ProcessMapProposedPayload_def SystemMapNodePayload_def RecurringQuestionPayload_def TopicProposedPayload_def
  PersonRegisteredPayload_def PositionAssignedPayload_def PositionMetricAddedPayload_def
  PositionQuestionPatternPayload_def ExperimentProposedPayload_def ExperimentRunPayload_def
  ExperimentResolvedPayload_def MetricObservedPayload_def PersonProposedPayload_def PersonConfirmedPayload_def
  PersonArchivedPayload_def PersonInvitedPayload_def IdentityLinkedPayload_def IdentityUnlinkedPayload_def
  InstallCompletedPayload_def InstallRevokedPayload_def RoleAssignedPayload_def RoleRevokedPayload_def
  DomainRoleAssignedPayload_def DomainPackSelectedPayload_def ResourceRoleAssignedPayload_def
  PositionProposedPayload_def ResourceRoleProposedPayload_def PositionConfirmedPayload_def PositionRejectedPayload_def
  DataProductProposedPayload_def DataProductGeneratedPayload_def DataProductConsumedPayload_def
  DataProductArchivedPayload_def NotebookProposedPayload_def NotebookRunPayload_def NotebookPublishedPayload_def
  NotebookArchivedPayload_def SetupModeChosenPayload_def SetupCompletedPayload_def SetupStepAdvancedPayload_def
  MCPCallReceivedPayload_def ReactivityProposedPayload_def ReactivityConfirmedPayload_def ReactivityDisabledPayload_def
  ReactivityFiredPayload_def ResourceConversationProposedPayload_def ResourceConversationRepliedPayload_def
  ResourceConversationResolvedPayload_def PhenomenonGapDetectedPayload_def MetricsKeepRatePublishedPayload_def
  ExperimentLessonPayload_def TenantQuotaConsumedPayload_def TenantEngineRegisteredPayload_def
  TenantSignupInitiatedPayload_def TenantSignupCompletedPayload_def ExternalCatalogImportedPayload_def
  CatalogTableImportedPayload_def ExternalCatalogDriftDetectedPayload_def ExternalLineageImportedPayload_def
  ExternalPolicyImportedPayload_def ExternalMetricImportedPayload_def AgentRegisteredPayload_def AgentGrantPayload_def
  AgentMetadataUpdatedPayload_def AgentQueryPayload_def CredentialPayload_def AgentEventDeliveredPayload_def
  AgentSubscriptionCreatedPayload_def AgentSubscriptionRevokedPayload_def QueryCorrectionSuggestedPayload_def
  QueryOutcomeRecordedPayload_def QueryTemplatePromotedPayload_def SemanticGapProposedPayload_def
  BadPatternProposedPayload_def SemanticGapEscalatedPayload_def DataProductRecommendedPayload_def
  LineageEdgeConfirmedPayload_def LineageEdgeProposedPayload_def LineageEdgeRejectedPayload_def
  QualityCheckConfirmedPayload_def QualityCheckProposedPayload_def QualityCheckRejectedPayload_def
  SchemaImpactConfirmedPayload_def SchemaImpactProposedPayload_def SchemaImpactRejectedPayload_def
  SemanticTypeConfirmedPayload_def SemanticTypeProposedPayload_def SemanticTypeRejectedPayload_def
  ColumnClassificationConfirmedPayload_def ColumnClassificationProposedPayload_def
  ColumnClassificationRejectedPayload_def EntityStitchConfirmedPayload_def EntityStitchProposedPayload_def
  EntityStitchRejectedPayload_def SourceCandidateProposedPayload_def SourceCandidatePromotedPayload_def
  SourceCandidateRejectedPayload_def CatalogDriftProposedPayload_def CatalogDriftAcknowledgedPayload_def
  CatalogDriftRejectedPayload_def

lemmas enum_defs =
  Classification_def AddedViaFlow_def SpeechAct_def PersonRole_def ExperimentOutcome_def SetupMode_def
  ClassificationLevel_def EntityKind_def SourceCandidateRejectReason_def CatalogDriftKind_def
  CatalogDriftRejectReason_def

lemma classes_neat: "list_all (\<lambda>C. neat_fields V (pc_fields C)) PAYLOAD_CLASSES"
  by (simp add: PAYLOAD_CLASSES_def class_defs enum_defs CatalogColumnSpec_def payload_def needs_def takes_def has_type.simps meets_def number_meets_def)

lemma rule_of_class:
  assumes "C \<in> set PAYLOAD_CLASSES" and "pc_kind C \<noteq> ''tenant_engine_registered''" and "pc_kind C \<noteq> ''catalog_drift_proposed''"
  shows "pc_rule C = (\<lambda>_. True)"
proof -
  have "list_all (\<lambda>C. pc_kind C \<in> {''tenant_engine_registered'', ''catalog_drift_proposed''} \<or> pc_rule C = (\<lambda>_. True)) PAYLOAD_CLASSES"
    by (simp add: PAYLOAD_CLASSES_def class_defs payload_def)
  with assms show ?thesis by (auto simp: list_all_iff)
qed

lemma dget_dump: "map_of fs n = Some (t, dflt) \<Longrightarrow> (\<And>v. dump_value t v = v) \<Longrightarrow> dflt \<in> {None, Some PNone} \<Longrightarrow> dget (dump_fields fs d) n = dget d n"
  by (induction fs) (auto simp: dget_def split: option.splits if_splits)

lemma drift_fields:
  "map_of (pc_fields CatalogDriftProposedPayload) ''drift_kind'' = Some (CatalogDriftKind, None)"
  "map_of (pc_fields CatalogDriftProposedPayload) ''column'' = Some (TSuch (TOpt TStr) [NonEmpty], Some PNone)"
  "map_of (pc_fields CatalogDriftProposedPayload) ''before'' = Some (TOpt TDict, Some PNone)"
  "map_of (pc_fields CatalogDriftProposedPayload) ''after'' = Some (TOpt TDict, Some PNone)"
  by (simp_all add: CatalogDriftProposedPayload_def payload_def needs_def takes_def)

lemma drift_dump: "drift_coherent (model_dump CatalogDriftProposedPayload d) = drift_coherent d"
proof -
  note read = drift_fields [THEN dget_dump]
  have "dget (model_dump CatalogDriftProposedPayload d) ''drift_kind'' = dget d ''drift_kind''"
    "dget (model_dump CatalogDriftProposedPayload d) ''column'' = dget d ''column''"
    "dget (model_dump CatalogDriftProposedPayload d) ''before'' = dget d ''before''"
    "dget (model_dump CatalogDriftProposedPayload d) ''after'' = dget d ''after''"
    unfolding model_dump_def by (rule read; simp add: CatalogDriftKind_def split: pyval.split)+
  then show ?thesis by (simp add: drift_coherent_def)
qed

lemma rule_dump:
  assumes "C \<in> set PAYLOAD_CLASSES" and "pc_kind C \<noteq> ''tenant_engine_registered''" and "validates V C d"
  shows "pc_rule C (model_dump C d)"
proof (cases "pc_kind C = ''catalog_drift_proposed''")
  case True
  have "list_all (\<lambda>C. pc_kind C = ''catalog_drift_proposed'' \<longrightarrow> C = CatalogDriftProposedPayload) PAYLOAD_CLASSES"
    by (simp add: PAYLOAD_CLASSES_def class_defs payload_def)
  with True assms(1) have C: "C = CatalogDriftProposedPayload" by (auto simp: list_all_iff)
  have "pc_rule C = drift_coherent" by (simp add: C CatalogDriftProposedPayload_def)
  with assms(3) show ?thesis by (simp add: C drift_dump validates_def)
qed (simp add: rule_of_class [OF assms(1,2)])

lemma dump_roundtrip:
  assumes "C \<in> set PAYLOAD_CLASSES" and "pc_kind C \<noteq> ''tenant_engine_registered''" and "validates V C d"
  shows "validates V C (model_dump C d)" and "model_dump C (model_dump C d) = model_dump C d"
proof -
  have neat: "neat_fields V (pc_fields C)" using classes_neat assms(1) by (auto simp: list_all_iff)
  show "validates V C (model_dump C d)" "model_dump C (model_dump C d) = model_dump C d"
    using dump_validates_class [OF neat assms(3) rule_dump [OF assms]] by simp_all
qed

lemma model_dump_jsonable: "C \<in> set PAYLOAD_CLASSES \<Longrightarrow> jsonable_dict d \<Longrightarrow> jsonable_dict (model_dump C d)"
  unfolding model_dump_def by (rule dump_jsonable(2)) (use classes_neat in \<open>auto simp: list_all_iff\<close>)



text \<open>
  The exception: an isolated engine without a reference to its DSN validates when the field is left
  out, because the validator does not run on a default; its dump does not validate.
\<close>

lemma isolated_engine_unchecked:
  assumes "t \<noteq> []" and "fl_iso (pl_fold V) t = Some (Aware n)"
    and "d = [(''tenant_slug'', PStr ''a''), (''engine_kind'', PStr ''isolated''), (''provisioned_at'', PStr t), (''provisioned_by_person_id'', PStr ''p'')]"
  shows "validates V TenantEngineRegisteredPayload d" and "\<not> validates V TenantEngineRegisteredPayload (model_dump TenantEngineRegisteredPayload d)"
  using assms
  by (simp_all add: validates_def model_dump_def TenantEngineRegisteredPayload_def payload_def needs_def takes_def has_type.simps
      fields_typed.simps meets_def text_meets_def dsn_consistency_check_def dget_def)

end
