(* ===== verification/Admin_Writes.thy ===== *)
theory Admin_Writes
  imports Payload_Dump Payload_Fold Gate_Writes
begin

section \<open>The write of an admin action (\<open>worm_core/write_actions.py\<close>, \<open>silent_mode.py\<close>)\<close>

text \<open>
  Every admin action validates its arguments in a payload class, dumps them and hands them to
  \<open>_pevr\<close>, which writes one propose, execute, verify and resolve cycle. The context of an action
  is the record below: the ledger, the payload library, the process-wide flag of the silent mode,
  the texts pydantic gives an error, the clock as a function of the state and its ISO text,
  \<open>uuid5\<close> of a name and \<open>str.casefold\<close>. An identifier or a time among the arguments is its JSON text.
\<close>

record 's admin =
  ad_store :: "'s store"
  ad_lib :: payload_lib
  ad_silent :: bool
  ad_error :: "payload_class \<Rightarrow> pydict \<Rightarrow> string"
  ad_clock :: "'s \<Rightarrow> int"
  ad_iso :: "int \<Rightarrow> string"
  ad_uuid5 :: "string \<Rightarrow> uuid"
  ad_casefold :: "string \<Rightarrow> string"

datatype admin_result =
    Written write_result
  | SuppressedToolResult uuid

subsection \<open>Silent mode\<close>

definition TRUTHY :: "string list" where
  "TRUTHY = [''1'', ''true'', ''yes'', ''on'']"

definition is_silent_mode_enabled :: "env \<Rightarrow> string \<Rightarrow> bool" where
  "is_silent_mode_enabled E raw =
     (let stripped = str_lower E (py_strip raw) in stripped \<noteq> [] \<and> stripped \<in> set TRUTHY)"

definition suppressed_args :: "string \<Rightarrow> string \<Rightarrow> pydict \<Rightarrow> string option \<Rightarrow> uuid option \<Rightarrow> string \<Rightarrow> uuid \<Rightarrow> pydict" where
  "suppressed_args surface tool args channel tenant why ref =
     [(''surface'', PStr surface), (''tool'', PStr tool), (''args'', PDict args), (''channel_id'', opt_str channel),
      (''tenant_id'', opt_str tenant), (''presence_reason'', PStr why), (''silent_mode_source'', PStr ''env''),
      (''ref_id'', PStr ref)]"

text \<open>A write whose callbacks return fixed dictionaries, stamped with the time of the write.\<close>

definition cycle_req :: "uuid \<Rightarrow> string \<Rightarrow> uuid \<Rightarrow> string \<Rightarrow> string \<Rightarrow> string \<Rightarrow> pydict \<Rightarrow> string \<Rightarrow> pydict \<Rightarrow> string \<Rightarrow> int \<Rightarrow> write_req" where
  "cycle_req c target ref reason by tool args result_ref verified rationale now =
     const_req c
       [(''target_kind'', PStr target), (''ref_id'', PStr ref), (''reason'', PStr reason), (''proposed_by'', PStr by)]
       [(''tool'', PStr tool), (''args'', PDict args), (''result_ref'', PStr result_ref)]
       verified
       [(''outcome'', PStr ''keep''), (''rationale'', PStr rationale)] None now ''active_deterministic''"

definition check_ok :: "string \<Rightarrow> pydict" where
  "check_ok name = [(''checks'', PList [PDict [(''name'', PStr name), (''ok'', PBool True)]]), (''passed'', PBool True)]"

definition record_suppressed :: "'s admin \<Rightarrow> uuid \<Rightarrow> string \<Rightarrow> string \<Rightarrow> pydict \<Rightarrow> string option \<Rightarrow> uuid option \<Rightarrow> string \<Rightarrow> ('s, unit) act" where
  "record_suppressed W c surface tool args channel tenant why =
     with_uuid (ad_store W) (\<lambda>ref s.
       let req = cycle_req c ''reply_suppressed'' ref (''silent_mode suppressed '' @ surface @ ''/'' @ tool) ''silent_mode''
             tool (suppressed_args surface tool args channel tenant why ref) ref (check_ok ''suppressed_recorded'')
             ''silent_mode listen-only'' (ad_clock W s)
       in (Inr (), snd (st_write (ad_store W) req s)))"

subsection \<open>The cycle\<close>

definition verify_body :: "'s admin \<Rightarrow> payload_class \<Rightarrow> string \<Rightarrow> pydict \<Rightarrow> pydict" where
  "verify_body W C tool args =
     (if validates (ad_lib W) C args
      then check_ok (tool @ ''_payload_valid'')
      else [(''checks'', PList [PDict [(''name'', PStr (tool @ ''_payload_valid'')), (''ok'', PBool False),
               (''error'', PStr (ad_error W C args))]]), (''passed'', PBool False)])"

definition pevr :: "'s admin \<Rightarrow> uuid \<Rightarrow> string \<Rightarrow> uuid \<Rightarrow> string \<Rightarrow> string \<Rightarrow> string \<Rightarrow> pydict \<Rightarrow> string \<Rightarrow> payload_class \<Rightarrow> string \<Rightarrow> ('s, admin_result) act" where
  "pevr W c target ref reason by tool args result_ref C rationale s =
     (if ad_silent W then
        sbind (record_suppressed W c ''mcp_write'' tool args None None ''mcp_invocation'') (\<lambda>_.
          with_uuid (ad_store W) (\<lambda>u. sret (SuppressedToolResult u))) s
      else
        sbind (st_write (ad_store W) (cycle_req c target ref reason by tool args result_ref (verify_body W C tool args)
            rationale (ad_clock W s)))
          (\<lambda>res. sret (Written res)) s)"

text \<open>
  The shape of the actions: the payload is built from the given fields, which raises where they do
  not validate, and its dump is written under the name of its kind.
\<close>

definition write_action :: "'s admin \<Rightarrow> uuid \<Rightarrow> payload_class \<Rightarrow> pydict \<Rightarrow> uuid \<Rightarrow> string \<Rightarrow> string \<Rightarrow> string \<Rightarrow> string \<Rightarrow> ('s, admin_result) act" where
  "write_action W c C given ref reason by result_ref rationale s =
     (if \<not> validates (ad_lib W) C given then (Inl (OtherError (''ValidationError: '' @ ad_error W C given)), s)
      else pevr W c (pc_kind C) ref reason by (''emit_'' @ pc_kind C) (model_dump C given) result_ref C rationale s)"

subsection \<open>What a cycle adds\<close>

lemma cycle_req_sel [simp]:
  "wr_company (cycle_req c tk u rs by t args rr vb ra now) = c"
  "write_time (cycle_req c tk u rs by t args rr vb ra now) = now"
  by (simp_all add: cycle_req_def const_req_def write_time_def)

lemma cycle_req_clean:
  "clean_req (cycle_req c tk u rs by t args rr (check_ok n) ra now) \<longleftrightarrow> jsonable_dict args"
  by (simp add: cycle_req_def check_ok_def clean_const_req) (simp add: jsonable_dict_def)

lemma cycle_req_exec: "exec_payload (cycle_req c tk u rs by t args rr vb ra now) p = Inr x \<Longrightarrow> payload_of t args x"
  by (auto simp: cycle_req_def const_req_def exec_payload_def payload_of_def dget_def dict_merge_def)

text \<open>
  What the fold relies on: the tool of the class is one it reads with this class, or none it reads,
  and the fields it takes as identifiers are identifiers.
\<close>

definition fold_safe :: "payload_class \<Rightarrow> pydict \<Rightarrow> bool" where
  "fold_safe C args =
     (map_of FOLD_CLASSES (''emit_'' @ pc_kind C) \<in> {None, Some (Some C)} \<and>
      list_all (uuid_at args) (uuid_fields (''emit_'' @ pc_kind C)))"

lemma cycle_rows_ready:
  assumes "fold_safe C args" and "validates V C args"
    and "e_kind rp = ''propose''" "e_payload rp = [(''target_kind'', PStr tk), (''ref_id'', PStr u), (''reason'', PStr rs), (''proposed_by'', PStr by)]"
    and "e_kind re = ''execute''" "e_payload re = dict_merge [(''propose_entry_id'', PStr x)]
      [(''tool'', PStr (''emit_'' @ pc_kind C)), (''args'', PDict args), (''result_ref'', PStr rr)]"
    and "e_kind rv = ''verify''" "e_payload rv = dict_merge [(''execute_entry_id'', PStr y)] (check_ok n)"
    and "e_kind rr' = ''resolve''" "e_payload rr' = dict_merge [(''verify_entry_id'', PStr z)] [(''outcome'', PStr ''keep''), (''rationale'', PStr ra)]"
  shows "list_all (row_ready V) [rp, re, rv, rr']"
proof -
  have "tool_ready V (''emit_'' @ pc_kind C) (PDict args)"
    using assms(1,2) by (auto simp: fold_safe_def tool_ready_def)
  then show ?thesis
    by (simp add: row_ready_def assms(3-) envelope_ready_def is_agent_query_payload_def is_credential_payload_def has_keys_def
        dget_def dget_or_def dict_merge_def check_ok_def)
qed

text \<open>The state after an action: rows the fold is ready for were added to the company, and to no other.\<close>

definition ready_growth :: "payload_lib \<Rightarrow> 's store \<Rightarrow> uuid \<Rightarrow> 's \<Rightarrow> 's \<Rightarrow> bool" where
  "ready_growth V L c s s' =
     ((\<exists>rows. st_fetch L s' c None = st_fetch L s c None @ rows \<and> list_all (row_ready V) rows) \<and>
      (\<forall>d. d \<noteq> c \<longrightarrow> st_fetch L s' d None = st_fetch L s d None))"

lemma ready_growth_trans: "ready_growth V L c s s1 \<Longrightarrow> ready_growth V L c s1 s2 \<Longrightarrow> ready_growth V L c s s2"
  by (fastforce simp: ready_growth_def)

lemma ready_growth_unlogged: "unlogged L s s' \<Longrightarrow> ready_growth V L c s s'"
  by (simp add: ready_growth_def unlogged_def)

context ledger_store
begin

lemma cycle_write:
  assumes "invar s" and w: "st_write L (cycle_req c tk u rs by t args rr vb ra now) s = (Inr res, s')"
  shows "invar s'" and "logged L s s' c now t args"
    and "t = ''emit_'' @ pc_kind C \<Longrightarrow> vb = check_ok n \<Longrightarrow> fold_safe C args \<Longrightarrow> validates V C args \<Longrightarrow> ready_growth V L c s s'"
proof -
  show "invar s'" by (rule write_invar [OF assms])
  from write_appends [OF assms] obtain new
    where new: "st_fetch L s' c None = st_fetch L s c None @ new"
      and pevr: "pevr_rows E (cycle_req c tk u rs by t args rr vb ra now)
        (int (length (st_fetch L s c None))) (head_hash GENESIS_PREV_HASH (st_fetch L s c None)) new"
    by auto
  from pevr_rows_execs [OF pevr] pevr_rows_length [OF pevr] new write_frame [OF assms]
  show "logged L s s' c now t args"
    by (auto simp: logged_def dest: cycle_req_exec)
  assume t: "t = ''emit_'' @ pc_kind C" "vb = check_ok n" and C: "fold_safe C args" "validates V C args"
  from const_write_rows [OF assms(1) w [unfolded cycle_req_def t]] obtain rp re rv rr'
    where rows: "st_fetch L s' c None = st_fetch L s c None @ [rp, re, rv, rr']"
      and p: "e_kind rp = ''propose''" "e_payload rp = [(''target_kind'', PStr tk), (''ref_id'', PStr u), (''reason'', PStr rs), (''proposed_by'', PStr by)]"
      and e: "e_kind re = ''execute''" "e_payload re = dict_merge [(''propose_entry_id'', PStr (e_id rp))]
        [(''tool'', PStr (''emit_'' @ pc_kind C)), (''args'', PDict args), (''result_ref'', PStr rr)]"
      and v: "e_kind rv = ''verify''" "e_payload rv = dict_merge [(''execute_entry_id'', PStr (e_id re))] (check_ok n)"
      and r: "e_kind rr' = ''resolve''" "e_payload rr' = dict_merge [(''verify_entry_id'', PStr (e_id rv))]
        [(''outcome'', PStr ''keep''), (''rationale'', PStr ra)]"
    by (elim exE conjE)
  have "list_all (row_ready V) [rp, re, rv, rr']" by (rule cycle_rows_ready [OF C p e v r])
  with rows have "\<exists>rows. st_fetch L s' c None = st_fetch L s c None @ rows \<and> list_all (row_ready V) rows" by blast
  then show "ready_growth V L c s s'"
    using write_frame [OF assms] by (auto simp: ready_growth_def)
qed

end

end
