(* ===== verification/Write_Actions.thy ===== *)
theory Write_Actions
  imports Admin_Writes
begin

section \<open>The admin actions of one cycle (\<open>worm_core/write_actions.py\<close>)\<close>

text \<open>
  One definition per function, its parameters in order. An optional identifier defaults to a fresh
  one, an optional tenant to the company and an optional time to the clock.
\<close>

definition or_uuid4 :: "'s admin \<Rightarrow> uuid option \<Rightarrow> (uuid \<Rightarrow> ('s, 'a) act) \<Rightarrow> ('s, 'a) act" where
  "or_uuid4 W u f = (case u of None \<Rightarrow> with_uuid (ad_store W) f | Some v \<Rightarrow> f v)"

definition or_now :: "'s admin \<Rightarrow> string option \<Rightarrow> (string \<Rightarrow> ('s, 'a) act) \<Rightarrow> ('s, 'a) act" where
  "or_now W t f s = (case t of None \<Rightarrow> f (ad_iso W (ad_clock W s)) s | Some u \<Rightarrow> f u s)"

definition or_else :: "uuid option \<Rightarrow> uuid \<Rightarrow> uuid" where
  "or_else u c = (case u of None \<Rightarrow> c | Some v \<Rightarrow> v)"

definition or_empty :: "string list option \<Rightarrow> string list" where
  "or_empty xs = (case xs of None \<Rightarrow> [] | Some ys \<Rightarrow> ys)"

definition if_text :: "string option \<Rightarrow> (string \<Rightarrow> string) \<Rightarrow> string" where
  "if_text t f = (case t of None \<Rightarrow> [] | Some u \<Rightarrow> if u = [] then [] else f u)"

text \<open>A naive time is taken as UTC.\<close>

definition aware_text :: "'s admin \<Rightarrow> string \<Rightarrow> string" where
  "aware_text W t = (case fl_iso (pl_fold (ad_lib W)) t of Some (Naive n) \<Rightarrow> ad_iso W n | _ \<Rightarrow> t)"

subsection \<open>Persons and positions\<close>

definition propose_person :: "'s admin \<Rightarrow> uuid \<Rightarrow> uuid option \<Rightarrow> uuid option \<Rightarrow> string \<Rightarrow> string option \<Rightarrow> string \<Rightarrow> string \<Rightarrow> string option \<Rightarrow> string \<Rightarrow> ('s, uuid \<times> admin_result) act" where
  "propose_person W company_id person_id tenant_id name email platform platform_user_id position proposed_by =
    (or_uuid4 W person_id (\<lambda>pid.
     let tid = or_else tenant_id company_id in
       sbind (write_action W company_id PersonProposedPayload
         [(''person_id'', PStr pid), (''tenant_id'', PStr tid), (''name'', PStr name), (''email'', opt_str email),
          (''platform'', PStr platform), (''platform_user_id'', PStr platform_user_id),
          (''proposed_by'', PStr proposed_by), (''position'', opt_str position)]
         pid (''propose person '' @ (repr_str name) @ '' on '' @ platform)
         proposed_by pid ''person proposed via dashboard API'') (\<lambda>result. sret (pid, result))))"

definition confirm_person :: "'s admin \<Rightarrow> uuid \<Rightarrow> uuid \<Rightarrow> uuid \<Rightarrow> ('s, admin_result) act" where
  "confirm_person W company_id person_id confirmed_by =
       write_action W company_id PersonConfirmedPayload
         [(''person_id'', PStr person_id), (''confirmed_by'', PStr confirmed_by)]
         person_id (''confirm person '' @ person_id)
         confirmed_by person_id ''person confirmed via dashboard API''"

definition archive_person :: "'s admin \<Rightarrow> uuid \<Rightarrow> uuid \<Rightarrow> uuid \<Rightarrow> string \<Rightarrow> ('s, admin_result) act" where
  "archive_person W company_id person_id archived_by reason =
       write_action W company_id PersonArchivedPayload
         [(''person_id'', PStr person_id), (''archived_by'', PStr archived_by), (''reason'', PStr reason)]
         person_id (''archive person '' @ person_id @ '': '' @ reason)
         archived_by person_id ''person archived via dashboard API''"

definition propose_position :: "'s admin \<Rightarrow> uuid \<Rightarrow> uuid \<Rightarrow> string \<Rightarrow> rat \<Rightarrow> string list \<Rightarrow> string \<Rightarrow> ('s, admin_result) act" where
  "propose_position W company_id person_id position confidence signals proposed_by =
       write_action W company_id PositionProposedPayload
         [(''person_id'', PStr person_id), (''position'', PStr position), (''confidence'', PFloat confidence),
          (''signals'', PList (map PStr signals))]
         person_id (''propose position '' @ (repr_str position) @ '' for person '' @ person_id @ '' (confidence='' @ (fixed2 confidence) @ '')'')
         proposed_by person_id ''position proposed via signal scoring''"

definition confirm_position_proposal :: "'s admin \<Rightarrow> uuid \<Rightarrow> uuid \<Rightarrow> string \<Rightarrow> uuid \<Rightarrow> ('s, admin_result) act" where
  "confirm_position_proposal W company_id person_id position confirmed_by =
       write_action W company_id PositionConfirmedPayload
         [(''person_id'', PStr person_id), (''position'', PStr position), (''confirmed_by'', PStr confirmed_by)]
         person_id (''confirm position '' @ (repr_str position) @ '' for person '' @ person_id)
         confirmed_by person_id ''position proposal confirmed via dashboard API''"

definition reject_position_proposal :: "'s admin \<Rightarrow> uuid \<Rightarrow> uuid \<Rightarrow> string \<Rightarrow> uuid \<Rightarrow> string option \<Rightarrow> ('s, admin_result) act" where
  "reject_position_proposal W company_id person_id position rejected_by reason =
       write_action W company_id PositionRejectedPayload
         [(''person_id'', PStr person_id), (''position'', PStr position), (''rejected_by'', PStr rejected_by),
          (''reason'', opt_str reason)]
         person_id (''reject position '' @ (repr_str position) @ '' for person '' @ person_id @ (if_text reason (\<lambda>reason. '': '' @ reason)))
         rejected_by person_id ''position proposal rejected via dashboard API''"

definition propose_resource_role :: "'s admin \<Rightarrow> uuid \<Rightarrow> uuid \<Rightarrow> uuid \<Rightarrow> string \<Rightarrow> rat \<Rightarrow> string list \<Rightarrow> uuid \<Rightarrow> ('s, admin_result) act" where
  "propose_resource_role W company_id person_id resource_id role confidence signals proposed_by =
       write_action W company_id ResourceRoleProposedPayload
         [(''person_id'', PStr person_id), (''resource_id'', PStr resource_id), (''role'', PStr role),
          (''confidence'', PFloat confidence), (''signals'', PList (map PStr signals)),
          (''proposed_by'', PStr proposed_by)]
         resource_id (''propose resource role '' @ (repr_str role) @ '' on resource '' @ resource_id @ '' for person '' @ person_id @ '' (confidence='' @ (fixed2 confidence) @ '')'')
         proposed_by resource_id ''resource role proposed via chatter signal aggregation''"

subsection \<open>Identities and roles\<close>

definition link_identity :: "'s admin \<Rightarrow> uuid \<Rightarrow> uuid \<Rightarrow> string \<Rightarrow> string \<Rightarrow> uuid \<Rightarrow> ('s, admin_result) act" where
  "link_identity W company_id person_id platform platform_user_id linked_by =
       write_action W company_id IdentityLinkedPayload
         [(''person_id'', PStr person_id), (''platform'', PStr platform),
          (''platform_user_id'', PStr platform_user_id), (''linked_by'', PStr linked_by)]
         person_id (''link '' @ platform @ ''/'' @ platform_user_id @ '' to person '' @ person_id)
         linked_by person_id ''identity linked via dashboard API''"

definition unlink_identity :: "'s admin \<Rightarrow> uuid \<Rightarrow> uuid \<Rightarrow> string \<Rightarrow> string \<Rightarrow> uuid \<Rightarrow> ('s, admin_result) act" where
  "unlink_identity W company_id person_id platform platform_user_id unlinked_by =
       write_action W company_id IdentityUnlinkedPayload
         [(''person_id'', PStr person_id), (''platform'', PStr platform),
          (''platform_user_id'', PStr platform_user_id), (''unlinked_by'', PStr unlinked_by)]
         person_id (''unlink '' @ platform @ ''/'' @ platform_user_id @ '' from person '' @ person_id)
         unlinked_by person_id ''identity unlinked via dashboard API''"

definition grant_tenancy_role :: "'s admin \<Rightarrow> uuid \<Rightarrow> uuid \<Rightarrow> string \<Rightarrow> uuid \<Rightarrow> ('s, admin_result) act" where
  "grant_tenancy_role W company_id person_id role granted_by =
       write_action W company_id RoleAssignedPayload
         [(''person_id'', PStr person_id), (''role'', PStr role), (''granted_by'', PStr granted_by)]
         person_id (''grant tenancy.'' @ role @ '' to person '' @ person_id)
         granted_by person_id ''tenancy role granted via dashboard API''"

definition grant_domain_role :: "'s admin \<Rightarrow> uuid \<Rightarrow> uuid \<Rightarrow> uuid \<Rightarrow> string \<Rightarrow> uuid \<Rightarrow> ('s, admin_result) act" where
  "grant_domain_role W company_id person_id domain_id role granted_by =
       write_action W company_id DomainRoleAssignedPayload
         [(''person_id'', PStr person_id), (''domain_id'', PStr domain_id), (''role'', PStr role),
          (''granted_by'', PStr granted_by)]
         person_id (''grant domain.'' @ role @ '' on '' @ domain_id @ '' to person '' @ person_id)
         granted_by person_id ''domain role granted via dashboard API''"

definition grant_resource_role :: "'s admin \<Rightarrow> uuid \<Rightarrow> uuid \<Rightarrow> uuid \<Rightarrow> string \<Rightarrow> string \<Rightarrow> uuid \<Rightarrow> ('s, admin_result) act" where
  "grant_resource_role W company_id person_id resource_id resource_type role granted_by =
       write_action W company_id ResourceRoleAssignedPayload
         [(''person_id'', PStr person_id), (''resource_id'', PStr resource_id),
          (''resource_type'', PStr resource_type), (''role'', PStr role), (''granted_by'', PStr granted_by)]
         person_id (''grant resource.'' @ role @ '' on '' @ resource_type @ ''/'' @ resource_id @ '' to person '' @ person_id)
         granted_by person_id ''resource role granted via dashboard API''"

definition revoke_tenancy_role :: "'s admin \<Rightarrow> uuid \<Rightarrow> uuid \<Rightarrow> string \<Rightarrow> uuid \<Rightarrow> ('s, admin_result) act" where
  "revoke_tenancy_role W company_id person_id role revoked_by =
       write_action W company_id RoleRevokedPayload
         [(''person_id'', PStr person_id), (''role'', PStr role), (''revoked_by'', PStr revoked_by)]
         person_id (''revoke tenancy.'' @ role @ '' from person '' @ person_id)
         revoked_by person_id ''tenancy role revoked via dashboard API''"

subsection \<open>Setup and tool calls\<close>

definition set_setup_mode :: "'s admin \<Rightarrow> uuid \<Rightarrow> uuid option \<Rightarrow> string \<Rightarrow> uuid \<Rightarrow> ('s, admin_result) act" where
  "set_setup_mode W company_id tenant_id mode chosen_by_person_id =
    (let tid = or_else tenant_id company_id in
       write_action W company_id SetupModeChosenPayload
         [(''tenant_id'', PStr tid), (''mode'', PStr mode), (''chosen_by_person_id'', PStr chosen_by_person_id)]
         tid (''setup_mode chosen: '' @ mode @ '' by person '' @ chosen_by_person_id)
         chosen_by_person_id tid (''setup mode set to '' @ mode @ '' via dashboard API''))"

definition complete_setup :: "'s admin \<Rightarrow> uuid \<Rightarrow> uuid option \<Rightarrow> string option \<Rightarrow> ('s, admin_result) act" where
  "complete_setup W company_id tenant_id completed_at =
    (let tid = or_else tenant_id company_id in
     or_now W completed_at (\<lambda>ts.
       write_action W company_id SetupCompletedPayload
         [(''tenant_id'', PStr tid), (''completed_at'', PStr ts)]
         tid ''setup completed''
         ''setup-orchestrator'' tid ''setup completed via dashboard API or bot loop''))"

definition advance_setup_step :: "'s admin \<Rightarrow> uuid \<Rightarrow> uuid option \<Rightarrow> string \<Rightarrow> uuid option \<Rightarrow> ('s, admin_result) act" where
  "advance_setup_step W company_id tenant_id step_id advanced_by_person_id =
    (let tid = or_else tenant_id company_id in
       write_action W company_id SetupStepAdvancedPayload
         [(''tenant_id'', PStr tid), (''step_id'', PStr step_id),
          (''advanced_by_person_id'', opt_str advanced_by_person_id)]
         tid (''setup step advanced to '' @ step_id)
         (case advanced_by_person_id of None \<Rightarrow> ''worm'' | Some p \<Rightarrow> p) tid (''bot setup advanced to step '' @ step_id))"

definition record_mcp_call :: "'s admin \<Rightarrow> uuid \<Rightarrow> uuid option \<Rightarrow> uuid option \<Rightarrow> uuid option \<Rightarrow> string \<Rightarrow> string \<Rightarrow> string option \<Rightarrow> string \<Rightarrow> string \<Rightarrow> int \<Rightarrow> ('s, uuid \<times> admin_result) act" where
  "record_mcp_call W company_id mcp_call_id tenant_id caller_person_id tool_name args_hash client_ua started_at outcome latency_ms =
    (or_uuid4 W mcp_call_id (\<lambda>cid.
     let tid = or_else tenant_id company_id in
       sbind (write_action W company_id MCPCallReceivedPayload
         [(''mcp_call_id'', PStr cid), (''tenant_id'', PStr tid), (''caller_person_id'', opt_str caller_person_id),
          (''tool_name'', PStr tool_name), (''args_hash'', PStr args_hash), (''client_ua'', opt_str client_ua),
          (''started_at'', PStr started_at), (''outcome'', PStr outcome), (''latency_ms'', PInt latency_ms)]
         cid (''mcp tool '' @ (repr_str tool_name) @ '' invoked (outcome='' @ outcome @ '', latency_ms='' @ (dec_int latency_ms) @ '')'')
         (case caller_person_id of None \<Rightarrow> ''mcp-anonymous'' | Some caller_person_id \<Rightarrow> caller_person_id) cid (''mcp call audited via record_mcp_call ('' @ outcome @ '')'')) (\<lambda>result. sret (cid, result))))"

subsection \<open>KPIs, decisions, processes, signup\<close>

definition propose_kpi_node :: "'s admin \<Rightarrow> uuid \<Rightarrow> uuid option \<Rightarrow> string \<Rightarrow> string \<Rightarrow> string \<Rightarrow> uuid list option \<Rightarrow> string option \<Rightarrow> string \<Rightarrow> string option \<Rightarrow> ('s, uuid \<times> admin_result) act" where
  "propose_kpi_node W company_id kpi_id label formula unit source_ids owner_position proposed_by proposed_at =
    (or_uuid4 W kpi_id (\<lambda>kid.
     or_now W proposed_at (\<lambda>ts.
       sbind (write_action W company_id KpiProposedPayload
         [(''kpi_id'', PStr kid), (''label'', PStr label), (''formula'', PStr formula),
          (''source_ids'', PList (map PStr (or_empty source_ids))), (''unit'', PStr unit),
          (''owner_position'', opt_str owner_position), (''proposed_at'', PStr ts)]
         kid (''propose KPI '' @ (repr_str label) @ '' via dashboard'')
         proposed_by kid ''KPI proposed via dashboard admin action'') (\<lambda>result. sret (kid, result)))))"

definition record_decision :: "'s admin \<Rightarrow> uuid \<Rightarrow> uuid option \<Rightarrow> string \<Rightarrow> string \<Rightarrow> uuid list option \<Rightarrow> string list option \<Rightarrow> rat \<Rightarrow> string option \<Rightarrow> string \<Rightarrow> ('s, uuid \<times> admin_result) act" where
  "record_decision W company_id decision_id decision_text channel_id decided_by_persons evidence_message_ids confidence decision_at proposed_by =
    (or_uuid4 W decision_id (\<lambda>did.
     or_now W decision_at (\<lambda>ts.
     let ts = aware_text W ts in
       sbind (write_action W company_id DecisionRecordedPayload
         [(''decision_id'', PStr did), (''decision_text'', PStr decision_text), (''decision_at'', PStr ts),
          (''channel_id'', PStr channel_id),
          (''decided_by_persons'', PList (map PStr (or_empty decided_by_persons))),
          (''evidence_message_ids'', PList (map PStr (or_empty evidence_message_ids))),
          (''confidence'', PFloat confidence)]
         did (''record decision '' @ (repr_str (take 48 decision_text)) @ '' via dashboard'')
         proposed_by did ''decision recorded via dashboard admin action'') (\<lambda>result. sret (did, result)))))"

definition propose_process_map :: "'s admin \<Rightarrow> uuid \<Rightarrow> uuid option \<Rightarrow> string \<Rightarrow> pydict list \<Rightarrow> string \<Rightarrow> rat \<Rightarrow> string \<Rightarrow> ('s, uuid \<times> admin_result) act" where
  "propose_process_map W company_id process_id process_name steps domain confidence proposed_by =
    (or_uuid4 W process_id (\<lambda>pid.
       sbind (write_action W company_id ProcessMapProposedPayload
         [(''process_id'', PStr pid), (''process_name'', PStr process_name), (''steps'', PList (map PDict steps)),
          (''domain'', PStr domain), (''confidence'', PFloat confidence)]
         pid (''propose process map '' @ (repr_str process_name) @ '' via dashboard'')
         proposed_by pid ''process map proposed via dashboard admin action'') (\<lambda>result. sret (pid, result))))"

definition initiate_tenant_signup :: "'s admin \<Rightarrow> uuid \<Rightarrow> uuid \<Rightarrow> string \<Rightarrow> string \<Rightarrow> string \<Rightarrow> string option \<Rightarrow> string \<Rightarrow> ('s, admin_result) act" where
  "initiate_tenant_signup W company_id tenant_id slug display_name signup_source signup_email pending_token_hash =
       write_action W company_id TenantSignupInitiatedPayload
         [(''tenant_id'', PStr tenant_id), (''slug'', PStr slug), (''display_name'', PStr display_name),
          (''signup_source'', PStr signup_source), (''signup_email'', opt_str signup_email),
          (''pending_token_hash'', PStr pending_token_hash)]
         tenant_id (''signup initiated for tenant '' @ slug @ '' via '' @ signup_source)
         ''signup-flow'' tenant_id ''canonical signup chain start''"

definition complete_tenant_signup :: "'s admin \<Rightarrow> uuid \<Rightarrow> uuid \<Rightarrow> string \<Rightarrow> string \<Rightarrow> string option \<Rightarrow> ('s, admin_result) act" where
  "complete_tenant_signup W company_id tenant_id signup_source assigned_tenant_slug signup_email =
       write_action W company_id TenantSignupCompletedPayload
         [(''tenant_id'', PStr tenant_id), (''signup_source'', PStr signup_source),
          (''assigned_tenant_slug'', PStr assigned_tenant_slug), (''signup_email'', opt_str signup_email)]
         tenant_id (''signup completed for '' @ assigned_tenant_slug @ '' via '' @ signup_source)
         ''signup-flow'' tenant_id ''canonical signup chain end''"

subsection \<open>The discovery axes\<close>

definition edge_ref_uuid :: "'s admin \<Rightarrow> uuid \<Rightarrow> string \<Rightarrow> uuid" where
  "edge_ref_uuid W company_id edge_id = ad_uuid5 W (''wormbase:lineage:'' @ company_id @ '':'' @ edge_id)"

definition check_ref_uuid :: "'s admin \<Rightarrow> uuid \<Rightarrow> string \<Rightarrow> uuid" where
  "check_ref_uuid W company_id check_id = ad_uuid5 W (''wormbase:quality:'' @ company_id @ '':'' @ check_id)"

definition impact_ref_uuid :: "'s admin \<Rightarrow> uuid \<Rightarrow> string \<Rightarrow> uuid" where
  "impact_ref_uuid W company_id impact_id = ad_uuid5 W (''wormbase:schema_impact:'' @ company_id @ '':'' @ impact_id)"

definition type_ref_uuid :: "'s admin \<Rightarrow> uuid \<Rightarrow> string \<Rightarrow> uuid" where
  "type_ref_uuid W company_id type_id = ad_uuid5 W (''wormbase:semantic_type:'' @ company_id @ '':'' @ type_id)"

definition classification_ref_uuid :: "'s admin \<Rightarrow> uuid \<Rightarrow> string \<Rightarrow> uuid" where
  "classification_ref_uuid W company_id classification_id = ad_uuid5 W (''wormbase:column_classification:'' @ company_id @ '':'' @ classification_id)"

definition stitch_ref_uuid :: "'s admin \<Rightarrow> uuid \<Rightarrow> string \<Rightarrow> uuid" where
  "stitch_ref_uuid W company_id stitch_id = ad_uuid5 W (''wormbase:entity_stitch:'' @ company_id @ '':'' @ stitch_id)"

definition source_candidate_ref_uuid :: "'s admin \<Rightarrow> uuid \<Rightarrow> string \<Rightarrow> uuid" where
  "source_candidate_ref_uuid W company_id candidate_id = ad_uuid5 W (''wormbase:source_candidate:'' @ company_id @ '':'' @ candidate_id)"

definition catalog_drift_ref_uuid :: "'s admin \<Rightarrow> uuid \<Rightarrow> string \<Rightarrow> uuid" where
  "catalog_drift_ref_uuid W company_id drift_id = ad_uuid5 W (''wormbase:catalog_drift:'' @ company_id @ '':'' @ drift_id)"

definition confirm_lineage_edge :: "'s admin \<Rightarrow> uuid \<Rightarrow> string \<Rightarrow> string \<Rightarrow> string option \<Rightarrow> ('s, admin_result) act" where
  "confirm_lineage_edge W company_id edge_id confirmed_by_person_id notes =
       write_action W company_id LineageEdgeConfirmedPayload
         [(''edge_id'', PStr edge_id), (''confirmed_by_person_id'', PStr confirmed_by_person_id),
          (''notes'', opt_str notes)]
         (edge_ref_uuid W company_id edge_id) (''confirm lineage edge '' @ edge_id @ '' via dashboard admin action'' @ (if_text notes (\<lambda>notes. '' '' @ [CHR 0xE2, CHR 0x80, CHR 0x94] @ '' '' @ notes)))
         confirmed_by_person_id edge_id (''lineage edge confirmed by admin '' @ confirmed_by_person_id @ (if_text notes (\<lambda>notes. '': '' @ notes)))"

definition reject_lineage_edge :: "'s admin \<Rightarrow> uuid \<Rightarrow> string \<Rightarrow> string \<Rightarrow> string \<Rightarrow> string option \<Rightarrow> ('s, admin_result) act" where
  "reject_lineage_edge W company_id edge_id rejected_by_person_id reason notes =
       write_action W company_id LineageEdgeRejectedPayload
         [(''edge_id'', PStr edge_id), (''rejected_by_person_id'', PStr rejected_by_person_id),
          (''reason'', PStr reason), (''notes'', opt_str notes)]
         (edge_ref_uuid W company_id edge_id) (''reject lineage edge '' @ edge_id @ '' (reason='' @ reason @ '') via dashboard admin action'' @ (if_text notes (\<lambda>notes. '' '' @ [CHR 0xE2, CHR 0x80, CHR 0x94] @ '' '' @ notes)))
         rejected_by_person_id edge_id (''lineage edge rejected by admin '' @ rejected_by_person_id @ '' (reason='' @ reason @ '')'' @ (if_text notes (\<lambda>notes. '': '' @ notes)))"

definition confirm_quality_check :: "'s admin \<Rightarrow> uuid \<Rightarrow> string \<Rightarrow> string \<Rightarrow> string option \<Rightarrow> ('s, admin_result) act" where
  "confirm_quality_check W company_id check_id confirmed_by_person_id notes =
       write_action W company_id QualityCheckConfirmedPayload
         [(''check_id'', PStr check_id), (''confirmed_by_person_id'', PStr confirmed_by_person_id),
          (''notes'', opt_str notes)]
         (check_ref_uuid W company_id check_id) (''confirm quality check '' @ check_id @ '' via dashboard admin action'' @ (if_text notes (\<lambda>notes. '' '' @ [CHR 0xE2, CHR 0x80, CHR 0x94] @ '' '' @ notes)))
         confirmed_by_person_id check_id (''quality check confirmed by admin '' @ confirmed_by_person_id @ (if_text notes (\<lambda>notes. '': '' @ notes)))"

definition reject_quality_check :: "'s admin \<Rightarrow> uuid \<Rightarrow> string \<Rightarrow> string \<Rightarrow> string \<Rightarrow> string option \<Rightarrow> ('s, admin_result) act" where
  "reject_quality_check W company_id check_id rejected_by_person_id reason notes =
       write_action W company_id QualityCheckRejectedPayload
         [(''check_id'', PStr check_id), (''rejected_by_person_id'', PStr rejected_by_person_id),
          (''reason'', PStr reason), (''notes'', opt_str notes)]
         (check_ref_uuid W company_id check_id) (''reject quality check '' @ check_id @ '' (reason='' @ reason @ '') via dashboard admin action'' @ (if_text notes (\<lambda>notes. '' '' @ [CHR 0xE2, CHR 0x80, CHR 0x94] @ '' '' @ notes)))
         rejected_by_person_id check_id (''quality check rejected by admin '' @ rejected_by_person_id @ '' (reason='' @ reason @ '')'' @ (if_text notes (\<lambda>notes. '': '' @ notes)))"

definition confirm_schema_impact :: "'s admin \<Rightarrow> uuid \<Rightarrow> string \<Rightarrow> string \<Rightarrow> string option \<Rightarrow> ('s, admin_result) act" where
  "confirm_schema_impact W company_id impact_id confirmed_by_person_id notes =
       write_action W company_id SchemaImpactConfirmedPayload
         [(''impact_id'', PStr impact_id), (''confirmed_by_person_id'', PStr confirmed_by_person_id),
          (''notes'', opt_str notes)]
         (impact_ref_uuid W company_id impact_id) (''confirm schema impact '' @ impact_id @ '' via dashboard admin action'' @ (if_text notes (\<lambda>notes. '' '' @ [CHR 0xE2, CHR 0x80, CHR 0x94] @ '' '' @ notes)))
         confirmed_by_person_id impact_id (''schema impact confirmed by admin '' @ confirmed_by_person_id @ (if_text notes (\<lambda>notes. '': '' @ notes)))"

definition reject_schema_impact :: "'s admin \<Rightarrow> uuid \<Rightarrow> string \<Rightarrow> string \<Rightarrow> string \<Rightarrow> string option \<Rightarrow> ('s, admin_result) act" where
  "reject_schema_impact W company_id impact_id rejected_by_person_id reason notes =
       write_action W company_id SchemaImpactRejectedPayload
         [(''impact_id'', PStr impact_id), (''rejected_by_person_id'', PStr rejected_by_person_id),
          (''reason'', PStr reason), (''notes'', opt_str notes)]
         (impact_ref_uuid W company_id impact_id) (''reject schema impact '' @ impact_id @ '' (reason='' @ reason @ '') via dashboard admin action'' @ (if_text notes (\<lambda>notes. '' '' @ [CHR 0xE2, CHR 0x80, CHR 0x94] @ '' '' @ notes)))
         rejected_by_person_id impact_id (''schema impact rejected by admin '' @ rejected_by_person_id @ '' (reason='' @ reason @ '')'' @ (if_text notes (\<lambda>notes. '': '' @ notes)))"

definition confirm_semantic_type :: "'s admin \<Rightarrow> uuid \<Rightarrow> string \<Rightarrow> string \<Rightarrow> string option \<Rightarrow> ('s, admin_result) act" where
  "confirm_semantic_type W company_id type_id confirmed_by_person_id notes =
       write_action W company_id SemanticTypeConfirmedPayload
         [(''type_id'', PStr type_id), (''confirmed_by_person_id'', PStr confirmed_by_person_id),
          (''notes'', opt_str notes)]
         (type_ref_uuid W company_id type_id) (''confirm semantic type '' @ type_id @ '' via dashboard admin action'' @ (if_text notes (\<lambda>notes. '' '' @ [CHR 0xE2, CHR 0x80, CHR 0x94] @ '' '' @ notes)))
         confirmed_by_person_id type_id (''semantic type confirmed by admin '' @ confirmed_by_person_id @ (if_text notes (\<lambda>notes. '': '' @ notes)))"

definition reject_semantic_type :: "'s admin \<Rightarrow> uuid \<Rightarrow> string \<Rightarrow> string \<Rightarrow> string \<Rightarrow> string option \<Rightarrow> ('s, admin_result) act" where
  "reject_semantic_type W company_id type_id rejected_by_person_id reason notes =
       write_action W company_id SemanticTypeRejectedPayload
         [(''type_id'', PStr type_id), (''rejected_by_person_id'', PStr rejected_by_person_id),
          (''reason'', PStr reason), (''notes'', opt_str notes)]
         (type_ref_uuid W company_id type_id) (''reject semantic type '' @ type_id @ '' (reason='' @ reason @ '') via dashboard admin action'' @ (if_text notes (\<lambda>notes. '' '' @ [CHR 0xE2, CHR 0x80, CHR 0x94] @ '' '' @ notes)))
         rejected_by_person_id type_id (''semantic type rejected by admin '' @ rejected_by_person_id @ '' (reason='' @ reason @ '')'' @ (if_text notes (\<lambda>notes. '': '' @ notes)))"

definition confirm_column_classification :: "'s admin \<Rightarrow> uuid \<Rightarrow> string \<Rightarrow> string \<Rightarrow> string option \<Rightarrow> ('s, admin_result) act" where
  "confirm_column_classification W company_id classification_id confirmed_by_person_id notes =
       write_action W company_id ColumnClassificationConfirmedPayload
         [(''classification_id'', PStr classification_id), (''confirmed_by_person_id'', PStr confirmed_by_person_id),
          (''notes'', opt_str notes)]
         (classification_ref_uuid W company_id classification_id) (''confirm column classification '' @ classification_id @ '' via dashboard admin action'' @ (if_text notes (\<lambda>notes. '' '' @ [CHR 0xE2, CHR 0x80, CHR 0x94] @ '' '' @ notes)))
         confirmed_by_person_id classification_id (''column classification confirmed by admin '' @ confirmed_by_person_id @ (if_text notes (\<lambda>notes. '': '' @ notes)))"

definition reject_column_classification :: "'s admin \<Rightarrow> uuid \<Rightarrow> string \<Rightarrow> string \<Rightarrow> string \<Rightarrow> string option \<Rightarrow> ('s, admin_result) act" where
  "reject_column_classification W company_id classification_id rejected_by_person_id reason notes =
       write_action W company_id ColumnClassificationRejectedPayload
         [(''classification_id'', PStr classification_id), (''rejected_by_person_id'', PStr rejected_by_person_id),
          (''reason'', PStr reason), (''notes'', opt_str notes)]
         (classification_ref_uuid W company_id classification_id) (''reject column classification '' @ classification_id @ '' (reason='' @ reason @ '') via dashboard admin action'' @ (if_text notes (\<lambda>notes. '' '' @ [CHR 0xE2, CHR 0x80, CHR 0x94] @ '' '' @ notes)))
         rejected_by_person_id classification_id (''column classification rejected by admin '' @ rejected_by_person_id @ '' (reason='' @ reason @ '')'' @ (if_text notes (\<lambda>notes. '': '' @ notes)))"

definition confirm_entity_stitch :: "'s admin \<Rightarrow> uuid \<Rightarrow> string \<Rightarrow> string \<Rightarrow> string option \<Rightarrow> ('s, admin_result) act" where
  "confirm_entity_stitch W company_id stitch_id confirmed_by_person_id notes =
       write_action W company_id EntityStitchConfirmedPayload
         [(''stitch_id'', PStr stitch_id), (''confirmed_by_person_id'', PStr confirmed_by_person_id),
          (''notes'', opt_str notes)]
         (stitch_ref_uuid W company_id stitch_id) (''confirm entity stitch '' @ stitch_id @ '' via dashboard admin action'' @ (if_text notes (\<lambda>notes. '' '' @ [CHR 0xE2, CHR 0x80, CHR 0x94] @ '' '' @ notes)))
         confirmed_by_person_id stitch_id (''entity stitch confirmed by admin '' @ confirmed_by_person_id @ (if_text notes (\<lambda>notes. '': '' @ notes)))"

definition reject_entity_stitch :: "'s admin \<Rightarrow> uuid \<Rightarrow> string \<Rightarrow> string \<Rightarrow> string \<Rightarrow> string option \<Rightarrow> ('s, admin_result) act" where
  "reject_entity_stitch W company_id stitch_id rejected_by_person_id reason notes =
       write_action W company_id EntityStitchRejectedPayload
         [(''stitch_id'', PStr stitch_id), (''rejected_by_person_id'', PStr rejected_by_person_id),
          (''reason'', PStr reason), (''notes'', opt_str notes)]
         (stitch_ref_uuid W company_id stitch_id) (''reject entity stitch '' @ stitch_id @ '' (reason='' @ reason @ '') via dashboard admin action'' @ (if_text notes (\<lambda>notes. '' '' @ [CHR 0xE2, CHR 0x80, CHR 0x94] @ '' '' @ notes)))
         rejected_by_person_id stitch_id (''entity stitch rejected by admin '' @ rejected_by_person_id @ '' (reason='' @ reason @ '')'' @ (if_text notes (\<lambda>notes. '': '' @ notes)))"

definition promote_source_candidate :: "'s admin \<Rightarrow> uuid \<Rightarrow> string \<Rightarrow> string \<Rightarrow> string option \<Rightarrow> string option \<Rightarrow> ('s, admin_result) act" where
  "promote_source_candidate W company_id candidate_id promoted_by_person_id downstream_source_proposed_id notes =
       write_action W company_id SourceCandidatePromotedPayload
         [(''candidate_id'', PStr candidate_id), (''promoted_by_person_id'', PStr promoted_by_person_id),
          (''downstream_source_proposed_id'', opt_str downstream_source_proposed_id), (''notes'', opt_str notes)]
         (source_candidate_ref_uuid W company_id candidate_id) (''promote source candidate '' @ candidate_id @ '' via dashboard admin action'' @ (if_text notes (\<lambda>notes. '' '' @ [CHR 0xE2, CHR 0x80, CHR 0x94] @ '' '' @ notes)))
         promoted_by_person_id candidate_id (''source candidate promoted by admin '' @ promoted_by_person_id @ (if_text downstream_source_proposed_id (\<lambda>downstream_source_proposed_id. '' (downstream='' @ downstream_source_proposed_id @ '')'')) @ (if_text notes (\<lambda>notes. '': '' @ notes)))"

definition reject_source_candidate :: "'s admin \<Rightarrow> uuid \<Rightarrow> string \<Rightarrow> string \<Rightarrow> string \<Rightarrow> string option \<Rightarrow> ('s, admin_result) act" where
  "reject_source_candidate W company_id candidate_id rejected_by_person_id reason notes =
       write_action W company_id SourceCandidateRejectedPayload
         [(''candidate_id'', PStr candidate_id), (''rejected_by_person_id'', PStr rejected_by_person_id),
          (''reason'', PStr reason), (''notes'', opt_str notes)]
         (source_candidate_ref_uuid W company_id candidate_id) (''reject source candidate '' @ candidate_id @ '' (reason='' @ reason @ '') via dashboard admin action'' @ (if_text notes (\<lambda>notes. '' '' @ [CHR 0xE2, CHR 0x80, CHR 0x94] @ '' '' @ notes)))
         rejected_by_person_id candidate_id (''source candidate rejected by admin '' @ rejected_by_person_id @ '' (reason='' @ reason @ '')'' @ (if_text notes (\<lambda>notes. '': '' @ notes)))"

definition acknowledge_catalog_drift :: "'s admin \<Rightarrow> uuid \<Rightarrow> string \<Rightarrow> string \<Rightarrow> string option \<Rightarrow> ('s, admin_result) act" where
  "acknowledge_catalog_drift W company_id drift_id acknowledged_by_person_id notes =
       write_action W company_id CatalogDriftAcknowledgedPayload
         [(''drift_id'', PStr drift_id), (''acknowledged_by_person_id'', PStr acknowledged_by_person_id),
          (''notes'', opt_str notes)]
         (catalog_drift_ref_uuid W company_id drift_id) (''acknowledge catalog drift '' @ drift_id @ '' via dashboard admin action'' @ (if_text notes (\<lambda>notes. '' '' @ [CHR 0xE2, CHR 0x80, CHR 0x94] @ '' '' @ notes)))
         acknowledged_by_person_id drift_id (''catalog drift acknowledged by admin '' @ acknowledged_by_person_id @ (if_text notes (\<lambda>notes. '': '' @ notes)))"

definition reject_catalog_drift :: "'s admin \<Rightarrow> uuid \<Rightarrow> string \<Rightarrow> string \<Rightarrow> string \<Rightarrow> string option \<Rightarrow> ('s, admin_result) act" where
  "reject_catalog_drift W company_id drift_id rejected_by_person_id reason notes =
       write_action W company_id CatalogDriftRejectedPayload
         [(''drift_id'', PStr drift_id), (''rejected_by_person_id'', PStr rejected_by_person_id),
          (''reason'', PStr reason), (''notes'', opt_str notes)]
         (catalog_drift_ref_uuid W company_id drift_id) (''reject catalog drift '' @ drift_id @ '' (reason='' @ reason @ '') via dashboard admin action'' @ (if_text notes (\<lambda>notes. '' '' @ [CHR 0xE2, CHR 0x80, CHR 0x94] @ '' '' @ notes)))
         rejected_by_person_id drift_id (''catalog drift rejected by admin '' @ rejected_by_person_id @ '' (reason='' @ reason @ '')'' @ (if_text notes (\<lambda>notes. '': '' @ notes)))"


end
