(* ===== verification/Admin_Flows.thy ===== *)
theory Admin_Flows
  imports Write_Actions
begin

section \<open>The admin actions of several cycles (\<open>worm_core/write_actions.py\<close>)\<close>

text \<open>
  Merging and splitting persons, confirming a batch, agents and their metadata, the promotion of a
  semantic gap, the import of an external catalog. Each cycle is written on its own: a flow that
  raises leaves what it wrote before.
\<close>

text \<open>\<open>result.entry_ids\<close>; the result of a suppressed action has no such attribute.\<close>

definition entry_ids :: "admin_result \<Rightarrow> ('s, uuid list) act" where
  "entry_ids r = (case r of Written w \<Rightarrow> sret (res_ids w) | SuppressedToolResult u \<Rightarrow> sthrow AttributeError)"

definition from_fetch :: "'s admin \<Rightarrow> uuid \<Rightarrow> (entry list \<Rightarrow> exc + 'a) \<Rightarrow> ('a \<Rightarrow> ('s, 'b) act) \<Rightarrow> ('s, 'b) act" where
  "from_fetch W c f g s = (case f (st_fetch (ad_store W) s c None) of Inl x \<Rightarrow> (Inl x, s) | Inr y \<Rightarrow> g y s)"

subsection \<open>A batch of confirmations\<close>

fun unseen :: "uuid list \<Rightarrow> uuid list \<Rightarrow> uuid list" where
  "unseen seen [] = []"
| "unseen seen (p # ps) = (if p \<in> set seen then unseen seen ps else p # unseen (p # seen) ps)"

fun confirm_each :: "'s admin \<Rightarrow> uuid \<Rightarrow> uuid \<Rightarrow> uuid list \<Rightarrow> ('s, uuid list) act" where
  "confirm_each W c by [] = sret []"
| "confirm_each W c by (p # ps) =
     sbind (confirm_person W c p by) (\<lambda>r. sbind (entry_ids r) (\<lambda>ids.
     sbind (confirm_each W c by ps) (\<lambda>rest. sret (ids @ rest))))"

record confirmed_batch =
  cb_count :: nat
  cb_persons :: "uuid list"
  cb_entries :: "uuid list"

definition bulk_confirm_persons :: "'s admin \<Rightarrow> uuid \<Rightarrow> uuid list \<Rightarrow> uuid \<Rightarrow> ('s, confirmed_batch) act" where
  "bulk_confirm_persons W c person_ids confirmed_by =
     (if person_ids = [] then sthrow ValueError
      else let ordered = unseen [] person_ids in
        sbind (confirm_each W c confirmed_by ordered) (\<lambda>ids.
          sret \<lparr>cb_count = length ordered, cb_persons = ordered, cb_entries = ids\<rparr>))"

subsection \<open>The identities of a person\<close>

type_synonym attachments = "(pyval \<times> bool) list"

fun attach :: "pyval \<Rightarrow> bool \<Rightarrow> attachments \<Rightarrow> attachments" where
  "attach k b [] = [(k, b)]"
| "attach k b (p # ps) = (if py_eq (fst p) k then (fst p, b) # ps else p # attach k b ps)"

definition attached_key :: "pyval \<Rightarrow> attachments \<Rightarrow> bool" where
  "attached_key k st = list_ex (\<lambda>p. py_eq (fst p) k) st"

definition identity_step :: "string \<Rightarrow> entry \<Rightarrow> attachments \<Rightarrow> exc + attachments" where
  "identity_step pid e st =
     (if e_kind e \<noteq> ''execute'' then Inr st
      else let tool = dget (e_payload e) ''tool''; args = py_or (dget (e_payload e) ''args'') (PDict []) in
        rbind (vget args ''person_id'') (\<lambda>p.
        if p \<noteq> PStr pid then Inr st
        else if tool \<notin> {PStr ''emit_person_proposed'', PStr ''emit_identity_linked'', PStr ''emit_identity_unlinked''} then Inr st
        else rbind (vget args ''platform'') (\<lambda>platform. rbind (vget args ''platform_user_id'') (\<lambda>user.
          let k = PTuple [platform, user] in
          if \<not> (truthy platform \<and> truthy user) then Inr st
          else if \<not> hashable k then Inl TypeError
          else if tool = PStr ''emit_identity_unlinked'' then Inr (if attached_key k st then attach k False st else st)
          else Inr (attach k True st)))))"

fun identity_fold :: "string \<Rightarrow> entry list \<Rightarrow> attachments \<Rightarrow> exc + attachments" where
  "identity_fold pid [] st = Inr st"
| "identity_fold pid (e # es) st = rbind (identity_step pid e st) (identity_fold pid es)"

definition current_identities_for_person :: "string \<Rightarrow> entry list \<Rightarrow> exc + pyval list" where
  "current_identities_for_person pid rows =
     rbind (identity_fold pid rows []) (\<lambda>st. Inr (map fst (filter snd st)))"

subsection \<open>Merging and splitting\<close>

text \<open>The two texts of an identity; the payload classes take nothing else.\<close>

definition identity_texts :: "pyval \<Rightarrow> (string \<times> string) option" where
  "identity_texts k = (case k of PTuple [PStr p, PStr u] \<Rightarrow> Some (p, u) | _ \<Rightarrow> None)"

definition bad_identity :: exc where
  "bad_identity = OtherError ''ValidationError''"

fun move_each :: "'s admin \<Rightarrow> uuid \<Rightarrow> uuid \<Rightarrow> uuid \<Rightarrow> uuid \<Rightarrow> pyval list \<Rightarrow> pyval list \<Rightarrow> ('s, nat \<times> uuid list) act" where
  "move_each W c keeper mergee by held [] = sret (0, [])"
| "move_each W c keeper mergee by held (k # ks) =
     (case identity_texts k of
        None \<Rightarrow> sthrow bad_identity
      | Some (platform, user) \<Rightarrow>
          sbind (unlink_identity W c mergee platform user by) (\<lambda>r. sbind (entry_ids r) (\<lambda>ids.
          if list_ex (\<lambda>h. py_eq h k) held
          then sbind (move_each W c keeper mergee by held ks) (\<lambda>(n, rest). sret (n, ids @ rest))
          else
            sbind (link_identity W c keeper platform user by) (\<lambda>r'. sbind (entry_ids r') (\<lambda>ids'.
            sbind (move_each W c keeper mergee by (k # held) ks) (\<lambda>(n, rest). sret (Suc n, ids @ ids' @ rest)))))))"

record merged_persons =
  mp_keeper :: uuid
  mp_mergee :: uuid
  mp_moved :: nat
  mp_entries :: "uuid list"

definition merge_persons :: "'s admin \<Rightarrow> uuid \<Rightarrow> uuid \<Rightarrow> uuid \<Rightarrow> uuid \<Rightarrow> ('s, merged_persons) act" where
  "merge_persons W c keeper_id mergee_id merged_by =
     (if keeper_id = mergee_id then sthrow ValueError
      else
        from_fetch W c (current_identities_for_person mergee_id) (\<lambda>mergee.
        from_fetch W c (current_identities_for_person keeper_id) (\<lambda>keeper.
        sbind (move_each W c keeper_id mergee_id merged_by keeper mergee) (\<lambda>(moved, ids).
        sbind (archive_person W c mergee_id merged_by (''merged_into:'' @ keeper_id)) (\<lambda>r. sbind (entry_ids r) (\<lambda>ids'.
          sret \<lparr>mp_keeper = keeper_id, mp_mergee = mergee_id, mp_moved = moved, mp_entries = ids @ ids'\<rparr>))))))"

datatype moved_identity =
    IdentityPair string string
  | IdentityDict pydict

definition normalised :: "env \<Rightarrow> moved_identity \<Rightarrow> exc + string \<times> string" where
  "normalised E i =
     (case i of
        IdentityPair p u \<Rightarrow> Inr (p, u)
      | IdentityDict d \<Rightarrow>
          let platform = dget d ''platform''; user = dget d ''platform_user_id'' in
          if \<not> truthy platform \<or> \<not> truthy user then Inl ValueError else Inr (py_str E platform, py_str E user))"

fun split_each :: "'s admin \<Rightarrow> uuid \<Rightarrow> uuid \<Rightarrow> uuid \<Rightarrow> uuid \<Rightarrow> (string \<times> string) list \<Rightarrow> ('s, uuid list) act" where
  "split_each W c source new by [] = sret []"
| "split_each W c source new by ((platform, user) # ids) =
     sbind (unlink_identity W c source platform user by) (\<lambda>r. sbind (entry_ids r) (\<lambda>es.
     sbind (link_identity W c new platform user by) (\<lambda>r'. sbind (entry_ids r') (\<lambda>es'.
     sbind (split_each W c source new by ids) (\<lambda>rest. sret (es @ es' @ rest))))))"

record split_persons =
  sp_source :: uuid
  sp_new :: uuid
  sp_moved :: nat
  sp_entries :: "uuid list"

definition split_person :: "'s admin \<Rightarrow> uuid \<Rightarrow> uuid \<Rightarrow> string \<Rightarrow> string option \<Rightarrow> string option \<Rightarrow> moved_identity list \<Rightarrow> uuid \<Rightarrow> ('s, split_persons) act" where
  "split_person W c source name email position identities split_by =
     (if identities = [] then sthrow ValueError
      else case rmap (normalised (fl_env (pl_fold (ad_lib W)))) identities of
        Inl x \<Rightarrow> sthrow x
      | Inr [] \<Rightarrow> sthrow ValueError
      | Inr ((platform, user) # ids) \<Rightarrow>
          with_uuid (ad_store W) (\<lambda>new.
          sbind (propose_person W c (Some new) (Some c) name email platform user position (''split:'' @ split_by)) (\<lambda>(pid, r).
          sbind (entry_ids r) (\<lambda>es.
          sbind (unlink_identity W c source platform user split_by) (\<lambda>r'. sbind (entry_ids r') (\<lambda>es'.
          sbind (split_each W c source new split_by ids) (\<lambda>rest.
            sret \<lparr>sp_source = source, sp_new = pid, sp_moved = Suc (length ids), sp_entries = es @ es' @ rest\<rparr>)))))))"

end
