(* ===== verification/Admin_Agents.thy ===== *)
theory Admin_Agents
  imports Admin_Flows
begin

section \<open>Agents, metrics, concepts and invitations (\<open>worm_core/write_actions.py\<close>)\<close>

subsection \<open>Registration\<close>

definition DEFAULT_MODEL_GRANT_TARGET :: string where
  "DEFAULT_MODEL_GRANT_TARGET = ''kimi''"

definition grant_args :: "string \<Rightarrow> string \<Rightarrow> string \<Rightarrow> string \<Rightarrow> string \<Rightarrow> pyval \<Rightarrow> pydict" where
  "grant_args agent kind target status by budget =
     [(''agent_id'', PStr agent), (''grant_kind'', PStr kind), (''grant_target'', PStr target), (''status'', PStr status),
      (''granted_by'', PStr by), (''budget_remaining_usd'', budget)]"

fun grant_domains :: "'s admin \<Rightarrow> uuid \<Rightarrow> uuid \<Rightarrow> uuid \<Rightarrow> uuid list \<Rightarrow> ('s, admin_result list) act" where
  "grant_domains W c aid by [] = sret []"
| "grant_domains W c aid by (d # ds) =
     sbind (write_action W c AgentGrantPayload (grant_args aid ''domain.read'' d ''active'' by PNone)
       aid (''grant domain.read on '' @ d @ '' to agent '' @ aid) by aid ''domain.read grant from registration flow'') (\<lambda>r.
     sbind (grant_domains W c aid by ds) (\<lambda>rs. sret (r # rs)))"

definition grant_model :: "'s admin \<Rightarrow> uuid \<Rightarrow> uuid \<Rightarrow> uuid \<Rightarrow> string option \<Rightarrow> ('s, admin_result list) act" where
  "grant_model W c aid by budget =
     (case budget of
        None \<Rightarrow> sret []
      | Some b \<Rightarrow>
          let budget_str = py_strip b in
          if budget_str = [] then sret []
          else sbind (write_action W c AgentGrantPayload
              (grant_args aid ''model.access'' DEFAULT_MODEL_GRANT_TARGET ''active'' by (PStr budget_str))
              aid (''grant model.access (budget='' @ budget_str @ '' USD) to agent '' @ aid) by aid
              ''model.access grant from registration flow'') (\<lambda>r. sret [r]))"

definition register_agent :: "'s admin \<Rightarrow> uuid \<Rightarrow> uuid option \<Rightarrow> string \<Rightarrow> string \<Rightarrow> uuid list option \<Rightarrow> string option \<Rightarrow> uuid \<Rightarrow> ('s, uuid \<times> admin_result list) act" where
  "register_agent W c agent_id external_provider display_name domain_read_ids model_access_budget_usd registered_by =
     or_uuid4 W agent_id (\<lambda>aid.
     sbind (write_action W c AgentRegisteredPayload
       [(''agent_id'', PStr aid), (''external_provider'', PStr external_provider), (''display_name'', PStr display_name),
        (''registered_by'', PStr registered_by)]
       aid (''register agent '' @ repr_str display_name @ '' (provider='' @ external_provider @ '')'') registered_by aid
       ''agent registered via dashboard admin action'') (\<lambda>r.
     sbind (grant_domains W c aid registered_by (or_empty domain_read_ids)) (\<lambda>gs.
     sbind (grant_model W c aid registered_by model_access_budget_usd) (\<lambda>ms. sret (aid, r # gs @ ms)))))"

subsection \<open>Revocation\<close>

text \<open>The scan of the grants of an agent, over the rows from the newest: a triple counts once.\<close>

record grant_scan =
  gs_seen :: "(string \<times> string) list"
  gs_active :: "(string \<times> string \<times> pyval) list"

definition str_or_empty :: "env \<Rightarrow> pyval \<Rightarrow> string" where
  "str_or_empty E v = (if truthy v then py_str E v else [])"

definition grant_step :: "env \<Rightarrow> string \<Rightarrow> entry \<Rightarrow> grant_scan \<Rightarrow> exc + grant_scan" where
  "grant_step E agent e g =
     (if e_kind e \<noteq> ''execute'' \<or> dget (e_payload e) ''tool'' \<noteq> PStr ''emit_agent_grant'' then Inr g
      else let args = py_or (dget (e_payload e) ''args'') (PDict []) in
        rbind (vget args ''agent_id'') (\<lambda>a.
        if str_or_empty E a \<noteq> agent then Inr g
        else rbind (vget args ''grant_kind'') (\<lambda>kind. rbind (vget args ''grant_target'') (\<lambda>target.
          if kind = PNone \<or> target = PNone then Inr g
          else let pair = (py_str E kind, py_str E target) in
            if pair \<in> set (gs_seen g) then Inr g
            else rbind (vget args ''status'') (\<lambda>status. rbind (vget args ''budget_remaining_usd'') (\<lambda>budget.
              Inr \<lparr>gs_seen = pair # gs_seen g,
                gs_active = (if status = PStr ''active'' then gs_active g @ [(fst pair, snd pair, budget)] else gs_active g)\<rparr>))))))"

fun grant_fold :: "env \<Rightarrow> string \<Rightarrow> entry list \<Rightarrow> grant_scan \<Rightarrow> exc + grant_scan" where
  "grant_fold E agent [] g = Inr g"
| "grant_fold E agent (e # es) g = rbind (grant_step E agent e g) (grant_fold E agent es)"

definition active_grants :: "env \<Rightarrow> string \<Rightarrow> entry list \<Rightarrow> exc + (string \<times> string \<times> pyval) list" where
  "active_grants E agent rows =
     rbind (grant_fold E agent (rev rows) \<lparr>gs_seen = [], gs_active = []\<rparr>) (\<lambda>g. Inr (gs_active g))"

definition agent_ref :: "'s admin \<Rightarrow> string \<Rightarrow> uuid" where
  "agent_ref W agent = (case uuid_text agent of Some u \<Rightarrow> u | None \<Rightarrow> ad_uuid5 W (''wormbase:agent:'' @ agent))"

fun revoke_each :: "'s admin \<Rightarrow> uuid \<Rightarrow> string \<Rightarrow> uuid \<Rightarrow> string \<Rightarrow> (string \<times> string \<times> pyval) list \<Rightarrow> ('s, admin_result list) act" where
  "revoke_each W c agent by why [] = sret []"
| "revoke_each W c agent by why ((kind, target, budget) # gs) =
     sbind (write_action W c AgentGrantPayload (grant_args agent kind target ''revoked'' by budget)
       (agent_ref W agent) (''revoke '' @ kind @ '' grant on '' @ target @ '' for agent '' @ agent @ '' ('' @ why @ '')'') by agent
       (''agent revoked by admin '' @ by @ '': '' @ why)) (\<lambda>r.
     sbind (revoke_each W c agent by why gs) (\<lambda>rs. sret (r # rs)))"

definition admin_env :: "'s admin \<Rightarrow> env" where
  "admin_env W = fl_env (pl_fold (ad_lib W))"

definition revoke_agent :: "'s admin \<Rightarrow> uuid \<Rightarrow> string \<Rightarrow> uuid \<Rightarrow> string \<Rightarrow> ('s, admin_result list) act" where
  "revoke_agent W c agent_id revoked_by reason =
     (if agent_id = [] then sthrow ValueError
      else from_fetch W c (active_grants (admin_env W) agent_id) (revoke_each W c agent_id revoked_by reason))"

subsection \<open>Metadata\<close>

definition fields_summary :: "string option \<Rightarrow> string option \<Rightarrow> string" where
  "fields_summary display_name description =
     join ''+'' ((if display_name = None then [] else [''display_name'']) @ (if description = None then [] else [''description'']))"

definition update_agent_metadata :: "'s admin \<Rightarrow> uuid \<Rightarrow> string \<Rightarrow> uuid \<Rightarrow> string option \<Rightarrow> string option \<Rightarrow> string option \<Rightarrow> ('s, admin_result) act" where
  "update_agent_metadata W c agent_id updated_by display_name description reason =
     (if agent_id = [] then sthrow ValueError
      else if display_name = None \<and> description = None then sthrow ValueError
      else write_action W c AgentMetadataUpdatedPayload
        [(''agent_id'', PStr agent_id), (''display_name'', opt_str display_name), (''description'', opt_str description),
         (''updated_by_person_id'', PStr updated_by), (''reason'', opt_str reason)]
        (agent_ref W agent_id)
        (''update agent '' @ agent_id @ '' metadata ('' @ fields_summary display_name description @ '')'' @
           if_text reason (\<lambda>reason. '' '' @ [CHR 0xE2, CHR 0x80, CHR 0x94] @ '' '' @ reason))
        updated_by agent_id
        (''agent metadata updated by admin '' @ updated_by @ if_text reason (\<lambda>reason. '': '' @ reason)))"

record metadata =
  md_name :: pyval
  md_description :: pyval
  md_registered :: bool

definition metadata_step :: "env \<Rightarrow> string \<Rightarrow> int option \<Rightarrow> entry \<Rightarrow> metadata \<Rightarrow> exc + metadata" where
  "metadata_step E agent exclude e m =
     (if e_kind e \<noteq> ''execute'' then Inr m
      else let tool = dget (e_payload e) ''tool''; args = py_or (dget (e_payload e) ''args'') (PDict []) in
        rbind (vget args ''agent_id'') (\<lambda>a.
        if str_or_empty E a \<noteq> agent then Inr m
        else if tool = PStr ''emit_agent_registered'' then
          rbind (vget args ''display_name'') (\<lambda>n. Inr \<lparr>md_name = n, md_description = PNone, md_registered = True\<rparr>)
        else if tool = PStr ''emit_agent_metadata_updated'' then
          if exclude = Some (e_seq e) then Inr m
          else rbind (vget args ''display_name'') (\<lambda>n. rbind (vget args ''description'') (\<lambda>d.
            Inr (m\<lparr>md_name := (if n \<noteq> PNone then n else md_name m), md_description := (if d \<noteq> PNone then d else md_description m)\<rparr>)))
        else Inr m))"

fun metadata_fold :: "env \<Rightarrow> string \<Rightarrow> int option \<Rightarrow> entry list \<Rightarrow> metadata \<Rightarrow> exc + metadata" where
  "metadata_fold E agent exclude [] m = Inr m"
| "metadata_fold E agent exclude (e # es) m = rbind (metadata_step E agent exclude e m) (metadata_fold E agent exclude es)"

definition fold_metadata_at_or_before :: "env \<Rightarrow> string \<Rightarrow> int option \<Rightarrow> entry list \<Rightarrow> exc + metadata" where
  "fold_metadata_at_or_before E agent exclude rows =
     metadata_fold E agent exclude rows \<lparr>md_name = PNone, md_description = PNone, md_registered = False\<rparr>"

text \<open>The newest update of the agent, from the rows in reverse.\<close>

fun metadata_head :: "env \<Rightarrow> string \<Rightarrow> entry list \<Rightarrow> exc + int option" where
  "metadata_head E agent [] = Inr None"
| "metadata_head E agent (e # es) =
     (if e_kind e \<noteq> ''execute'' \<or> dget (e_payload e) ''tool'' \<noteq> PStr ''emit_agent_metadata_updated'' then metadata_head E agent es
      else rbind (vget (py_or (dget (e_payload e) ''args'') (PDict [])) ''agent_id'') (\<lambda>a.
        if str_or_empty E a \<noteq> agent then metadata_head E agent es else Inr (Some (e_seq e))))"

text \<open>What to restore: the sequence number of the head, the name and the description before it.\<close>

definition revert_target :: "env \<Rightarrow> string \<Rightarrow> entry list \<Rightarrow> exc + int \<times> pyval \<times> pyval" where
  "revert_target E agent rows =
     rbind (metadata_head E agent (rev rows)) (\<lambda>h.
       case h of
         None \<Rightarrow> Inl ValueError
       | Some q \<Rightarrow> rbind (fold_metadata_at_or_before E agent (Some q) rows) (\<lambda>m.
           if \<not> md_registered m then Inl ValueError
           else Inr (q, py_or (md_name m) (PStr ''Agent''), if md_description m \<noteq> PNone then md_description m else PStr [])))"

definition revert_reason :: "int \<Rightarrow> string option \<Rightarrow> string" where
  "revert_reason q reason =
     ''revert from seq '' @ dec_int q @
     (case reason of None \<Rightarrow> [] | Some r \<Rightarrow> if py_strip r = [] then [] else '' '' @ [CHR 0xE2, CHR 0x80, CHR 0x94] @ '' '' @ r)"

definition revert_agent_metadata :: "'s admin \<Rightarrow> uuid \<Rightarrow> string \<Rightarrow> uuid \<Rightarrow> string option \<Rightarrow> ('s, admin_result) act" where
  "revert_agent_metadata W c agent_id updated_by reason =
     (if agent_id = [] then sthrow ValueError
      else from_fetch W c (revert_target (admin_env W) agent_id) (\<lambda>(q, name, description).
        case (name, description) of
          (PStr n, PStr d) \<Rightarrow> update_agent_metadata W c agent_id updated_by (Some n) (Some d) (Some (revert_reason q reason))
        | _ \<Rightarrow> sthrow bad_identity))"

end
