(* ===== verification/Admin_Catalog.thy ===== *)
theory Admin_Catalog
  imports Admin_Agents
begin

section \<open>Catalogs, promoted metrics, concepts and invitations (\<open>worm_core/write_actions.py\<close>)\<close>

subsection \<open>External catalogs\<close>

text \<open>A snapshot as the connector of the catalog returns it.\<close>

record catalog_table =
  ct_id :: string
  ct_columns :: "(string \<times> string option) list"

record catalog_metric =
  cm_name :: string
  cm_expression :: "string option"
  cm_time_grain :: "string option"
  cm_dimensions :: "string list"
  cm_description :: "string option"

record catalog_snapshot =
  cs_hash :: string
  cs_tables :: "catalog_table list"
  cs_edges :: "(string \<times> string) list"
  cs_metrics :: "catalog_metric list"

definition column_spec :: "string \<times> string option \<Rightarrow> pyval" where
  "column_spec p = PDict [(''name'', PStr (fst p)), (''type'', opt_str (snd p))]"

definition emit_catalog_table_imported :: "'s admin \<Rightarrow> uuid \<Rightarrow> string \<Rightarrow> string \<Rightarrow> string \<Rightarrow> (string \<times> string option) list \<Rightarrow> string \<Rightarrow> ('s, admin_result) act" where
  "emit_catalog_table_imported W c source_id snap_hash table_id columns proposed_by =
     (let result_ref = source_id @ ''|'' @ snap_hash @ ''|'' @ table_id in
      write_action W c CatalogTableImportedPayload
        [(''source_id'', PStr source_id), (''snapshot_hash'', PStr snap_hash), (''table_id'', PStr table_id),
         (''columns'', PList (map column_spec columns))]
        result_ref
        (''catalog mirror: per-table column metadata for table_id='' @ repr_str table_id @ '' in snapshot '' @ repr_str (take 8 snap_hash))
        proposed_by result_ref (''per-table catalog row recorded ('' @ dec_int (int (length columns)) @ '' columns)''))"

fun emit_tables :: "'s admin \<Rightarrow> uuid \<Rightarrow> uuid \<Rightarrow> string \<Rightarrow> string \<Rightarrow> catalog_table list \<Rightarrow> ('s, admin_result list) act" where
  "emit_tables W c source_id hash by [] = sret []"
| "emit_tables W c source_id hash by (t # ts) =
     sbind (emit_catalog_table_imported W c source_id hash (ct_id t) (filter (\<lambda>p. fst p \<noteq> []) (ct_columns t)) by) (\<lambda>r.
     sbind (emit_tables W c source_id hash by ts) (\<lambda>rs. sret (r # rs)))"

definition emit_lineage :: "'s admin \<Rightarrow> uuid \<Rightarrow> uuid \<Rightarrow> string \<Rightarrow> string \<Rightarrow> (string \<times> string) list \<Rightarrow> ('s, admin_result list) act" where
  "emit_lineage W c source_id kind by edges =
     (if edges = [] then sret []
      else sbind (write_action W c ExternalLineageImportedPayload
          [(''source_id'', PStr source_id), (''edges'', PList (map (\<lambda>(u, d). PList [PStr u, PStr d]) edges))]
          source_id (''import '' @ dec_int (int (length edges)) @ '' lineage edge(s) from '' @ kind @ '' catalog'') by source_id
          (kind @ '' lineage mirrored'')) (\<lambda>r. sret [r]))"

fun emit_metrics :: "'s admin \<Rightarrow> uuid \<Rightarrow> uuid \<Rightarrow> string \<Rightarrow> string \<Rightarrow> catalog_metric list \<Rightarrow> ('s, admin_result list) act" where
  "emit_metrics W c source_id kind by [] = sret []"
| "emit_metrics W c source_id kind by (m # ms) =
     sbind (write_action W c ExternalMetricImportedPayload
         [(''source_id'', PStr source_id), (''name'', PStr (cm_name m)), (''expression'', opt_str (cm_expression m)),
          (''time_grain'', opt_str (cm_time_grain m)), (''dimensions'', PList (map PStr (cm_dimensions m))),
          (''description'', opt_str (cm_description m))]
         source_id (''import metric '' @ repr_str (cm_name m) @ '' from '' @ kind @ '' catalog'') by source_id
         (kind @ '' metric mirrored'')) (\<lambda>r.
     sbind (emit_metrics W c source_id kind by ms) (\<lambda>rs. sret (r # rs)))"

definition emit_external_catalog_pevr :: "'s admin \<Rightarrow> uuid \<Rightarrow> uuid \<Rightarrow> uuid \<Rightarrow> string \<Rightarrow> catalog_snapshot \<Rightarrow> string \<Rightarrow> ('s, admin_result list) act" where
  "emit_external_catalog_pevr W c source_id domain_id source_kind snapshot proposed_by =
     sbind (write_action W c ExternalCatalogImportedPayload
       [(''source_kind'', PStr source_kind), (''source_id'', PStr source_id), (''domain_id'', PStr domain_id),
        (''snapshot_hash'', PStr (cs_hash snapshot)), (''table_count'', PInt (int (length (cs_tables snapshot)))),
        (''edge_count'', PInt (int (length (cs_edges snapshot)))), (''metric_count'', PInt (int (length (cs_metrics snapshot)))),
        (''import_mode'', PStr ''initial'')]
       source_id
       (''import '' @ source_kind @ '' catalog ('' @ dec_int (int (length (cs_tables snapshot))) @ '' tables, '' @
          dec_int (int (length (cs_edges snapshot))) @ '' edges)'')
       proposed_by source_id (''initial '' @ source_kind @ '' catalog mirror'')) (\<lambda>r.
     sbind (emit_tables W c source_id (cs_hash snapshot) proposed_by (cs_tables snapshot)) (\<lambda>ts.
     sbind (emit_lineage W c source_id source_kind proposed_by (cs_edges snapshot)) (\<lambda>es.
     sbind (emit_metrics W c source_id source_kind proposed_by (cs_metrics snapshot)) (\<lambda>ms. sret (r # ts @ es @ ms)))))"

subsection \<open>Promoting a semantic gap\<close>

definition find_ledger_entry :: "string \<Rightarrow> entry list \<Rightarrow> entry option" where
  "find_ledger_entry target rows =
     (case uuid_text target of
        Some u \<Rightarrow> find (\<lambda>r. e_id r = u) rows
      | None \<Rightarrow> find (\<lambda>r. e_id r = target) rows)"

definition entry_is_semantic_gap :: "entry \<Rightarrow> bool" where
  "entry_is_semantic_gap e =
     (if e_kind e = ''execute'' then dget (e_payload e) ''tool'' = PStr ''emit_semantic_gap_proposed''
      else if e_kind e = ''propose'' then dget (e_payload e) ''target_kind'' = PStr ''semantic_gap_proposed''
      else False)"

definition promoted_fields :: "string \<Rightarrow> string \<Rightarrow> string \<Rightarrow> uuid \<Rightarrow> uuid \<Rightarrow> pydict" where
  "promoted_fields gap name expression domain by =
     [(''source_id'', PStr ''_promoted_from_gap''), (''name'', PStr name), (''expression'', PStr expression), (''time_grain'', PNone),
      (''dimensions'', PList []), (''description'', PNone), (''domain_id'', PStr domain), (''promoted_from_gap_id'', PStr gap),
      (''promoted_by'', PStr by)]"

text \<open>The one action that writes its cycle itself, to add \<open>caused_by\<close>; it does not look at the silent mode.\<close>

definition promote_req :: "'s admin \<Rightarrow> uuid \<Rightarrow> uuid \<Rightarrow> string \<Rightarrow> string \<Rightarrow> uuid \<Rightarrow> pydict \<Rightarrow> int \<Rightarrow> write_req" where
  "promote_req W c mid gap name by args now =
     const_req c
       [(''target_kind'', PStr ''external_metric_imported''), (''ref_id'', PStr mid),
        (''reason'', PStr (''promote semantic gap '' @ gap @ '' to metric '' @ repr_str name)), (''proposed_by'', PStr by),
        (''caused_by'', PStr gap)]
       [(''tool'', PStr ''emit_external_metric_imported''), (''args'', PDict args), (''result_ref'', PStr mid)]
       (if validates (ad_lib W) ExternalMetricImportedPayload args then check_ok ''promote_semantic_gap_payload_valid''
        else [(''checks'', PList [PDict [(''name'', PStr ''promote_semantic_gap_payload_valid''), (''ok'', PBool False),
               (''error'', PStr (ad_error W ExternalMetricImportedPayload args))]]), (''passed'', PBool False)])
       [(''outcome'', PStr ''keep''), (''rationale'', PStr ''semantic_gap_proposed promoted to external_metric_imported'')]
       None now ''active_deterministic''"

definition promote_semantic_gap :: "'s admin \<Rightarrow> uuid \<Rightarrow> uuid option \<Rightarrow> string \<Rightarrow> string \<Rightarrow> string \<Rightarrow> uuid \<Rightarrow> uuid \<Rightarrow> ('s, uuid \<times> write_result) act" where
  "promote_semantic_gap W c metric_id gap metric_name metric_expression domain_id promoted_by s =
     (case find_ledger_entry gap (st_fetch (ad_store W) s c None) of
        None \<Rightarrow> (Inl ValueError, s)
      | Some e \<Rightarrow>
          if \<not> entry_is_semantic_gap e then (Inl ValueError, s)
          else or_uuid4 W metric_id (\<lambda>mid s.
            let given = promoted_fields gap metric_name metric_expression domain_id promoted_by in
            if \<not> validates (ad_lib W) ExternalMetricImportedPayload given
            then (Inl (OtherError (''ValidationError: '' @ ad_error W ExternalMetricImportedPayload given)), s)
            else sbind (st_write (ad_store W)
                (promote_req W c mid gap metric_name promoted_by (model_dump ExternalMetricImportedPayload given) (ad_clock W s)))
              (\<lambda>res. sret (mid, res)) s) s)"

subsection \<open>Confirming a concept, inviting a person\<close>

definition concept_step :: "'s admin \<Rightarrow> string \<Rightarrow> entry \<Rightarrow> (int \<times> uuid) option \<Rightarrow> exc + (int \<times> uuid) option" where
  "concept_step W needle e best =
     (if e_kind e \<noteq> ''execute'' \<or> dget (e_payload e) ''tool'' \<noteq> PStr ''emit_concept_proposed'' then Inr best
      else let args = py_or (dget (e_payload e) ''args'') (PDict []) in
        rbind (vget args ''name'') (\<lambda>n.
        case py_or n (PStr []) of
          PStr name \<Rightarrow>
            if ad_casefold W (py_strip name) \<noteq> needle then Inr best
            else rbind (vget args ''concept_id'') (\<lambda>raw.
              if \<not> truthy raw then Inr best
              else case uuid_text (py_str (admin_env W) raw) of
                None \<Rightarrow> Inr best
              | Some cid \<Rightarrow> Inr (case best of None \<Rightarrow> Some (e_seq e, cid)
                  | Some (q, b) \<Rightarrow> if q < e_seq e then Some (e_seq e, cid) else Some (q, b)))
        | _ \<Rightarrow> Inl AttributeError))"

fun concept_fold :: "'s admin \<Rightarrow> string \<Rightarrow> entry list \<Rightarrow> (int \<times> uuid) option \<Rightarrow> exc + (int \<times> uuid) option" where
  "concept_fold W needle [] best = Inr best"
| "concept_fold W needle (e # es) best = rbind (concept_step W needle e best) (concept_fold W needle es)"

definition lookup_concept_id_by_term :: "'s admin \<Rightarrow> string \<Rightarrow> entry list \<Rightarrow> exc + uuid" where
  "lookup_concept_id_by_term W term rows =
     rbind (concept_fold W (ad_casefold W (py_strip term)) rows None) (\<lambda>best.
       case best of None \<Rightarrow> Inl (OtherError ''ConceptProposalNotFound'') | Some (q, cid) \<Rightarrow> Inr cid)"

definition confirm_concept :: "'s admin \<Rightarrow> uuid \<Rightarrow> string \<Rightarrow> uuid \<Rightarrow> ('s, uuid \<times> admin_result) act" where
  "confirm_concept W c term confirmed_by =
     (let cleaned = py_strip term in
      if cleaned = [] then sthrow ValueError
      else from_fetch W c (lookup_concept_id_by_term W cleaned) (\<lambda>cid.
        sbind (write_action W c ConceptConfirmedPayload [(''concept_id'', PStr cid), (''confirmed_by_person'', PStr confirmed_by)]
          cid (''confirm business definition '' @ repr_str cleaned @ '' (concept_id='' @ cid @ '')'') confirmed_by cid
          (''business definition confirmed by admin '' @ confirmed_by @ '' via Tier 2 onboarding'')) (\<lambda>r. sret (cid, r))))"

definition invite_person :: "'s admin \<Rightarrow> uuid \<Rightarrow> uuid \<Rightarrow> string option \<Rightarrow> string option \<Rightarrow> string \<Rightarrow> string option \<Rightarrow> ('s, admin_result) act" where
  "invite_person W c invited_by invitee_email invitee_platform_id role_intent notes =
     (let given = [(''invitee_email'', opt_str invitee_email), (''invitee_platform_id'', opt_str invitee_platform_id),
            (''invited_by_person_id'', PStr invited_by), (''role_intent'', PStr role_intent), (''notes'', opt_str notes)] in
      if invitee_email \<in> {None, Some []} \<and> invitee_platform_id \<in> {None, Some []} then sthrow ValueError
      else if role_intent \<notin> {''admin'', ''member'', ''observer''} then sthrow ValueError
      else if \<not> validates (ad_lib W) PersonInvitedPayload given
      then sthrow (OtherError (''ValidationError: '' @ ad_error W PersonInvitedPayload given))
      else with_uuid (ad_store W) (\<lambda>ref.
        write_action W c PersonInvitedPayload given ref
          (''invite co-admin via '' @ (case invitee_email of Some (x # xs) \<Rightarrow> x # xs | _ \<Rightarrow> (case invitee_platform_id of Some t \<Rightarrow> t | None \<Rightarrow> [])) @
             '' as role_intent='' @ role_intent)
          invited_by ref (''person invited by admin '' @ invited_by @ '' as role_intent='' @ role_intent)))"

end
