(* ===== verification/Admin_Safety.thy ===== *)
theory Admin_Safety
  imports Admin_Catalog
begin

section \<open>Admin actions keep the projections building\<close>

text \<open>
  An action is safe when, whatever its outcome, it keeps the invariant of the ledger and adds only
  rows the fold is ready for, to its own company. Safety composes over sequences, reads and loops.
\<close>

definition admin_safe :: "payload_lib \<Rightarrow> 's store \<Rightarrow> ('s \<Rightarrow> bool) \<Rightarrow> uuid \<Rightarrow> ('s, 'a) act \<Rightarrow> bool" where
  "admin_safe V L invar c f =
     (\<forall>s out s'. invar s \<longrightarrow> f s = (out, s') \<longrightarrow> invar s' \<and> ready_growth V L c s s')"

definition safe_class :: "payload_class \<Rightarrow> bool" where
  "safe_class C =
     (C \<in> set PAYLOAD_CLASSES \<and> pc_kind C \<noteq> ''tenant_engine_registered'' \<and>
      map_of FOLD_CLASSES (''emit_'' @ pc_kind C) \<in> {None, Some (Some C)})"

definition plain_class :: "payload_class \<Rightarrow> bool" where
  "plain_class C = (safe_class C \<and> uuid_fields (''emit_'' @ pc_kind C) = [])"

named_theorems safe_rules \<open>Rules that show an action safe\<close>

lemma safe_sret [safe_rules]: "admin_safe V L invar c (sret x)"
  by (simp add: admin_safe_def ready_growth_def sret_def)

lemma safe_Pair [safe_rules]: "admin_safe V L invar c (Pair x)"
  by (simp add: admin_safe_def ready_growth_def)

lemma safe_sthrow [safe_rules]: "admin_safe V L invar c (sthrow x)"
  by (simp add: admin_safe_def ready_growth_def sthrow_def)

lemma safe_sbind [safe_rules]:
  assumes "admin_safe V L invar c f" and "\<And>x. admin_safe V L invar c (g x)"
  shows "admin_safe V L invar c (sbind f g)"
  unfolding admin_safe_def
proof (intro allI impI)
  fix s out s'
  assume s: "invar s" "sbind f g s = (out, s')"
  obtain r s1 where f: "f s = (r, s1)" by (cases "f s")
  with assms(1) s(1) have s1: "invar s1" "ready_growth V L c s s1" by (auto simp: admin_safe_def)
  show "invar s' \<and> ready_growth V L c s s'"
  proof (cases r)
    case (Inl x)
    with s(2) f s1 show ?thesis by (simp add: sbind_def)
  next
    case (Inr y)
    with s(2) f have "g y s1 = (out, s')" by (simp add: sbind_def)
    with assms(2) s1 show ?thesis by (metis admin_safe_def ready_growth_trans)
  qed
qed

lemma safe_if [safe_rules]:
  "(b \<Longrightarrow> admin_safe V L invar c f) \<Longrightarrow> (\<not> b \<Longrightarrow> admin_safe V L invar c g) \<Longrightarrow> admin_safe V L invar c (if b then f else g)"
  by simp

lemma safe_from_fetch [safe_rules]:
  assumes "\<And>y. admin_safe V L invar c (g y)"
  shows "admin_safe V L invar c (from_fetch W c' f g)"
  using assms by (auto simp: admin_safe_def from_fetch_def ready_growth_def split: sum.splits)

lemma safe_entry_ids [safe_rules]: "admin_safe V L invar c (entry_ids r)"
  by (cases r) (simp_all add: entry_ids_def safe_rules)

lemma safe_or_now [safe_rules]: "(\<And>t. admin_safe V L invar c (f t)) \<Longrightarrow> admin_safe V L invar c (or_now W o' f)"
  by (auto simp: admin_safe_def or_now_def split: option.splits)

context ledger_store
begin

lemma safe_with_uuid [safe_rules]:
  assumes "\<And>u. admin_safe V L invar c (f u)"
  shows "admin_safe V L invar c (with_uuid L f)"
  unfolding admin_safe_def
proof (intro allI impI)
  fix s out s'
  assume s: "invar s" "with_uuid L f s = (out, s')"
  obtain u s1 where s1: "invar s1" "f u s1 = (out, s')" "\<And>d q. st_fetch L s1 d q = st_fetch L s d q"
    by (rule with_uuid_cases [OF s]) blast
  with assms have "invar s'" "ready_growth V L c s1 s'" by (auto simp: admin_safe_def)
  with s1(3) show "invar s' \<and> ready_growth V L c s s'" by (simp add: ready_growth_def)
qed

lemma act_cases:
  assumes "invar s" and W: "ad_store W = L" "\<not> ad_silent W" and C: "C \<in> set PAYLOAD_CLASSES" "pc_kind C \<noteq> ''tenant_engine_registered''"
    and j: "validates (ad_lib W) C given \<Longrightarrow> jsonable_dict given" and a: "write_action W c C given u rs by rr ra s = (out, s')"
  obtains (invalid) x where "out = Inl x" "s' = s" "\<not> validates (ad_lib W) C given"
  | (failed) x where "out = Inl x" "invar s'" "unlogged L s s'" "validates (ad_lib W) C given"
  | (written) res where "out = Inr (Written res)" "invar s'" "validates (ad_lib W) C given"
      "validates (ad_lib W) C (model_dump C given)"
      "logged L s s' c (ad_clock W s) (''emit_'' @ pc_kind C) (model_dump C given)"
      "fold_safe C (model_dump C given) \<Longrightarrow> ready_growth (ad_lib W) L c s s'"
proof (cases "validates (ad_lib W) C given")
  case False
  with a show thesis by (intro invalid) (auto simp: write_action_def)
next
  case True
  let ?t = "''emit_'' @ pc_kind C" and ?args = "model_dump C given"
  let ?req = "cycle_req c (pc_kind C) u rs by ?t ?args rr (check_ok (?t @ ''_payload_valid'')) ra (ad_clock W s)"
  have dump: "validates (ad_lib W) C ?args" using dump_roundtrip [OF C True] by simp
  obtain r s1 where w: "st_write L ?req s = (r, s1)" by (cases "st_write L ?req s")
  with a True dump have out: "out = map_sum id Written r" and s1: "s1 = s'"
    by (cases r; simp add: write_action_def pevr_def W verify_body_def sbind_def sret_def)+
  note w = w [unfolded s1]
  show thesis
  proof (cases r)
    case (Inl x)
    have "clean_req ?req" by (simp add: cycle_req_clean model_dump_jsonable C(1) j [OF True])
    with write_failed [OF assms(1) _ w [unfolded Inl]] write_invar [OF assms(1) w] show thesis
      using out Inl True by (intro failed) (auto simp: unlogged_def)
  next
    case (Inr res)
    note ok = cycle_write [OF assms(1) w [unfolded Inr]]
    show thesis
      using out Inr by (intro written [OF _ ok(1) True dump ok(2) ok(3) [OF refl refl _ dump]]) simp_all
  qed
qed

lemma safe_act:
  assumes "ad_store W = L" and "\<not> ad_silent W" and "safe_class C" and "validates (ad_lib W) C given \<Longrightarrow> jsonable_dict given"
    and "list_all (uuid_at (model_dump C given)) (uuid_fields (''emit_'' @ pc_kind C))"
  shows "admin_safe (ad_lib W) L invar c (write_action W c C given u rs by rr ra)"
  unfolding admin_safe_def
proof (intro allI impI)
  fix s out s'
  assume s: "invar s" "write_action W c C given u rs by rr ra s = (out, s')"
  from assms(3,5) have C: "C \<in> set PAYLOAD_CLASSES" "pc_kind C \<noteq> ''tenant_engine_registered''" "fold_safe C (model_dump C given)"
    by (simp_all add: safe_class_def fold_safe_def)
  show "invar s' \<and> ready_growth (ad_lib W) L c s s'"
    by (rule act_cases [OF s(1) assms(1,2) C(1,2) assms(4) s(2)])
      (use s(1) C(3) ready_growth_unlogged in \<open>auto simp: ready_growth_def unlogged_def\<close>)
qed

end

text \<open>The payload classes of the actions are safe.\<close>

lemma class_kinds:
  "pc_kind PersonProposedPayload = ''person_proposed''"
  "pc_kind PersonConfirmedPayload = ''person_confirmed''"
  "pc_kind PersonArchivedPayload = ''person_archived''"
  "pc_kind PositionProposedPayload = ''position_proposed''"
  "pc_kind PositionConfirmedPayload = ''position_confirmed''"
  "pc_kind PositionRejectedPayload = ''position_rejected''"
  "pc_kind ResourceRoleProposedPayload = ''resource_role_proposed''"
  "pc_kind IdentityLinkedPayload = ''identity_linked''"
  "pc_kind IdentityUnlinkedPayload = ''identity_unlinked''"
  "pc_kind RoleAssignedPayload = ''role_assigned''"
  "pc_kind DomainRoleAssignedPayload = ''domain_role_assigned''"
  "pc_kind ResourceRoleAssignedPayload = ''resource_role_assigned''"
  "pc_kind RoleRevokedPayload = ''role_revoked''"
  "pc_kind SetupModeChosenPayload = ''setup_mode_chosen''"
  "pc_kind SetupCompletedPayload = ''setup_completed''"
  "pc_kind SetupStepAdvancedPayload = ''setup_step_advanced''"
  "pc_kind MCPCallReceivedPayload = ''mcp_call_received''"
  "pc_kind KpiProposedPayload = ''kpi_proposed''"
  "pc_kind DecisionRecordedPayload = ''decision_recorded''"
  "pc_kind ProcessMapProposedPayload = ''process_map_proposed''"
  "pc_kind TenantSignupInitiatedPayload = ''tenant_signup_initiated''"
  "pc_kind TenantSignupCompletedPayload = ''tenant_signup_completed''"
  "pc_kind LineageEdgeConfirmedPayload = ''lineage_edge_confirmed''"
  "pc_kind LineageEdgeRejectedPayload = ''lineage_edge_rejected''"
  "pc_kind QualityCheckConfirmedPayload = ''quality_check_confirmed''"
  "pc_kind QualityCheckRejectedPayload = ''quality_check_rejected''"
  "pc_kind SchemaImpactConfirmedPayload = ''schema_impact_confirmed''"
  "pc_kind SchemaImpactRejectedPayload = ''schema_impact_rejected''"
  "pc_kind SemanticTypeConfirmedPayload = ''semantic_type_confirmed''"
  "pc_kind SemanticTypeRejectedPayload = ''semantic_type_rejected''"
  "pc_kind ColumnClassificationConfirmedPayload = ''column_classification_confirmed''"
  "pc_kind ColumnClassificationRejectedPayload = ''column_classification_rejected''"
  "pc_kind EntityStitchConfirmedPayload = ''entity_stitch_confirmed''"
  "pc_kind EntityStitchRejectedPayload = ''entity_stitch_rejected''"
  "pc_kind SourceCandidatePromotedPayload = ''source_candidate_promoted''"
  "pc_kind SourceCandidateRejectedPayload = ''source_candidate_rejected''"
  "pc_kind CatalogDriftAcknowledgedPayload = ''catalog_drift_acknowledged''"
  "pc_kind CatalogDriftRejectedPayload = ''catalog_drift_rejected''"
  "pc_kind ExternalCatalogImportedPayload = ''external_catalog_imported''"
  "pc_kind ExternalLineageImportedPayload = ''external_lineage_imported''"
  "pc_kind ExternalMetricImportedPayload = ''external_metric_imported''"
  "pc_kind AgentGrantPayload = ''agent_grant''"
  "pc_kind AgentMetadataUpdatedPayload = ''agent_metadata_updated''"
  "pc_kind CatalogTableImportedPayload = ''catalog_table_imported''"
  "pc_kind ConceptConfirmedPayload = ''concept_confirmed''"
  "pc_kind PersonInvitedPayload = ''person_invited''"
  by (simp_all add: payload_def
      PersonProposedPayload_def PersonConfirmedPayload_def PersonArchivedPayload_def PositionProposedPayload_def
      PositionConfirmedPayload_def PositionRejectedPayload_def ResourceRoleProposedPayload_def
      IdentityLinkedPayload_def IdentityUnlinkedPayload_def RoleAssignedPayload_def DomainRoleAssignedPayload_def
      ResourceRoleAssignedPayload_def RoleRevokedPayload_def SetupModeChosenPayload_def SetupCompletedPayload_def
      SetupStepAdvancedPayload_def MCPCallReceivedPayload_def KpiProposedPayload_def DecisionRecordedPayload_def
      ProcessMapProposedPayload_def TenantSignupInitiatedPayload_def TenantSignupCompletedPayload_def
      LineageEdgeConfirmedPayload_def LineageEdgeRejectedPayload_def QualityCheckConfirmedPayload_def
      QualityCheckRejectedPayload_def SchemaImpactConfirmedPayload_def SchemaImpactRejectedPayload_def
      SemanticTypeConfirmedPayload_def SemanticTypeRejectedPayload_def ColumnClassificationConfirmedPayload_def
      ColumnClassificationRejectedPayload_def EntityStitchConfirmedPayload_def EntityStitchRejectedPayload_def
      SourceCandidatePromotedPayload_def SourceCandidateRejectedPayload_def CatalogDriftAcknowledgedPayload_def
      CatalogDriftRejectedPayload_def ExternalCatalogImportedPayload_def ExternalLineageImportedPayload_def
      ExternalMetricImportedPayload_def AgentGrantPayload_def AgentMetadataUpdatedPayload_def
      CatalogTableImportedPayload_def ConceptConfirmedPayload_def PersonInvitedPayload_def)

lemma map_of_end: "map_of [] t = None"
  by simp

lemma class_tools:
  "map_of FOLD_CLASSES ''emit_person_proposed'' = Some (Some PersonProposedPayload)"
  "map_of FOLD_CLASSES ''emit_person_confirmed'' = Some (Some PersonConfirmedPayload)"
  "map_of FOLD_CLASSES ''emit_person_archived'' = Some (Some PersonArchivedPayload)"
  "map_of FOLD_CLASSES ''emit_position_proposed'' = Some (Some PositionProposedPayload)"
  "map_of FOLD_CLASSES ''emit_position_confirmed'' = Some (Some PositionConfirmedPayload)"
  "map_of FOLD_CLASSES ''emit_position_rejected'' = Some (Some PositionRejectedPayload)"
  "map_of FOLD_CLASSES ''emit_resource_role_proposed'' = Some (Some ResourceRoleProposedPayload)"
  "map_of FOLD_CLASSES ''emit_identity_linked'' = Some (Some IdentityLinkedPayload)"
  "map_of FOLD_CLASSES ''emit_identity_unlinked'' = Some (Some IdentityUnlinkedPayload)"
  "map_of FOLD_CLASSES ''emit_role_assigned'' = Some (Some RoleAssignedPayload)"
  "map_of FOLD_CLASSES ''emit_domain_role_assigned'' = Some (Some DomainRoleAssignedPayload)"
  "map_of FOLD_CLASSES ''emit_resource_role_assigned'' = Some (Some ResourceRoleAssignedPayload)"
  "map_of FOLD_CLASSES ''emit_role_revoked'' = Some (Some RoleRevokedPayload)"
  "map_of FOLD_CLASSES ''emit_setup_mode_chosen'' = Some (Some SetupModeChosenPayload)"
  "map_of FOLD_CLASSES ''emit_setup_completed'' = Some (Some SetupCompletedPayload)"
  "map_of FOLD_CLASSES ''emit_setup_step_advanced'' = Some (Some SetupStepAdvancedPayload)"
  "map_of FOLD_CLASSES ''emit_mcp_call_received'' = Some (Some MCPCallReceivedPayload)"
  "map_of FOLD_CLASSES ''emit_kpi_proposed'' = None"
  "map_of FOLD_CLASSES ''emit_decision_recorded'' = None"
  "map_of FOLD_CLASSES ''emit_process_map_proposed'' = None"
  "map_of FOLD_CLASSES ''emit_tenant_signup_initiated'' = None"
  "map_of FOLD_CLASSES ''emit_tenant_signup_completed'' = None"
  "map_of FOLD_CLASSES ''emit_lineage_edge_confirmed'' = Some (Some LineageEdgeConfirmedPayload)"
  "map_of FOLD_CLASSES ''emit_lineage_edge_rejected'' = Some (Some LineageEdgeRejectedPayload)"
  "map_of FOLD_CLASSES ''emit_quality_check_confirmed'' = Some (Some QualityCheckConfirmedPayload)"
  "map_of FOLD_CLASSES ''emit_quality_check_rejected'' = Some (Some QualityCheckRejectedPayload)"
  "map_of FOLD_CLASSES ''emit_schema_impact_confirmed'' = Some (Some SchemaImpactConfirmedPayload)"
  "map_of FOLD_CLASSES ''emit_schema_impact_rejected'' = Some (Some SchemaImpactRejectedPayload)"
  "map_of FOLD_CLASSES ''emit_semantic_type_confirmed'' = Some (Some SemanticTypeConfirmedPayload)"
  "map_of FOLD_CLASSES ''emit_semantic_type_rejected'' = Some (Some SemanticTypeRejectedPayload)"
  "map_of FOLD_CLASSES ''emit_column_classification_confirmed'' = Some (Some ColumnClassificationConfirmedPayload)"
  "map_of FOLD_CLASSES ''emit_column_classification_rejected'' = Some (Some ColumnClassificationRejectedPayload)"
  "map_of FOLD_CLASSES ''emit_entity_stitch_confirmed'' = Some (Some EntityStitchConfirmedPayload)"
  "map_of FOLD_CLASSES ''emit_entity_stitch_rejected'' = Some (Some EntityStitchRejectedPayload)"
  "map_of FOLD_CLASSES ''emit_source_candidate_promoted'' = Some (Some SourceCandidatePromotedPayload)"
  "map_of FOLD_CLASSES ''emit_source_candidate_rejected'' = Some (Some SourceCandidateRejectedPayload)"
  "map_of FOLD_CLASSES ''emit_catalog_drift_acknowledged'' = Some (Some CatalogDriftAcknowledgedPayload)"
  "map_of FOLD_CLASSES ''emit_catalog_drift_rejected'' = Some (Some CatalogDriftRejectedPayload)"
  "map_of FOLD_CLASSES ''emit_external_catalog_imported'' = Some (Some ExternalCatalogImportedPayload)"
  "map_of FOLD_CLASSES ''emit_external_lineage_imported'' = Some (Some ExternalLineageImportedPayload)"
  "map_of FOLD_CLASSES ''emit_external_metric_imported'' = Some (Some ExternalMetricImportedPayload)"
  "map_of FOLD_CLASSES ''emit_agent_grant'' = Some (Some AgentGrantPayload)"
  "map_of FOLD_CLASSES ''emit_agent_metadata_updated'' = None"
  "map_of FOLD_CLASSES ''emit_catalog_table_imported'' = Some (Some CatalogTableImportedPayload)"
  "map_of FOLD_CLASSES ''emit_concept_confirmed'' = None"
  "map_of FOLD_CLASSES ''emit_person_invited'' = None"
  unfolding FOLD_CLASSES_def by (rule map_of_hit map_of_end | (rule map_of_skip, simp))+

lemma classes_member:
  "PersonProposedPayload \<in> set PAYLOAD_CLASSES"
  "PersonConfirmedPayload \<in> set PAYLOAD_CLASSES"
  "PersonArchivedPayload \<in> set PAYLOAD_CLASSES"
  "PositionProposedPayload \<in> set PAYLOAD_CLASSES"
  "PositionConfirmedPayload \<in> set PAYLOAD_CLASSES"
  "PositionRejectedPayload \<in> set PAYLOAD_CLASSES"
  "ResourceRoleProposedPayload \<in> set PAYLOAD_CLASSES"
  "IdentityLinkedPayload \<in> set PAYLOAD_CLASSES"
  "IdentityUnlinkedPayload \<in> set PAYLOAD_CLASSES"
  "RoleAssignedPayload \<in> set PAYLOAD_CLASSES"
  "DomainRoleAssignedPayload \<in> set PAYLOAD_CLASSES"
  "ResourceRoleAssignedPayload \<in> set PAYLOAD_CLASSES"
  "RoleRevokedPayload \<in> set PAYLOAD_CLASSES"
  "SetupModeChosenPayload \<in> set PAYLOAD_CLASSES"
  "SetupCompletedPayload \<in> set PAYLOAD_CLASSES"
  "SetupStepAdvancedPayload \<in> set PAYLOAD_CLASSES"
  "MCPCallReceivedPayload \<in> set PAYLOAD_CLASSES"
  "KpiProposedPayload \<in> set PAYLOAD_CLASSES"
  "DecisionRecordedPayload \<in> set PAYLOAD_CLASSES"
  "ProcessMapProposedPayload \<in> set PAYLOAD_CLASSES"
  "TenantSignupInitiatedPayload \<in> set PAYLOAD_CLASSES"
  "TenantSignupCompletedPayload \<in> set PAYLOAD_CLASSES"
  "LineageEdgeConfirmedPayload \<in> set PAYLOAD_CLASSES"
  "LineageEdgeRejectedPayload \<in> set PAYLOAD_CLASSES"
  "QualityCheckConfirmedPayload \<in> set PAYLOAD_CLASSES"
  "QualityCheckRejectedPayload \<in> set PAYLOAD_CLASSES"
  "SchemaImpactConfirmedPayload \<in> set PAYLOAD_CLASSES"
  "SchemaImpactRejectedPayload \<in> set PAYLOAD_CLASSES"
  "SemanticTypeConfirmedPayload \<in> set PAYLOAD_CLASSES"
  "SemanticTypeRejectedPayload \<in> set PAYLOAD_CLASSES"
  "ColumnClassificationConfirmedPayload \<in> set PAYLOAD_CLASSES"
  "ColumnClassificationRejectedPayload \<in> set PAYLOAD_CLASSES"
  "EntityStitchConfirmedPayload \<in> set PAYLOAD_CLASSES"
  "EntityStitchRejectedPayload \<in> set PAYLOAD_CLASSES"
  "SourceCandidatePromotedPayload \<in> set PAYLOAD_CLASSES"
  "SourceCandidateRejectedPayload \<in> set PAYLOAD_CLASSES"
  "CatalogDriftAcknowledgedPayload \<in> set PAYLOAD_CLASSES"
  "CatalogDriftRejectedPayload \<in> set PAYLOAD_CLASSES"
  "ExternalCatalogImportedPayload \<in> set PAYLOAD_CLASSES"
  "ExternalLineageImportedPayload \<in> set PAYLOAD_CLASSES"
  "ExternalMetricImportedPayload \<in> set PAYLOAD_CLASSES"
  "AgentGrantPayload \<in> set PAYLOAD_CLASSES"
  "AgentMetadataUpdatedPayload \<in> set PAYLOAD_CLASSES"
  "CatalogTableImportedPayload \<in> set PAYLOAD_CLASSES"
  "ConceptConfirmedPayload \<in> set PAYLOAD_CLASSES"
  "PersonInvitedPayload \<in> set PAYLOAD_CLASSES"
  by (simp_all only: PAYLOAD_CLASSES_def list.set insert_iff simp_thms)

lemma safe_classes:
  "safe_class PersonProposedPayload"
  "safe_class PersonConfirmedPayload"
  "safe_class PersonArchivedPayload"
  "safe_class PositionProposedPayload"
  "safe_class PositionConfirmedPayload"
  "safe_class PositionRejectedPayload"
  "safe_class ResourceRoleProposedPayload"
  "safe_class IdentityLinkedPayload"
  "safe_class IdentityUnlinkedPayload"
  "safe_class RoleAssignedPayload"
  "safe_class DomainRoleAssignedPayload"
  "safe_class ResourceRoleAssignedPayload"
  "safe_class RoleRevokedPayload"
  "safe_class SetupModeChosenPayload"
  "safe_class SetupCompletedPayload"
  "safe_class SetupStepAdvancedPayload"
  "safe_class MCPCallReceivedPayload"
  "safe_class KpiProposedPayload"
  "safe_class DecisionRecordedPayload"
  "safe_class ProcessMapProposedPayload"
  "safe_class TenantSignupInitiatedPayload"
  "safe_class TenantSignupCompletedPayload"
  "safe_class LineageEdgeConfirmedPayload"
  "safe_class LineageEdgeRejectedPayload"
  "safe_class QualityCheckConfirmedPayload"
  "safe_class QualityCheckRejectedPayload"
  "safe_class SchemaImpactConfirmedPayload"
  "safe_class SchemaImpactRejectedPayload"
  "safe_class SemanticTypeConfirmedPayload"
  "safe_class SemanticTypeRejectedPayload"
  "safe_class ColumnClassificationConfirmedPayload"
  "safe_class ColumnClassificationRejectedPayload"
  "safe_class EntityStitchConfirmedPayload"
  "safe_class EntityStitchRejectedPayload"
  "safe_class SourceCandidatePromotedPayload"
  "safe_class SourceCandidateRejectedPayload"
  "safe_class CatalogDriftAcknowledgedPayload"
  "safe_class CatalogDriftRejectedPayload"
  "safe_class ExternalCatalogImportedPayload"
  "safe_class ExternalLineageImportedPayload"
  "safe_class ExternalMetricImportedPayload"
  "safe_class AgentGrantPayload"
  "safe_class AgentMetadataUpdatedPayload"
  "safe_class CatalogTableImportedPayload"
  "safe_class ConceptConfirmedPayload"
  "safe_class PersonInvitedPayload"
  by (simp_all add: safe_class_def class_kinds class_tools classes_member)

lemma plain_classes:
  "plain_class PersonProposedPayload"
  "plain_class PersonConfirmedPayload"
  "plain_class PersonArchivedPayload"
  "plain_class PositionProposedPayload"
  "plain_class PositionConfirmedPayload"
  "plain_class PositionRejectedPayload"
  "plain_class ResourceRoleProposedPayload"
  "plain_class IdentityLinkedPayload"
  "plain_class IdentityUnlinkedPayload"
  "plain_class RoleAssignedPayload"
  "plain_class DomainRoleAssignedPayload"
  "plain_class ResourceRoleAssignedPayload"
  "plain_class RoleRevokedPayload"
  "plain_class SetupModeChosenPayload"
  "plain_class SetupCompletedPayload"
  "plain_class SetupStepAdvancedPayload"
  "plain_class MCPCallReceivedPayload"
  "plain_class KpiProposedPayload"
  "plain_class DecisionRecordedPayload"
  "plain_class ProcessMapProposedPayload"
  "plain_class TenantSignupInitiatedPayload"
  "plain_class TenantSignupCompletedPayload"
  "plain_class LineageEdgeConfirmedPayload"
  "plain_class LineageEdgeRejectedPayload"
  "plain_class QualityCheckConfirmedPayload"
  "plain_class QualityCheckRejectedPayload"
  "plain_class SchemaImpactConfirmedPayload"
  "plain_class SchemaImpactRejectedPayload"
  "plain_class SemanticTypeConfirmedPayload"
  "plain_class SemanticTypeRejectedPayload"
  "plain_class ColumnClassificationConfirmedPayload"
  "plain_class ColumnClassificationRejectedPayload"
  "plain_class EntityStitchConfirmedPayload"
  "plain_class EntityStitchRejectedPayload"
  "plain_class SourceCandidatePromotedPayload"
  "plain_class SourceCandidateRejectedPayload"
  "plain_class CatalogDriftAcknowledgedPayload"
  "plain_class CatalogDriftRejectedPayload"
  "plain_class AgentGrantPayload"
  "plain_class AgentMetadataUpdatedPayload"
  "plain_class CatalogTableImportedPayload"
  "plain_class ConceptConfirmedPayload"
  "plain_class PersonInvitedPayload"
  by (simp_all add: plain_class_def safe_classes class_kinds uuid_fields_def)

lemma jsonable_opt_str [simp]: "jsonable (opt_str x)"
  by (cases x) (simp_all add: opt_str_def)

text \<open>A ledger in the hands of the admin actions, outside of the silent mode.\<close>

locale admin_ledger = ledger_store E L invar
  for E :: env and L :: "'s store" and invar :: "'s \<Rightarrow> bool" +
  fixes W :: "'s admin"
  assumes store: "ad_store W = L" and talks: "\<not> ad_silent W"
begin

lemma safe_cycle:
  "plain_class C \<Longrightarrow> jsonable_dict given \<Longrightarrow> admin_safe (ad_lib W) L invar c (write_action W c C given u rs by rr ra)"
  unfolding plain_class_def by (rule safe_act [OF store talks]) simp_all

lemma safe_or_uuid4: "(\<And>u. admin_safe (ad_lib W) L invar c (f u)) \<Longrightarrow> admin_safe (ad_lib W) L invar c (or_uuid4 W o' f)"
  by (cases o') (simp_all add: or_uuid4_def store safe_with_uuid)

lemmas safe_steps = safe_rules safe_cycle safe_or_uuid4

lemma safe_propose_person: "admin_safe (ad_lib W) L invar c (propose_person W c person_id tenant_id name email platform platform_user_id position proposed_by)"
  unfolding propose_person_def Let_def by (intro safe_steps) (simp_all add: plain_classes)

lemma safe_confirm_person: "admin_safe (ad_lib W) L invar c (confirm_person W c person_id confirmed_by)"
  unfolding confirm_person_def Let_def by (intro safe_steps) (simp_all add: plain_classes)

lemma safe_archive_person: "admin_safe (ad_lib W) L invar c (archive_person W c person_id archived_by reason)"
  unfolding archive_person_def Let_def by (intro safe_steps) (simp_all add: plain_classes)

lemma safe_propose_position: "admin_safe (ad_lib W) L invar c (propose_position W c person_id position confidence signals proposed_by)"
  unfolding propose_position_def Let_def by (intro safe_steps) (simp_all add: plain_classes)

lemma safe_confirm_position_proposal: "admin_safe (ad_lib W) L invar c (confirm_position_proposal W c person_id position confirmed_by)"
  unfolding confirm_position_proposal_def Let_def by (intro safe_steps) (simp_all add: plain_classes)

lemma safe_reject_position_proposal: "admin_safe (ad_lib W) L invar c (reject_position_proposal W c person_id position rejected_by reason)"
  unfolding reject_position_proposal_def Let_def by (intro safe_steps) (simp_all add: plain_classes)

lemma safe_propose_resource_role: "admin_safe (ad_lib W) L invar c (propose_resource_role W c person_id resource_id role confidence signals proposed_by)"
  unfolding propose_resource_role_def Let_def by (intro safe_steps) (simp_all add: plain_classes)

lemma safe_link_identity: "admin_safe (ad_lib W) L invar c (link_identity W c person_id platform platform_user_id linked_by)"
  unfolding link_identity_def Let_def by (intro safe_steps) (simp_all add: plain_classes)

lemma safe_unlink_identity: "admin_safe (ad_lib W) L invar c (unlink_identity W c person_id platform platform_user_id unlinked_by)"
  unfolding unlink_identity_def Let_def by (intro safe_steps) (simp_all add: plain_classes)

lemma safe_grant_tenancy_role: "admin_safe (ad_lib W) L invar c (grant_tenancy_role W c person_id role granted_by)"
  unfolding grant_tenancy_role_def Let_def by (intro safe_steps) (simp_all add: plain_classes)

lemma safe_grant_domain_role: "admin_safe (ad_lib W) L invar c (grant_domain_role W c person_id domain_id role granted_by)"
  unfolding grant_domain_role_def Let_def by (intro safe_steps) (simp_all add: plain_classes)

lemma safe_grant_resource_role: "admin_safe (ad_lib W) L invar c (grant_resource_role W c person_id resource_id resource_type role granted_by)"
  unfolding grant_resource_role_def Let_def by (intro safe_steps) (simp_all add: plain_classes)

lemma safe_revoke_tenancy_role: "admin_safe (ad_lib W) L invar c (revoke_tenancy_role W c person_id role revoked_by)"
  unfolding revoke_tenancy_role_def Let_def by (intro safe_steps) (simp_all add: plain_classes)

lemma safe_set_setup_mode: "admin_safe (ad_lib W) L invar c (set_setup_mode W c tenant_id mode chosen_by_person_id)"
  unfolding set_setup_mode_def Let_def by (intro safe_steps) (simp_all add: plain_classes)

lemma safe_complete_setup: "admin_safe (ad_lib W) L invar c (complete_setup W c tenant_id completed_at)"
  unfolding complete_setup_def Let_def by (intro safe_steps) (simp_all add: plain_classes)

lemma safe_advance_setup_step: "admin_safe (ad_lib W) L invar c (advance_setup_step W c tenant_id step_id advanced_by_person_id)"
  unfolding advance_setup_step_def Let_def by (intro safe_steps) (simp_all add: plain_classes)

lemma safe_record_mcp_call: "admin_safe (ad_lib W) L invar c (record_mcp_call W c mcp_call_id tenant_id caller_person_id tool_name args_hash client_ua started_at outcome latency_ms)"
  unfolding record_mcp_call_def Let_def by (intro safe_steps) (simp_all add: plain_classes)

lemma safe_propose_kpi_node: "admin_safe (ad_lib W) L invar c (propose_kpi_node W c kpi_id label formula unit source_ids owner_position proposed_by proposed_at)"
  unfolding propose_kpi_node_def Let_def by (intro safe_steps) (simp_all add: plain_classes)

lemma safe_record_decision: "admin_safe (ad_lib W) L invar c (record_decision W c decision_id decision_text channel_id decided_by_persons evidence_message_ids confidence decision_at proposed_by)"
  unfolding record_decision_def Let_def by (intro safe_steps) (simp_all add: plain_classes)

lemma safe_propose_process_map: "\<forall>d\<in>set steps. jsonable_dict d \<Longrightarrow> admin_safe (ad_lib W) L invar c (propose_process_map W c process_id process_name steps domain confidence proposed_by)"
  unfolding propose_process_map_def Let_def by (intro safe_steps) (simp_all add: plain_classes jsonable_dict_def)

lemma safe_initiate_tenant_signup: "admin_safe (ad_lib W) L invar c (initiate_tenant_signup W c tenant_id slug display_name signup_source signup_email pending_token_hash)"
  unfolding initiate_tenant_signup_def Let_def by (intro safe_steps) (simp_all add: plain_classes)

lemma safe_complete_tenant_signup: "admin_safe (ad_lib W) L invar c (complete_tenant_signup W c tenant_id signup_source assigned_tenant_slug signup_email)"
  unfolding complete_tenant_signup_def Let_def by (intro safe_steps) (simp_all add: plain_classes)

lemma safe_confirm_lineage_edge: "admin_safe (ad_lib W) L invar c (confirm_lineage_edge W c edge_id confirmed_by_person_id notes)"
  unfolding confirm_lineage_edge_def Let_def by (intro safe_steps) (simp_all add: plain_classes)

lemma safe_reject_lineage_edge: "admin_safe (ad_lib W) L invar c (reject_lineage_edge W c edge_id rejected_by_person_id reason notes)"
  unfolding reject_lineage_edge_def Let_def by (intro safe_steps) (simp_all add: plain_classes)

lemma safe_confirm_quality_check: "admin_safe (ad_lib W) L invar c (confirm_quality_check W c check_id confirmed_by_person_id notes)"
  unfolding confirm_quality_check_def Let_def by (intro safe_steps) (simp_all add: plain_classes)

lemma safe_reject_quality_check: "admin_safe (ad_lib W) L invar c (reject_quality_check W c check_id rejected_by_person_id reason notes)"
  unfolding reject_quality_check_def Let_def by (intro safe_steps) (simp_all add: plain_classes)

lemma safe_confirm_schema_impact: "admin_safe (ad_lib W) L invar c (confirm_schema_impact W c impact_id confirmed_by_person_id notes)"
  unfolding confirm_schema_impact_def Let_def by (intro safe_steps) (simp_all add: plain_classes)

lemma safe_reject_schema_impact: "admin_safe (ad_lib W) L invar c (reject_schema_impact W c impact_id rejected_by_person_id reason notes)"
  unfolding reject_schema_impact_def Let_def by (intro safe_steps) (simp_all add: plain_classes)

lemma safe_confirm_semantic_type: "admin_safe (ad_lib W) L invar c (confirm_semantic_type W c type_id confirmed_by_person_id notes)"
  unfolding confirm_semantic_type_def Let_def by (intro safe_steps) (simp_all add: plain_classes)

lemma safe_reject_semantic_type: "admin_safe (ad_lib W) L invar c (reject_semantic_type W c type_id rejected_by_person_id reason notes)"
  unfolding reject_semantic_type_def Let_def by (intro safe_steps) (simp_all add: plain_classes)

lemma safe_confirm_column_classification: "admin_safe (ad_lib W) L invar c (confirm_column_classification W c classification_id confirmed_by_person_id notes)"
  unfolding confirm_column_classification_def Let_def by (intro safe_steps) (simp_all add: plain_classes)

lemma safe_reject_column_classification: "admin_safe (ad_lib W) L invar c (reject_column_classification W c classification_id rejected_by_person_id reason notes)"
  unfolding reject_column_classification_def Let_def by (intro safe_steps) (simp_all add: plain_classes)

lemma safe_confirm_entity_stitch: "admin_safe (ad_lib W) L invar c (confirm_entity_stitch W c stitch_id confirmed_by_person_id notes)"
  unfolding confirm_entity_stitch_def Let_def by (intro safe_steps) (simp_all add: plain_classes)

lemma safe_reject_entity_stitch: "admin_safe (ad_lib W) L invar c (reject_entity_stitch W c stitch_id rejected_by_person_id reason notes)"
  unfolding reject_entity_stitch_def Let_def by (intro safe_steps) (simp_all add: plain_classes)

lemma safe_promote_source_candidate: "admin_safe (ad_lib W) L invar c (promote_source_candidate W c candidate_id promoted_by_person_id downstream_source_proposed_id notes)"
  unfolding promote_source_candidate_def Let_def by (intro safe_steps) (simp_all add: plain_classes)

lemma safe_reject_source_candidate: "admin_safe (ad_lib W) L invar c (reject_source_candidate W c candidate_id rejected_by_person_id reason notes)"
  unfolding reject_source_candidate_def Let_def by (intro safe_steps) (simp_all add: plain_classes)

lemma safe_acknowledge_catalog_drift: "admin_safe (ad_lib W) L invar c (acknowledge_catalog_drift W c drift_id acknowledged_by_person_id notes)"
  unfolding acknowledge_catalog_drift_def Let_def by (intro safe_steps) (simp_all add: plain_classes)

lemma safe_reject_catalog_drift: "admin_safe (ad_lib W) L invar c (reject_catalog_drift W c drift_id rejected_by_person_id reason notes)"
  unfolding reject_catalog_drift_def Let_def by (intro safe_steps) (simp_all add: plain_classes)

subsection \<open>The flows\<close>

lemma safe_confirm_each: "admin_safe (ad_lib W) L invar c (confirm_each W c by ps)"
  by (induction ps) (auto intro!: safe_steps safe_confirm_person)

lemma safe_bulk_confirm_persons: "admin_safe (ad_lib W) L invar c (bulk_confirm_persons W c ps by)"
  unfolding bulk_confirm_persons_def Let_def by (intro safe_steps safe_confirm_each)

lemma safe_move_each: "admin_safe (ad_lib W) L invar c (move_each W c keeper mergee by held ks)"
proof (induction ks arbitrary: held)
  case (Cons k ks)
  show ?case
    by (cases "identity_texts k") (auto intro!: safe_steps safe_link_identity safe_unlink_identity Cons.IH split: prod.split)
qed (simp add: safe_sret safe_Pair)

lemma safe_merge_persons: "admin_safe (ad_lib W) L invar c (merge_persons W c keeper mergee by)"
  unfolding merge_persons_def by (auto intro!: safe_steps safe_move_each safe_archive_person split: prod.split)

lemma safe_split_each: "admin_safe (ad_lib W) L invar c (split_each W c source new by ids)"
  by (induction ids) (auto intro!: safe_steps safe_link_identity safe_unlink_identity)

lemma safe_split_person: "admin_safe (ad_lib W) L invar c (split_person W c source name email position ids by)"
  unfolding split_person_def store
  by (auto intro!: safe_steps safe_with_uuid safe_split_each safe_propose_person safe_unlink_identity split: sum.split list.split prod.split)

lemma grant_jsonable: "validates V AgentGrantPayload (grant_args agent kind target status by budget) \<Longrightarrow> jsonable budget"
  by (drule validatesD, cases budget) (simp_all add: AgentGrantPayload_def class_simps has_type.simps grant_args_def)

lemma safe_revoke_each: "admin_safe (ad_lib W) L invar c (revoke_each W c agent by why gs)"
proof (induction gs)
  case (Cons g gs)
  obtain kind target budget where g: "g = (kind, target, budget)" by (cases g)
  have cycle: "admin_safe (ad_lib W) L invar c (write_action W c AgentGrantPayload (grant_args agent kind target ''revoked'' by budget) u rs p rr ra)" for u rs p rr ra
    using plain_classes by (intro safe_act [OF store talks]) (auto simp: plain_class_def grant_args_def dest: grant_jsonable [unfolded grant_args_def])
  show ?case unfolding g revoke_each.simps by (intro safe_rules cycle Cons.IH)
qed (simp add: safe_sret safe_Pair)

lemma safe_revoke_agent: "admin_safe (ad_lib W) L invar c (revoke_agent W c agent by why)"
  unfolding revoke_agent_def by (intro safe_steps safe_revoke_each)

lemma safe_update_agent_metadata: "admin_safe (ad_lib W) L invar c (update_agent_metadata W c agent by name description reason)"
  unfolding update_agent_metadata_def by (intro safe_steps) (simp_all add: plain_classes)

lemma safe_revert_agent_metadata: "admin_safe (ad_lib W) L invar c (revert_agent_metadata W c agent by reason)"
  unfolding revert_agent_metadata_def
  by (auto intro!: safe_steps safe_update_agent_metadata split: prod.split pyval.split)

lemma safe_emit_catalog_table_imported:
  "admin_safe (ad_lib W) L invar c (emit_catalog_table_imported W c source_id snap table_id columns by)"
  unfolding emit_catalog_table_imported_def Let_def
  by (intro safe_steps) (auto simp: plain_classes column_spec_def)

lemma safe_emit_tables: "admin_safe (ad_lib W) L invar c (emit_tables W c source_id snap by ts)"
  by (induction ts) (auto intro!: safe_steps safe_emit_catalog_table_imported)

lemma safe_confirm_concept: "admin_safe (ad_lib W) L invar c (confirm_concept W c term by)"
  unfolding confirm_concept_def Let_def by (intro safe_steps) (simp_all add: plain_classes)

lemma safe_invite_person: "admin_safe (ad_lib W) L invar c (invite_person W c by email platform role notes)"
  unfolding invite_person_def Let_def store
  by (intro safe_steps safe_with_uuid) (simp_all add: plain_classes)

text \<open>The source and the domain of an imported catalog are identifiers.\<close>

lemma safe_lineage:
  assumes "uuid_text source_id \<noteq> None"
  shows "admin_safe (ad_lib W) L invar c (emit_lineage W c source_id kind by edges)"
proof -
  have cycle: "admin_safe (ad_lib W) L invar c (write_action W c ExternalLineageImportedPayload
      [(''source_id'', PStr source_id), (''edges'', PList (map (\<lambda>(u, d). PList [PStr u, PStr d]) edges))] u rs p rr ra)" for u rs p rr ra
  proof (rule safe_act [OF store talks safe_classes(40)])
    show "list_all (uuid_at (model_dump ExternalLineageImportedPayload [(''source_id'', PStr source_id),
        (''edges'', PList (map (\<lambda>(u, d). PList [PStr u, PStr d]) edges))])) (uuid_fields (''emit_'' @ pc_kind ExternalLineageImportedPayload))"
      using assms by (simp add: class_kinds uuid_fields_def uuid_at_def model_dump_def ExternalLineageImportedPayload_def payload_def
          needs_def takes_def dget_def)
  qed auto
  show ?thesis unfolding emit_lineage_def by (intro safe_rules cycle)
qed

lemma safe_metrics:
  assumes "uuid_text source_id \<noteq> None"
  shows "admin_safe (ad_lib W) L invar c (emit_metrics W c source_id kind by ms)"
proof (induction ms)
  case (Cons m ms)
  have cycle: "admin_safe (ad_lib W) L invar c (write_action W c ExternalMetricImportedPayload
     [(''source_id'', PStr source_id), (''name'', PStr (cm_name m)), (''expression'', opt_str (cm_expression m)),
      (''time_grain'', opt_str (cm_time_grain m)), (''dimensions'', PList (map PStr (cm_dimensions m))),
      (''description'', opt_str (cm_description m))] u rs p rr ra)" for u rs p rr ra
  proof (rule safe_act [OF store talks safe_classes(41)])
    show "list_all (uuid_at (model_dump ExternalMetricImportedPayload [(''source_id'', PStr source_id), (''name'', PStr (cm_name m)),
        (''expression'', opt_str (cm_expression m)), (''time_grain'', opt_str (cm_time_grain m)),
        (''dimensions'', PList (map PStr (cm_dimensions m))), (''description'', opt_str (cm_description m))]))
        (uuid_fields (''emit_'' @ pc_kind ExternalMetricImportedPayload))"
      using assms by (simp add: class_kinds uuid_fields_def uuid_at_def model_dump_def ExternalMetricImportedPayload_def payload_def
          needs_def takes_def dget_def)
  qed auto
  show ?case unfolding emit_metrics.simps by (intro safe_rules cycle Cons.IH)
qed (simp add: safe_sret safe_Pair)

lemma safe_emit_external_catalog_pevr:
  assumes "uuid_text source_id \<noteq> None" and "uuid_text domain_id \<noteq> None"
  shows "admin_safe (ad_lib W) L invar c (emit_external_catalog_pevr W c source_id domain_id kind snap by)"
proof -
  have cycle: "admin_safe (ad_lib W) L invar c (write_action W c ExternalCatalogImportedPayload
     [(''source_kind'', PStr kind), (''source_id'', PStr source_id), (''domain_id'', PStr domain_id),
      (''snapshot_hash'', PStr h), (''table_count'', PInt i), (''edge_count'', PInt j), (''metric_count'', PInt k),
      (''import_mode'', PStr ''initial'')] u rs p rr ra)" for u rs p rr ra h i j k
  proof (rule safe_act [OF store talks safe_classes(39)])
    show "list_all (uuid_at (model_dump ExternalCatalogImportedPayload [(''source_kind'', PStr kind), (''source_id'', PStr source_id),
        (''domain_id'', PStr domain_id), (''snapshot_hash'', PStr h), (''table_count'', PInt i), (''edge_count'', PInt j),
        (''metric_count'', PInt k), (''import_mode'', PStr ''initial'')])) (uuid_fields (''emit_'' @ pc_kind ExternalCatalogImportedPayload))"
      using assms by (simp add: class_kinds uuid_fields_def uuid_at_def model_dump_def ExternalCatalogImportedPayload_def payload_def
          needs_def takes_def dget_def)
  qed auto
  show ?thesis
    unfolding emit_external_catalog_pevr_def by (intro safe_rules cycle safe_emit_tables safe_lineage safe_metrics assms)
qed

end

subsection \<open>Runs of admin actions\<close>

text \<open>
  One action, for any company and with any outcome. Two actions are left out: the registration of an
  agent and the promotion of a semantic gap.
\<close>

inductive admin_step :: "'s admin \<Rightarrow> 's \<Rightarrow> 's \<Rightarrow> bool" for W :: "'s admin" where
  "propose_person W c person_id tenant_id name email platform platform_user_id position proposed_by s = (out, s') \<Longrightarrow> admin_step W s s'"
| "confirm_person W c person_id confirmed_by s = (out, s') \<Longrightarrow> admin_step W s s'"
| "archive_person W c person_id archived_by reason s = (out, s') \<Longrightarrow> admin_step W s s'"
| "propose_position W c person_id position confidence signals proposed_by s = (out, s') \<Longrightarrow> admin_step W s s'"
| "confirm_position_proposal W c person_id position confirmed_by s = (out, s') \<Longrightarrow> admin_step W s s'"
| "reject_position_proposal W c person_id position rejected_by reason s = (out, s') \<Longrightarrow> admin_step W s s'"
| "propose_resource_role W c person_id resource_id role confidence signals proposed_by s = (out, s') \<Longrightarrow> admin_step W s s'"
| "link_identity W c person_id platform platform_user_id linked_by s = (out, s') \<Longrightarrow> admin_step W s s'"
| "unlink_identity W c person_id platform platform_user_id unlinked_by s = (out, s') \<Longrightarrow> admin_step W s s'"
| "grant_tenancy_role W c person_id role granted_by s = (out, s') \<Longrightarrow> admin_step W s s'"
| "grant_domain_role W c person_id domain_id role granted_by s = (out, s') \<Longrightarrow> admin_step W s s'"
| "grant_resource_role W c person_id resource_id resource_type role granted_by s = (out, s') \<Longrightarrow> admin_step W s s'"
| "revoke_tenancy_role W c person_id role revoked_by s = (out, s') \<Longrightarrow> admin_step W s s'"
| "set_setup_mode W c tenant_id mode chosen_by_person_id s = (out, s') \<Longrightarrow> admin_step W s s'"
| "complete_setup W c tenant_id completed_at s = (out, s') \<Longrightarrow> admin_step W s s'"
| "advance_setup_step W c tenant_id step_id advanced_by_person_id s = (out, s') \<Longrightarrow> admin_step W s s'"
| "record_mcp_call W c mcp_call_id tenant_id caller_person_id tool_name args_hash client_ua started_at outcome latency_ms s = (out, s') \<Longrightarrow> admin_step W s s'"
| "propose_kpi_node W c kpi_id label formula unit source_ids owner_position proposed_by proposed_at s = (out, s') \<Longrightarrow> admin_step W s s'"
| "record_decision W c decision_id decision_text channel_id decided_by_persons evidence_message_ids confidence decision_at proposed_by s = (out, s') \<Longrightarrow> admin_step W s s'"
| "\<forall>d\<in>set steps. jsonable_dict d \<Longrightarrow> propose_process_map W c process_id process_name steps domain confidence proposed_by s = (out, s') \<Longrightarrow> admin_step W s s'"
| "initiate_tenant_signup W c tenant_id slug display_name signup_source signup_email pending_token_hash s = (out, s') \<Longrightarrow> admin_step W s s'"
| "complete_tenant_signup W c tenant_id signup_source assigned_tenant_slug signup_email s = (out, s') \<Longrightarrow> admin_step W s s'"
| "confirm_lineage_edge W c edge_id confirmed_by_person_id notes s = (out, s') \<Longrightarrow> admin_step W s s'"
| "reject_lineage_edge W c edge_id rejected_by_person_id reason notes s = (out, s') \<Longrightarrow> admin_step W s s'"
| "confirm_quality_check W c check_id confirmed_by_person_id notes s = (out, s') \<Longrightarrow> admin_step W s s'"
| "reject_quality_check W c check_id rejected_by_person_id reason notes s = (out, s') \<Longrightarrow> admin_step W s s'"
| "confirm_schema_impact W c impact_id confirmed_by_person_id notes s = (out, s') \<Longrightarrow> admin_step W s s'"
| "reject_schema_impact W c impact_id rejected_by_person_id reason notes s = (out, s') \<Longrightarrow> admin_step W s s'"
| "confirm_semantic_type W c type_id confirmed_by_person_id notes s = (out, s') \<Longrightarrow> admin_step W s s'"
| "reject_semantic_type W c type_id rejected_by_person_id reason notes s = (out, s') \<Longrightarrow> admin_step W s s'"
| "confirm_column_classification W c classification_id confirmed_by_person_id notes s = (out, s') \<Longrightarrow> admin_step W s s'"
| "reject_column_classification W c classification_id rejected_by_person_id reason notes s = (out, s') \<Longrightarrow> admin_step W s s'"
| "confirm_entity_stitch W c stitch_id confirmed_by_person_id notes s = (out, s') \<Longrightarrow> admin_step W s s'"
| "reject_entity_stitch W c stitch_id rejected_by_person_id reason notes s = (out, s') \<Longrightarrow> admin_step W s s'"
| "promote_source_candidate W c candidate_id promoted_by_person_id downstream_source_proposed_id notes s = (out, s') \<Longrightarrow> admin_step W s s'"
| "reject_source_candidate W c candidate_id rejected_by_person_id reason notes s = (out, s') \<Longrightarrow> admin_step W s s'"
| "acknowledge_catalog_drift W c drift_id acknowledged_by_person_id notes s = (out, s') \<Longrightarrow> admin_step W s s'"
| "reject_catalog_drift W c drift_id rejected_by_person_id reason notes s = (out, s') \<Longrightarrow> admin_step W s s'"
| "bulk_confirm_persons W c ps by s = (out, s') \<Longrightarrow> admin_step W s s'"
| "merge_persons W c keeper mergee by s = (out, s') \<Longrightarrow> admin_step W s s'"
| "split_person W c source name email position ids by s = (out, s') \<Longrightarrow> admin_step W s s'"
| "revoke_agent W c agent by why s = (out, s') \<Longrightarrow> admin_step W s s'"
| "update_agent_metadata W c agent by name description reason s = (out, s') \<Longrightarrow> admin_step W s s'"
| "revert_agent_metadata W c agent by reason s = (out, s') \<Longrightarrow> admin_step W s s'"
| "emit_catalog_table_imported W c source_id snap table_id columns by s = (out, s') \<Longrightarrow> admin_step W s s'"
| "uuid_text source_id \<noteq> None \<Longrightarrow> uuid_text domain_id \<noteq> None \<Longrightarrow> emit_external_catalog_pevr W c source_id domain_id kind snap by s = (out, s') \<Longrightarrow> admin_step W s s'"
| "confirm_concept W c term by s = (out, s') \<Longrightarrow> admin_step W s s'"
| "invite_person W c by email platform role notes s = (out, s') \<Longrightarrow> admin_step W s s'"

context admin_ledger
begin

lemma safeD: "admin_safe (ad_lib W) L invar c f \<Longrightarrow> invar s \<Longrightarrow> f s = (out, s') \<Longrightarrow> invar s' \<and> (\<exists>c. ready_growth (ad_lib W) L c s s')"
  by (auto simp: admin_safe_def)

lemmas runs =
  safe_propose_person [THEN safeD] safe_confirm_person [THEN safeD] safe_archive_person [THEN safeD]
  safe_propose_position [THEN safeD] safe_confirm_position_proposal [THEN safeD]
  safe_reject_position_proposal [THEN safeD] safe_propose_resource_role [THEN safeD] safe_link_identity [THEN safeD]
  safe_unlink_identity [THEN safeD] safe_grant_tenancy_role [THEN safeD] safe_grant_domain_role [THEN safeD]
  safe_grant_resource_role [THEN safeD] safe_revoke_tenancy_role [THEN safeD] safe_set_setup_mode [THEN safeD]
  safe_complete_setup [THEN safeD] safe_advance_setup_step [THEN safeD] safe_record_mcp_call [THEN safeD]
  safe_propose_kpi_node [THEN safeD] safe_record_decision [THEN safeD] safe_propose_process_map [THEN safeD]
  safe_initiate_tenant_signup [THEN safeD] safe_complete_tenant_signup [THEN safeD]
  safe_confirm_lineage_edge [THEN safeD] safe_reject_lineage_edge [THEN safeD]
  safe_confirm_quality_check [THEN safeD] safe_reject_quality_check [THEN safeD]
  safe_confirm_schema_impact [THEN safeD] safe_reject_schema_impact [THEN safeD]
  safe_confirm_semantic_type [THEN safeD] safe_reject_semantic_type [THEN safeD]
  safe_confirm_column_classification [THEN safeD] safe_reject_column_classification [THEN safeD]
  safe_confirm_entity_stitch [THEN safeD] safe_reject_entity_stitch [THEN safeD]
  safe_promote_source_candidate [THEN safeD] safe_reject_source_candidate [THEN safeD]
  safe_acknowledge_catalog_drift [THEN safeD] safe_reject_catalog_drift [THEN safeD]
  safe_bulk_confirm_persons [THEN safeD] safe_merge_persons [THEN safeD] safe_split_person [THEN safeD]
  safe_revoke_agent [THEN safeD] safe_update_agent_metadata [THEN safeD] safe_revert_agent_metadata [THEN safeD]
  safe_emit_catalog_table_imported [THEN safeD] safe_emit_external_catalog_pevr [THEN safeD]
  safe_confirm_concept [THEN safeD] safe_invite_person [THEN safeD]

lemma step_safe: "admin_step W s s' \<Longrightarrow> invar s \<Longrightarrow> invar s' \<and> (\<exists>c. ready_growth (ad_lib W) L c s s')"
  by (induction rule: admin_step.induct) (rule runs; assumption)+

lemma run_ready:
  assumes "(admin_step W)\<^sup>*\<^sup>* s s'" and "invar s" and "list_all (row_ready (ad_lib W)) (st_fetch L s c None)"
  shows "invar s' \<and> list_all (row_ready (ad_lib W)) (st_fetch L s' c None)"
  using assms
proof (induction rule: rtranclp_induct)
  case (step s1 s2)
  then have s1: "invar s1" "list_all (row_ready (ad_lib W)) (st_fetch L s1 c None)" by blast+
  from step_safe [OF step.hyps(2) s1(1)] obtain d where d: "invar s2" "ready_growth (ad_lib W) L d s1 s2" by blast
  with s1(2) show ?case by (cases "d = c") (auto simp: ready_growth_def)
qed simp

end

end
