(* ===== verification/Admin_Properties.thy ===== *)
theory Admin_Properties
  imports Admin_Safety
begin

section \<open>What the admin actions do to the projections\<close>

text \<open>
  Runs of the actions keep the projections of every company building. Three ways out of this: an
  action in silent mode, the registration of an agent and the promotion of a semantic gap each write
  a row on which the fold raises. And what the flows over identities and grants achieve.
\<close>

subsection \<open>Runs\<close>

interpretation mem_admin: admin_ledger E "mem_store E" "mem_invar E" "W\<lparr>ad_store := mem_store E, ad_silent := False\<rparr>" for E W
  by (intro admin_ledger.intro ml.ledger_store_axioms admin_ledger_axioms.intro) simp_all


subsection \<open>Outcomes on a ledger that keeps writing\<close>

context reliable_store
begin

lemma act_written:
  assumes "invar s" and W: "ad_store W = L" "\<not> ad_silent W" and C: "C \<in> set PAYLOAD_CLASSES" "pc_kind C \<noteq> ''tenant_engine_registered''"
    and j: "jsonable_dict given" and valid: "validates (ad_lib W) C given"
  obtains res s' where "write_action W c C given u rs by rr ra s = (Inr (Written res), s')" "invar s'"
    "logged L s s' c (ad_clock W s) (''emit_'' @ pc_kind C) (model_dump C given)"
proof -
  let ?t = "''emit_'' @ pc_kind C" and ?args = "model_dump C given"
  have dump: "validates (ad_lib W) C ?args" using dump_roundtrip [OF C valid] by simp
  let ?req = "cycle_req c (pc_kind C) u rs by ?t ?args rr (check_ok (?t @ ''_payload_valid'')) ra (ad_clock W s)"
  have "clean_req ?req" by (simp add: cycle_req_clean model_dump_jsonable C(1) j)
  from write_clean [OF this] obtain res s' where w: "st_write L ?req s = (Inr res, s')" by blast
  have "write_action W c C given u rs by rr ra s = (Inr (Written res), s')"
    using valid dump w by (simp add: write_action_def pevr_def W verify_body_def sbind_def sret_def)
  with that cycle_write(1,2) [OF assms(1) w] show thesis by blast
qed

end

definition demo_admin :: "mem admin" where
  "demo_admin = \<lparr>ad_store = mem_store demo_env, ad_lib = demo_lib, ad_silent = False, ad_error = (\<lambda>C d. []), ad_clock = (\<lambda>s. 5),
     ad_iso = (\<lambda>n. []), ad_uuid5 = (\<lambda>t. t), ad_casefold = id\<rparr>"

lemma demo_admin_sel [simp]:
  "ad_store demo_admin = mem_store demo_env" "ad_lib demo_admin = demo_lib" "\<not> ad_silent demo_admin"
  by (simp_all add: demo_admin_def)

lemma demo_confirmed:
  obtains res s where "confirm_person demo_admin ''c'' demo_id demo_id mem_empty = (Inr (Written res), s)" "mem_invar demo_env s"
    "logged (mem_store demo_env) mem_empty s ''c'' (ad_clock demo_admin mem_empty) ''emit_person_confirmed''
       (model_dump PersonConfirmedPayload [(''person_id'', PStr demo_id), (''confirmed_by'', PStr demo_id)])"
proof -
  have valid: "validates (ad_lib demo_admin) PersonConfirmedPayload [(''person_id'', PStr demo_id), (''confirmed_by'', PStr demo_id)]"
    by (simp add: validates_def PersonConfirmedPayload_def class_simps needs_takes_names demo_id_uuid)
  have other: "pc_kind PersonConfirmedPayload \<noteq> ''tenant_engine_registered''" by (simp add: class_kinds)
  have json: "jsonable_dict [(''person_id'', PStr demo_id), (''confirmed_by'', PStr demo_id)]" by simp
  show thesis
    by (rule ml.act_written [OF mem_invar_empty demo_admin_sel(1,3) classes_member(2) other json valid])
      (rule that, unfold confirm_person_def, assumption+, simp add: class_kinds)
qed


subsection \<open>Rows on which the fold raises\<close>

lemma handler_blocks:
  assumes "e_kind e = ''execute''" and "payload_of tool args (e_payload e)" and "map_of EXECUTE_HANDLERS tool = Some h"
    and "\<And>st. \<exists>x. h F e (PDict args) st = Inl x"
  shows "\<exists>x. apply_entry F e st = Inl x"
proof -
  have "\<exists>x. apply_execute F e st1 = Inl x" for st1
    using assms(2-) by (simp add: apply_execute_def payload_of_def dget_or_def)
  with assms(1) show ?thesis by (cases "apply_pevr_envelope F e st") (simp_all add: apply_entry_def)
qed

lemma row_blocks:
  assumes "e \<in> set rows" and "\<And>st. \<exists>x. apply_entry F e st = Inl x"
  shows "\<exists>x. project_rows F (rows @ later) = Inl x"
proof -
  have "e \<in> set (rows @ later)" using assms(1) by simp
  from fold_entries_blocked [OF assms(2) this] obtain x where "fold_entries F (rows @ later) initial_projection_state = Inl x" by blast
  then show ?thesis by (simp add: project_rows_def)
qed

lemma logged_row:
  assumes "logged L s s' c now tool args"
  obtains e where "e \<in> set (st_fetch L s' c None)" "e_kind e = ''execute''" "payload_of tool args (e_payload e)"
proof -
  from assms obtain pl where pl: "payload_of tool args pl" "execs (st_fetch L s' c None) = execs (st_fetch L s c None) @ [(now, pl)]"
    by (auto simp: logged_def)
  then have "(now, pl) \<in> set (execs (st_fetch L s' c None))" by simp
  with pl(1) that show thesis by (auto simp: execs_def)
qed

lemma logged_blocks:
  assumes "logged L s s' c now tool args" and "map_of EXECUTE_HANDLERS tool = Some h"
    and "\<And>e st. \<exists>x. h F e (PDict args) st = Inl x"
  shows "\<exists>x. project_rows F (st_fetch L s' c None @ later) = Inl x"
  using logged_row [OF assms(1)] row_blocks handler_blocks [OF _ _ assms(2,3)] by metis

subsection \<open>Silent mode\<close>

text \<open>The classes of the actions on persons, identities and roles.\<close>

definition PERSON_CLASSES :: "payload_class list" where
  "PERSON_CLASSES =
     [PersonProposedPayload, PersonConfirmedPayload, PersonArchivedPayload, PositionProposedPayload, PositionRejectedPayload,
      IdentityLinkedPayload, RoleAssignedPayload, RoleRevokedPayload, DomainRoleAssignedPayload, ResourceRoleAssignedPayload,
      ResourceRoleProposedPayload]"

lemma person_handlers:
  "list_all (\<lambda>C. \<exists>h. map_of EXECUTE_HANDLERS (''emit_'' @ pc_kind C) = Some h \<and>
     (\<forall>F e d st. map_of d ''person_id'' = None \<longrightarrow> h F e (PDict d) st = Inl KeyError)) PERSON_CLASSES"
proof -
  have handlers: "map_of EXECUTE_HANDLERS ''emit_person_proposed'' = Some person_proposed"
    "map_of EXECUTE_HANDLERS ''emit_person_confirmed'' = Some person_confirmed"
    "map_of EXECUTE_HANDLERS ''emit_person_archived'' = Some person_archived"
    "map_of EXECUTE_HANDLERS ''emit_position_proposed'' = Some position_proposed"
    "map_of EXECUTE_HANDLERS ''emit_position_rejected'' = Some position_rejected"
    "map_of EXECUTE_HANDLERS ''emit_identity_linked'' = Some identity_linked"
    "map_of EXECUTE_HANDLERS ''emit_role_assigned'' = Some role_assigned"
    "map_of EXECUTE_HANDLERS ''emit_role_revoked'' = Some role_revoked"
    "map_of EXECUTE_HANDLERS ''emit_domain_role_assigned'' = Some domain_role_assigned"
    "map_of EXECUTE_HANDLERS ''emit_resource_role_assigned'' = Some resource_role_assigned"
    "map_of EXECUTE_HANDLERS ''emit_resource_role_proposed'' = Some resource_role_proposed"
    unfolding EXECUTE_HANDLERS_def by (rule map_of_hit | (rule map_of_skip, simp))+
  show ?thesis
    unfolding PERSON_CLASSES_def
    by (simp add: class_kinds handlers person_proposed_def person_confirmed_def person_archived_def position_proposed_def
        position_rejected_def identity_linked_def role_assigned_def role_revoked_def domain_role_assigned_def
        resource_role_assigned_def resource_role_proposed_def)
qed

lemma person_members: "set PERSON_CLASSES \<subseteq> set PAYLOAD_CLASSES"
  by (simp add: PERSON_CLASSES_def classes_member)

context reliable_store
begin

lemma record_suppressed_logged:
  assumes "invar s" and "ad_store W = L" and "jsonable_dict args"
  obtains u s' where "record_suppressed W c surface tool args None None why s = (Inr (), s')" "invar s'"
    "logged L s s' c (ad_clock W (snd (st_uuid L s))) tool (suppressed_args surface tool args None None why u)"
proof -
  obtain u s1 where u: "st_uuid L s = (u, s1)" by (cases "st_uuid L s")
  note s1 = uuid_invar [OF assms(1) u] uuid_fetch [OF u]
  let ?req = "cycle_req c ''reply_suppressed'' u (''silent_mode suppressed '' @ surface @ ''/'' @ tool) ''silent_mode''
      tool (suppressed_args surface tool args None None why u) u (check_ok ''suppressed_recorded'') ''silent_mode listen-only'' (ad_clock W s1)"
  have "jsonable_dict (suppressed_args surface tool args None None why u)"
    using assms(3) by (simp add: suppressed_args_def opt_str_def) (simp add: jsonable_dict_def)
  then have "clean_req ?req" by (simp add: cycle_req_clean)
  from write_clean [OF this] obtain res s2 where w: "st_write L ?req s1 = (Inr res, s2)" by blast
  have "record_suppressed W c surface tool args None None why s = (Inr (), s2)"
    by (simp add: record_suppressed_def with_uuid_def assms(2) u w [simplified])
  moreover note cycle_write(1,2) [OF s1(1) w]
  ultimately show thesis using that logged_cong [OF s1(2)] by (simp add: u)
qed

lemma suppressed_act:
  assumes "invar s" and "ad_store W = L" and "ad_silent W" and "C \<in> set PAYLOAD_CLASSES" and "jsonable_dict given"
    and "validates (ad_lib W) C given"
  obtains u v now s1 s' where "write_action W c C given ref reason by rr ra s = (Inr (SuppressedToolResult u), s')"
    "logged L s s1 c now (''emit_'' @ pc_kind C)
       (suppressed_args ''mcp_write'' (''emit_'' @ pc_kind C) (model_dump C given) None None ''mcp_invocation'' v)"
    "\<And>d q. st_fetch L s' d q = st_fetch L s1 d q"
proof -
  obtain v s1 where run: "record_suppressed W c ''mcp_write'' (''emit_'' @ pc_kind C) (model_dump C given) None None ''mcp_invocation'' s = (Inr (), s1)"
    and l: "logged L s s1 c (ad_clock W (snd (st_uuid L s))) (''emit_'' @ pc_kind C)
       (suppressed_args ''mcp_write'' (''emit_'' @ pc_kind C) (model_dump C given) None None ''mcp_invocation'' v)"
    by (rule record_suppressed_logged [OF assms(1,2) model_dump_jsonable [OF assms(4,5)]]) blast
  obtain u s' where u: "st_uuid L s1 = (u, s')" by (cases "st_uuid L s1")
  have "write_action W c C given ref reason by rr ra s = (Inr (SuppressedToolResult u), s')"
    using assms(2,3,6) by (simp add: write_action_def pevr_def sbind_def run [simplified] with_uuid_def u sret_def)
  with that l uuid_fetch [OF u] show thesis by blast
qed

end



subsection \<open>Registering an agent, promoting a gap\<close>

lemma class_of_agent: "AgentRegisteredPayload \<in> set PAYLOAD_CLASSES" "pc_kind AgentRegisteredPayload = ''agent_registered''"
  by (simp_all only: PAYLOAD_CLASSES_def list.set insert_iff simp_thms) (simp add: AgentRegisteredPayload_def payload_def)

lemma agent_handler: "map_of EXECUTE_HANDLERS ''emit_agent_registered'' = Some agent_registered"
    "map_of EXECUTE_HANDLERS ''emit_external_metric_imported'' = Some external_metric_imported"
  unfolding EXECUTE_HANDLERS_def by (rule map_of_hit | (rule map_of_skip, simp))+

text \<open>The payload class has no \<open>person_id\<close> and forbids further fields; the handler reads one.\<close>

lemma registered_raises:
  assumes "validates V AgentRegisteredPayload d"
  shows "\<exists>x. agent_registered F e (PDict d) st = Inl x"
proof -
  have "dget d ''person_id'' = PNone" "dget d ''company_id'' = PNone"
    by (rule forbidden_field [OF assms]; simp add: AgentRegisteredPayload_def payload_def needs_takes_names)+
  moreover have "map_of d ''person_id'' \<noteq> Some PNone"
    using assms by (auto simp: validates_def AgentRegisteredPayload_def payload_def needs_takes_names list_all_iff dest!: map_of_SomeD)
  ultimately have "map_of d ''person_id'' = None" by (cases "map_of d ''person_id''") (auto simp: dget_def)
  then show ?thesis
    by (cases "map_of d ''agent_id''") (simp_all add: agent_registered_def owner_text_def dict_of.simps)
qed

context admin_ledger
begin

lemma safe_grant: "status \<in> {''active'', ''revoked''} \<Longrightarrow> jsonable budget \<Longrightarrow>
    admin_safe (ad_lib W) L invar c (write_action W c AgentGrantPayload (grant_args agent kind target status by budget) u rs p rr ra)"
  by (intro safe_cycle) (simp_all add: plain_classes grant_args_def)

lemma safe_grants:
  "admin_safe (ad_lib W) L invar c (sbind (grant_domains W c aid by ds) (\<lambda>gs. sbind (grant_model W c aid by budget) (\<lambda>ms. sret (f gs ms))))"
proof -
  have "admin_safe (ad_lib W) L invar c (grant_domains W c aid by ds)"
    by (induction ds) (auto intro!: safe_rules safe_grant)
  moreover have "admin_safe (ad_lib W) L invar c (grant_model W c aid by budget)"
    by (cases budget) (auto simp: grant_model_def Let_def intro!: safe_rules safe_grant)
  ultimately show ?thesis by (intro safe_rules)
qed

lemma safeD': "admin_safe V L invar c f \<Longrightarrow> invar s \<Longrightarrow> f s = (out, s') \<Longrightarrow> ready_growth V L c s s'"
  by (auto simp: admin_safe_def)

lemma registration_logged:
  assumes "invar s" and "register_agent W c agent_id provider name domains budget by s = (Inr r, s')"
  obtains e args where "e \<in> set (st_fetch L s' c None)" "e_kind e = ''execute''"
    "payload_of ''emit_agent_registered'' args (e_payload e)" "validates (ad_lib W) AgentRegisteredPayload args"
proof -
  have kind: "pc_kind AgentRegisteredPayload \<noteq> ''tenant_engine_registered''" by (simp add: class_of_agent)
  have "\<exists>aid s0. invar s0 \<and> sbind (write_action W c AgentRegisteredPayload
       [(''agent_id'', PStr aid), (''external_provider'', PStr provider), (''display_name'', PStr name), (''registered_by'', PStr by)]
       aid (''register agent '' @ repr_str name @ '' (provider='' @ provider @ '')'') by aid ''agent registered via dashboard admin action'')
     (\<lambda>r. sbind (grant_domains W c aid by (or_empty domains)) (\<lambda>gs. sbind (grant_model W c aid by budget) (\<lambda>ms. sret (aid, r # gs @ ms)))) s0
     = (Inr r, s')"
  proof (cases agent_id)
    case None
    obtain u s1 where u: "st_uuid L s = (u, s1)" by (cases "st_uuid L s")
    with assms(2) uuid_invar [OF assms(1) u] show ?thesis
      by (auto simp: register_agent_def or_uuid4_def None with_uuid_def store)
  qed (use assms in \<open>auto simp: register_agent_def or_uuid4_def\<close>)
  then obtain aid s0 q s1 where s0: "invar s0"
    and first: "write_action W c AgentRegisteredPayload
       [(''agent_id'', PStr aid), (''external_provider'', PStr provider), (''display_name'', PStr name), (''registered_by'', PStr by)]
       aid (''register agent '' @ repr_str name @ '' (provider='' @ provider @ '')'') by aid ''agent registered via dashboard admin action'' s0
      = (Inr q, s1)"
    and rest: "sbind (grant_domains W c aid by (or_empty domains)) (\<lambda>gs. sbind (grant_model W c aid by budget) (\<lambda>ms. sret (aid, q # gs @ ms))) s1
      = (Inr r, s')"
    by (auto simp: sbind_Inr_iff)
  from act_cases [OF s0 store talks class_of_agent(1) kind _ first] obtain args
    where args: "invar s1" "validates (ad_lib W) AgentRegisteredPayload args" "logged L s0 s1 c (ad_clock W s0) ''emit_agent_registered'' args"
    by (auto simp: class_of_agent)
  from logged_row [OF args(3)] obtain e where e: "e \<in> set (st_fetch L s1 c None)" "e_kind e = ''execute''"
    "payload_of ''emit_agent_registered'' args (e_payload e)" by blast
  from safeD' [OF safe_grants args(1) rest] have "ready_growth (ad_lib W) L c s1 s'" .
  then have "e \<in> set (st_fetch L s' c None)" using e(1) by (auto simp: ready_growth_def)
  from that [OF this e(2,3) args(2)] show thesis .
qed

end

text \<open>C17: Registering an agent stops the projections of its company: after a registration that succeeds,
  whatever its arguments, no build returns.\<close>

theorem agent_registration_blocks_projections:
  assumes "ledger_store E (ad_store W) invar" and "\<not> ad_silent W" and "invar s"
    and "register_agent W c agent_id provider name domains budget by s = (Inr r, s')"
  shows "\<exists>x. project_rows F (st_fetch (ad_store W) s' c None @ later) = Inl x"
proof -
  have "admin_ledger E (ad_store W) invar W"
    using assms(1,2) by (intro admin_ledger.intro admin_ledger_axioms.intro) simp_all
  from admin_ledger.registration_logged [OF this assms(3,4)] obtain e args
    where e: "e \<in> set (st_fetch (ad_store W) s' c None)" "e_kind e = ''execute''"
      "payload_of ''emit_agent_registered'' args (e_payload e)" and valid: "validates (ad_lib W) AgentRegisteredPayload args" by blast
  show ?thesis
    by (rule row_blocks [OF e(1)], rule handler_blocks [OF e(2,3) agent_handler(1)], rule registered_raises [OF valid])
qed

lemma demo_agent_registered:
  "\<exists>r s'. register_agent demo_admin ''c'' (Some demo_id) ''claude'' ''bot'' None None demo_id mem_empty = (Inr r, s')"
proof -
  let ?given = "[(''agent_id'', PStr demo_id), (''external_provider'', PStr ''claude''), (''display_name'', PStr ''bot''), (''registered_by'', PStr demo_id)]"
  have valid: "validates (ad_lib demo_admin) AgentRegisteredPayload ?given"
    by (simp add: validates_def AgentRegisteredPayload_def class_simps needs_takes_names one_of_def)
  have json: "jsonable_dict ?given" and kind: "pc_kind AgentRegisteredPayload \<noteq> ''tenant_engine_registered''" by (simp_all add: class_of_agent)
  obtain res s' where "write_action demo_admin ''c'' AgentRegisteredPayload ?given demo_id (''register agent '' @ repr_str ''bot'' @ '' (provider='' @ ''claude'' @ '')'')
      demo_id demo_id ''agent registered via dashboard admin action'' mem_empty = (Inr (Written res), s')"
    by (rule ml.act_written [OF mem_invar_empty demo_admin_sel(1,3) class_of_agent(1) kind json valid]) blast
  then show ?thesis by (simp add: register_agent_def or_uuid4_def sbind_def or_empty_def grant_model_def sret_def)
qed

theorem agent_registration_blocks_projections_witness:
  "\<exists>r s'. register_agent demo_admin ''c'' (Some demo_id) ''claude'' ''bot'' None None demo_id mem_empty = (Inr r, s') \<and>
     (\<forall>later. \<exists>x. project_rows demo_fold (mem_rows s' ''c'' @ later) = Inl x)"
proof -
  obtain r s' where run: "register_agent demo_admin ''c'' (Some demo_id) ''claude'' ''bot'' None None demo_id mem_empty = (Inr r, s')"
    using demo_agent_registered by blast
  have "ledger_store demo_env (ad_store demo_admin) (mem_invar demo_env)" by (simp add: ml.ledger_store_axioms)
  from agent_registration_blocks_projections [OF this demo_admin_sel(3) mem_invar_empty run] run show ?thesis by (auto simp: demo_admin_sel)
qed

text \<open>The metric of a promoted gap names a source that is no identifier; the fold makes it one.\<close>

lemma promoted_raises: "\<exists>x. external_metric_imported F e (PDict (model_dump ExternalMetricImportedPayload (promoted_fields gap name expression domain by))) st = Inl x"
proof -
  let ?d = "model_dump ExternalMetricImportedPayload (promoted_fields gap name expression domain by)"
  have source: "map_of ?d ''source_id'' = Some (PStr ''_promoted_from_gap'')" "map_of ?d ''name'' = Some (PStr name)"
    "map_of ?d ''dimensions'' = Some (PList [])"
    by (simp_all add: model_dump_def ExternalMetricImportedPayload_def payload_def needs_def takes_def promoted_fields_def)
  have "uuid_text ''_promoted_from_gap'' = None" by code_simp
  with source show ?thesis
    by (cases "external_metric_uuid F [PStr (e_company e), PStr ''_promoted_from_gap'', PStr name]"; cases "tenant_of e")
      (simp_all add: external_metric_imported_def dict_of.simps items_of_def vget_or_def dget_or_def py_or_def)
qed

context ledger_store
begin

lemma promotion_logged:
  assumes "invar s" and "ad_store W = L" and "promote_semantic_gap W c metric_id gap name expression domain by s = (Inr r, s')"
  obtains e where "e \<in> set (st_fetch L s' c None)" "e_kind e = ''execute''"
    "payload_of ''emit_external_metric_imported'' (model_dump ExternalMetricImportedPayload (promoted_fields gap name expression domain by)) (e_payload e)"
proof -
  let ?args = "model_dump ExternalMetricImportedPayload (promoted_fields gap name expression domain by)"
  have "\<exists>mid s0 now res. invar s0 \<and> st_write L (promote_req W c mid gap name by ?args now) s0 = (Inr res, s')"
  proof (cases metric_id)
    case None
    obtain u s1 where u: "st_uuid L s = (u, s1)" by (cases "st_uuid L s")
    with assms(3) uuid_invar [OF assms(1) u] show ?thesis
      by (auto simp: promote_semantic_gap_def or_uuid4_def None with_uuid_def assms(2) Let_def sbind_Inr_iff split: option.splits if_splits)
  next
    case (Some m)
    with assms show ?thesis
      by (auto simp: promote_semantic_gap_def or_uuid4_def Let_def sbind_Inr_iff split: option.splits if_splits)
  qed
  then obtain mid s0 now res where s0: "invar s0" and w: "st_write L (promote_req W c mid gap name by ?args now) s0 = (Inr res, s')" by blast
  from const_write_rows [OF s0 w [unfolded promote_req_def]] obtain rp re rv rr
    where "st_fetch L s' c None = st_fetch L s0 c None @ [rp, re, rv, rr]" "e_kind re = ''execute''"
      "e_payload re = dict_merge [(''propose_entry_id'', PStr (e_id rp))]
        [(''tool'', PStr ''emit_external_metric_imported''), (''args'', PDict ?args), (''result_ref'', PStr mid)]"
    by (elim exE conjE)
  with that [of re] show thesis by (simp add: payload_of_def dget_def dict_merge_def)
qed

end

text \<open>C18: Promoting a semantic gap stops the projections of its company: after a promotion that succeeds no
  build returns.\<close>

theorem gap_promotion_blocks_projections:
  assumes "ledger_store E (ad_store W) invar" and "invar s"
    and "promote_semantic_gap W c metric_id gap name expression domain by s = (Inr r, s')"
  shows "\<exists>x. project_rows F (st_fetch (ad_store W) s' c None @ later) = Inl x"
proof -
  from ledger_store.promotion_logged [OF assms(1,2) refl assms(3)] obtain e
    where e: "e \<in> set (st_fetch (ad_store W) s' c None)" "e_kind e = ''execute''"
      "payload_of ''emit_external_metric_imported'' (model_dump ExternalMetricImportedPayload (promoted_fields gap name expression domain by)) (e_payload e)"
    by blast
  show ?thesis by (rule row_blocks [OF e(1)], rule handler_blocks [OF e(2,3) agent_handler(2)], rule promoted_raises)
qed

definition demo_gap :: mem where
  "demo_gap = snd (mem_write demo_env (const_req ''c'' [(''target_kind'', PStr ''semantic_gap_proposed'')]
     [(''tool'', PStr ''emit_semantic_gap_proposed'')] [(''passed'', PBool True)] [(''outcome'', PStr ''keep'')] None 5 ''q'') mem_empty)"

lemma demo_gap_facts:
  shows "mem_invar demo_env demo_gap"
    and "\<exists>e. find_ledger_entry ''u0'' (mem_rows demo_gap ''c'') = Some e \<and> entry_is_semantic_gap e"
proof -
  show "mem_invar demo_env demo_gap"
    unfolding demo_gap_def by (cases "mem_write demo_env (const_req ''c'' [(''target_kind'', PStr ''semantic_gap_proposed'')]
     [(''tool'', PStr ''emit_semantic_gap_proposed'')] [(''passed'', PBool True)] [(''outcome'', PStr ''keep'')] None 5 ''q'') mem_empty")
      (auto intro: ml.write_invar [OF mem_invar_empty])
  have "case find_ledger_entry ''u0'' (mem_rows demo_gap ''c'') of None \<Rightarrow> False | Some e \<Rightarrow> entry_is_semantic_gap e" by code_simp
  then show "\<exists>e. find_ledger_entry ''u0'' (mem_rows demo_gap ''c'') = Some e \<and> entry_is_semantic_gap e" by (simp split: option.splits)
qed

theorem gap_promotion_blocks_projections_witness:
  "\<exists>r s'. promote_semantic_gap demo_admin ''c'' (Some demo_id) ''u0'' ''churn'' ''x / y'' demo_id demo_id demo_gap = (Inr r, s') \<and>
     (\<forall>later. \<exists>x. project_rows demo_fold (mem_rows s' ''c'' @ later) = Inl x)"
proof -
  let ?given = "promoted_fields ''u0'' ''churn'' ''x / y'' demo_id demo_id"
  let ?req = "promote_req demo_admin ''c'' demo_id ''u0'' ''churn'' demo_id (model_dump ExternalMetricImportedPayload ?given) (ad_clock demo_admin demo_gap)"
  have valid: "validates demo_lib ExternalMetricImportedPayload ?given"
    by (simp add: validates_def ExternalMetricImportedPayload_def class_simps needs_takes_names promoted_fields_def)
  have kind: "pc_kind ExternalMetricImportedPayload \<noteq> ''tenant_engine_registered''" by (simp add: class_kinds)
  note member = classes_member(41)
  have "jsonable_dict ?given" by (simp add: promoted_fields_def)
  with dump_roundtrip(1) [OF member kind valid] have "clean_req ?req"
    by (simp add: promote_req_def clean_const_req check_ok_def model_dump_jsonable [OF member])
      (simp add: jsonable_dict_def model_dump_jsonable [OF member, unfolded jsonable_dict_def])
  then have "\<exists>res s'. mem_write demo_env ?req demo_gap = (Inr res, s')"
    by (rule mem_write_clean)
  then obtain res s' where w: "mem_write demo_env ?req demo_gap = (Inr res, s')" by (elim exE)
  obtain e where e: "find_ledger_entry ''u0'' (mem_rows demo_gap ''c'') = Some e" "entry_is_semantic_gap e"
    using demo_gap_facts(2) by blast
  have run: "promote_semantic_gap demo_admin ''c'' (Some demo_id) ''u0'' ''churn'' ''x / y'' demo_id demo_id demo_gap = (Inr (demo_id, res), s')"
    using e valid w by (simp add: promote_semantic_gap_def or_uuid4_def sbind_def sret_def)
  have "ledger_store demo_env (ad_store demo_admin) (mem_invar demo_env)" by (simp add: ml.ledger_store_axioms)
  from gap_promotion_blocks_projections [OF this demo_gap_facts(1) run] run show ?thesis by (auto simp: demo_admin_sel)
qed

end
