(* ===== verification/Admin_Outcomes.thy ===== *)
theory Admin_Outcomes
  imports Admin_Properties
begin

section \<open>What the flows achieve\<close>

subsection \<open>Revoking an agent\<close>

text \<open>The scan reads the payloads of the execute rows only.\<close>

definition grant_of :: "env \<Rightarrow> string \<Rightarrow> pydict \<Rightarrow> exc + ((string \<times> string) \<times> pyval \<times> pyval) option" where
  "grant_of E agent pl =
     (if dget pl ''tool'' \<noteq> PStr ''emit_agent_grant'' then Inr None
      else case py_or (dget pl ''args'') (PDict []) of
        PDict d \<Rightarrow>
          if str_or_empty E (dget d ''agent_id'') \<noteq> agent \<or> dget d ''grant_kind'' = PNone \<or> dget d ''grant_target'' = PNone then Inr None
          else Inr (Some ((py_str E (dget d ''grant_kind''), py_str E (dget d ''grant_target'')), dget d ''status'', dget d ''budget_remaining_usd''))
      | _ \<Rightarrow> Inl AttributeError)"

fun see :: "((string \<times> string) \<times> pyval \<times> pyval) option \<Rightarrow> grant_scan \<Rightarrow> grant_scan" where
  "see None g = g"
| "see (Some (pair, status, budget)) g =
     (if pair \<in> set (gs_seen g) then g
      else \<lparr>gs_seen = pair # gs_seen g,
        gs_active = (if status = PStr ''active'' then gs_active g @ [(fst pair, snd pair, budget)] else gs_active g)\<rparr>)"

fun grant_reads :: "env \<Rightarrow> string \<Rightarrow> pydict list \<Rightarrow> grant_scan \<Rightarrow> exc + grant_scan" where
  "grant_reads E agent [] g = Inr g"
| "grant_reads E agent (p # ps) g = rbind (grant_of E agent p) (\<lambda>r. grant_reads E agent ps (see r g))"

lemma grant_step_of:
  "e_kind e = ''execute'' \<Longrightarrow> grant_step E agent e g = rbind (grant_of E agent (e_payload e)) (\<lambda>r. Inr (see r g))"
  by (cases "py_or (dget (e_payload e) ''args'') (PDict [])") (simp_all add: grant_step_def grant_of_def Let_def)

lemma grant_fold_reads: "grant_fold E agent rows g = grant_reads E agent (map snd (execs rows)) g"
proof (induction rows arbitrary: g)
  case (Cons e es)
  show ?case
  proof (cases "e_kind e = ''execute''")
    case True
    then show ?thesis by (cases "grant_of E agent (e_payload e)") (simp_all add: grant_step_of Cons.IH)
  qed (simp add: grant_step_def Cons.IH)
qed simp

lemma execs_rev: "execs (rev rows) = rev (execs rows)"
  by (simp add: execs_def rev_filter rev_map)

lemma active_grants_reads:
  "active_grants E agent rows = rbind (grant_reads E agent (rev (map snd (execs rows))) \<lparr>gs_seen = [], gs_active = []\<rparr>) (\<lambda>g. Inr (gs_active g))"
  by (simp add: active_grants_def grant_fold_reads execs_rev rev_map)

lemma grant_reads_append: "grant_reads E agent (ps @ qs) g = rbind (grant_reads E agent ps g) (grant_reads E agent qs)"
proof (induction ps arbitrary: g)
  case (Cons p ps)
  then show ?case by (cases "grant_of E agent p") simp_all
qed simp

text \<open>A scan that has seen more finds the active grants it would find otherwise, less those it has seen.\<close>

definition unseen_of :: "(string \<times> string) set \<Rightarrow> (string \<times> string \<times> pyval) list \<Rightarrow> (string \<times> string \<times> pyval) list" where
  "unseen_of X A = filter (\<lambda>(k, t, b). (k, t) \<notin> X) A"

lemma see_more:
  assumes "set (gs_seen h) = set (gs_seen g) \<union> X" and "gs_active h = unseen_of X (gs_active g)"
  shows "set (gs_seen (see r h)) = set (gs_seen (see r g)) \<union> X" and "gs_active (see r h) = unseen_of X (gs_active (see r g))"
  using assms by (induction r g rule: see.induct) (auto simp: unseen_of_def)

lemma grant_reads_more:
  "grant_reads E agent ps g = Inr g' \<Longrightarrow> set (gs_seen h) = set (gs_seen g) \<union> X \<Longrightarrow> gs_active h = unseen_of X (gs_active g) \<Longrightarrow>
     \<exists>h'. grant_reads E agent ps h = Inr h' \<and> gs_active h' = unseen_of X (gs_active g')"
proof (induction ps arbitrary: g h)
  case (Cons p ps)
  from Cons.prems(1) obtain r where r: "grant_of E agent p = Inr r" "grant_reads E agent ps (see r g) = Inr g'"
    by (auto simp: rbind_Inr_iff)
  from Cons.IH [OF r(2) see_more [OF Cons.prems(2,3)]] r(1) show ?case by simp
qed auto

text \<open>The payloads a revocation of these grants leaves.\<close>

definition revocation :: "string \<Rightarrow> string \<times> string \<times> pyval \<Rightarrow> pydict \<Rightarrow> bool" where
  "revocation agent gr p = (case gr of (kind, target, budget) \<Rightarrow> \<exists>args. payload_of ''emit_agent_grant'' args p \<and>
     dget args ''agent_id'' = PStr agent \<and> dget args ''grant_kind'' = PStr kind \<and> dget args ''grant_target'' = PStr target \<and>
     dget args ''status'' = PStr ''revoked'')"

definition pairs_of :: "(string \<times> string \<times> pyval) list \<Rightarrow> (string \<times> string) set" where
  "pairs_of A = (\<lambda>(k, t, b). (k, t)) ` set A"

lemma revocation_of:
  assumes "revocation agent (k, t, b) p" and "agent \<noteq> []"
  shows "\<exists>b'. grant_of E agent p = Inr (Some ((k, t), PStr ''revoked'', b'))"
proof -
  from assms(1) obtain args where p: "dget p ''tool'' = PStr ''emit_agent_grant''" "dget p ''args'' = PDict args"
    and a: "dget args ''agent_id'' = PStr agent" "dget args ''grant_kind'' = PStr k" "dget args ''grant_target'' = PStr t"
      "dget args ''status'' = PStr ''revoked''"
    by (auto simp: revocation_def payload_of_def dget_def)
  have "args \<noteq> []" using a(1) by (auto simp: dget_def)
  then have "py_or (PDict args) (PDict []) = PDict args" by (simp add: py_or_def)
  with p a assms(2) show ?thesis by (simp add: grant_of_def str_or_empty_def)
qed

lemma revocations_read:
  "list_all2 (revocation agent) A ps \<Longrightarrow> agent \<noteq> [] \<Longrightarrow>
     \<exists>g'. grant_reads E agent ps g = Inr g' \<and> gs_active g' = gs_active g \<and> set (gs_seen g') = set (gs_seen g) \<union> pairs_of A"
proof (induction arbitrary: g rule: list_all2_induct)
  case (Cons x xs p ps)
  obtain k t b where x: "x = (k, t, b)" by (cases x)
  from revocation_of [OF Cons(1) [unfolded x] Cons.prems, of E] obtain b'
    where r: "grant_of E agent p = Inr (Some ((k, t), PStr ''revoked'', b'))" by blast
  from Cons.IH [OF Cons.prems, of "see (Some ((k, t), PStr ''revoked'', b')) g"] r show ?case by (auto simp: x pairs_of_def)
qed (simp add: pairs_of_def)

lemma revoked_all:
  assumes "active_grants E agent rows = Inr A" and "list_all2 (revocation agent) A ps" and "agent \<noteq> []"
    and "map snd (execs rows') = map snd (execs rows) @ ps"
  shows "active_grants E agent rows' = Inr []"
proof -
  let ?none = "\<lparr>gs_seen = [], gs_active = []\<rparr>"
  from assms(1) obtain g where g: "grant_reads E agent (rev (map snd (execs rows))) ?none = Inr g" "gs_active g = A"
    by (auto simp: active_grants_reads rbind_Inr_iff)
  have "list_all2 (revocation agent) (rev A) (rev ps)" using assms(2) by simp
  from revocations_read [OF this assms(3), of E ?none] obtain g1
    where g1: "grant_reads E agent (rev ps) ?none = Inr g1" "gs_active g1 = []" "set (gs_seen g1) = pairs_of A"
    by (auto simp: pairs_of_def)
  from grant_reads_more [OF g(1), of g1 "pairs_of A"] g1 g(2) obtain h
    where "grant_reads E agent (rev (map snd (execs rows))) g1 = Inr h" "gs_active h = unseen_of (pairs_of A) A"
    by (auto simp: unseen_of_def)
  moreover have "unseen_of (pairs_of A) A = []" by (force simp: unseen_of_def pairs_of_def filter_empty_conv)
  ultimately show ?thesis by (simp add: active_grants_reads assms(4) grant_reads_append g1(1))
qed

lemma grant_class: "AgentGrantPayload \<in> set PAYLOAD_CLASSES" "pc_kind AgentGrantPayload = ''agent_grant''"
  by (simp_all only: PAYLOAD_CLASSES_def list.set insert_iff simp_thms) (simp add: AgentGrantPayload_def payload_def)

lemma dump_text: "dump_value TStr v = v" "dump_value (TLit ks) v = v"
  by (cases v; simp)+

lemma grant_dump:
  "dget (model_dump AgentGrantPayload d) ''agent_id'' = dget d ''agent_id''"
  "dget (model_dump AgentGrantPayload d) ''grant_kind'' = dget d ''grant_kind''"
  "dget (model_dump AgentGrantPayload d) ''grant_target'' = dget d ''grant_target''"
  "dget (model_dump AgentGrantPayload d) ''status'' = dget d ''status''"
  unfolding model_dump_def
  by (rule dget_dump, simp add: AgentGrantPayload_def payload_def needs_def takes_def, rule dump_text, simp)+

context admin_ledger
begin

lemma act_logs:
  assumes "invar s" and "write_action W c C given u rs by rr ra s = (Inr r, s')" and C: "C \<in> set PAYLOAD_CLASSES" "pc_kind C \<noteq> ''tenant_engine_registered''"
    and j: "validates (ad_lib W) C given \<Longrightarrow> jsonable_dict given"
  obtains pl where "invar s'" "payload_of (''emit_'' @ pc_kind C) (model_dump C given) pl"
    "execs (st_fetch L s' c None) = execs (st_fetch L s c None) @ [(ad_clock W s, pl)]"
proof -
  from act_cases [OF assms(1) store talks C j assms(2)]
  have "invar s'" and "logged L s s' c (ad_clock W s) (''emit_'' @ pc_kind C) (model_dump C given)" by auto
  with that show thesis by (auto simp: logged_def)
qed

lemma revoke_each_logs:
  "invar s \<Longrightarrow> revoke_each W c agent by why A s = (Inr rs, s') \<Longrightarrow>
     \<exists>ps. list_all2 (revocation agent) A ps \<and> map snd (execs (st_fetch L s' c None)) = map snd (execs (st_fetch L s c None)) @ ps"
proof (induction A arbitrary: s rs)
  case (Cons x A)
  obtain k t b where x: "x = (k, t, b)" by (cases x)
  let ?args = "grant_args agent k t ''revoked'' by b"
  from Cons.prems(2) obtain r s1 rs' where a: "write_action W c AgentGrantPayload ?args
       (agent_ref W agent) (''revoke '' @ k @ '' grant on '' @ t @ '' for agent '' @ agent @ '' ('' @ why @ '')'') by agent
       (''agent revoked by admin '' @ by @ '': '' @ why) s = (Inr r, s1)"
    and rest: "revoke_each W c agent by why A s1 = (Inr rs', s')"
    by (auto simp: x sbind_Inr_iff)
  have j: "validates (ad_lib W) AgentGrantPayload ?args \<Longrightarrow> jsonable_dict ?args"
    by (cases b) (auto simp: grant_args_def validates_def AgentGrantPayload_def payload_def needs_def takes_def)
  have kind: "pc_kind AgentGrantPayload \<noteq> ''tenant_engine_registered''" by (simp add: grant_class)
  from act_logs [OF Cons.prems(1) a grant_class(1) kind j] obtain pl where inv: "invar s1"
    and pl: "payload_of ''emit_agent_grant'' (model_dump AgentGrantPayload ?args) pl"
      "execs (st_fetch L s1 c None) = execs (st_fetch L s c None) @ [(ad_clock W s, pl)]"
    by (auto simp: grant_class)
  have "revocation agent (k, t, b) pl"
    unfolding revocation_def prod.case
    by (intro exI conjI, rule pl(1); simp only: grant_dump; simp add: grant_args_def dget_def)
  moreover from Cons.IH [OF inv rest] obtain ps where "list_all2 (revocation agent) A ps"
    "map snd (execs (st_fetch L s' c None)) = map snd (execs (st_fetch L s1 c None)) @ ps" by blast
  ultimately show ?case unfolding x by (intro exI [of _ "pl # ps"]) (simp add: pl(2))
qed (simp add: sret_def)

end

text \<open>C7: Revoking an agent leaves it no grant: after a revocation that succeeds, the scan that decides
  what is active, run over the log again, finds nothing, and revoking once more writes nothing.\<close>

theorem revoke_agent_leaves_no_grant:
  assumes "ledger_store E (ad_store W) invar" and "\<not> ad_silent W" and "invar s"
    and "revoke_agent W c agent by why s = (Inr rs, s')"
  shows "active_grants (admin_env W) agent (st_fetch (ad_store W) s' c None) = Inr [] \<and>
    revoke_agent W c agent by2 why2 s' = (Inr [], s')"
proof -
  have "admin_ledger E (ad_store W) invar W"
    using assms(1,2) by (intro admin_ledger.intro admin_ledger_axioms.intro) simp_all
  note logs = admin_ledger.revoke_each_logs [OF this assms(3)]
  from assms(4) obtain A where agent: "agent \<noteq> []" and A: "active_grants (admin_env W) agent (st_fetch (ad_store W) s c None) = Inr A"
    and run: "revoke_each W c agent by why A s = (Inr rs, s')"
    by (auto simp: revoke_agent_def from_fetch_def split: if_splits sum.splits)
  from logs [OF run] obtain ps where "list_all2 (revocation agent) A ps"
    "map snd (execs (st_fetch (ad_store W) s' c None)) = map snd (execs (st_fetch (ad_store W) s c None)) @ ps" by blast
  from revoked_all [OF A this(1) agent this(2)] agent show ?thesis
    by (simp add: revoke_agent_def from_fetch_def)
qed

definition demo_grant :: mem where
  "demo_grant = snd (mem_write demo_env (const_req ''c'' [(''target_kind'', PStr ''agent_grant'')]
     [(''tool'', PStr ''emit_agent_grant''), (''args'', PDict (grant_args ''a'' ''model.access'' ''kimi'' ''active'' demo_id PNone))]
     [(''passed'', PBool True)] [(''outcome'', PStr ''keep'')] None 5 ''q'') mem_empty)"

lemma demo_grant_facts:
  shows "mem_invar demo_env demo_grant"
    and "active_grants (admin_env demo_admin) ''a'' (mem_rows demo_grant ''c'') = Inr [(''model.access'', ''kimi'', PNone)]"
proof -
  show "mem_invar demo_env demo_grant"
    unfolding demo_grant_def
    by (cases "mem_write demo_env (const_req ''c'' [(''target_kind'', PStr ''agent_grant'')]
     [(''tool'', PStr ''emit_agent_grant''), (''args'', PDict (grant_args ''a'' ''model.access'' ''kimi'' ''active'' demo_id PNone))]
     [(''passed'', PBool True)] [(''outcome'', PStr ''keep'')] None 5 ''q'') mem_empty")
      (auto intro: ml.write_invar [OF mem_invar_empty])
  show "active_grants (admin_env demo_admin) ''a'' (mem_rows demo_grant ''c'') = Inr [(''model.access'', ''kimi'', PNone)]" by code_simp
qed

theorem revoke_agent_leaves_no_grant_witness:
  "\<exists>res s'. revoke_agent demo_admin ''c'' ''a'' demo_id ''left'' demo_grant = (Inr [Written res], s') \<and>
     active_grants (admin_env demo_admin) ''a'' (mem_rows s' ''c'') = Inr [] \<and>
     revoke_agent demo_admin ''c'' ''a'' demo_id ''again'' s' = (Inr [], s')"
proof -
  let ?args = "grant_args ''a'' ''model.access'' ''kimi'' ''revoked'' demo_id PNone"
  have valid: "validates (ad_lib demo_admin) AgentGrantPayload ?args"
    by (simp add: grant_args_def validates_def AgentGrantPayload_def payload_def needs_def takes_def class_simps)
  have kind: "pc_kind AgentGrantPayload \<noteq> ''tenant_engine_registered''" by (simp add: grant_class)
  have json: "jsonable_dict ?args" by (simp add: grant_args_def)
  obtain res s' where "write_action demo_admin ''c'' AgentGrantPayload ?args (agent_ref demo_admin ''a'')
      (''revoke '' @ ''model.access'' @ '' grant on '' @ ''kimi'' @ '' for agent '' @ ''a'' @ '' ('' @ ''left'' @ '')'') demo_id ''a''
      (''agent revoked by admin '' @ demo_id @ '': '' @ ''left'') demo_grant = (Inr (Written res), s')"
    by (rule ml.act_written [OF demo_grant_facts(1) demo_admin_sel(1,3) grant_class(1) kind json valid])
  then have run: "revoke_agent demo_admin ''c'' ''a'' demo_id ''left'' demo_grant = (Inr [Written res], s')"
    using demo_grant_facts(2) by (simp add: revoke_agent_def from_fetch_def sbind_def sret_def)
  have "ledger_store demo_env (ad_store demo_admin) (mem_invar demo_env)" by (simp add: ml.ledger_store_axioms)
  from revoke_agent_leaves_no_grant [OF this demo_admin_sel(3) demo_grant_facts(1) run] run show ?thesis by auto
qed

subsection \<open>Splitting a person\<close>

text \<open>Table \<open>person_identities\<close> has no row under a key.\<close>

definition absent :: "pyval \<Rightarrow> proj_state \<Rightarrow> bool" where
  "absent k st = (k \<notin> fst ` set (pj_tables st ''person_identities''))"

definition names_identity :: "pydict \<Rightarrow> string \<times> string \<Rightarrow> bool" where
  "names_identity args i = (map_of args ''platform'' = Some (PStr (fst i)) \<and> map_of args ''platform_user_id'' = Some (PStr (snd i)))"

definition unlinks :: "string \<times> string \<Rightarrow> pydict \<Rightarrow> bool" where
  "unlinks i pl = (\<exists>args. payload_of ''emit_identity_unlinked'' args pl \<and> names_identity args i)"

definition links :: "string \<times> string \<Rightarrow> pydict \<Rightarrow> bool" where
  "links i pl = (\<exists>args. payload_of ''emit_identity_linked'' args pl \<and> names_identity args i)"

lemma identity_handlers: "map_of EXECUTE_HANDLERS ''emit_identity_unlinked'' = Some identity_unlinked"
    "map_of EXECUTE_HANDLERS ''emit_identity_linked'' = Some identity_linked"
  unfolding EXECUTE_HANDLERS_def by (rule map_of_hit | (rule map_of_skip, simp))+

lemma execute_payload:
  "payload_of tool args (e_payload e) \<Longrightarrow> map_of EXECUTE_HANDLERS tool = Some h \<Longrightarrow> apply_execute F e st = h F e (PDict args) st"
  by (simp add: apply_execute_def payload_of_def dget_or_def)

lemma put_row_keys: "fst ` set (put_row k r t) \<subseteq> insert k (fst ` set t)"
  by (induction t) auto

lemma set_default_absent:
  assumes "set_default ''person_identities'' k' r st = Inr st'" and "absent k st" and "k' \<noteq> k"
  shows "absent k st'"
proof -
  from assms(1) have "st' = st \<or> st' = set_table ''person_identities'' (put_row k' r) st"
    by (auto simp: set_default_def rbind_Inr_iff set_row_def split: if_splits option.splits)
  then have "fst ` set (pj_tables st' ''person_identities'') \<subseteq> insert k' (fst ` set (pj_tables st ''person_identities''))"
    using put_row_keys [of k' r "pj_tables st ''person_identities''"] by (elim disjE) (simp_all add: set_table_def subset_insertI)
  with assms(2,3) show ?thesis by (auto simp: absent_def)
qed

lemma unlinked_absent:
  assumes "unlinks i (e_payload e)" and "apply_execute F e st = Inr st'"
  shows "absent (PTuple [PStr (e_company e), PStr (fst i), PStr (snd i)]) st'" and "absent k st \<Longrightarrow> absent k st'"
proof -
  from assms(1) obtain args where "payload_of ''emit_identity_unlinked'' args (e_payload e)" "names_identity args i"
    by (auto simp: unlinks_def)
  with assms(2) have st': "st' = set_table ''person_identities''
      (filter (\<lambda>p. \<not> py_eq (fst p) (PTuple [PStr (e_company e), PStr (fst i), PStr (snd i)]))) st"
    by (auto simp: execute_payload identity_handlers identity_unlinked_def names_identity_def Let_def split: if_splits)
  then show "absent (PTuple [PStr (e_company e), PStr (fst i), PStr (snd i)]) st'" by (auto simp: absent_def set_table_def)
  from st' show "absent k st \<Longrightarrow> absent k st'" by (auto simp: absent_def set_table_def)
qed

lemma linked_absent:
  assumes "links i (e_payload e)" and "apply_execute F e st = Inr st'" and "absent (PTuple [c, PStr (fst j), PStr (snd j)]) st" and "i \<noteq> j"
  shows "absent (PTuple [c, PStr (fst j), PStr (snd j)]) st'"
proof -
  from assms(1) obtain args where "payload_of ''emit_identity_linked'' args (e_payload e)" "names_identity args i"
    by (auto simp: links_def)
  with assms(2) obtain r where "set_default ''person_identities'' (PTuple [PStr (e_company e), PStr (fst i), PStr (snd i)]) r st = Inr st'"
    by (auto simp: execute_payload identity_handlers identity_linked_def names_identity_def Let_def rbind_Inr_iff)
  from set_default_absent [OF this assms(3)] assms(4) show ?thesis by (auto simp: prod_eq_iff)
qed

text \<open>An identity unlinked and not linked again is in the table of no fold.\<close>

lemma unlinked_stays_absent:
  assumes "\<forall>e\<in>set rows. e_company e = c"
    and "map snd (execs rows) = old @ [pu] @ new" and "unlinks j pu" and "list_all (\<lambda>p. \<exists>i. unlinks i p \<or> links i p \<and> i \<noteq> j) new"
    and "fold_entries F rows st0 = Inr st"
  shows "absent (PTuple [PStr c, PStr (fst j), PStr (snd j)]) st"
  using assms
proof (induction rows arbitrary: new st rule: rev_induct)
  case (snoc e rows)
  let ?k = "PTuple [PStr c, PStr (fst j), PStr (snd j)]"
  from snoc.prems(5) obtain st1 where st1: "fold_entries F rows st0 = Inr st1" and e: "apply_entry F e st1 = Inr st"
    by (auto simp: fold_entries_append rbind_Inr_iff)
  have envelope: "''person_identities'' \<notin> set ENVELOPE_TABLES" by (simp add: ENVELOPE_TABLES_def)
  show ?case
  proof (cases "e_kind e = ''execute''")
    case False
    then have "pj_tables st ''person_identities'' = pj_tables st1 ''person_identities''"
      by (intro frame_entry(1) [OF e envelope]) (simp add: tables_of_def)
    moreover have "absent ?k st1" using snoc.IH [OF _ _ snoc.prems(3,4) st1] snoc.prems(1,2) False by simp
    ultimately show ?thesis by (simp add: absent_def)
  next
    case True
    from frame_entry(2) [OF e envelope True] obtain st2
      where st2: "pj_tables st2 ''person_identities'' = pj_tables st1 ''person_identities''" "apply_execute F e st2 = Inr st" by blast
    show ?thesis
    proof (cases new rule: rev_cases)
      case Nil
      with snoc.prems(2) True have "e_payload e = pu" by simp
      with unlinked_absent(1) [OF _ st2(2)] snoc.prems(1,3) show ?thesis by simp
    next
      case (snoc new1 p)
      with snoc.prems(2) True have p: "p = e_payload e" "map snd (execs rows) = old @ [pu] @ new1" by simp_all
      from snoc.prems(4) snoc p(1) obtain i where i: "unlinks i (e_payload e) \<or> links i (e_payload e) \<and> i \<noteq> j"
        and new1: "list_all (\<lambda>p. \<exists>i. unlinks i p \<or> links i p \<and> i \<noteq> j) new1" by auto
      have "absent ?k st1" using snoc.IH [OF _ p(2) snoc.prems(3) new1 st1] snoc.prems(1) by simp
      then have "absent ?k st2" by (simp add: absent_def st2(1))
      with i st2(2) show ?thesis using unlinked_absent(2) linked_absent by blast
    qed
  qed
qed simp

lemma identity_dump:
  assumes "map_of given ''platform'' = Some (PStr p)" and "map_of given ''platform_user_id'' = Some (PStr u)"
  shows "names_identity (model_dump IdentityUnlinkedPayload given) (p, u)" and "names_identity (model_dump IdentityLinkedPayload given) (p, u)"
proof -
  have named: "map_of d k = Some (PStr t)" if "dget d k = PStr t" for d k t
    using that by (simp add: dget_def split: option.splits)
  have "dget (model_dump C given) k = dget given k" if "map_of (pc_fields C) k = Some (TStr, None)" for C k
    unfolding model_dump_def by (rule dget_dump [OF that dump_text(1)]) simp
  then have "dget (model_dump C given) ''platform'' = PStr p" "dget (model_dump C given) ''platform_user_id'' = PStr u"
    if "C \<in> {IdentityUnlinkedPayload, IdentityLinkedPayload}" for C
    using that assms by (auto simp: IdentityUnlinkedPayload_def IdentityLinkedPayload_def payload_def needs_def dget_def)
  then show "names_identity (model_dump IdentityUnlinkedPayload given) (p, u)" "names_identity (model_dump IdentityLinkedPayload given) (p, u)"
    by (simp_all add: names_identity_def named)
qed

context admin_ledger
begin

lemma unlink_logs:
  assumes "invar s" and "unlink_identity W c person p u by s = (Inr r, s')"
  obtains pl where "invar s'" "unlinks (p, u) pl" "map snd (execs (st_fetch L s' c None)) = map snd (execs (st_fetch L s c None)) @ [pl]"
proof (rule act_logs [OF assms(1) assms(2) [unfolded unlink_identity_def] classes_member(9)])
  fix pl assume "invar s'" "payload_of (''emit_'' @ pc_kind IdentityUnlinkedPayload) (model_dump IdentityUnlinkedPayload
      [(''person_id'', PStr person), (''platform'', PStr p), (''platform_user_id'', PStr u), (''unlinked_by'', PStr by)]) pl"
    "execs (st_fetch L s' c None) = execs (st_fetch L s c None) @ [(ad_clock W s, pl)]"
  then show thesis by (intro that [of pl]) (auto simp: unlinks_def class_kinds intro!: exI identity_dump)
qed (simp_all add: class_kinds)

lemma link_logs:
  assumes "invar s" and "link_identity W c person p u by s = (Inr r, s')"
  obtains pl where "invar s'" "links (p, u) pl" "map snd (execs (st_fetch L s' c None)) = map snd (execs (st_fetch L s c None)) @ [pl]"
proof (rule act_logs [OF assms(1) assms(2) [unfolded link_identity_def] classes_member(8)])
  fix pl assume "invar s'" "payload_of (''emit_'' @ pc_kind IdentityLinkedPayload) (model_dump IdentityLinkedPayload
      [(''person_id'', PStr person), (''platform'', PStr p), (''platform_user_id'', PStr u), (''linked_by'', PStr by)]) pl"
    "execs (st_fetch L s' c None) = execs (st_fetch L s c None) @ [(ad_clock W s, pl)]"
  then show thesis by (intro that [of pl]) (auto simp: links_def class_kinds intro!: exI identity_dump)
qed (simp_all add: class_kinds)

lemma entry_ids_same: "entry_ids r s = (Inr x, s') \<Longrightarrow> s' = s"
  by (cases r) (simp_all add: entry_ids_def)

lemma split_each_logs:
  "invar s \<Longrightarrow> split_each W c source new by ids s = (Inr r, s') \<Longrightarrow>
     \<exists>ps. list_all (\<lambda>p. \<exists>i\<in>set ids. unlinks i p \<or> links i p) ps \<and>
       map snd (execs (st_fetch L s' c None)) = map snd (execs (st_fetch L s c None)) @ ps"
proof (induction ids arbitrary: s r)
  case (Cons i ids)
  obtain p u where i: "i = (p, u)" by (cases i)
  from Cons.prems(2) obtain r1 s1 r2 s2 r3 where un: "unlink_identity W c source p u by s = (Inr r1, s1)"
    and ln: "link_identity W c new p u by s1 = (Inr r2, s2)" and rest: "split_each W c source new by ids s2 = (Inr r3, s')"
    by (auto simp: i sbind_Inr_iff dest!: entry_ids_same)
  obtain pl where s1: "invar s1" and pl: "unlinks (p, u) pl"
    "map snd (execs (st_fetch L s1 c None)) = map snd (execs (st_fetch L s c None)) @ [pl]" by (rule unlink_logs [OF Cons.prems(1) un])
  obtain ql where s2: "invar s2" and ql: "links (p, u) ql"
    "map snd (execs (st_fetch L s2 c None)) = map snd (execs (st_fetch L s1 c None)) @ [ql]" by (rule link_logs [OF s1 ln])
  from Cons.IH [OF s2 rest] obtain ps where "list_all (\<lambda>p. \<exists>i\<in>set ids. unlinks i p \<or> links i p) ps"
    "map snd (execs (st_fetch L s' c None)) = map snd (execs (st_fetch L s2 c None)) @ ps" by blast
  with pl ql show ?case unfolding i by (intro exI [of _ "pl # ql # ps"]) (auto simp: list_all_iff)
qed (simp add: sret_def)

lemma split_logs:
  assumes "invar s" and "split_person W c source name email position (map (case_prod IdentityPair) (i # ids)) by s = (Inr r, s')"
  obtains old pu ps where "unlinks i pu" "list_all (\<lambda>p. \<exists>i\<in>set ids. unlinks i p \<or> links i p) ps"
    "map snd (execs (st_fetch L s' c None)) = old @ [pu] @ ps" "invar s'"
proof -
  obtain p u where i: "i = (p, u)" by (cases i)
  have pair: "normalised E' (IdentityPair q v) = Inr (q, v)" for E' q v by (simp add: normalised_def)
  have pairs: "rmap (normalised E') (map (case_prod IdentityPair) xs) = Inr xs" for E' xs
    by (induction xs) (auto simp: pair)
  obtain new s0 where new: "st_uuid L s = (new, s0)" by (cases "st_uuid L s")
  have s0: "invar s0" by (rule uuid_invar [OF assms(1) new])
  from assms(2) new obtain r1 s1 r2 s2 r3
    where proposed: "propose_person W c (Some new) (Some c) name email p u position (''split:'' @ by) s0 = (Inr r1, s1)"
      and un: "unlink_identity W c source p u by s1 = (Inr r2, s2)" and rest: "split_each W c source new by ids s2 = (Inr r3, s')"
    by (auto simp: split_person_def pair pairs i with_uuid_def store sbind_Inr_iff dest!: entry_ids_same)
  have "admin_safe (ad_lib W) L invar c (propose_person W c (Some new) (Some c) name email p u position (''split:'' @ by))"
    by (rule safe_propose_person)
  with s0 proposed have s1: "invar s1" by (auto simp: admin_safe_def)
  obtain pu where s2: "invar s2" and pu: "unlinks (p, u) pu"
    "map snd (execs (st_fetch L s2 c None)) = map snd (execs (st_fetch L s1 c None)) @ [pu]" by (rule unlink_logs [OF s1 un])
  from split_each_logs [OF s2 rest] obtain ps where "list_all (\<lambda>p. \<exists>i\<in>set ids. unlinks i p \<or> links i p) ps"
    "map snd (execs (st_fetch L s' c None)) = map snd (execs (st_fetch L s2 c None)) @ ps" by blast
  moreover have "admin_safe (ad_lib W) L invar c (split_each W c source new by ids)" by (rule safe_split_each)
  ultimately show thesis using that [of pu ps] pu rest s2 by (auto simp: i admin_safe_def)
qed

end

text \<open>C19: The first identity of a split ends with nobody: after a split that succeeds and names its
  identities once, no build has a row for the first of them, whoever held it before.\<close>

theorem split_person_loses_first_identity:
  assumes "ledger_store E (ad_store W) invar" and "\<not> ad_silent W" and "invar s"
    and "split_person W c source name email position (map (case_prod IdentityPair) ((platform, user) # ids)) by s = (Inr r, s')"
    and "(platform, user) \<notin> set ids"
    and "fold_entries F (st_fetch (ad_store W) s' c None) initial_projection_state = Inr st"
  shows "PTuple [PStr c, PStr platform, PStr user] \<notin> fst ` set (pj_tables st ''person_identities'')"
proof -
  have ledger: "admin_ledger E (ad_store W) invar W"
    using assms(1,2) by (intro admin_ledger.intro admin_ledger_axioms.intro) simp_all
  from admin_ledger.split_logs [OF this assms(3,4)] obtain old pu ps where pu: "unlinks (platform, user) pu"
    and ps: "list_all (\<lambda>p. \<exists>i\<in>set ids. unlinks i p \<or> links i p) ps"
    and rows: "map snd (execs (st_fetch (ad_store W) s' c None)) = old @ [pu] @ ps" and inv: "invar s'" by blast
  have own: "\<forall>e\<in>set (st_fetch (ad_store W) s' c None). e_company e = c"
    using ledger_store.fetch_chain [OF assms(1) inv] by (auto simp: chain_inv_def)
  have "list_all (\<lambda>p. \<exists>i. unlinks i p \<or> links i p \<and> i \<noteq> (platform, user)) ps"
    by (rule list.pred_mono_strong [OF ps]) (use assms(5) in blast)
  from unlinked_stays_absent [OF own rows pu this assms(6)] show ?thesis by (simp add: absent_def)
qed

text \<open>An administrator whose fresh identifiers are UUIDs.\<close>

definition uuid_env :: env where
  "uuid_env = demo_env\<lparr>uuid4 := \<lambda>_. demo_id\<rparr>"

definition uuid_admin :: "mem admin" where
  "uuid_admin = demo_admin\<lparr>ad_store := mem_store uuid_env\<rparr>"

lemma uuid_admin_sel [simp]:
  "ad_store uuid_admin = mem_store uuid_env" "ad_lib uuid_admin = demo_lib" "\<not> ad_silent uuid_admin"
  by (simp_all add: uuid_admin_def)

lemma demo_split:
  obtains r s' where "split_person uuid_admin demo_id demo_id ''Ann'' None None (map (case_prod IdentityPair) [(''slack'', ''U1'')]) demo_id mem_empty = (Inr r, s')"
proof -
  obtain s0 where new: "st_uuid (mem_store uuid_env) mem_empty = (demo_id, s0)" by (simp add: mem_store_def uuid_env_def)
  have s0: "mem_invar uuid_env s0" by (rule ml.uuid_invar [OF mem_invar_empty new])
  let ?given = "[(''person_id'', PStr demo_id), (''tenant_id'', PStr demo_id), (''name'', PStr ''Ann''), (''email'', opt_str None),
    (''platform'', PStr ''slack''), (''platform_user_id'', PStr ''U1''), (''proposed_by'', PStr (''split:'' @ demo_id)), (''position'', opt_str None)]"
  have valid: "validates (ad_lib uuid_admin) PersonProposedPayload ?given"
    by (simp add: validates_def PersonProposedPayload_def class_simps needs_takes_names demo_id_uuid opt_str_def)
  have kind: "pc_kind PersonProposedPayload \<noteq> ''tenant_engine_registered''" "pc_kind IdentityUnlinkedPayload \<noteq> ''tenant_engine_registered''"
    by (simp_all add: class_kinds)
  have json: "jsonable_dict ?given" by (simp add: opt_str_def)
  obtain res s1 where a: "write_action uuid_admin demo_id PersonProposedPayload ?given demo_id
      (''propose person '' @ repr_str ''Ann'' @ '' on '' @ ''slack'') (''split:'' @ demo_id) demo_id ''person proposed via dashboard API'' s0
      = (Inr (Written res), s1)" and s1: "mem_invar uuid_env s1"
    by (rule ml.act_written [OF s0 uuid_admin_sel(1,3) classes_member(1) kind(1) json valid])
  have proposed: "propose_person uuid_admin demo_id (Some demo_id) (Some demo_id) ''Ann'' None ''slack'' ''U1'' None (''split:'' @ demo_id) s0
      = (Inr (demo_id, Written res), s1)"
    unfolding propose_person_def or_uuid4_def or_else_def Let_def option.case by (subst sbind_simps(2), rule a, simp)
  let ?un = "[(''person_id'', PStr demo_id), (''platform'', PStr ''slack''), (''platform_user_id'', PStr ''U1''), (''unlinked_by'', PStr demo_id)]"
  have valid: "validates (ad_lib uuid_admin) IdentityUnlinkedPayload ?un"
    by (simp add: validates_def IdentityUnlinkedPayload_def class_simps needs_takes_names demo_id_uuid)
  have json: "jsonable_dict ?un" by simp
  obtain res' s2 where un: "unlink_identity uuid_admin demo_id demo_id ''slack'' ''U1'' demo_id s1 = (Inr (Written res'), s2)"
    unfolding unlink_identity_def by (rule ml.act_written [OF s1 uuid_admin_sel(1,3) classes_member(9) kind(2) json valid])
  show thesis
    by (rule that) (simp add: split_person_def normalised_def with_uuid_def new entry_ids_def sbind_def un proposed [simplified])
qed

theorem split_person_loses_first_identity_witness:
  "\<exists>r s' st. split_person uuid_admin demo_id demo_id ''Ann'' None None (map (case_prod IdentityPair) [(''slack'', ''U1'')]) demo_id mem_empty = (Inr r, s') \<and>
     fold_entries demo_fold (mem_rows s' demo_id) initial_projection_state = Inr st \<and>
     PTuple [PStr demo_id, PStr ''slack'', PStr ''U1''] \<notin> fst ` set (pj_tables st ''person_identities'')"
proof (rule demo_split)
  fix r s' assume run: "split_person uuid_admin demo_id demo_id ''Ann'' None None (map (case_prod IdentityPair) [(''slack'', ''U1'')]) demo_id mem_empty = (Inr r, s')"
  have store: "ledger_store uuid_env (ad_store uuid_admin) (mem_invar uuid_env)" by (simp add: ml.ledger_store_axioms)
  then have "admin_ledger uuid_env (ad_store uuid_admin) (mem_invar uuid_env) uuid_admin"
    by (intro admin_ledger.intro admin_ledger_axioms.intro) simp_all
  from admin_ledger.safe_split_person [OF this] run
  have "ready_growth (ad_lib uuid_admin) (ad_store uuid_admin) demo_id mem_empty s'"
    by (auto simp: admin_safe_def mem_invar_empty)
  then have "list_all (row_ready demo_lib) (mem_rows s' demo_id)"
    by (auto simp: ready_growth_def mem_rows_def mem_empty_def)
  from ready_projects [OF this] obtain st where "fold_entries demo_fold (mem_rows s' demo_id) initial_projection_state = Inr st"
    by (auto simp: project_rows_def rbind_Inr_iff demo_lib_def)
  with split_person_loses_first_identity [OF store uuid_admin_sel(3) mem_invar_empty run, of demo_fold st] run show ?thesis by auto
qed

end
