(* ===== verification/Subscription_Eligibility.thy ===== *)
theory Subscription_Eligibility
  imports Event_Filter Payload_Classes Ledger_Properties
begin

section \<open>The catalog of kinds to subscribe to (\<open>wormbase_ledger/subscription_eligibility.py\<close>)\<close>

text \<open>
  The kinds a subscription form offers: those of the registry but the ones left out by name, each
  with a label, a description and the family of the first prefix that fits.
\<close>

definition META_KINDS :: "string list" where
  "META_KINDS =
     [''agent_subscription_created'', ''agent_subscription_revoked'', ''agent_event_delivered'']"

definition PEVR_KINDS :: "string list" where
  "PEVR_KINDS =
     [''propose'', ''execute'', ''verify'', ''resolve'']"

definition INFRA_KINDS :: "string list" where
  "INFRA_KINDS =
     [''clock_tick'', ''inference_cache_refreshed'', ''credential'']"

definition EXCLUDED_KINDS :: "string list" where
  "EXCLUDED_KINDS = META_KINDS @ PEVR_KINDS @ INFRA_KINDS"

definition FAMILY_PREFIXES :: "(string \<times> string) list" where
  "FAMILY_PREFIXES =
     [(''agent_'', ''agent_lifecycle''), (''source_'', ''data_sources''), (''ingest_'', ''data_sources''),
      (''lake_'', ''data_sources''), (''data_product_'', ''data_products''), (''notebook_'', ''data_products''),
      (''kpi_'', ''metrics_and_kpis''), (''metric_'', ''metrics_and_kpis''), (''metrics_'', ''metrics_and_kpis''),
      (''external_'', ''external_catalog''), (''catalog_drift_'', ''external_catalog''),
      (''experiment_'', ''research_loop''), (''heuristic_'', ''research_loop''),
      (''phenomenon_'', ''research_loop''), (''query_'', ''research_loop''), (''template_'', ''research_loop''),
      (''bad_pattern_'', ''research_loop''), (''semantic_gap_'', ''research_loop''),
      (''inference_'', ''research_loop''), (''chat_'', ''conversations''), (''conversation_'', ''conversations''),
      (''recurring_'', ''conversations''), (''topic_'', ''conversations''), (''install_'', ''platform_lifecycle''),
      (''tenant_signup_'', ''platform_lifecycle''), (''setup_'', ''platform_lifecycle''),
      (''mcp_'', ''platform_lifecycle''), (''person_'', ''identity_and_roles''),
      (''identity_'', ''identity_and_roles''), (''position_'', ''identity_and_roles''),
      (''role_'', ''identity_and_roles''), (''resource_role_'', ''identity_and_roles''),
      (''resource_conversation_'', ''identity_and_roles''), (''domain_role_'', ''identity_and_roles''),
      (''decision_'', ''decisions_and_processes''), (''process_map_'', ''decisions_and_processes''),
      (''policy_'', ''decisions_and_processes''), (''system_map_'', ''decisions_and_processes''),
      (''gate_'', ''governance''), (''memory_'', ''governance''), (''reactivity_'', ''governance''),
      (''concept_'', ''governance''), (''classification_'', ''governance'')]"

fun family_in :: "(string \<times> string) list \<Rightarrow> string \<Rightarrow> string" where
  "family_in [] kind = ''other''"
| "family_in ((prefix, family) # ps) kind = (if starts_with kind prefix then family else family_in ps kind)"

definition family_for :: "string \<Rightarrow> string" where
  "family_for kind = family_in FAMILY_PREFIXES kind"

definition label_for :: "string \<Rightarrow> string" where
  "label_for kind = map (\<lambda>c. if c = CHR ''_'' then CHR '' '' else c) kind"

definition KIND_DESCRIPTIONS :: "(string \<times> string) list" where
  "KIND_DESCRIPTIONS =
     [(''bad_pattern_proposed'',
       ''A pattern that consistently produces low-quality query outcomes '' @ [CHR 0xE2, CHR 0x80, CHR 0x94] @ '' proposed for admin review.''),
      (''semantic_gap_escalated'',
       ''A query intent the worm couldn'' @ [CHR 0x27] @ ''t satisfy '' @ [CHR 0xE2, CHR 0x80, CHR 0x94] @ '' escalated for admin attention.''),
      (''data_product_recommended'',
       ''The worm recommends a new data product based on observed query outcomes.''),
      (''data_product_consumed'',
       ''An agent or human read a data product '' @ [CHR 0xE2, CHR 0x80, CHR 0x94] @ '' useful for usage tracking.''),
      (''data_product_generated'',
       ''A data product was generated (notebook output, materialised view, etc.).''),
      (''data_product_proposed'',
       ''A new data product is proposed '' @ [CHR 0xE2, CHR 0x80, CHR 0x94] @ '' pending admin confirmation.''),
      (''source_connected'',
       ''A new data source finished connecting and is now part of the lake.''),
      (''source_disconnected'',
       ''A previously-connected source has been disconnected or revoked.''),
      (''source_proposed'',
       ''A candidate data source is proposed '' @ [CHR 0xE2, CHR 0x80, CHR 0x94] @ '' pending admin or owner confirmation.''),
      (''source_profiled'',
       ''A source has been profiled '' @ [CHR 0xE2, CHR 0x80, CHR 0x94] @ '' schema, distributions, and classification hints are now in the lake.''),
      (''query_outcome_recorded'',
       ''An agent recorded the outcome of a query (success / failure / partial).''),
      (''query_template_promoted'',
       ''A query pattern has been promoted to a durable template '' @ [CHR 0xE2, CHR 0x80, CHR 0x94] @ '' the worm has learned a new shortcut.''),
      (''kpi_proposed'',
       ''A new KPI is proposed for the tenant'' @ [CHR 0x27] @ ''s KPI tree.''),
      (''kpi_answered'',
       ''The worm answered a KPI question '' @ [CHR 0xE2, CHR 0x80, CHR 0x94] @ '' value, freshness, and provenance attached.''),
      (''decision_recorded'',
       ''A decision has been recorded against a domain or resource (immutable).''),
      (''process_map_proposed'',
       ''A process map (how decisions flow through the org) was proposed by the worm.''),
      (''chat_received'',
       ''A message arrived on a connected channel. High volume '' @ [CHR 0xE2, CHR 0x80, CHR 0x94] @ '' scope with domain or payload_path filters.''),
      (''external_catalog_imported'',
       ''An external catalog (dbt, Snowflake, '' @ [CHR 0xE2, CHR 0x80, CHR 0xA6] @ '') has been imported.''),
      (''external_metric_imported'',
       ''An external metric definition has been imported into the lake.'')]"

record eligible_kind =
  ek_kind :: string
  ek_label :: string
  ek_description :: string
  ek_family :: string

definition get_subscription_eligible_kinds :: "eligible_kind list" where
  "get_subscription_eligible_kinds =
     map (\<lambda>kind. \<lparr>ek_kind = kind, ek_label = label_for kind,
         ek_description = (case map_of KIND_DESCRIPTIONS kind of None \<Rightarrow> ''event of kind '' @ kind | Some d \<Rightarrow> d),
         ek_family = family_for kind\<rparr>)
       (filter (\<lambda>kind. kind \<notin> set EXCLUDED_KINDS) (sort (remdups (map fst KIND_REGISTRY))))"

subsection \<open>What it offers\<close>

lemma eligible_kinds: "map ek_kind get_subscription_eligible_kinds =
    filter (\<lambda>kind. kind \<notin> set EXCLUDED_KINDS) (sort (remdups (map fst KIND_REGISTRY)))"
  by (simp add: get_subscription_eligible_kinds_def comp_def)

lemma eligible_kind: "k \<in> ek_kind ` set get_subscription_eligible_kinds \<longleftrightarrow> k \<in> fst ` set KIND_REGISTRY \<and> k \<notin> set EXCLUDED_KINDS"
proof -
  have "k \<in> ek_kind ` set get_subscription_eligible_kinds \<longleftrightarrow> k \<in> set (map ek_kind get_subscription_eligible_kinds)" by simp
  then show ?thesis unfolding eligible_kinds by auto
qed

lemma eligible_ascending: "sorted_wrt (<) (map ek_kind get_subscription_eligible_kinds)"
  unfolding eligible_kinds by (simp add: strict_sorted_iff sorted_wrt_filter)

subsection \<open>The kinds of the rows\<close>

text \<open>Every row of the in-memory ledger is of an envelope kind, also after a write that failed.\<close>

definition enveloped :: "mem \<Rightarrow> bool" where
  "enveloped st = (\<forall>c. \<forall>e\<in>set (mem_rows st c). e_kind e \<in> set PEVR_KINDS)"

definition keeps_enveloped :: "(mem, 'a) act \<Rightarrow> bool" where
  "keeps_enveloped f = (\<forall>st. enveloped st \<longrightarrow> enveloped (snd (f st)))"

lemma keepsD: "keeps_enveloped f \<Longrightarrow> enveloped st \<Longrightarrow> enveloped (snd (f st))"
  by (simp add: keeps_enveloped_def)

lemma keeps_sbind:
  assumes f: "keeps_enveloped f" and g: "\<And>x. keeps_enveloped (g x)"
  shows "keeps_enveloped (sbind f g)"
  unfolding keeps_enveloped_def
proof (intro allI impI)
  fix st assume st: "enveloped st"
  from keepsD [OF f st] show "enveloped (snd (sbind f g st))"
    by (cases "f st"; cases "fst (f st)") (auto intro: keepsD [OF g])
qed

lemma keeps_value: "keeps_enveloped (\<lambda>s. (out, s))"
  by (simp add: keeps_enveloped_def)

lemma keeps_sret: "keeps_enveloped (sret x)"
  by (simp add: keeps_enveloped_def)

lemma keeps_if: "keeps_enveloped f \<Longrightarrow> keeps_enveloped g \<Longrightarrow> keeps_enveloped (if b then f else g)"
  by simp

lemma keeps_append: "kind \<in> set PEVR_KINDS \<Longrightarrow> keeps_enveloped (mem_append E req sq prev kind pl)"
  by (auto simp: keeps_enveloped_def enveloped_def mem_append_def build_entry_def rbind_Inr_iff Let_def split: sum.splits)

lemma keeps_drop: "keeps_enveloped (\<lambda>s. (Inl VerifyFailed, mem_drop_last3 c s))"
  by (auto simp: keeps_enveloped_def enveloped_def mem_drop_last3_def dest: in_set_takeD)

lemma mem_write_enveloped:
  assumes "enveloped st"
  shows "enveloped (snd (mem_write E req st))"
proof -
  have pevr: "''propose'' \<in> set PEVR_KINDS" "''execute'' \<in> set PEVR_KINDS" "''verify'' \<in> set PEVR_KINDS" "''resolve'' \<in> set PEVR_KINDS"
    by (simp_all add: PEVR_KINDS_def)
  have "enveloped (mem_set (wr_company req) (mem_rows st (wr_company req)) st)"
    using assms by (auto simp: enveloped_def)
  then show ?thesis
    unfolding mem_write_def Let_def
    by (rule keepsD [rotated])
       (intro keeps_sbind keeps_append pevr keeps_drop keeps_if keeps_value keeps_sret)
qed

lemma mem_run_enveloped: "enveloped (mem_run E reqs)"
proof -
  have "enveloped (fold (\<lambda>req st. snd (mem_write E req st)) reqs st)" if "enveloped st" for st
    using that by (induction reqs arbitrary: st) (simp_all add: mem_write_enveloped)
  moreover have "enveloped mem_empty" by (simp add: enveloped_def mem_empty_def mem_rows_def)
  ultimately show ?thesis by (simp add: mem_run_def)
qed

text \<open>C8: A subscription made from the catalog matches no row: whatever is written to a ledger, a
  filter that names kinds of the catalog, whatever else it asks, answers no on every row of every
  company. The kinds of the catalog are those of payloads, a filter compares those of envelopes.\<close>

theorem eligible_kinds_match_no_row:
  assumes "kinds \<noteq> []" and "set kinds \<subseteq> ek_kind ` set get_subscription_eligible_kinds"
    and "e \<in> set (mem_rows (mem_run E reqs) c)"
  shows "\<exists>m. compile_filter (typed_filter kinds domains agent paths) = Inr m \<and> m (entry_dict e) = Inr False"
proof -
  have "e_kind e \<in> set PEVR_KINDS" using mem_run_enveloped [of E reqs] assms(3) by (auto simp: enveloped_def)
  moreover have "k \<notin> set PEVR_KINDS" if "k \<in> set kinds" for k
  proof -
    from that assms(2) have "k \<in> ek_kind ` set get_subscription_eligible_kinds" by blast
    then show ?thesis by (simp add: eligible_kind EXCLUDED_KINDS_def)
  qed
  ultimately have "e_kind e \<notin> set kinds" by blast
  with assms(1) show ?thesis using filter_row [of kinds domains agent paths e] by auto
qed

theorem eligible_kinds_match_no_row_witness:
  "\<exists>e\<in>set (mem_rows (mem_run demo_env [demo_req ''c'' ''x'' True]) ''c''). \<exists>m.
     compile_filter (typed_filter [''person_confirmed''] [] None []) = Inr m \<and> m (entry_dict e) = Inr False"
proof -
  let ?run = "mem_run demo_env [demo_req ''c'' ''x'' True]"
  have "PersonConfirmedPayload \<in> set PAYLOAD_CLASSES"
    by (simp only: PAYLOAD_CLASSES_def list.set insert_iff simp_thms)
  then have "pc_kind PersonConfirmedPayload \<in> fst ` set KIND_REGISTRY" by (force simp: KIND_REGISTRY_def)
  then have kind: "set [''person_confirmed''] \<subseteq> ek_kind ` set get_subscription_eligible_kinds"
    by (simp add: eligible_kind EXCLUDED_KINDS_def META_KINDS_def PEVR_KINDS_def INFRA_KINDS_def PersonConfirmedPayload_def payload_def)
  have "clean_req (demo_req ''c'' ''x'' True)" by (simp add: demo_req_def clean_const_req)
  then obtain res s where "mem_write demo_env (demo_req ''c'' ''x'' True) mem_empty = (Inr res, s)"
    using mem_write_clean by blast
  with ml.const_write_rows [OF mem_invar_empty, of demo_env] obtain e where "e \<in> set (mem_rows ?run ''c'')"
    by (fastforce simp: demo_req_def mem_run_def)
  with eligible_kinds_match_no_row [OF _ kind this] show ?thesis by blast
qed

end
