(* ===== verification/Spec2Isabelle.thy ===== *)
theory Spec2Isabelle
  imports Ledger_Properties Mcp_Gates Relevance_Gate Governance_Policies Rate_Limit Reactivity_Runner
    Dispatcher Projection_Properties Projection_Runner Payload_Fold Payload_Dump Admin_Outcomes
    Subscription_Eligibility
begin

text \<open>
  Wormbase keeps every fact about a company in an append-only, hash-chained ledger. Everything else
  writes cycles of four rows to it (propose, execute, verify, resolve) or folds it: the governance
  gates, the projections of the dashboard, the reactivities, the subscriptions of external agents
  and the actions of an administrator. The development follows that order.

  Prelude: Python values, dictionaries in insertion order, truthiness, printing, exceptions as
  the left side of a sum, and actions (functions from a state to an outcome and a state). What
  the standard library computes and no proof opens (SHA-256, the text of a float, lower-casing,
  the sequence of fresh identifiers) is the record of functions \<open>env\<close>, an argument.
  Demo_Environment and Projection_Demo hold the concrete environments of the witnesses.

  Ledger (\<open>packages/ledger\<close>). Canonical_Json: \<open>canonical_json\<close> down to the printed
  characters, and that it separates values. Hash_Chain: \<open>compute_entry_hash\<close>, \<open>verify_chain\<close>,
  and the linked chains it accepts. Ledger_Store: the write primitive over the in-memory list
  and over the database table, with the transaction scope; the database is the interface
  \<open>sql_backend\<close>, interpreted on a table with the unique constraints of the schema, and the
  two ledgers are interpretations of \<open>ledger_store\<close> and \<open>reliable_store\<close>. Gate_Writes: what a
  write with constant callbacks leaves in the log. Ledger_Properties: the claims about both.

  Projections (\<open>wormbase_ledger/projections/builder.py\<close>, \<open>replay.py\<close>, \<open>schema.py\<close> and the projection
  runner of \<open>worm_core\<close>). Projection_State: the dictionaries of rows and the derived identifiers.
  Projection_Handlers, Projection_Assets and Projection_Axes: one definition per branch of
  \<open>_apply_execute\<close>; the eight discovery axes are one definition over the description of an axis.
  Projection_Build: the dispatch, the envelope, the fold and the sorted result. Projection_Frames:
  which tables an entry can change. Projection_Lifecycle: the contract of an axis as the locale
  \<open>discovery_axis\<close>, with its eight interpretations. Schema_Tables and Projection_Fit: the SQL tables
  and that every row the fold files fits its table. Projection_Persist and Projection_Runner: the
  delete-and-insert of a company's rows, and the polling loop. Projection_Properties: the claims.

  Payload classes (\<open>wormbase_ledger/entries.py\<close>). Payload_Types: fields, types, defaults and
  validators of a pydantic class. Payload_Classes: all 133 classes and the registry. Payload_Fold:
  arguments that validate never make a handler of the fold raise. Payload_Dump: dumping and
  validating again. Subscription_Eligibility: the catalog of kinds one may subscribe to.

  Governance (\<open>packages/governance\<close>). Pii_Gate: Luhn check and \<open>PIIGate.check\<close>.
  Governance_Gates: warmup, interjection and knowledge gates. Relevance_Gate:
  \<open>RulesBasedRelevanceGate\<close>. Governance_Policies: masked column refusal, policy loading and
  company warmup. Each gate is an action over an abstract store; the claims hold for every store
  with the laws of \<open>ledger_store\<close>, hence for both ledgers.

  Agent gateway (\<open>packages/wormbase-agent-gateway\<close>). Mcp_Gates: the inline gates, the adapters of
  the governance gates and \<open>apply_gates\<close>. Event_Filter, Stream_Registry, Webhook_Transport: filters
  on entries, the bounded queue of a subscription, and the attempts of a webhook. Subscriptions: the
  reader of active subscriptions and the tools of an agent. Dispatcher: a ledger row is handed to the
  subscriptions it matches, over the ledger, the queues and the network.

  Channel adapters (\<open>packages/channel-adapters\<close>). Rate_Limit: the token bucket, its registry, the
  retries and the decorator around a send.

  Reactivities (\<open>packages/reactivities\<close>). Reactivity_Rules: predicates and conditions.
  Reactivity_Registry: registration, dispatch, budgets, cooldown and the audit of fires.
  Reactivity_Runner: one cycle over the new rows, the reset of a tenant and the clock ticks.

  Administration (\<open>worm_core/write_actions.py\<close>, \<open>silent_mode.py\<close>). Admin_Writes: the cycle \<open>_pevr\<close>
  and the silent mode. Write_Actions: the actions of one cycle. Admin_Flows: batches, merging and
  splitting of persons. Admin_Agents: registration, revocation and metadata of agents.
  Admin_Catalog: catalogs, promoted gaps, concepts and invitations. Admin_Safety: the locale
  \<open>admin_ledger\<close> and the step relation \<open>admin_step\<close> over all of them, each of which leaves only rows
  the fold is ready for. Admin_Properties: the claims, with the three ways out of that guarantee.
  Admin_Outcomes: what revoking an agent and splitting a person come to.

  Bounds and termination. Retry loops and replays recurse on the number of attempts or the list at
  hand; \<open>py_replace\<close>, \<open>deliver_from\<close> and \<open>live_deliver\<close> terminate by a measure; the wait for a token
  is \<open>partial_function (option)\<close>, and \<open>acquire_returns_in_time\<close> proves that it returns.

  Simplifications. Floats are exact rationals. Texts are ASCII, or bytes where a literal is not. The
  types of SQL columns are not enforced, only names, nullability, keys and CHECK constraints. The
  arguments of payload classes are in the form JSON gives them. Parameters are SHA-256, \<open>uuid5\<close>,
  case folding, the text of a float, the parsers of floats and ISO times, the messages of pydantic,
  the clock, the network and the registry of connectors; a callback of a write, the action of a
  reactivity and the effect of a connector are arguments.

  Not modelled: the HTTP and MCP servers, which parse requests and call what is modelled; the
  strategies of the discovery axes, whose scores come from samples, names and embeddings; the
  clients of chat platforms, warehouses, catalogs, vaults and language models; the sessions of one
  database engine per tenant; the migrations; the flows that build sources (\<open>complete_install\<close>,
  \<open>provision_local_lake\<close>, \<open>select_domain_pack\<close> and the imports that fetch a catalog); the dashboard,
  the voice agent and the simulations. They are input and output around vendor libraries, or wiring.
\<close>

end
